(* ===== verification/Prelude.thy ===== *)
theory Prelude
  imports Main "HOL-Library.List_Lexorder" "HOL-Library.Char_ord" "HOL-Library.AList" "HOL-Library.Code_Target_Nat"
begin

text \<open>
  The generic layer of the development: results that may carry a Python exception,
  the string operations of the Python standard library that the modelled sources call,
  and the transition-system interface (reachable states, invariants, ranked machines)
  that the store and permit theories instantiate.
\<close>

named_theorems py_simps \<open>evaluation rules of the Python value layer\<close>
named_theorems guard_simps \<open>unfolding rules of the guard functions (checks that raise)\<close>

section \<open>Results that may raise\<close>

text \<open>A Python call either raises (\<open>Inl\<close>, the exception) or returns (\<open>Inr\<close>).\<close>

definition ebind :: "'e + 'a \<Rightarrow> ('a \<Rightarrow> 'e + 'b) \<Rightarrow> 'e + 'b" where
  "ebind r f = (case r of Inl e \<Rightarrow> Inl e | Inr x \<Rightarrow> f x)"

definition require :: "bool \<Rightarrow> 'e \<Rightarrow> 'e + unit" where
  "require b e = (if b then Inr () else Inl e)"

fun is_ok :: "'e + 'a \<Rightarrow> bool" where
  "is_ok (Inl _) = False"
| "is_ok (Inr _) = True"

lemma ebind_Inl [simp]: "ebind (Inl e) f = Inl e"
  by (simp add: ebind_def)

lemma ebind_Inr [simp]: "ebind (Inr x) f = f x"
  by (simp add: ebind_def)

lemma ebind_eq_Inr [simp]: "ebind r f = Inr y \<longleftrightarrow> (\<exists>x. r = Inr x \<and> f x = Inr y)"
  by (cases r) auto

lemma ebind_eq_Inl: "ebind r f = Inl e \<longleftrightarrow> r = Inl e \<or> (\<exists>x. r = Inr x \<and> f x = Inl e)"
  by (cases r) auto

lemma require_eq_Inr [simp]: "require b e = Inr u \<longleftrightarrow> b"
  by (simp add: require_def)

lemma require_eq_Inl [simp]: "require b e = Inl e' \<longleftrightarrow> \<not> b \<and> e' = e"
  by (auto simp: require_def)

lemma require_True [simp]: "require True e = Inr ()"
  by (simp add: require_def)

lemma require_False [simp]: "require False e = Inl e"
  by (simp add: require_def)

lemma is_ok_iff: "is_ok r \<longleftrightarrow> (\<exists>x. r = Inr x)"
  by (cases r) auto

text \<open>Congruence for the evaluation order: the continuation only matters on a result.\<close>

lemma ebind_cong [fundef_cong]:
  "r = r' \<Longrightarrow> (\<And>x. r' = Inr x \<Longrightarrow> f x = g x) \<Longrightarrow> ebind r f = ebind r' g"
  by (cases r') auto

section \<open>Python strings\<close>

text \<open>
  A Python string is modelled as a \<^typ>\<open>string\<close>, its characters being the code points
  below 256. \<open>str.strip\<close>, \<open>str.lower\<close>, \<open>str.startswith\<close>, \<open>str.endswith\<close>,
  \<open>in\<close> and \<open>removeprefix\<close> follow CPython on that range.
\<close>

definition py_isspace :: "char \<Rightarrow> bool" where
  "py_isspace c \<longleftrightarrow> of_char c \<in> {9, 10, 11, 12, 13, 28, 29, 30, 31, 32, 133, 160 :: nat}"

definition py_lstrip :: "string \<Rightarrow> string" where
  "py_lstrip s = dropWhile py_isspace s"

definition py_strip :: "string \<Rightarrow> string" where
  "py_strip s = rev (py_lstrip (rev (py_lstrip s)))"

definition py_lower_char :: "char \<Rightarrow> char" where
  "py_lower_char c = (let n = (of_char c :: nat) in
     if (65 \<le> n \<and> n \<le> 90) \<or> (192 \<le> n \<and> n \<le> 222 \<and> n \<noteq> 215) then char_of (n + 32) else c)"

definition py_lower :: "string \<Rightarrow> string" where
  "py_lower s = map py_lower_char s"

fun starts_with :: "string \<Rightarrow> string \<Rightarrow> bool" where
  "starts_with s [] = True"
| "starts_with [] (p # ps) = False"
| "starts_with (c # s) (p # ps) = (c = p \<and> starts_with s ps)"

definition ends_with :: "string \<Rightarrow> string \<Rightarrow> bool" where
  "ends_with s p = starts_with (rev s) (rev p)"

fun contains_str :: "string \<Rightarrow> string \<Rightarrow> bool" where
  "contains_str [] p = (p = [])"
| "contains_str (c # s) p = (starts_with (c # s) p \<or> contains_str s p)"

definition removeprefix :: "string \<Rightarrow> string \<Rightarrow> string" where
  "removeprefix s p = (if starts_with s p then drop (length p) s else s)"

text \<open>\<open>s.replace(old, new)\<close>: non-overlapping, from the left.\<close>

function replace_all :: "string \<Rightarrow> string \<Rightarrow> string \<Rightarrow> string" where
  "replace_all old new [] = []"
| "replace_all old new (c # s) =
     (if old \<noteq> [] \<and> starts_with (c # s) old
      then new @ replace_all old new (drop (length old) (c # s))
      else c # replace_all old new s)"
  by pat_completeness auto
termination
  by (relation "measure (\<lambda>(p, n, s). length s)") (auto simp: neq_Nil_conv)

declare replace_all.simps [simp del]

fun join_str :: "string \<Rightarrow> string list \<Rightarrow> string" where
  "join_str sep [] = []"
| "join_str sep [x] = x"
| "join_str sep (x # y # ys) = x @ sep @ join_str sep (y # ys)"

text \<open>
  Decimal rendering (\<open>str\<close> of an \<open>int\<close>). The recursion runs over \<^typ>\<open>int\<close>, whose
  numerals the kernel evaluates in binary.
\<close>

definition digit_char :: "int \<Rightarrow> char" where
  "digit_char d = char_of (48 + nat d)"

function pos_str :: "int \<Rightarrow> string" where
  "pos_str i = (if i < 10 then [digit_char i] else pos_str (i div 10) @ [digit_char (i mod 10)])"
  by pat_completeness auto
termination
  by (relation "measure nat") auto

declare pos_str.simps [simp del]

definition int_str :: "int \<Rightarrow> string" where
  "int_str i = (if i < 0 then ''-'' @ pos_str (- i) else pos_str i)"

text \<open>\<open>sorted(set(xs))\<close> on a list of strings, and \<open>list(dict.fromkeys(xs))\<close>.\<close>

definition sorted_set :: "string list \<Rightarrow> string list" where
  "sorted_set xs = sort (remdups xs)"

fun dedupe_keys :: "'a list \<Rightarrow> 'a list" where
  "dedupe_keys [] = []"
| "dedupe_keys (x # xs) = x # dedupe_keys (filter (\<lambda>y. y \<noteq> x) xs)"

lemma starts_with_append [simp]: "starts_with (p @ s) p"
  by (induction p) auto

lemma starts_with_iff: "starts_with s p \<longleftrightarrow> (\<exists>t. s = p @ t)"
  by (induction s p rule: starts_with.induct) auto

lemma removeprefix_append [simp]: "removeprefix (p @ s) p = s"
  by (simp add: removeprefix_def)

lemma set_sorted_set [simp]: "set (sorted_set xs) = set xs"
  by (simp add: sorted_set_def)

lemma sorted_sorted_set [simp]: "sorted (sorted_set xs)"
  by (simp add: sorted_set_def)

lemma distinct_sorted_set [simp]: "distinct (sorted_set xs)"
  by (simp add: sorted_set_def)

lemma sorted_set_Nil_iff [simp]: "sorted_set xs = [] \<longleftrightarrow> xs = []"
  by (metis set_empty set_sorted_set)

lemma set_dedupe_keys [simp]: "set (dedupe_keys xs) = set xs"
  by (induction xs rule: dedupe_keys.induct) auto

lemma distinct_dedupe_keys [simp]: "distinct (dedupe_keys xs)"
  by (induction xs rule: dedupe_keys.induct) auto

lemma pos_str_nonempty [simp]: "pos_str n \<noteq> []"
  by (subst pos_str.simps) simp

text \<open>Concatenations that a separator splits unambiguously.\<close>

lemma append_sep_eq:
  assumes "a @ c # b = a' @ c # b'" and "c \<notin> set a" and "c \<notin> set a'"
  shows "a = a' \<and> b = b'"
  using assms
proof (induction a arbitrary: a')
  case Nil
  then show ?case by (cases a') auto
next
  case (Cons x a)
  then show ?case by (cases a') auto
qed

section \<open>Transition systems\<close>

text \<open>The states reachable from the initial ones by steps.\<close>

inductive reach :: "('s \<Rightarrow> bool) \<Rightarrow> ('s \<Rightarrow> 's \<Rightarrow> bool) \<Rightarrow> 's \<Rightarrow> bool"
  for init :: "'s \<Rightarrow> bool" and step :: "'s \<Rightarrow> 's \<Rightarrow> bool" where
  reach_init: "init s \<Longrightarrow> reach init step s"
| reach_step: "reach init step s \<Longrightarrow> step s t \<Longrightarrow> reach init step t"

text \<open>
  The interface of an invariant proof: what a component provides is that its initial
  states satisfy the invariant and every operation keeps it; what a client gets is that
  every reachable state, and every state after a run from a good one, satisfies it.
\<close>

locale invariant_system =
  fixes init :: "'s \<Rightarrow> bool"
    and step :: "'s \<Rightarrow> 's \<Rightarrow> bool"
    and inv :: "'s \<Rightarrow> bool"
  assumes init_inv: "init s \<Longrightarrow> inv s"
    and step_inv: "step s t \<Longrightarrow> inv s \<Longrightarrow> inv t"
begin

lemma reach_inv: "reach init step s \<Longrightarrow> inv s"
  by (induction rule: reach.induct) (auto intro: init_inv step_inv)

lemma rtranclp_inv: "step\<^sup>*\<^sup>* s t \<Longrightarrow> inv s \<Longrightarrow> inv t"
  by (induction rule: rtranclp_induct) (auto intro: step_inv)

end

text \<open>
  A machine whose every transition raises a rank: it never revisits a state, and no
  state of maximal rank has a successor.
\<close>

locale ranked_machine =
  fixes allowed :: "'q \<Rightarrow> 'q \<Rightarrow> bool"
    and rank :: "'q \<Rightarrow> nat"
  assumes rank_mono: "allowed p q \<Longrightarrow> rank p < rank q"
begin

lemma rank_chain: "successively allowed (p # qs) \<Longrightarrow> q \<in> set qs \<Longrightarrow> rank p < rank q"
proof (induction qs arbitrary: p)
  case (Cons r qs)
  then have pr: "rank p < rank r" by (auto dest: rank_mono)
  show ?case
  proof (cases "q = r")
    case False
    with Cons have "rank r < rank q" by auto
    with pr show ?thesis by simp
  qed (use pr in simp)
qed simp

lemma chain_distinct: "successively allowed qs \<Longrightarrow> distinct qs"
proof (induction qs)
  case (Cons p qs)
  then have "successively allowed qs" by (cases qs) auto
  moreover have "p \<notin> set qs" using rank_chain [OF Cons.prems, of p] by auto
  ultimately show ?case using Cons.IH by simp
qed simp

end

end
