(* ===== verification/Py_Float.thy ===== *)
theory Py_Float
  imports Complex_Main Prelude
begin

text \<open>
  Python floats as the rational numbers they denote (IEEE 754 doubles, infinities and
  NaN left out): \<open>fl\<close> rounds a rational to the nearest double, ties to even, and every
  float operation of a modelled source is the exact operation followed by \<open>fl\<close>.
  \<open>py_round n\<close> is \<open>round(x, n)\<close> and \<open>float_repr\<close> is \<open>repr\<close>, the shortest decimal
  that reads back as the same double.
\<close>

section \<open>Rounding\<close>

text \<open>Round half to even to an integer.\<close>

definition round_he :: "rat \<Rightarrow> int" where
  "round_he x = (let f = \<lfloor>x\<rfloor>; d = x - of_int f in
     if d < 1 / 2 then f else if 1 / 2 < d then f + 1 else if even f then f else f + 1)"

text \<open>The exponent of the binade of a positive rational: \<open>\<lfloor>log 2 x\<rfloor>\<close>.\<close>

function bit_len :: "int \<Rightarrow> int" where
  "bit_len i = (if i \<le> 0 then 0 else 1 + bit_len (i div 2))"
  by pat_completeness auto
termination
  by (relation "measure nat") auto

declare bit_len.simps [simp del]

definition ilog2 :: "rat \<Rightarrow> int" where
  "ilog2 x = (let (p, q) = quotient_of x;
                  k = bit_len p - bit_len q
              in if 2 powi k \<le> x then k else k - 1)"

definition ulp :: "rat \<Rightarrow> rat" where
  "ulp x = 2 powi (max (ilog2 \<bar>x\<bar> - 52) (- 1074))"

definition fl :: "rat \<Rightarrow> rat" where
  "fl x = (if x = 0 then 0 else of_int (round_he (x / ulp x)) * ulp x)"

definition py_round :: "nat \<Rightarrow> rat \<Rightarrow> rat" where
  "py_round n x = fl (of_int (round_he (x * 10 ^ n)) / 10 ^ n)"

section \<open>The decimal representation\<close>

text \<open>\<open>\<lfloor>log 10 x\<rfloor>\<close> of a positive rational, by scaling; 400 steps cover every double.\<close>

fun ilog10_up :: "nat \<Rightarrow> rat \<Rightarrow> int" where
  "ilog10_up 0 x = 0"
| "ilog10_up (Suc f) x = (if x < 1 then ilog10_up f (x * 10) - 1 else 0)"

definition ilog10 :: "rat \<Rightarrow> int" where
  "ilog10 x = (if 1 \<le> x then int (length (pos_str \<lfloor>x\<rfloor>)) - 1 else ilog10_up 400 x)"

text \<open>The \<open>n\<close>-digit decimals next to \<open>x\<close>, nearest first, as (digits, power of ten).\<close>

definition repr_candidates :: "rat \<Rightarrow> nat \<Rightarrow> (int \<times> int) list" where
  "repr_candidates x n = (let e = ilog10 x - int n + 1; y = x / 10 powi e; f = \<lfloor>y\<rfloor>
     in if y - of_int f \<le> 1 / 2 then [(f, e), (f + 1, e)] else [(f + 1, e), (f, e)])"

fun repr_search :: "rat \<Rightarrow> nat list \<Rightarrow> int \<times> int" where
  "repr_search x [] = (0, 0)"
| "repr_search x (n # ns) =
     (case filter (\<lambda>(m, e). fl (of_int m * 10 powi e) = x) (repr_candidates x n) of
        c # _ \<Rightarrow> c
      | [] \<Rightarrow> repr_search x ns)"

definition rstrip_zeros :: "string \<Rightarrow> string" where
  "rstrip_zeros s = rev (dropWhile (\<lambda>c. c = CHR ''0'') (rev s))"

definition float_repr_pos :: "rat \<Rightarrow> string" where
  "float_repr_pos x =
     (let (m, e) = repr_search x [1..<18];
          raw = pos_str m;
          decpt = int (length raw) + e;
          ds = rstrip_zeros raw;
          n = int (length ds)
      in if - 4 < decpt \<and> decpt \<le> 16
         then if decpt \<le> 0 then ''0.'' @ replicate (nat (- decpt)) (CHR ''0'') @ ds
              else if n \<le> decpt then ds @ replicate (nat (decpt - n)) (CHR ''0'') @ ''.0''
              else take (nat decpt) ds @ ''.'' @ drop (nat decpt) ds
         else (let x10 = decpt - 1; mag = pos_str \<bar>x10\<bar>;
                   ex = (if length mag < 2 then CHR ''0'' # mag else mag)
               in take 1 ds @ (if n \<le> 1 then [] else ''.'' @ drop 1 ds) @ ''e''
                  @ (if x10 < 0 then ''-'' else ''+'') @ ex))"

definition float_repr :: "rat \<Rightarrow> string" where
  "float_repr x = (if x = 0 then ''0.0'' else if x < 0 then ''-'' @ float_repr_pos (- x)
                   else float_repr_pos x)"

section \<open>Facts about rounding\<close>

lemma fl_zero [simp]: "fl 0 = 0"
  by (simp add: fl_def)

lemma ulp_pos: "0 < ulp x"
  by (simp add: ulp_def)

lemma round_he_of_int [simp]: "round_he (of_int i) = i"
  by (simp add: round_he_def)

lemma round_he_error: "\<bar>x - of_int (round_he x)\<bar> \<le> 1 / 2"
proof -
  have "of_int \<lfloor>x\<rfloor> \<le> x" "x < of_int \<lfloor>x\<rfloor> + 1" by linarith+
  then show ?thesis unfolding round_he_def Let_def by (auto split: if_splits)
qed

lemma round_he_mono: "x \<le> y \<Longrightarrow> round_he x \<le> round_he y"
proof -
  assume le: "x \<le> y"
  then have fle: "\<lfloor>x\<rfloor> \<le> \<lfloor>y\<rfloor>" by (rule floor_mono)
  show ?thesis
  proof (cases "\<lfloor>x\<rfloor> = \<lfloor>y\<rfloor>")
    case True
    with le show ?thesis unfolding round_he_def Let_def by auto
  next
    case False
    with fle have "\<lfloor>x\<rfloor> + 1 \<le> \<lfloor>y\<rfloor>" by linarith
    then show ?thesis unfolding round_he_def Let_def by (auto split: if_splits)
  qed
qed

lemma fl_error: "\<bar>fl x - x\<bar> \<le> ulp x / 2"
proof (cases "x = 0")
  case False
  have "\<bar>x / ulp x - of_int (round_he (x / ulp x))\<bar> * ulp x \<le> 1 / 2 * ulp x"
    using round_he_error ulp_pos by (intro mult_right_mono) (auto simp: less_imp_le)
  moreover have "\<bar>x / ulp x - of_int (round_he (x / ulp x))\<bar> * ulp x = \<bar>x - fl x\<bar>"
    using False ulp_pos [of x] by (simp add: fl_def abs_mult_pos left_diff_distrib less_imp_le)
  ultimately show ?thesis by (simp add: abs_minus_commute)
qed (simp add: ulp_pos less_imp_le)

end
