(* ===== verification/Py_Value.thy ===== *)
theory Py_Value
  imports Py_Float
begin

text \<open>
  The dynamic values of the modelled sources. A \<open>dict[str, Any]\<close>, a list, a string, a
  number, a boolean or \<open>None\<close> is a \<open>jval\<close>; a dictionary keeps its entries in insertion
  order, as Python does. The operations are the ones the sources call: \<open>d.get(k)\<close>,
  \<open>d[k]\<close>, \<open>d[k] = v\<close>, \<open>d.pop\<close>, \<open>d.update\<close>, \<open>{**a, **b}\<close>, truth testing, \<open>or\<close>,
  \<open>==\<close>, \<open>str\<close>, \<open>isinstance\<close>.
\<close>

section \<open>Values\<close>

datatype jval =
    JNull
  | JBool bool
  | JInt int
  | JFloat rat
  | JStr string
  | JList "jval list"
  | JObj "(string \<times> jval) list"

type_synonym jobj = "(string \<times> jval) list"

text \<open>The exceptions the sources raise through the language itself.\<close>

datatype py_exn =
    ValueError string
  | KeyError string
  | TypeError string
  | AttributeError string
  | IndexError string
  | OSError string
  | RuntimeError string

section \<open>Dictionaries\<close>

definition pget :: "jobj \<Rightarrow> string \<Rightarrow> jval" where
  "pget d k = (case map_of d k of None \<Rightarrow> JNull | Some v \<Rightarrow> v)"

definition pget_or :: "jobj \<Rightarrow> string \<Rightarrow> jval \<Rightarrow> jval" where
  "pget_or d k v0 = (case map_of d k of None \<Rightarrow> v0 | Some v \<Rightarrow> v)"

definition pidx :: "jobj \<Rightarrow> string \<Rightarrow> py_exn + jval" where
  "pidx d k = (case map_of d k of None \<Rightarrow> Inl (KeyError k) | Some v \<Rightarrow> Inr v)"

definition phas :: "jobj \<Rightarrow> string \<Rightarrow> bool" where
  "phas d k = (map_of d k \<noteq> None)"

definition pset :: "jobj \<Rightarrow> string \<Rightarrow> jval \<Rightarrow> jobj" where
  "pset d k v = AList.update k v d"

definition ppop :: "jobj \<Rightarrow> string \<Rightarrow> jobj" where
  "ppop d k = AList.delete k d"

fun pupdate :: "jobj \<Rightarrow> jobj \<Rightarrow> jobj" where
  "pupdate d [] = d"
| "pupdate d ((k, v) # u) = pupdate (pset d k v) u"

text \<open>The dictionary after \<open>d.setdefault(k, v)\<close>.\<close>

definition setdefault :: "jobj \<Rightarrow> string \<Rightarrow> jval \<Rightarrow> jobj" where
  "setdefault d k v = (if phas d k then d else pset d k v)"

text \<open>\<open>{key: item for key, item in d.items() if key not in ks}\<close>\<close>

definition pwithout :: "jobj \<Rightarrow> string list \<Rightarrow> jobj" where
  "pwithout d ks = filter (\<lambda>(k, v). k \<notin> set ks) d"

section \<open>Tests\<close>

fun is_obj :: "jval \<Rightarrow> bool" where "is_obj (JObj _) = True" | "is_obj _ = False"
fun is_list :: "jval \<Rightarrow> bool" where "is_list (JList _) = True" | "is_list _ = False"
fun is_str :: "jval \<Rightarrow> bool" where "is_str (JStr _) = True" | "is_str _ = False"

text \<open>\<open>isinstance(v, int)\<close> also accepts booleans; \<open>is_bool\<close> is the extra test sources add.\<close>

fun is_bool :: "jval \<Rightarrow> bool" where "is_bool (JBool _) = True" | "is_bool _ = False"

fun is_int :: "jval \<Rightarrow> bool" where
  "is_int (JInt _) = True" | "is_int (JBool _) = True" | "is_int _ = False"

fun truthy :: "jval \<Rightarrow> bool" where
  "truthy JNull = False"
| "truthy (JBool b) = b"
| "truthy (JInt i) = (i \<noteq> 0)"
| "truthy (JFloat r) = (r \<noteq> 0)"
| "truthy (JStr s) = (s \<noteq> [])"
| "truthy (JList xs) = (xs \<noteq> [])"
| "truthy (JObj d) = (d \<noteq> [])"

definition por :: "jval \<Rightarrow> jval \<Rightarrow> jval" where
  "por a b = (if truthy a then a else b)"

text \<open>\<open>value if isinstance(value, dict) else {}\<close>, and the list counterpart.\<close>

fun obj_or_empty :: "jval \<Rightarrow> jobj" where
  "obj_or_empty (JObj d) = d" | "obj_or_empty _ = []"

fun list_or_empty :: "jval \<Rightarrow> jval list" where
  "list_or_empty (JList xs) = xs" | "list_or_empty _ = []"

text \<open>A numeric value, booleans included.\<close>

fun num_of :: "jval \<Rightarrow> rat option" where
  "num_of (JBool b) = Some (if b then 1 else 0)"
| "num_of (JInt i) = Some (of_int i)"
| "num_of (JFloat r) = Some r"
| "num_of _ = None"

text \<open>An attribute or method call on a value that is no dictionary raises.\<close>

fun as_obj :: "jval \<Rightarrow> py_exn + jobj" where
  "as_obj (JObj d) = Inr d"
| "as_obj _ = Inl (AttributeError ''get'')"

section \<open>Equality\<close>

text \<open>
  Python equality: dictionaries compare as mappings, whatever the order of their
  entries, and numbers by value across \<open>bool\<close>, \<open>int\<close> and \<open>float\<close>.
\<close>

fun py_eq :: "jval \<Rightarrow> jval \<Rightarrow> bool"
and py_eq_list :: "jval list \<Rightarrow> jval list \<Rightarrow> bool"
and py_sub :: "jobj \<Rightarrow> jobj \<Rightarrow> bool"
and py_lookup_eq :: "jval \<Rightarrow> string \<Rightarrow> jobj \<Rightarrow> bool" where
  "py_eq (JObj a) b = (case b of JObj b' \<Rightarrow> length a = length b' \<and> py_sub a b' | _ \<Rightarrow> False)"
| "py_eq (JList xs) b = (case b of JList ys \<Rightarrow> py_eq_list xs ys | _ \<Rightarrow> False)"
| "py_eq (JStr s) b = (b = JStr s)"
| "py_eq JNull b = (b = JNull)"
| "py_eq (JBool x) b = (num_of b = Some (if x then 1 else 0))"
| "py_eq (JInt i) b = (num_of b = Some (of_int i))"
| "py_eq (JFloat r) b = (num_of b = Some r)"
| "py_eq_list [] ys = (ys = [])"
| "py_eq_list (x # xs) ys = (case ys of [] \<Rightarrow> False | y # ys' \<Rightarrow> py_eq x y \<and> py_eq_list xs ys')"
| "py_sub [] b = True"
| "py_sub ((k, v) # a) b = (py_lookup_eq v k b \<and> py_sub a b)"
| "py_lookup_eq v k [] = False"
| "py_lookup_eq v k ((k', w) # b) = (if k = k' then py_eq v w else py_lookup_eq v k b)"

text \<open>\<open>v in [...]\<close> and \<open>v in {...}\<close> against string constants.\<close>

definition str_in :: "jval \<Rightarrow> string list \<Rightarrow> bool" where
  "str_in v ss = (case v of JStr s \<Rightarrow> s \<in> set ss | _ \<Rightarrow> False)"

text \<open>\<open>v in {...}\<close> where \<open>v\<close> may be a list or a dictionary, which have no hash.\<close>

definition in_set :: "jval \<Rightarrow> string list \<Rightarrow> py_exn + bool" where
  "in_set v ss = (case v of
      JList _ \<Rightarrow> Inl (TypeError ''unhashable type: list'')
    | JObj _ \<Rightarrow> Inl (TypeError ''unhashable type: dict'')
    | _ \<Rightarrow> Inr (str_in v ss))"

section \<open>Text\<close>

text \<open>\<open>repr\<close> of a string: single quotes unless the text has one and no double quote.\<close>

definition hex_digit :: "nat \<Rightarrow> char" where
  "hex_digit n = (if n < 10 then char_of (48 + n) else char_of (87 + n))"

definition repr_char :: "char \<Rightarrow> char \<Rightarrow> string" where
  "repr_char q c = (let n = (of_char c :: nat) in
     if c = q \<or> n = 92 then [char_of (92::nat), c]
     else if n = 10 then [char_of (92::nat), CHR ''n'']
     else if n = 13 then [char_of (92::nat), CHR ''r'']
     else if n = 9 then [char_of (92::nat), CHR ''t'']
     else if n < 32 \<or> (127 \<le> n \<and> n \<le> 160) \<or> n = 173
       then [char_of (92::nat), CHR ''x'', hex_digit (n div 16), hex_digit (n mod 16)]
     else [c])"

definition str_repr :: "string \<Rightarrow> string" where
  "str_repr s = (let sq = char_of (39::nat); dq = char_of (34::nat);
                     q = (if sq \<in> set s \<and> dq \<notin> set s then dq else sq)
                 in q # concat (map (repr_char q) s) @ [q])"

fun py_repr :: "jval \<Rightarrow> string" where
  "py_repr JNull = ''None''"
| "py_repr (JBool b) = (if b then ''True'' else ''False'')"
| "py_repr (JInt i) = int_str i"
| "py_repr (JFloat r) = float_repr r"
| "py_repr (JStr s) = str_repr s"
| "py_repr (JList xs) = ''['' @ join_str '', '' (map py_repr xs) @ '']''"
| "py_repr (JObj d) =
     ''{'' @ join_str '', '' (map (\<lambda>(k, v). str_repr k @ '': '' @ py_repr v) d) @ ''}''"

fun py_str :: "jval \<Rightarrow> string" where
  "py_str (JStr s) = s"
| "py_str v = py_repr v"

section \<open>Conversions\<close>

text \<open>\<open>int(v)\<close>: decimal text may have a sign, surrounding blanks and single underscores.\<close>

fun dec_digits :: "int \<Rightarrow> bool \<Rightarrow> string \<Rightarrow> int option" where
  "dec_digits acc after_digit [] = (if after_digit then Some acc else None)"
| "dec_digits acc after_digit (c # s) =
     (if CHR ''0'' \<le> c \<and> c \<le> CHR ''9'' then dec_digits (10 * acc + (of_char c - 48)) True s
      else if c = CHR ''_'' \<and> after_digit then dec_digits acc False s
      else None)"

definition parse_int :: "string \<Rightarrow> int option" where
  "parse_int s = (case py_strip s of
      [] \<Rightarrow> None
    | c # t \<Rightarrow> if c = CHR ''-'' then map_option uminus (dec_digits 0 False t)
               else if c = CHR ''+'' then dec_digits 0 False t
               else dec_digits 0 False (c # t))"

definition trunc_rat :: "rat \<Rightarrow> int" where
  "trunc_rat r = (if r < 0 then \<lceil>r\<rceil> else \<lfloor>r\<rfloor>)"

fun py_int :: "jval \<Rightarrow> py_exn + int" where
  "py_int (JInt i) = Inr i"
| "py_int (JBool b) = Inr (if b then 1 else 0)"
| "py_int (JFloat r) = Inr (trunc_rat r)"
| "py_int (JStr s) = (case parse_int s of
      None \<Rightarrow> Inl (ValueError (''invalid literal for int() with base 10: '' @ str_repr s))
    | Some i \<Rightarrow> Inr i)"
| "py_int _ = Inl (TypeError ''int() argument must be a string, a bytes-like object or a real number'')"

text \<open>\<open>float(v)\<close>; what it makes of a text is an argument.\<close>

fun py_float :: "(string \<Rightarrow> py_exn + rat) \<Rightarrow> jval \<Rightarrow> py_exn + rat" where
  "py_float parse (JInt i) = Inr (fl (of_int i))"
| "py_float parse (JBool b) = Inr (if b then 1 else 0)"
| "py_float parse (JFloat r) = Inr r"
| "py_float parse (JStr s) = parse s"
| "py_float parse _ = Inl (TypeError ''float() argument must be a string or a real number'')"

text \<open>Dictionaries hold each key once; \<open>wf_jval\<close> says so at every level.\<close>

fun wf_jval :: "jval \<Rightarrow> bool" where
  "wf_jval (JList xs) = list_all wf_jval xs"
| "wf_jval (JObj d) = (distinct (map fst d) \<and> list_all (\<lambda>(k, v). wf_jval v) d)"
| "wf_jval _ = True"

section \<open>Lemmas\<close>

lemma pget_pset_same [simp]: "pget (pset d k v) k = v"
  by (simp add: pget_def pset_def update_conv)

lemma pget_pset_other [simp]: "k' \<noteq> k \<Longrightarrow> pget (pset d k v) k' = pget d k'"
  by (simp add: pget_def pset_def update_conv)

lemma pget_pset: "pget (pset d k v) k' = (if k' = k then v else pget d k')"
  by simp

lemma map_of_pset [simp]: "map_of (pset d k v) = (map_of d)(k \<mapsto> v)"
  by (simp add: pset_def update_conv')

lemma phas_pset [simp]: "phas (pset d k v) k' \<longleftrightarrow> k' = k \<or> phas d k'"
  by (simp add: phas_def)

lemma pset_not_Nil [simp]: "pset d k v \<noteq> []"
  by (cases d) (auto simp: pset_def)

lemma fst_set_pset [simp]: "fst ` set (pset d k v) = insert k (fst ` set d)"
  by (simp add: pset_def dom_update)

lemma distinct_pset [simp]: "distinct (map fst d) \<Longrightarrow> distinct (map fst (pset d k v))"
  unfolding pset_def by (rule distinct_update)

lemma map_of_pupdate: "map_of (pupdate d u) k = (case map_of (rev u) k of None \<Rightarrow> map_of d k | Some v \<Rightarrow> Some v)"
  by (induction d u rule: pupdate.induct) (auto simp: map_add_def split: option.splits)

lemma map_of_ppop [simp]: "map_of (ppop d k) = (map_of d)(k := None)"
  by (simp add: ppop_def delete_conv')

lemma pget_code [simp]:
  "pget [] k = JNull"
  "pget ((k', v) # d) k = (if k' = k then v else pget d k)"
  by (simp_all add: pget_def)

lemma phas_code [simp]:
  "phas [] k = False"
  "phas ((k', v) # d) k = (k' = k \<or> phas d k)"
  by (simp_all add: phas_def)

lemma pset_code [simp]:
  "pset [] k v = [(k, v)]"
  "pset ((k', v') # d) k v = (if k = k' then (k, v) # d else (k', v') # pset d k v)"
  by (auto simp: pset_def)

lemma pidx_pget_eq: "pidx d k = Inr v \<Longrightarrow> pget d k = v"
  by (simp add: pget_def pidx_def split: option.splits)

lemma pget_not_phas: "\<not> phas d k \<Longrightarrow> pget d k = JNull"
  by (simp add: phas_def pget_def)

lemma is_obj_iff: "is_obj v \<longleftrightarrow> (\<exists>d. v = JObj d)"
  by (cases v) auto

lemma is_str_iff: "is_str v \<longleftrightarrow> (\<exists>s. v = JStr s)"
  by (cases v) auto

lemma is_list_iff: "is_list v \<longleftrightarrow> (\<exists>xs. v = JList xs)"
  by (cases v) auto

lemma as_obj_eq_Inr [simp]: "as_obj v = Inr d \<longleftrightarrow> v = JObj d"
  by (cases v) auto

lemma obj_or_empty_obj: "is_obj v \<Longrightarrow> JObj (obj_or_empty v) = v"
  by (cases v) auto

lemma str_in_iff: "str_in v ss \<longleftrightarrow> (\<exists>s \<in> set ss. v = JStr s)"
  by (cases v) (auto simp: str_in_def)

lemma py_eq_str_right [simp]: "py_eq v (JStr s) \<longleftrightarrow> v = JStr s"
  by (cases v) auto

lemma py_eq_null_right [simp]: "py_eq v JNull \<longleftrightarrow> v = JNull"
  by (cases v) auto

lemma py_eq_int [simp]: "py_eq (JInt i) (JInt j) \<longleftrightarrow> i = j"
  by auto

lemma py_lookup_eq_map_of:
  "py_lookup_eq v k b \<longleftrightarrow> (\<exists>w. map_of b k = Some w \<and> py_eq v w)"
  by (induction b) auto

lemma py_sub_iff: "py_sub a b \<longleftrightarrow> (\<forall>(k, v) \<in> set a. \<exists>w. map_of b k = Some w \<and> py_eq v w)"
  by (induction a) (auto simp: py_lookup_eq_map_of)

lemma py_eq_refl: "wf_jval v \<Longrightarrow> py_eq v v"
proof (induction v rule: wf_jval.induct)
  case (1 xs)
  then have "py_eq_list ys ys" if "set ys \<subseteq> set xs" for ys
    using that by (induction ys) (auto simp: list_all_iff)
  then show ?case by simp
next
  case (2 d)
  then have "\<exists>w. map_of d k = Some w \<and> py_eq v w" if "(k, v) \<in> set d" for k v
    using that by (auto simp: list_all_iff)
  then show ?case by (auto simp: py_sub_iff)
qed auto

lemma setdefault_pget: "pget (setdefault d k v) k' = (if k' = k \<and> \<not> phas d k then v else pget d k')"
  by (simp add: setdefault_def pget_pset)

lemma is_forms: "is_obj v \<longleftrightarrow> (\<exists>d. v = JObj d)" "is_list v \<longleftrightarrow> (\<exists>xs. v = JList xs)" "is_str v \<longleftrightarrow> (\<exists>s. v = JStr s)"
  by (cases v; simp)+

lemma phas_setdefault [simp]: "phas (setdefault d k v) k' \<longleftrightarrow> k' = k \<or> phas d k'"
  by (auto simp: setdefault_def)

lemma phas_if_pget: "pget d k \<noteq> JNull \<Longrightarrow> phas d k"
  using pget_not_phas by blast

lemma wf_jval_pset:
  assumes "wf_jval (JObj d)" and "wf_jval v"
  shows "wf_jval (JObj (pset d k v))"
proof -
  have "distinct (map fst (pset d k v))" using assms(1) by (simp add: distinct_pset)
  moreover have "set (pset d k v) \<subseteq> insert (k, v) (set d)"
    unfolding pset_def by (induction d) auto
  ultimately show ?thesis using assms by (auto simp: list_all_iff)
qed

lemma map_of_Some_pget: "pget d k = v \<Longrightarrow> v \<noteq> JNull \<Longrightarrow> map_of d k = Some v"
  by (auto simp: pget_def split: option.splits)

end
