(* ===== verification/Py_Json.thy ===== *)
theory Py_Json
  imports Py_Value
begin

text \<open>
  \<open>json.dumps\<close> with \<open>sort_keys=True\<close> and compact separators, the canonical text the
  sources hash, in its two string modes (\<open>ensure_ascii\<close> on and off), and the digests
  built on it. The hash itself, \<open>hashlib.sha256(...).hexdigest()\<close> of the UTF-8 text, is
  a parameter \<open>H\<close>: theorems hold for every function, hence for SHA-256, and state what
  they need of it.
\<close>

section \<open>JSON text\<close>

definition json_esc :: "nat \<Rightarrow> string" where
  "json_esc n = [char_of (92::nat), CHR ''u'', CHR ''0'', CHR ''0'',
                 hex_digit (n div 16), hex_digit (n mod 16)]"

text \<open>\<open>json_control\<close> is a code point below 32, \<open>json_high\<close> one from 128.\<close>

fun json_control :: "char \<Rightarrow> bool" where
  "json_control (Char b0 b1 b2 b3 b4 b5 b6 b7) = (\<not> b5 \<and> \<not> b6 \<and> \<not> b7)"

fun json_high :: "char \<Rightarrow> bool" where
  "json_high (Char b0 b1 b2 b3 b4 b5 b6 b7) = b7"

definition json_char :: "bool \<Rightarrow> char \<Rightarrow> string" where
  "json_char ensure_ascii c =
     (if c = CHR 0x22 \<or> c = CHR 0x5C then [CHR 0x5C, c]
      else if json_control c then
        (if c = CHR 0x0A then [CHR 0x5C, CHR ''n'']
         else if c = CHR 0x0D then [CHR 0x5C, CHR ''r'']
         else if c = CHR 0x09 then [CHR 0x5C, CHR ''t'']
         else if c = CHR 0x0C then [CHR 0x5C, CHR ''f'']
         else if c = CHR 0x08 then [CHR 0x5C, CHR ''b'']
         else json_esc (of_char c))
      else if ensure_ascii \<and> (json_high c \<or> c = CHR 0x7F) then json_esc (of_char c)
      else [c])"

definition json_str :: "bool \<Rightarrow> string \<Rightarrow> string" where
  "json_str ea s = [char_of (34::nat)] @ concat (map (json_char ea) s) @ [char_of (34::nat)]"

fun json_dumps :: "bool \<Rightarrow> jval \<Rightarrow> string" where
  "json_dumps ea JNull = ''null''"
| "json_dumps ea (JBool b) = (if b then ''true'' else ''false'')"
| "json_dumps ea (JInt i) = int_str i"
| "json_dumps ea (JFloat r) = float_repr r"
| "json_dumps ea (JStr s) = json_str ea s"
| "json_dumps ea (JList xs) = ''['' @ join_str '','' (map (json_dumps ea) xs) @ '']''"
| "json_dumps ea (JObj d) =
     ''{'' @ join_str '',''
       (map snd (sort_key fst (map (\<lambda>(k, v). (k, json_str ea k @ '':'' @ json_dumps ea v)) d)))
     @ ''}''"

section \<open>Digests\<close>

text \<open>
  \<open>canonical_digest\<close> of the permit store, \<open>_canonical_digest\<close> of its validator and
  \<open>canonical_authority_digest\<close> of the authority store are the same function:
  \<open>ensure_ascii=False\<close> JSON, hashed, with the \<open>sha256:\<close> prefix.
\<close>

definition canonical_digest :: "(string \<Rightarrow> string) \<Rightarrow> jval \<Rightarrow> string" where
  "canonical_digest H v = ''sha256:'' @ H (json_dumps False v)"

lemma canonical_digest_eq:
  "canonical_digest H v = canonical_digest H w \<longleftrightarrow> H (json_dumps False v) = H (json_dumps False w)"
  by (simp add: canonical_digest_def)

end
