(* ===== verification/Merkle.thy ===== *)
theory Merkle
  imports Py_Json
begin

text \<open>
  \<open>shared/mesh_runtime/merkle.py\<close> and the \<open>RunEvent\<close>, \<open>MerkleProofStep\<close>,
  \<open>MerkleSnapshot\<close> and \<open>MerkleProof\<close> dataclasses: the root over the events of a run,
  inclusion proofs and their verification. Proved: every proof the code builds verifies
  against the root of the snapshot; the root binds the list of leaves and a verified
  path binds its leaf, up to an explicit hash collision; and what padding by the last
  leaf does to the root.
\<close>

section \<open>Data\<close>

record RunEvent =
  ev_event_id :: string
  ev_run_id :: string
  ev_sequence :: int
  ev_stage :: string
  ev_event_type :: string
  ev_recorded_at :: string
  ev_payload :: jobj
  ev_summary :: "jobj option"
  ev_merkle_leaf_hash :: "string option"
  ev_artifact_key :: "string option"
  ev_integration_name :: "string option"
  ev_status :: "string option"

fun opt_str :: "string option \<Rightarrow> jval" where
  "opt_str None = JNull"
| "opt_str (Some s) = JStr s"

definition canonical_payload :: "RunEvent \<Rightarrow> jobj" where
  "canonical_payload e =
     [(''event_id'', JStr (ev_event_id e)),
      (''run_id'', JStr (ev_run_id e)),
      (''sequence'', JInt (ev_sequence e)),
      (''stage'', JStr (ev_stage e)),
      (''event_type'', JStr (ev_event_type e)),
      (''recorded_at'', JStr (ev_recorded_at e)),
      (''payload'', JObj (ev_payload e)),
      (''summary'', (case ev_summary e of None \<Rightarrow> JNull | Some d \<Rightarrow> JObj d)),
      (''artifact_key'', opt_str (ev_artifact_key e)),
      (''integration_name'', opt_str (ev_integration_name e)),
      (''status'', opt_str (ev_status e))]"

record MerkleProofStep =
  position :: string
  step_hash :: string

record MerkleSnapshot =
  snap_run_id :: string
  snap_root_hash :: string
  snap_leaf_count :: nat
  snap_event_ids :: "string list"

record MerkleProof =
  mp_run_id :: string
  mp_event_id :: string
  mp_leaf_hash :: string
  mp_root_hash :: string
  mp_proof :: "MerkleProofStep list"
  mp_valid :: bool

section \<open>Hashes\<close>

definition canonical_json :: "jobj \<Rightarrow> string" where
  "canonical_json payload = json_dumps True (JObj payload)"

definition leaf_hash_for_payload :: "(string \<Rightarrow> string) \<Rightarrow> jobj \<Rightarrow> string" where
  "leaf_hash_for_payload H payload = H (''leaf:'' @ canonical_json payload)"

definition node_text :: "string \<Rightarrow> string \<Rightarrow> string" where
  "node_text left_hash right_hash = ''node:'' @ left_hash @ '':'' @ right_hash"

definition branch_hash :: "(string \<Rightarrow> string) \<Rightarrow> string \<Rightarrow> string \<Rightarrow> string" where
  "branch_hash H left_hash right_hash = H (node_text left_hash right_hash)"

definition event_leaf :: "(string \<Rightarrow> string) \<Rightarrow> RunEvent \<Rightarrow> string" where
  "event_leaf H e =
     (case ev_merkle_leaf_hash e of
        Some h \<Rightarrow> if h \<noteq> [] then h else leaf_hash_for_payload H (canonical_payload e)
      | None \<Rightarrow> leaf_hash_for_payload H (canonical_payload e))"

section \<open>Roots\<close>

text \<open>One level of the tree: duplicate an odd last node, then hash neighbours.\<close>

definition pad_layer :: "string list \<Rightarrow> string list" where
  "pad_layer layer = (if length layer mod 2 = 1 then layer @ [last layer] else layer)"

definition next_layer :: "(string \<Rightarrow> string) \<Rightarrow> string list \<Rightarrow> string list" where
  "next_layer H layer =
     map (\<lambda>k. branch_hash H (layer ! (2 * k)) (layer ! (2 * k + 1))) [0..<(length layer + 1) div 2]"

lemma length_pad_layer: "length (pad_layer l) = 2 * ((length l + 1) div 2)"
  unfolding pad_layer_def by auto presburger+

lemma length_next_pad: "length (next_layer H (pad_layer l)) = (length l + 1) div 2"
  by (simp add: next_layer_def length_pad_layer)

function root_loop :: "(string \<Rightarrow> string) \<Rightarrow> string list \<Rightarrow> string list" where
  "root_loop H layer =
     (if 1 < length layer then root_loop H (next_layer H (pad_layer layer)) else layer)"
  by pat_completeness auto
termination
  by (relation "measure (\<lambda>(H, l). length l)") (auto simp: length_next_pad)

declare root_loop.simps [simp del]

definition compute_merkle_root :: "(string \<Rightarrow> string) \<Rightarrow> string list \<Rightarrow> string" where
  "compute_merkle_root H leaves =
     (if leaves = [] then H ''empty'' else root_loop H leaves ! 0)"

definition build_merkle_snapshot ::
  "(string \<Rightarrow> string) \<Rightarrow> string \<Rightarrow> RunEvent list \<Rightarrow> MerkleSnapshot" where
  "build_merkle_snapshot H run_id events =
     (let leaves = map (event_leaf H) events in
      \<lparr>snap_run_id = run_id,
       snap_root_hash = compute_merkle_root H leaves,
       snap_leaf_count = length leaves,
       snap_event_ids = map ev_event_id events\<rparr>)"

section \<open>Proofs\<close>

text \<open>The scan keeps the index of the last event with the identifier.\<close>

fun find_event :: "nat \<Rightarrow> RunEvent list \<Rightarrow> string \<Rightarrow> nat option \<Rightarrow> nat option" where
  "find_event i [] event_id acc = acc"
| "find_event i (e # es) event_id acc =
     find_event (Suc i) es event_id (if ev_event_id e = event_id then Some i else acc)"

function proof_loop ::
  "(string \<Rightarrow> string) \<Rightarrow> string list \<Rightarrow> nat \<Rightarrow> MerkleProofStep list \<Rightarrow> MerkleProofStep list \<times> string list" where
  "proof_loop H layer working_index acc =
     (if 1 < length layer then
        (let padded = pad_layer layer;
             sibling_index = (if working_index mod 2 \<noteq> 0 then working_index - 1 else working_index + 1);
             pos = (if sibling_index < working_index then ''left'' else ''right'')
         in proof_loop H (next_layer H padded) (working_index div 2)
              (acc @ [\<lparr>position = pos, step_hash = padded ! sibling_index\<rparr>]))
      else (acc, layer))"
  by pat_completeness auto
termination
  by (relation "measure (\<lambda>(H, l, i, a). length l)") (auto simp: length_next_pad)

declare proof_loop.simps [simp del]

fun verify_loop :: "(string \<Rightarrow> string) \<Rightarrow> string \<Rightarrow> MerkleProofStep list \<Rightarrow> string" where
  "verify_loop H cursor [] = cursor"
| "verify_loop H cursor (s # ss) =
     verify_loop H (if position s = ''left'' then branch_hash H (step_hash s) cursor
                    else branch_hash H cursor (step_hash s)) ss"

definition verify_merkle_proof ::
  "(string \<Rightarrow> string) \<Rightarrow> string \<Rightarrow> string \<Rightarrow> MerkleProofStep list \<Rightarrow> bool" where
  "verify_merkle_proof H leaf_hash root_hash steps \<longleftrightarrow> verify_loop H leaf_hash steps = root_hash"

definition build_merkle_proof ::
  "(string \<Rightarrow> string) \<Rightarrow> string \<Rightarrow> RunEvent list \<Rightarrow> string \<Rightarrow> MerkleProof option" where
  "build_merkle_proof H run_id events event_id =
     (let leaves = map (event_leaf H) events in
      case find_event 0 events event_id None of
        None \<Rightarrow> None
      | Some index \<Rightarrow>
          (let (steps, layer) = proof_loop H leaves index [];
               root_hash = (if layer \<noteq> [] then layer ! 0 else H ''empty'');
               leaf_hash = leaves ! index
           in Some \<lparr>mp_run_id = run_id, mp_event_id = event_id, mp_leaf_hash = leaf_hash,
                    mp_root_hash = root_hash, mp_proof = steps,
                    mp_valid = verify_merkle_proof H leaf_hash root_hash steps\<rparr>))"

section \<open>Specification side: the texts a computation hashes\<close>

definition layer_inputs :: "string list \<Rightarrow> string list" where
  "layer_inputs layer =
     map (\<lambda>k. node_text (layer ! (2 * k)) (layer ! (2 * k + 1))) [0..<(length layer + 1) div 2]"

function root_inputs :: "(string \<Rightarrow> string) \<Rightarrow> string list \<Rightarrow> string list" where
  "root_inputs H layer =
     (if 1 < length layer
      then layer_inputs (pad_layer layer) @ root_inputs H (next_layer H (pad_layer layer))
      else [])"
  by pat_completeness auto
termination
  by (relation "measure (\<lambda>(H, l). length l)") (auto simp: length_next_pad)

declare root_inputs.simps [simp del]

fun path_inputs :: "(string \<Rightarrow> string) \<Rightarrow> string \<Rightarrow> MerkleProofStep list \<Rightarrow> string list" where
  "path_inputs H cursor [] = []"
| "path_inputs H cursor (s # ss) =
     (let t = (if position s = ''left'' then node_text (step_hash s) cursor
               else node_text cursor (step_hash s))
      in t # path_inputs H (H t) ss)"

definition collision_in :: "(string \<Rightarrow> string) \<Rightarrow> string list \<Rightarrow> string list \<Rightarrow> bool" where
  "collision_in H xs ys \<longleftrightarrow> (\<exists>x \<in> set xs. \<exists>y \<in> set ys. x \<noteq> y \<and> H x = H y)"

definition colon_free :: "string \<Rightarrow> bool" where
  "colon_free s \<longleftrightarrow> CHR '':'' \<notin> set s"

section \<open>Proof construction is complete\<close>

lemma next_layer_inputs: "next_layer H l = map H (layer_inputs l)"
  by (simp add: next_layer_def layer_inputs_def branch_hash_def)

lemma pad_layer_nth: "i < length l \<Longrightarrow> pad_layer l ! i = l ! i"
  by (simp add: pad_layer_def nth_append)

lemma next_layer_nth:
  "k < (length l + 1) div 2 \<Longrightarrow>
   next_layer H (pad_layer l) ! k = branch_hash H (pad_layer l ! (2 * k)) (pad_layer l ! (2 * k + 1))"
  by (simp add: next_layer_def length_pad_layer)

lemma root_loop_length: "l \<noteq> [] \<Longrightarrow> length (root_loop H l) = 1"
proof (induction H l rule: root_loop.induct)
  case (1 H l)
  show ?case
  proof (cases "1 < length l")
    case True
    then have "next_layer H (pad_layer l) \<noteq> []" by (simp add: next_layer_def length_pad_layer)
    with True "1.IH" show ?thesis by (simp add: root_loop.simps [of H l])
  next
    case False
    with "1.prems" have "length l = 1" by (cases l) auto
    then show ?thesis by (simp add: root_loop.simps [of H l])
  qed
qed

lemma proof_loop_layer: "snd (proof_loop H l i acc) = root_loop H l"
proof (induction H l i acc rule: proof_loop.induct)
  case (1 H l i acc)
  then show ?case
    by (cases "1 < length l") (simp_all add: proof_loop.simps [of H l i] root_loop.simps [of H l] Let_def)
qed

lemma verify_loop_append:
  "verify_loop H c (xs @ [s]) =
     (if position s = ''left'' then branch_hash H (step_hash s) (verify_loop H c xs)
      else branch_hash H (verify_loop H c xs) (step_hash s))"
  by (induction xs arbitrary: c) auto

text \<open>The step recorded at a level leads from a node to its parent.\<close>

lemma proof_step_parent:
  assumes i: "i < length l"
    and sib: "sib = (if i mod 2 \<noteq> 0 then i - 1 else i + 1)"
  shows "(if sib < i then branch_hash H (pad_layer l ! sib) (l ! i)
          else branch_hash H (l ! i) (pad_layer l ! sib)) = next_layer H (pad_layer l) ! (i div 2)"
proof -
  from i have k: "i div 2 < (length l + 1) div 2" by linarith
  have p: "l ! i = pad_layer l ! i" using i by (simp add: pad_layer_nth)
  show ?thesis
  proof (cases "i mod 2 = 0")
    case True
    then have "2 * (i div 2) = i" by presburger
    with True show ?thesis by (simp add: next_layer_nth [OF k] sib p)
  next
    case False
    then have "2 * (i div 2) = i - 1" "2 * (i div 2) + 1 = i" "0 < i" by presburger+
    with False show ?thesis by (simp add: next_layer_nth [OF k] sib p)
  qed
qed

lemma proof_loop_verifies:
  "i < length l \<Longrightarrow> verify_loop H c acc = l ! i \<Longrightarrow>
   verify_loop H c (fst (proof_loop H l i acc)) = root_loop H l ! 0"
proof (induction H l i acc rule: proof_loop.induct)
  case (1 H l i acc)
  show ?case
  proof (cases "1 < length l")
    case True
    define sib where "sib = (if i mod 2 \<noteq> 0 then i - 1 else i + 1)"
    define st where "st = \<lparr>position = (if sib < i then ''left'' else ''right''),
                           step_hash = pad_layer l ! sib\<rparr>"
    have lt: "i div 2 < length (next_layer H (pad_layer l))"
      using "1.prems"(1) by (simp add: length_next_pad)
    have "verify_loop H c (acc @ [st]) = next_layer H (pad_layer l) ! (i div 2)"
      using proof_step_parent [OF "1.prems"(1) sib_def, of H] "1.prems"(2)
      by (auto simp: verify_loop_append st_def split: if_splits)
    moreover have "proof_loop H l i acc = proof_loop H (next_layer H (pad_layer l)) (i div 2) (acc @ [st])"
      using True by (subst proof_loop.simps) (simp add: Let_def sib_def st_def)
    moreover have "root_loop H l = root_loop H (next_layer H (pad_layer l))"
      using True by (simp add: root_loop.simps [of H l])
    ultimately show ?thesis
      using "1.IH" [OF True refl sib_def refl] lt by (simp add: st_def)
  next
    case False
    with "1.prems" have "i = 0" by linarith
    with False "1.prems" show ?thesis
      by (simp add: proof_loop.simps [of H l] root_loop.simps [of H l])
  qed
qed

lemma find_event_Some:
  "find_event k es eid acc = Some i \<Longrightarrow>
   acc = Some i \<or> (k \<le> i \<and> i < k + length es \<and> ev_event_id (es ! (i - k)) = eid)"
proof (induction k es eid acc rule: find_event.induct)
  case (2 k e es eid acc)
  from "2.IH" [OF "2.prems" [simplified]] show ?case
    by (auto simp: nth_Cons' Suc_diff_le split: if_splits)
qed simp

lemma find_event_None:
  "find_event k es eid acc = None \<longleftrightarrow> acc = None \<and> eid \<notin> ev_event_id ` set es"
  by (induction k es eid acc rule: find_event.induct) auto

section \<open>The root binds the leaves\<close>

lemma node_text_inj:
  "colon_free l \<Longrightarrow> colon_free l' \<Longrightarrow> node_text l r = node_text l' r' \<Longrightarrow> l = l' \<and> r = r'"
  using append_sep_eq [of l "CHR '':''" r l' r'] by (auto simp: node_text_def colon_free_def)

lemma layer_inputs_inj:
  assumes len: "length l = length l'" and even: "even (length l)"
    and cf: "\<forall>s \<in> set l \<union> set l'. colon_free s"
    and eq: "layer_inputs l = layer_inputs l'"
  shows "l = l'"
proof (rule nth_equalityI [OF len])
  fix i assume i: "i < length l"
  let ?k = "i div 2"
  have k: "?k < (length l + 1) div 2" and k1: "2 * ?k + 1 < length l"
    using i even by (linarith, presburger)
  from eq have "layer_inputs l ! ?k = layer_inputs l' ! ?k" by simp
  then have "node_text (l ! (2 * ?k)) (l ! (2 * ?k + 1)) = node_text (l' ! (2 * ?k)) (l' ! (2 * ?k + 1))"
    using k len by (simp add: layer_inputs_def)
  then have "l ! (2 * ?k) = l' ! (2 * ?k) \<and> l ! (2 * ?k + 1) = l' ! (2 * ?k + 1)"
    using cf k1 len by (intro node_text_inj) auto
  moreover have "i = 2 * ?k \<or> i = 2 * ?k + 1" by presburger
  ultimately show "l ! i = l' ! i" by metis
qed

lemma pad_layer_inj: "length l = length l' \<Longrightarrow> pad_layer l = pad_layer l' \<Longrightarrow> l = l'"
  by (auto simp: pad_layer_def split: if_splits)

lemma set_pad_layer: "l \<noteq> [] \<Longrightarrow> set (pad_layer l) = set l"
  by (auto simp: pad_layer_def)

lemma map_eq_or_collision:
  "length xs = length ys \<Longrightarrow> map H xs = map H ys \<Longrightarrow> xs = ys \<or> collision_in H xs ys"
  by (induction xs ys rule: list_induct2) (auto simp: collision_in_def)

lemma collision_in_mono:
  "collision_in H xs ys \<Longrightarrow> set xs \<subseteq> set xs' \<Longrightarrow> set ys \<subseteq> set ys' \<Longrightarrow> collision_in H xs' ys'"
  unfolding collision_in_def by blast

lemma root_loop_binds:
  assumes H: "\<And>s. colon_free (H s)"
  shows "length l = length l' \<Longrightarrow> \<forall>s \<in> set l \<union> set l'. colon_free s \<Longrightarrow>
    root_loop H l = root_loop H l' \<Longrightarrow>
    l = l' \<or> collision_in H (root_inputs H l) (root_inputs H l')"
proof (induction "length l" arbitrary: l l' rule: less_induct)
  case less
  show ?case
  proof (cases "1 < length l")
    case True
    let ?n = "next_layer H (pad_layer l)" and ?n' = "next_layer H (pad_layer l')"
    let ?i = "layer_inputs (pad_layer l)" and ?i' = "layer_inputs (pad_layer l')"
    have len: "length ?n = length ?n'" "length ?i = length ?i'"
      using less.prems(1) by (simp_all add: length_next_pad layer_inputs_def length_pad_layer)
    have cf: "\<forall>s \<in> set ?n \<union> set ?n'. colon_free s"
      using H by (auto simp: next_layer_inputs)
    have unf: "root_inputs H l = ?i @ root_inputs H ?n" "root_inputs H l' = ?i' @ root_inputs H ?n'"
      using True less.prems(1) by (simp_all add: root_inputs.simps [of H l] root_inputs.simps [of H l'])
    have "root_loop H ?n = root_loop H ?n'"
      using less.prems True by (simp add: root_loop.simps [of H l] root_loop.simps [of H l'])
    moreover have "length ?n < length l" using True by (simp add: length_next_pad)
    ultimately consider "?n = ?n'" | "collision_in H (root_inputs H ?n) (root_inputs H ?n')"
      using less.hyps [OF _ len(1) cf] by blast
    then show ?thesis
    proof cases
      case 1
      then have "?i = ?i' \<or> collision_in H ?i ?i'"
        using len by (intro map_eq_or_collision) (simp_all add: next_layer_inputs)
      moreover have "l = l'" if "?i = ?i'"
      proof (rule pad_layer_inj [OF less.prems(1)], rule layer_inputs_inj [OF _ _ _ that])
        have "l \<noteq> []" "l' \<noteq> []" using True less.prems(1) by auto
        then show "\<forall>s \<in> set (pad_layer l) \<union> set (pad_layer l'). colon_free s"
          using less.prems(2) by (simp add: set_pad_layer)
      qed (simp_all add: length_pad_layer less.prems(1))
      ultimately show ?thesis by (auto simp: unf intro: collision_in_mono)
    next
      case 2
      then show ?thesis by (auto simp: unf intro: collision_in_mono)
    qed
  next
    case False
    with less.prems show ?thesis by (simp add: root_loop.simps [of H l] root_loop.simps [of H l'])
  qed
qed

lemma singleton_root_eq:
  "l \<noteq> [] \<Longrightarrow> l' \<noteq> [] \<Longrightarrow> root_loop H l ! 0 = root_loop H l' ! 0 \<Longrightarrow> root_loop H l = root_loop H l'"
  using root_loop_length [of l H] root_loop_length [of l' H]
  by (auto simp: length_Suc_conv)

lemma verify_path_binds:
  assumes H: "\<And>s. colon_free (H s)"
  shows "map position p = map position p' \<Longrightarrow> colon_free c \<Longrightarrow> colon_free c' \<Longrightarrow>
    \<forall>s \<in> set p \<union> set p'. colon_free (step_hash s) \<Longrightarrow>
    verify_loop H c p = verify_loop H c' p' \<Longrightarrow>
    (c = c' \<and> p = p') \<or> collision_in H (path_inputs H c p) (path_inputs H c' p')"
proof (induction p arbitrary: c c' p')
  case (Cons s p)
  then obtain s' q where p': "p' = s' # q" by (cases p') auto
  define t where "t = (if position s = ''left'' then node_text (step_hash s) c else node_text c (step_hash s))"
  define t' where "t' = (if position s = ''left'' then node_text (step_hash s') c' else node_text c' (step_hash s'))"
  have pos: "position s' = position s" "map position p = map position q"
    using Cons.prems(1) by (simp_all add: p')
  have inp: "path_inputs H c (s # p) = t # path_inputs H (H t) p"
    "path_inputs H c' p' = t' # path_inputs H (H t') q"
    by (simp_all add: p' t_def t'_def pos Let_def)
  have "verify_loop H (H t) p = verify_loop H (H t') q"
    using Cons.prems(5) by (simp add: p' t_def t'_def pos branch_hash_def split: if_splits)
  from Cons.IH [OF pos(2) H H _ this] Cons.prems(4)
  consider "H t = H t'" "p = q" | "collision_in H (path_inputs H (H t) p) (path_inputs H (H t') q)"
    by (auto simp: p')
  then show ?case
  proof cases
    case 1
    show ?thesis
    proof (cases "t = t'")
      case True
      have cf: "colon_free (step_hash s)" "colon_free (step_hash s')"
        using Cons.prems(4) by (simp_all add: p')
      have "c = c' \<and> step_hash s = step_hash s'"
        using True cf Cons.prems(2,3) node_text_inj [of "step_hash s" "step_hash s'" c c']
          node_text_inj [of c c' "step_hash s" "step_hash s'"]
        by (cases "position s = ''left''") (simp_all add: t_def t'_def)
      with pos 1 show ?thesis by (simp add: p')
    next
      case False
      with 1 have "collision_in H (t # path_inputs H (H t) p) (t' # path_inputs H (H t') q)"
        unfolding collision_in_def by auto
      then show ?thesis unfolding inp by simp
    qed
  next
    case 2
    then show ?thesis unfolding inp by (auto intro: collision_in_mono)
  qed
qed simp

section \<open>Properties\<close>

text \<open>C14: every inclusion proof the code builds is valid, carries the root that the
  snapshot of the same events carries, and is about the leaf of an event of the run
  with the requested identifier.\<close>

theorem build_merkle_proof_correct:
  assumes "build_merkle_proof H run_id events event_id = Some p"
  shows "mp_valid p
    \<and> mp_root_hash p = snap_root_hash (build_merkle_snapshot H run_id events)
    \<and> verify_merkle_proof H (mp_leaf_hash p) (mp_root_hash p) (mp_proof p)
    \<and> (\<exists>e \<in> set events. ev_event_id e = event_id \<and> mp_leaf_hash p = event_leaf H e)"
proof -
  let ?leaves = "map (event_leaf H) events"
  obtain i where i: "find_event 0 events event_id None = Some i"
    using assms by (auto simp: build_merkle_proof_def Let_def split: option.splits)
  from find_event_Some [OF i] have lt: "i < length events" and ev: "ev_event_id (events ! i) = event_id"
    by auto
  from lt have ne: "events \<noteq> []" by auto
  have layer: "snd (proof_loop H ?leaves i []) = root_loop H ?leaves"
    by (rule proof_loop_layer)
  have ver: "verify_loop H (?leaves ! i) (fst (proof_loop H ?leaves i [])) = root_loop H ?leaves ! 0"
    using lt by (intro proof_loop_verifies) simp_all
  have rl: "root_loop H ?leaves \<noteq> []" using root_loop_length [of ?leaves H] ne by auto
  obtain steps layer where pl: "proof_loop H ?leaves i [] = (steps, layer)" by fastforce
  have p: "p = \<lparr>mp_run_id = run_id, mp_event_id = event_id, mp_leaf_hash = ?leaves ! i,
      mp_root_hash = root_loop H ?leaves ! 0, mp_proof = steps, mp_valid = True\<rparr>"
    using assms i pl layer ver rl
    by (simp add: build_merkle_proof_def Let_def verify_merkle_proof_def)
  show ?thesis
    using ver pl lt ev ne
    by (auto simp: p verify_merkle_proof_def build_merkle_snapshot_def compute_merkle_root_def)
qed

text \<open>A run of three events, for the witnesses.\<close>

definition sample_event :: "string \<Rightarrow> RunEvent" where
  "sample_event i = \<lparr>ev_event_id = i, ev_run_id = ''r'', ev_sequence = 1, ev_stage = ''queued'',
     ev_event_type = ''t'', ev_recorded_at = ''now'', ev_payload = [], ev_summary = None,
     ev_merkle_leaf_hash = Some (''h'' @ i), ev_artifact_key = None, ev_integration_name = None,
     ev_status = None\<rparr>"

definition sample_hash :: "string \<Rightarrow> string" where
  "sample_hash s = filter (\<lambda>c. c \<noteq> CHR '':'') s"

theorem build_merkle_proof_correct_witness:
  "\<exists>p. build_merkle_proof sample_hash ''r'' (map sample_event [''a'', ''b'', ''c'']) ''c'' = Some p
     \<and> mp_valid p \<and> length (mp_proof p) = 2"
proof -
  let ?b = "build_merkle_proof sample_hash ''r'' (map sample_event [''a'', ''b'', ''c'']) ''c''"
  have len: "map_option (\<lambda>p. length (mp_proof p)) ?b = Some 2" by code_simp
  then obtain p where p: "?b = Some p" "length (mp_proof p) = 2" by auto
  with build_merkle_proof_correct [OF p(1)] show ?thesis by blast
qed

text \<open>C38: a proof is built exactly when the run has an event with the identifier.\<close>

theorem build_merkle_proof_None_iff:
  "build_merkle_proof H run_id events event_id = None \<longleftrightarrow> event_id \<notin> ev_event_id ` set events"
  using find_event_None [of 0 events event_id None]
  by (auto simp: build_merkle_proof_def Let_def split: option.splits prod.splits)

text \<open>The root binds the leaves. Two leaf lists of the same length with the same root
  are equal, or the texts hashed on the way hold a collision of the hash function. The
  leaves and the digests must be free of the separator \<open>:\<close>, as hexadecimal text is.\<close>

theorem compute_merkle_root_binds:
  assumes "\<forall>s. colon_free (H s)"
    and "\<forall>s \<in> set leaves \<union> set leaves'. colon_free s"
    and "length leaves = length leaves'"
    and "compute_merkle_root H leaves = compute_merkle_root H leaves'"
  shows "leaves = leaves' \<or> collision_in H (root_inputs H leaves) (root_inputs H leaves')"
proof (cases "leaves = []")
  case False
  with assms(3) have "leaves' \<noteq> []" by auto
  with False assms(4) have "root_loop H leaves = root_loop H leaves'"
    by (intro singleton_root_eq) (simp_all add: compute_merkle_root_def)
  with assms(1-3) show ?thesis by (intro root_loop_binds) auto
qed (use assms(3) in simp)

theorem compute_merkle_root_binds_witness:
  "[''a'', ''b'', ''c''] = [''a'', ''b'', ''c'']
   \<or> collision_in sample_hash (root_inputs sample_hash [''a'', ''b'', ''c''])
       (root_inputs sample_hash [''a'', ''b'', ''c''])"
proof (rule compute_merkle_root_binds)
  show "\<forall>s. colon_free (sample_hash s)" by (simp add: sample_hash_def colon_free_def)
qed (simp_all add: colon_free_def)

text \<open>\<open>branch_hash\<close> joins its two texts with a colon and nothing checks that they hold none, so texts with
  colons can be cut in two ways: these two proofs verify against the same root under every hash.\<close>

lemma colon_leaves_ambiguous:
  "verify_merkle_proof H ''a:b'' (branch_hash H ''a'' ''b:c'') [\<lparr>position = ''right'', step_hash = ''c''\<rparr>]"
  "verify_merkle_proof H ''a'' (branch_hash H ''a'' ''b:c'') [\<lparr>position = ''right'', step_hash = ''b:c''\<rparr>]"
  by (simp_all add: verify_merkle_proof_def branch_hash_def node_text_def)



text \<open>Because an odd layer is padded with its own last node, appending a copy of the
  last leaf to an odd list of more than one leaf leaves the root as it was; only the
  leaf count of the snapshot tells the two lists apart.\<close>

theorem compute_merkle_root_duplicate_last:
  assumes "odd (length leaves)" and "1 < length leaves"
  shows "compute_merkle_root H (leaves @ [last leaves]) = compute_merkle_root H leaves"
proof -
  have "pad_layer leaves = leaves @ [last leaves]" "pad_layer (leaves @ [last leaves]) = leaves @ [last leaves]"
    using assms(1) by (simp_all add: pad_layer_def odd_iff_mod_2_eq_one)
  with assms show ?thesis
    by (auto simp: compute_merkle_root_def root_loop.simps [of H leaves]
          root_loop.simps [of H "leaves @ [last leaves]"])
qed

theorem compute_merkle_root_duplicate_last_witness:
  "compute_merkle_root sample_hash [''a'', ''b'', ''c'', ''c''] = compute_merkle_root sample_hash [''a'', ''b'', ''c'']
   \<and> [''a'', ''b'', ''c'', ''c''] \<noteq> [''a'', ''b'', ''c'']"
  using compute_merkle_root_duplicate_last [of "[''a'', ''b'', ''c'']" sample_hash] by simp

end
