(* ===== verification/Py_Env.thy ===== *)
theory Py_Env
  imports Py_Json
begin

text \<open>
  What the modelled code takes from its surroundings: the digests of \<open>hashlib\<close> and
  \<open>hmac\<close>, and the ISO 8601 codec of \<open>datetime\<close>. They are arguments of the model, gathered
  in the record \<open>pyenv\<close>; a theorem that relies on a law of one of them has the law as a
  hypothesis.

  A time is the number of microseconds since the epoch. \<open>sha256_hex\<close> takes the text
  whose UTF-8 encoding is hashed. \<open>local_to_utc\<close> is what \<open>astimezone\<close> does to a naive time.
\<close>

datatype datetime = Naive int | Aware int

record pyenv =
  sha256_hex :: "string \<Rightarrow> string"
  hmac_sha256_hex :: "string \<Rightarrow> string \<Rightarrow> string"
  isoformat :: "int \<Rightarrow> string"
  fromisoformat :: "string \<Rightarrow> datetime option"
  local_to_utc :: "int \<Rightarrow> int"

text \<open>\<open>[0-9a-f]{64}\<close>, and \<open>sha256:[0-9a-f]{64}\<close>.\<close>

definition is_hex :: "char \<Rightarrow> bool" where
  "is_hex c \<longleftrightarrow> (CHR ''0'' \<le> c \<and> c \<le> CHR ''9'') \<or> (CHR ''a'' \<le> c \<and> c \<le> CHR ''f'')"

definition hex64 :: "string \<Rightarrow> bool" where
  "hex64 s \<longleftrightarrow> length s = 64 \<and> list_all is_hex s"

definition sha256_text :: "string \<Rightarrow> bool" where
  "sha256_text s \<longleftrightarrow> starts_with s ''sha256:'' \<and> hex64 (removeprefix s ''sha256:'')"

text \<open>\<open>value.astimezone(timezone.utc).isoformat().replace("+00:00", "Z")\<close>, the same helper in
  several modules.\<close>

definition format_time :: "pyenv \<Rightarrow> int \<Rightarrow> string" where
  "format_time E t = replace_all ''+00:00'' ''Z'' (isoformat E t)"

section \<open>A concrete environment\<close>

text \<open>To run the model on concrete inputs: digests are the length of the text, padded to 64
  hexadecimal digits, times are decimal numbers.\<close>

definition pad64 :: "string \<Rightarrow> string" where
  "pad64 s = rev (take 64 (rev s @ replicate 64 (CHR ''0'')))"

definition text_len :: "string \<Rightarrow> int" where
  "text_len s = fold (\<lambda>c n. n + 1) s 0"

definition toy_env :: pyenv where
  "toy_env = \<lparr>sha256_hex = (\<lambda>s. pad64 (pos_str (text_len s))),
     hmac_sha256_hex = (\<lambda>k s. pad64 (pos_str (text_len k + text_len s))),
     isoformat = (\<lambda>t. int_str t @ ''+00:00''),
     fromisoformat = (\<lambda>s. map_option Aware (parse_int (takeWhile (\<lambda>c. c \<noteq> CHR ''+'') s))),
     local_to_utc = (\<lambda>t. t)\<rparr>"

end
