(* ===== verification/Authority_Store.thy ===== *)
theory Authority_Store
  imports Py_Env
begin

text \<open>
  \<open>shared/mesh_runtime/repo_patch_authority_store.py\<close>: the authority records that
  license one repository patch each, with compare-and-set transitions
  (issued, leased, dispatched, terminal) and a hash-chained list of event receipts, in
  the file-backed and the Postgres-backed store. This theory holds the transitions and
  the two stores; \<open>Authority_Store_Props\<close> proves them correct.

  A record is a dictionary; a corrupted file can
  hold anything, so every check of the code is kept. (Where the code tests membership
  of a value in a set of strings, an unhashable value raises \<open>TypeError\<close> there and fails
  the test here: both raise.)
\<close>

section \<open>Errors, constants\<close>

datatype authority_exn =
    AuthorityStoreError string
  | AuthorityConflictError string
  | AuthorityNotFoundError string
  | AuthorityStateError string
  | PyExn py_exn

definition AUTHORITY_STORE_VERSION :: string where
  "AUTHORITY_STORE_VERSION = ''mesh.repo_patch_authority_store.v1''"
definition AUTHORITY_RECORD_VERSION :: string where
  "AUTHORITY_RECORD_VERSION = ''mesh.repo_patch_authority_record.v1''"
definition AUTHORITY_EVENT_VERSION :: string where
  "AUTHORITY_EVENT_VERSION = ''mesh.repo_patch_authority_event_receipt.v1''"
definition GENESIS_EVENT_DIGEST :: string where
  "GENESIS_EVENT_DIGEST = ''sha256:'' @ replicate 64 (CHR ''0'')"
definition TERMINAL_OUTCOMES :: "string list" where
  "TERMINAL_OUTCOMES = [''succeeded'', ''failed'', ''rejected'', ''unknown'']"

section \<open>Checks and small helpers\<close>

fun lift_py :: "py_exn + 'a \<Rightarrow> authority_exn + 'a" where
  "lift_py (Inl e) = Inl (PyExn e)"
| "lift_py (Inr x) = Inr x"

definition canonical_authority_digest :: "pyenv \<Rightarrow> jval \<Rightarrow> string" where
  "canonical_authority_digest E v = canonical_digest (sha256_hex E) v"

definition parse_time :: "pyenv \<Rightarrow> string \<Rightarrow> authority_exn + int" where
  "parse_time E s =
     (case fromisoformat E (replace_all ''Z'' ''+00:00'' s) of
        None \<Rightarrow> Inl (AuthorityStoreError ''authority-store timestamp is malformed'')
      | Some (Naive _) \<Rightarrow> Inl (AuthorityStoreError ''authority-store timestamp must be timezone-aware'')
      | Some (Aware t) \<Rightarrow> Inr t)"

definition required_text :: "jval \<Rightarrow> string \<Rightarrow> authority_exn + unit" where
  "required_text v field =
     require (case v of JStr s \<Rightarrow> py_strip s \<noteq> [] | _ \<Rightarrow> False)
       (AuthorityStoreError (field @ '' must be a nonempty string''))"

definition required_version :: "jval \<Rightarrow> authority_exn + unit" where
  "required_version v =
     require (case v of JInt n \<Rightarrow> 1 \<le> n | _ \<Rightarrow> False)
       (AuthorityStoreError ''expected_version must be a positive integer'')"

text \<open>
  \<open>_json_copy\<close> is \<open>json.loads(json.dumps(v))\<close>: a \<open>jval\<close> is finite JSON data, on which
  the round trip is the identity.
\<close>

definition json_copy :: "jval \<Rightarrow> authority_exn + jval" where
  "json_copy v = Inr v"

definition validate_record_binding :: "pyenv \<Rightarrow> jobj \<Rightarrow> authority_exn + unit" where
  "validate_record_binding E rec =
     (if \<not> py_eq (pget rec ''schema_version'') (JStr AUTHORITY_RECORD_VERSION)
      then Inl (AuthorityStoreError ''unsupported repo-patch authority-record version'')
      else let binding = pget rec ''action_binding'' in
      if \<not> is_obj binding \<or> \<not> truthy binding
      then Inl (AuthorityStoreError ''authority record action binding is malformed'')
      else if \<not> py_eq (pget rec ''action_binding_digest'') (JStr (canonical_authority_digest E binding))
      then Inl (AuthorityStoreError ''authority record action binding digest is invalid'')
      else Inr ())"

definition required_record :: "pyenv \<Rightarrow> jobj \<Rightarrow> string \<Rightarrow> authority_exn + jobj" where
  "required_record E records authority_id =
     ebind (required_text (JStr authority_id) ''authority_id'') (\<lambda>_.
       case pget records authority_id of
         JObj rec \<Rightarrow> ebind (validate_record_binding E rec) (\<lambda>_. Inr rec)
       | _ \<Rightarrow> Inl (AuthorityNotFoundError
                (''authority record '' @ str_repr authority_id @ '' does not exist'')))"

definition require_lease :: "jobj \<Rightarrow> string \<Rightarrow> authority_exn + unit" where
  "require_lease rec lease_id =
     ebind (required_text (JStr lease_id) ''lease_id'') (\<lambda>_.
       require (py_eq (pget rec ''lease_id'') (JStr lease_id))
         (AuthorityConflictError ''authority lease id mismatch''))"

definition require_transition ::
  "pyenv \<Rightarrow> jobj \<Rightarrow> jval \<Rightarrow> string list \<Rightarrow> authority_exn + unit" where
  "require_transition E rec expected_version allowed_states =
     ebind (validate_record_binding E rec) (\<lambda>_.
     ebind (required_version expected_version) (\<lambda>_.
     if \<not> py_eq (pget rec ''version'') expected_version
     then Inl (AuthorityConflictError (''authority version conflict: expected '' @ py_str expected_version
                 @ '', found '' @ py_repr (pget rec ''version'')))
     else if \<not> str_in (pget rec ''state'') allowed_states
     then Inl (AuthorityStateError (''authority state '' @ py_repr (pget rec ''state'')
                 @ '' does not allow this transition''))
     else Inr ()))"

fun require_same_fields :: "jobj \<Rightarrow> jobj \<Rightarrow> string list \<Rightarrow> authority_exn + unit" where
  "require_same_fields existing request [] = Inr ()"
| "require_same_fields existing request (field # fs) =
     (if \<not> py_eq (pget existing field) (pget request field)
      then Inl (AuthorityConflictError (''issue-or-get conflict on '' @ field))
      else require_same_fields existing request fs)"

definition require_same_issue :: "pyenv \<Rightarrow> jobj \<Rightarrow> jobj \<Rightarrow> authority_exn + unit" where
  "require_same_issue E existing request =
     ebind (validate_record_binding E existing) (\<lambda>_.
     ebind (require_same_fields existing request
              [''authority_id'', ''idempotency_key'', ''nonce'', ''action_binding_digest'']) (\<lambda>_.
     require (py_eq (pget existing ''action_binding'') (pget request ''action_binding''))
       (AuthorityConflictError ''issue-or-get conflict on full action binding'')))"

section \<open>Transitions\<close>

definition validated_issue_request ::
  "pyenv \<Rightarrow> string \<Rightarrow> string \<Rightarrow> string \<Rightarrow> jval \<Rightarrow> authority_exn + jobj" where
  "validated_issue_request E authority_id idempotency_key nonce action_binding =
     ebind (required_text (JStr authority_id) ''authority_id'') (\<lambda>_.
     ebind (required_text (JStr idempotency_key) ''idempotency_key'') (\<lambda>_.
     if \<not> hex64 nonce
     then Inl (AuthorityStoreError ''nonce must be 64 lowercase hexadecimal characters'')
     else if \<not> is_obj action_binding \<or> \<not> truthy action_binding
     then Inl (AuthorityStoreError ''action_binding must be a nonempty object'')
     else ebind (json_copy action_binding) (\<lambda>binding.
       Inr [(''authority_id'', JStr authority_id),
            (''idempotency_key'', JStr idempotency_key),
            (''nonce'', JStr nonce),
            (''action_binding'', binding),
            (''action_binding_digest'', JStr (canonical_authority_digest E binding))])))"

definition event_body ::
  "int \<Rightarrow> string \<Rightarrow> jval \<Rightarrow> jval \<Rightarrow> jval \<Rightarrow> jval \<Rightarrow> jval \<Rightarrow> jval \<Rightarrow> jobj" where
  "event_body sequence event_type aid version binding_digest previous recorded_at payload =
     [(''schema_version'', JStr AUTHORITY_EVENT_VERSION),
      (''authority_id'', aid),
      (''sequence'', JInt sequence),
      (''event_type'', JStr event_type),
      (''state_version'', version),
      (''action_binding_digest'', binding_digest),
      (''previous_event_digest'', previous),
      (''recorded_at'', recorded_at),
      (''payload'', payload)]"

definition with_event ::
  "pyenv \<Rightarrow> jobj \<Rightarrow> string \<Rightarrow> jobj \<Rightarrow> authority_exn + (jobj \<times> jobj)" where
  "with_event E rec event_type payload =
     ebind (lift_py (py_int (pget_or rec ''event_sequence'' (JInt 0)))) (\<lambda>n.
     let sequence = n + 1 in
     ebind (lift_py (pidx rec ''authority_id'')) (\<lambda>aid.
     ebind (lift_py (pidx rec ''version'')) (\<lambda>version.
     ebind (lift_py (pidx rec ''action_binding_digest'')) (\<lambda>binding_digest.
     ebind (lift_py (pidx rec ''updated_at'')) (\<lambda>recorded_at.
     ebind (json_copy (JObj payload)) (\<lambda>copied.
     let previous = por (pget rec ''latest_event_digest'') (JStr GENESIS_EVENT_DIGEST);
         body = event_body sequence event_type aid version binding_digest previous recorded_at copied;
         digest = canonical_authority_digest E (JObj body);
         event = pupdate body
           [(''event_id'', JStr (''authority_event_'' @ removeprefix digest ''sha256:'')),
            (''event_digest'', JStr digest)];
         updated = pset (pset rec ''event_sequence'' (JInt sequence)) ''latest_event_digest'' (JStr digest)
     in Inr (updated, event)))))))"

definition new_issue :: "pyenv \<Rightarrow> jobj \<Rightarrow> int \<Rightarrow> authority_exn + (jobj \<times> jobj)" where
  "new_issue E request now =
     (let timestamp = JStr (format_time E now);
          rec = pupdate (pupdate [(''schema_version'', JStr AUTHORITY_RECORD_VERSION)] request)
            [(''state'', JStr ''issued''),
             (''version'', JInt 1),
             (''lease_id'', JNull),
             (''lease_expires_at'', JNull),
             (''dispatched_at'', JNull),
             (''terminal_outcome'', JNull),
             (''terminal_result'', JNull),
             (''issued_at'', timestamp),
             (''updated_at'', timestamp),
             (''event_sequence'', JInt 0),
             (''latest_event_digest'', JStr GENESIS_EVENT_DIGEST)]
      in ebind (lift_py (pidx request ''idempotency_key'')) (\<lambda>ikey.
         ebind (lift_py (pidx request ''nonce'')) (\<lambda>nonce.
         with_event E rec ''issued'' [(''idempotency_key'', ikey), (''nonce'', nonce)])))"

definition next_version :: "jval \<Rightarrow> jval" where
  "next_version v = (case v of JInt n \<Rightarrow> JInt (n + 1) | _ \<Rightarrow> v)"

definition lease_transition ::
  "pyenv \<Rightarrow> jobj \<Rightarrow> jval \<Rightarrow> string \<Rightarrow> jval \<Rightarrow> int \<Rightarrow> authority_exn + (jobj \<times> jobj)" where
  "lease_transition E current expected_version lease_id lease_seconds now =
     ebind (require_transition E current expected_version [''issued'', ''leased'']) (\<lambda>_.
     ebind (required_text (JStr lease_id) ''lease_id'') (\<lambda>_.
     case (case lease_seconds of JInt n \<Rightarrow> if 0 < n then Some n else None | _ \<Rightarrow> None) of
       None \<Rightarrow> Inl (AuthorityStoreError ''lease_seconds must be a positive integer'')
     | Some seconds \<Rightarrow>
       (let previous_lease_id = pget current ''lease_id'';
            reclaim = (pget current ''state'' = JStr ''leased'') in
        ebind
          (if reclaim
           then ebind
              (case pget current ''lease_expires_at'' of
                 JStr s \<Rightarrow> ebind (parse_time E s) (\<lambda>expires. require (expires < now)
                   (AuthorityStateError ''authority pre-dispatch lease is still active''))
               | _ \<Rightarrow> Inl (AuthorityStateError ''authority pre-dispatch lease is still active''))
              (\<lambda>_. require (\<not> py_eq previous_lease_id (JStr lease_id))
                     (AuthorityConflictError ''authority expired lease reclaim requires a fresh lease id''))
           else Inr ()) (\<lambda>_.
        let expires_at = JStr (format_time E (now + seconds * 1000000));
            u1 = pset current ''state'' (JStr ''leased'');
            u2 = pset u1 ''version'' (next_version expected_version);
            u3 = pset u2 ''lease_id'' (JStr lease_id);
            u4 = pset u3 ''lease_expires_at'' expires_at;
            updated = pset u4 ''updated_at'' (JStr (format_time E now));
            event_type = (if reclaim then ''expired_pre_dispatch_lease_reclaimed'' else ''leased_for_dispatch'')
        in with_event E updated event_type
             [(''lease_id'', JStr lease_id),
              (''lease_expires_at'', expires_at),
              (''previous_lease_id'', previous_lease_id)]))))"

definition dispatch_transition ::
  "pyenv \<Rightarrow> jobj \<Rightarrow> jval \<Rightarrow> string \<Rightarrow> int \<Rightarrow> authority_exn + (jobj \<times> jobj)" where
  "dispatch_transition E current expected_version lease_id now =
     ebind (require_transition E current expected_version [''leased'']) (\<lambda>_.
     ebind (require_lease current lease_id) (\<lambda>_.
     ebind (case pget current ''lease_expires_at'' of
              JStr s \<Rightarrow> ebind (parse_time E s) (\<lambda>expires. require (now \<le> expires)
                (AuthorityStateError ''authority dispatch lease expired''))
            | _ \<Rightarrow> Inl (AuthorityStateError ''authority dispatch lease expired'')) (\<lambda>_.
     let u1 = pset current ''state'' (JStr ''dispatched'');
         u2 = pset u1 ''version'' (next_version expected_version);
         u3 = pset u2 ''dispatched_at'' (JStr (format_time E now));
         updated = pset u3 ''updated_at'' (JStr (format_time E now))
     in with_event E updated ''marked_dispatched'' [(''lease_id'', JStr lease_id)])))"

definition terminal_transition ::
  "pyenv \<Rightarrow> jobj \<Rightarrow> jval \<Rightarrow> string \<Rightarrow> string \<Rightarrow> jval \<Rightarrow> int \<Rightarrow> authority_exn + (jobj \<times> jobj)" where
  "terminal_transition E current expected_version lease_id outcome result now =
     ebind (require_transition E current expected_version [''leased'', ''dispatched'']) (\<lambda>_.
     ebind (require_lease current lease_id) (\<lambda>_.
     if outcome \<notin> set TERMINAL_OUTCOMES
     then Inl (AuthorityStoreError (''unsupported terminal outcome '' @ str_repr outcome))
     else if pget current ''state'' = JStr ''leased'' \<and> outcome \<notin> {''failed'', ''rejected''}
     then Inl (AuthorityStateError ''a pre-dispatch lease may complete only as failed or rejected'')
     else if \<not> is_obj result
     then Inl (AuthorityStoreError ''terminal result must be an object'')
     else ebind (json_copy result) (\<lambda>terminal_result.
     let u1 = pset current ''state'' (JStr ''terminal'');
         u2 = pset u1 ''version'' (next_version expected_version);
         u3 = pset u2 ''terminal_outcome'' (JStr outcome);
         u4 = pset u3 ''terminal_result'' terminal_result;
         updated = pset u4 ''updated_at'' (JStr (format_time E now))
     in with_event E updated ''terminal_completed''
          [(''lease_id'', JStr lease_id),
           (''outcome'', JStr outcome),
           (''result_digest'', JStr (canonical_authority_digest E terminal_result)),
           (''dispatch_observed'', JBool (pget current ''state'' = JStr ''dispatched''))])))"

section \<open>Reconciliation\<close>

text \<open>The loop over the receipts, from sequence number \<open>n\<close> and the digest \<open>previous\<close>.\<close>

fun check_events ::
  "pyenv \<Rightarrow> jobj \<Rightarrow> int \<Rightarrow> string \<Rightarrow> jval list \<Rightarrow> authority_exn + string" where
  "check_events E rec n previous [] = Inr previous"
| "check_events E rec n previous (ev # evs) =
     (case ev of
        JObj event \<Rightarrow>
          if \<not> py_eq (pget event ''sequence'') (JInt n)
          then Inl (AuthorityStoreError ''authority event sequence is not contiguous'')
          else if \<not> py_eq (pget event ''schema_version'') (JStr AUTHORITY_EVENT_VERSION)
          then Inl (AuthorityStoreError ''authority event schema version is unsupported'')
          else if \<not> py_eq (pget event ''state_version'') (JInt n)
          then Inl (AuthorityStoreError ''authority event state version is not contiguous'')
          else if \<not> py_eq (pget event ''authority_id'') (pget rec ''authority_id'')
          then Inl (AuthorityStoreError ''authority event record binding mismatch'')
          else if \<not> py_eq (pget event ''action_binding_digest'') (pget rec ''action_binding_digest'')
          then Inl (AuthorityStoreError ''authority event action binding mismatch'')
          else if \<not> py_eq (pget event ''previous_event_digest'') (JStr previous)
          then Inl (AuthorityStoreError ''authority event digest chain is broken'')
          else let body = ppop event ''event_id'';
                   claimed_digest = pget body ''event_digest'';
                   body' = ppop body ''event_digest'' in
          if \<not> py_eq claimed_digest (JStr (canonical_authority_digest E (JObj body')))
          then Inl (AuthorityStoreError ''authority event digest is invalid'')
          else check_events E rec (n + 1) (py_str claimed_digest) evs
      | _ \<Rightarrow> Inl (AuthorityStoreError ''authority event receipt is malformed''))"

definition reconciliation_payload :: "pyenv \<Rightarrow> jobj \<Rightarrow> jval \<Rightarrow> authority_exn + jobj" where
  "reconciliation_payload E rec events =
     ebind (validate_record_binding E rec) (\<lambda>_.
     case events of
       JList (e # es) \<Rightarrow>
         ebind (check_events E rec 1 GENESIS_EVENT_DIGEST (e # es)) (\<lambda>previous.
         if \<not> py_eq (pget rec ''event_sequence'') (JInt (int (length (e # es))))
         then Inl (AuthorityStoreError ''authority record event sequence mismatch'')
         else if \<not> py_eq (pget rec ''latest_event_digest'') (JStr previous)
         then Inl (AuthorityStoreError ''authority record latest event digest mismatch'')
         else if \<not> py_eq (pget (obj_or_empty (last (e # es))) ''state_version'') (pget rec ''version'')
         then Inl (AuthorityStoreError ''authority record version is not reconciled'')
         else Inr [(''schema_version'', JStr AUTHORITY_STORE_VERSION),
                   (''record'', JObj rec),
                   (''events'', JList (e # es)),
                   (''event_chain_valid'', JBool True)])
     | _ \<Rightarrow> Inl (AuthorityStoreError ''authority event receipts are missing''))"

section \<open>The file-backed store\<close>

text \<open>
  The state is the dictionary of the JSON file. An operation runs inside
  \<open>with LockedJsonFile(...)\<close>, which holds an exclusive lock and writes the dictionary
  back only when the block returns: an error result leaves the state as it was.
\<close>

definition file_root :: "jobj \<Rightarrow> authority_exn + jobj" where
  "file_root payload =
     (let payload' = (if payload = [] then
            [(''schema_version'', JStr AUTHORITY_STORE_VERSION),
             (''records'', JObj []), (''idempotency'', JObj []),
             (''nonces'', JObj []), (''events'', JObj [])] else payload)
      in if \<not> py_eq (pget payload' ''schema_version'') (JStr AUTHORITY_STORE_VERSION)
         then Inl (AuthorityStoreError ''unsupported repo-patch authority-store version'')
         else case filter (\<lambda>f. \<not> is_obj (pget payload' f)) [''records'', ''idempotency'', ''nonces'', ''events''] of
           f # _ \<Rightarrow> Inl (AuthorityStoreError (''authority store field '' @ str_repr f @ '' is malformed''))
         | [] \<Rightarrow> Inr payload')"

definition put_in :: "jobj \<Rightarrow> string \<Rightarrow> string \<Rightarrow> jval \<Rightarrow> jobj" where
  "put_in store section key v = pset store section (JObj (pset (obj_or_empty (pget store section)) key v))"

definition store_file_transition :: "jobj \<Rightarrow> jobj \<Rightarrow> jobj \<Rightarrow> authority_exn + jobj" where
  "store_file_transition store updated event =
     ebind (lift_py (pidx updated ''authority_id'')) (\<lambda>aid.
     case aid of
       JStr authority_id \<Rightarrow>
         (case pget (obj_or_empty (pget store ''events'')) authority_id of
            JList events \<Rightarrow>
              Inr (put_in (put_in store ''events'' authority_id (JList (events @ [JObj event])))
                     ''records'' authority_id (JObj updated))
          | _ \<Rightarrow> Inl (AuthorityStoreError ''authority event receipts are missing''))
     | _ \<Rightarrow> Inl (AuthorityStoreError ''authority event receipts are missing''))"

definition file_issue_or_get ::
  "pyenv \<Rightarrow> int \<Rightarrow> string \<Rightarrow> string \<Rightarrow> string \<Rightarrow> jval \<Rightarrow> jobj \<Rightarrow> authority_exn + (jobj \<times> jobj)" where
  "file_issue_or_get E now authority_id idempotency_key nonce action_binding payload =
     ebind (validated_issue_request E authority_id idempotency_key nonce action_binding) (\<lambda>request.
     ebind (file_root payload) (\<lambda>store.
     let records = obj_or_empty (pget store ''records'');
         existing_id = por (pget (obj_or_empty (pget store ''idempotency'')) idempotency_key)
                           (if phas records authority_id then JStr authority_id else JNull)
     in if existing_id \<noteq> JNull
        then ebind (required_record E records (py_str existing_id)) (\<lambda>existing.
             ebind (require_same_issue E existing request) (\<lambda>_. Inr (existing, store)))
        else let nonce_owner = pget (obj_or_empty (pget store ''nonces'')) nonce in
        if nonce_owner \<noteq> JNull
        then Inl (AuthorityConflictError (''authority nonce already belongs to '' @ py_repr nonce_owner))
        else ebind (new_issue E request now) (\<lambda>(rec, event).
             let r1 = put_in store ''records'' authority_id (JObj rec);
                 r2 = put_in r1 ''idempotency'' idempotency_key (JStr authority_id);
                 r3 = put_in r2 ''nonces'' nonce (JStr authority_id);
                 r4 = put_in r3 ''events'' authority_id (JList [JObj event])
             in Inr (rec, r4))))"

definition file_transition ::
  "pyenv \<Rightarrow> string \<Rightarrow> (jobj \<Rightarrow> authority_exn + (jobj \<times> jobj)) \<Rightarrow> jobj \<Rightarrow> authority_exn + (jobj \<times> jobj)" where
  "file_transition E authority_id transition payload =
     ebind (file_root payload) (\<lambda>store.
     ebind (required_record E (obj_or_empty (pget store ''records'')) authority_id) (\<lambda>current.
     ebind (transition current) (\<lambda>(updated, event).
     ebind (store_file_transition store updated event) (\<lambda>store'. Inr (updated, store')))))"

definition file_lease_for_dispatch ::
  "pyenv \<Rightarrow> int \<Rightarrow> string \<Rightarrow> jval \<Rightarrow> string \<Rightarrow> jval \<Rightarrow> jobj \<Rightarrow> authority_exn + (jobj \<times> jobj)" where
  "file_lease_for_dispatch E now authority_id expected_version lease_id lease_seconds =
     file_transition E authority_id
       (\<lambda>current. lease_transition E current expected_version lease_id lease_seconds now)"

definition file_mark_dispatched ::
  "pyenv \<Rightarrow> int \<Rightarrow> string \<Rightarrow> jval \<Rightarrow> string \<Rightarrow> jobj \<Rightarrow> authority_exn + (jobj \<times> jobj)" where
  "file_mark_dispatched E now authority_id expected_version lease_id =
     file_transition E authority_id
       (\<lambda>current. dispatch_transition E current expected_version lease_id now)"

definition file_complete_terminal ::
  "pyenv \<Rightarrow> int \<Rightarrow> string \<Rightarrow> jval \<Rightarrow> string \<Rightarrow> string \<Rightarrow> jval \<Rightarrow> jobj \<Rightarrow> authority_exn + (jobj \<times> jobj)" where
  "file_complete_terminal E now authority_id expected_version lease_id outcome result =
     file_transition E authority_id
       (\<lambda>current. terminal_transition E current expected_version lease_id outcome result now)"

definition file_read_for_reconciliation ::
  "pyenv \<Rightarrow> string \<Rightarrow> jobj \<Rightarrow> authority_exn + jobj option" where
  "file_read_for_reconciliation E authority_id payload =
     (if payload = [] then Inr None
      else ebind (file_root payload) (\<lambda>store.
        case pget (obj_or_empty (pget store ''records'')) authority_id of
          JNull \<Rightarrow> Inr None
        | JObj rec \<Rightarrow>
            ebind (reconciliation_payload E rec (pget (obj_or_empty (pget store ''events'')) authority_id))
              (\<lambda>p. Inr (Some p))
        | _ \<Rightarrow> Inl (AuthorityStoreError ''authority record is malformed'')))"

section \<open>The Postgres-backed store\<close>

text \<open>
  The two tables of \<open>migrations/postgres/006_repo_patch_authority_store.sql\<close> as lists of
  rows. An operation is one transaction: an error rolls back, so it leaves the state as
  it was. The row locks (\<open>FOR UPDATE\<close>, advisory locks) serialise transactions on a
  record, so an operation sees one state. A violated key constraint raises.
\<close>

record pg_row =
  row_authority_id :: string
  row_idempotency_key :: string
  row_nonce :: string
  row_action_binding_digest :: jval
  row_state :: jval
  row_version :: jval
  row_event_sequence :: jval
  row_latest_event_digest :: jval
  row_record :: jobj
  row_created_at :: jval
  row_updated_at :: jval

record pg_event =
  pe_authority_id :: jval
  pe_sequence :: jval
  pe_event_id :: jval
  pe_event_type :: jval
  pe_state_version :: jval
  pe_previous_event_digest :: jval
  pe_event_digest :: jval
  pe_recorded_at :: jval
  pe_receipt :: jobj

record pg_db =
  pg_records :: "pg_row list"
  pg_events :: "pg_event list"

definition integrity_error :: authority_exn where
  "integrity_error = PyExn (RuntimeError ''unique constraint violated'')"

definition append_event :: "pg_db \<Rightarrow> jobj \<Rightarrow> authority_exn + pg_db" where
  "append_event db event =
     (let row = \<lparr>pe_authority_id = pget event ''authority_id'', pe_sequence = pget event ''sequence'',
                 pe_event_id = pget event ''event_id'', pe_event_type = pget event ''event_type'',
                 pe_state_version = pget event ''state_version'',
                 pe_previous_event_digest = pget event ''previous_event_digest'',
                 pe_event_digest = pget event ''event_digest'', pe_recorded_at = pget event ''recorded_at'',
                 pe_receipt = event\<rparr>
      in if list_ex (\<lambda>e. (pe_authority_id e = pe_authority_id row \<and> pe_sequence e = pe_sequence row)
                        \<or> pe_event_id e = pe_event_id row \<or> pe_event_digest e = pe_event_digest row)
              (pg_events db)
         then Inl integrity_error
         else Inr (db\<lparr>pg_events := pg_events db @ [row]\<rparr>))"

definition pg_issue_or_get ::
  "pyenv \<Rightarrow> int \<Rightarrow> string \<Rightarrow> string \<Rightarrow> string \<Rightarrow> jval \<Rightarrow> pg_db \<Rightarrow> authority_exn + (jobj \<times> pg_db)" where
  "pg_issue_or_get E now authority_id idempotency_key nonce action_binding db =
     ebind (validated_issue_request E authority_id idempotency_key nonce action_binding) (\<lambda>request.
     case filter (\<lambda>r. row_authority_id r = authority_id \<or> row_idempotency_key r = idempotency_key
                     \<or> row_nonce r = nonce) (pg_records db) of
       row # _ \<Rightarrow>
         (let existing = row_record row in
          ebind (require_same_issue E existing request) (\<lambda>_. Inr (existing, db)))
     | [] \<Rightarrow>
         ebind (new_issue E request now) (\<lambda>(rec, event).
         let row = \<lparr>row_authority_id = authority_id, row_idempotency_key = idempotency_key,
                    row_nonce = nonce, row_action_binding_digest = pget rec ''action_binding_digest'',
                    row_state = pget rec ''state'', row_version = pget rec ''version'',
                    row_event_sequence = pget rec ''event_sequence'',
                    row_latest_event_digest = pget rec ''latest_event_digest'', row_record = rec,
                    row_created_at = pget rec ''issued_at'', row_updated_at = pget rec ''updated_at''\<rparr>
         in ebind (append_event (db\<lparr>pg_records := pg_records db @ [row]\<rparr>) event)
              (\<lambda>db'. Inr (rec, db'))))"

definition pg_transition ::
  "pyenv \<Rightarrow> string \<Rightarrow> jval \<Rightarrow> (jobj \<Rightarrow> authority_exn + (jobj \<times> jobj)) \<Rightarrow> pg_db
    \<Rightarrow> authority_exn + (jobj \<times> pg_db)" where
  "pg_transition E authority_id expected_version transition db =
     ebind (required_text (JStr authority_id) ''authority_id'') (\<lambda>_.
     ebind (required_version expected_version) (\<lambda>_.
     case filter (\<lambda>r. row_authority_id r = authority_id) (pg_records db) of
       [] \<Rightarrow> Inl (AuthorityNotFoundError (''authority record '' @ str_repr authority_id @ '' does not exist''))
     | row # _ \<Rightarrow>
         (let current = row_record row in
          ebind (transition current) (\<lambda>(updated, event).
          let hit = (\<lambda>r. row_authority_id r = authority_id \<and> row_version r = expected_version
                         \<and> row_state r = pget current ''state'');
              upd = (\<lambda>r. r\<lparr>row_state := pget updated ''state'', row_version := pget updated ''version'',
                            row_event_sequence := pget updated ''event_sequence'',
                            row_latest_event_digest := pget updated ''latest_event_digest'',
                            row_record := updated, row_updated_at := pget updated ''updated_at''\<rparr>)
          in if \<not> list_ex hit (pg_records db)
             then Inl (AuthorityConflictError ''authority compare-and-set failed'')
             else ebind (append_event (db\<lparr>pg_records := map (\<lambda>r. if hit r then upd r else r) (pg_records db)\<rparr>)
                    event) (\<lambda>db'. Inr (updated, db'))))))"

definition pg_lease_for_dispatch ::
  "pyenv \<Rightarrow> int \<Rightarrow> string \<Rightarrow> jval \<Rightarrow> string \<Rightarrow> jval \<Rightarrow> pg_db \<Rightarrow> authority_exn + (jobj \<times> pg_db)" where
  "pg_lease_for_dispatch E now authority_id expected_version lease_id lease_seconds =
     pg_transition E authority_id expected_version
       (\<lambda>current. lease_transition E current expected_version lease_id lease_seconds now)"

definition pg_mark_dispatched ::
  "pyenv \<Rightarrow> int \<Rightarrow> string \<Rightarrow> jval \<Rightarrow> string \<Rightarrow> pg_db \<Rightarrow> authority_exn + (jobj \<times> pg_db)" where
  "pg_mark_dispatched E now authority_id expected_version lease_id =
     pg_transition E authority_id expected_version
       (\<lambda>current. dispatch_transition E current expected_version lease_id now)"

definition pg_complete_terminal ::
  "pyenv \<Rightarrow> int \<Rightarrow> string \<Rightarrow> jval \<Rightarrow> string \<Rightarrow> string \<Rightarrow> jval \<Rightarrow> pg_db \<Rightarrow> authority_exn + (jobj \<times> pg_db)" where
  "pg_complete_terminal E now authority_id expected_version lease_id outcome result =
     pg_transition E authority_id expected_version
       (\<lambda>current. terminal_transition E current expected_version lease_id outcome result now)"

fun seq_key :: "jval \<Rightarrow> int" where
  "seq_key (JInt n) = n"
| "seq_key _ = 0"

definition pg_read_for_reconciliation ::
  "pyenv \<Rightarrow> string \<Rightarrow> pg_db \<Rightarrow> authority_exn + jobj option" where
  "pg_read_for_reconciliation E authority_id db =
     (case filter (\<lambda>r. row_authority_id r = authority_id) (pg_records db) of
        [] \<Rightarrow> Inr None
      | row # _ \<Rightarrow>
          ebind (reconciliation_payload E (row_record row)
                   (JList (map (\<lambda>e. JObj (pe_receipt e))
                     (sort_key (\<lambda>e. seq_key (pe_sequence e))
                        (filter (\<lambda>e. pe_authority_id e = JStr authority_id) (pg_events db))))))
            (\<lambda>p. Inr (Some p)))"

end
