(* ===== verification/Authority_Store_Props.thy ===== *)
theory Authority_Store_Props
  imports Authority_Store
begin

text \<open>
  Correctness of the authority store. The abstract view of a store maps an authority
  identifier to its record and its event receipts; \<open>good\<close> says what the code keeps true
  of an entry. The locale \<open>authority_store\<close> is the contract of the
  \<open>RepoPatchAuthorityStore\<close> protocol over that view; the file-backed and the Postgres
  store both interpret it.
\<close>

section \<open>Phases of an authority\<close>

datatype phase = Issued | Leased | Dispatched | Terminal

fun phase_name :: "phase \<Rightarrow> string" where
  "phase_name Issued = ''issued''"
| "phase_name Leased = ''leased''"
| "phase_name Dispatched = ''dispatched''"
| "phase_name Terminal = ''terminal''"

text \<open>What an event does to the phase.\<close>

definition phase_step :: "phase option \<Rightarrow> string \<Rightarrow> phase option" where
  "phase_step p ty =
     (if ty = ''issued'' then (if p = None then Some Issued else None)
      else if ty = ''leased_for_dispatch'' then (if p = Some Issued then Some Leased else None)
      else if ty = ''expired_pre_dispatch_lease_reclaimed'' then (if p = Some Leased then Some Leased else None)
      else if ty = ''marked_dispatched'' then (if p = Some Leased then Some Dispatched else None)
      else if ty = ''terminal_completed''
        then (if p = Some Leased \<or> p = Some Dispatched then Some Terminal else None)
      else None)"

fun replay :: "phase option \<Rightarrow> string list \<Rightarrow> phase option" where
  "replay p [] = p"
| "replay p (ty # tys) = (case phase_step p ty of None \<Rightarrow> None | Some q \<Rightarrow> replay (Some q) tys)"

fun event_type_of :: "jval \<Rightarrow> string" where
  "event_type_of (JObj e) = (case pget e ''event_type'' of JStr s \<Rightarrow> s | _ \<Rightarrow> [])"
| "event_type_of _ = []"

section \<open>The invariant of an entry\<close>

definition identity_fields :: "string list" where
  "identity_fields = [''schema_version'', ''authority_id'', ''idempotency_key'', ''nonce'',
     ''action_binding'', ''action_binding_digest'']"

definition good :: "pyenv \<Rightarrow> string \<Rightarrow> jobj \<Rightarrow> jval list \<Rightarrow> bool" where
  "good E aid r evs \<longleftrightarrow>
     validate_record_binding E r = Inr ()
   \<and> pget r ''authority_id'' = JStr aid
   \<and> evs \<noteq> []
   \<and> pget r ''version'' = JInt (int (length evs))
   \<and> pget r ''event_sequence'' = JInt (int (length evs))
   \<and> (\<exists>d. d \<noteq> [] \<and> pget r ''latest_event_digest'' = JStr d
        \<and> check_events E r 1 GENESIS_EVENT_DIGEST evs = Inr d)
   \<and> pget (obj_or_empty (last evs)) ''state_version'' = JInt (int (length evs))
   \<and> (\<exists>ph. replay None (map event_type_of evs) = Some ph \<and> pget r ''state'' = JStr (phase_name ph))"

text \<open>How a transition changes a record: identity fields kept, version raised by one,
  one event appended to the chain.\<close>

definition advances :: "pyenv \<Rightarrow> jobj \<Rightarrow> string \<Rightarrow> string \<Rightarrow> jobj \<Rightarrow> jobj \<Rightarrow> bool" where
  "advances E cur ty st upd ev \<longleftrightarrow>
     (\<exists>u pay n. with_event E u ty pay = Inr (upd, ev)
       \<and> pget u ''state'' = JStr st \<and> pget cur ''version'' = JInt n \<and> pget u ''version'' = JInt (n + 1)
       \<and> phas u ''updated_at''
       \<and> (\<forall>k \<in> set (''event_sequence'' # ''latest_event_digest'' # identity_fields). map_of u k = map_of cur k))"

section \<open>Lemmas on the transitions\<close>

lemma lift_py_Inr [simp]: "lift_py r = Inr x \<longleftrightarrow> r = Inr x"
  by (cases r) auto

lemma pidx_Inr [simp]: "pidx d k = Inr v \<longleftrightarrow> map_of d k = Some v"
  by (auto simp: pidx_def split: option.splits)

lemma pget_map_of: "map_of d k = Some v \<Longrightarrow> pget d k = v"
  by (simp add: pget_def)

lemma pget_neq_null: "pget d k = v \<Longrightarrow> v \<noteq> JNull \<Longrightarrow> map_of d k = Some v"
  by (auto simp: pget_def split: option.splits)

lemma map_of_eq_pget: "map_of d k = map_of d' k \<Longrightarrow> pget d k = pget d' k"
  by (simp add: pget_def)

lemma require_transition_ok:
  "require_transition E r v states = Inr () \<longleftrightarrow>
     validate_record_binding E r = Inr () \<and> (\<exists>n. v = JInt n \<and> 1 \<le> n \<and> py_eq (pget r ''version'') v)
     \<and> str_in (pget r ''state'') states"
  by (cases v) (auto simp: require_transition_def required_version_def)

lemma digest_nonempty [simp]: "canonical_authority_digest E v \<noteq> []"
  by (simp add: canonical_authority_digest_def canonical_digest_def)

lemma lease_advances:
  assumes "lease_transition E cur v lid secs now = Inr (upd, ev)" and "pget cur ''version'' = JInt n"
  shows "v = JInt n \<and> ((pget cur ''state'' = JStr ''issued'' \<and> advances E cur ''leased_for_dispatch'' ''leased'' upd ev)
     \<or> (pget cur ''state'' = JStr ''leased''
        \<and> advances E cur ''expired_pre_dispatch_lease_reclaimed'' ''leased'' upd ev))"
  using assms
  by (auto simp: lease_transition_def require_transition_ok str_in_iff Let_def next_version_def
      advances_def identity_fields_def split: option.splits jval.splits if_splits intro!: exI)

lemma dispatch_advances:
  assumes "dispatch_transition E cur v lid now = Inr (upd, ev)" and "pget cur ''version'' = JInt n"
  shows "v = JInt n \<and> pget cur ''state'' = JStr ''leased''
     \<and> advances E cur ''marked_dispatched'' ''dispatched'' upd ev"
  using assms
  by (auto simp: dispatch_transition_def require_transition_ok str_in_iff Let_def next_version_def
      advances_def identity_fields_def split: jval.splits intro!: exI)

lemma terminal_advances:
  assumes "terminal_transition E cur v lid oc res now = Inr (upd, ev)" and "pget cur ''version'' = JInt n"
  shows "v = JInt n \<and> (pget cur ''state'' = JStr ''leased'' \<or> pget cur ''state'' = JStr ''dispatched'')
     \<and> advances E cur ''terminal_completed'' ''terminal'' upd ev"
  using assms
  by (auto simp: terminal_transition_def require_transition_ok str_in_iff Let_def next_version_def
      advances_def identity_fields_def split: if_splits intro!: exI)

text \<open>The three compare-and-set operations as one, by a description of the call.\<close>

datatype store_op =
    Lease (op_version: jval) (op_lease: string) jval
  | Dispatch (op_version: jval) (op_lease: string)
  | Complete (op_version: jval) (op_lease: string) string jval

fun apply_op :: "pyenv \<Rightarrow> int \<Rightarrow> store_op \<Rightarrow> jobj \<Rightarrow> authority_exn + (jobj \<times> jobj)" where
  "apply_op E now (Lease v lid secs) cur = lease_transition E cur v lid secs now"
| "apply_op E now (Dispatch v lid) cur = dispatch_transition E cur v lid now"
| "apply_op E now (Complete v lid oc res) cur = terminal_transition E cur v lid oc res now"

lemma apply_op_fun:
  "apply_op E now (Lease v lid secs) = (\<lambda>cur. lease_transition E cur v lid secs now)"
  "apply_op E now (Dispatch v lid) = (\<lambda>cur. dispatch_transition E cur v lid now)"
  "apply_op E now (Complete v lid oc res) = (\<lambda>cur. terminal_transition E cur v lid oc res now)"
  by (simp_all add: fun_eq_iff)

definition next_phase :: "phase \<Rightarrow> string \<Rightarrow> phase \<Rightarrow> bool" where
  "next_phase p ty q \<longleftrightarrow> phase_step (Some p) ty = Some q"

lemma phase_name_inj [simp]: "phase_name p = phase_name q \<longleftrightarrow> p = q"
  by (cases p; cases q) auto

lemma phase_name_eq [simp]:
  "phase_name p = ''issued'' \<longleftrightarrow> p = Issued" "phase_name p = ''leased'' \<longleftrightarrow> p = Leased"
  "phase_name p = ''dispatched'' \<longleftrightarrow> p = Dispatched" "phase_name p = ''terminal'' \<longleftrightarrow> p = Terminal"
  by (cases p; simp)+

lemma next_phase_table [simp]:
  "next_phase Issued ''leased_for_dispatch'' Leased"
  "next_phase Leased ''expired_pre_dispatch_lease_reclaimed'' Leased"
  "next_phase Leased ''marked_dispatched'' Dispatched"
  "next_phase Leased ''terminal_completed'' Terminal"
  "next_phase Dispatched ''terminal_completed'' Terminal"
  by (simp_all add: next_phase_def phase_step_def)

lemma apply_op_advances:
  assumes "apply_op E now op cur = Inr (upd, ev)" and "pget cur ''version'' = JInt n"
    and st: "pget cur ''state'' = JStr (phase_name p)"
  shows "op_version op = JInt n
     \<and> (\<exists>ty q. next_phase p ty q \<and> advances E cur ty (phase_name q) upd ev)"
proof (cases op)
  case (Lease v lid secs)
  with assms lease_advances [of E cur v lid secs now upd ev n] show ?thesis
    by (metis apply_op.simps(1) jval.inject(4) next_phase_table(1,2) phase_name.simps(2) phase_name_eq(1,2)
        store_op.sel(1))
next
  case (Dispatch v lid)
  with assms dispatch_advances [of E cur v lid now upd ev n] show ?thesis
    by (metis apply_op.simps(2) jval.inject(4) next_phase_table(3) phase_name.simps(3) phase_name_eq(2)
        store_op.sel(2))
next
  case (Complete v lid oc res)
  with assms terminal_advances [of E cur v lid oc res now upd ev n] show ?thesis
    by (metis apply_op.simps(3) jval.inject(4) next_phase_table(4,5) phase_name.simps(4) phase_name_eq(2,3)
        store_op.sel(3))
qed

lemma replay_append:
  "replay p (tys @ [ty]) = (case replay p tys of None \<Rightarrow> (if tys = [] then phase_step None ty else None)
     | Some q \<Rightarrow> phase_step (Some q) ty)"
  by (induction p tys rule: replay.induct) (auto split: option.splits)

lemma check_events_Cons:
  "check_events E r n d (e # evs) = Inr d' \<longleftrightarrow>
     (\<exists>event. e = JObj event
       \<and> py_eq (pget event ''sequence'') (JInt n)
       \<and> pget event ''schema_version'' = JStr AUTHORITY_EVENT_VERSION
       \<and> py_eq (pget event ''state_version'') (JInt n)
       \<and> py_eq (pget event ''authority_id'') (pget r ''authority_id'')
       \<and> py_eq (pget event ''action_binding_digest'') (pget r ''action_binding_digest'')
       \<and> pget event ''previous_event_digest'' = JStr d
       \<and> pget (ppop event ''event_id'') ''event_digest''
           = JStr (canonical_authority_digest E (JObj (ppop (ppop event ''event_id'') ''event_digest'')))
       \<and> check_events E r (n + 1)
           (canonical_authority_digest E (JObj (ppop (ppop event ''event_id'') ''event_digest''))) evs = Inr d')"
  by (cases e) (auto simp: Let_def)

declare check_events.simps(2) [simp del] check_events_Cons [simp]

lemma check_events_append:
  "check_events E r n d (evs @ [e]) = Inr d' \<longleftrightarrow>
     (\<exists>d1. check_events E r n d evs = Inr d1 \<and> check_events E r (n + int (length evs)) d1 [e] = Inr d')"
proof (induction evs arbitrary: n d)
  case (Cons ev evs)
  then show ?case
    by (auto simp del: check_events_Cons simp: check_events_Cons [where evs = "evs @ [e]"]
      check_events_Cons [of _ _ _ _ ev evs] add.assoc)
qed simp

lemma check_events_cong:
  "pget r ''authority_id'' = pget r' ''authority_id'' \<Longrightarrow>
   pget r ''action_binding_digest'' = pget r' ''action_binding_digest'' \<Longrightarrow>
   check_events E r n d evs = check_events E r' n d evs"
  by (induction evs arbitrary: n d) (simp_all add: check_events.simps(2) Let_def split: jval.split)

section \<open>One step keeps an entry good\<close>

definition stamped :: "string \<Rightarrow> int \<Rightarrow> string \<Rightarrow> jobj \<Rightarrow> bool" where
  "stamped aid n ty ev \<longleftrightarrow> pget ev ''authority_id'' = JStr aid \<and> pget ev ''sequence'' = JInt n
     \<and> pget ev ''state_version'' = JInt n \<and> event_type_of (JObj ev) = ty"

lemma with_event_appends:
  assumes "with_event E u ty pay = Inr (upd, ev)"
    and "pget u ''event_sequence'' = JInt n" and "pget u ''latest_event_digest'' = JStr d" and "d \<noteq> []"
    and "pget u ''version'' = JInt (n + 1)"
    and "pget u ''authority_id'' = JStr aid" and "pget u ''action_binding_digest'' = JStr bd"
  shows "(\<exists>d'. d' \<noteq> [] \<and> upd = pset (pset u ''event_sequence'' (JInt (n + 1))) ''latest_event_digest'' (JStr d')
       \<and> check_events E upd (n + 1) d [JObj ev] = Inr d')
     \<and> stamped aid (n + 1) ty ev"
proof -
  have seq: "pget_or u ''event_sequence'' (JInt 0) = JInt n"
    using pget_neq_null [OF assms(2)] by (simp add: pget_or_def)
  have idx: "map_of u ''authority_id'' = Some (JStr aid)" "map_of u ''action_binding_digest'' = Some (JStr bd)"
      "map_of u ''version'' = Some (JInt (n + 1))"
    using assms pget_neq_null by fastforce+
  show ?thesis
    using assms seq idx by (auto simp: with_event_def Let_def event_body_def por_def json_copy_def
        pget_def ppop_def stamped_def dest: pget_map_of)
qed

lemma identity_pget:
  assumes "\<forall>k \<in> set (''event_sequence'' # ''latest_event_digest'' # identity_fields). map_of u k = map_of cur k"
  shows "\<forall>k \<in> set (''event_sequence'' # ''latest_event_digest'' # identity_fields). pget u k = pget cur k"
  using assms by (simp add: pget_def)

lemma validate_binding_cong:
  assumes "\<forall>k \<in> set identity_fields. pget u k = pget cur k"
  shows "validate_record_binding E u = validate_record_binding E cur"
  using assms by (simp add: validate_record_binding_def identity_fields_def Let_def)

lemma validate_binding_digest:
  "validate_record_binding E r = Inr () \<Longrightarrow>
     pget r ''action_binding_digest'' = JStr (canonical_authority_digest E (pget r ''action_binding''))"
  by (auto simp: validate_record_binding_def Let_def split: if_splits)

lemma good_advance:
  assumes g: "good E aid cur evs" and st: "pget cur ''state'' = JStr (phase_name p)"
    and adv: "advances E cur ty (phase_name q) upd ev" and np: "next_phase p ty q"
  shows "good E aid upd (evs @ [JObj ev]) \<and> (\<forall>k \<in> set identity_fields. pget upd k = pget cur k)
     \<and> pget upd ''state'' = JStr (phase_name q) \<and> stamped aid (int (length evs) + 1) ty ev"
proof -
  obtain u pay n where we: "with_event E u ty pay = Inr (upd, ev)"
    and u: "pget u ''state'' = JStr (phase_name q)" "pget cur ''version'' = JInt n"
           "pget u ''version'' = JInt (n + 1)"
    and same0: "\<forall>k \<in> set (''event_sequence'' # ''latest_event_digest'' # identity_fields). map_of u k = map_of cur k"
    using adv unfolding advances_def by blast
  have same: "\<forall>k \<in> set (''event_sequence'' # ''latest_event_digest'' # identity_fields). pget u k = pget cur k"
    by (rule identity_pget [OF same0])
  obtain d where d: "d \<noteq> []" "pget cur ''latest_event_digest'' = JStr d"
      "check_events E cur 1 GENESIS_EVENT_DIGEST evs = Inr d"
    using g by (auto simp: good_def)
  have n: "n = int (length evs)" and vb: "validate_record_binding E cur = Inr ()"
    and cur: "pget cur ''event_sequence'' = JInt n" "pget cur ''authority_id'' = JStr aid"
    using g u by (auto simp: good_def)
  obtain d' where d': "d' \<noteq> []"
      "upd = pset (pset u ''event_sequence'' (JInt (n + 1))) ''latest_event_digest'' (JStr d')"
      "check_events E upd (n + 1) d [JObj ev] = Inr d'"
    and ev: "stamped aid (n + 1) ty ev"
    using with_event_appends [OF we, of n d aid] same cur d u(3) validate_binding_digest [OF vb]
    by (auto simp: identity_fields_def)
  have ids: "\<forall>k \<in> set identity_fields. pget upd k = pget cur k"
    using same by (auto simp: d'(2) identity_fields_def)
  have "check_events E upd 1 GENESIS_EVENT_DIGEST evs = Inr d"
    using check_events_cong [of upd cur E 1 GENESIS_EVENT_DIGEST evs] ids d(3) by (simp add: identity_fields_def)
  then have "check_events E upd 1 GENESIS_EVENT_DIGEST (evs @ [JObj ev]) = Inr d'"
    using d'(3) n by (simp add: check_events_append add.commute del: check_events_Cons)
  moreover have "replay None (map event_type_of (evs @ [JObj ev])) = Some q"
    using g st np ev by (auto simp: good_def replay_append next_phase_def stamped_def)
  moreover have "validate_record_binding E upd = Inr ()" using validate_binding_cong [OF ids] vb by simp
  moreover have "pget upd ''authority_id'' = JStr aid" using ids cur by (simp add: identity_fields_def)
  ultimately show ?thesis using ids d' u ev n by (simp add: good_def stamped_def add.commute)
qed

lemma apply_op_good:
  assumes "good E aid cur evs" and "apply_op E now op cur = Inr (upd, ev)"
  shows "good E aid upd (evs @ [JObj ev]) \<and> op_version op = pget cur ''version''
     \<and> (\<forall>k \<in> set identity_fields. pget upd k = pget cur k)
     \<and> (\<exists>ty. stamped aid (int (length evs) + 1) ty ev)"
proof -
  obtain p where p: "pget cur ''state'' = JStr (phase_name p)" and v: "pget cur ''version'' = JInt (int (length evs))"
    using assms(1) by (auto simp: good_def)
  obtain ty q where "next_phase p ty q" "advances E cur ty (phase_name q) upd ev"
    and "op_version op = JInt (int (length evs))"
    using apply_op_advances [OF assms(2) v p] by auto
  with good_advance [OF assms(1) p] v show ?thesis by (metis jval.inject(2))
qed

lemma complete_is_terminal:
  assumes g: "good E aid cur evs" and t: "terminal_transition E cur v lid oc res now = Inr (upd, ev)"
  shows "pget upd ''state'' = JStr ''terminal''"
proof -
  have "pget cur ''version'' = JInt (int (length evs))" using g by (simp add: good_def)
  from terminal_advances [OF t this] obtain p where p: "pget cur ''state'' = JStr (phase_name p)"
      "next_phase p ''terminal_completed'' Terminal" and "advances E cur ''terminal_completed'' ''terminal'' upd ev"
    by (metis next_phase_table(4,5) phase_name.simps(2,3))
  then show ?thesis using good_advance [OF g p(1) _ p(2)] by simp
qed

lemma issue_request_Inr:
  "validated_issue_request E aid ik nc b = Inr req \<longleftrightarrow>
     py_strip aid \<noteq> [] \<and> py_strip ik \<noteq> [] \<and> hex64 nc \<and> is_obj b \<and> truthy b
     \<and> req = [(''authority_id'', JStr aid), (''idempotency_key'', JStr ik), (''nonce'', JStr nc),
            (''action_binding'', b), (''action_binding_digest'', JStr (canonical_authority_digest E b))]"
  by (auto simp: validated_issue_request_def required_text_def json_copy_def)

lemma same_issue_Inr:
  assumes "validated_issue_request E aid ik nc b = Inr req"
  shows "require_same_issue E r req = Inr () \<longleftrightarrow> validate_record_binding E r = Inr ()
     \<and> pget r ''authority_id'' = JStr aid \<and> pget r ''idempotency_key'' = JStr ik \<and> pget r ''nonce'' = JStr nc
     \<and> pget r ''action_binding_digest'' = JStr (canonical_authority_digest E b)
     \<and> py_eq (pget r ''action_binding'') b"
  using assms by (auto simp: require_same_issue_def issue_request_Inr)

lemma new_issue_good:
  assumes req: "validated_issue_request E aid ik nc b = Inr req" and new: "new_issue E req now = Inr (r, ev)"
  shows "good E aid r [JObj ev] \<and> pget r ''nonce'' = JStr nc \<and> pget r ''idempotency_key'' = JStr ik
    \<and> pget r ''action_binding'' = b \<and> stamped aid 1 ''issued'' ev"
proof -
  obtain u pay where we: "with_event E u ''issued'' pay = Inr (r, ev)"
    and u: "pget u ''schema_version'' = JStr AUTHORITY_RECORD_VERSION" "pget u ''authority_id'' = JStr aid"
      "pget u ''idempotency_key'' = JStr ik" "pget u ''nonce'' = JStr nc" "pget u ''action_binding'' = b"
      "pget u ''action_binding_digest'' = JStr (canonical_authority_digest E b)"
      "pget u ''state'' = JStr ''issued''" "pget u ''version'' = JInt 1" "pget u ''event_sequence'' = JInt 0"
      "pget u ''latest_event_digest'' = JStr GENESIS_EVENT_DIGEST"
    using new req unfolding issue_request_Inr new_issue_def Let_def by simp
  have b: "is_obj b" "truthy b" using req by (simp_all add: issue_request_Inr)
  obtain d where d: "d \<noteq> []" "r = pset (pset u ''event_sequence'' (JInt 1)) ''latest_event_digest'' (JStr d)"
      "check_events E r 1 GENESIS_EVENT_DIGEST [JObj ev] = Inr d"
    and ev: "stamped aid 1 ''issued'' ev"
    using with_event_appends [OF we u(9,10), of aid] u by (auto simp: GENESIS_EVENT_DIGEST_def)
  have "validate_record_binding E r = Inr ()"
    using u b by (simp add: validate_record_binding_def d(2))
  moreover have "replay None (map event_type_of [JObj ev]) = Some Issued"
    using ev by (simp add: phase_step_def stamped_def del: event_type_of.simps)
  moreover have "pget r ''latest_event_digest'' = JStr d" "pget r ''state'' = JStr (phase_name Issued)"
    "pget r ''authority_id'' = JStr aid" "pget r ''version'' = JInt 1" "pget r ''event_sequence'' = JInt 1"
    using u by (simp_all add: d(2))
  ultimately have "good E aid r [JObj ev]" using d(1,3) ev unfolding good_def stamped_def by auto
  then show ?thesis using u ev by (simp add: d(2))
qed

section \<open>The lease window\<close>

lemma with_event_total:
  assumes "pget u ''event_sequence'' = JInt n" and "phas u ''authority_id''" and "phas u ''version''"
    and "phas u ''action_binding_digest''" and "phas u ''updated_at''"
  shows "is_ok (with_event E u ty pay)"
  using assms pget_neq_null [OF assms(1)]
  by (auto simp: is_ok_iff with_event_def phas_def pget_or_def json_copy_def Let_def pidx_def)

lemma phas_pget: "pget d k = v \<Longrightarrow> v \<noteq> JNull \<Longrightarrow> phas d k"
  using pget_not_phas by fastforce

lemma lease_result:
  assumes "lease_transition E cur v lid secs now = Inr (upd, ev)"
  shows "pget upd ''state'' = JStr ''leased'' \<and> pget upd ''lease_id'' = JStr lid \<and> py_strip lid \<noteq> []
    \<and> (\<exists>n > 0. secs = JInt n \<and> pget upd ''lease_expires_at'' = JStr (format_time E (now + n * 1000000)))"
proof -
  obtain u pay ty n where "with_event E u ty pay = Inr (upd, ev)" and lid: "py_strip lid \<noteq> []"
    and u: "pget u ''state'' = JStr ''leased''" "pget u ''lease_id'' = JStr lid"
      "pget u ''lease_expires_at'' = JStr (format_time E (now + n * 1000000))" and n: "secs = JInt n" "n > 0"
    using assms by (auto simp: lease_transition_def required_text_def Let_def split: jval.splits if_splits)
  then obtain k d where "upd = pset (pset u ''event_sequence'' (JInt k)) ''latest_event_digest'' (JStr d)"
    by (auto simp: with_event_def Let_def)
  then show ?thesis using u lid n by simp
qed

lemma dispatch_ok_iff:
  assumes g: "good E aid r evs" and st: "pget r ''state'' = JStr ''leased''" and l: "pget r ''lease_id'' = JStr lid"
    and x: "pget r ''lease_expires_at'' = JStr s" "parse_time E s = Inr t" and "py_strip lid \<noteq> []"
  shows "is_ok (dispatch_transition E r v' lid' now) \<longleftrightarrow> v' = pget r ''version'' \<and> lid' = lid \<and> now \<le> t"
    (is "?ok \<longleftrightarrow> ?c")
proof
  assume ?ok
  then obtain upd ev where d: "dispatch_transition E r v' lid' now = Inr (upd, ev)" by (auto simp: is_ok_iff)
  have "v' = pget r ''version''" using dispatch_advances [OF d] g by (auto simp: good_def)
  then show ?c using d x l by (auto simp: dispatch_transition_def require_lease_def)
next
  assume c: ?c
  have v: "pget r ''version'' = JInt (int (length evs))" "evs \<noteq> []" "validate_record_binding E r = Inr ()"
     "pget r ''event_sequence'' = JInt (int (length evs))" "pget r ''authority_id'' = JStr aid"
    using g by (auto simp: good_def)
  have "require_transition E r v' [''leased''] = Inr ()"
    using c v st by (cases evs) (auto simp: require_transition_ok str_in_iff)
  moreover have "require_lease r lid' = Inr ()" using c l assms(6) by (simp add: require_lease_def required_text_def)
  ultimately show ?ok
    using c x v(4,5) phas_pget [OF v(5)] phas_pget [OF validate_binding_digest [OF v(3)]]
    by (auto simp: dispatch_transition_def Let_def intro!: with_event_total)
qed

section \<open>The contract of a store\<close>

inductive store_step ::
  "(int \<Rightarrow> string \<Rightarrow> string \<Rightarrow> string \<Rightarrow> jval \<Rightarrow> 's \<Rightarrow> authority_exn + (jobj \<times> 's))
    \<Rightarrow> (int \<Rightarrow> string \<Rightarrow> store_op \<Rightarrow> 's \<Rightarrow> authority_exn + (jobj \<times> 's)) \<Rightarrow> 's \<Rightarrow> 's \<Rightarrow> bool"
  for issue run where
  step_issue: "issue now aid ik nc b s = Inr (r, t) \<Longrightarrow> store_step issue run s t"
| step_run: "run now aid op s = Inr (r, t) \<Longrightarrow> store_step issue run s t"

text \<open>A failed call leaves the store as it was, so only successful calls are steps.\<close>

definition same_identity :: "jobj \<Rightarrow> jobj \<Rightarrow> bool" where
  "same_identity r r' \<longleftrightarrow> (\<forall>k \<in> set identity_fields. pget r' k = pget r k)"

lemma same_identity_refl [simp]: "same_identity r r"
  by (simp add: same_identity_def)

lemma same_identity_trans [trans]: "same_identity a b \<Longrightarrow> same_identity b c \<Longrightarrow> same_identity a c"
  by (simp add: same_identity_def)

definition issue_outcome ::
  "pyenv \<Rightarrow> int \<Rightarrow> string \<Rightarrow> jobj \<Rightarrow> (string \<Rightarrow> (jobj \<times> jval list) option) \<Rightarrow> jobj
    \<Rightarrow> (string \<Rightarrow> (jobj \<times> jval list) option) \<Rightarrow> bool" where
  "issue_outcome E now aid req v r w \<longleftrightarrow>
     (w = v \<and> (\<exists>evs. v aid = Some (r, evs)) \<and> require_same_issue E r req = Inr ())
   \<or> (v aid = None \<and> (\<exists>ev. new_issue E req now = Inr (r, ev) \<and> w = v(aid \<mapsto> (r, [JObj ev]))))"

locale authority_store =
  fixes E :: pyenv
    and init :: "'s"
    and inv :: "'s \<Rightarrow> bool"
    and view :: "'s \<Rightarrow> string \<Rightarrow> (jobj \<times> jval list) option"
    and issue :: "int \<Rightarrow> string \<Rightarrow> string \<Rightarrow> string \<Rightarrow> jval \<Rightarrow> 's \<Rightarrow> authority_exn + (jobj \<times> 's)"
    and run :: "int \<Rightarrow> string \<Rightarrow> store_op \<Rightarrow> 's \<Rightarrow> authority_exn + (jobj \<times> 's)"
    and read :: "string \<Rightarrow> 's \<Rightarrow> authority_exn + jobj option"
  assumes init_law: "inv init"
    and entry_good: "inv s \<Longrightarrow> view s aid = Some (r, evs) \<Longrightarrow> good E aid r evs"
    and keys_unique: "inv s \<Longrightarrow> view s aid = Some (r, evs) \<Longrightarrow> view s aid' = Some (r', evs') \<Longrightarrow>
          pget r ''nonce'' = pget r' ''nonce'' \<or> pget r ''idempotency_key'' = pget r' ''idempotency_key'' \<Longrightarrow> aid = aid'"
    and issue_law: "inv s \<Longrightarrow> issue now aid ik nc b s = Inr (r, t) \<Longrightarrow>
          inv t \<and> (\<exists>req. validated_issue_request E aid ik nc b = Inr req
                     \<and> issue_outcome E now aid req (view s) r (view t))"
    and reissue_law: "inv s \<Longrightarrow> view s aid = Some (r, evs) \<Longrightarrow>
          validated_issue_request E aid ik nc b = Inr req \<Longrightarrow> require_same_issue E r req = Inr () \<Longrightarrow>
          issue now aid ik nc b s = Inr (r, s)"
    and run_law: "inv s \<Longrightarrow> run now aid op s = Inr (r, t) \<Longrightarrow>
          inv t \<and> (\<exists>cur evs ev. view s aid = Some (cur, evs) \<and> apply_op E now op cur = Inr (r, ev)
                     \<and> view t = (view s)(aid \<mapsto> (r, evs @ [JObj ev])))"
    and read_law: "inv s \<Longrightarrow> read aid s =
          (case view s aid of None \<Rightarrow> Inr None
           | Some (r, evs) \<Rightarrow> ebind (reconciliation_payload E r (JList evs)) (\<lambda>p. Inr (Some p)))"
begin

lemma step_law: "store_step issue run s t \<Longrightarrow> inv s \<Longrightarrow> inv t"
  by (cases rule: store_step.cases) (auto dest: issue_law run_law)

end

sublocale authority_store \<subseteq> steps: invariant_system "\<lambda>s. s = init" "store_step issue run" inv
  by unfold_locales (auto intro: init_law step_law)

text \<open>The receipt chain of a good entry reconciles.\<close>

lemma good_reconciles:
  assumes "good E aid r evs"
  shows "reconciliation_payload E r (JList evs) =
    Inr [(''schema_version'', JStr AUTHORITY_STORE_VERSION), (''record'', JObj r),
         (''events'', JList evs), (''event_chain_valid'', JBool True)]"
  using assms by (cases evs) (auto simp: good_def reconciliation_payload_def simp del: check_events_Cons)

lemma phase_step_dispatched: "phase_step p ty = Some q \<Longrightarrow> p \<in> {Some Dispatched, Some Terminal} \<Longrightarrow>
    q \<in> {Dispatched, Terminal} \<and> ty \<noteq> ''marked_dispatched''"
  by (auto simp: phase_step_def split: if_splits)

lemma replay_after_dispatch:
  "replay p tys = Some q \<Longrightarrow> p \<in> {Some Dispatched, Some Terminal} \<Longrightarrow> count_list tys ''marked_dispatched'' = 0"
proof (induction p tys rule: replay.induct)
  case (2 p ty tys)
  then show ?case using phase_step_dispatched [of p ty] by (auto split: option.splits)
qed simp

lemma replay_dispatch_once: "replay p tys = Some q \<Longrightarrow> count_list tys ''marked_dispatched'' \<le> 1"
proof (induction p tys rule: replay.induct)
  case (2 p ty tys)
  then obtain p' where p': "phase_step p ty = Some p'" "replay (Some p') tys = Some q" by (auto split: option.splits)
  show ?case
  proof (cases "ty = ''marked_dispatched''")
    case True
    then have "p' = Dispatched" using p' by (auto simp: phase_step_def split: if_splits)
    then show ?thesis using replay_after_dispatch [OF p'(2)] True by simp
  qed (use 2 p' in auto)
qed simp

section \<open>What every store that keeps the contract guarantees\<close>

lemma same_issue_cong:
  assumes "same_identity r r'"
  shows "require_same_issue E r req = require_same_issue E r' req"
proof -
  have "pget r' k = pget r k" if "k \<in> set identity_fields" for k
    using assms that by (simp add: same_identity_def)
  then show ?thesis
    using validate_binding_cong [of r' r E] by (simp add: require_same_issue_def identity_fields_def)
qed

lemma new_issue_same:
  assumes "validated_issue_request E aid ik nc b = Inr req" and "new_issue E req now = Inr (r, ev)" and "wf_jval b"
  shows "require_same_issue E r req = Inr ()"
proof -
  note n = new_issue_good [OF assms(1,2)]
  have g: "validate_record_binding E r = Inr ()" "pget r ''authority_id'' = JStr aid"
    using n by (auto simp: good_def)
  show ?thesis
    using n g validate_binding_digest [OF g(1)] py_eq_refl [OF assms(3)] by (simp add: same_issue_Inr [OF assms(1)])
qed

lemma apply_op_terminal:
  assumes "pget cur ''state'' = JStr ''terminal''"
  shows "apply_op E now op cur \<noteq> Inr (upd, ev)"
  using assms by (cases op)
    (auto simp: lease_transition_def dispatch_transition_def terminal_transition_def require_transition_ok str_in_iff)

context authority_store begin

lemma entry_step:
  assumes "store_step issue run s t" and "inv s" and "view s aid = Some (r, evs)"
  shows "\<exists>r' evs'. view t aid = Some (r', evs @ evs') \<and> same_identity r r' \<and> (evs' = [] \<longrightarrow> r' = r)"
  using assms(1)
proof cases
  case (step_issue now aid' ik nc b r')
  from issue_law [OF assms(2) this] obtain req where "issue_outcome E now aid' req (view s) r' (view t)" by blast
  then show ?thesis using assms(3) by (auto simp: issue_outcome_def)
next
  case (step_run now aid' op r')
  from run_law [OF assms(2) this] obtain cur es ev where
    v: "view s aid' = Some (cur, es)" "apply_op E now op cur = Inr (r', ev)"
       "view t = (view s)(aid' \<mapsto> (r', es @ [JObj ev]))" by blast
  have "same_identity cur r'"
    using apply_op_good [OF entry_good [OF assms(2) v(1)] v(2)] by (simp add: same_identity_def)
  then show ?thesis using assms(3) v by (cases "aid' = aid") auto
qed

lemma entry_run:
  assumes "(store_step issue run)\<^sup>*\<^sup>* s t" and "inv s" and "view s aid = Some (r, evs)"
  shows "\<exists>r' evs'. view t aid = Some (r', evs @ evs') \<and> same_identity r r' \<and> (evs' = [] \<longrightarrow> r' = r)"
  using assms(1)
proof (induction rule: rtranclp_induct)
  case (step u t)
  then obtain r1 evs1 where u: "view u aid = Some (r1, evs @ evs1)" "same_identity r r1" "evs1 = [] \<longrightarrow> r1 = r" by blast
  obtain r2 evs2 where "view t aid = Some (r2, (evs @ evs1) @ evs2)" "same_identity r1 r2" "evs2 = [] \<longrightarrow> r2 = r1"
    using entry_step [OF step.hyps(2) steps.rtranclp_inv [OF step.hyps(1) assms(2)] u(1)] by blast
  with u same_identity_trans show ?case by (intro exI [of _ r2] exI [of _ "evs1 @ evs2"]) auto
qed (use assms(3) in auto)

lemma run_version:
  assumes "inv s" and "run now aid op s = Inr (r, t)"
  shows "\<exists>evs ev. view t aid = Some (r, evs @ [JObj ev]) \<and> op_version op = JInt (int (length evs))
     \<and> pget r ''version'' = JInt (int (length evs) + 1) \<and> (\<exists>cur. view s aid = Some (cur, evs))"
proof -
  obtain cur evs ev where v: "view s aid = Some (cur, evs)" "apply_op E now op cur = Inr (r, ev)"
       "view t = (view s)(aid \<mapsto> (r, evs @ [JObj ev]))" using run_law [OF assms] by blast
  note g = entry_good [OF assms(1) v(1)]
  then have "pget cur ''version'' = JInt (int (length evs))" by (simp add: good_def)
  with apply_op_good [OF g v(2)] v show ?thesis by (auto simp: good_def add.commute)
qed

lemma cas_exclusive:
  assumes "reach (\<lambda>s. s = init) (store_step issue run) s" and "run now aid op s = Inr (r, t)"
    and "(store_step issue run)\<^sup>*\<^sup>* t u" and "op_version op' = op_version op"
  shows "\<not> is_ok (run now' aid op' u)"
proof
  assume "is_ok (run now' aid op' u)"
  then obtain r' w where u': "run now' aid op' u = Inr (r', w)" by (auto simp: is_ok_iff)
  have s: "inv s" using steps.reach_inv [OF assms(1)] .
  then have t: "inv t" using run_law assms(2) by blast
  then have u: "inv u" using steps.rtranclp_inv [OF assms(3)] by blast
  obtain evs ev where e: "view t aid = Some (r, evs @ [JObj ev])" "op_version op = JInt (int (length evs))"
    using run_version [OF s assms(2)] by blast
  obtain evs2 cur2 where e2: "view u aid = Some (cur2, evs2)" "op_version op' = JInt (int (length evs2))"
    using run_version [OF u u'] by blast
  from entry_run [OF assms(3) t e(1)] e2 e assms(4) show False by auto
qed

lemma dispatched_once:
  assumes "reach (\<lambda>s. s = init) (store_step issue run) s" and "view s aid = Some (r, evs)"
  shows "count_list (map event_type_of evs) ''marked_dispatched'' \<le> 1"
  using entry_good [OF steps.reach_inv [OF assms(1)] assms(2)] replay_dispatch_once by (auto simp: good_def)

lemma terminal_final:
  assumes "reach (\<lambda>s. s = init) (store_step issue run) s" and "view s aid = Some (r, evs)"
    and "pget r ''state'' = JStr ''terminal''" and "(store_step issue run)\<^sup>*\<^sup>* s t"
  shows "view t aid = Some (r, evs) \<and> \<not> is_ok (run now aid op t)"
proof -
  have s: "inv s" using steps.reach_inv [OF assms(1)] .
  have no: "\<not> is_ok (run now' aid op' u)" if "inv u" "view u aid = Some (r, evs)" for u now' op'
    using run_law [OF that(1)] that(2) apply_op_terminal [OF assms(3)] by (fastforce simp: is_ok_iff)
  from assms(4) have "inv t \<and> view t aid = Some (r, evs)"
  proof (induction rule: rtranclp_induct)
    case (step u t)
    from step.hyps(2) show ?case
    proof cases
      case (step_issue now aid' ik nc b r')
      with step.IH issue_law [OF _ step_issue] show ?thesis by (auto simp: issue_outcome_def)
    next
      case (step_run now aid' op r')
      with step.IH no [of u now op] have "aid' \<noteq> aid" by auto
      then show ?thesis using step.IH run_law [OF _ step_run] by auto
    qed
  qed (use s assms(2) in simp)
  with no show ?thesis by blast
qed

lemma reissue_same:
  assumes "reach (\<lambda>s. s = init) (store_step issue run) s" and "issue now aid ik nc b s = Inr (r, t)" and "wf_jval b"
    and "(store_step issue run)\<^sup>*\<^sup>* t u"
  shows "\<exists>r'. issue now' aid ik nc b u = Inr (r', u) \<and> same_identity r r'"
proof -
  have s: "inv s" using steps.reach_inv [OF assms(1)] .
  obtain req where t: "inv t" and req: "validated_issue_request E aid ik nc b = Inr req"
    and out: "issue_outcome E now aid req (view s) r (view t)" using issue_law [OF s assms(2)] by blast
  obtain evs where evs: "view t aid = Some (r, evs)" and same: "require_same_issue E r req = Inr ()"
    using out new_issue_same [OF req _ assms(3)] unfolding issue_outcome_def by fastforce
  obtain r' evs' where r': "view u aid = Some (r', evs @ evs')" "same_identity r r'"
    using entry_run [OF assms(4) t evs] by blast
  have "issue now' aid ik nc b u = Inr (r', u)"
    using reissue_law [OF steps.rtranclp_inv [OF assms(4) t] r'(1) req] same same_issue_cong [OF r'(2)] by simp
  with r'(2) show ?thesis by blast
qed

lemma read_reconciled:
  assumes "reach (\<lambda>s. s = init) (store_step issue run) s"
  shows "read aid s = (case view s aid of None \<Rightarrow> Inr None | Some (r, evs) \<Rightarrow>
     Inr (Some [(''schema_version'', JStr AUTHORITY_STORE_VERSION), (''record'', JObj r),
         (''events'', JList evs), (''event_chain_valid'', JBool True)]))"
  using read_law [OF steps.reach_inv [OF assms], of aid]
    good_reconciles [OF entry_good [OF steps.reach_inv [OF assms]]] by (auto split: option.splits)

lemma one_owner:
  assumes "reach (\<lambda>s. s = init) (store_step issue run) s"
    and "view s aid = Some (r, evs)" and "view s aid' = Some (r', evs')"
    and "pget r ''nonce'' = pget r' ''nonce'' \<or> pget r ''idempotency_key'' = pget r' ''idempotency_key''"
  shows "aid = aid'"
  using keys_unique [OF steps.reach_inv [OF assms(1)] assms(2,3,4)] .

end

section \<open>A concrete environment\<close>

text \<open>The length in place of the hash and a decimal time codec, to run the model on
  concrete inputs.\<close>

definition sample_sum :: "string \<Rightarrow> string" where
  "sample_sum s = pos_str (fold (\<lambda>c n. n + 1) s (0 :: int))"

definition sample_env :: pyenv where
  "sample_env = \<lparr>sha256_hex = sample_sum, hmac_sha256_hex = (\<lambda>k s. sample_sum (k @ s)),
     isoformat = (\<lambda>t. int_str t @ ''+00:00''),
     fromisoformat = (\<lambda>s. map_option Aware (parse_int (takeWhile (\<lambda>c. c \<noteq> CHR ''+'') s))),
     local_to_utc = (\<lambda>t. t)\<rparr>"

definition sample_nonce :: string where
  "sample_nonce = replicate 64 (CHR ''a'')"

definition sample_binding :: jval where
  "sample_binding = JObj [(''repo'', JStr ''r'')]"

end
