(* ===== verification/Authority_File.thy ===== *)
theory Authority_File
  imports Authority_Store_Props
begin

text \<open>
  The file-backed authority store keeps the contract \<open>authority_store\<close>: its abstract
  view, its invariant, the interpretation, and the guarantees that follow for every
  state the store can reach from the empty file.
\<close>

section \<open>View and invariant\<close>

abbreviation sec :: "jobj \<Rightarrow> string \<Rightarrow> jobj" where
  "sec s name \<equiv> obj_or_empty (pget s name)"

definition file_view :: "jobj \<Rightarrow> string \<Rightarrow> (jobj \<times> jval list) option" where
  "file_view s aid = (case pget (sec s ''records'') aid of
      JObj r \<Rightarrow> (case pget (sec s ''events'') aid of JList evs \<Rightarrow> Some (r, evs) | _ \<Rightarrow> None)
    | _ \<Rightarrow> None)"

definition file_run :: "pyenv \<Rightarrow> int \<Rightarrow> string \<Rightarrow> store_op \<Rightarrow> jobj \<Rightarrow> authority_exn + (jobj \<times> jobj)" where
  "file_run E now aid op s = (case op of
      Lease v lid secs \<Rightarrow> file_lease_for_dispatch E now aid v lid secs s
    | Dispatch v lid \<Rightarrow> file_mark_dispatched E now aid v lid s
    | Complete v lid oc res \<Rightarrow> file_complete_terminal E now aid v lid oc res s)"

text \<open>An identifier is either unknown to every section or fully registered.\<close>

definition file_entry_ok :: "pyenv \<Rightarrow> jobj \<Rightarrow> string \<Rightarrow> bool" where
  "file_entry_ok E s aid \<longleftrightarrow> \<not> phas (sec s ''records'') aid \<or>
     (\<exists>r evs ik nc. aid \<noteq> [] \<and> py_strip aid \<noteq> [] \<and> pget (sec s ''records'') aid = JObj r
        \<and> pget (sec s ''events'') aid = JList evs \<and> good E aid r evs
        \<and> pget r ''idempotency_key'' = JStr ik \<and> pget (sec s ''idempotency'') ik = JStr aid
        \<and> pget r ''nonce'' = JStr nc \<and> pget (sec s ''nonces'') nc = JStr aid)"

text \<open>Every idempotency key leads to the record that carries it.\<close>

definition file_key_ok :: "jobj \<Rightarrow> string \<Rightarrow> bool" where
  "file_key_ok s ik \<longleftrightarrow> pget (sec s ''idempotency'') ik = JNull \<or>
     (\<exists>aid. pget (sec s ''idempotency'') ik = JStr aid \<and> phas (sec s ''records'') aid)"

definition file_inv :: "pyenv \<Rightarrow> jobj \<Rightarrow> bool" where
  "file_inv E s \<longleftrightarrow> s = [] \<or>
     (pget s ''schema_version'' = JStr AUTHORITY_STORE_VERSION
      \<and> (\<forall>f \<in> {''records'', ''idempotency'', ''nonces'', ''events''}. is_obj (pget s f))
      \<and> (\<forall>aid. file_entry_ok E s aid) \<and> (\<forall>ik. file_key_ok s ik))"

section \<open>Lemmas on the file layout\<close>

lemma file_root_ok:
  assumes "file_inv E s" and "file_root s = Inr t"
  shows "file_inv E t \<and> t \<noteq> [] \<and> file_view t = file_view s \<and> (s \<noteq> [] \<longrightarrow> t = s)"
  using assms
  by (auto simp: file_root_def file_inv_def file_view_def file_entry_ok_def file_key_ok_def fun_eq_iff Let_def
      split: if_splits list.splits)

lemma file_root_total: "file_inv E s \<Longrightarrow> s \<noteq> [] \<Longrightarrow> file_root s = Inr s"
  by (auto simp: file_root_def file_inv_def Let_def)

lemma sec_put_in [simp]:
  "sec (put_in s n k v) m = (if m = n then pset (sec s n) k v else sec s m)"
  by (simp add: put_in_def)

lemma put_in_schema [simp]: "n \<noteq> ''schema_version'' \<Longrightarrow>
    pget (put_in s n k v) ''schema_version'' = pget s ''schema_version''"
  by (simp add: put_in_def)

lemma is_obj_put_in [simp]: "is_obj (pget (put_in s n k v) m) \<longleftrightarrow> m = n \<or> is_obj (pget s m)"
  by (simp add: put_in_def pget_pset)

lemma put_in_not_Nil [simp]: "put_in s n k v \<noteq> []"
  by (simp add: put_in_def)

lemma file_view_Some:
  assumes "file_inv E s" and "file_view s aid = Some (r, evs)"
  shows "s \<noteq> [] \<and> good E aid r evs \<and> pget (sec s ''records'') aid = JObj r
    \<and> pget (sec s ''events'') aid = JList evs
    \<and> (\<exists>ik nc. pget r ''idempotency_key'' = JStr ik \<and> pget (sec s ''idempotency'') ik = JStr aid
        \<and> pget r ''nonce'' = JStr nc \<and> pget (sec s ''nonces'') nc = JStr aid) \<and> py_strip aid \<noteq> []"
proof -
  have v: "pget (sec s ''records'') aid = JObj r" "pget (sec s ''events'') aid = JList evs"
    using assms(2) by (auto simp: file_view_def split: jval.splits)
  then have "phas (sec s ''records'') aid" using pget_not_phas by fastforce
  moreover have "s \<noteq> []" using v by auto
  ultimately show ?thesis using assms(1) v by (auto simp: file_inv_def file_entry_ok_def)
qed

lemma file_run_eq: "file_run E now aid op = file_transition E aid (apply_op E now op)"
  by (cases op) (auto simp: file_run_def file_lease_for_dispatch_def file_mark_dispatched_def
      file_complete_terminal_def apply_op_fun fun_eq_iff)

lemma file_view_put_entry:
  "file_view (put_in (put_in s ''events'' aid (JList evs)) ''records'' aid (JObj r)) = (file_view s)(aid \<mapsto> (r, evs))"
  "file_view (put_in (put_in s ''records'' aid (JObj r)) ''events'' aid (JList evs)) = (file_view s)(aid \<mapsto> (r, evs))"
  by (auto simp: file_view_def fun_eq_iff pget_pset split: jval.split)

section \<open>The laws\<close>

lemma file_run_law:
  assumes inv: "file_inv E s" and run: "file_run E now aid op s = Inr (r, t)"
  shows "file_inv E t \<and> (\<exists>cur evs ev. file_view s aid = Some (cur, evs) \<and> apply_op E now op cur = Inr (r, ev)
     \<and> file_view t = (file_view s)(aid \<mapsto> (r, evs @ [JObj ev])))"
proof -
  obtain st cur ev where st: "file_root s = Inr st" and cur: "required_record E (sec st ''records'') aid = Inr cur"
    and op: "apply_op E now op cur = Inr (r, ev)" and put: "store_file_transition st r ev = Inr t"
    using run by (auto simp: file_run_eq file_transition_def)
  have inv': "file_inv E st" "st \<noteq> []" "file_view st = file_view s" using file_root_ok [OF inv st] by auto
  have rec: "pget (sec st ''records'') aid = JObj cur"
    using cur by (auto simp: required_record_def split: jval.splits)
  then have "phas (sec st ''records'') aid" using pget_not_phas by fastforce
  then obtain evs ik nc where e: "pget (sec st ''events'') aid = JList evs" "good E aid cur evs" "aid \<noteq> []"
      "pget cur ''idempotency_key'' = JStr ik" "pget (sec st ''idempotency'') ik = JStr aid"
      "pget cur ''nonce'' = JStr nc" "pget (sec st ''nonces'') nc = JStr aid" "py_strip aid \<noteq> []"
    using inv' rec by (auto simp: file_inv_def file_entry_ok_def)
  note g = apply_op_good [OF e(2) op]
  have ids: "pget r ''authority_id'' = JStr aid" "pget r ''idempotency_key'' = JStr ik" "pget r ''nonce'' = JStr nc"
    using g e by (auto simp: identity_fields_def good_def)
  have t: "t = put_in (put_in st ''events'' aid (JList (evs @ [JObj ev]))) ''records'' aid (JObj r)"
    using put ids(1) e(1) by (auto simp: store_file_transition_def pget_def split: option.splits)
  have "file_inv E t"
    using inv' g ids e by (auto simp: file_inv_def file_entry_ok_def file_key_ok_def t pget_pset)
  moreover have "file_view t = (file_view s)(aid \<mapsto> (r, evs @ [JObj ev]))"
    by (simp add: t file_view_put_entry inv'(3))
  moreover have "file_view s aid = Some (cur, evs)" using rec e(1) by (simp add: file_view_def flip: inv'(3))
  ultimately show ?thesis using op by blast
qed

lemma file_fresh_issue:
  assumes inv: "file_inv E st" "st \<noteq> []" and req: "validated_issue_request E aid ik nc b = Inr req"
    and fresh: "\<not> phas (sec st ''records'') aid" "pget (sec st ''idempotency'') ik = JNull"
      "pget (sec st ''nonces'') nc = JNull"
    and new: "new_issue E req now = Inr (r, ev)"
  shows "file_inv E (put_in (put_in (put_in (put_in st ''records'' aid (JObj r)) ''idempotency'' ik (JStr aid))
            ''nonces'' nc (JStr aid)) ''events'' aid (JList [JObj ev]))"
proof -
  have g: "good E aid r [JObj ev]" "pget r ''nonce'' = JStr nc" "pget r ''idempotency_key'' = JStr ik"
    using new_issue_good [OF req new] by auto
  have a: "aid \<noteq> []" "py_strip aid \<noteq> []" using req by (auto simp: issue_request_Inr py_strip_def py_lstrip_def)
  let ?t = "put_in (put_in (put_in (put_in st ''records'' aid (JObj r)) ''idempotency'' ik (JStr aid))
            ''nonces'' nc (JStr aid)) ''events'' aid (JList [JObj ev])"
  have "file_entry_ok E ?t a'" for a'
  proof (cases "a' = aid")
    case True
    then show ?thesis using g a by (simp add: file_entry_ok_def)
  next
    case False
    have "file_entry_ok E st a'" using inv by (auto simp: file_inv_def)
    then consider "\<not> phas (sec st ''records'') a'"
      | r' evs' ik' nc' where "a' \<noteq> []" "py_strip a' \<noteq> []" "pget (sec st ''records'') a' = JObj r'"
        "pget (sec st ''events'') a' = JList evs'" "good E a' r' evs'"
        "pget r' ''idempotency_key'' = JStr ik'" "pget (sec st ''idempotency'') ik' = JStr a'"
        "pget r' ''nonce'' = JStr nc'" "pget (sec st ''nonces'') nc' = JStr a'"
      by (auto simp: file_entry_ok_def)
    then show ?thesis
    proof cases
      case 2
      then have "ik' \<noteq> ik" "nc' \<noteq> nc" using fresh by auto
      with 2 False show ?thesis by (simp add: file_entry_ok_def)
    qed (use False in \<open>simp add: file_entry_ok_def\<close>)
  qed
  moreover have "file_key_ok ?t ik'" for ik'
    using inv by (auto simp: file_inv_def file_key_ok_def pget_pset)
  ultimately show ?thesis using inv by (auto simp: file_inv_def)
qed

lemma file_issue_law:
  assumes inv: "file_inv E s" and iss: "file_issue_or_get E now aid ik nc b s = Inr (r, t)"
  shows "file_inv E t \<and> (\<exists>req. validated_issue_request E aid ik nc b = Inr req
     \<and> issue_outcome E now aid req (file_view s) r (file_view t))"
proof -
  obtain req st where req: "validated_issue_request E aid ik nc b = Inr req" and st: "file_root s = Inr st"
    using iss by (auto simp: file_issue_or_get_def)
  define ex where "ex = por (pget (sec st ''idempotency'') ik) (if phas (sec st ''records'') aid then JStr aid else JNull)"
  have inv': "file_inv E st" "st \<noteq> []" and vw: "file_view st = file_view s" using file_root_ok [OF inv st] by auto
  have key: "file_key_ok st ik" using inv' by (auto simp: file_inv_def)
  show ?thesis
  proof (cases "ex = JNull")
    case False
    then have old: "required_record E (sec st ''records'') (py_str ex) = Inr r" "require_same_issue E r req = Inr ()" "t = st"
      using iss req st by (auto simp: file_issue_or_get_def ex_def Let_def)
    then obtain a where a: "pget (sec st ''records'') a = JObj r" by (auto simp: required_record_def split: jval.splits)
    then have "phas (sec st ''records'') a" using pget_not_phas by fastforce
    then obtain evs where evs: "pget (sec st ''events'') a = JList evs" "good E a r evs"
      using inv' a by (auto simp: file_inv_def file_entry_ok_def)
    have "a = aid" using old(2) evs(2) by (simp add: same_issue_Inr [OF req] good_def)
    then have "file_view st aid = Some (r, evs)" using a evs by (simp add: file_view_def)
    then show ?thesis using old inv' vw req by (auto simp: issue_outcome_def)
  next
    case True
    have aid: "aid \<noteq> []" using req by (auto simp: issue_request_Inr py_strip_def py_lstrip_def)
    have k: "\<not> phas (sec st ''records'') aid" using True aid by (auto simp: ex_def por_def split: if_splits)
    moreover have i: "pget (sec st ''idempotency'') ik = JNull"
      using True key inv' by (auto simp: ex_def por_def file_key_ok_def file_inv_def file_entry_ok_def split: if_splits)
    moreover obtain ev where nn: "pget (sec st ''nonces'') nc = JNull" and new: "new_issue E req now = Inr (r, ev)"
      and t: "t = put_in (put_in (put_in (put_in st ''records'' aid (JObj r)) ''idempotency'' ik (JStr aid))
            ''nonces'' nc (JStr aid)) ''events'' aid (JList [JObj ev])"
      using iss req st True by (auto simp: file_issue_or_get_def ex_def Let_def split: if_splits)
    ultimately have "file_inv E t" using file_fresh_issue [OF inv' req] by simp
    moreover have "file_view t = (file_view s)(aid \<mapsto> (r, [JObj ev]))"
      by (auto simp: t file_view_def fun_eq_iff pget_pset simp flip: vw split: jval.split)
    moreover have "file_view s aid = None" using k by (simp add: file_view_def pget_not_phas flip: vw)
    ultimately show ?thesis using req new by (auto simp: issue_outcome_def)
  qed
qed

lemma file_reissue_law:
  assumes "file_inv E s" and "file_view s aid = Some (r, evs)"
    and "validated_issue_request E aid ik nc b = Inr req" and "require_same_issue E r req = Inr ()"
  shows "file_issue_or_get E now aid ik nc b s = Inr (r, s)"
proof -
  note v = file_view_Some [OF assms(1,2)]
  have ik: "pget r ''idempotency_key'' = JStr ik" "validate_record_binding E r = Inr ()"
    using assms(4) by (simp_all add: same_issue_Inr [OF assms(3)])
  have "aid \<noteq> []" using v by (auto simp: py_strip_def py_lstrip_def)
  then show ?thesis
    using v ik file_root_total [OF assms(1)] assms
    by (auto simp: file_issue_or_get_def por_def required_record_def required_text_def)
qed

interpretation file_store: authority_store E "[]" "file_inv E" file_view "file_issue_or_get E" "file_run E"
  "file_read_for_reconciliation E" for E
proof
  show "file_inv E []" by (simp add: file_inv_def)
next
  fix s aid r evs
  assume "file_inv E s" "file_view s aid = Some (r, evs)"
  then show "good E aid r evs" using file_view_Some by blast
next
  fix s aid aid' r r' evs evs'
  assume "file_inv E s" "file_view s aid = Some (r, evs)" "file_view s aid' = Some (r', evs')"
    "pget r ''nonce'' = pget r' ''nonce'' \<or> pget r ''idempotency_key'' = pget r' ''idempotency_key''"
  then show "aid = aid'" using file_view_Some [of E s aid r evs] file_view_Some [of E s aid' r' evs'] by auto
next
  fix s aid
  assume inv: "file_inv E s"
  show "file_read_for_reconciliation E aid s = (case file_view s aid of None \<Rightarrow> Inr None
    | Some (r, evs) \<Rightarrow> ebind (reconciliation_payload E r (JList evs)) (\<lambda>p. Inr (Some p)))"
  proof (cases "s = [] \<or> \<not> phas (sec s ''records'') aid")
    case True
    then show ?thesis using file_root_total [OF inv]
      by (auto simp: file_read_for_reconciliation_def file_view_def pget_not_phas)
  next
    case False
    then show ?thesis using file_root_total [OF inv] inv
      by (auto simp: file_read_for_reconciliation_def file_view_def file_inv_def file_entry_ok_def)
  qed
qed (erule (1) file_issue_law file_run_law | erule (3) file_reissue_law)+

section \<open>Guarantees of the file-backed store\<close>

abbreviation file_step :: "pyenv \<Rightarrow> jobj \<Rightarrow> jobj \<Rightarrow> bool" where
  "file_step E \<equiv> store_step (file_issue_or_get E) (file_run E)"

abbreviation file_reach :: "pyenv \<Rightarrow> jobj \<Rightarrow> bool" where
  "file_reach E \<equiv> reach (\<lambda>s. s = []) (file_step E)"

text \<open>A concrete run: issue, lease, dispatch, complete.\<close>

definition state_of :: "authority_exn + (jobj \<times> jobj) \<Rightarrow> jobj" where
  "state_of r = (case r of Inl _ \<Rightarrow> [] | Inr (_, s) \<Rightarrow> s)"

definition sample_s1 :: jobj where
  "sample_s1 = state_of (file_issue_or_get sample_env 0 ''a'' ''k'' sample_nonce sample_binding [])"

definition sample_s2 :: jobj where
  "sample_s2 = state_of (file_run sample_env 5 ''a'' (Lease (JInt 1) ''L'' (JInt 30)) sample_s1)"

definition sample_s3 :: jobj where
  "sample_s3 = state_of (file_run sample_env 7 ''a'' (Complete (JInt 2) ''L'' ''failed'' (JObj [])) sample_s2)"

lemma is_ok_state: "is_ok r \<Longrightarrow> \<exists>x. r = Inr (x, state_of r)"
  by (cases r) (auto simp: state_of_def)

lemma sample_s1_ok: "is_ok (file_issue_or_get sample_env 0 ''a'' ''k'' sample_nonce sample_binding [])"
  by code_simp

lemma sample_s2_ok: "is_ok (file_run sample_env 5 ''a'' (Lease (JInt 1) ''L'' (JInt 30)) sample_s1)"
  by code_simp

lemma sample_s3_ok:
  "is_ok (file_run sample_env 7 ''a'' (Complete (JInt 2) ''L'' ''failed'' (JObj [])) sample_s2)"
  by code_simp

lemma sample_runs:
  "\<exists>r. file_issue_or_get sample_env 0 ''a'' ''k'' sample_nonce sample_binding [] = Inr (r, sample_s1)"
  "\<exists>r. file_run sample_env 5 ''a'' (Lease (JInt 1) ''L'' (JInt 30)) sample_s1 = Inr (r, sample_s2)"
  "\<exists>r. file_run sample_env 7 ''a'' (Complete (JInt 2) ''L'' ''failed'' (JObj [])) sample_s2 = Inr (r, sample_s3)"
  using is_ok_state [OF sample_s1_ok] is_ok_state [OF sample_s2_ok] is_ok_state [OF sample_s3_ok]
  by (simp_all add: sample_s1_def [symmetric] sample_s2_def [symmetric] sample_s3_def [symmetric])

lemma sample_reach: "file_reach sample_env []" "file_reach sample_env sample_s1"
  "file_reach sample_env sample_s2" "file_reach sample_env sample_s3"
proof -
  show 0: "file_reach sample_env []" by (rule reach_init) simp
  show 1: "file_reach sample_env sample_s1" using reach_step [OF 0] step_issue sample_runs(1) by metis
  show 2: "file_reach sample_env sample_s2" using reach_step [OF 1] step_run sample_runs(2) by metis
  show "file_reach sample_env sample_s3" using reach_step [OF 2] step_run sample_runs(3) by metis
qed

lemma sample_s3_terminal:
  "map_option (\<lambda>(r, evs). pget r ''state'') (file_view sample_s3 ''a'') = Some (JStr ''terminal'')"
proof -
  obtain r where r: "file_run sample_env 7 ''a'' (Complete (JInt 2) ''L'' ''failed'' (JObj [])) sample_s2 = Inr (r, sample_s3)"
    using sample_runs(3) by blast
  obtain cur evs ev where v: "file_view sample_s2 ''a'' = Some (cur, evs)"
      "apply_op sample_env 7 (Complete (JInt 2) ''L'' ''failed'' (JObj [])) cur = Inr (r, ev)"
      "file_view sample_s3 = (file_view sample_s2)(''a'' \<mapsto> (r, evs @ [JObj ev]))"
    using file_store.run_law [OF file_store.steps.reach_inv [OF sample_reach(3)] r] by blast
  note g = file_store.entry_good [OF file_store.steps.reach_inv [OF sample_reach(3)] v(1)]
  then have "pget r ''state'' = JStr ''terminal''"
    using complete_is_terminal v(2) by simp
  then show ?thesis by (simp add: v(3))
qed

text \<open>C10: whatever calls were made on the file store, reading an authority back for
  reconciliation never fails, reports a valid event chain, and returns the record with
  all the receipts of its history; an authority that was never issued reads as none.\<close>

theorem file_store_reconciles:
  assumes "file_reach E s"
  shows "file_read_for_reconciliation E aid s = (case file_view s aid of None \<Rightarrow> Inr None | Some (r, evs) \<Rightarrow>
     Inr (Some [(''schema_version'', JStr AUTHORITY_STORE_VERSION), (''record'', JObj r),
         (''events'', JList evs), (''event_chain_valid'', JBool True)]))"
  by (rule file_store.read_reconciled [OF assms])

theorem file_store_reconciles_witness:
  "file_reach sample_env sample_s2 \<and> is_ok (file_read_for_reconciliation sample_env ''a'' sample_s2)"
  using sample_reach(3) file_store_reconciles [OF sample_reach(3), of "''a''"] by (auto split: option.splits)

text \<open>Compare-and-set. Once a transition that expected version \<open>v\<close> has succeeded, no
  transition of the same authority that expects \<open>v\<close> ever succeeds again, whatever calls
  are made in between.\<close>

theorem file_store_cas_exclusive:
  assumes "file_reach E s" and "file_run E now aid op s = Inr (r, t)"
    and "(file_step E)\<^sup>*\<^sup>* t u" and "op_version op' = op_version op"
  shows "\<not> is_ok (file_run E now' aid op' u)"
  by (rule file_store.cas_exclusive [OF assms])

theorem file_store_cas_exclusive_witness:
  "\<not> is_ok (file_run sample_env 9 ''a'' (Lease (JInt 1) ''M'' (JInt 30)) sample_s2)"
proof -
  obtain r where "file_run sample_env 5 ''a'' (Lease (JInt 1) ''L'' (JInt 30)) sample_s1 = Inr (r, sample_s2)"
    using sample_runs(2) by blast
  from file_store_cas_exclusive [OF sample_reach(2) this] show ?thesis by simp
qed

text \<open>C11: an authority is dispatched at most once: its history never holds two
  \<open>marked_dispatched\<close> receipts.\<close>

theorem file_store_dispatched_once:
  assumes "file_reach E s" and "file_view s aid = Some (r, evs)"
  shows "count_list (map event_type_of evs) ''marked_dispatched'' \<le> 1"
  by (rule file_store.dispatched_once [OF assms])

theorem file_store_dispatched_once_witness:
  "\<exists>r evs. file_view sample_s3 ''a'' = Some (r, evs) \<and> count_list (map event_type_of evs) ''marked_dispatched'' \<le> 1"
proof -
  obtain r evs where "file_view sample_s3 ''a'' = Some (r, evs)" using sample_s3_terminal by auto
  with file_store_dispatched_once [OF sample_reach(4) this] show ?thesis by blast
qed

text \<open>C15: a terminal authority is final: no later call changes its record or its receipts,
  and every further transition of it fails.\<close>

theorem file_store_terminal_final:
  assumes "file_reach E s" and "file_view s aid = Some (r, evs)"
    and "pget r ''state'' = JStr ''terminal''" and "(file_step E)\<^sup>*\<^sup>* s t"
  shows "file_view t aid = Some (r, evs) \<and> \<not> is_ok (file_run E now aid op t)"
  by (rule file_store.terminal_final [OF assms])

theorem file_store_terminal_final_witness:
  "\<not> is_ok (file_run sample_env 8 ''a'' (Dispatch (JInt 3) ''L'') sample_s3)"
proof -
  obtain r evs where "file_view sample_s3 ''a'' = Some (r, evs)" "pget r ''state'' = JStr ''terminal''"
    using sample_s3_terminal by auto
  from file_store_terminal_final [OF sample_reach(4) this] show ?thesis by blast
qed

text \<open>Issuing is idempotent. After an authority was issued, repeating the request at
  any later point returns that authority's current record, with the same identity and
  binding, and changes nothing.\<close>

theorem file_store_reissue_same:
  assumes "file_reach E s" and "file_issue_or_get E now aid ik nc b s = Inr (r, t)" and "wf_jval b"
    and "(file_step E)\<^sup>*\<^sup>* t u"
  shows "\<exists>r'. file_issue_or_get E now' aid ik nc b u = Inr (r', u) \<and> same_identity r r'"
  by (rule file_store.reissue_same [OF assms])

theorem file_store_reissue_same_witness:
  "\<exists>r'. file_issue_or_get sample_env 9 ''a'' ''k'' sample_nonce sample_binding sample_s2 = Inr (r', sample_s2)"
proof -
  obtain r where r: "file_issue_or_get sample_env 0 ''a'' ''k'' sample_nonce sample_binding [] = Inr (r, sample_s1)"
    using sample_runs(1) by blast
  have "wf_jval sample_binding" by (simp add: sample_binding_def)
  moreover have "(file_step sample_env)\<^sup>*\<^sup>* sample_s1 sample_s2" using step_run sample_runs(2) by (metis r_into_rtranclp)
  ultimately show ?thesis using file_store_reissue_same [OF sample_reach(1) r] by blast
qed

text \<open>No two authorities of the file store ever share a nonce or an idempotency key.\<close>

theorem file_store_one_owner:
  assumes "file_reach E s" and "file_view s aid = Some (r, evs)" and "file_view s aid' = Some (r', evs')"
    and "pget r ''nonce'' = pget r' ''nonce'' \<or> pget r ''idempotency_key'' = pget r' ''idempotency_key''"
  shows "aid = aid'"
  by (rule file_store.one_owner [OF assms])

theorem file_store_one_owner_witness:
  "\<exists>r evs. file_view sample_s3 ''a'' = Some (r, evs)
     \<and> {aid. \<exists>r' evs'. file_view sample_s3 aid = Some (r', evs') \<and> pget r ''nonce'' = pget r' ''nonce''} = {''a''}"
proof -
  obtain r evs where v: "file_view sample_s3 ''a'' = Some (r, evs)" using sample_s3_terminal by auto
  then show ?thesis using file_store_one_owner [OF sample_reach(4) v] by blast
qed

text \<open>C36: the lease window. After a lease of \<open>n\<close> seconds was granted at time \<open>now\<close>, a
  dispatch succeeds exactly for the new version, the same lease and a time within the
  window, and until the window ends no one else can lease the authority. (The expiry is
  stored as text: the time codec must read back what it wrote.)\<close>

theorem lease_window:
  assumes "good E aid cur evs" and "lease_transition E cur v lid (JInt n) now = Inr (upd, ev)"
    and "parse_time E (format_time E (now + n * 1000000)) = Inr (now + n * 1000000)"
  shows "(is_ok (dispatch_transition E upd v' lid' now')
            \<longleftrightarrow> v' = pget upd ''version'' \<and> lid' = lid \<and> now' \<le> now + n * 1000000)
       \<and> (now' \<le> now + n * 1000000 \<longrightarrow> \<not> is_ok (lease_transition E upd v' lid' secs now'))"
proof -
  note l = lease_result [OF assms(2)]
  have g: "good E aid upd (evs @ [JObj ev])"
    using apply_op_good [OF assms(1), of now "Lease v lid (JInt n)"] assms(2) by simp
  have "\<not> is_ok (lease_transition E upd v' lid' secs now')" if "now' \<le> now + n * 1000000"
  proof
    assume "is_ok (lease_transition E upd v' lid' secs now')"
    then show False using l assms(3) that
      by (auto simp: is_ok_iff lease_transition_def Let_def split: option.splits)
  qed
  then show ?thesis using dispatch_ok_iff [OF g, of lid _ "now + n * 1000000"] l assms(3) by auto
qed

theorem lease_window_witness:
  "\<exists>cur evs upd ev. file_view sample_s1 ''a'' = Some (cur, evs)
     \<and> lease_transition sample_env cur (JInt 1) ''L'' (JInt 30) 5 = Inr (upd, ev)
     \<and> \<not> is_ok (lease_transition sample_env upd (JInt 2) ''M'' (JInt 30) 6)
     \<and> \<not> is_ok (dispatch_transition sample_env upd (JInt 2) ''M'' 6)"
proof -
  obtain r where "file_run sample_env 5 ''a'' (Lease (JInt 1) ''L'' (JInt 30)) sample_s1 = Inr (r, sample_s2)"
    using sample_runs(2) by blast
  from file_store.run_law [OF file_store.steps.reach_inv [OF sample_reach(2)] this]
  obtain cur evs ev where v: "file_view sample_s1 ''a'' = Some (cur, evs)"
      "lease_transition sample_env cur (JInt 1) ''L'' (JInt 30) 5 = Inr (r, ev)" by auto
  have "parse_time sample_env (format_time sample_env (5 + 30 * 1000000)) = Inr (5 + 30 * 1000000)" by code_simp
  from lease_window [OF file_store.entry_good [OF file_store.steps.reach_inv [OF sample_reach(2)] v(1)] v(2) this,
      of "JInt 2" "''M''" 6 "JInt 30"] v show ?thesis by auto
qed

end
