(* ===== verification/Authority_Postgres.thy ===== *)
theory Authority_Postgres
  imports Authority_Store_Props
begin

text \<open>
  The Postgres-backed authority store keeps the same contract as the file-backed one: its
  view, its invariant (the columns of a row repeat the stored record, the keys are
  unique, the receipts of an authority carry the sequence numbers 1, 2, ...), the
  interpretation of \<open>authority_store\<close> and the guarantees that follow.
\<close>

section \<open>View and invariant\<close>

definition events_of :: "pg_db \<Rightarrow> string \<Rightarrow> pg_event list" where
  "events_of db aid = filter (\<lambda>e. pe_authority_id e = JStr aid) (pg_events db)"

definition receipts :: "pg_db \<Rightarrow> string \<Rightarrow> jval list" where
  "receipts db aid = map (\<lambda>e. JObj (pe_receipt e)) (sort_key (\<lambda>e. seq_key (pe_sequence e)) (events_of db aid))"

definition pg_view :: "pg_db \<Rightarrow> string \<Rightarrow> (jobj \<times> jval list) option" where
  "pg_view db aid = (case filter (\<lambda>r. row_authority_id r = aid) (pg_records db) of
      [] \<Rightarrow> None
    | row # _ \<Rightarrow> Some (row_record row, receipts db aid))"

definition pg_run :: "pyenv \<Rightarrow> int \<Rightarrow> string \<Rightarrow> store_op \<Rightarrow> pg_db \<Rightarrow> authority_exn + (jobj \<times> pg_db)" where
  "pg_run E now aid op db = (case op of
      Lease v lid secs \<Rightarrow> pg_lease_for_dispatch E now aid v lid secs db
    | Dispatch v lid \<Rightarrow> pg_mark_dispatched E now aid v lid db
    | Complete v lid oc res \<Rightarrow> pg_complete_terminal E now aid v lid oc res db)"

definition row_ok :: "pyenv \<Rightarrow> pg_db \<Rightarrow> pg_row \<Rightarrow> bool" where
  "row_ok E db row \<longleftrightarrow>
     good E (row_authority_id row) (row_record row)
       (map (\<lambda>e. JObj (pe_receipt e)) (events_of db (row_authority_id row)))
   \<and> map (\<lambda>e. seq_key (pe_sequence e)) (events_of db (row_authority_id row))
       = [1..int (length (events_of db (row_authority_id row)))]
   \<and> row_state row = pget (row_record row) ''state''
   \<and> row_version row = pget (row_record row) ''version''
   \<and> pget (row_record row) ''idempotency_key'' = JStr (row_idempotency_key row)
   \<and> pget (row_record row) ''nonce'' = JStr (row_nonce row)
   \<and> py_strip (row_authority_id row) \<noteq> []"

definition pg_inv :: "pyenv \<Rightarrow> pg_db \<Rightarrow> bool" where
  "pg_inv E db \<longleftrightarrow>
     distinct (map row_authority_id (pg_records db))
   \<and> distinct (map row_idempotency_key (pg_records db))
   \<and> distinct (map row_nonce (pg_records db))
   \<and> (\<forall>row \<in> set (pg_records db). row_ok E db row)
   \<and> (\<forall>e \<in> set (pg_events db). \<exists>row \<in> set (pg_records db). pe_authority_id e = JStr (row_authority_id row))"

section \<open>Lemmas on the tables\<close>

lemma receipts_in_order:
  assumes "row_ok E db row"
  shows "receipts db (row_authority_id row)
    = map (\<lambda>e. JObj (pe_receipt e)) (events_of db (row_authority_id row))"
proof -
  have "sorted (map (\<lambda>e. seq_key (pe_sequence e)) (events_of db (row_authority_id row)))"
    using assms by (simp add: row_ok_def)
  then show ?thesis by (simp add: receipts_def sort_key_id_if_sorted)
qed

lemma unique_filter:
  "distinct (map f xs) \<Longrightarrow> x \<in> set xs \<Longrightarrow> filter (\<lambda>y. f y = f x) xs = [x]"
  by (induction xs) (auto simp: filter_empty_conv rev_image_eqI)

lemma pg_view_Some:
  assumes "pg_inv E db" and "pg_view db aid = Some (r, evs)"
  shows "\<exists>row \<in> set (pg_records db). row_authority_id row = aid \<and> row_record row = r \<and> row_ok E db row
     \<and> evs = map (\<lambda>e. JObj (pe_receipt e)) (events_of db aid)"
proof -
  obtain row rows where f: "filter (\<lambda>r. row_authority_id r = aid) (pg_records db) = row # rows"
      "row_record row = r" "evs = receipts db aid"
    using assms(2) by (auto simp: pg_view_def split: list.splits)
  then have "row \<in> set (filter (\<lambda>r. row_authority_id r = aid) (pg_records db))" by simp
  then have row: "row \<in> set (pg_records db)" "row_authority_id row = aid" by auto
  then have "row_ok E db row" using assms(1) by (auto simp: pg_inv_def)
  then show ?thesis using row f receipts_in_order by blast
qed

lemma pg_view_row:
  assumes "pg_inv E db" and "row \<in> set (pg_records db)"
  shows "pg_view db (row_authority_id row)
    = Some (row_record row, map (\<lambda>e. JObj (pe_receipt e)) (events_of db (row_authority_id row)))"
proof -
  have "filter (\<lambda>r. row_authority_id r = row_authority_id row) (pg_records db) = [row]"
    using assms unique_filter [of row_authority_id] by (auto simp: pg_inv_def)
  moreover have "row_ok E db row" using assms by (auto simp: pg_inv_def)
  ultimately show ?thesis using receipts_in_order by (simp add: pg_view_def)
qed

lemma pg_view_None_iff:
  "pg_view db aid = None \<longleftrightarrow> (\<forall>row \<in> set (pg_records db). row_authority_id row \<noteq> aid)"
proof -
  have "(\<forall>row \<in> set (pg_records db). row_authority_id row \<noteq> aid)
      \<longleftrightarrow> filter (\<lambda>r. row_authority_id r = aid) (pg_records db) = []" by (simp add: filter_empty_conv)
  then show ?thesis by (simp add: pg_view_def split: list.split)
qed

lemma pg_run_eq: "pg_run E now aid op = pg_transition E aid (op_version op) (apply_op E now op)"
  by (cases op) (auto simp: pg_run_def pg_lease_for_dispatch_def pg_mark_dispatched_def
      pg_complete_terminal_def apply_op_fun fun_eq_iff)

lemma append_event_Inr:
  assumes "append_event db ev = Inr db'"
  shows "\<exists>row. pg_events db' = pg_events db @ [row] \<and> pg_records db' = pg_records db
     \<and> pe_authority_id row = pget ev ''authority_id'' \<and> pe_sequence row = pget ev ''sequence''
     \<and> pe_receipt row = ev"
  using assms by (auto simp: append_event_def Let_def split: if_splits)

lemma events_of_append:
  assumes "pg_events db' = pg_events db @ [e]" and "pe_authority_id e = JStr aid"
  shows "events_of db' a = (if a = aid then events_of db a @ [e] else events_of db a)"
  using assms by (simp add: events_of_def)

lemma filter_map_other:
  "(\<And>x. x \<in> set xs \<Longrightarrow> P (f x) = P x) \<Longrightarrow> (\<And>x. x \<in> set xs \<Longrightarrow> P x \<Longrightarrow> f x = x) \<Longrightarrow> filter P (map f xs) = filter P xs"
  by (induction xs) auto

lemma row_ok_other:
  assumes "row_ok E db row" and "events_of db' (row_authority_id row) = events_of db (row_authority_id row)"
  shows "row_ok E db' row"
  using assms by (simp add: row_ok_def)

lemma row_ok_append:
  assumes ev: "pg_events db' = pg_events db @ [e]" "pe_authority_id e = JStr aid" "pe_sequence e = JInt (int n + 1)"
    and n: "n = length (events_of db aid)" and row: "row_authority_id row = aid" "py_strip aid \<noteq> []"
      "row_state row = pget (row_record row) ''state''" "row_version row = pget (row_record row) ''version''"
      "pget (row_record row) ''idempotency_key'' = JStr (row_idempotency_key row)"
      "pget (row_record row) ''nonce'' = JStr (row_nonce row)"
    and g: "good E aid (row_record row) (map (\<lambda>e. JObj (pe_receipt e)) (events_of db aid) @ [JObj (pe_receipt e)])"
    and seq: "map (\<lambda>e. seq_key (pe_sequence e)) (events_of db aid) = [1..int n]"
  shows "row_ok E db' row"
  using assms by (simp add: row_ok_def events_of_append [OF ev(1,2)] upto_rec2 add.commute)

section \<open>The laws\<close>

lemma pg_run_unfold:
  assumes inv: "pg_inv E db" and run: "pg_run E now aid op db = Inr (r, t)"
  shows "\<exists>row ev e. row \<in> set (pg_records db) \<and> row_authority_id row = aid
     \<and> apply_op E now op (row_record row) = Inr (r, ev)
     \<and> pg_events t = pg_events db @ [e] \<and> pe_authority_id e = pget ev ''authority_id''
     \<and> pe_sequence e = pget ev ''sequence'' \<and> pe_receipt e = ev
     \<and> pg_records t = map (\<lambda>x. if x = row then row\<lparr>row_state := pget r ''state'', row_version := pget r ''version'',
           row_event_sequence := pget r ''event_sequence'', row_latest_event_digest := pget r ''latest_event_digest'',
           row_record := r, row_updated_at := pget r ''updated_at''\<rparr> else x) (pg_records db)"
proof -
  obtain row rows where f: "filter (\<lambda>r. row_authority_id r = aid) (pg_records db) = row # rows"
    using run by (auto simp: pg_run_eq pg_transition_def split: list.splits)
  define hit where "hit = (\<lambda>x :: pg_row. row_authority_id x = aid \<and> row_version x = op_version op
      \<and> row_state x = pget (row_record row) ''state'')"
  obtain ev db' where ev: "apply_op E now op (row_record row) = Inr (r, ev)" and ex: "list_ex hit (pg_records db)"
    and db': "append_event (db\<lparr>pg_records := map (\<lambda>x. if hit x then x\<lparr>row_state := pget r ''state'',
          row_version := pget r ''version'', row_event_sequence := pget r ''event_sequence'',
          row_latest_event_digest := pget r ''latest_event_digest'', row_record := r,
          row_updated_at := pget r ''updated_at''\<rparr> else x) (pg_records db)\<rparr>) ev = Inr t"
    using run f by (auto simp: pg_run_eq pg_transition_def hit_def Let_def split: if_splits)
  have row: "row \<in> set (pg_records db)" "row_authority_id row = aid"
    using arg_cong [OF f, of set] by auto
  have only: "x = row" if "x \<in> set (pg_records db)" "row_authority_id x = aid" for x
    using inv row that by (auto simp: pg_inv_def distinct_map dest: inj_onD)
  have "hit row" using ex only by (auto simp: list_ex_iff hit_def)
  then have "hit x \<longleftrightarrow> x = row" if "x \<in> set (pg_records db)" for x using that only by (auto simp: hit_def)
  then show ?thesis using append_event_Inr [OF db'] row ev by (auto intro!: exI [of _ row])
qed

lemma pg_run_law:
  assumes inv: "pg_inv E db" and run: "pg_run E now aid op db = Inr (r, t)"
  shows "pg_inv E t \<and> (\<exists>cur evs ev. pg_view db aid = Some (cur, evs) \<and> apply_op E now op cur = Inr (r, ev)
     \<and> pg_view t = (pg_view db)(aid \<mapsto> (r, evs @ [JObj ev])))"
proof -
  obtain row ev e where row: "row \<in> set (pg_records db)" "row_authority_id row = aid"
    and op: "apply_op E now op (row_record row) = Inr (r, ev)"
    and e: "pg_events t = pg_events db @ [e]" "pe_authority_id e = pget ev ''authority_id''"
      "pe_sequence e = pget ev ''sequence''" "pe_receipt e = ev"
    and recs: "pg_records t = map (\<lambda>x. if x = row then row\<lparr>row_state := pget r ''state'', row_version := pget r ''version'',
           row_event_sequence := pget r ''event_sequence'', row_latest_event_digest := pget r ''latest_event_digest'',
           row_record := r, row_updated_at := pget r ''updated_at''\<rparr> else x) (pg_records db)"
    using pg_run_unfold [OF assms] by blast
  let ?evs = "map (\<lambda>e. JObj (pe_receipt e)) (events_of db aid)"
  let ?row = "row\<lparr>row_state := pget r ''state'', row_version := pget r ''version'',
           row_event_sequence := pget r ''event_sequence'', row_latest_event_digest := pget r ''latest_event_digest'',
           row_record := r, row_updated_at := pget r ''updated_at''\<rparr>"
  let ?f = "\<lambda>x. if x = row then ?row else x"
  have ok: "row_ok E db row" using inv row by (auto simp: pg_inv_def)
  then have g0: "good E aid (row_record row) ?evs" using row by (simp add: row_ok_def)
  have g: "good E aid r (?evs @ [JObj ev])" and ids: "\<forall>k \<in> set identity_fields. pget r k = pget (row_record row) k"
    and st: "pget ev ''authority_id'' = JStr aid" "pget ev ''sequence'' = JInt (int (length (events_of db aid)) + 1)"
    using apply_op_good [OF g0 op] by (auto simp: stamped_def)
  have e': "pe_authority_id e = JStr aid" "pe_sequence e = JInt (int (length (events_of db aid)) + 1)" using e st by auto
  have only: "row_authority_id x = aid \<longleftrightarrow> x = row" if "x \<in> set (pg_records db)" for x
    using inv row that by (auto simp: pg_inv_def distinct_map dest: inj_onD)
  have new: "row_ok E t ?row"
    by (rule row_ok_append [OF e(1) e' refl]) (use ok row ids g e(4) in \<open>auto simp: row_ok_def identity_fields_def\<close>)
  have rows: "row_ok E t (?f x)" if "x \<in> set (pg_records db)" for x
  proof (cases "x = row")
    case False
    then have "row_ok E db x" "row_authority_id x \<noteq> aid" using that inv only by (auto simp: pg_inv_def)
    then show ?thesis using False row_ok_other events_of_append [OF e(1) e'(1)] by auto
  qed (use new in simp)
  have keys: "map row_authority_id (pg_records t) = map row_authority_id (pg_records db)"
      "map row_idempotency_key (pg_records t) = map row_idempotency_key (pg_records db)"
      "map row_nonce (pg_records t) = map row_nonce (pg_records db)" by (simp_all add: recs)
  have evs: "\<exists>row' \<in> set (pg_records t). pe_authority_id x = JStr (row_authority_id row')"
    if x: "x \<in> set (pg_events t)" for x
  proof -
    have "\<exists>row' \<in> set (pg_records db). pe_authority_id x = JStr (row_authority_id row')"
      using x inv e'(1) row e(1) by (auto simp: pg_inv_def)
    then obtain a where "a \<in> set (map row_authority_id (pg_records db))" "pe_authority_id x = JStr a" by auto
    then show ?thesis using keys(1) by (metis imageE list.set_map)
  qed
  have "\<forall>x \<in> set (pg_records t). row_ok E t x" unfolding recs list.set_map using rows by blast
  then have inv': "pg_inv E t" using inv evs unfolding pg_inv_def keys by blast
  have in_t: "?row \<in> set (pg_records t)" using row by (auto simp: recs intro: rev_image_eqI [of row])
  have "pg_view t a = ((pg_view db)(aid \<mapsto> (r, ?evs @ [JObj ev]))) a" for a
  proof (cases "a = aid")
    case True
    then show ?thesis using pg_view_row [OF inv' in_t] row e(4) by (simp add: events_of_append [OF e(1) e'(1)])
  next
    case False
    have "filter (\<lambda>r. row_authority_id r = a) (pg_records t) = filter (\<lambda>r. row_authority_id r = a) (pg_records db)"
      unfolding recs by (rule filter_map_other) (use False row in auto)
    moreover have "receipts t a = receipts db a" using False by (simp add: receipts_def events_of_append [OF e(1) e'(1)])
    ultimately show ?thesis using False by (simp add: pg_view_def split: list.split)
  qed
  then have "pg_view t = (pg_view db)(aid \<mapsto> (r, ?evs @ [JObj ev]))" by blast
  then show ?thesis using inv' op pg_view_row [OF inv row(1)] row(2) by auto
qed

lemma pg_issue_match:
  assumes "pg_inv E db" and "x \<in> set (pg_records db)" and "validated_issue_request E aid ik nc b = Inr req"
    and "require_same_issue E (row_record x) req = Inr ()"
  shows "row_authority_id x = aid \<and> row_idempotency_key x = ik \<and> row_nonce x = nc"
proof -
  have "row_ok E db x" using assms by (auto simp: pg_inv_def)
  then show ?thesis using assms(4) by (simp add: same_issue_Inr [OF assms(3)] row_ok_def good_def)
qed

lemma pg_issue_law:
  assumes inv: "pg_inv E db" and iss: "pg_issue_or_get E now aid ik nc b db = Inr (r, t)"
  shows "pg_inv E t \<and> (\<exists>req. validated_issue_request E aid ik nc b = Inr req
     \<and> issue_outcome E now aid req (pg_view db) r (pg_view t))"
proof -
  obtain req where req: "validated_issue_request E aid ik nc b = Inr req" using iss by (auto simp: pg_issue_or_get_def)
  let ?m = "filter (\<lambda>r. row_authority_id r = aid \<or> row_idempotency_key r = ik \<or> row_nonce r = nc) (pg_records db)"
  show ?thesis
  proof (cases ?m)
    case (Cons row rows)
    then have old: "t = db" "r = row_record row" "require_same_issue E r req = Inr ()"
      using iss req by (auto simp: pg_issue_or_get_def Let_def)
    have row: "row \<in> set (pg_records db)" using arg_cong [OF Cons, of set] by auto
    have "row_authority_id row = aid" using pg_issue_match [OF inv row req] old by simp
    then have "\<exists>evs. pg_view db aid = Some (r, evs)" using pg_view_row [OF inv row] old(2) by auto
    then show ?thesis using old inv req by (auto simp: issue_outcome_def)
  next
    case Nil
    then have fresh: "\<forall>x \<in> set (pg_records db). row_authority_id x \<noteq> aid \<and> row_idempotency_key x \<noteq> ik \<and> row_nonce x \<noteq> nc"
      by (simp add: filter_empty_conv)
    define row where "row = (\<lambda>r. \<lparr>row_authority_id = aid, row_idempotency_key = ik, row_nonce = nc,
        row_action_binding_digest = pget r ''action_binding_digest'', row_state = pget r ''state'',
        row_version = pget r ''version'', row_event_sequence = pget r ''event_sequence'',
        row_latest_event_digest = pget r ''latest_event_digest'', row_record = r,
        row_created_at = pget r ''issued_at'', row_updated_at = pget r ''updated_at''\<rparr>) r"
    have row: "row_authority_id row = aid" "row_idempotency_key row = ik" "row_nonce row = nc" "row_record row = r"
        "row_state row = pget r ''state''" "row_version row = pget r ''version''" by (simp_all add: row_def)
    obtain ev where new: "new_issue E req now = Inr (r, ev)"
      and app: "append_event (db\<lparr>pg_records := pg_records db @ [row]\<rparr>) ev = Inr t"
      using iss req Nil by (auto simp: pg_issue_or_get_def Let_def row_def)
    note n = new_issue_good [OF req new]
    obtain e where e: "pg_events t = pg_events db @ [e]" "pe_authority_id e = JStr aid" "pe_sequence e = JInt 1"
        "pe_receipt e = ev" and recs: "pg_records t = pg_records db @ [row]"
      using append_event_Inr [OF app] n by (auto simp: stamped_def)
    have none: "events_of db aid = []" using inv fresh by (auto simp: events_of_def filter_empty_conv pg_inv_def)
    have a: "py_strip aid \<noteq> []" using req by (simp add: issue_request_Inr)
    have "row_ok E t row"
      by (rule row_ok_append [of _ db e aid 0]) (use e row n none a in auto)
    moreover have "row_ok E t x" if "x \<in> set (pg_records db)" for x
      using that inv fresh row_ok_other [of E db x t] events_of_append [OF e(1,2)] by (auto simp: pg_inv_def)
    moreover have "\<exists>x \<in> set (pg_records t). pe_authority_id y = JStr (row_authority_id x)" if "y \<in> set (pg_events t)" for y
      using that inv e(1,2) row(1) by (auto simp: pg_inv_def recs)
    ultimately have inv': "pg_inv E t"
      using inv fresh row by (auto simp: pg_inv_def recs)
    have "pg_view t x = ((pg_view db)(aid \<mapsto> (r, [JObj ev]))) x" for x
    proof (cases "x = aid")
      case True
      then show ?thesis using pg_view_row [OF inv', of row] row e none events_of_append [OF e(1,2)] by (auto simp: recs)
    next
      case False
      then have "receipts t x = receipts db x" by (simp add: receipts_def events_of_append [OF e(1,2)])
      then show ?thesis using row(1) False by (simp add: pg_view_def recs split: list.split)
    qed
    then have "pg_view t = (pg_view db)(aid \<mapsto> (r, [JObj ev]))" by blast
    moreover have "pg_view db aid = None" using fresh by (simp add: pg_view_None_iff)
    ultimately show ?thesis using inv' req new by (auto simp: issue_outcome_def)
  qed
qed

lemma pg_reissue_law:
  assumes inv: "pg_inv E db" and v: "pg_view db aid = Some (r, evs)"
    and req: "validated_issue_request E aid ik nc b = Inr req" and same: "require_same_issue E r req = Inr ()"
  shows "pg_issue_or_get E now aid ik nc b db = Inr (r, db)"
proof -
  obtain row where row: "row \<in> set (pg_records db)" "row_authority_id row = aid" "row_record row = r"
    using pg_view_Some [OF inv v] by blast
  then have keys: "row_idempotency_key row = ik" "row_nonce row = nc" using pg_issue_match [OF inv _ req] same by auto
  let ?P = "\<lambda>r. row_authority_id r = aid \<or> row_idempotency_key r = ik \<or> row_nonce r = nc"
  have "?P x \<longleftrightarrow> row_authority_id x = row_authority_id row" if "x \<in> set (pg_records db)" for x
    using inv row keys that by (auto simp: pg_inv_def distinct_map dest: inj_onD)
  then have "filter ?P (pg_records db) = filter (\<lambda>x. row_authority_id x = row_authority_id row) (pg_records db)"
    by (rule filter_cong [OF refl])
  also have "\<dots> = [row]" using inv row by (auto simp: pg_inv_def intro: unique_filter)
  finally show ?thesis using req same row by (simp add: pg_issue_or_get_def)
qed

interpretation pg_store: authority_store E "\<lparr>pg_records = [], pg_events = []\<rparr>" "pg_inv E" pg_view "pg_issue_or_get E"
  "pg_run E" "pg_read_for_reconciliation E" for E
proof
  show "pg_inv E \<lparr>pg_records = [], pg_events = []\<rparr>" by (simp add: pg_inv_def)
next
  fix s aid r evs
  assume "pg_inv E s" "pg_view s aid = Some (r, evs)"
  from pg_view_Some [OF this] show "good E aid r evs" by (auto simp: row_ok_def)
next
  fix s aid aid' r r' evs evs'
  assume inv: "pg_inv E s" and v: "pg_view s aid = Some (r, evs)" "pg_view s aid' = Some (r', evs')"
    and eq: "pget r ''nonce'' = pget r' ''nonce'' \<or> pget r ''idempotency_key'' = pget r' ''idempotency_key''"
  from pg_view_Some [OF inv v(1)] pg_view_Some [OF inv v(2)] eq inv show "aid = aid'"
    by (auto simp: row_ok_def pg_inv_def distinct_map dest: inj_onD)
next
  fix s aid
  show "pg_read_for_reconciliation E aid s = (case pg_view s aid of None \<Rightarrow> Inr None
    | Some (r, evs) \<Rightarrow> ebind (reconciliation_payload E r (JList evs)) (\<lambda>p. Inr (Some p)))"
    by (simp add: pg_read_for_reconciliation_def pg_view_def receipts_def events_of_def split: list.split)
qed (erule (1) pg_issue_law pg_run_law | erule (3) pg_reissue_law)+

section \<open>Guarantees of the Postgres-backed store\<close>

abbreviation pg_step :: "pyenv \<Rightarrow> pg_db \<Rightarrow> pg_db \<Rightarrow> bool" where
  "pg_step E \<equiv> store_step (pg_issue_or_get E) (pg_run E)"

abbreviation pg_reach :: "pyenv \<Rightarrow> pg_db \<Rightarrow> bool" where
  "pg_reach E \<equiv> reach (\<lambda>db. db = \<lparr>pg_records = [], pg_events = []\<rparr>) (pg_step E)"

definition db_of :: "authority_exn + (jobj \<times> pg_db) \<Rightarrow> pg_db" where
  "db_of r = (case r of Inl _ \<Rightarrow> \<lparr>pg_records = [], pg_events = []\<rparr> | Inr (_, s) \<Rightarrow> s)"

definition sample_db1 :: pg_db where
  "sample_db1 = db_of (pg_issue_or_get sample_env 0 ''a'' ''k'' sample_nonce sample_binding
     \<lparr>pg_records = [], pg_events = []\<rparr>)"

definition sample_db2 :: pg_db where
  "sample_db2 = db_of (pg_run sample_env 5 ''a'' (Lease (JInt 1) ''L'' (JInt 30)) sample_db1)"

lemma is_ok_db: "is_ok r \<Longrightarrow> \<exists>x. r = Inr (x, db_of r)"
  by (cases r) (auto simp: db_of_def)

lemma sample_db1_ok:
  "is_ok (pg_issue_or_get sample_env 0 ''a'' ''k'' sample_nonce sample_binding \<lparr>pg_records = [], pg_events = []\<rparr>)"
  by code_simp

lemma sample_db2_ok: "is_ok (pg_run sample_env 5 ''a'' (Lease (JInt 1) ''L'' (JInt 30)) sample_db1)"
  by code_simp

lemma sample_db_runs:
  "\<exists>r. pg_issue_or_get sample_env 0 ''a'' ''k'' sample_nonce sample_binding \<lparr>pg_records = [], pg_events = []\<rparr>
     = Inr (r, sample_db1)"
  "\<exists>r. pg_run sample_env 5 ''a'' (Lease (JInt 1) ''L'' (JInt 30)) sample_db1 = Inr (r, sample_db2)"
  using is_ok_db [OF sample_db1_ok] is_ok_db [OF sample_db2_ok]
  by (simp_all add: sample_db1_def [symmetric] sample_db2_def [symmetric])

lemma sample_db_reach: "pg_reach sample_env sample_db1" "pg_reach sample_env sample_db2"
proof -
  have 0: "pg_reach sample_env \<lparr>pg_records = [], pg_events = []\<rparr>" by (rule reach_init) simp
  show 1: "pg_reach sample_env sample_db1" using reach_step [OF 0] step_issue sample_db_runs(1) by metis
  show "pg_reach sample_env sample_db2" using reach_step [OF 1] step_run sample_db_runs(2) by metis
qed

text \<open>The Postgres store reconciles too: in every reachable database, reading an
  authority back never fails and returns its record and its receipts, in sequence order,
  with a valid chain.\<close>

theorem pg_store_reconciles:
  assumes "pg_reach E db"
  shows "pg_read_for_reconciliation E aid db = (case pg_view db aid of None \<Rightarrow> Inr None | Some (r, evs) \<Rightarrow>
     Inr (Some [(''schema_version'', JStr AUTHORITY_STORE_VERSION), (''record'', JObj r),
         (''events'', JList evs), (''event_chain_valid'', JBool True)]))"
  by (rule pg_store.read_reconciled [OF assms])

theorem pg_store_reconciles_witness:
  "is_ok (pg_read_for_reconciliation sample_env ''a'' sample_db2)"
  using pg_store_reconciles [OF sample_db_reach(2), of "''a''"] by (auto split: option.splits)

text \<open>Compare-and-set in the Postgres store: a version is spent by the first transition
  that succeeds on it.\<close>

theorem pg_store_cas_exclusive:
  assumes "pg_reach E db" and "pg_run E now aid op db = Inr (r, t)"
    and "(pg_step E)\<^sup>*\<^sup>* t u" and "op_version op' = op_version op"
  shows "\<not> is_ok (pg_run E now' aid op' u)"
  by (rule pg_store.cas_exclusive [OF assms])

theorem pg_store_cas_exclusive_witness:
  "\<not> is_ok (pg_run sample_env 9 ''a'' (Lease (JInt 1) ''M'' (JInt 30)) sample_db2)"
proof -
  obtain r where "pg_run sample_env 5 ''a'' (Lease (JInt 1) ''L'' (JInt 30)) sample_db1 = Inr (r, sample_db2)"
    using sample_db_runs(2) by blast
  from pg_store_cas_exclusive [OF sample_db_reach(1) this] show ?thesis by simp
qed

text \<open>The Postgres store dispatches an authority at most once.\<close>

theorem pg_store_dispatched_once:
  assumes "pg_reach E db" and "pg_view db aid = Some (r, evs)"
  shows "count_list (map event_type_of evs) ''marked_dispatched'' \<le> 1"
  by (rule pg_store.dispatched_once [OF assms])

theorem pg_store_dispatched_once_witness:
  "\<exists>r evs. pg_view sample_db2 ''a'' = Some (r, evs) \<and> count_list (map event_type_of evs) ''marked_dispatched'' \<le> 1"
proof -
  obtain x where x: "pg_run sample_env 5 ''a'' (Lease (JInt 1) ''L'' (JInt 30)) sample_db1 = Inr (x, sample_db2)"
    using sample_db_runs(2) by blast
  obtain r evs where "pg_view sample_db2 ''a'' = Some (r, evs)"
    using pg_store.run_version [OF pg_store.steps.reach_inv [OF sample_db_reach(1)] x] by blast
  with pg_store_dispatched_once [OF sample_db_reach(2) this] show ?thesis by blast
qed

end
