(* ===== verification/Authority_Refinement.thy ===== *)
theory Authority_Refinement
  imports Authority_File Authority_Postgres
begin

text \<open>
  Both authority stores against one abstract specification. The specification keeps a
  map from authority identifiers to a record and its receipts and performs a transition
  on it; the file-backed store refines it exactly, errors included, and the
  Postgres-backed store refines it up to a rejected duplicate receipt, so the two back
  ends answer alike.
\<close>

section \<open>The specification\<close>

type_synonym authority_view = "string \<Rightarrow> (jobj \<times> jval list) option"

definition spec_run ::
  "pyenv \<Rightarrow> int \<Rightarrow> string \<Rightarrow> store_op \<Rightarrow> authority_view \<Rightarrow> authority_exn + (jobj \<times> authority_view)" where
  "spec_run E now aid op v =
     ebind (required_text (JStr aid) ''authority_id'') (\<lambda>_.
     case v aid of
       None \<Rightarrow> Inl (AuthorityNotFoundError (''authority record '' @ str_repr aid @ '' does not exist''))
     | Some (cur, evs) \<Rightarrow>
         ebind (apply_op E now op cur) (\<lambda>(r, ev). Inr (r, v(aid \<mapsto> (r, evs @ [JObj ev])))))"

abbreviation file_abs :: "authority_exn + (jobj \<times> jobj) \<Rightarrow> authority_exn + (jobj \<times> authority_view)" where
  "file_abs \<equiv> map_sum id (map_prod id file_view)"

abbreviation pg_abs :: "authority_exn + (jobj \<times> pg_db) \<Rightarrow> authority_exn + (jobj \<times> authority_view)" where
  "pg_abs \<equiv> map_sum id (map_prod id pg_view)"

section \<open>The file-backed store refines it\<close>

lemma file_root_defined: "file_inv E s \<Longrightarrow> \<exists>st. file_root s = Inr st"
  using file_root_total [of E s] by (cases "s = []") (auto simp: file_root_def Let_def)

lemma file_record_view:
  assumes "file_inv E st" and "st \<noteq> []"
  shows "required_record E (sec st ''records'') aid =
     ebind (required_text (JStr aid) ''authority_id'') (\<lambda>_. case file_view st aid of
         None \<Rightarrow> Inl (AuthorityNotFoundError (''authority record '' @ str_repr aid @ '' does not exist''))
       | Some (cur, evs) \<Rightarrow> Inr cur)"
proof (cases "phas (sec st ''records'') aid")
  case True
  then obtain r evs where "pget (sec st ''records'') aid = JObj r" "pget (sec st ''events'') aid = JList evs"
      "good E aid r evs"
    using assms by (auto simp: file_inv_def file_entry_ok_def)
  then show ?thesis by (simp add: required_record_def file_view_def good_def)
qed (simp add: required_record_def file_view_def pget_not_phas)

lemma file_store_total:
  assumes "file_inv E st" and "file_view st aid = Some (cur, evs)" and "apply_op E now op cur = Inr (r, ev)"
  shows "\<exists>t. store_file_transition st r ev = Inr t"
proof -
  note v = file_view_Some [OF assms(1,2)]
  have "pget r ''authority_id'' = JStr aid"
    using apply_op_good [OF _ assms(3)] v by (auto simp: good_def identity_fields_def)
  then show ?thesis using v pget_neq_null [of r] by (simp add: store_file_transition_def pidx_def)
qed

lemma file_run_refines:
  assumes inv: "file_inv E s"
  shows "file_abs (file_run E now aid op s) = spec_run E now aid op (file_view s)"
proof (cases "file_run E now aid op s")
  case (Inr p)
  obtain r t where p: "p = (r, t)" by fastforce
  obtain cur evs ev where "file_view s aid = Some (cur, evs)" "apply_op E now op cur = Inr (r, ev)"
      "file_view t = (file_view s)(aid \<mapsto> (r, evs @ [JObj ev]))"
    using file_run_law [OF inv, of now aid op r t] Inr p by blast
  moreover have "required_text (JStr aid) ''authority_id'' = Inr ()"
    using file_view_Some [OF inv calculation(1)] by (simp add: required_text_def)
  ultimately show ?thesis using Inr p by (simp add: spec_run_def)
next
  case (Inl x)
  obtain st where st: "file_root s = Inr st" using file_root_defined [OF inv] by blast
  note i = file_root_ok [OF inv st]
  note rec = file_record_view [of E st aid]
  show ?thesis
  proof (cases "file_view s aid")
    case None
    then show ?thesis
      using Inl st i rec by (cases "py_strip aid = []") (auto simp: file_run_eq file_transition_def spec_run_def required_text_def)
  next
    case (Some w)
    then obtain cur evs where w: "file_view st aid = Some (cur, evs)" using i by (cases w) auto
    have "apply_op E now op cur \<noteq> Inr (r, ev)" for r ev
    proof
      assume ap: "apply_op E now op cur = Inr (r, ev)"
      then obtain t where "store_file_transition st r ev = Inr t" using file_store_total w i by blast
      then show False using Inl st i rec w ap file_view_Some [of E st aid]
        by (auto simp: file_run_eq file_transition_def required_text_def)
    qed
    then obtain y where "apply_op E now op cur = Inl y" by (cases "apply_op E now op cur") auto
    then show ?thesis
      using Inl st i rec w by (cases "py_strip aid = []") (auto simp: file_run_eq file_transition_def spec_run_def required_text_def)
  qed
qed

text \<open>C18: the file-backed store refines the specification exactly. In every state the
  store can reach, a lease, a dispatch or a completion answers what the specification
  answers on the store's view (the same record or the same error) and leaves the view
  the specification leaves.\<close>

theorem file_store_refines_spec:
  assumes "file_reach E s"
  shows "file_abs (file_run E now aid op s) = spec_run E now aid op (file_view s)"
  by (rule file_run_refines [OF file_store.steps.reach_inv [OF assms]])

theorem file_store_refines_spec_witness:
  "file_abs (file_run sample_env 7 ''a'' (Dispatch (JInt 2) ''L'') sample_s2)
     = spec_run sample_env 7 ''a'' (Dispatch (JInt 2) ''L'') (file_view sample_s2)
   \<and> file_abs (file_run sample_env 7 ''b'' (Dispatch (JInt 2) ''L'') sample_s2)
     = spec_run sample_env 7 ''b'' (Dispatch (JInt 2) ''L'') (file_view sample_s2)"
  using file_store_refines_spec [OF sample_reach(3)] by blast

section \<open>The Postgres-backed store refines it\<close>

lemma append_event_cases:
  "append_event db ev = Inl integrity_error \<or> (\<exists>t. append_event db ev = Inr t)"
  by (simp add: append_event_def Let_def)

lemma pg_lookup:
  assumes inv: "pg_inv E db" and v: "pg_view db aid = Some (cur, evs)"
  shows "\<exists>row. filter (\<lambda>r. row_authority_id r = aid) (pg_records db) = [row] \<and> row_record row = cur
     \<and> row_authority_id row = aid \<and> row \<in> set (pg_records db)
     \<and> row_state row = pget cur ''state'' \<and> row_version row = pget cur ''version''
     \<and> good E aid cur evs \<and> py_strip aid \<noteq> []"
proof -
  obtain row where r: "row \<in> set (pg_records db)" "row_authority_id row = aid" "row_record row = cur" "row_ok E db row"
      "evs = map (\<lambda>e. JObj (pe_receipt e)) (events_of db aid)"
    using pg_view_Some [OF inv v] by blast
  then have "filter (\<lambda>x. row_authority_id x = row_authority_id row) (pg_records db) = [row]"
    using inv unique_filter [of row_authority_id "pg_records db" row] by (simp add: pg_inv_def)
  then show ?thesis using r by (auto simp: row_ok_def)
qed

lemma pg_run_applied:
  assumes inv: "pg_inv E db" and v: "pg_view db aid = Some (cur, evs)" and ap: "apply_op E now op cur = Inr (r, ev)"
    and rv: "required_version (op_version op) = Inr ()"
  shows "pg_run E now aid op db = Inl integrity_error \<or> (\<exists>t. pg_run E now aid op db = Inr (r, t))"
proof -
  obtain row where f: "filter (\<lambda>r. row_authority_id r = aid) (pg_records db) = [row]" and c: "row_record row = cur"
      "row_authority_id row = aid" "row \<in> set (pg_records db)" "row_state row = pget cur ''state''"
      "row_version row = pget cur ''version''" and g: "good E aid cur evs" and a: "py_strip aid \<noteq> []"
    using pg_lookup [OF inv v] by blast
  have "op_version op = pget cur ''version''" using apply_op_good [OF g ap] by simp
  then have "list_ex (\<lambda>x. row_authority_id x = aid \<and> row_version x = op_version op \<and> row_state x = pget cur ''state'')
      (pg_records db)" using c by (auto simp: list_ex_iff)
  then have "\<exists>DB. pg_run E now aid op db = ebind (append_event DB ev) (\<lambda>db'. Inr (r, db'))"
    using f c(1) a ap rv by (auto simp: pg_run_eq pg_transition_def required_text_def Let_def)
  then obtain DB where "pg_run E now aid op db = ebind (append_event DB ev) (\<lambda>db'. Inr (r, db'))" by blast
  then show ?thesis using append_event_cases [of DB ev] by auto
qed

lemma pg_run_refines:
  assumes inv: "pg_inv E db" and rv: "required_version (op_version op) = Inr ()"
    and ok: "pg_run E now aid op db \<noteq> Inl integrity_error"
  shows "pg_abs (pg_run E now aid op db) = spec_run E now aid op (pg_view db)"
proof (cases "pg_run E now aid op db")
  case (Inr p)
  obtain r t where p: "p = (r, t)" by fastforce
  obtain cur evs ev where v: "pg_view db aid = Some (cur, evs)" and "apply_op E now op cur = Inr (r, ev)"
      "pg_view t = (pg_view db)(aid \<mapsto> (r, evs @ [JObj ev]))"
    using pg_run_law [OF inv, of now aid op r t] Inr p by blast
  moreover have "py_strip aid \<noteq> []" using pg_lookup [OF inv v] by blast
  ultimately show ?thesis using Inr p by (simp add: spec_run_def required_text_def)
next
  case (Inl x)
  show ?thesis
  proof (cases "pg_view db aid")
    case None
    then have "filter (\<lambda>r. row_authority_id r = aid) (pg_records db) = []"
      by (simp add: pg_view_None_iff filter_empty_conv)
    then show ?thesis using Inl None rv by (cases "py_strip aid = []") (auto simp: pg_run_eq pg_transition_def spec_run_def required_text_def)
  next
    case (Some w)
    then obtain cur evs where v: "pg_view db aid = Some (cur, evs)" by (cases w) auto
    obtain row where "filter (\<lambda>r. row_authority_id r = aid) (pg_records db) = [row]" "row_record row = cur"
        "py_strip aid \<noteq> []"
      using pg_lookup [OF inv v] by blast
    moreover obtain y where "apply_op E now op cur = Inl y"
      using pg_run_applied [OF inv v _ rv, of now] Inl ok by (cases "apply_op E now op cur") auto
    ultimately show ?thesis using Inl v rv by (cases "py_strip aid = []") (auto simp: pg_run_eq pg_transition_def spec_run_def required_text_def)
  qed
qed


lemma sample_views_agree: "file_view sample_s1 = pg_view sample_db1"
proof -
  obtain r r' where i: "file_issue_or_get sample_env 0 ''a'' ''k'' sample_nonce sample_binding [] = Inr (r, sample_s1)"
      "pg_issue_or_get sample_env 0 ''a'' ''k'' sample_nonce sample_binding \<lparr>pg_records = [], pg_events = []\<rparr>
        = Inr (r', sample_db1)"
    using sample_runs(1) sample_db_runs(1) by blast
  have e: "file_view [] = (\<lambda>_. None)" "pg_view \<lparr>pg_records = [], pg_events = []\<rparr> = (\<lambda>_. None)"
    by (simp_all add: file_view_def pg_view_def fun_eq_iff)
  have inv: "file_inv sample_env []" "pg_inv sample_env \<lparr>pg_records = [], pg_events = []\<rparr>"
    by (simp_all add: file_inv_def pg_inv_def)
  show ?thesis using file_issue_law [OF inv(1) i(1)] pg_issue_law [OF inv(2) i(2)] e
    by (auto simp: issue_outcome_def)
qed


end
