(* ===== verification/Schema_Validation.thy ===== *)
theory Schema_Validation
  imports Py_Value
begin

text \<open>
  \<open>shared/mesh_runtime/schema_validation.py\<close>: the structural validator that every shared
  contract goes through. The schema is the dictionary of a file under \<open>schemas/\<close>
  (\<open>load_schema\<close> reads it), so it is an argument here. \<open>SchemaValidationError\<close> is a
  \<open>ValueError\<close>. A schema of another shape than those files have (an \<open>enum\<close> that is not a list,
  sub-schemas that are not objects) raises \<open>TypeError\<close>.
\<close>

section \<open>The validator\<close>

fun type_name :: "jval \<Rightarrow> string" where
  "type_name JNull = ''NoneType''"
| "type_name (JBool _) = ''bool''"
| "type_name (JInt _) = ''int''"
| "type_name (JFloat _) = ''float''"
| "type_name (JStr _) = ''str''"
| "type_name (JList _) = ''list''"
| "type_name (JObj _) = ''dict''"

definition matches_type :: "jval \<Rightarrow> jval \<Rightarrow> bool" where
  "matches_type value schema_type =
     (if schema_type = JStr ''null'' then value = JNull
      else if schema_type = JStr ''string'' then is_str value
      else if schema_type = JStr ''number'' then (case value of JInt _ \<Rightarrow> True | JFloat _ \<Rightarrow> True | _ \<Rightarrow> False)
      else if schema_type = JStr ''integer'' then is_int value \<and> \<not> is_bool value
      else if schema_type = JStr ''boolean'' then is_bool value
      else if schema_type = JStr ''object'' then is_obj value
      else if schema_type = JStr ''array'' then is_list value
      else True)"

definition py_in :: "jval \<Rightarrow> jval list \<Rightarrow> bool" where
  "py_in v xs = list_ex (\<lambda>x. py_eq v x) xs"

fun allowed_types :: "jval \<Rightarrow> jval list" where
  "allowed_types (JList ts) = ts"
| "allowed_types t = [t]"

definition enum_check :: "jval \<Rightarrow> jobj \<Rightarrow> string \<Rightarrow> py_exn + unit" where
  "enum_check value schema path =
     (if phas schema ''enum'' then
        (case pget schema ''enum'' of
           JList xs \<Rightarrow> require (py_in value xs)
             (ValueError (path @ '': '' @ py_repr value @ '' not in enum '' @ py_repr (JList xs)))
         | _ \<Rightarrow> Inl (TypeError ''enum''))
      else Inr ())"

definition type_check :: "jval \<Rightarrow> jobj \<Rightarrow> string \<Rightarrow> py_exn + unit" where
  "type_check value schema path =
     (if phas schema ''type'' then
        let ts = allowed_types (pget schema ''type'') in
        require (list_ex (matches_type value) ts)
          (ValueError (path @ '': expected type '' @ py_repr (JList ts) @ '', got '' @ type_name value))
      else Inr ())"

text \<open>\<open>schema.get("type") == name or (isinstance(list) and name in it and isinstance(value, ...))\<close>.\<close>

definition selects :: "jobj \<Rightarrow> string \<Rightarrow> bool \<Rightarrow> bool" where
  "selects schema name value_is = (case pget schema ''type'' of
      JStr t \<Rightarrow> t = name
    | JList ts \<Rightarrow> JStr name \<in> set ts \<and> value_is
    | _ \<Rightarrow> False)"

fun check_required :: "jobj \<Rightarrow> string \<Rightarrow> jval list \<Rightarrow> py_exn + unit" where
  "check_required value path [] = Inr ()"
| "check_required value path (f # fs) =
     (if (case f of JStr k \<Rightarrow> phas value k | _ \<Rightarrow> False) then check_required value path fs
      else Inl (ValueError (path @ '': missing required field '' @ py_repr f)))"

definition check_extra :: "jobj \<Rightarrow> jobj \<Rightarrow> jobj \<Rightarrow> string \<Rightarrow> py_exn + unit" where
  "check_extra value schema props path =
     (if pget schema ''additionalProperties'' = JBool False then
        (case sorted_set (filter (\<lambda>k. \<not> phas props k) (map fst value)) of
           [] \<Rightarrow> Inr ()
         | extra \<Rightarrow> Inl (ValueError (path @ '': unexpected fields '' @ py_repr (JList (map JStr extra)))))
      else Inr ())"

definition check_min_items :: "jval list \<Rightarrow> jobj \<Rightarrow> string \<Rightarrow> py_exn + unit" where
  "check_min_items value schema path =
     (case pget schema ''minItems'' of
        JNull \<Rightarrow> Inr ()
      | m \<Rightarrow> (case num_of m of
            None \<Rightarrow> Inl (TypeError ''minItems'')
          | Some q \<Rightarrow> require (q \<le> of_nat (length value))
              (ValueError (path @ '': expected at least '' @ py_str m @ '' items, got ''
                 @ int_str (int (length value))))))"

function validate_node :: "jval \<Rightarrow> jobj \<Rightarrow> string \<Rightarrow> py_exn + unit"
  and validate_fields :: "jobj \<Rightarrow> jobj \<Rightarrow> string \<Rightarrow> py_exn + unit"
  and validate_items :: "jval list \<Rightarrow> jobj \<Rightarrow> string \<Rightarrow> nat \<Rightarrow> py_exn + unit" where
  "validate_node value schema path =
     ebind (enum_check value schema path) (\<lambda>_.
     ebind (type_check value schema path) (\<lambda>_.
     case value of
       JObj d \<Rightarrow>
         if selects schema ''object'' True then
           (let props = obj_or_empty (pget schema ''properties'') in
            ebind (check_required d path (list_or_empty (pget schema ''required''))) (\<lambda>_.
            ebind (check_extra d schema props path) (\<lambda>_.
            validate_fields d props path)))
         else Inr ()
     | JList xs \<Rightarrow>
         if selects schema ''array'' True then
           ebind (check_min_items xs schema path) (\<lambda>_.
           case pget schema ''items'' of
             JNull \<Rightarrow> Inr ()
           | JObj item_schema \<Rightarrow> validate_items xs item_schema path 0
           | _ \<Rightarrow> if xs = [] then Inr () else Inl (TypeError ''items''))
         else Inr ()
     | _ \<Rightarrow> Inr ()))"
| "validate_fields [] props path = Inr ()"
| "validate_fields ((k, v) # d) props path =
     (case pget props k of
        JNull \<Rightarrow> validate_fields d props path
      | JObj s \<Rightarrow> ebind (validate_node v s (path @ ''.'' @ k)) (\<lambda>_. validate_fields d props path)
      | _ \<Rightarrow> Inl (TypeError ''properties''))"
| "validate_items [] item_schema path i = Inr ()"
| "validate_items (x # xs) item_schema path i =
     ebind (validate_node x item_schema (path @ ''['' @ int_str (int i) @ '']'')) (\<lambda>_.
       validate_items xs item_schema path (i + 1))"
  by pat_completeness auto
termination
  by (relation "measure (\<lambda>x. case x of
        Inl (v, _, _) \<Rightarrow> 2 * size v
      | Inr (Inl (d, _, _)) \<Rightarrow> 1 + 2 * size_list (size_prod (\<lambda>_. 0) size) d
      | Inr (Inr (xs, _, _, _)) \<Rightarrow> 1 + 2 * size_list size xs)") auto

declare validate_node.simps [simp del]

definition validate_payload :: "jobj \<Rightarrow> jval \<Rightarrow> py_exn + unit" where
  "validate_payload schema payload = validate_node payload schema ''$''"

section \<open>What the validator accepts\<close>

text \<open>The declarative reading of a schema: no paths, no order of checks.\<close>

definition enum_ok :: "jval \<Rightarrow> jobj \<Rightarrow> bool" where
  "enum_ok v s \<longleftrightarrow> phas s ''enum'' \<longrightarrow> (\<exists>xs. pget s ''enum'' = JList xs \<and> (\<exists>x \<in> set xs. py_eq v x))"

definition type_ok :: "jval \<Rightarrow> jobj \<Rightarrow> bool" where
  "type_ok v s \<longleftrightarrow> phas s ''type'' \<longrightarrow> (\<exists>t \<in> set (allowed_types (pget s ''type'')). matches_type v t)"

definition fields_ok :: "jobj \<Rightarrow> jobj \<Rightarrow> bool" where
  "fields_ok d s \<longleftrightarrow>
     (\<forall>f \<in> set (list_or_empty (pget s ''required'')). \<exists>k. f = JStr k \<and> phas d k)
   \<and> (pget s ''additionalProperties'' = JBool False \<longrightarrow>
        (\<forall>k \<in> fst ` set d. phas (obj_or_empty (pget s ''properties'')) k))"

definition min_ok :: "jval list \<Rightarrow> jobj \<Rightarrow> bool" where
  "min_ok xs s \<longleftrightarrow> pget s ''minItems'' \<noteq> JNull \<longrightarrow>
     (\<exists>q. num_of (pget s ''minItems'') = Some q \<and> q \<le> of_nat (length xs))"

inductive conforms :: "jval \<Rightarrow> jobj \<Rightarrow> bool" where
  conforms_atom: "enum_ok v s \<Longrightarrow> type_ok v s \<Longrightarrow> \<not> is_obj v \<Longrightarrow> \<not> is_list v \<Longrightarrow> conforms v s"
| conforms_any_obj: "enum_ok (JObj d) s \<Longrightarrow> type_ok (JObj d) s \<Longrightarrow> \<not> selects s ''object'' True \<Longrightarrow> conforms (JObj d) s"
| conforms_any_list: "enum_ok (JList xs) s \<Longrightarrow> type_ok (JList xs) s \<Longrightarrow> \<not> selects s ''array'' True \<Longrightarrow> conforms (JList xs) s"
| conforms_obj: "enum_ok (JObj d) s \<Longrightarrow> type_ok (JObj d) s \<Longrightarrow> selects s ''object'' True \<Longrightarrow> fields_ok d s \<Longrightarrow>
     (\<And>k v. (k, v) \<in> set d \<Longrightarrow> pget (obj_or_empty (pget s ''properties'')) k \<noteq> JNull \<Longrightarrow>
        \<exists>s'. pget (obj_or_empty (pget s ''properties'')) k = JObj s' \<and> conforms v s') \<Longrightarrow> conforms (JObj d) s"
| conforms_list: "enum_ok (JList xs) s \<Longrightarrow> type_ok (JList xs) s \<Longrightarrow> selects s ''array'' True \<Longrightarrow> min_ok xs s \<Longrightarrow>
     (\<And>x. x \<in> set xs \<Longrightarrow> pget s ''items'' \<noteq> JNull \<Longrightarrow> \<exists>s'. pget s ''items'' = JObj s' \<and> conforms x s') \<Longrightarrow>
     conforms (JList xs) s"

inductive_simps conforms_obj_iff: "conforms (JObj d) s"
inductive_simps conforms_list_iff: "conforms (JList xs) s"

lemma is_ok_ebind [simp]: "is_ok (ebind r f) \<longleftrightarrow> (\<exists>x. r = Inr x \<and> is_ok (f x))"
  by (cases r) auto

lemma is_ok_unit: "is_ok (r :: 'e + unit) \<longleftrightarrow> r = Inr ()"
  by (cases r) auto

lemma enum_check_ok [simp]: "enum_check v s p = Inr u \<longleftrightarrow> enum_ok v s"
  by (auto simp: enum_check_def enum_ok_def py_in_def list_ex_iff split: jval.splits)

lemma type_check_ok [simp]: "type_check v s p = Inr u \<longleftrightarrow> type_ok v s"
  by (auto simp: type_check_def type_ok_def Let_def list_ex_iff)

lemma check_required_ok: "check_required d p fs = Inr u \<longleftrightarrow> (\<forall>f \<in> set fs. \<exists>k. f = JStr k \<and> phas d k)"
  by (induction d p fs rule: check_required.induct) (auto split: jval.splits)

lemma check_extra_ok: "check_extra d s props p = Inr u \<longleftrightarrow>
    (pget s ''additionalProperties'' = JBool False \<longrightarrow> (\<forall>k \<in> fst ` set d. phas props k))"
proof -
  have "sorted_set (filter (\<lambda>k. \<not> phas props k) (map fst d)) = [] \<longleftrightarrow> (\<forall>k \<in> fst ` set d. phas props k)"
    by (simp add: filter_empty_conv)
  then show ?thesis by (auto simp: check_extra_def simp del: sorted_set_Nil_iff split: list.split)
qed

lemma check_min_items_ok [simp]: "check_min_items xs s p = Inr u \<longleftrightarrow> min_ok xs s"
  by (auto simp: check_min_items_def min_ok_def split: jval.splits option.splits)

lemma validate_accepts:
  "is_ok (validate_node v s p) \<longleftrightarrow> conforms v s"
  "is_ok (validate_fields d props p) \<longleftrightarrow>
     (\<forall>(k, v) \<in> set d. pget props k \<noteq> JNull \<longrightarrow> (\<exists>s'. pget props k = JObj s' \<and> conforms v s'))"
  "is_ok (validate_items xs s' p i) \<longleftrightarrow> (\<forall>x \<in> set xs. conforms x s')"
proof (induction v s p and d props p and xs s' p i rule: validate_node_validate_fields_validate_items.induct)
  case (1 v s p)
  show ?case
  proof (cases v)
    case (JObj d)
    let ?props = "obj_or_empty (pget s ''properties'')"
    have "is_ok (validate_fields d ?props p) \<longleftrightarrow>
        (\<forall>(k, v) \<in> set d. pget ?props k \<noteq> JNull \<longrightarrow> (\<exists>s'. pget ?props k = JObj s' \<and> conforms v s'))"
      if "enum_ok v s" "type_ok v s" "selects s ''object'' True" "fields_ok d s"
      using that JObj 1(2) [OF _ _ JObj _ refl]
      by (simp add: check_required_ok check_extra_ok fields_ok_def)
    then show ?thesis using JObj
      by (auto simp: validate_node.simps conforms_obj_iff check_required_ok check_extra_ok fields_ok_def Let_def)
  next
    case (JList xs)
    have "is_ok (validate_items xs s' p 0) \<longleftrightarrow> (\<forall>x \<in> set xs. conforms x s')"
      if "enum_ok v s" "type_ok v s" "selects s ''array'' True" "min_ok xs s" "pget s ''items'' = JObj s'" for s'
      using that JList 1(1) [OF _ _ JList] by simp
    then show ?thesis using JList
      by (auto simp: validate_node.simps conforms_list_iff split: jval.splits)
  qed (auto simp: validate_node.simps intro: conforms_atom elim: conforms.cases)
qed (auto simp: is_ok_unit split: jval.splits)

text \<open>C37: the validator accepts exactly the payloads that conform to the schema; in
  particular neither the order of its checks nor the path it reports matters.\<close>

theorem validate_payload_accepts: "is_ok (validate_payload schema payload) \<longleftrightarrow> conforms payload schema"
  by (simp add: validate_payload_def validate_accepts)

text \<open>An accepted object has all required fields and, where the schema is closed, no others.\<close>

lemma validate_payload_fields:
  assumes "validate_payload schema (JObj d) = Inr ()" and "pget schema ''type'' = JStr ''object''"
  shows "(\<forall>k. JStr k \<in> set (list_or_empty (pget schema ''required'')) \<longrightarrow> phas d k)
    \<and> (pget schema ''additionalProperties'' = JBool False \<longrightarrow>
         fst ` set d \<subseteq> fst ` set (obj_or_empty (pget schema ''properties'')))"
proof -
  have "conforms (JObj d) schema" using assms(1) validate_accepts(1) by (simp add: validate_payload_def is_ok_unit)
  moreover have "selects schema ''object'' True" using assms(2) by (simp add: selects_def)
  ultimately have "fields_ok d schema" by (simp add: conforms_obj_iff)
  moreover have "phas e k \<Longrightarrow> k \<in> fst ` set e" for e :: jobj and k
    by (auto simp: phas_def dest: map_of_SomeD intro: rev_image_eqI)
  ultimately show ?thesis by (fastforce simp: fields_ok_def)
qed

end
