(* ===== verification/Contracts.thy ===== *)
theory Contracts
  imports Schema_Validation Py_Env
begin

text \<open>
  \<open>shared/mesh_runtime/contracts.py\<close>: the contract records that pass between the
  services, with \<open>to_dict\<close> and \<open>from_dict\<close> (both validate against the record's schema).
  The loaded schemas are the argument \<open>schemas\<close>, by file name. \<open>confidence\<close> is kept as the
  JSON number it arrives as. A payload whose values have the wrong shape for the record
  raises \<open>TypeError\<close> (the schemas rule it out).
\<close>

type_synonym schemas = "string \<Rightarrow> jobj"

definition ck :: "bool \<Rightarrow> string \<Rightarrow> py_exn + unit" where
  "ck b msg = require b (ValueError msg)"

text \<open>A sequence of checks: the first failure is the result.\<close>

fun run_checks :: "(py_exn + unit) list \<Rightarrow> py_exn + unit" where
  "run_checks [] = Inr ()"
| "run_checks (c # cs) = (case c of Inl e \<Rightarrow> Inl e | Inr _ \<Rightarrow> run_checks cs)"

lemma ck_Inr [simp]: "ck b msg = Inr u \<longleftrightarrow> b"
  by (simp add: ck_def)

lemma run_checks_Inr [simp]: "run_checks cs = Inr u \<longleftrightarrow> (\<forall>c \<in> set cs. c = Inr ())"
  by (induction cs) (auto split: sum.splits)

declare run_checks.simps [simp del]

record Decision =
  decision_id :: string
  trigger_id :: string
  summary :: string
  decision_type :: string
  autonomy_tier :: string
  reasoning :: jobj
  expected_outcome :: jobj
  risk :: jobj
  confidence :: jval
  execution_plan :: jobj

definition decision_asdict :: "Decision \<Rightarrow> jobj" where
  "decision_asdict d =
     [(''decision_id'', JStr (decision_id d)), (''trigger_id'', JStr (trigger_id d)),
      (''summary'', JStr (summary d)), (''decision_type'', JStr (decision_type d)),
      (''autonomy_tier'', JStr (autonomy_tier d)), (''reasoning'', JObj (reasoning d)),
      (''expected_outcome'', JObj (expected_outcome d)), (''risk'', JObj (risk d)),
      (''confidence'', confidence d), (''execution_plan'', JObj (execution_plan d))]"

definition decision_to_dict :: "schemas \<Rightarrow> Decision \<Rightarrow> py_exn + jobj" where
  "decision_to_dict S d =
     ebind (validate_payload (S ''decision.schema.json'') (JObj (decision_asdict d))) (\<lambda>_.
       Inr (decision_asdict d))"

definition str_field :: "jobj \<Rightarrow> string \<Rightarrow> py_exn + string" where
  "str_field d k = (case map_of d k of Some (JStr s) \<Rightarrow> Inr s | _ \<Rightarrow> Inl (TypeError k))"

definition obj_field :: "jobj \<Rightarrow> string \<Rightarrow> py_exn + jobj" where
  "obj_field d k = (case map_of d k of Some (JObj s) \<Rightarrow> Inr s | _ \<Rightarrow> Inl (TypeError k))"

definition any_field :: "jobj \<Rightarrow> string \<Rightarrow> py_exn + jval" where
  "any_field d k = (case map_of d k of Some v \<Rightarrow> Inr v | None \<Rightarrow> Inl (TypeError k))"

definition DECISION_FIELDS :: "string list" where
  "DECISION_FIELDS = [''decision_id'', ''trigger_id'', ''summary'', ''decision_type'', ''autonomy_tier'',
     ''reasoning'', ''expected_outcome'', ''risk'', ''confidence'', ''execution_plan'']"

definition decision_from_dict :: "schemas \<Rightarrow> jobj \<Rightarrow> py_exn + Decision" where
  "decision_from_dict S p =
     ebind (validate_payload (S ''decision.schema.json'') (JObj p)) (\<lambda>_.
     if \<not> set (map fst p) \<subseteq> set DECISION_FIELDS then Inl (TypeError ''unexpected keyword argument'')
     else
     ebind (str_field p ''decision_id'') (\<lambda>a.
     ebind (str_field p ''trigger_id'') (\<lambda>b.
     ebind (str_field p ''summary'') (\<lambda>c.
     ebind (str_field p ''decision_type'') (\<lambda>d.
     ebind (str_field p ''autonomy_tier'') (\<lambda>e.
     ebind (obj_field p ''reasoning'') (\<lambda>f.
     ebind (obj_field p ''expected_outcome'') (\<lambda>g.
     ebind (obj_field p ''risk'') (\<lambda>h.
     ebind (any_field p ''confidence'') (\<lambda>i.
     ebind (obj_field p ''execution_plan'') (\<lambda>j.
     Inr \<lparr>decision_id = a, trigger_id = b, summary = c, decision_type = d, autonomy_tier = e, reasoning = f,
          expected_outcome = g, risk = h, confidence = i, execution_plan = j\<rparr>)))))))))))"

record EvaluationResult =
  evaluation_id :: string
  eval_decision_id :: string
  passed :: bool
  final_recommendation :: string
  stage_results :: jobj
  blocking_reasons :: "string list"
  review_route :: "string option"

definition jopt :: "string option \<Rightarrow> jval" where
  "jopt x = (case x of None \<Rightarrow> JNull | Some s \<Rightarrow> JStr s)"

definition evaluation_asdict :: "EvaluationResult \<Rightarrow> jobj" where
  "evaluation_asdict v =
     [(''evaluation_id'', JStr (evaluation_id v)), (''decision_id'', JStr (eval_decision_id v)),
      (''passed'', JBool (passed v)), (''final_recommendation'', JStr (final_recommendation v)),
      (''stage_results'', JObj (stage_results v)),
      (''blocking_reasons'', JList (map JStr (blocking_reasons v))),
      (''review_route'', jopt (review_route v))]"

record ExecutionRecord =
  execution_id :: string
  exec_decision_id :: string
  started_at :: string
  completed_at :: string
  executor :: string
  exec_status :: string
  exec_idempotency_key :: string
  applied_action :: jobj
  external_refs :: jobj
  failure :: "jobj option"

definition execution_asdict :: "ExecutionRecord \<Rightarrow> jobj" where
  "execution_asdict x =
     [(''execution_id'', JStr (execution_id x)), (''decision_id'', JStr (exec_decision_id x)),
      (''started_at'', JStr (started_at x)), (''completed_at'', JStr (completed_at x)),
      (''executor'', JStr (executor x)), (''status'', JStr (exec_status x)),
      (''idempotency_key'', JStr (exec_idempotency_key x)), (''applied_action'', JObj (applied_action x)),
      (''external_refs'', JObj (external_refs x)),
      (''failure'', case failure x of None \<Rightarrow> JNull | Some f \<Rightarrow> JObj f)]"

text \<open>\<open>record.validate()\<close>: the payload of \<open>to_dict\<close> meets the schema.\<close>

definition execution_validate :: "schemas \<Rightarrow> ExecutionRecord \<Rightarrow> py_exn + unit" where
  "execution_validate S x = validate_payload (S ''execution-record.schema.json'') (JObj (execution_asdict x))"

lemma decision_fields [simp]:
  "pget (decision_asdict d) ''execution_plan'' = JObj (execution_plan d)"
  "pget (decision_asdict d) ''decision_id'' = JStr (decision_id d)"
  "pget (decision_asdict d) ''risk'' = JObj (risk d)"
  by (simp_all add: decision_asdict_def)

lemma decision_roundtrip:
  assumes "validate_payload (S ''decision.schema.json'') (JObj (decision_asdict d)) = Inr ()"
  shows "decision_from_dict S (decision_asdict d) = Inr d"
  using assms by (simp add: decision_from_dict_def str_field_def obj_field_def any_field_def
      DECISION_FIELDS_def decision_asdict_def)

text \<open>The contract round trip. What \<open>to_dict\<close> returns is read back by \<open>from_dict\<close> as the
  same decision.\<close>

theorem decision_to_from_dict:
  assumes "decision_to_dict S d = Inr p"
  shows "decision_from_dict S p = Inr d"
  using assms decision_roundtrip by (auto simp: decision_to_dict_def)

end
