(* ===== verification/Py_Shlex.thy ===== *)
theory Py_Shlex
  imports Py_Value
begin

text \<open>
  The parts of the standard library's \<open>shlex\<close> and \<open>pathlib\<close> that the bridge and the permit
  store call: \<open>shlex.split\<close> in its default (POSIX, whitespace-split, no comments) mode and
  the pure operations of \<open>PurePosixPath\<close>.
\<close>

section \<open>\<open>shlex.split\<close>\<close>

datatype sh_state = ShStart | ShWord | ShQuote char | ShEscape "char option"

definition sh_space :: "char \<Rightarrow> bool" where
  "sh_space c \<longleftrightarrow> c \<in> {CHR '' '', CHR 0x09, CHR 0x0D, CHR 0x0A}"

definition sh_quote :: "char \<Rightarrow> bool" where
  "sh_quote c \<longleftrightarrow> c \<in> {CHR 0x27, CHR 0x22}"

text \<open>
  \<open>read_token\<close>, run over the whole input. The token is built in reverse; \<open>ShEscape (Some q)\<close>
  is an escape inside the quote \<open>q\<close>, \<open>ShEscape None\<close> one outside.
\<close>

fun sh_go :: "sh_state \<Rightarrow> string \<Rightarrow> bool \<Rightarrow> string \<Rightarrow> py_exn + string list" where
  "sh_go st token quoted [] =
     (case st of
        ShQuote _ \<Rightarrow> Inl (ValueError ''No closing quotation'')
      | ShEscape _ \<Rightarrow> Inl (ValueError ''No escaped character'')
      | _ \<Rightarrow> Inr (if token \<noteq> [] \<or> quoted then [rev token] else []))"
| "sh_go st token quoted (c # cs) =
     (case st of
        ShQuote q \<Rightarrow>
          if c = q then sh_go ShWord token True cs
          else if c = CHR 0x5C \<and> q = CHR 0x22 then sh_go (ShEscape (Some q)) token True cs
          else sh_go (ShQuote q) (c # token) True cs
      | ShEscape None \<Rightarrow> sh_go ShWord (c # token) quoted cs
      | ShEscape (Some q) \<Rightarrow>
          sh_go (ShQuote q) (if c \<noteq> CHR 0x5C \<and> c \<noteq> q then c # CHR 0x5C # token else c # token) quoted cs
      | _ \<Rightarrow>
          if sh_space c then
            (if token \<noteq> [] \<or> quoted
             then ebind (sh_go ShStart [] False cs) (\<lambda>ts. Inr (rev token # ts))
             else sh_go ShStart [] False cs)
          else if c = CHR 0x5C then sh_go (ShEscape None) token quoted cs
          else if sh_quote c then sh_go (ShQuote c) token quoted cs
          else sh_go ShWord (c # token) quoted cs)"

definition shlex_split :: "string \<Rightarrow> py_exn + string list" where
  "shlex_split s = sh_go ShStart [] False s"

section \<open>Pure paths\<close>

text \<open>A path is its root (\<open>""\<close>, \<open>"/"\<close> or \<open>"//"\<close>) and its parts; empty and \<open>"."\<close> parts vanish.\<close>

fun split_on :: "char \<Rightarrow> string \<Rightarrow> string list" where
  "split_on sep [] = [[]]"
| "split_on sep (c # s) =
     (if c = sep then [] # split_on sep s
      else (case split_on sep s of [] \<Rightarrow> [[c]] | w # ws \<Rightarrow> (c # w) # ws))"

definition path_root :: "string \<Rightarrow> string" where
  "path_root s =
     (if starts_with s ''///'' then ''/'' else if starts_with s ''//'' then ''//''
      else if starts_with s ''/'' then ''/'' else [])"

definition path_parts :: "string \<Rightarrow> string list" where
  "path_parts s = filter (\<lambda>p. p \<noteq> [] \<and> p \<noteq> ''.'') (split_on (CHR ''/'') s)"

definition path_str_of :: "string \<Rightarrow> string list \<Rightarrow> string" where
  "path_str_of rt ps = (if rt = [] \<and> ps = [] then ''.'' else rt @ join_str ''/'' ps)"

definition path_str :: "string \<Rightarrow> string" where
  "path_str s = path_str_of (path_root s) (path_parts s)"

definition path_is_absolute :: "string \<Rightarrow> bool" where
  "path_is_absolute s = (path_root s \<noteq> [])"

definition path_join :: "string \<Rightarrow> string \<Rightarrow> string" where
  "path_join a b =
     (if path_is_absolute b then path_str b
      else path_str_of (path_root a) (path_parts a @ path_parts b))"

text \<open>\<open>a.relative_to(b)\<close>: none when \<open>b\<close> is not a prefix of \<open>a\<close>.\<close>

definition path_relative_to :: "string \<Rightarrow> string \<Rightarrow> string option" where
  "path_relative_to a b =
     (if path_root a = path_root b \<and> take (length (path_parts b)) (path_parts a) = path_parts b
      then Some (path_str_of [] (drop (length (path_parts b)) (path_parts a)))
      else None)"

section \<open>Lemmas\<close>

lemma split_on_append:
  "c \<notin> set a \<Longrightarrow> split_on c (a @ c # b) = a # split_on c b"
  by (induction a) auto

lemma split_on_plain: "c \<notin> set a \<Longrightarrow> split_on c a = [a]"
  by (induction a) auto

lemma split_on_join:
  "ps \<noteq> [] \<Longrightarrow> \<forall>p \<in> set ps. c \<notin> set p \<Longrightarrow> split_on c (join_str [c] ps) = ps"
  by (induction "[c]" ps rule: join_str.induct) (simp_all add: split_on_append split_on_plain)

lemma split_on_no_sep: "p \<in> set (split_on c s) \<Longrightarrow> c \<notin> set p"
  by (induction s arbitrary: p) (auto split: if_splits list.splits)

lemma shlex_split_words:
  "shlex_split ''pytest -q \"a b\" c'' = Inr [''pytest'', ''-q'', ''a b'', ''c'']"
  by (simp add: shlex_split_def sh_space_def sh_quote_def)

end
