(* ===== verification/Hsai_Bridge.thy ===== *)
theory Hsai_Bridge
  imports Contracts Py_Shlex
begin

text \<open>
  \<open>shared/mesh_runtime/hsai_bridge.py\<close>: the admission bridge. It builds the admission
  request for a repository patch, asks an external adapter for a decision, validates
  whatever comes back and turns it into a gate; it builds and verifies the combined proof
  packet, and attaches the admitted context to the decision that is executed.

  The adapter is code outside the repository: it is the argument \<open>admit\<close>, which returns
  a value or the text of the exception it raised. Dictionaries are association lists,
  \<open>d["k"]\<close> raises \<open>KeyError\<close>. \<open>now\<close> is what \<open>_now()\<close> returned.
\<close>

section \<open>Constants\<close>

definition HSAI_REQUEST_V1 :: string where "HSAI_REQUEST_V1 = ''mesh.hsai_admission_request.v1''"
definition HSAI_REQUEST_V2 :: string where "HSAI_REQUEST_V2 = ''mesh.hsai_admission_request.v2''"
definition HSAI_DECISION_V1 :: string where "HSAI_DECISION_V1 = ''mesh.hsai_admission_decision.v1''"
definition COMBINED_PACKET_V1 :: string where "COMBINED_PACKET_V1 = ''mesh.combined_proof_packet.v1''"
definition PACKET_VERIFICATION_V1 :: string where
  "PACKET_VERIFICATION_V1 = ''mesh.combined_proof_packet_verification.v1''"
definition EXECUTION_CONTEXT_V1 :: string where "EXECUTION_CONTEXT_V1 = ''mesh.hsai_execution_context.v1''"
definition CONTEXT_KEY :: string where "CONTEXT_KEY = ''_mesh_hsai_admission_context''"

definition DEFAULT_EXPLICIT_NONCLAIMS :: "string list" where
  "DEFAULT_EXPLICIT_NONCLAIMS =
     [''does_not_claim_global_correctness'', ''does_not_claim_security_review_complete'',
      ''does_not_claim_production_certification'', ''does_not_claim_accepted_hsai_evidence'',
      ''does_not_claim_formal_proof'']"
definition DEFAULT_REQUESTED_CLAIMS :: "string list" where
  "DEFAULT_REQUESTED_CLAIMS = [''patch_applies_cleanly'', ''tests_passed'', ''no_protected_paths_modified'']"
definition DEFAULT_PROTECTED_REPO_PATHS :: "string list" where
  "DEFAULT_PROTECTED_REPO_PATHS = [''.git'', ''.github'', ''AGENTS.md'']"

section \<open>Helpers\<close>

definition sha256_digest :: "pyenv \<Rightarrow> jval \<Rightarrow> string" where
  "sha256_digest E v = ''sha256:'' @ sha256_hex E (json_dumps True v)"

definition decision_digest :: "pyenv \<Rightarrow> jobj \<Rightarrow> string" where
  "decision_digest E decision = sha256_digest E (JObj (ppop decision ''decision_digest''))"

definition executor_receipt_digest :: "pyenv \<Rightarrow> string \<Rightarrow> jobj \<Rightarrow> jval \<Rightarrow> string" where
  "executor_receipt_digest E status refs fail = sha256_digest E
     (JObj [(''status'', JStr status), (''external_refs'', JObj refs), (''failure'', fail)])"

definition string_list :: "jval \<Rightarrow> string list" where
  "string_list v = (case v of JList xs \<Rightarrow> sort (map py_str xs) | _ \<Rightarrow> [])"

definition jstrs :: "string list \<Rightarrow> jval" where
  "jstrs xs = JList (map JStr xs)"

text \<open>\<open>str(a or b or c)\<close>, \<open>list(value or [])\<close>.\<close>

definition str_or :: "jval \<Rightarrow> jval \<Rightarrow> string" where
  "str_or a b = py_str (por a b)"

definition list_or :: "jval \<Rightarrow> jval list" where
  "list_or v = list_or_empty (por v (JList []))"

definition require_digest :: "string \<Rightarrow> jval \<Rightarrow> py_exn + unit" where
  "require_digest label v =
     ck (case v of JStr s \<Rightarrow> starts_with s ''sha256:'' \<and> length s = 71 | _ \<Rightarrow> False)
       (label @ '' is not a canonical sha256 digest'')"

text \<open>\<open>if a["x"] != b["y"]: raise ValueError(msg)\<close>.\<close>

definition same_item :: "jobj \<Rightarrow> string \<Rightarrow> jobj \<Rightarrow> string \<Rightarrow> string \<Rightarrow> py_exn + unit" where
  "same_item a x b y msg = ebind (pidx a x) (\<lambda>v. ebind (pidx b y) (\<lambda>w. ck (py_eq v w) msg))"

definition parameters_of :: "Decision \<Rightarrow> jobj" where
  "parameters_of d = obj_or_empty (pget (execution_plan d) ''parameters'')"

definition repo_patch_requires_hsai :: "Decision \<Rightarrow> bool" where
  "repo_patch_requires_hsai d \<longleftrightarrow>
     py_eq (pget (execution_plan d) ''system'') (JStr ''repo_patch_service'')
   \<and> py_eq (pget (execution_plan d) ''action'') (JStr ''investigate_and_patch'')"

definition expected_mesh_run_id :: "Decision \<Rightarrow> string" where
  "expected_mesh_run_id d =
     str_or (pget (parameters_of d) ''mesh_run_id'')
       (por (pget (parameters_of d) ''run_id'') (JStr (''run_'' @ trigger_id d)))"

definition expected_mesh_action_id :: "Decision \<Rightarrow> string" where
  "expected_mesh_action_id d = str_or (pget (parameters_of d) ''mesh_action_id'') (JStr (decision_id d))"

definition mesh_policy_id :: "Decision \<Rightarrow> EvaluationResult \<Rightarrow> jobj \<Rightarrow> string" where
  "mesh_policy_id d v parameters =
     (let explicit = pget parameters ''mesh_policy_id'' in
      if truthy explicit then py_str explicit
      else let pv = obj_or_empty (pget (stage_results v) ''policy_validation'');
               policy_id = por (pget pv ''policy_id'') (pget pv ''policy_ref'')
           in if truthy policy_id then py_str policy_id
              else ''mesh_policy://'' @ autonomy_tier d @ ''/'' @ evaluation_id v)"

definition mesh_policy_allows :: "EvaluationResult \<Rightarrow> bool" where
  "mesh_policy_allows v \<longleftrightarrow> passed v \<and> final_recommendation v = ''execute''"

definition evidence_packet :: "Decision \<Rightarrow> EvaluationResult \<Rightarrow> jobj" where
  "evidence_packet d v =
     [(''schema_version'', JStr ''mesh.repo_patch_evidence_packet.v1''),
      (''decision_id'', JStr (decision_id d)),
      (''decision_reasoning'', JObj (reasoning d)),
      (''evaluation_id'', JStr (evaluation_id v)),
      (''evaluation_stage_results'', JObj (stage_results v)),
      (''blocking_reasons'', jstrs (blocking_reasons v))]"

text \<open>\<open>decision.to_dict()\<close> with the execution context taken out of the parameters.\<close>

definition decision_payload_without_hsai_context :: "schemas \<Rightarrow> Decision \<Rightarrow> py_exn + jobj" where
  "decision_payload_without_hsai_context S d =
     ebind (decision_to_dict S d) (\<lambda>payload.
     let plan = obj_or_empty (pget payload ''execution_plan'');
         parameters = obj_or_empty (pget plan ''parameters'')
     in if phas parameters CONTEXT_KEY
        then Inr (pset payload ''execution_plan''
                    (JObj (pset plan ''parameters'' (JObj (ppop parameters CONTEXT_KEY)))))
        else Inr payload)"

definition actor_ref_of :: "jobj \<Rightarrow> jval" where
  "actor_ref_of parameters =
     (let actor = obj_or_empty (pget parameters ''actor_ref'') in
      JObj [(''actor_id'', JStr (str_or (pget actor ''actor_id'') (por (pget parameters ''actor_id'') (JStr ''mesh.orchestrator'')))),
            (''team_id'', JStr (str_or (pget actor ''team_id'') (por (pget parameters ''team_id'') (JStr ''mesh.default''))))])"

definition claims_or_default :: "jobj \<Rightarrow> string \<Rightarrow> string list \<Rightarrow> jval" where
  "claims_or_default parameters key dflt =
     (if phas parameters key then jstrs (string_list (pget parameters key)) else jstrs dflt)"

definition created_or_now :: "string option \<Rightarrow> string \<Rightarrow> jval" where
  "created_or_now created_at now = (case created_at of Some (c # cs) \<Rightarrow> JStr (c # cs) | _ \<Rightarrow> JStr now)"

section \<open>Requests\<close>

definition build_hsai_admission_request ::
  "pyenv \<Rightarrow> schemas \<Rightarrow> string \<Rightarrow> string option \<Rightarrow> Decision \<Rightarrow> EvaluationResult \<Rightarrow> py_exn + jobj" where
  "build_hsai_admission_request E S now created_at d v =
     ebind (decision_payload_without_hsai_context S d) (\<lambda>candidate.
     let parameters = parameters_of d;
         evidence_digest = sha256_digest E (JObj (evidence_packet d v));
         request =
           [(''schema_version'', JStr HSAI_REQUEST_V1),
            (''mesh_run_id'', JStr (expected_mesh_run_id d)),
            (''mesh_action_id'', JStr (expected_mesh_action_id d)),
            (''action_kind'', JStr ''repo_patch''),
            (''actor_ref'', actor_ref_of parameters),
            (''mesh_policy_id'', JStr (mesh_policy_id d v parameters)),
            (''action_proposal_digest'', JStr (sha256_digest E
               (JObj [(''decision_id'', JStr (decision_id d)), (''execution_plan'', JObj (execution_plan d)),
                      (''risk'', JObj (risk d))]))),
            (''candidate_payload_digest'', JStr (sha256_digest E (JObj candidate))),
            (''evidence_packet_digest'', JStr evidence_digest),
            (''attestation_refs'', JList [JObj [(''kind'', JStr ''mesh_runtime_proof_packet''),
                                              (''digest'', JStr evidence_digest)]]),
            (''requested_claims'', claims_or_default parameters ''requested_claims'' DEFAULT_REQUESTED_CLAIMS),
            (''explicit_nonclaims'', claims_or_default parameters ''explicit_nonclaims'' DEFAULT_EXPLICIT_NONCLAIMS),
            (''created_at'', created_or_now created_at now)]
     in ebind (validate_payload (S ''hsai-admission-request.schema.json'') (JObj request)) (\<lambda>_. Inr request))"

fun declared_vectors :: "jval list \<Rightarrow> py_exn + string list list" where
  "declared_vectors [] = Inr []"
| "declared_vectors (command # cs) =
     (case command of
        JStr s \<Rightarrow>
          ebind (shlex_split s) (\<lambda>argv.
          if argv = [] \<or> [] \<in> set argv
          then Inl (ValueError ''HSAI v2 candidate verification command is empty'')
          else ebind (declared_vectors cs) (\<lambda>vs. Inr (argv # vs)))
      | _ \<Rightarrow> Inl (ValueError ''HSAI v2 candidate verification command must be a string''))"

fun executed_vectors :: "string list list \<Rightarrow> jval list \<Rightarrow> py_exn + jval list" where
  "executed_vectors (declared # ds) (raw # rs) =
     (case raw of
        JObj result \<Rightarrow>
          (case pget result ''argv'' of
             JList argv \<Rightarrow>
               if argv = [] \<or> list_ex (\<lambda>a. \<not> is_str a \<or> a = JStr []) argv
               then Inl (ValueError ''HSAI v2 preflight test argv is invalid'')
               else if \<not> path_is_absolute (py_str (hd argv)) \<or> tl argv \<noteq> map JStr (tl declared)
               then Inl (ValueError ''HSAI v2 preflight argv is not bound to the declared verification command'')
               else ebind (executed_vectors ds rs) (\<lambda>vs. Inr (JList argv # vs))
           | _ \<Rightarrow> Inl (ValueError ''HSAI v2 preflight test argv is invalid''))
      | _ \<Rightarrow> Inl (ValueError ''HSAI v2 preflight test result must be an object''))"
| "executed_vectors _ _ = Inr []"

definition normalized_repo_patch_candidate ::
  "Decision \<Rightarrow> EvaluationResult \<Rightarrow> jobj \<Rightarrow> py_exn + jobj" where
  "normalized_repo_patch_candidate d v preflight_receipt =
     (let parameters = parameters_of d; plan = execution_plan d;
          declared_action_id = pget parameters ''mesh_action_id'' in
      if \<not> repo_patch_requires_hsai d
      then Inl (ValueError ''HSAI v2 candidate is not the bounded repo-patch action'')
      else if declared_action_id \<noteq> JNull \<and> py_str declared_action_id \<noteq> decision_id d
      then Inl (ValueError ''HSAI v2 candidate mesh action id must equal the decision id'')
      else case pget parameters ''test_commands'' of
        JList (c # cs) \<Rightarrow>
          ebind (declared_vectors (c # cs)) (\<lambda>declared.
          case pget preflight_receipt ''test_results'' of
            JList results \<Rightarrow>
              if length results \<noteq> length declared
              then Inl (ValueError ''HSAI v2 preflight commands do not match the declared verification commands'')
              else ebind (executed_vectors declared results) (\<lambda>vectors.
              let template = obj_or_empty (pget parameters ''patch_template'');
                  txt = (\<lambda>k. JStr (str_or (pget template k) (JStr [])))
              in Inr
                [(''decision_id'', JStr (decision_id d)), (''trigger_id'', JStr (trigger_id d)),
                 (''decision_type'', JStr (decision_type d)), (''autonomy_tier'', JStr (autonomy_tier d)),
                 (''summary'', JStr (summary d)), (''reasoning'', JObj (reasoning d)),
                 (''expected_outcome'', JObj (expected_outcome d)), (''risk'', JObj (risk d)),
                 (''confidence'', confidence d),
                 (''execution_plan'', JObj
                   [(''system'', JStr ''repo_patch_service''), (''action'', JStr ''investigate_and_patch''),
                    (''parameters'', JObj
                      [(''repo_path'', JStr (str_or (pget parameters ''repo_path'') (JStr []))),
                       (''allowed_paths'', jstrs (string_list (pget parameters ''allowed_paths''))),
                       (''protected_paths'', claims_or_default parameters ''protected_paths'' DEFAULT_PROTECTED_REPO_PATHS),
                       (''patch_template'', JObj [(''target_file'', txt ''target_file''), (''find'', txt ''find''),
                                                (''replace'', txt ''replace'')]),
                       (''test_commands'', JList vectors),
                       (''mesh_run_id'', JStr (expected_mesh_run_id d)),
                       (''mesh_action_id'', JStr (decision_id d)),
                       (''mesh_policy_id'', JStr (mesh_policy_id d v parameters)),
                       (''actor_ref'', actor_ref_of parameters)]),
                    (''rollback_plan'', JStr (str_or (pget plan ''rollback_plan'') (JStr [])))])])
          | _ \<Rightarrow> Inl (ValueError ''HSAI v2 preflight commands do not match the declared verification commands''))
      | _ \<Rightarrow> Inl (ValueError ''HSAI v2 candidate requires verification commands''))"

definition build_hsai_admission_request_v2 ::
  "pyenv \<Rightarrow> schemas \<Rightarrow> string \<Rightarrow> string option \<Rightarrow> Decision \<Rightarrow> EvaluationResult \<Rightarrow> jobj \<Rightarrow> py_exn + jobj" where
  "build_hsai_admission_request_v2 E S now created_at d v preflight_receipt =
     ebind (normalized_repo_patch_candidate d v preflight_receipt) (\<lambda>candidate.
     let parameters = parameters_of d;
         plan = obj_or_empty (pget candidate ''execution_plan'');
         cparams = obj_or_empty (pget plan ''parameters'');
         evidence =
           [(''schema_version'', JStr ''mesh.repo_patch_pre_execution_evidence.v1''),
            (''decision_id'', JStr (decision_id d)),
            (''evaluation_id'', JStr (evaluation_id v)),
            (''evaluation_passed'', JBool (passed v)),
            (''final_recommendation'', JStr (final_recommendation v)),
            (''blocking_reasons'', jstrs (blocking_reasons v)),
            (''stage_results'', JObj (stage_results v)),
            (''stage_results_digest'', JStr (sha256_digest E (JObj (stage_results v)))),
            (''preflight_receipt'', JObj preflight_receipt)];
         evidence_digest = sha256_digest E (JObj evidence);
         proposal = [(''decision_id'', pget candidate ''decision_id''),
                     (''execution_plan'', pget candidate ''execution_plan''),
                     (''risk'', pget candidate ''risk'')];
         request =
           [(''schema_version'', JStr HSAI_REQUEST_V2),
            (''mesh_run_id'', pget cparams ''mesh_run_id''),
            (''mesh_action_id'', JStr (decision_id d)),
            (''action_kind'', JStr ''repo_patch''),
            (''actor_ref'', pget cparams ''actor_ref''),
            (''mesh_policy_id'', pget cparams ''mesh_policy_id''),
            (''action_proposal_digest'', JStr (sha256_digest E (JObj proposal))),
            (''candidate_payload_digest'', JStr (sha256_digest E (JObj candidate))),
            (''evidence_packet_digest'', JStr evidence_digest),
            (''attestation_refs'', JList [JObj [(''kind'', JStr ''mesh_repo_patch_preflight_receipt''),
                                              (''digest'', JStr evidence_digest)]]),
            (''requested_claims'', claims_or_default parameters ''requested_claims'' DEFAULT_REQUESTED_CLAIMS),
            (''explicit_nonclaims'', claims_or_default parameters ''explicit_nonclaims'' DEFAULT_EXPLICIT_NONCLAIMS),
            (''created_at'', created_or_now created_at now),
            (''candidate_payload'', JObj candidate),
            (''pre_execution_evidence'', JObj evidence)]
     in ebind (validate_payload (S ''hsai-admission-request-v2.schema.json'') (JObj request)) (\<lambda>_. Inr request))"

section \<open>Validation of a decision\<close>

definition validate_hsai_request_payload :: "schemas \<Rightarrow> jobj \<Rightarrow> py_exn + unit" where
  "validate_hsai_request_payload S request =
     (let version = pget request ''schema_version'' in
      if py_eq version (JStr HSAI_REQUEST_V1)
      then validate_payload (S ''hsai-admission-request.schema.json'') (JObj request)
      else if py_eq version (JStr HSAI_REQUEST_V2)
      then validate_payload (S ''hsai-admission-request-v2.schema.json'') (JObj request)
      else Inl (ValueError ''unsupported HSAI admission request schema version''))"

text \<open>\<open>sorted(set(request["explicit_nonclaims"]) - set(decision["enforced_nonclaims"]))\<close>.\<close>

definition missing_items :: "jval \<Rightarrow> jval \<Rightarrow> string list" where
  "missing_items needed given =
     sorted_set (filter (\<lambda>s. s \<notin> set (map py_str (list_or_empty given))) (map py_str (list_or_empty needed)))"

definition validate_hsai_decision :: "pyenv \<Rightarrow> schemas \<Rightarrow> jobj \<Rightarrow> jval \<Rightarrow> py_exn + unit" where
  "validate_hsai_decision E S request raw =
     ebind (validate_hsai_request_payload S request) (\<lambda>_.
     ebind (validate_payload (S ''hsai-admission-decision.schema.json'') raw) (\<lambda>_.
     ebind (as_obj raw) (\<lambda>decision.
     run_checks
      ([ebind (pidx decision ''request_digest'') (require_digest ''hsai request digest''),
        ebind (pidx decision ''candidate_digest'') (require_digest ''hsai candidate digest''),
        ebind (pidx decision ''decision_digest'') (require_digest ''hsai decision digest'')]
     @ map (\<lambda>field. ebind (pidx request field) (require_digest (''hsai request '' @ field)))
        [''action_proposal_digest'', ''candidate_payload_digest'', ''evidence_packet_digest'']
     @ [ebind (pidx decision ''request_digest'') (\<lambda>x.
          ck (py_eq x (JStr (sha256_digest E (JObj request)))) ''hsai request digest mismatch''),
        same_item decision ''mesh_run_id'' request ''mesh_run_id'' ''hsai mesh run id mismatch'',
        same_item decision ''mesh_action_id'' request ''mesh_action_id'' ''hsai mesh action id mismatch'',
        same_item decision ''action_kind'' request ''action_kind'' ''hsai action kind mismatch'',
        same_item decision ''candidate_digest'' request ''candidate_payload_digest'' ''hsai candidate digest mismatch'',
        same_item decision ''admission_policy_id'' request ''mesh_policy_id'' ''hsai policy id mismatch'',
        ebind (pidx decision ''decision'') (\<lambda>x. ebind (pidx request ''explicit_nonclaims'') (\<lambda>n.
          ck (\<not> (py_eq x (JStr ''allow'') \<and> \<not> truthy n)) ''hsai request missing explicit nonclaims'')),
        ebind (pidx request ''explicit_nonclaims'') (\<lambda>n. ebind (pidx decision ''enforced_nonclaims'') (\<lambda>e.
          let missing = missing_items n e in
          ck (missing = []) (''hsai enforced nonclaims missing: '' @ py_repr (jstrs missing)))),
        ebind (pidx decision ''decision_digest'') (\<lambda>x.
          ck (py_eq x (JStr (decision_digest E decision))) ''hsai decision digest mismatch'')]))))"

section \<open>The gate\<close>

text \<open>The three groups of checks of \<open>validate_bridge_gate\<close>: the gate itself, the decision it
  was made for, the evaluation it was made for.\<close>

definition gate_checks :: "pyenv \<Rightarrow> jobj \<Rightarrow> jobj \<Rightarrow> jobj \<Rightarrow> (py_exn + unit) list" where
  "gate_checks E gate request decision =
     [ck (py_eq (pget gate ''request_digest'') (JStr (sha256_digest E (JObj request)))) ''bridge gate request digest mismatch'',
      ebind (pidx decision ''decision_digest'') (\<lambda>x.
        ck (py_eq (pget gate ''decision_digest'') x) ''bridge gate decision digest mismatch''),
      ebind (pidx request ''candidate_payload_digest'') (\<lambda>x.
        ck (py_eq (pget gate ''candidate_digest'') x) ''bridge gate candidate digest mismatch'')]
   @ map (\<lambda>field. ck (py_strip (str_or (pget request field) (JStr [])) \<noteq> []) (''bridge gate missing '' @ field))
       [''mesh_run_id'', ''mesh_action_id'', ''mesh_policy_id'', ''action_proposal_digest'',
        ''candidate_payload_digest'', ''evidence_packet_digest'']
   @ [ck (py_eq (pget request ''action_kind'') (JStr ''repo_patch'')) ''bridge gate action kind mismatch'']"

definition is_v2 :: "jobj \<Rightarrow> bool" where
  "is_v2 request \<longleftrightarrow> py_eq (pget request ''schema_version'') (JStr HSAI_REQUEST_V2)"

definition proposal_digest :: "pyenv \<Rightarrow> jobj \<Rightarrow> py_exn + string" where
  "proposal_digest E candidate =
     ebind (pidx candidate ''decision_id'') (\<lambda>a.
     ebind (pidx candidate ''execution_plan'') (\<lambda>b.
     ebind (pidx candidate ''risk'') (\<lambda>c.
     Inr (sha256_digest E (JObj [(''decision_id'', a), (''execution_plan'', b), (''risk'', c)])))))"

definition decision_checks :: "pyenv \<Rightarrow> schemas \<Rightarrow> jobj \<Rightarrow> Decision \<Rightarrow> py_exn + unit" where
  "decision_checks E S request d =
     (let candidate_payload = obj_or_empty (pget request ''candidate_payload'');
          evidence = obj_or_empty (pget request ''pre_execution_evidence'') in
      ebind (if is_v2 request
             then run_checks
               [ebind (pidx request ''candidate_payload_digest'') (\<lambda>x.
                  ck (py_eq x (JStr (sha256_digest E (JObj candidate_payload)))) ''bridge gate v2 candidate payload digest mismatch''),
                ebind (pidx request ''evidence_packet_digest'') (\<lambda>x.
                  ck (py_eq x (JStr (sha256_digest E (JObj evidence)))) ''bridge gate v2 evidence packet digest mismatch'')]
             else Inr ()) (\<lambda>_.
      ebind (if is_v2 request then pidx request ''candidate_payload_digest''
             else ebind (decision_payload_without_hsai_context S d) (\<lambda>p. Inr (JStr (sha256_digest E (JObj p))))) (\<lambda>expected.
      ebind (run_checks
        [ebind (pidx request ''mesh_run_id'') (\<lambda>x.
           ck (py_eq x (JStr (expected_mesh_run_id d))) ''bridge gate mesh run id mismatch''),
         ebind (pidx request ''mesh_action_id'') (\<lambda>x.
           ck (py_eq x (JStr (expected_mesh_action_id d))) ''bridge gate mesh action id mismatch''),
         ebind (pidx request ''candidate_payload_digest'') (\<lambda>x.
           ck (py_eq x expected) ''bridge gate current candidate digest mismatch'')]) (\<lambda>_.
      ebind (if is_v2 request then Inr candidate_payload else decision_to_dict S d) (\<lambda>candidate.
      ebind (proposal_digest E candidate) (\<lambda>expected_proposal.
      ebind (pidx request ''action_proposal_digest'') (\<lambda>x.
        ck (py_eq x (JStr expected_proposal)) ''bridge gate action proposal digest mismatch'')))))))"

text \<open>The v2 schema makes the preflight receipt an object.\<close>

definition v2_evidence_checks ::
  "pyenv \<Rightarrow> jobj \<Rightarrow> Decision \<Rightarrow> EvaluationResult \<Rightarrow> py_exn + unit" where
  "v2_evidence_checks E request d v =
     (let evidence = obj_or_empty (pget request ''pre_execution_evidence'') in
      ebind (as_obj (pget_or evidence ''preflight_receipt'' (JObj []))) (\<lambda>receipt.
      ebind (normalized_repo_patch_candidate d v receipt) (\<lambda>candidate.
      run_checks
        [ck (py_eq (pget request ''candidate_payload'') (JObj candidate)) ''bridge gate v2 current candidate payload mismatch'',
         ck (py_eq (pget evidence ''decision_id'') (JStr (decision_id d))) ''bridge gate v2 evidence decision mismatch'',
         ck (py_eq (pget evidence ''evaluation_id'') (JStr (evaluation_id v))) ''bridge gate v2 evaluation id mismatch'',
         ck (pget evidence ''evaluation_passed'' = JBool (passed v)) ''bridge gate v2 evaluation verdict mismatch'',
         ck (py_eq (pget evidence ''final_recommendation'') (JStr (final_recommendation v)))
           ''bridge gate v2 recommendation mismatch'',
         ck (py_eq (pget evidence ''blocking_reasons'') (jstrs (blocking_reasons v)))
           ''bridge gate v2 blocking reasons mismatch'',
         ck (py_eq (pget evidence ''stage_results'') (JObj (stage_results v))) ''bridge gate v2 stage results mismatch'',
         ck (py_eq (pget evidence ''stage_results_digest'') (JStr (sha256_digest E (JObj (stage_results v)))))
           ''bridge gate v2 stage results digest mismatch''])))"

definition evaluation_checks ::
  "pyenv \<Rightarrow> jobj \<Rightarrow> Decision option \<Rightarrow> EvaluationResult \<Rightarrow> bool option \<Rightarrow> py_exn + unit" where
  "evaluation_checks E request expected_decision v require_approved =
     ebind (case expected_decision of
        None \<Rightarrow> Inr ()
      | Some d \<Rightarrow>
          ebind (pidx request ''mesh_policy_id'') (\<lambda>x.
          ebind (ck (py_eq x (JStr (mesh_policy_id d v (parameters_of d)))) ''bridge gate mesh policy id mismatch'') (\<lambda>_.
          if is_v2 request then v2_evidence_checks E request d v else Inr ()))) (\<lambda>_.
     ck (\<not> (require_approved = Some True \<and> \<not> mesh_policy_allows v)) ''bridge gate Mesh policy is not approved'')"

definition validate_bridge_gate ::
  "pyenv \<Rightarrow> schemas \<Rightarrow> jobj \<Rightarrow> Decision option \<Rightarrow> EvaluationResult option \<Rightarrow> bool option \<Rightarrow> py_exn + unit" where
  "validate_bridge_gate E S gate expected_decision expected_evaluation require_approved =
     (let request = obj_or_empty (pget gate ''request'');
          decision = obj_or_empty (pget gate ''decision'') in
      ebind (validate_hsai_decision E S request (JObj decision)) (\<lambda>_.
      ebind (run_checks (gate_checks E gate request decision)) (\<lambda>_.
      ebind (case expected_decision of None \<Rightarrow> Inr () | Some d \<Rightarrow> decision_checks E S request d) (\<lambda>_.
      ebind (case expected_evaluation of
          None \<Rightarrow> Inr () | Some v \<Rightarrow> evaluation_checks E request expected_decision v require_approved) (\<lambda>_.
      ebind (pidx decision ''decision'') (\<lambda>x.
      run_checks
        [ck (\<not> (py_eq x (JStr ''allow'') \<and> pget gate ''allowed'' \<noteq> JBool True)) ''bridge gate allow flag mismatch'',
         ck (\<not> (\<not> py_eq x (JStr ''allow'') \<and> pget gate ''allowed'' = JBool True)) ''bridge gate deny/error flag mismatch'']))))))"

definition error_decision :: "pyenv \<Rightarrow> string \<Rightarrow> jobj \<Rightarrow> string \<Rightarrow> jobj" where
  "error_decision E now request reason =
     (let txt = (\<lambda>k. JStr (str_or (pget request k) (JStr [])));
          decision =
           [(''schema_version'', JStr HSAI_DECISION_V1),
            (''decision_id'', JStr (''hsai_error_'' @ py_str (pget_or request ''mesh_action_id'' (JStr ''unknown'')))),
            (''mesh_run_id'', txt ''mesh_run_id''),
            (''mesh_action_id'', txt ''mesh_action_id''),
            (''action_kind'', txt ''action_kind''),
            (''request_digest'', JStr (sha256_digest E (JObj request))),
            (''candidate_digest'', txt ''candidate_payload_digest''),
            (''decision'', JStr ''error''),
            (''admission_policy_id'', txt ''mesh_policy_id''),
            (''gate_results'', JList [JObj [(''gate'', JStr ''bridge_adapter''), (''result'', JStr ''error''),
                                          (''metadata_digest'', JStr (sha256_digest E (JStr reason)))]]),
            (''accepted_claims'', JList []),
            (''enforced_nonclaims'', JList (list_or (pget request ''explicit_nonclaims''))),
            (''formal_evidence_metadata'', JObj
              [(''backend'', JStr ''hsai-bridge-adapter''), (''phase_range'', JStr ''265-277''),
               (''backend_run_id'', JStr ''unavailable_or_invalid''),
               (''metadata_digest'', JStr (sha256_digest E (JStr reason))),
               (''nonclaim'', JStr ''error metadata only; not formal proof, accepted evidence, or production certification'')]),
            (''reason_codes'', jstrs [reason]),
            (''created_at'', JStr now)]
      in pset decision ''decision_digest'' (JStr (decision_digest E decision)))"

definition gate_of :: "pyenv \<Rightarrow> bool option \<Rightarrow> jobj \<Rightarrow> jobj \<Rightarrow> py_exn + jobj" where
  "gate_of E eligible request decision =
     ebind (pidx decision ''decision'') (\<lambda>verdict.
     ebind (pidx decision ''decision_digest'') (\<lambda>dd.
     ebind (pidx decision ''candidate_digest'') (\<lambda>cd.
     Inr ([(''allowed'', JBool (py_eq verdict (JStr ''allow'')))]
        @ (case eligible of None \<Rightarrow> [] | Some b \<Rightarrow> [(''authority_eligible'', JBool b)])
        @ [(''request'', JObj request),
           (''decision'', JObj decision),
           (''request_digest'', JStr (sha256_digest E (JObj request))),
           (''decision_digest'', dd),
           (''candidate_digest'', cd),
           (''reason_codes'', JList (list_or (pget decision ''reason_codes'')))]))))"

fun exn_text :: "py_exn \<Rightarrow> string" where
  "exn_text (KeyError k) = str_repr k"
| "exn_text (ValueError m) = m"
| "exn_text (TypeError m) = m"
| "exn_text (AttributeError m) = m"
| "exn_text (IndexError m) = m"
| "exn_text (OSError m) = m"
| "exn_text (RuntimeError m) = m"

text \<open>\<open>admit request\<close> is the adapter's answer, or the text \<open><type>:<message>\<close> of what it raised.\<close>

definition evaluate_hsai_gate ::
  "pyenv \<Rightarrow> schemas \<Rightarrow> string \<Rightarrow> (jobj \<Rightarrow> string + jval) \<Rightarrow> bool \<Rightarrow> jobj \<Rightarrow> py_exn + jobj" where
  "evaluate_hsai_gate E S now admit eligible request =
     (let raw = (case admit request of
            Inl text \<Rightarrow> JObj (error_decision E now request (''hsai_unavailable:'' @ text))
          | Inr v \<Rightarrow> v) in
      ebind (case validate_hsai_decision E S request raw of
          Inr _ \<Rightarrow> as_obj raw
        | Inl (ValueError msg) \<Rightarrow>
            (let decision = error_decision E now request (''hsai_malformed_or_mismatched:'' @ msg) in
             ebind (validate_hsai_decision E S request (JObj decision)) (\<lambda>_. Inr decision))
        | Inl e \<Rightarrow> Inl e) (\<lambda>decision.
      ebind (gate_of E (Some eligible) request decision) (\<lambda>gate.
      ebind (validate_bridge_gate E S gate None None None) (\<lambda>_. Inr gate))))"

definition gate_from_verified_contracts :: "pyenv \<Rightarrow> jobj \<Rightarrow> jobj \<Rightarrow> py_exn + jobj" where
  "gate_from_verified_contracts E request decision = gate_of E None request decision"

section \<open>The combined proof packet\<close>

definition validate_combined_proof_packet :: "pyenv \<Rightarrow> schemas \<Rightarrow> jobj \<Rightarrow> jobj \<Rightarrow> py_exn + unit" where
  "validate_combined_proof_packet E S gate packet =
     ebind (validate_bridge_gate E S gate None None None) (\<lambda>_.
     ebind (validate_payload (S ''combined-proof-packet.schema.json'') (JObj packet)) (\<lambda>_.
     ebind (ebind (pidx gate ''request'') as_obj) (\<lambda>request.
     ebind (ebind (pidx gate ''decision'') as_obj) (\<lambda>decision.
     let audit = obj_or_empty (pget packet ''audit_export_metadata'');
         result = obj_or_empty (pget packet ''action_execution_result'');
         status = str_or (pget result ''status'') (JStr []) in
     run_checks
      (map (\<lambda>f. same_item packet f request f (''combined proof packet '' @ f @ '' mismatch''))
         [''mesh_run_id'', ''mesh_action_id'', ''mesh_policy_id'']
     @ [same_item packet ''hsai_request_digest'' gate ''request_digest'' ''combined proof packet request digest mismatch'',
        same_item packet ''hsai_decision_digest'' gate ''decision_digest'' ''combined proof packet decision digest mismatch'',
        same_item packet ''hsai_candidate_digest'' gate ''candidate_digest'' ''combined proof packet candidate digest mismatch'',
        same_item packet ''hsai_decision'' decision ''decision'' ''combined proof packet HSAI decision mismatch'',
        same_item packet ''nonclaims'' decision ''enforced_nonclaims'' ''combined proof packet nonclaims mismatch'',
        ck (pget audit ''exportable'' = JBool True) ''combined proof packet must be exportable'',
        ck (py_eq (pget audit ''format'') (JStr ''mesh_proof_export.v1'')) ''combined proof packet export format mismatch'',
        ck (pget audit ''included_in_execution_external_refs'' = JBool True)
          ''combined proof packet missing execution export assertion'',
        ck (py_eq (pget audit ''state_slice'') (JStr ''mesh.hsai_admission_bridge.v1''))
          ''combined proof packet state slice mismatch'',
        ebind (pidx request ''schema_version'') (\<lambda>x. ck (py_eq (pget audit ''hsai_request_schema_version'') x)
          ''combined proof packet request schema version mismatch''),
        ebind (pidx decision ''schema_version'') (\<lambda>x. ck (py_eq (pget audit ''hsai_decision_schema_version'') x)
          ''combined proof packet decision schema version mismatch''),
        ck (py_eq (pget audit ''canonical_digest'') (JStr ''json.sha256.sorted_keys.compact.v1''))
          ''combined proof packet canonical digest assertion mismatch'',
        ck (pget audit ''replay_protected'' = JBool True) ''combined proof packet replay protection assertion missing'',
        ebind (pidx decision ''formal_evidence_metadata'') (\<lambda>x. ck (py_eq (pget audit ''formal_evidence_metadata'') x)
          ''combined proof packet formal metadata mismatch''),
        ck (\<not> (status = ''blocked'' \<and> pget packet ''executor_receipt_digest'' \<noteq> JNull))
          ''blocked combined proof packet cannot include executor receipt'',
        ck (\<not> (status \<in> {''executed'', ''failed''} \<and> \<not> truthy (pget packet ''executor_receipt_digest'')))
          ''executed combined proof packet requires executor receipt'',
        ck (\<not> (phas packet ''accepted_claims'' \<or> phas result ''accepted_claims''))
          ''combined proof packet cannot promote accepted claims''])))))"

definition build_combined_proof_packet ::
  "pyenv \<Rightarrow> schemas \<Rightarrow> string \<Rightarrow> string option \<Rightarrow> jobj \<Rightarrow> bool \<Rightarrow> jobj \<Rightarrow> string option
    \<Rightarrow> Decision option \<Rightarrow> EvaluationResult option \<Rightarrow> py_exn + jobj" where
  "build_combined_proof_packet E S now created_at gate approved result receipt expected_decision expected_evaluation =
     ebind (validate_bridge_gate E S gate expected_decision expected_evaluation (if approved then Some True else None)) (\<lambda>_.
     ebind (ebind (pidx gate ''request'') as_obj) (\<lambda>request.
     ebind (ebind (pidx gate ''decision'') as_obj) (\<lambda>decision.
     ebind (pidx request ''mesh_run_id'') (\<lambda>run_id.
     ebind (pidx request ''mesh_action_id'') (\<lambda>action_id.
     ebind (pidx request ''mesh_policy_id'') (\<lambda>policy_id.
     ebind (pidx gate ''request_digest'') (\<lambda>rd.
     ebind (pidx gate ''decision_digest'') (\<lambda>dd.
     ebind (pidx gate ''candidate_digest'') (\<lambda>cd.
     ebind (pidx decision ''decision'') (\<lambda>verdict.
     ebind (pidx decision ''enforced_nonclaims'') (\<lambda>nonclaims.
     ebind (pidx request ''schema_version'') (\<lambda>rv.
     ebind (pidx decision ''schema_version'') (\<lambda>dv.
     ebind (pidx decision ''formal_evidence_metadata'') (\<lambda>formal.
     let packet =
       [(''schema_version'', JStr COMBINED_PACKET_V1),
        (''mesh_run_id'', run_id), (''mesh_action_id'', action_id), (''mesh_policy_id'', policy_id),
        (''hsai_request_digest'', rd), (''hsai_decision_digest'', dd), (''hsai_candidate_digest'', cd),
        (''hsai_decision'', verdict),
        (''nonclaims'', nonclaims),
        (''action_execution_result'', JObj result),
        (''executor_receipt_digest'', jopt receipt),
        (''audit_export_metadata'', JObj
          [(''exportable'', JBool True), (''format'', JStr ''mesh_proof_export.v1''),
           (''included_in_execution_external_refs'', JBool True),
           (''mesh_policy_approved'', JBool approved),
           (''canonical_digest'', JStr ''json.sha256.sorted_keys.compact.v1''),
           (''hsai_request_schema_version'', rv), (''hsai_decision_schema_version'', dv),
           (''replay_protected'', JBool True), (''state_slice'', JStr ''mesh.hsai_admission_bridge.v1''),
           (''formal_evidence_metadata'', formal)]),
        (''created_at'', created_or_now created_at now)]
     in ebind (validate_combined_proof_packet E S gate packet) (\<lambda>_. Inr packet)))))))))))))))"

definition validate_combined_proof_claim_adequacy :: "jobj \<Rightarrow> jobj \<Rightarrow> jobj \<Rightarrow> py_exn + unit" where
  "validate_combined_proof_claim_adequacy request decision packet =
     (let accepted = string_list (pget decision ''accepted_claims'');
          requested = string_list (pget request ''requested_claims'');
          action_result = obj_or_empty (pget packet ''action_execution_result'');
          missing = sorted_set (filter (\<lambda>r. r \<notin> set (string_list (pget action_result ''hsai_reason_codes'')))
                      (string_list (pget decision ''reason_codes'')));
          formal = obj_or_empty (pget (obj_or_empty (pget packet ''audit_export_metadata'')) ''formal_evidence_metadata'')
      in ebind (pidx decision ''decision'') (\<lambda>verdict.
      run_checks
        ((if py_eq verdict (JStr ''allow'') then
            [ck (truthy (pget packet ''nonclaims'')) ''allowed combined proof packet must preserve nonclaims'',
             ck (accepted \<noteq> []) ''allowed HSAI decision must preserve accepted claims'',
             ck (set accepted \<subseteq> set requested) ''allowed HSAI decision accepted claims exceed requested claims'']
          else
            [ck (accepted = []) ''non-allow HSAI decision cannot preserve accepted claims'',
             ck (py_eq (pget action_result ''status'') (JStr ''blocked'')) ''non-allow combined proof packet must be blocked'',
             ck (missing = []) (''non-allow combined proof packet missing HSAI reason codes: '' @ py_repr (jstrs missing))])
        @ [ck (py_strip (str_or (pget formal ''nonclaim'') (JStr [])) \<noteq> [])
             ''combined proof packet formal metadata must preserve nonclaim boundary''])))"

definition verify_combined_proof_packet_payload ::
  "pyenv \<Rightarrow> schemas \<Rightarrow> jobj \<Rightarrow> jobj \<Rightarrow> jobj \<Rightarrow> py_exn + jobj" where
  "verify_combined_proof_packet_payload E S packet request decision =
     ebind (case
        ebind (validate_hsai_decision E S request (JObj decision)) (\<lambda>_.
        ebind (gate_from_verified_contracts E request decision) (\<lambda>gate.
        ebind (validate_combined_proof_packet E S gate packet) (\<lambda>_.
        validate_combined_proof_claim_adequacy request decision packet))) of
        Inr _ \<Rightarrow> Inr []
      | Inl (ValueError msg) \<Rightarrow> Inr [msg]
      | Inl e \<Rightarrow> Inl e) (\<lambda>issues.
     Inr [(''schema_version'', JStr PACKET_VERIFICATION_V1),
          (''status'', JStr (if issues = [] then ''pass'' else ''fail'')),
          (''issues'', jstrs issues),
          (''mesh_run_id'', pget packet ''mesh_run_id''),
          (''mesh_action_id'', pget packet ''mesh_action_id''),
          (''mesh_policy_id'', pget packet ''mesh_policy_id''),
          (''hsai_request_digest'', pget packet ''hsai_request_digest''),
          (''hsai_decision_digest'', pget packet ''hsai_decision_digest''),
          (''hsai_candidate_digest'', pget packet ''hsai_candidate_digest''),
          (''hsai_decision'', pget packet ''hsai_decision'')])"

section \<open>The execution context\<close>

definition attach_hsai_execution_context ::
  "pyenv \<Rightarrow> schemas \<Rightarrow> Decision \<Rightarrow> jobj \<Rightarrow> jobj option \<Rightarrow> py_exn + Decision" where
  "attach_hsai_execution_context E S d gate execution_permit =
     ebind (validate_bridge_gate E S gate (Some d) None None) (\<lambda>_.
     ebind (decision_payload_without_hsai_context S d) (\<lambda>payload.
     ebind (ebind (pidx payload ''execution_plan'') as_obj) (\<lambda>plan.
     ebind (as_obj (por (pget plan ''parameters'') (JObj []))) (\<lambda>parameters.
     ebind (pidx gate ''request'') (\<lambda>request.
     ebind (pidx gate ''decision'') (\<lambda>decision.
     ebind (pidx gate ''request_digest'') (\<lambda>rd.
     ebind (pidx gate ''decision_digest'') (\<lambda>dd.
     ebind (pidx gate ''candidate_digest'') (\<lambda>cd.
     let context = [(''schema_version'', JStr EXECUTION_CONTEXT_V1), (''request'', request), (''decision'', decision),
                    (''request_digest'', rd), (''decision_digest'', dd), (''candidate_digest'', cd)] in
     ebind (case execution_permit of
        None \<Rightarrow> Inr context
      | Some p \<Rightarrow> ebind (validate_payload (S ''repo-patch-execution-permit.schema.json'') (JObj p)) (\<lambda>_.
                   Inr (context @ [(''execution_permit'', JObj p)]))) (\<lambda>context'.
     decision_from_dict S (pset payload ''execution_plan''
       (JObj (pset plan ''parameters'' (JObj (pset parameters CONTEXT_KEY (JObj context'))))))))))))))))"

definition validate_hsai_execution_context :: "pyenv \<Rightarrow> schemas \<Rightarrow> Decision \<Rightarrow> py_exn + jobj" where
  "validate_hsai_execution_context E S d =
     (let context = obj_or_empty (pget (parameters_of d) CONTEXT_KEY);
          request = obj_or_empty (pget context ''request'');
          admission = obj_or_empty (pget context ''decision'') in
      ebind (ck (py_eq (pget context ''schema_version'') (JStr EXECUTION_CONTEXT_V1))
               ''missing or unsupported HSAI execution context'') (\<lambda>_.
      ebind (validate_hsai_decision E S request (JObj admission)) (\<lambda>_.
      ebind (run_checks
        [ebind (pidx request ''mesh_run_id'') (\<lambda>x.
           ck (py_eq x (JStr (expected_mesh_run_id d))) ''HSAI execution context mesh run id mismatch''),
         ebind (pidx request ''mesh_action_id'') (\<lambda>x.
           ck (py_eq x (JStr (expected_mesh_action_id d))) ''HSAI execution context mesh action id mismatch''),
         ck (py_eq (pget context ''request_digest'') (JStr (sha256_digest E (JObj request))))
           ''HSAI execution context request digest mismatch'',
         ebind (pidx admission ''decision_digest'') (\<lambda>x.
           ck (py_eq (pget context ''decision_digest'') x) ''HSAI execution context decision digest mismatch''),
         ebind (pidx request ''candidate_payload_digest'') (\<lambda>x.
           ck (py_eq (pget context ''candidate_digest'') x) ''HSAI execution context candidate digest mismatch'')]) (\<lambda>_.
      ebind (if is_v2 request
             then ebind (gate_from_verified_contracts E request admission) (\<lambda>gate.
                    validate_bridge_gate E S gate (Some d) None None)
             else ebind (decision_payload_without_hsai_context S d) (\<lambda>payload.
                  ebind (pidx request ''candidate_payload_digest'') (\<lambda>x.
                    ck (py_eq x (JStr (sha256_digest E (JObj payload)))) ''HSAI execution context decision payload mismatch''))) (\<lambda>_.
      ebind (pidx admission ''decision'') (\<lambda>x.
      ebind (ck (py_eq x (JStr ''allow'')) ''HSAI execution context is not allow'') (\<lambda>_.
      Inr context)))))))"

definition repo_patch_admission_failure :: "pyenv \<Rightarrow> schemas \<Rightarrow> Decision \<Rightarrow> py_exn + jobj option" where
  "repo_patch_admission_failure E S d =
     (case validate_hsai_execution_context E S d of
        Inr _ \<Rightarrow> Inr None
      | Inl (ValueError msg) \<Rightarrow> Inr (Some
          [(''status'', JStr ''failed''), (''external_refs'', JObj []),
           (''failure'', JObj [(''reason'', JStr ''hsai_admission_context_invalid''), (''detail'', JStr msg)]),
           (''retryable'', JBool False)])
      | Inl e \<Rightarrow> Inl e)"

section \<open>The local adapter\<close>

definition local_hsai_allow_decision ::
  "pyenv \<Rightarrow> schemas \<Rightarrow> string \<Rightarrow> string option \<Rightarrow> jobj option \<Rightarrow> jobj \<Rightarrow> py_exn + jobj" where
  "local_hsai_allow_decision E S now created_at formal_backend_metadata request =
     (let nonclaims = pget request ''explicit_nonclaims'';
          allow = truthy nonclaims;
          gate_result = JStr (if allow then ''pass'' else ''fail'') in
      ebind (pidx request ''mesh_action_id'') (\<lambda>action_id.
      ebind (pidx request ''mesh_run_id'') (\<lambda>run_id.
      ebind (pidx request ''action_kind'') (\<lambda>kind.
      ebind (pidx request ''candidate_payload_digest'') (\<lambda>candidate.
      ebind (pidx request ''mesh_policy_id'') (\<lambda>policy.
      ebind (pidx request ''evidence_packet_digest'') (\<lambda>evidence.
      ebind (if allow then pidx request ''requested_claims'' else Inr (JList [])) (\<lambda>claims.
      let decision =
       [(''schema_version'', JStr HSAI_DECISION_V1),
        (''decision_id'', JStr (''hsai_decision_'' @ py_str action_id)),
        (''mesh_run_id'', run_id), (''mesh_action_id'', action_id), (''action_kind'', kind),
        (''request_digest'', JStr (sha256_digest E (JObj request))),
        (''candidate_digest'', candidate),
        (''decision'', JStr (if allow then ''allow'' else ''deny'')),
        (''admission_policy_id'', policy),
        (''gate_results'', JList
          [JObj [(''gate'', JStr ''candidate_evidence''), (''result'', gate_result), (''metadata_digest'', evidence)],
           JObj [(''gate'', JStr ''nonclaim_enforcement''), (''result'', gate_result),
                 (''metadata_digest'', JStr (sha256_digest E (por nonclaims (JList []))))]]),
        (''accepted_claims'', claims),
        (''enforced_nonclaims'', JList (list_or nonclaims)),
        (''formal_evidence_metadata'',
          (case formal_backend_metadata of
             Some (m # ms) \<Rightarrow> JObj (m # ms)
           | _ \<Rightarrow> JObj
              [(''backend'', JStr ''hsai-local-adapter''), (''phase_range'', JStr ''265-277''),
               (''backend_run_id'', JStr ''local_metadata_only''),
               (''metadata_digest'', JStr (sha256_digest E (JObj
                  [(''phase_range'', JStr ''265-277''), (''request_digest'', JStr (sha256_digest E (JObj request))),
                   (''nonclaims'', por nonclaims (JList []))]))),
               (''nonclaim'', JStr ''local metadata only; not formal proof, accepted evidence, or production certification'')])),
        (''reason_codes'', jstrs (if allow then [] else [''missing_explicit_nonclaims''])),
        (''created_at'', created_or_now created_at now)];
          signed = pset decision ''decision_digest'' (JStr (decision_digest E decision))
      in ebind (validate_payload (S ''hsai-admission-decision.schema.json'') (JObj signed)) (\<lambda>_. Inr signed)))))))))"

section \<open>Formal-backend bundle checks\<close>

definition FORMAL_OUTPUT_V1 :: string where "FORMAL_OUTPUT_V1 = ''hsai-gateway-formal-backend-run-output-v1''"
definition FORMAL_ARTIFACT_V1 :: string where "FORMAL_ARTIFACT_V1 = ''hsai-gateway-formal-backend-run-artifact:v1''"
definition FORMAL_STATE_SLICE :: string where
  "FORMAL_STATE_SLICE = ''phase-276-hsai-gateway-formal-backend-run-inert-artifact-metadata''"

definition validate_formal_backend_manifest :: "jobj \<Rightarrow> py_exn + unit" where
  "validate_formal_backend_manifest m =
     run_checks
      ([ck (py_eq (pget m ''schema_version'') (JStr FORMAL_OUTPUT_V1)) ''HSAI formal backend manifest schema version mismatch'',
        ck (py_eq (pget m ''state_slice'') (JStr FORMAL_STATE_SLICE)) ''HSAI formal backend manifest state slice mismatch'']
     @ map (\<lambda>f. ck (pget m f = JBool False) (''HSAI formal backend manifest escalates '' @ f))
        [''creates_accepted_evidence'', ''creates_level2_evidence'', ''populates_score_axes'', ''grants_authority''])"

definition forbidden_claim :: "string \<Rightarrow> bool" where
  "forbidden_claim t = list_ex (contains_str (py_lower t)) [''production ready'', ''sota'', ''breakthrough'', ''full security'']"

definition validate_formal_backend_run_summary :: "jobj \<Rightarrow> py_exn + unit" where
  "validate_formal_backend_run_summary r =
     run_checks
      ([ck (py_eq (pget r ''schema_version'') (JStr FORMAL_ARTIFACT_V1)) ''HSAI formal backend run-summary schema version mismatch'',
        ck (py_eq (pget r ''state_slice'') (JStr FORMAL_STATE_SLICE)) ''HSAI formal backend run-summary state slice mismatch'',
        ck (py_strip (str_or (pget r ''run_id'') (JStr [])) \<noteq> []) ''HSAI formal backend run-summary missing run id'',
        ck (py_eq (pget r ''execution_mode'') (JStr ''NotRun'')) ''HSAI formal backend run-summary execution mode must be NotRun'',
        ck (py_eq (pget r ''exit_status'') (JStr ''NotRun'')) ''HSAI formal backend run-summary exit status must be NotRun'',
        ck (py_eq (pget r ''checker_status'') (JStr ''NotRun'')) ''HSAI formal backend run-summary checker status must be NotRun'']
     @ map (\<lambda>f. ck (pget r f = JBool False) (''HSAI formal backend run-summary escalates '' @ f))
        [''creates_accepted_evidence'', ''creates_level2_evidence'', ''populates_score_axes'', ''grants_authority'',
         ''semantic_correctness_claimed'', ''production_readiness_claimed'', ''sota_claimed'', ''full_security_claimed'']
     @ [ck (pget r ''candidate_proof_artifact_ref'' = JNull) ''HSAI formal backend run-summary includes proof artifact reference'',
        ck (pget r ''candidate_checker_transcript_ref'' = JNull)
          ''HSAI formal backend run-summary includes checker transcript reference'',
        ck (pget r ''candidate_tool_log_summary_digest'' = JNull) ''HSAI formal backend run-summary includes tool log digest'']
     @ map (\<lambda>t. ck (\<not> forbidden_claim t) ''HSAI formal backend run-summary contains forbidden public claim text'')
        (string_list (pget r ''claim_text'')))"

definition validate_formal_backend_redaction :: "jobj \<Rightarrow> py_exn + unit" where
  "validate_formal_backend_redaction report =
     run_checks (map (\<lambda>(f, v). ck (v = JBool False) (''HSAI formal backend redaction report retained '' @ f)) report)"

end
