(* ===== verification/Permit_Validation.thy ===== *)
theory Permit_Validation
  imports Py_Env
begin

text \<open>
  \<open>shared/mesh_runtime/repo_patch_permit_validation.py\<close>, the semantic validator of
  execution permits, and the HMAC part of \<open>shared/mesh_runtime/perennial/signing.py\<close> that
  signs them. A permit is a dictionary; the validator collects a list of issues.
\<close>

section \<open>Constants\<close>

definition PERMIT_VERSION :: string where
  "PERMIT_VERSION = ''mesh.repo_patch_execution_permit.v1''"
definition TRANSACTION_VERSION :: string where
  "TRANSACTION_VERSION = ''mesh.repo_patch_execution_transaction.v1''"
definition AUTHORITY_SCOPE :: string where
  "AUTHORITY_SCOPE = ''local_disposable_repo_patch_only''"
definition ACTION_KIND :: string where
  "ACTION_KIND = ''repo_patch''"
definition SIGNING_PROFILE :: string where
  "SIGNING_PROFILE = ''mesh-repo-patch-execution-permit-hmac-sha256-v1''"
definition MAX_TTL_SECONDS :: int where
  "MAX_TTL_SECONDS = 300"

definition SHA256_FIELDS :: "string list" where
  "SHA256_FIELDS =
     [''hsai_request_digest'', ''hsai_decision_digest'', ''candidate_payload_digest'',
      ''action_proposal_digest'', ''evidence_packet_digest'', ''policy_snapshot_digest'',
      ''canonical_actuation_payload_digest'', ''target_preimage_digest'', ''target_postimage_digest'',
      ''expected_ledger_tip_before'', ''authority_entry_digest'', ''ledger_tip_after'', ''permit_digest'']"

definition CLAIM_LIST_FIELDS :: "string list" where
  "CLAIM_LIST_FIELDS = [''requested_claims'', ''accepted_claims'', ''explicit_nonclaims'', ''enforced_nonclaims'']"

definition AUTHORIZATION_PROOF_FIELDS :: "string list" where
  "AUTHORIZATION_PROOF_FIELDS =
     [''signing_profile'', ''algorithm'', ''key_id'', ''signature'', ''payload_sha256'', ''status'', ''verifier'']"

definition ENTRY_DERIVED_FIELDS :: "string list" where
  "ENTRY_DERIVED_FIELDS = [''authority_entry_digest'', ''ledger_tip_after'', ''permit_digest'', ''authorization_proof'']"

section \<open>HMAC proofs\<close>

text \<open>\<open>_canonical_bytes\<close> and \<open>_authorization_canonical_bytes\<close>: sorted, compact JSON with the
  default \<open>ensure_ascii=True\<close>.\<close>

definition signing_text :: "jobj \<Rightarrow> string" where
  "signing_text payload = json_dumps True (JObj payload)"

definition build_hmac_signature_proof :: "pyenv \<Rightarrow> jobj \<Rightarrow> string \<Rightarrow> string \<Rightarrow> string \<Rightarrow> jobj" where
  "build_hmac_signature_proof E payload key_id secret signing_profile =
     [(''signing_profile'', JStr signing_profile),
      (''algorithm'', JStr ''hmac-sha256''),
      (''key_id'', JStr key_id),
      (''signature'', JStr (hmac_sha256_hex E secret (signing_text payload))),
      (''payload_sha256'', JStr (sha256_hex E (signing_text payload))),
      (''status'', JStr ''verified''),
      (''verifier'', JStr ''orbital_mesh_hmac_sha256_v1'')]"

definition verify_hmac_signature_proof :: "pyenv \<Rightarrow> jobj \<Rightarrow> jobj \<Rightarrow> string \<Rightarrow> bool" where
  "verify_hmac_signature_proof E payload pf secret =
     (if \<not> py_eq (pget pf ''algorithm'') (JStr ''hmac-sha256'') then False
      else let expected = build_hmac_signature_proof E payload
                 (py_str (por (pget pf ''key_id'') (JStr []))) secret
                 (py_str (por (pget pf ''signing_profile'') (JStr ''darkharness-hmac-sha256-v1'')))
           in JStr (py_str (por (pget pf ''payload_sha256'') (JStr []))) = pget expected ''payload_sha256''
            \<and> JStr (py_str (por (pget pf ''signature'') (JStr []))) = pget expected ''signature'')"

section \<open>The checks\<close>

definition expect_exact :: "jobj \<Rightarrow> string \<Rightarrow> string \<Rightarrow> string \<Rightarrow> string list" where
  "expect_exact permit field expected issue =
     (if \<not> py_eq (pget permit field) (JStr expected) then [issue] else [])"

definition nonempty_string :: "jval \<Rightarrow> bool" where
  "nonempty_string v = (case v of JStr s \<Rightarrow> py_strip s \<noteq> [] \<and> s = py_strip s | _ \<Rightarrow> False)"

definition parse_aware_time :: "pyenv \<Rightarrow> jval \<Rightarrow> int option" where
  "parse_aware_time E v = (case v of
      JStr s \<Rightarrow> if py_strip s = [] then None
               else (case fromisoformat E (replace_all ''Z'' ''+00:00'' s) of
                       Some (Aware t) \<Rightarrow> Some t | _ \<Rightarrow> None)
    | _ \<Rightarrow> None)"

definition validate_time_window :: "pyenv \<Rightarrow> jobj \<Rightarrow> string list" where
  "validate_time_window E permit =
     (let issued_at = parse_aware_time E (pget permit ''issued_at'');
          not_before = parse_aware_time E (pget permit ''not_before'');
          expires_at = parse_aware_time E (pget permit ''expires_at'')
      in (if issued_at = None then [''issued_at_invalid_or_naive''] else [])
       @ (if not_before = None then [''not_before_invalid_or_naive''] else [])
       @ (if expires_at = None then [''expires_at_invalid_or_naive''] else [])
       @ (case (issued_at, not_before, expires_at) of
            (Some i, Some nb, Some e) \<Rightarrow>
              (if \<not> (i \<le> nb \<and> nb < e) then [''permit_activation_window_not_ordered''] else [])
              @ (if e - i \<le> 0 then [''permit_time_window_not_ordered'']
                 else if e - i > MAX_TTL_SECONDS * 1000000 then [''permit_time_window_exceeds_300_seconds'']
                 else [])
          | _ \<Rightarrow> []))"

text \<open>The issues of one claim field, and its set of claims when it is usable.\<close>

definition validate_claim_list :: "jobj \<Rightarrow> string \<Rightarrow> string list \<times> string list option" where
  "validate_claim_list permit field = (case pget permit field of
      JList (x # xs) \<Rightarrow>
        if list_ex (\<lambda>i. \<not> nonempty_string i) (x # xs)
        then ([field @ ''_contains_invalid_claim''], None)
        else let values = map py_str (x # xs) in
          ((if \<not> distinct values then [field @ ''_contains_duplicate_claim''] else []), Some values)
    | _ \<Rightarrow> ([field @ ''_empty_or_invalid''], None))"

definition claim_set :: "jobj \<Rightarrow> string \<Rightarrow> string list option" where
  "claim_set permit field = snd (validate_claim_list permit field)"

definition validate_claim_lists :: "jobj \<Rightarrow> string list" where
  "validate_claim_lists permit = concat (map (\<lambda>f. fst (validate_claim_list permit f)) CLAIM_LIST_FIELDS)"

definition validate_claim_relations :: "jobj \<Rightarrow> string list" where
  "validate_claim_relations permit =
     (case (claim_set permit ''requested_claims'', claim_set permit ''accepted_claims'') of
        (Some requested, Some accepted) \<Rightarrow>
          if \<not> set accepted \<subseteq> set requested then [''accepted_claims_not_subset_of_requested_claims''] else []
      | _ \<Rightarrow> [])
   @ (case (claim_set permit ''explicit_nonclaims'', claim_set permit ''enforced_nonclaims'') of
        (Some explicit, Some enforced) \<Rightarrow>
          if \<not> set explicit \<subseteq> set enforced then [''enforced_nonclaims_not_superset_of_explicit_nonclaims''] else []
      | _ \<Rightarrow> [])"

definition validate_authorization_proof :: "pyenv \<Rightarrow> jobj \<Rightarrow> string list" where
  "validate_authorization_proof E permit = (case pget permit ''authorization_proof'' of
      JObj raw \<Rightarrow>
        (if set (map fst raw) \<noteq> set AUTHORIZATION_PROOF_FIELDS then [''authorization_proof_fields_mismatch''] else [])
      @ (if \<not> py_eq (pget raw ''signing_profile'') (JStr SIGNING_PROFILE)
         then [''authorization_proof_signing_profile_mismatch''] else [])
      @ (if \<not> py_eq (pget raw ''algorithm'') (JStr ''hmac-sha256'')
         then [''authorization_proof_algorithm_mismatch''] else [])
      @ (if \<not> nonempty_string (pget raw ''key_id'') then [''authorization_proof_key_id_missing''] else [])
      @ concat (map (\<lambda>field. case pget raw field of
            JStr s \<Rightarrow> if hex64 s then [] else [''authorization_proof_'' @ field @ ''_invalid'']
          | _ \<Rightarrow> [''authorization_proof_'' @ field @ ''_invalid'']) [''signature'', ''payload_sha256''])
      @ (if \<not> py_eq (pget raw ''status'') (JStr ''verified'') then [''authorization_proof_status_mismatch''] else [])
      @ (if \<not> py_eq (pget raw ''verifier'') (JStr ''orbital_mesh_hmac_sha256_v1'')
         then [''authorization_proof_verifier_mismatch''] else [])
      @ (if \<not> py_eq (pget raw ''payload_sha256'')
              (JStr (sha256_hex E (signing_text (pwithout permit [''authorization_proof'']))))
         then [''authorization_proof_payload_sha256_mismatch''] else [])
    | _ \<Rightarrow> [''authorization_proof_invalid''])"

text \<open>The three digests a permit must carry.\<close>

definition expected_permit_digest :: "pyenv \<Rightarrow> jobj \<Rightarrow> string" where
  "expected_permit_digest E permit =
     canonical_digest (sha256_hex E) (JObj (pwithout permit [''permit_digest'', ''authorization_proof'']))"

definition expected_entry_digest :: "pyenv \<Rightarrow> jobj \<Rightarrow> string" where
  "expected_entry_digest E permit = canonical_digest (sha256_hex E)
     (JObj [(''tip_before'', pget permit ''expected_ledger_tip_before''),
            (''permit'', JObj (pwithout permit ENTRY_DERIVED_FIELDS))])"

definition expected_ledger_tip :: "pyenv \<Rightarrow> jobj \<Rightarrow> string" where
  "expected_ledger_tip E permit = canonical_digest (sha256_hex E)
     (JObj [(''tip_before'', pget permit ''expected_ledger_tip_before''),
            (''entry_digest'', pget permit ''authority_entry_digest'')])"

definition validate_digest_chain :: "pyenv \<Rightarrow> jobj \<Rightarrow> string list" where
  "validate_digest_chain E permit =
     (if \<not> py_eq (pget permit ''permit_digest'') (JStr (expected_permit_digest E permit))
      then [''permit_digest_mismatch''] else [])
   @ (if \<not> py_eq (pget permit ''authority_entry_digest'') (JStr (expected_entry_digest E permit))
      then [''authority_entry_digest_mismatch''] else [])
   @ (if \<not> py_eq (pget permit ''ledger_tip_after'') (JStr (expected_ledger_tip E permit))
      then [''ledger_tip_after_mismatch''] else [])"

definition semantic_issues :: "pyenv \<Rightarrow> jobj \<Rightarrow> string list" where
  "semantic_issues E permit =
     expect_exact permit ''schema_version'' PERMIT_VERSION ''schema_version_mismatch''
   @ expect_exact permit ''transaction_version'' TRANSACTION_VERSION ''transaction_version_mismatch''
   @ expect_exact permit ''authority_scope'' AUTHORITY_SCOPE ''authority_scope_mismatch''
   @ expect_exact permit ''action_kind'' ACTION_KIND ''action_kind_mismatch''
   @ concat (map (\<lambda>field. if nonempty_string (pget permit field) then [] else [field @ ''_missing''])
       [''issuer'', ''executor_audience'', ''tenant''])
   @ (case pget permit ''authority_nonce'' of
        JStr s \<Rightarrow> if hex64 s then [] else [''authority_nonce_invalid'']
      | _ \<Rightarrow> [''authority_nonce_invalid''])
   @ concat (map (\<lambda>field. case pget permit field of
        JStr s \<Rightarrow> if sha256_text s then [] else [field @ ''_invalid'']
      | _ \<Rightarrow> [field @ ''_invalid'']) SHA256_FIELDS)
   @ validate_time_window E permit
   @ validate_claim_lists permit
   @ validate_claim_relations permit
   @ validate_authorization_proof E permit
   @ validate_digest_chain E permit"

definition validate_permit_semantics :: "pyenv \<Rightarrow> jobj \<Rightarrow> py_exn + unit" where
  "validate_permit_semantics E permit =
     (let issues = semantic_issues E permit in
      require (issues = [])
        (ValueError (''repo patch execution permit semantic validation failed: '' @ join_str '', '' issues)))"

section \<open>What the checks establish\<close>

lemma por_truthy [simp]: "truthy v \<Longrightarrow> por v w = v"
  by (simp add: por_def)

text \<open>Signing round trip. A proof that was built for a payload with a key verifies for
  that payload and key, whatever the key id and the profile; and a proof verifies exactly
  when it names the algorithm and carries the payload's HMAC under the key and its hash.\<close>

theorem hmac_proof_roundtrip:
  "verify_hmac_signature_proof E payload (build_hmac_signature_proof E payload key_id secret profile) secret
   \<and> (verify_hmac_signature_proof E payload pf secret \<longleftrightarrow>
        pget pf ''algorithm'' = JStr ''hmac-sha256''
      \<and> py_str (por (pget pf ''signature'') (JStr [])) = hmac_sha256_hex E secret (signing_text payload)
      \<and> py_str (por (pget pf ''payload_sha256'') (JStr [])) = sha256_hex E (signing_text payload))"
  by (auto simp: verify_hmac_signature_proof_def build_hmac_signature_proof_def por_def Let_def split: if_splits)

lemma semantics_ok_iff: "validate_permit_semantics E permit = Inr () \<longleftrightarrow> semantic_issues E permit = []"
  by (simp add: validate_permit_semantics_def Let_def)

lemma semantics_parts:
  assumes "validate_permit_semantics E permit = Inr ()"
  shows "validate_time_window E permit = [] \<and> validate_claim_lists permit = [] \<and> validate_claim_relations permit = []
    \<and> validate_authorization_proof E permit = [] \<and> validate_digest_chain E permit = []"
  using assms by (simp add: semantics_ok_iff semantic_issues_def)

lemma time_window_ok:
  assumes "validate_time_window E permit = []"
  shows "\<exists>i nb e. parse_aware_time E (pget permit ''issued_at'') = Some i
    \<and> parse_aware_time E (pget permit ''not_before'') = Some nb
    \<and> parse_aware_time E (pget permit ''expires_at'') = Some e
    \<and> i \<le> nb \<and> nb < e \<and> e - i \<le> 300 * 1000000"
  using assms by (auto simp: validate_time_window_def MAX_TTL_SECONDS_def Let_def split: if_splits option.splits)

lemma claim_lists_ok:
  assumes "validate_claim_lists permit = []" and "f \<in> set CLAIM_LIST_FIELDS"
  shows "\<exists>cs. claim_set permit f = Some cs \<and> cs \<noteq> [] \<and> distinct cs \<and> pget permit f = JList (map JStr cs)"
proof -
  have "fst (validate_claim_list permit f) = []" using assms by (auto simp: validate_claim_lists_def)
  moreover have "map JStr (map py_str xs) = xs" if "\<not> list_ex (\<lambda>i. \<not> nonempty_string i) xs" for xs
    using that by (induction xs) (auto simp: nonempty_string_def split: jval.splits)
  ultimately show ?thesis
    by (auto simp: validate_claim_list_def claim_set_def Let_def split: jval.splits list.splits if_splits)
       (auto simp: nonempty_string_def split: jval.splits)
qed

text \<open>What a permit that passes the semantic validation promises: it is valid for at
  most 300 seconds after it was issued and starts no earlier than that, the accepted
  claims were requested, every explicit non-claim is enforced, and its three digests are
  those of its own contents.\<close>

theorem permit_semantics_sound:
  assumes "validate_permit_semantics E permit = Inr ()"
  shows "(\<exists>i nb e. parse_aware_time E (pget permit ''issued_at'') = Some i
           \<and> parse_aware_time E (pget permit ''not_before'') = Some nb
           \<and> parse_aware_time E (pget permit ''expires_at'') = Some e
           \<and> i \<le> nb \<and> nb < e \<and> e - i \<le> 300 * 1000000)
    \<and> (\<exists>req acc. pget permit ''requested_claims'' = JList (map JStr req)
           \<and> pget permit ''accepted_claims'' = JList (map JStr acc) \<and> acc \<noteq> [] \<and> set acc \<subseteq> set req)
    \<and> (\<exists>ex en. pget permit ''explicit_nonclaims'' = JList (map JStr ex)
           \<and> pget permit ''enforced_nonclaims'' = JList (map JStr en) \<and> ex \<noteq> [] \<and> set ex \<subseteq> set en)
    \<and> pget permit ''permit_digest'' = JStr (expected_permit_digest E permit)
    \<and> pget permit ''authority_entry_digest'' = JStr (expected_entry_digest E permit)
    \<and> pget permit ''ledger_tip_after'' = JStr (expected_ledger_tip E permit)"
proof -
  note p = semantics_parts [OF assms]
  have c: "\<exists>cs. claim_set permit f = Some cs \<and> cs \<noteq> [] \<and> distinct cs \<and> pget permit f = JList (map JStr cs)"
    if "f \<in> set CLAIM_LIST_FIELDS" for f using claim_lists_ok p that by blast
  from c [of "''requested_claims''"] c [of "''accepted_claims''"] p
  have 1: "\<exists>req acc. pget permit ''requested_claims'' = JList (map JStr req)
           \<and> pget permit ''accepted_claims'' = JList (map JStr acc) \<and> acc \<noteq> [] \<and> set acc \<subseteq> set req"
    by (auto simp: CLAIM_LIST_FIELDS_def validate_claim_relations_def split: if_splits option.splits)
  from c [of "''explicit_nonclaims''"] c [of "''enforced_nonclaims''"] p
  have 2: "\<exists>ex en. pget permit ''explicit_nonclaims'' = JList (map JStr ex)
           \<and> pget permit ''enforced_nonclaims'' = JList (map JStr en) \<and> ex \<noteq> [] \<and> set ex \<subseteq> set en"
    by (auto simp: CLAIM_LIST_FIELDS_def validate_claim_relations_def split: if_splits option.splits)
  have "pget permit ''permit_digest'' = JStr (expected_permit_digest E permit)
    \<and> pget permit ''authority_entry_digest'' = JStr (expected_entry_digest E permit)
    \<and> pget permit ''ledger_tip_after'' = JStr (expected_ledger_tip E permit)"
    using p by (auto simp: validate_digest_chain_def split: if_splits)
  with 1 2 time_window_ok p show ?thesis by blast
qed

end
