(* ===== verification/Json_Text.thy ===== *)
theory Json_Text
  imports Py_Env
begin

text \<open>
  Reading JSON: the UTF-8 codec and \<open>json.loads\<close> with an \<open>object_pairs_hook\<close>, the inverse of
  the \<open>json.dumps\<close> of \<open>Py_Json\<close>. What has no \<open>jval\<close> (\<open>NaN\<close>, the infinities, code points from
  256) is outside the model and reads as a decode error. Proved: the text \<open>json.dumps\<close> writes reads back
  as the value it was written from, with the members of every object in the order of their
  keys; encoding and decoding UTF-8 is the identity.
\<close>

section \<open>UTF-8\<close>

definition utf8_char :: "char \<Rightarrow> string" where
  "utf8_char c = (let n = (of_char c :: nat) in
     if n < 128 then [c] else [char_of (192 + n div 64), char_of (128 + n mod 64)])"

definition utf8_encode :: "string \<Rightarrow> string" where
  "utf8_encode s = concat (map utf8_char s)"

fun utf8_decode :: "string \<Rightarrow> string option" where
  "utf8_decode [] = Some []"
| "utf8_decode (b # bs) =
     (let n = (of_char b :: nat) in
      if n < 128 then map_option ((#) b) (utf8_decode bs)
      else (case bs of
          [] \<Rightarrow> None
        | c # cs \<Rightarrow> (let m = (of_char c :: nat) in
            if (n = 194 \<or> n = 195) \<and> 128 \<le> m \<and> m < 192
            then map_option ((#) (char_of ((n - 192) * 64 + (m - 128)))) (utf8_decode cs) else None)))"

lemma of_char_bound: "of_char c < (256 :: nat)"
  by (metis of_char_mod_256 mod_less_divisor zero_less_numeral)

lemma utf8_decode_char: "utf8_decode (utf8_char c @ s) = map_option ((#) c) (utf8_decode s)"
proof (cases "of_char c < (128 :: nat)")
  case False
  define n where "n = (of_char c :: nat)"
  have n: "128 \<le> n" "n < 256" using False of_char_bound by (simp_all add: n_def)
  have lead: "of_char (char_of (192 + n div 64) :: char) = 192 + n div 64"
    and cont: "of_char (char_of (128 + n mod 64) :: char) = 128 + n mod 64" using n by simp_all
  have "192 + n div 64 = 194 \<or> 192 + n div 64 = 195" using n by linarith
  moreover have "(192 + n div 64 - 192) * 64 + (128 + n mod 64 - 128) = n" by simp
  moreover have "char_of n = c" by (simp add: n_def)
  ultimately show ?thesis using n lead cont
    by (simp add: utf8_char_def n_def [symmetric] Let_def del: of_char_of)
qed (simp add: utf8_char_def)

lemma utf8_roundtrip [simp]: "utf8_decode (utf8_encode s) = Some s"
  by (induction s) (simp_all add: utf8_encode_def utf8_decode_char)

section \<open>Lexical elements\<close>

definition json_error :: py_exn where
  "json_error = ValueError ''JSONDecodeError''"

definition json_space :: "char \<Rightarrow> bool" where
  "json_space c \<longleftrightarrow> c = CHR '' '' \<or> c = CHR 0x09 \<or> c = CHR 0x0A \<or> c = CHR 0x0D"

definition skip_ws :: "string \<Rightarrow> string" where
  "skip_ws s = dropWhile json_space s"

definition hex_val :: "char \<Rightarrow> nat option" where
  "hex_val c = (let n = (of_char c :: nat) in
     if 48 \<le> n \<and> n \<le> 57 then Some (n - 48)
     else if 97 \<le> n \<and> n \<le> 102 then Some (n - 87)
     else if 65 \<le> n \<and> n \<le> 70 then Some (n - 55) else None)"

definition hex4 :: "char \<Rightarrow> char \<Rightarrow> char \<Rightarrow> char \<Rightarrow> char option" where
  "hex4 a b c d = (case (hex_val a, hex_val b, hex_val c, hex_val d) of
      (Some i, Some j, Some k, Some l) \<Rightarrow> if i = 0 \<and> j = 0 then Some (char_of (16 * k + l)) else None
    | _ \<Rightarrow> None)"

definition json_unescape :: "char \<Rightarrow> char option" where
  "json_unescape e =
     (if e = CHR 0x22 \<or> e = CHR 0x5C \<or> e = CHR ''/'' then Some e
      else map_of [(CHR ''n'', CHR 0x0A), (CHR ''r'', CHR 0x0D), (CHR ''t'', CHR 0x09), (CHR ''f'', CHR 0x0C),
                   (CHR ''b'', CHR 0x08)] e)"

text \<open>The rest of a string literal, after its opening quote; raw control characters are refused.\<close>

fun scan_string :: "string \<Rightarrow> (string \<times> string) option" where
  "scan_string [] = None"
| "scan_string (c # s) =
     (if c = CHR 0x22 then Some ([], s)
      else if c = CHR 0x5C then
        (case s of
           [] \<Rightarrow> None
         | e # t \<Rightarrow>
             (if e = CHR ''u'' then
                (case t of
                   h1 # h2 # h3 # h4 # u \<Rightarrow>
                     (case hex4 h1 h2 h3 h4 of None \<Rightarrow> None | Some x \<Rightarrow> map_option (apfst ((#) x)) (scan_string u))
                 | _ \<Rightarrow> None)
              else (case json_unescape e of None \<Rightarrow> None | Some x \<Rightarrow> map_option (apfst ((#) x)) (scan_string t))))
      else if json_control c then None
      else map_option (apfst ((#) c)) (scan_string s))"

definition is_digit :: "char \<Rightarrow> bool" where
  "is_digit c \<longleftrightarrow> CHR ''0'' \<le> c \<and> c \<le> CHR ''9''"

definition dec_val :: "string \<Rightarrow> int" where
  "dec_val ds = foldl (\<lambda>a c. 10 * a + (of_char c - 48)) 0 ds"

definition int_part :: "string \<Rightarrow> string" where
  "int_part s = (case s of [] \<Rightarrow> [] | c # t \<Rightarrow> if c = CHR ''0'' then [c] else takeWhile is_digit s)"

definition frac_part :: "string \<Rightarrow> string \<times> string" where
  "frac_part s = (case s of
      [] \<Rightarrow> ([], s)
    | c # t \<Rightarrow> if c = CHR ''.'' \<and> takeWhile is_digit t \<noteq> [] then (takeWhile is_digit t, dropWhile is_digit t)
               else ([], s))"

definition exp_part :: "string \<Rightarrow> int option \<times> string" where
  "exp_part s = (case s of
      [] \<Rightarrow> (None, s)
    | c # t \<Rightarrow>
        if c = CHR ''e'' \<or> c = CHR ''E'' then
          (let neg = starts_with t ''-''; u = (if neg \<or> starts_with t ''+'' then tl t else t) in
           if takeWhile is_digit u = [] then (None, s)
           else (Some ((if neg then - 1 else 1) * dec_val (takeWhile is_digit u)), dropWhile is_digit u))
        else (None, s))"

text \<open>An integer literal is an \<open>int\<close>; with a fraction or an exponent it is the nearest double.\<close>

definition json_number :: "string \<Rightarrow> (jval \<times> string) option" where
  "json_number s =
     (let neg = starts_with s ''-''; s1 = (if neg then tl s else s); ip = int_part s1;
          fs = frac_part (drop (length ip) s1); es = exp_part (snd fs);
          sign = (if neg then - 1 else 1)
      in if ip = [] then None
         else if fst fs = [] \<and> fst es = None then Some (JInt (sign * dec_val ip), snd es)
         else Some (JFloat (fl (of_int (sign * dec_val (ip @ fst fs))
                * 10 powi ((case fst es of None \<Rightarrow> 0 | Some e \<Rightarrow> e) - int (length (fst fs))))), snd es))"

section \<open>The parser\<close>

text \<open>
  Recursive descent as in \<open>json.scanner\<close>. Every call is on a shorter text or goes from a list of items to its
  first, so twice the length of the text bounds the depth of the recursion: \<open>json_loads\<close> takes that as fuel.
\<close>

type_synonym pairs_hook = "(string \<times> jval) list \<Rightarrow> py_exn + jobj"

fun jp_value :: "pairs_hook \<Rightarrow> nat \<Rightarrow> string \<Rightarrow> py_exn + (jval \<times> string)"
and jp_items :: "pairs_hook \<Rightarrow> nat \<Rightarrow> string \<Rightarrow> py_exn + (jval list \<times> string)"
and jp_pairs :: "pairs_hook \<Rightarrow> nat \<Rightarrow> string \<Rightarrow> py_exn + ((string \<times> jval) list \<times> string)" where
  "jp_value h 0 s = Inl json_error"
| "jp_value h (Suc f) s =
     (case s of
        [] \<Rightarrow> Inl json_error
      | c # t \<Rightarrow>
          (if c = CHR 0x22 then (case scan_string t of None \<Rightarrow> Inl json_error | Some (x, r) \<Rightarrow> Inr (JStr x, r))
           else if c = CHR ''{'' then
             (if starts_with (skip_ws t) ''}'' then ebind (h []) (\<lambda>d. Inr (JObj d, tl (skip_ws t)))
              else ebind (jp_pairs h f (skip_ws t)) (\<lambda>pr. ebind (h (fst pr)) (\<lambda>d. Inr (JObj d, snd pr))))
           else if c = CHR ''['' then
             (if starts_with (skip_ws t) '']'' then Inr (JList [], tl (skip_ws t))
              else ebind (jp_items h f (skip_ws t)) (\<lambda>pr. Inr (JList (fst pr), snd pr)))
           else if starts_with s ''null'' then Inr (JNull, drop 4 s)
           else if starts_with s ''true'' then Inr (JBool True, drop 4 s)
           else if starts_with s ''false'' then Inr (JBool False, drop 5 s)
           else (case json_number s of None \<Rightarrow> Inl json_error | Some x \<Rightarrow> Inr x)))"
| "jp_items h 0 s = Inl json_error"
| "jp_items h (Suc f) s =
     ebind (jp_value h f s) (\<lambda>pr.
       case skip_ws (snd pr) of
         [] \<Rightarrow> Inl json_error
       | d # r \<Rightarrow>
           if d = CHR '']'' then Inr ([fst pr], r)
           else if d = CHR '','' then ebind (jp_items h f (skip_ws r)) (\<lambda>qr. Inr (fst pr # fst qr, snd qr))
           else Inl json_error)"
| "jp_pairs h 0 s = Inl json_error"
| "jp_pairs h (Suc f) s =
     (if \<not> starts_with s [CHR 0x22] then Inl json_error
      else case scan_string (tl s) of
        None \<Rightarrow> Inl json_error
      | Some (k, u) \<Rightarrow>
          if \<not> starts_with (skip_ws u) '':'' then Inl json_error
          else ebind (jp_value h f (skip_ws (tl (skip_ws u)))) (\<lambda>pr.
            case skip_ws (snd pr) of
              [] \<Rightarrow> Inl json_error
            | d # r \<Rightarrow>
                if d = CHR ''}'' then Inr ([(k, fst pr)], r)
                else if d = CHR '','' then ebind (jp_pairs h f (skip_ws r)) (\<lambda>qr. Inr ((k, fst pr) # fst qr, snd qr))
                else Inl json_error))"

definition json_loads :: "pairs_hook \<Rightarrow> string \<Rightarrow> py_exn + jval" where
  "json_loads h s =
     ebind (jp_value h (2 * length s + 2) (skip_ws s)) (\<lambda>pr.
     if skip_ws (snd pr) = [] then Inr (fst pr) else Inl json_error)"

section \<open>Reading back strings\<close>

lemma char_quote: "char_of (34 :: nat) = CHR 0x22" "hex_digit 0 = CHR ''0''"
  by code_simp+

lemma hex_val_digit: "n < 16 \<Longrightarrow> hex_val (hex_digit n) = Some n"
  by (auto simp: hex_val_def hex_digit_def)

lemma scan_esc: "n < 256 \<Longrightarrow> scan_string (json_esc n @ s) = map_option (apfst ((#) (char_of n))) (scan_string s)"
proof -
  assume "n < 256"
  then have "hex4 (CHR ''0'') (CHR ''0'') (hex_digit (n div 16)) (hex_digit (n mod 16)) = Some (char_of n)"
    using hex_val_digit [of 0] hex_val_digit [of "n div 16"] hex_val_digit [of "n mod 16"]
    by (simp add: hex4_def char_quote)
  moreover have "char_of (92 :: nat) = CHR 0x5C" by code_simp
  ultimately show ?thesis by (simp add: json_esc_def)
qed

lemma scan_char: "scan_string (json_char ea c @ s) = map_option (apfst ((#) c)) (scan_string s)"
  using scan_esc [of "of_char c" s] of_char_bound [of c]
  by (auto simp: json_char_def json_unescape_def)

lemma scan_text: "scan_string (concat (map (json_char ea) x) @ CHR 0x22 # r) = Some (x, r)"
  by (induction x) (simp_all add: scan_char)

lemma json_str_Cons: "json_str ea x = CHR 0x22 # concat (map (json_char ea) x) @ [CHR 0x22]"
  by (simp add: json_str_def char_quote)

section \<open>Reading back numbers\<close>

text \<open>A number ends where no character continues it.\<close>

definition num_end :: "string \<Rightarrow> bool" where
  "num_end r \<longleftrightarrow> (case r of [] \<Rightarrow> True
     | c # _ \<Rightarrow> \<not> is_digit c \<and> c \<noteq> CHR ''.'' \<and> c \<noteq> CHR ''e'' \<and> c \<noteq> CHR ''E'')"

lemma num_end_simps [simp]:
  "num_end []" "num_end (CHR '','' # r)" "num_end (CHR '']'' # r)" "num_end (CHR ''}'' # r)"
  by (simp_all add: num_end_def is_digit_def less_eq_char_def)

lemma num_end_takeWhile [simp]: "num_end r \<Longrightarrow> takeWhile is_digit r = []" "num_end r \<Longrightarrow> dropWhile is_digit r = r"
  by (cases r; simp add: num_end_def)+

lemma digits_append [simp]:
  assumes "num_end r"
  shows "takeWhile is_digit (t @ r) = takeWhile is_digit t" "dropWhile is_digit (t @ r) = dropWhile is_digit t @ r"
  using assms by (induction t) auto

lemma exp_part_append:
  "num_end r \<Longrightarrow> t \<noteq> [] \<Longrightarrow> snd (exp_part t) = [] \<Longrightarrow> exp_part (t @ r) = (fst (exp_part t), r)"
  by (cases t) (auto simp: exp_part_def Let_def starts_with_iff append_eq_append_conv2 append_eq_Cons_conv
      split: if_splits)

lemma exp_part_end: "num_end r \<Longrightarrow> exp_part r = (None, r)"
  by (cases r) (auto simp: exp_part_def num_end_def)

lemma exp_part_app:
  assumes "num_end r" and "snd (exp_part t) = []"
  shows "exp_part (t @ r) = (fst (exp_part t), r)"
  using assms exp_part_append exp_part_end by (cases "t = []") (auto simp: exp_part_def)

lemma frac_part_app: "num_end r \<Longrightarrow> frac_part (t @ r) = apsnd (\<lambda>u. u @ r) (frac_part t)"
  by (cases t) (auto simp: frac_part_def num_end_def split: list.split)

lemma int_part_app: "num_end r \<Longrightarrow> t \<noteq> [] \<Longrightarrow> int_part (t @ r) = int_part t"
  by (cases t) (auto simp: int_part_def)

lemma int_part_length: "length (int_part t) \<le> length t"
  by (cases t) (auto simp: int_part_def length_takeWhile_le le_SucI)

lemma json_number_app:
  assumes "json_number t = Some (v, [])" and r: "num_end r"
  shows "json_number (t @ r) = Some (v, r)"
proof -
  define neg where "neg = starts_with t ''-''"
  define s1 where "s1 = (if neg then tl t else t)"
  have ip: "int_part s1 \<noteq> []" and es: "snd (exp_part (snd (frac_part (drop (length (int_part s1)) s1)))) = []"
    using assms(1) by (auto simp: json_number_def Let_def neg_def [symmetric] s1_def [symmetric] split: if_splits)
  from ip have ne: "s1 \<noteq> []" by (auto simp: int_part_def)
  then have ne2: "t \<noteq> []" by (cases neg) (auto simp: s1_def)
  have neg': "starts_with (t @ r) ''-'' = neg" using ne2 by (cases t) (simp_all add: neg_def)
  have s1': "(if neg then tl (t @ r) else t @ r) = s1 @ r" using ne2 by (simp add: s1_def)
  have d: "length (int_part s1) - length s1 = 0" using int_part_length by simp
  show ?thesis using assms(1) ip es
    by (auto simp: json_number_def Let_def neg' s1' int_part_app [OF r ne] d frac_part_app [OF r] exp_part_app [OF r es]
        neg_def [symmetric] s1_def [symmetric] split: if_splits)
qed

lemma dec_val_snoc: "dec_val (ds @ [c]) = 10 * dec_val ds + (of_char c - 48)"
  by (simp add: dec_val_def)

lemma digit_char_facts:
  assumes "0 \<le> d" "d < 10"
  shows "is_digit (digit_char d)" "of_char (digit_char d) = 48 + d" "digit_char d = CHR ''0'' \<longleftrightarrow> d = 0"
proof -
  have n: "of_char (digit_char d) = 48 + nat d" using assms by (simp add: digit_char_def)
  moreover have "of_char (CHR ''0'') = (48 :: nat)" "of_char (CHR ''9'') = (57 :: nat)" by code_simp+
  ultimately show "is_digit (digit_char d)" "digit_char d = CHR ''0'' \<longleftrightarrow> d = 0"
    using assms by (auto simp: is_digit_def less_eq_char_def simp flip: of_char_eq_iff [where 'a = nat])
  show "of_char (digit_char d) = 48 + d" using n assms of_nat_of_char [where 'a = int, of "digit_char d"] by simp
qed

lemma pos_str_digits:
  assumes "0 \<le> i"
  shows "list_all is_digit (pos_str i) \<and> pos_str i \<noteq> [] \<and> dec_val (pos_str i) = i
     \<and> (hd (pos_str i) = CHR ''0'' \<longleftrightarrow> i = 0)"
  using assms
proof (induction i rule: pos_str.induct)
  case (1 i)
  show ?case
  proof (cases "i < 10")
    case True
    then have "pos_str i = [digit_char i]" by (simp add: pos_str.simps [of i])
    then show ?thesis using digit_char_facts [of i] 1 True by (simp add: dec_val_def)
  next
    case False
    then have p: "pos_str i = pos_str (i div 10) @ [digit_char (i mod 10)]" by (simp add: pos_str.simps [of i])
    have "0 \<le> i mod 10" "i mod 10 < 10" by simp_all
    with 1 False digit_char_facts [of "i mod 10"] show ?thesis
      by (simp add: p dec_val_snoc)
  qed
qed

lemma takeWhile_all: "list_all P xs \<Longrightarrow> takeWhile P xs = xs"
  by (induction xs) auto

lemma json_number_digits:
  assumes "0 \<le> i"
  shows "int_part (pos_str i) = pos_str i" "\<not> starts_with (pos_str i) ''-''"
proof -
  note d = pos_str_digits [OF assms]
  obtain c cs where p: "pos_str i = c # cs" using d by (cases "pos_str i") auto
  have zero: "i = 0 \<Longrightarrow> pos_str i = ''0''" by (simp add: pos_str.simps [of i] digit_char_def) code_simp
  show "int_part (pos_str i) = pos_str i"
    using d p zero takeWhile_all [of is_digit "pos_str i"] by (auto simp: int_part_def)
  have "\<not> is_digit (CHR ''-'')" by code_simp
  then show "\<not> starts_with (pos_str i) ''-''" using d p by auto
qed

lemma json_number_int: "json_number (int_str i) = Some (JInt i, [])"
proof (cases "i < 0")
  case True
  then have "0 \<le> - i" by simp
  from json_number_digits [OF this] pos_str_digits [OF this] True show ?thesis
    by (simp add: json_number_def int_str_def frac_part_def exp_part_def)
next
  case False
  then have "0 \<le> i" by simp
  from json_number_digits [OF this] pos_str_digits [OF this] False show ?thesis
    by (simp add: json_number_def int_str_def frac_part_def exp_part_def)
qed

text \<open>What starts a number starts nothing else.\<close>

lemma json_number_start:
  assumes "json_number t = Some (v, r)"
  shows "\<exists>c u. t = c # u \<and> c \<noteq> CHR 0x22 \<and> c \<noteq> CHR ''{'' \<and> c \<noteq> CHR ''['' \<and> c \<noteq> CHR ''n'' \<and> c \<noteq> CHR ''t'' \<and> c \<noteq> CHR ''f''
    \<and> c \<noteq> CHR '']'' \<and> c \<noteq> CHR ''}'' \<and> \<not> json_space c"
proof (cases t)
  case Nil
  then show ?thesis using assms by (simp add: json_number_def int_part_def)
next
  case (Cons c u)
  have "c = CHR ''-'' \<or> is_digit c"
    using assms Cons by (auto simp: json_number_def int_part_def Let_def is_digit_def split: if_splits)
  then show ?thesis using Cons by (auto simp: is_digit_def less_eq_char_def json_space_def)
qed

section \<open>Reading back values\<close>

text \<open>
  \<open>json_exact v\<close>: every object of \<open>v\<close> holds each key once, and the text of every double of \<open>v\<close> reads as
  that double. \<open>json_norm v\<close> has the members of every object in the order of their keys.
\<close>

fun json_exact :: "jval \<Rightarrow> bool" where
  "json_exact (JFloat r) = (json_number (float_repr r) = Some (JFloat r, []))"
| "json_exact (JList xs) = list_all json_exact xs"
| "json_exact (JObj d) = (distinct (map fst d) \<and> list_all (\<lambda>(k, v). json_exact v) d)"
| "json_exact _ = True"

fun json_norm :: "jval \<Rightarrow> jval" where
  "json_norm (JList xs) = JList (map json_norm xs)"
| "json_norm (JObj d) = JObj (sort_key fst (map (\<lambda>(k, v). (k, json_norm v)) d))"
| "json_norm v = v"

lemma insort_key_map: "insort_key f (g x) (map g xs) = map g (insort_key (\<lambda>y. f (g y)) x xs)"
  by (induction xs) auto

lemma sort_key_map: "sort_key f (map g xs) = map g (sort_key (\<lambda>y. f (g y)) xs)"
  by (induction xs) (simp_all add: insort_key_map)

lemma sort_items: "sort_key fst (map (\<lambda>(k, v). (k, g k v)) d) = map (\<lambda>(k, v). (k, g k v)) (sort_key fst d)"
  by (simp add: sort_key_map case_prod_beta)

abbreviation dumps_item :: "bool \<Rightarrow> string \<times> jval \<Rightarrow> string" where
  "dumps_item ea kv \<equiv> json_str ea (fst kv) @ '':'' @ json_dumps ea (snd kv)"

lemma json_dumps_obj:
  "json_dumps ea (JObj d) = ''{'' @ join_str '','' (map (dumps_item ea) (sort_key fst d)) @ ''}''"
  by (simp add: sort_items) (simp add: case_prod_beta comp_def)

lemma json_norm_obj: "json_norm (JObj d) = JObj (map (\<lambda>kv. (fst kv, json_norm (snd kv))) (sort_key fst d))"
  by (simp add: sort_items case_prod_beta)

lemma json_dumps_start:
  assumes "json_exact v"
  shows "\<exists>c u. json_dumps ea v = c # u \<and> \<not> json_space c \<and> c \<noteq> CHR '']'' \<and> c \<noteq> CHR ''}''"
proof (cases v)
  case (JInt i)
  then show ?thesis using json_number_start [OF json_number_int, of i] by auto
next
  case (JFloat r)
  then show ?thesis using json_number_start [of "float_repr r"] assms by auto
qed (auto simp: json_space_def json_str_Cons)

lemma skip_ws_dumps [simp]: "json_exact v \<Longrightarrow> skip_ws (json_dumps ea v @ r) = json_dumps ea v @ r"
  using json_dumps_start [of v ea] by (auto simp: skip_ws_def)

lemma skip_ws_other [simp]: "\<not> json_space c \<Longrightarrow> skip_ws (c # s) = c # s"
  by (simp add: skip_ws_def)

lemma not_json_space [simp]:
  "\<not> json_space (CHR '','')" "\<not> json_space (CHR '']'')" "\<not> json_space (CHR ''}'')" "\<not> json_space (CHR '':'')"
  "\<not> json_space (CHR 0x22)" "\<not> json_space (CHR ''['')" "\<not> json_space (CHR ''{'')"
  by (simp_all add: json_space_def)

text \<open>
  What the parser does on a text, whatever follows it: \<open>reads h t v\<close>. Lists and objects are read back for any white
  space between their parts, so that the compact and the indented form are two instances.
\<close>

definition reads :: "pairs_hook \<Rightarrow> string \<Rightarrow> jval \<Rightarrow> bool" where
  "reads h t v \<longleftrightarrow> (\<forall>f r. 2 * length t < f \<longrightarrow> num_end r \<longrightarrow> jp_value h f (t @ r) = Inr (v, r))"

definition solid :: "string \<Rightarrow> bool" where
  "solid t \<longleftrightarrow> (\<exists>c u. t = c # u \<and> \<not> json_space c \<and> c \<noteq> CHR '']'' \<and> c \<noteq> CHR ''}'')"

definition blank :: "string \<Rightarrow> bool" where
  "blank g \<longleftrightarrow> list_all json_space g"

abbreviation item_text :: "bool \<Rightarrow> string \<Rightarrow> string \<times> string \<Rightarrow> string" where
  "item_text ea g kt \<equiv> json_str ea (fst kt) @ CHR '':'' # g @ snd kt"

lemma blank_Nil [simp]: "blank []"
  by (simp add: blank_def)

lemma skip_ws_blank [simp]: "blank g \<Longrightarrow> skip_ws (g @ s) = skip_ws s"
  by (induction g) (auto simp: blank_def skip_ws_def)

lemma skip_ws_solid [simp]: "solid t \<Longrightarrow> skip_ws (t @ r) = t @ r"
  by (auto simp: solid_def)

lemma num_end_blank [simp]: "blank g \<Longrightarrow> num_end (g @ r) \<longleftrightarrow> g \<noteq> [] \<or> num_end r"
  by (cases g) (auto simp: blank_def num_end_def json_space_def is_digit_def less_eq_char_def)

lemma json_str_app: "json_str ea x @ r = CHR 0x22 # concat (map (json_char ea) x) @ CHR 0x22 # r"
  by (simp add: json_str_Cons)

lemma solid_str [simp]: "solid (json_str ea k @ r)"
  by (simp add: solid_def json_str_app)

lemma join_solid: "list_all solid ts \<Longrightarrow> ts \<noteq> [] \<Longrightarrow> solid (join_str s ts @ r)"
  by (cases ts; cases "tl ts") (auto simp: solid_def)

declare jp_value.simps(2) [simp del]

lemma readsI:
  assumes "\<And>f r. 2 * length t \<le> f \<Longrightarrow> num_end r \<Longrightarrow> jp_value h (Suc f) (t @ r) = Inr (v, r)"
  shows "reads h t v"
  unfolding reads_def using assms by (metis Suc_leI Suc_le_mono not_less0 old.nat.exhaust)

lemma jp_items_texts:
  assumes "list_all2 (\<lambda>t v. solid t \<and> reads h t v) ts vs" and "ts \<noteq> []" and g: "blank g" and e: "blank e"
    and "2 * length (join_str (CHR '','' # g) ts) + 1 < f"
  shows "jp_items h f (join_str (CHR '','' # g) ts @ e @ CHR '']'' # r) = Inr (vs, r)"
  using assms(1,2,5)
proof (induction ts vs arbitrary: f)
  case (Cons t ts v vs)
  obtain f' where f: "f = Suc f'" using Cons.prems(2) by (cases f) auto
  have t: "jp_value h f' (t @ r') = Inr (v, r')" if "num_end r'" for r'
    using Cons.hyps(1) Cons.prems(2) that by (cases ts) (auto simp: reads_def f)
  show ?case
  proof (cases ts)
    case Nil
    then show ?thesis using Cons.hyps(2) e by (simp add: f t)
  next
    case more: (Cons u us)
    have rest: "jp_items h f' (join_str (CHR '','' # g) ts @ e @ CHR '']'' # r) = Inr (vs, r)"
      using Cons.IH [of f'] Cons.prems more by (auto simp: f)
    have "list_all solid ts" using Cons.hyps(2) by (induction ts vs) auto
    then have "skip_ws (g @ join_str (CHR '','' # g) ts @ e @ CHR '']'' # r) = join_str (CHR '','' # g) ts @ e @ CHR '']'' # r"
      using more g join_solid [of ts "CHR '','' # g" "[]"] by (simp del: join_str.simps)
    with rest show ?thesis using more by (simp add: f t)
  qed
qed simp

lemma jp_pairs_texts:
  assumes "list_all2 (\<lambda>kt kv. fst kt = fst kv \<and> solid (snd kt) \<and> reads h (snd kt) (snd kv)) kts kvs" and "kts \<noteq> []"
    and g: "blank g" and e: "blank e" and s: "blank s"
    and "2 * length (join_str (CHR '','' # g) (map (item_text ea s) kts)) + 1 < f"
  shows "jp_pairs h f (join_str (CHR '','' # g) (map (item_text ea s) kts) @ e @ CHR ''}'' # r) = Inr (kvs, r)"
  using assms(1,2,6)
proof (induction kts kvs arbitrary: f)
  case (Cons kt kts kv kvs)
  obtain f' where f: "f = Suc f'" using Cons.prems(2) by (cases f) auto
  have t: "jp_value h f' (snd kt @ r') = Inr (snd kv, r')" if "num_end r'" for r'
    using Cons.hyps(1) Cons.prems(2) that by (cases kts) (auto simp: reads_def f)
  have gap: "skip_ws (s @ snd kt @ r') = snd kt @ r'" for r' using Cons.hyps(1) s by simp
  show ?case
  proof (cases kts)
    case Nil
    then show ?thesis using Cons.hyps e by (simp add: f t gap json_str_app scan_text)
  next
    case more: (Cons u us)
    let ?rest = "join_str (CHR '','' # g) (map (item_text ea s) kts) @ e @ CHR ''}'' # r"
    have rest: "jp_pairs h f' ?rest = Inr (kvs, r)"
      using Cons.IH [of f'] Cons.prems more by (auto simp: f)
    have "list_all solid (map (item_text ea s) kts)" by (simp add: list_all_iff)
    then have "skip_ws (g @ ?rest) = ?rest"
      using more g join_solid [of "map (item_text ea s) kts" "CHR '','' # g" "[]"] by (simp del: join_str.simps)
    with rest show ?thesis using more Cons.hyps(1) by (simp add: f t gap json_str_app scan_text)
  qed
qed simp

lemma reads_number: "json_number t = Some (v, []) \<Longrightarrow> reads h t v"
proof (rule readsI)
  fix f r
  assume n: "json_number t = Some (v, [])" and r: "num_end r"
  obtain c u where t: "t = c # u" and c: "c \<noteq> CHR 0x22" "c \<noteq> CHR ''{''" "c \<noteq> CHR ''[''" "c \<noteq> CHR ''n''" "c \<noteq> CHR ''t''" "c \<noteq> CHR ''f''"
    using json_number_start [OF n] by blast
  show "jp_value h (Suc f) (t @ r) = Inr (v, r)" using json_number_app [OF n r] c by (simp add: jp_value.simps(2) t)
qed

lemma reads_str: "reads h (json_str ea x) (JStr x)"
  by (rule readsI) (simp add: jp_value.simps(2) json_str_app scan_text)

lemma reads_constants: "reads h ''null'' JNull" "reads h ''true'' (JBool True)" "reads h ''false'' (JBool False)" "reads h ''[]'' (JList [])"
  by (rule readsI; simp add: jp_value.simps(2))+

lemma reads_list:
  assumes "list_all2 (\<lambda>t v. solid t \<and> reads h t v) ts vs" and "ts \<noteq> []" and "blank a" "blank g" "blank e"
  shows "reads h (''['' @ a @ join_str (CHR '','' # g) ts @ e @ '']'') (JList vs)"
proof (rule readsI)
  fix f r
  assume f: "2 * length (''['' @ a @ join_str (CHR '','' # g) ts @ e @ '']'') \<le> f"
  let ?t = "join_str (CHR '','' # g) ts @ e @ CHR '']'' # r"
  have "list_all solid ts" using assms(1) by (induction ts vs) auto
  then have sol: "solid ?t" using join_solid assms(2) by blast
  then have "skip_ws (a @ ?t) = ?t" "\<not> starts_with ?t '']''" using assms(3) skip_ws_solid [OF sol, of "[]"] by (auto simp: solid_def)
  moreover have "jp_items h f ?t = Inr (vs, r)" using jp_items_texts [OF assms(1,2,4,5)] f by simp
  ultimately show "jp_value h (Suc f) ((''['' @ a @ join_str (CHR '','' # g) ts @ e @ '']'') @ r) = Inr (JList vs, r)"
    by (simp add: jp_value.simps(2))
qed

lemma reads_obj:
  assumes "list_all2 (\<lambda>kt kv. fst kt = fst kv \<and> solid (snd kt) \<and> reads h (snd kt) (snd kv)) kts kvs" and "kts \<noteq> []"
    and "blank a" "blank g" "blank e" "blank s" and "h kvs = Inr d"
  shows "reads h (''{'' @ a @ join_str (CHR '','' # g) (map (item_text ea s) kts) @ e @ ''}'') (JObj d)"
proof (rule readsI)
  fix f r
  assume f: "2 * length (''{'' @ a @ join_str (CHR '','' # g) (map (item_text ea s) kts) @ e @ ''}'') \<le> f"
  let ?t = "join_str (CHR '','' # g) (map (item_text ea s) kts) @ e @ CHR ''}'' # r"
  have "list_all solid (map (item_text ea s) kts)" by (simp add: list_all_iff)
  then have sol: "solid ?t" using join_solid assms(2) by blast
  then have "skip_ws (a @ ?t) = ?t" "\<not> starts_with ?t ''}''" using assms(3) skip_ws_solid [OF sol, of "[]"] by (auto simp: solid_def)
  moreover have "jp_pairs h f ?t = Inr (kvs, r)" using jp_pairs_texts [OF assms(1,2,4,5,6)] f by simp
  ultimately show "jp_value h (Suc f) ((''{'' @ a @ join_str (CHR '','' # g) (map (item_text ea s) kts) @ e @ ''}'') @ r) = Inr (JObj d, r)"
    using assms(7) by (simp add: jp_value.simps(2))
qed

lemma reads_loads:
  assumes "reads h t v" and "solid t" and "blank e"
  shows "json_loads h (t @ e) = Inr v"
proof -
  have "num_end e" using num_end_blank [OF assms(3), of "[]"] by simp
  then have "jp_value h (2 * length (t @ e) + 2) (t @ e) = Inr (v, e)" using assms(1) by (simp add: reads_def)
  moreover have "skip_ws e = []" using assms(3) by (induction e) (auto simp: blank_def skip_ws_def)
  ultimately show ?thesis using assms(2) by (simp add: json_loads_def)
qed

lemma distinct_sort_key: "distinct (map f (sort_key f d)) \<longleftrightarrow> distinct (map f d)"
proof (induction d)
  case (Cons x d)
  have "distinct (map f (insort_key f x xs)) \<longleftrightarrow> f x \<notin> f ` set xs \<and> distinct (map f xs)" for xs
    by (induction xs) (auto simp: set_insort_key)
  with Cons show ?case by simp
qed simp

text \<open>The members of an object, written by \<open>w\<close> and sorted, give the sorted members of its normal form.\<close>

lemma reads_members:
  assumes "json_exact (JObj d)" and hook: "\<And>ps. distinct (map fst ps) \<Longrightarrow> h ps = Inr ps" and "d \<noteq> []"
    and w: "\<And>kv. kv \<in> set d \<Longrightarrow> solid (w (snd kv)) \<and> reads h (w (snd kv)) (json_norm (snd kv))"
    and "blank a" "blank g" "blank e" "blank s"
  shows "reads h (''{'' @ a @ join_str (CHR '','' # g) (map (\<lambda>kv. item_text ea s (fst kv, w (snd kv))) (sort_key fst d)) @ e @ ''}'')
           (json_norm (JObj d))"
proof -
  let ?ps = "sort_key fst d"
  let ?kts = "map (\<lambda>kv. (fst kv, w (snd kv))) ?ps"
  let ?kvs = "map (\<lambda>kv. (fst kv, json_norm (snd kv))) ?ps"
  have "list_all2 (\<lambda>kt kv. fst kt = fst kv \<and> solid (snd kt) \<and> reads h (snd kt) (snd kv)) ?kts ?kvs"
    using w by (auto simp: list_all2_map1 list_all2_map2 intro!: list.rel_refl_strong)
  moreover have "h ?kvs = Inr ?kvs" using assms(1) hook by (simp add: comp_def distinct_sort_key)
  moreover have "?kts \<noteq> []" using assms(3) by (metis length_map length_sort list.size(3) length_0_conv)
  ultimately have "reads h (''{'' @ a @ join_str (CHR '','' # g) (map (item_text ea s) ?kts) @ e @ ''}'') (JObj ?kvs)"
    using reads_obj [of h ?kts ?kvs a g e s] assms(5-) by blast
  then show ?thesis by (simp add: json_norm_obj comp_def del: json_norm.simps)
qed

lemma reads_empty: "h [] = Inr [] \<Longrightarrow> reads h ''{}'' (JObj [])"
  by (rule readsI) (simp add: jp_value.simps(2))

lemma solid_dumps: "json_exact v \<Longrightarrow> solid (json_dumps ea v)"
  using json_dumps_start [of v ea] by (auto simp: solid_def)

lemma reads_dumps:
  assumes hook: "\<And>ps. distinct (map fst ps) \<Longrightarrow> h ps = Inr ps"
  shows "json_exact v \<Longrightarrow> reads h (json_dumps ea v) (json_norm v)"
proof (induction v)
  case (JList xs)
  then have "list_all2 (\<lambda>t v. solid t \<and> reads h t v) (map (json_dumps ea) xs) (map json_norm xs)"
    by (auto simp: list_all2_map1 list_all2_map2 list_all_iff solid_dumps intro!: list.rel_refl_strong)
  from reads_list [OF this, of "[]" "[]" "[]"] show ?case by (cases "xs = []") (simp_all add: reads_constants)
next
  case (JObj d)
  then have w: "solid (json_dumps ea (snd kv)) \<and> reads h (json_dumps ea (snd kv)) (json_norm (snd kv))" if "kv \<in> set d" for kv
    using that by (auto simp: list_all_iff snds.simps solid_dumps)
  from reads_members [where w = "json_dumps ea" and a = "[]" and g = "[]" and e = "[]" and s = "[]", OF JObj.prems hook _ w]
  show ?case
    using hook [of "[]"] by (cases "d = []") (simp_all add: reads_empty json_dumps_obj del: json_dumps.simps(7) json_norm.simps, simp_all add: reads_empty)
qed (auto simp: reads_number json_number_int reads_str reads_constants)

lemma json_loads_dumps:
  assumes "\<And>ps. distinct (map fst ps) \<Longrightarrow> h ps = Inr ps" and "json_exact v"
  shows "json_loads h (json_dumps ea v) = Inr (json_norm v)"
  using reads_loads [OF reads_dumps [OF assms, of ea] solid_dumps [OF assms(2)] blank_Nil] by simp

section \<open>Normal forms are equal values\<close>

lemma map_of_sort_key: "distinct (map fst d) \<Longrightarrow> map_of (sort_key fst d) = map_of d"
  by (rule map_of_eqI) (auto simp: distinct_sort_key)

lemma map_of_json_norm:
  "distinct (map fst d) \<Longrightarrow> json_norm (JObj d) = JObj d' \<Longrightarrow> map_of d' k = map_option json_norm (map_of d k)"
proof -
  have "map_of (map (\<lambda>kv. (fst kv, json_norm (snd kv))) ps) k = map_option json_norm (map_of ps k)" for ps
    by (induction ps) auto
  then show "distinct (map fst d) \<Longrightarrow> json_norm (JObj d) = JObj d' \<Longrightarrow> map_of d' k = map_option json_norm (map_of d k)"
    by (simp only: json_norm_obj jval.inject) (auto simp: map_of_sort_key)
qed

lemma pget_json_norm:
  "distinct (map fst d) \<Longrightarrow> json_norm (JObj d) = JObj d' \<Longrightarrow> pget d' k = json_norm (pget d k)"
  using map_of_json_norm [of d d' k] by (simp add: pget_def split: option.split)

lemma json_norm_eq:
  "json_norm v = JStr s \<longleftrightarrow> v = JStr s" "json_norm v = JInt i \<longleftrightarrow> v = JInt i" "json_norm v = JNull \<longleftrightarrow> v = JNull"
  by (cases v; simp)+

lemma py_eq_json_norm: "json_exact v \<Longrightarrow> py_eq (json_norm v) v"
proof (induction v)
  case (JList xs)
  have "list_all json_exact ys \<Longrightarrow> (\<And>y. y \<in> set ys \<Longrightarrow> json_exact y \<Longrightarrow> py_eq (json_norm y) y) \<Longrightarrow>
      py_eq_list (map json_norm ys) ys" for ys
    by (induction ys) auto
  with JList show ?case by simp
next
  case (JObj d)
  have "\<exists>w. map_of d k = Some w \<and> py_eq (json_norm v) w" if "(k, v) \<in> set d" for k v
    using JObj that by (auto simp: list_all_iff snds.simps intro!: exI [of _ v] map_of_is_SomeI)
  then show ?case
    by (auto simp: json_norm_obj py_sub_iff simp del: json_norm.simps)
qed auto

end
