(* ===== verification/Utf8_Text.thy ===== *)
theory Utf8_Text
  imports Json_Text
begin

text \<open>
  Text files as lists of code points: the strict UTF-8 codec over all of Unicode, the universal-newline
  translation of \<open>Path.read_text\<close> and \<open>s.replace(old, new, 1)\<close>. Proved: the codec is exact in both directions (only the
  shortest form of a scalar value decodes, and it encodes back to the same bytes), and replacing the
  first occurrence replaces exactly that one.
\<close>

section \<open>The codec\<close>

abbreviation continuation :: "char \<Rightarrow> bool" where
  "continuation c \<equiv> 128 \<le> (of_char c :: nat) \<and> (of_char c :: nat) < 192"

abbreviation low_bits :: "char \<Rightarrow> nat" where
  "low_bits c \<equiv> of_char c - 128"

definition scalar :: "nat \<Rightarrow> bool" where
  "scalar p \<longleftrightarrow> p < 55296 \<or> 57344 \<le> p \<and> p < 1114112"

text \<open>\<open>data.decode("utf-8")\<close>: \<open>None\<close> where it raises.\<close>

fun utf8_points :: "string \<Rightarrow> nat list option" where
  "utf8_points [] = Some []"
| "utf8_points (b # bs) =
     (let n = (of_char b :: nat) in
      if n < 128 then map_option ((#) n) (utf8_points bs)
      else if 194 \<le> n \<and> n < 224 then
        (case bs of
           c # cs \<Rightarrow> if continuation c then map_option ((#) ((n - 192) * 64 + low_bits c)) (utf8_points cs) else None
         | _ \<Rightarrow> None)
      else if 224 \<le> n \<and> n < 240 then
        (case bs of
           c # d # cs \<Rightarrow>
             (let p = (n - 224) * 4096 + low_bits c * 64 + low_bits d in
              if continuation c \<and> continuation d \<and> 2048 \<le> p \<and> scalar p then map_option ((#) p) (utf8_points cs) else None)
         | _ \<Rightarrow> None)
      else if 240 \<le> n \<and> n < 245 then
        (case bs of
           c # d # e # cs \<Rightarrow>
             (let p = (n - 240) * 262144 + low_bits c * 4096 + low_bits d * 64 + low_bits e in
              if continuation c \<and> continuation d \<and> continuation e \<and> 65536 \<le> p \<and> scalar p
              then map_option ((#) p) (utf8_points cs) else None)
         | _ \<Rightarrow> None)
      else None)"

text \<open>\<open>text.encode("utf-8")\<close>, for texts without surrogates.\<close>

definition utf8_point :: "nat \<Rightarrow> string" where
  "utf8_point p =
     (if p < 128 then [char_of p]
      else if p < 2048 then [char_of (192 + p div 64), char_of (128 + p mod 64)]
      else if p < 65536 then [char_of (224 + p div 4096), char_of (128 + p div 64 mod 64), char_of (128 + p mod 64)]
      else [char_of (240 + p div 262144), char_of (128 + p div 4096 mod 64), char_of (128 + p div 64 mod 64),
            char_of (128 + p mod 64)])"

definition utf8_bytes :: "nat list \<Rightarrow> string" where
  "utf8_bytes ps = concat (map utf8_point ps)"

text \<open>The code points of a text of the model, whose characters are those below 256.\<close>

definition text_points :: "string \<Rightarrow> nat list" where
  "text_points s = map of_char s"

lemma digits64:
  "p = p div 4096 * 4096 + p div 64 mod 64 * 64 + p mod (64 :: nat)"
  "p = p div 262144 * 262144 + p div 4096 mod 64 * 4096 + p div 64 mod 64 * 64 + p mod (64 :: nat)"
proof -
  have d: "p div 64 div 64 = p div 4096" "p div 4096 div 64 = p div 262144" by (simp_all flip: div_mult2_eq)
  show *: "p = p div 4096 * 4096 + p div 64 mod 64 * 64 + p mod (64 :: nat)"
    using div_mult_mod_eq [of p 64] div_mult_mod_eq [of "p div 64" 64] d by linarith
  show "p = p div 262144 * 262144 + p div 4096 mod 64 * 4096 + p div 64 mod 64 * 64 + p mod (64 :: nat)"
    using * div_mult_mod_eq [of "p div 4096" 64] d by linarith
qed

lemma from_digits64:
  assumes "y < 64" and "z < (64 :: nat)"
  shows "(x * 4096 + y * 64 + z) div 4096 = x" "(x * 4096 + y * 64 + z) div 64 mod 64 = y" "(x * 4096 + y * 64 + z) mod 64 = z"
proof -
  have e: "x * 4096 + y * 64 + z = (x * 64 + y) * 64 + z" by (simp add: add_mult_distrib)
  have d: "(x * 4096 + y * 64 + z) div 64 = x * 64 + y"
    unfolding e using assms(2) by (simp only: div_mult_self3 div_less)
  show "(x * 4096 + y * 64 + z) mod 64 = z" unfolding e using assms(2) by (simp only: mod_mult_self3 mod_less)
  show "(x * 4096 + y * 64 + z) div 64 mod 64 = y" unfolding d using assms(1) by (simp only: mod_mult_self3 mod_less)
  have "(x * 4096 + y * 64 + z) div 4096 = (x * 4096 + y * 64 + z) div 64 div 64" by (simp flip: div_mult2_eq)
  then show "(x * 4096 + y * 64 + z) div 4096 = x" unfolding d using assms(1) by simp
qed

lemma from_digits64_4:
  assumes "x < 64" and "y < 64" and "z < (64 :: nat)"
  shows "(w * 262144 + x * 4096 + y * 64 + z) div 262144 = w" "(w * 262144 + x * 4096 + y * 64 + z) div 4096 mod 64 = x"
    "(w * 262144 + x * 4096 + y * 64 + z) div 64 mod 64 = y" "(w * 262144 + x * 4096 + y * 64 + z) mod 64 = z"
proof -
  define u where "u = w * 64 + x"
  have e: "w * 262144 + x * 4096 + y * 64 + z = u * 4096 + y * 64 + z" by (simp add: u_def add_mult_distrib)
  note d = from_digits64 [OF assms(2,3), of u]
  have "(u * 4096 + y * 64 + z) div 262144 = (u * 4096 + y * 64 + z) div 4096 div 64" by (simp flip: div_mult2_eq)
  then show "(w * 262144 + x * 4096 + y * 64 + z) div 262144 = w" unfolding e d using assms(1) by (simp add: u_def)
  show "(w * 262144 + x * 4096 + y * 64 + z) div 4096 mod 64 = x" "(w * 262144 + x * 4096 + y * 64 + z) div 64 mod 64 = y"
    "(w * 262144 + x * 4096 + y * 64 + z) mod 64 = z" unfolding e d using assms by (simp_all add: u_def)
qed

lemma utf8_points_point:
  assumes "scalar p"
  shows "utf8_points (utf8_point p @ bs) = map_option ((#) p) (utf8_points bs)"
proof -
  have m: "p div 64 mod 64 < 64" "p div 4096 mod 64 < 64" "p mod 64 < 64" by simp_all
  consider "p < 128" | "128 \<le> p" "p < 2048" | "2048 \<le> p" "p < 65536" | "65536 \<le> p" "p < 1114112"
    using assms unfolding scalar_def by linarith
  then show ?thesis
  proof cases
    case 2
    then have "p div 64 < 32" "2 \<le> p div 64" by linarith+
    then show ?thesis using 2 m by (simp add: utf8_point_def Let_def)
  next
    case 3
    then have q: "p div 4096 < 16" by linarith
    then show ?thesis using 3 m assms digits64(1) [of p, symmetric] by (simp add: utf8_point_def Let_def)
  next
    case 4
    then have q: "p div 262144 < 5" by linarith
    then show ?thesis using 4 m assms digits64(2) [of p, symmetric] by (simp add: utf8_point_def Let_def)
  qed (simp add: utf8_point_def)
qed

lemma utf8_points_bytes: "list_all scalar ps \<Longrightarrow> utf8_points (utf8_bytes ps) = Some ps"
  by (induction ps) (simp_all add: utf8_bytes_def utf8_points_point)

lemma char_of_eq: "of_char c = n \<Longrightarrow> char_of (n :: nat) = c"
  by auto

lemma utf8_bytes_points: "utf8_points bs = Some ps \<Longrightarrow> utf8_bytes ps = bs \<and> list_all scalar ps"
proof (induction bs arbitrary: ps rule: length_induct)
  case (1 bs)
  have step: "utf8_bytes (p # qs) = pre @ cs \<and> list_all scalar (p # qs)"
    if "utf8_points cs = Some qs" "utf8_point p = pre" "scalar p" "length cs < length bs" for p qs pre cs
    using 1 that by (simp add: utf8_bytes_def)
  show ?case
  proof (cases bs)
    case (Cons b rest)
    define n where "n = (of_char b :: nat)"
    have b: "char_of n = b" "n < 256" using of_char_bound [of b] by (simp_all add: n_def)
    consider "n < 128" | "194 \<le> n" "n < 224" | "224 \<le> n" "n < 240" | "240 \<le> n" "n < 245"
      using 1(2) Cons by (auto simp: Let_def n_def split: if_splits)
    then show ?thesis
    proof cases
      case 1
      then obtain qs where "ps = n # qs" "utf8_points rest = Some qs" using "1.prems" Cons by (auto simp: n_def)
      moreover have "scalar n" using 1 by (simp add: scalar_def)
      ultimately show ?thesis using step [of rest qs n "[b]"] 1 Cons b by (simp add: utf8_point_def)
    next
      case 2
      then obtain c cs where r: "rest = c # cs" using "1.prems" Cons by (cases rest) (auto simp: n_def [symmetric] Let_def)
      define p where "p = (n - 192) * 64 + low_bits c"
      obtain qs where q: "ps = p # qs" "utf8_points cs = Some qs" "continuation c"
        using "1.prems" Cons 2 r by (auto simp: n_def [symmetric] Let_def p_def split: if_splits)
      have "low_bits c < 64" using q(3) by linarith
      then have p: "p div 64 = n - 192" "p mod 64 = low_bits c" "128 \<le> p" "p < 2048"
        using 2 by (simp_all only: p_def div_mult_self3 mod_mult_self3 mod_less div_less)
      have "utf8_point p = [b, c]" using p b(1) 2 q(3) by (simp add: utf8_point_def)
      then show ?thesis using step [of cs qs p "[b, c]"] q p Cons r by (simp add: scalar_def [of p])
    next
      case 3
      then obtain c d cs where r: "rest = c # d # cs"
        using "1.prems" Cons by (auto simp: n_def [symmetric] Let_def split: list.splits)
      define p where "p = (n - 224) * 4096 + low_bits c * 64 + low_bits d"
      obtain qs where q: "ps = p # qs" "utf8_points cs = Some qs" "continuation c" "continuation d" "2048 \<le> p" "scalar p"
        using "1.prems" Cons 3 r by (auto simp: n_def [symmetric] Let_def p_def split: if_splits)
      have l: "low_bits c < 64" "low_bits d < 64" using q(3,4) by linarith+
      then have "p < 65536" using 3 unfolding p_def by linarith
      moreover have p: "p div 4096 = n - 224" "p div 64 mod 64 = low_bits c" "p mod 64 = low_bits d"
        by (simp_all only: p_def from_digits64 [OF l])
      ultimately have "utf8_point p = [b, c, d]" using p b(1) 3 q(3-5) by (simp add: utf8_point_def)
      then show ?thesis using step [of cs qs p "[b, c, d]"] q Cons r by simp
    next
      case 4
      then obtain c d e cs where r: "rest = c # d # e # cs"
        using "1.prems" Cons by (auto simp: n_def [symmetric] Let_def split: list.splits)
      define p where "p = (n - 240) * 262144 + low_bits c * 4096 + low_bits d * 64 + low_bits e"
      obtain qs where q: "ps = p # qs" "utf8_points cs = Some qs" "continuation c" "continuation d" "continuation e"
          "65536 \<le> p" "scalar p"
        using "1.prems" Cons 4 r by (auto simp: n_def [symmetric] Let_def p_def split: if_splits)
      have l: "low_bits c < 64" "low_bits d < 64" "low_bits e < 64" using q(3-5) by linarith+
      have p: "p div 262144 = n - 240" "p div 4096 mod 64 = low_bits c" "p div 64 mod 64 = low_bits d" "p mod 64 = low_bits e"
        by (simp_all only: p_def from_digits64_4 [OF l])
      have "utf8_point p = [b, c, d, e]" using p b(1) 4 q(3-6) by (simp add: utf8_point_def)
      then show ?thesis using step [of cs qs p "[b, c, d, e]"] q Cons r by simp
    qed
  qed (use 1(2) in \<open>simp add: utf8_bytes_def\<close>)
qed

text \<open>On the texts of the model it is the codec of \<open>Json_Text\<close>.\<close>

lemma utf8_bytes_text: "utf8_bytes (text_points s) = utf8_encode s"
proof -
  have "utf8_point (of_char c) = utf8_char c" for c
  proof -
    have "of_char c < (2048 :: nat)" using of_char_bound [of c] by linarith
    then show ?thesis by (simp add: utf8_point_def utf8_char_def Let_def)
  qed
  then have "utf8_point \<circ> of_char = utf8_char" by auto
  then show ?thesis by (simp add: utf8_bytes_def utf8_encode_def text_points_def)
qed

section \<open>Texts\<close>

text \<open>Universal newlines, as \<open>open\<close> and \<open>Path.read_text\<close> translate them on reading.\<close>

fun text_newlines :: "nat list \<Rightarrow> nat list" where
  "text_newlines [] = []"
| "text_newlines (p # ps) =
     (if p = 13 then 10 # text_newlines (if take 1 ps = [10] then tl ps else ps) else p # text_newlines ps)"

lemma text_newlines_id: "13 \<notin> set ps \<Longrightarrow> text_newlines ps = ps"
  by (induction ps rule: text_newlines.induct) auto

text \<open>\<open>old in s\<close> and \<open>s.replace(old, new, 1)\<close>.\<close>

fun occurs :: "'a list \<Rightarrow> 'a list \<Rightarrow> bool" where
  "occurs old [] = (old = [])"
| "occurs old (c # s) = (take (length old) (c # s) = old \<or> occurs old s)"

fun replace_first :: "'a list \<Rightarrow> 'a list \<Rightarrow> 'a list \<Rightarrow> 'a list" where
  "replace_first old new [] = (if old = [] then new else [])"
| "replace_first old new (c # s) =
     (if take (length old) (c # s) = old then new @ drop (length old) (c # s) else c # replace_first old new s)"

lemma replace_first_ok:
  assumes "occurs old s"
  shows "\<exists>a b. s = a @ old @ b \<and> replace_first old new s = a @ new @ b \<and> (\<forall>a' b'. s = a' @ old @ b' \<longrightarrow> length a \<le> length a')"
  using assms
proof (induction s)
  case (Cons c s)
  show ?case
  proof (cases "take (length old) (c # s) = old")
    case True
    then have "c # s = [] @ old @ drop (length old) (c # s)" by (metis append_Nil append_take_drop_id)
    moreover have "replace_first old new (c # s) = [] @ new @ drop (length old) (c # s)" using True by simp
    ultimately show ?thesis by (metis le0 list.size(3))
  next
    case False
    then obtain a b where ab: "s = a @ old @ b" "replace_first old new s = a @ new @ b"
        "\<And>a' b'. s = a' @ old @ b' \<Longrightarrow> length a \<le> length a'" using Cons by auto
    have "length (c # a) \<le> length a'" if e: "c # s = a' @ old @ b'" for a' b'
    proof (cases a')
      case Nil
      then have "take (length old) (c # s) = old" using e by (metis append_Nil append_eq_conv_conj)
      then show ?thesis using False by simp
    qed (use e ab(3) in auto)
    then show ?thesis using ab False by (intro exI [of _ "c # a"] exI [of _ b]) auto
  qed
qed (auto intro: exI [of _ "[]"])

end
