(* ===== verification/Permits.thy ===== *)
theory Permits
  imports Hsai_Bridge Permit_Validation Utf8_Text
begin

text \<open>
  \<open>shared/mesh_runtime/repo_patch_permits.py\<close>: the store of execution permits for
  repository patches. Its state is the dictionary of the ledger file and the part of the
  file system it touches. Each method runs inside \<open>with LockedJsonFile(...)\<close>, which locks the
  ledger and writes it back only when the block returns, so a result is paired with the new
  ledger and an exception leaves the ledger as it was.

  A regular file is its bytes (\<open>fs_file\<close>); \<open>fs_resolve\<close> and \<open>fs_symlink\<close> are what the operating
  system answers to \<open>Path.resolve\<close> and \<open>Path.is_symlink\<close>. The test hook \<open>failpoint\<close> is \<open>None\<close>.
  The random tokens of \<open>secrets.token_hex\<close> are arguments.
\<close>

section \<open>Constants, configuration, file system\<close>

definition GENESIS_LEDGER_TIP :: string where
  "GENESIS_LEDGER_TIP = ''sha256:'' @ replicate 64 (CHR ''0'')"

definition TERMINAL_STATES :: "string list" where
  "TERMINAL_STATES = [''committed'', ''aborted'', ''recovery_required'']"

definition MUTATION_STATES :: "string list" where
  "MUTATION_STATES = [''prepared'', ''claimed'', ''applying'', ''applied'', ''verifying'']"

definition ALLOWED_TRANSITIONS :: "(string \<times> string list) list" where
  "ALLOWED_TRANSITIONS =
     [(''issued'', [''prepared'']),
      (''prepared'', [''claimed'', ''aborted'', ''recovery_required'']),
      (''claimed'', [''applying'', ''aborted'', ''recovery_required'']),
      (''applying'', [''applied'', ''aborted'', ''recovery_required'']),
      (''applied'', [''verifying'', ''aborted'', ''recovery_required'']),
      (''verifying'', [''committed'', ''aborted'', ''recovery_required''])]"

definition allowed_from :: "string \<Rightarrow> string list" where
  "allowed_from s = (case map_of ALLOWED_TRANSITIONS s of None \<Rightarrow> [] | Some ts \<Rightarrow> ts)"

record permit_config =
  signing_key :: string
  signing_key_id :: string
  issuer :: string
  executor_audience :: string
  backup_directory :: string

text \<open>The constructor of the store strips its texts.\<close>

definition permit_store_init :: "string option \<Rightarrow> string \<Rightarrow> string \<Rightarrow> string \<Rightarrow> string \<Rightarrow> permit_config" where
  "permit_store_init key key_id iss audience backup =
     \<lparr>signing_key = py_strip (case key of None \<Rightarrow> [] | Some k \<Rightarrow> k), signing_key_id = py_strip key_id,
      issuer = py_strip iss, executor_audience = py_strip audience, backup_directory = backup\<rparr>"

record fsys =
  fs_resolve :: "string \<Rightarrow> string"
  fs_symlink :: "string \<Rightarrow> bool"
  fs_file :: "string \<Rightarrow> string option"

definition file_digest :: "pyenv \<Rightarrow> fsys \<Rightarrow> string \<Rightarrow> py_exn + string" where
  "file_digest E fs path = (case fs_file fs path of
      None \<Rightarrow> Inl (OSError path)
    | Some content \<Rightarrow> Inr (''sha256:'' @ sha256_hex E content))"

definition bytes_digest :: "pyenv \<Rightarrow> string \<Rightarrow> string" where
  "bytes_digest E content = ''sha256:'' @ sha256_hex E content"

definition atomic_replace_bytes :: "fsys \<Rightarrow> string \<Rightarrow> string \<Rightarrow> fsys" where
  "atomic_replace_bytes fs path content = fs\<lparr>fs_file := (fs_file fs)(path \<mapsto> content)\<rparr>"

definition cdigest :: "pyenv \<Rightarrow> jval \<Rightarrow> string" where
  "cdigest E v = canonical_digest (sha256_hex E) v"

section \<open>Bindings to the repository\<close>

definition canonical_actuation_parameters :: "jobj \<Rightarrow> jobj" where
  "canonical_actuation_parameters parameters = ppop parameters CONTEXT_KEY"

fun path_strs :: "jval list \<Rightarrow> py_exn + string list" where
  "path_strs [] = Inr []"
| "path_strs (p # ps) = (case p of
      JStr s \<Rightarrow> ebind (path_strs ps) (\<lambda>ss. Inr (path_str s # ss))
    | _ \<Rightarrow> Inl (TypeError ''expected str, bytes or os.PathLike object''))"

definition allowed_path_strs :: "jobj \<Rightarrow> py_exn + string list" where
  "allowed_path_strs parameters = (case pget_or parameters ''allowed_paths'' (JList []) of
      JList ps \<Rightarrow> path_strs ps
    | _ \<Rightarrow> Inl (TypeError ''allowed_paths''))"

definition repo_patch_target_binding :: "pyenv \<Rightarrow> fsys \<Rightarrow> jobj \<Rightarrow> py_exn + (string \<times> string \<times> string)" where
  "repo_patch_target_binding E fs parameters =
     ebind (pidx parameters ''repo_path'') (\<lambda>rp.
     let repo0 = path_str (py_str rp) in
     if \<not> path_is_absolute repo0 \<or> fs_symlink fs repo0
     then Inl (ValueError ''repo patch root must be an absolute non-symlink path'')
     else let repo_path = fs_resolve fs repo0 in
     case pget parameters ''patch_template'' of
       JObj patch_template \<Rightarrow>
         (let raw_target = path_str (str_or (pget patch_template ''target_file'') (JStr []));
              unresolved = (if path_is_absolute raw_target then raw_target else path_join repo_path raw_target) in
          if fs_symlink fs unresolved then Inl (ValueError ''repo patch target must not be a symlink'')
          else let target_path = fs_resolve fs unresolved in
          case path_relative_to target_path repo_path of
            None \<Rightarrow> Inl (ValueError ''repo patch target escapes repo scope'')
          | Some relative_target \<Rightarrow>
              ebind (allowed_path_strs parameters) (\<lambda>allowed.
              if relative_target \<notin> set allowed
              then Inl (ValueError ''repo patch target falls outside allowed patch scope'')
              else if fs_file fs target_path = None
              then Inl (ValueError ''repo patch target must be an existing regular file'')
              else ebind (file_digest E fs target_path) (\<lambda>d. Inr (repo_path, target_path, d))))
     | _ \<Rightarrow> Inl (ValueError ''repo patch template is missing''))"

text \<open>\<open>Path.read_text(encoding="utf-8")\<close>: the file's bytes decoded as UTF-8, its line ends translated to line feeds.\<close>

definition read_text_utf8 :: "fsys \<Rightarrow> string \<Rightarrow> py_exn + nat list" where
  "read_text_utf8 fs path = (case fs_file fs path of
      None \<Rightarrow> Inl (OSError path)
    | Some content \<Rightarrow> (case utf8_points content of
          None \<Rightarrow> Inl (ValueError ''utf-8'')
        | Some points \<Rightarrow> Inr (text_newlines points)))"

definition repo_patch_postimage :: "pyenv \<Rightarrow> fsys \<Rightarrow> jobj \<Rightarrow> string \<Rightarrow> py_exn + (string \<times> string)" where
  "repo_patch_postimage E fs parameters target_path = (case pget parameters ''patch_template'' of
      JObj patch_template \<Rightarrow>
        (case read_text_utf8 fs target_path of
           Inl e \<Rightarrow> Inl (ValueError (''repo patch postimage binding failed: '' @ exn_text e))
         | Inr original \<Rightarrow>
           (case pidx patch_template ''find'' of
              Inl e \<Rightarrow> Inl (ValueError (''repo patch postimage binding failed: '' @ exn_text e))
            | Inr f \<Rightarrow>
              (case pidx patch_template ''replace'' of
                 Inl e \<Rightarrow> Inl (ValueError (''repo patch postimage binding failed: '' @ exn_text e))
               | Inr r \<Rightarrow>
                 if \<not> occurs (text_points (py_str f)) original
                 then Inl (ValueError ''patch anchor not found in target file'')
                 else let postimage = utf8_bytes (replace_first (text_points (py_str f)) (text_points (py_str r)) original)
                      in Inr (postimage, bytes_digest E postimage))))
    | _ \<Rightarrow> Inl (ValueError ''repo patch template is missing''))"

section \<open>Permit digests\<close>

definition permit_digest_of :: "pyenv \<Rightarrow> jobj \<Rightarrow> string" where
  "permit_digest_of E permit = cdigest E (JObj (ppop (ppop permit ''permit_digest'') ''authorization_proof''))"

definition permit_signed_payload :: "jobj \<Rightarrow> jobj" where
  "permit_signed_payload permit = ppop permit ''authorization_proof''"

text \<open>\<open>_parse_time\<close> raises \<open>ValueError\<close> on text that is no time.\<close>

definition permit_parse_time :: "pyenv \<Rightarrow> string \<Rightarrow> py_exn + int" where
  "permit_parse_time E s = (case fromisoformat E (replace_all ''Z'' ''+00:00'' s) of
      None \<Rightarrow> Inl (ValueError ''Invalid isoformat string'')
    | Some (Aware t) \<Rightarrow> Inr t
    | Some (Naive t) \<Rightarrow> Inr (local_to_utc E t))"

definition require_authority_configuration :: "permit_config \<Rightarrow> py_exn + unit" where
  "require_authority_configuration cfg =
     run_checks
       [ck (signing_key cfg \<noteq> []) ''repo patch permit signing key is required for mutable authority'',
        ck (signing_key_id cfg \<noteq> []) ''repo patch permit signing key id is required'',
        ck (issuer cfg \<noteq> []) ''repo patch permit issuer is required'',
        ck (executor_audience cfg \<noteq> []) ''repo patch permit executor audience is required'']"

section \<open>Ledger records\<close>

text \<open>\<open>d.get(k)\<close> for a key of any JSON type.\<close>

definition lookup_j :: "jobj \<Rightarrow> jval \<Rightarrow> jval" where
  "lookup_j d k = (case k of JStr s \<Rightarrow> pget d s | _ \<Rightarrow> JNull)"

definition state_entry :: "pyenv \<Rightarrow> string \<Rightarrow> int \<Rightarrow> jval" where
  "state_entry E st now = JObj [(''state'', JStr st), (''recorded_at'', JStr (format_time E now))]"

definition transition_record ::
  "pyenv \<Rightarrow> jobj \<Rightarrow> string \<Rightarrow> string \<Rightarrow> int \<Rightarrow> jobj \<Rightarrow> jobj option \<Rightarrow> py_exn + jobj" where
  "transition_record E rec expected_state new_state now details terminal_result =
     (if \<not> py_eq (pget rec ''state'') (JStr expected_state)
      then Inl (ValueError (''repo patch authority state mismatch: expected '' @ expected_state
                  @ '', got '' @ py_str (pget rec ''state'')))
      else let r1 = pset rec ''state'' (JStr new_state);
               r2 = setdefault r1 ''state_history'' (JList []) in
      case pget r2 ''state_history'' of
        JList history \<Rightarrow>
          (let r3 = pset r2 ''state_history'' (JList (history @ [state_entry E new_state now])) in
           ebind (if details = [] then Inr r3
                  else let r4 = setdefault r3 ''transaction'' (JObj []) in
                    ebind (as_obj (pget r4 ''transaction'')) (\<lambda>t.
                      Inr (pset r4 ''transaction'' (JObj (pupdate t details))))) (\<lambda>r5.
           Inr (case terminal_result of None \<Rightarrow> r5 | Some res \<Rightarrow> pset r5 ''terminal_result'' (JObj res))))
      | _ \<Rightarrow> Inl (AttributeError ''append''))"

definition put_record :: "jobj \<Rightarrow> jobj \<Rightarrow> string \<Rightarrow> jobj \<Rightarrow> jobj" where
  "put_record ledger records permit_id rec = pset ledger ''permits'' (JObj (pset records permit_id (JObj rec)))"

definition permits_of :: "jobj \<Rightarrow> py_exn + jobj" where
  "permits_of ledger = (case pget ledger ''permits'' of
      JObj records \<Rightarrow> Inr records
    | _ \<Rightarrow> Inl (ValueError ''repo patch authority ledger is missing permits''))"

definition record_transition ::
  "pyenv \<Rightarrow> int \<Rightarrow> string \<Rightarrow> string \<Rightarrow> string \<Rightarrow> jobj \<Rightarrow> jobj option \<Rightarrow> jobj \<Rightarrow> py_exn + (jobj \<times> jobj)" where
  "record_transition E now permit_id expected_state new_state details terminal_result ledger =
     (if new_state \<notin> set (allowed_from expected_state)
      then Inl (ValueError (''invalid repo patch authority transition: '' @ expected_state @ ''->'' @ new_state))
      else if new_state \<in> set TERMINAL_STATES \<and> terminal_result = None
      then Inl (ValueError ''terminal repo patch transition requires a stored result'')
      else if new_state \<notin> set TERMINAL_STATES \<and> terminal_result \<noteq> None
      then Inl (ValueError ''non-terminal repo patch transition cannot store a terminal result'')
      else ebind (permits_of ledger) (\<lambda>records.
      case pget records permit_id of
        JObj rec \<Rightarrow>
          ebind (transition_record E rec expected_state new_state now details terminal_result) (\<lambda>rec'.
          Inr (rec', put_record ledger records permit_id rec'))
      | _ \<Rightarrow> Inl (ValueError ''repo patch permit is not present in the authority ledger'')))"

section \<open>Issuing\<close>

text \<open>\<open>list(v)\<close>.\<close>

fun py_list :: "jval \<Rightarrow> py_exn + jval list" where
  "py_list (JList xs) = Inr xs"
| "py_list (JStr s) = Inr (map (\<lambda>c. JStr [c]) s)"
| "py_list (JObj d) = Inr (map (\<lambda>kv. JStr (fst kv)) d)"
| "py_list _ = Inl (TypeError ''object is not iterable'')"

definition permit_fields ::
  "pyenv \<Rightarrow> permit_config \<Rightarrow> int \<Rightarrow> int \<Rightarrow> jobj \<Rightarrow> jobj \<Rightarrow> jobj \<Rightarrow> EvaluationResult \<Rightarrow> jobj \<Rightarrow> string \<Rightarrow> string \<Rightarrow> string
    \<Rightarrow> string \<Rightarrow> string \<Rightarrow> string \<Rightarrow> string \<Rightarrow> string \<Rightarrow> py_exn + jobj" where
  "permit_fields E cfg now expires gate request admission v parameters permit_id nonce idempotency_key
     repo_path target_path preimage postimage tip_before =
     ebind (ebind (pidx request ''actor_ref'') as_obj) (\<lambda>actor.
     ebind (pidx actor ''team_id'') (\<lambda>team.
     ebind (pidx request ''mesh_run_id'') (\<lambda>run_id.
     ebind (pidx request ''mesh_action_id'') (\<lambda>action_id.
     ebind (pidx request ''action_kind'') (\<lambda>kind.
     ebind (pidx gate ''request_digest'') (\<lambda>rd.
     ebind (pidx gate ''decision_digest'') (\<lambda>dd.
     ebind (pidx gate ''candidate_digest'') (\<lambda>cd.
     ebind (pidx request ''action_proposal_digest'') (\<lambda>pd.
     ebind (pidx request ''evidence_packet_digest'') (\<lambda>ed.
     ebind (pidx request ''mesh_policy_id'') (\<lambda>policy.
     ebind (ebind (pidx request ''requested_claims'') py_list) (\<lambda>requested.
     ebind (ebind (pidx request ''explicit_nonclaims'') py_list) (\<lambda>explicit.
     Inr
      [(''schema_version'', JStr PERMIT_VERSION),
       (''transaction_version'', JStr TRANSACTION_VERSION),
       (''permit_id'', JStr permit_id),
       (''authority_scope'', JStr ''local_disposable_repo_patch_only''),
       (''issuer'', JStr (issuer cfg)),
       (''executor_audience'', JStr (executor_audience cfg)),
       (''tenant'', team), (''mesh_run_id'', run_id), (''mesh_action_id'', action_id), (''action_kind'', kind),
       (''authority_nonce'', JStr nonce),
       (''idempotency_key'', JStr idempotency_key),
       (''hsai_request_digest'', rd), (''hsai_decision_digest'', dd), (''candidate_payload_digest'', cd),
       (''action_proposal_digest'', pd), (''evidence_packet_digest'', ed), (''mesh_policy_id'', policy),
       (''policy_snapshot_digest'', JStr (cdigest E (JObj (evaluation_asdict v)))),
       (''canonical_actuation_payload_digest'', JStr (cdigest E (JObj parameters))),
       (''repo_path'', JStr repo_path), (''target_path'', JStr target_path),
       (''target_preimage_digest'', JStr preimage), (''target_postimage_digest'', JStr postimage),
       (''requested_claims'', JList requested),
       (''accepted_claims'', JList (list_or (pget admission ''accepted_claims''))),
       (''explicit_nonclaims'', JList explicit),
       (''enforced_nonclaims'', JList (list_or (pget admission ''enforced_nonclaims''))),
       (''expected_ledger_tip_before'', JStr tip_before),
       (''issued_at'', JStr (format_time E now)), (''not_before'', JStr (format_time E now)),
       (''expires_at'', JStr (format_time E expires))])))))))))))))"

text \<open>The derived fields: entry digest, new ledger tip, permit digest and HMAC proof.\<close>

definition seal_permit :: "pyenv \<Rightarrow> permit_config \<Rightarrow> string \<Rightarrow> jobj \<Rightarrow> jobj" where
  "seal_permit E cfg tip_before permit =
     (let entry_digest = cdigest E (JObj [(''tip_before'', JStr tip_before), (''permit'', JObj permit)]);
          p1 = pset permit ''authority_entry_digest'' (JStr entry_digest);
          p2 = pset p1 ''ledger_tip_after''
                 (JStr (cdigest E (JObj [(''tip_before'', JStr tip_before), (''entry_digest'', JStr entry_digest)])));
          p3 = pset p2 ''permit_digest'' (JStr (permit_digest_of E p2))
      in pset p3 ''authorization_proof''
           (JObj (build_hmac_signature_proof E (permit_signed_payload p3) (signing_key_id cfg) (signing_key cfg) SIGNING_PROFILE)))"

definition issue_checks ::
  "pyenv \<Rightarrow> schemas \<Rightarrow> permit_config \<Rightarrow> Decision \<Rightarrow> EvaluationResult \<Rightarrow> jobj \<Rightarrow> string \<Rightarrow> int \<Rightarrow> py_exn + unit" where
  "issue_checks E S cfg d v gate idempotency_key ttl_seconds =
     ebind (require_authority_configuration cfg) (\<lambda>_.
     ebind (validate_bridge_gate E S gate (Some d) (Some v) (Some True)) (\<lambda>_.
     ebind (ck (1 \<le> ttl_seconds \<and> ttl_seconds \<le> 300) ''repo patch permit ttl must be between 1 and 300 seconds'') (\<lambda>_.
     ebind (if \<not> truthy (pget gate ''allowed'') then Inr (JNull)
            else ebind (as_obj (pget_or gate ''decision'' (JObj []))) (\<lambda>dec. Inr (pget dec ''decision''))) (\<lambda>verdict.
     ebind (ck (truthy (pget gate ''allowed'') \<and> py_eq verdict (JStr ''allow''))
              ''repo patch permit requires an allowed HSAI decision'') (\<lambda>_.
     ebind (ck (pget gate ''authority_eligible'' = JBool True)
              ''repo patch permit requires an authority-eligible HSAI adapter'') (\<lambda>_.
     ebind (ck (passed v \<and> final_recommendation v = ''execute'') ''repo patch permit requires Mesh execute approval'') (\<lambda>_.
     ebind (pidx (execution_plan d) ''action'') (\<lambda>action.
     ck (idempotency_key = decision_id d @ '':'' @ py_str action) ''repo patch permit idempotency key mismatch''))))))))"

text \<open>A fresh permit: its id and nonce, its record and the new tip of the ledger.\<close>

definition issue_fresh ::
  "pyenv \<Rightarrow> schemas \<Rightarrow> permit_config \<Rightarrow> int \<Rightarrow> string \<Rightarrow> string \<Rightarrow> EvaluationResult \<Rightarrow> jobj \<Rightarrow> string \<Rightarrow> int \<Rightarrow> string option
    \<Rightarrow> string option \<Rightarrow> jobj \<Rightarrow> string \<times> string \<times> string \<times> string \<Rightarrow> jobj \<Rightarrow> jobj \<Rightarrow> jobj \<Rightarrow> py_exn + (jobj \<times> jobj)" where
  "issue_fresh E S cfg now token1 token2 v gate idempotency_key ttl_seconds permit_id authority_nonce parameters
     binding permits idempotency ledger =
     (let (repo_path, target_path, preimage, postimage) = binding;
          tip_before = str_or (pget ledger ''tip'') (JStr GENESIS_LEDGER_TIP);
          selected = (case permit_id of Some (c # cs) \<Rightarrow> c # cs | _ \<Rightarrow> ''permit_'' @ token1);
          nonce = (case authority_nonce of Some (c # cs) \<Rightarrow> c # cs | _ \<Rightarrow> token2) in
      if phas permits selected then Inl (ValueError ''repo patch permit id already exists'')
      else if phas (obj_or_empty (pget ledger ''consumed_nonces'')) nonce
      then Inl (ValueError ''repo patch permit nonce already exists'')
      else ebind (permit_fields E cfg now (now + ttl_seconds * 1000000) gate (obj_or_empty (pget gate ''request''))
               (obj_or_empty (pget gate ''decision'')) v parameters selected nonce
               idempotency_key repo_path target_path preimage postimage tip_before) (\<lambda>base.
      let permit = seal_permit E cfg tip_before base in
      ebind (validate_payload (S ''repo-patch-execution-permit.schema.json'') (JObj permit)) (\<lambda>_.
      ebind (validate_permit_semantics E permit) (\<lambda>_.
      let rec = [(''permit'', JObj permit), (''state'', JStr ''issued''),
                 (''state_history'', JList [state_entry E ''issued'' now])];
          l1 = put_record ledger permits selected rec;
          l2 = pset l1 ''idempotency'' (JObj (pset idempotency idempotency_key (JStr selected)));
          l3 = pset l2 ''tip'' (pget permit ''ledger_tip_after'')
      in Inr (permit, l3)))))"

text \<open>The sections the ledger is given when it lacks them.\<close>

definition ledger_sections :: "jobj \<Rightarrow> jobj" where
  "ledger_sections ledger =
     setdefault (setdefault (setdefault (setdefault ledger ''permits'' (JObj [])) ''consumed_nonces'' (JObj []))
       ''idempotency'' (JObj [])) ''fenced_roots'' (JObj [])"

text \<open>The block under the ledger's lock.\<close>

definition issue_locked ::
  "pyenv \<Rightarrow> schemas \<Rightarrow> permit_config \<Rightarrow> int \<Rightarrow> string \<Rightarrow> string \<Rightarrow> EvaluationResult \<Rightarrow> jobj \<Rightarrow> string \<Rightarrow> int \<Rightarrow> string option
    \<Rightarrow> string option \<Rightarrow> jobj \<Rightarrow> string \<times> string \<times> string \<times> string \<Rightarrow> jobj \<Rightarrow> py_exn + (jobj \<times> jobj)" where
  "issue_locked E S cfg now token1 token2 v gate idempotency_key ttl_seconds permit_id authority_nonce parameters
     binding ledger0 =
     (let ledger = ledger_sections ledger0 in
     ebind (as_obj (pget ledger ''permits'')) (\<lambda>permits.
     ebind (as_obj (pget ledger ''consumed_nonces'')) (\<lambda>_.
     ebind (as_obj (pget ledger ''idempotency'')) (\<lambda>idempotency.
     ebind (as_obj (pget ledger ''fenced_roots'')) (\<lambda>fenced_roots.
     if phas fenced_roots (fst binding)
     then Inl (ValueError ''repo patch root is fenced pending authority recovery'')
     else let existing = pget idempotency idempotency_key in
     if existing \<noteq> JNull
     then (case pget (obj_or_empty (lookup_j permits existing)) ''permit'' of
             JObj existing_permit \<Rightarrow>
               ebind (pidx existing_permit ''canonical_actuation_payload_digest'') (\<lambda>x.
               if \<not> py_eq x (JStr (cdigest E (JObj parameters)))
               then Inl (ValueError ''repo patch idempotency binding mismatch'')
               else Inr (existing_permit, ledger))
           | _ \<Rightarrow> Inl (ValueError ''repo patch idempotency entry is corrupt''))
     else issue_fresh E S cfg now token1 token2 v gate idempotency_key ttl_seconds permit_id authority_nonce parameters
            binding permits idempotency ledger)))))"

definition issue ::
  "pyenv \<Rightarrow> schemas \<Rightarrow> permit_config \<Rightarrow> int \<Rightarrow> fsys \<Rightarrow> string \<Rightarrow> string \<Rightarrow> Decision \<Rightarrow> EvaluationResult \<Rightarrow> jobj \<Rightarrow> string
    \<Rightarrow> int \<Rightarrow> string option \<Rightarrow> string option \<Rightarrow> jobj \<Rightarrow> py_exn + (jobj \<times> jobj)" where
  "issue E S cfg now fs token1 token2 d v gate idempotency_key ttl_seconds permit_id authority_nonce ledger =
     ebind (issue_checks E S cfg d v gate idempotency_key ttl_seconds) (\<lambda>_.
     ebind (ebind (pidx (execution_plan d) ''parameters'') as_obj) (\<lambda>ps.
     ebind (repo_patch_target_binding E fs (canonical_actuation_parameters ps)) (\<lambda>(repo_path, target_path, preimage).
     ebind (repo_patch_postimage E fs (canonical_actuation_parameters ps) target_path) (\<lambda>(_, postimage).
     ebind (ebind (pidx gate ''request'') as_obj) (\<lambda>_.
     ebind (ebind (pidx gate ''decision'') as_obj) (\<lambda>_.
     issue_locked E S cfg now token1 token2 v gate idempotency_key ttl_seconds permit_id authority_nonce
       (canonical_actuation_parameters ps) (repo_path, target_path, preimage, postimage) ledger))))))"

section \<open>Consuming\<close>

definition validate_permit ::
  "pyenv \<Rightarrow> schemas \<Rightarrow> permit_config \<Rightarrow> int \<Rightarrow> fsys \<Rightarrow> jobj \<Rightarrow> Decision \<Rightarrow> string \<Rightarrow> jobj \<Rightarrow> py_exn + unit" where
  "validate_permit E S cfg now fs permit d idempotency_key actuation_parameters =
     ebind (require_authority_configuration cfg) (\<lambda>_.
     ebind (validate_payload (S ''repo-patch-execution-permit.schema.json'') (JObj permit)) (\<lambda>_.
     ebind (validate_permit_semantics E permit) (\<lambda>_.
     ebind (ck (py_eq (pget permit ''issuer'') (JStr (issuer cfg))) ''repo patch permit issuer mismatch'') (\<lambda>_.
     ebind (ck (py_eq (pget permit ''executor_audience'') (JStr (executor_audience cfg)))
              ''repo patch permit executor audience mismatch'') (\<lambda>_.
     case pget permit ''authorization_proof'' of
       JObj pf \<Rightarrow>
         ebind (run_checks
           [ck (py_eq (pget pf ''key_id'') (JStr (signing_key_id cfg))) ''repo patch permit signing key id mismatch'',
            ck (py_eq (pget pf ''signing_profile'') (JStr SIGNING_PROFILE)) ''repo patch permit signing profile mismatch'',
            ck (verify_hmac_signature_proof E (permit_signed_payload permit) pf (signing_key cfg))
              ''repo patch permit HMAC verification failed'',
            ck (py_eq (pget permit ''permit_digest'') (JStr (permit_digest_of E permit)))
              ''repo patch permit digest mismatch'']) (\<lambda>_.
         let parameters = canonical_actuation_parameters actuation_parameters in
         ebind (repo_patch_target_binding E fs parameters) (\<lambda>(repo_path, target_path, preimage).
         ebind (ebind (pidx permit ''not_before'') (\<lambda>x. permit_parse_time E (py_str x))) (\<lambda>not_before.
         ebind (ck (\<not> now < not_before) ''repo patch permit is not active yet'') (\<lambda>_.
         ebind (ebind (pidx permit ''expires_at'') (\<lambda>x. permit_parse_time E (py_str x))) (\<lambda>expires_at.
         ebind (run_checks
           [ck (\<not> now > expires_at) ''repo patch permit expired'',
            ebind (pidx permit ''idempotency_key'') (\<lambda>x.
              ck (py_eq x (JStr idempotency_key)) ''repo patch permit idempotency key mismatch''),
            ebind (pidx (execution_plan d) ''action'') (\<lambda>action.
              ck (idempotency_key = decision_id d @ '':'' @ py_str action) ''repo patch decision idempotency binding mismatch''),
            ebind (pidx permit ''mesh_action_id'') (\<lambda>x.
              ck (py_eq x (JStr (decision_id d))) ''repo patch permit action mismatch''),
            ebind (pidx permit ''canonical_actuation_payload_digest'') (\<lambda>x.
              ck (py_eq x (JStr (cdigest E (JObj parameters)))) ''repo patch permit actuation payload mismatch''),
            ebind (pidx permit ''repo_path'') (\<lambda>x. ebind (pidx permit ''target_path'') (\<lambda>y.
              ck (py_eq x (JStr repo_path) \<and> py_eq y (JStr target_path)) ''repo patch permit target path mismatch'')),
            ebind (pidx permit ''target_preimage_digest'') (\<lambda>x.
              ck (py_eq x (JStr preimage)) ''repo patch permit target preimage mismatch''),
            ebind (repo_patch_postimage E fs parameters target_path) (\<lambda>(_, postimage).
              ebind (pidx permit ''target_postimage_digest'') (\<lambda>x.
              ck (py_eq x (JStr postimage)) ''repo patch permit target postimage mismatch''))]) (\<lambda>_.
         ebind (ebind (pidx (execution_plan d) ''parameters'') as_obj) (\<lambda>ps.
         case pget ps CONTEXT_KEY of
           JObj context \<Rightarrow>
             (case pget context ''request'' of
                JObj request \<Rightarrow>
                  ebind (pidx permit ''tenant'') (\<lambda>tenant.
                  ebind (as_obj (pget_or request ''actor_ref'' (JObj []))) (\<lambda>actor.
                  ebind (ck (py_eq tenant (pget actor ''team_id'')) ''repo patch permit tenant mismatch'') (\<lambda>_.
                  run_checks (map (\<lambda>(permit_field, context_field).
                      ebind (pidx permit permit_field) (\<lambda>x.
                        ck (py_eq x (pget context context_field)) (''repo patch permit '' @ permit_field @ '' mismatch'')))
                    [(''hsai_request_digest'', ''request_digest''), (''hsai_decision_digest'', ''decision_digest''),
                     (''candidate_payload_digest'', ''candidate_digest'')]))))
              | _ \<Rightarrow> Inl (ValueError ''repo patch permit tenant mismatch''))
         | _ \<Rightarrow> Inl (ValueError ''repo patch permit missing HSAI execution context''))))))))
     | _ \<Rightarrow> Inl (ValueError ''repo patch permit authorization proof missing''))))))"

definition consume ::
  "pyenv \<Rightarrow> schemas \<Rightarrow> permit_config \<Rightarrow> int \<Rightarrow> fsys \<Rightarrow> jobj \<Rightarrow> Decision \<Rightarrow> string \<Rightarrow> jobj \<Rightarrow> jobj \<Rightarrow> py_exn + (jobj \<times> jobj)" where
  "consume E S cfg now fs permit d idempotency_key actuation_parameters ledger =
     ebind (validate_permit E S cfg now fs permit d idempotency_key actuation_parameters) (\<lambda>_.
     ebind (permits_of ledger) (\<lambda>records.
     ebind (pidx permit ''permit_id'') (\<lambda>pid.
     case lookup_j records pid of
       JObj rec \<Rightarrow>
         if \<not> py_eq (pget rec ''permit'') (JObj permit)
         then Inl (ValueError ''repo patch permit is not present in the authority ledger'')
         else if \<not> py_eq (pget rec ''state'') (JStr ''prepared'')
         then Inl (ValueError ''repo patch permit is not prepared or was already claimed'')
         else let l0 = setdefault ledger ''consumed_nonces'' (JObj []) in
         ebind (as_obj (pget l0 ''consumed_nonces'')) (\<lambda>nonces.
         ebind (pidx permit ''authority_nonce'') (\<lambda>nonce.
         if phas nonces (py_str nonce) then Inl (ValueError ''repo patch authority nonce already consumed'')
         else ebind (transition_record E rec ''prepared'' ''claimed'' now [] None) (\<lambda>rec'.
         ebind (pidx permit ''permit_digest'') (\<lambda>pd.
         ebind (pidx permit ''authority_entry_digest'') (\<lambda>ed.
         ebind (pidx permit ''ledger_tip_after'') (\<lambda>lt.
         ebind (pidx permit ''target_preimage_digest'') (\<lambda>pre.
         ebind (pidx permit ''target_postimage_digest'') (\<lambda>post.
         let l1 = put_record l0 records (py_str pid) rec';
             l2 = pset l1 ''consumed_nonces'' (JObj (pset nonces (py_str nonce) pid))
         in Inr ([(''permit_id'', pid), (''permit_digest'', pd), (''authority_entry_digest'', ed), (''ledger_tip_after'', lt),
                  (''target_preimage_digest'', pre), (''target_postimage_digest'', post),
                  (''transaction_version'', JStr TRANSACTION_VERSION)], l2)))))))))
     | _ \<Rightarrow> Inl (ValueError ''repo patch permit is not present in the authority ledger''))))"

section \<open>Stored results\<close>

definition terminal_record :: "jobj \<Rightarrow> string \<Rightarrow> py_exn + jobj option" where
  "terminal_record ledger idempotency_key =
     ebind (as_obj (pget_or ledger ''idempotency'' (JObj []))) (\<lambda>idempotency.
     let pid = pget idempotency idempotency_key in
     ebind (if truthy pid then ebind (as_obj (pget_or ledger ''permits'' (JObj []))) (\<lambda>permits. Inr (lookup_j permits pid))
            else Inr JNull) (\<lambda>r.
     Inr (case r of JObj rec \<Rightarrow> if str_in (pget rec ''state'') TERMINAL_STATES then Some rec else None | _ \<Rightarrow> None)))"

definition terminal_result_for_idempotency :: "string \<Rightarrow> jobj \<Rightarrow> py_exn + jobj option" where
  "terminal_result_for_idempotency idempotency_key ledger =
     ebind (terminal_record ledger idempotency_key) (\<lambda>r.
     case r of
       None \<Rightarrow> Inr None
     | Some rec \<Rightarrow> (case pget rec ''terminal_result'' of
           JObj result \<Rightarrow> Inr (Some result)
         | _ \<Rightarrow> Inl (ValueError ''terminal repo patch authority record is missing its result'')))"

definition replay_bindings :: "pyenv \<Rightarrow> Decision \<Rightarrow> EvaluationResult \<Rightarrow> jobj \<Rightarrow> jobj \<Rightarrow> string \<Rightarrow> jobj \<Rightarrow> (string \<times> jval) list" where
  "replay_bindings E d v gate request idempotency_key parameters =
     [(''mesh_action_id'', JStr (decision_id d)),
      (''mesh_run_id'', pget request ''mesh_run_id''),
      (''idempotency_key'', JStr idempotency_key),
      (''hsai_request_digest'', pget gate ''request_digest''),
      (''hsai_decision_digest'', pget gate ''decision_digest''),
      (''candidate_payload_digest'', pget gate ''candidate_digest''),
      (''action_proposal_digest'', pget request ''action_proposal_digest''),
      (''evidence_packet_digest'', pget request ''evidence_packet_digest''),
      (''mesh_policy_id'', pget request ''mesh_policy_id''),
      (''policy_snapshot_digest'', JStr (cdigest E (JObj (evaluation_asdict v)))),
      (''canonical_actuation_payload_digest'', JStr (cdigest E (JObj parameters)))]"

definition terminal_result_for_replay ::
  "pyenv \<Rightarrow> Decision \<Rightarrow> EvaluationResult \<Rightarrow> jobj \<Rightarrow> string \<Rightarrow> jobj \<Rightarrow> py_exn + jobj option" where
  "terminal_result_for_replay E d v gate idempotency_key ledger =
     ebind (pidx (execution_plan d) ''action'') (\<lambda>action.
     ebind (ck (idempotency_key = decision_id d @ '':'' @ py_str action) ''repo patch terminal replay idempotency mismatch'') (\<lambda>_.
     ebind (ebind (pidx (execution_plan d) ''parameters'') as_obj) (\<lambda>ps.
     let parameters = canonical_actuation_parameters ps in
     case pget gate ''request'' of
       JObj request \<Rightarrow>
         ebind (terminal_record ledger idempotency_key) (\<lambda>r.
         case r of
           None \<Rightarrow> Inr None
         | Some rec \<Rightarrow>
             (case (pget rec ''permit'', pget rec ''terminal_result'') of
                (JObj permit, JObj result) \<Rightarrow>
                  (let mismatched = map fst (filter (\<lambda>(f, expected). \<not> py_eq (pget permit f) expected)
                         (replay_bindings E d v gate request idempotency_key parameters)) in
                   if mismatched \<noteq> []
                   then Inl (ValueError (''repo patch terminal replay binding mismatch: '' @ py_repr (jstrs (sort mismatched))))
                   else Inr (Some result))
              | _ \<Rightarrow> Inl (ValueError ''terminal repo patch authority record is incomplete'')))
     | _ \<Rightarrow> Inl (ValueError ''repo patch terminal replay gate request is missing''))))"

section \<open>Restoration and recovery\<close>

definition validated_backup_path :: "pyenv \<Rightarrow> permit_config \<Rightarrow> fsys \<Rightarrow> jobj \<Rightarrow> jobj \<Rightarrow> py_exn + string" where
  "validated_backup_path E cfg fs details permit =
     (let backup_path = fs_resolve fs (path_str (str_or (pget details ''backup_path'') (JStr []))) in
      case path_relative_to backup_path (fs_resolve fs (backup_directory cfg)) of
        None \<Rightarrow> Inl (ValueError ''authority backup escapes the configured backup directory'')
      | Some _ \<Rightarrow>
          if fs_file fs backup_path = None then Inl (ValueError ''authority backup is missing'')
          else ebind (file_digest E fs backup_path) (\<lambda>dg.
               ebind (pidx permit ''target_preimage_digest'') (\<lambda>x.
               ebind (ck (py_eq (JStr dg) x) ''authority backup does not match the authorized preimage'') (\<lambda>_.
               Inr backup_path))))"

definition aborted_result :: "jobj \<Rightarrow> string \<Rightarrow> string \<Rightarrow> jval list \<Rightarrow> py_exn + jobj" where
  "aborted_result permit reason backup_path test_results =
     ebind (pidx permit ''permit_id'') (\<lambda>pid.
     Inr [(''status'', JStr ''failed''),
          (''external_refs'', JObj [(''permit_id'', pid), (''backup_path'', JStr backup_path),
                                  (''test_results'', JList test_results), (''target_restored'', JBool True)]),
          (''failure'', JObj [(''reason'', JStr reason)]),
          (''retryable'', JBool False)])"

text \<open>
  The \<open>try\<close> block that \<open>abort_with_restoration\<close> and \<open>recover_incomplete_actions\<close> share: check the
  backup, check that the target holds the authorized pre- or postimage, write the backup
  over it, check the result. The file system comes back also on an error.
\<close>

definition restore_checks ::
  "pyenv \<Rightarrow> permit_config \<Rightarrow> fsys \<Rightarrow> jobj \<Rightarrow> jobj \<Rightarrow> string \<Rightarrow> py_exn + (string \<times> string \<times> jval)" where
  "restore_checks E cfg fs details permit symlink_message =
     ebind (validated_backup_path E cfg fs details permit) (\<lambda>backup_path.
     ebind (pidx permit ''target_path'') (\<lambda>tp.
     let target_path = path_str (py_str tp) in
     if fs_symlink fs target_path then Inl (ValueError symlink_message)
     else ebind (file_digest E fs target_path) (\<lambda>current.
     ebind (pidx permit ''target_preimage_digest'') (\<lambda>pre.
     ebind (pidx permit ''target_postimage_digest'') (\<lambda>post.
     ebind (ck (py_eq (JStr current) pre \<or> py_eq (JStr current) post)
              ''target state does not match the authorized preimage or postimage'') (\<lambda>_.
     Inr (backup_path, target_path, pre)))))))"

definition restore_target ::
  "pyenv \<Rightarrow> permit_config \<Rightarrow> fsys \<Rightarrow> jobj \<Rightarrow> jobj \<Rightarrow> string \<Rightarrow> (py_exn + string) \<times> fsys" where
  "restore_target E cfg fs details permit symlink_message =
     (case restore_checks E cfg fs details permit symlink_message of
        Inl e \<Rightarrow> (Inl e, fs)
      | Inr (backup_path, target_path, pre) \<Rightarrow>
          (case fs_file fs backup_path of
             None \<Rightarrow> (Inl (OSError backup_path), fs)
           | Some content \<Rightarrow>
               (let fs' = atomic_replace_bytes fs target_path content in
                (ebind (file_digest E fs' target_path) (\<lambda>dg.
                   ebind (ck (py_eq (JStr dg) pre) ''restored target does not match the authorized preimage'') (\<lambda>_.
                   Inr backup_path)), fs'))))"

text \<open>The record whose transaction \<open>abort_with_restoration\<close> undoes.\<close>

definition restoration_details :: "jobj \<Rightarrow> string \<Rightarrow> jobj \<Rightarrow> py_exn + jobj" where
  "restoration_details permit expected_state ledger =
     ebind (as_obj (pget_or ledger ''permits'' (JObj []))) (\<lambda>records.
     ebind (pidx permit ''permit_id'') (\<lambda>pid.
     case lookup_j records pid of
       JObj rec \<Rightarrow>
         if \<not> py_eq (pget rec ''state'') (JStr expected_state)
         then Inl (ValueError ''repo patch authority restoration state changed concurrently'')
         else (case pget rec ''transaction'' of
             JObj details \<Rightarrow> Inr details
           | _ \<Rightarrow> Inl (ValueError ''authority transaction metadata is missing''))
     | _ \<Rightarrow> Inl (ValueError ''repo patch authority restoration state changed concurrently'')))"

definition fence_root :: "jval \<Rightarrow> string" where
  "fence_root permit = (case permit of JObj p \<Rightarrow> str_or (pget p ''repo_path'') (JStr []) | _ \<Rightarrow> [])"

definition fence_terminal :: "jval \<Rightarrow> string \<Rightarrow> string \<Rightarrow> jobj" where
  "fence_terminal permit_id repo_path reason =
     [(''status'', JStr ''failed''),
      (''external_refs'', JObj [(''permit_id'', permit_id), (''root_fenced'', JBool (repo_path \<noteq> []))]),
      (''failure'', JObj [(''reason'', JStr (''repo patch recovery required: '' @ reason))]),
      (''retryable'', JBool False)]"

definition add_fence :: "pyenv \<Rightarrow> int \<Rightarrow> jval \<Rightarrow> string \<Rightarrow> string \<Rightarrow> jobj \<Rightarrow> py_exn + jobj" where
  "add_fence E now permit_id repo_path reason ledger =
     (if repo_path = [] then Inr ledger
      else let l = setdefault ledger ''fenced_roots'' (JObj []) in
        ebind (as_obj (pget l ''fenced_roots'')) (\<lambda>roots.
        Inr (pset l ''fenced_roots'' (JObj (pset roots repo_path
          (JObj [(''permit_id'', permit_id), (''reason'', JStr reason), (''fenced_at'', JStr (format_time E now))]))))))"

definition fence_recovery ::
  "pyenv \<Rightarrow> int \<Rightarrow> jval \<Rightarrow> string \<Rightarrow> jval \<Rightarrow> string \<Rightarrow> jobj \<Rightarrow> py_exn + (jobj \<times> jobj)" where
  "fence_recovery E now permit_id expected_state permit reason ledger =
     (let terminal = fence_terminal permit_id (fence_root permit) reason in
      ebind (as_obj (pget_or ledger ''permits'' (JObj []))) (\<lambda>records.
      case lookup_j records permit_id of
        JObj rec \<Rightarrow>
          if \<not> py_eq (pget rec ''state'') (JStr expected_state)
          then Inl (ValueError ''repo patch authority recovery state changed concurrently'')
          else ebind (transition_record E rec expected_state ''recovery_required'' now
                  [(''recovery_failure'', JStr reason)] (Some terminal)) (\<lambda>rec'.
          ebind (add_fence E now permit_id (fence_root permit) reason
                   (put_record ledger records (py_str permit_id) rec')) (\<lambda>ledger'.
          Inr ([(''permit_id'', permit_id), (''state'', JStr ''recovery_required''), (''result'', JObj terminal)], ledger')))
      | _ \<Rightarrow> Inl (ValueError ''repo patch authority recovery state changed concurrently'')))"

text \<open>\<open>except (KeyError, OSError, TypeError, ValueError)\<close>.\<close>

fun recoverable :: "py_exn \<Rightarrow> bool" where
  "recoverable (KeyError _) = True"
| "recoverable (OSError _) = True"
| "recoverable (TypeError _) = True"
| "recoverable (ValueError _) = True"
| "recoverable _ = False"

definition abort_with_restoration ::
  "pyenv \<Rightarrow> permit_config \<Rightarrow> int \<Rightarrow> jobj \<Rightarrow> string \<Rightarrow> string \<Rightarrow> jval list \<Rightarrow> jobj \<Rightarrow> fsys
    \<Rightarrow> (py_exn + (jobj \<times> jobj)) \<times> fsys" where
  "abort_with_restoration E cfg now permit expected_state reason test_results ledger fs =
     (let attempt =
        (case restoration_details permit expected_state ledger of
           Inl e \<Rightarrow> (Inl e, fs)
         | Inr details \<Rightarrow> restore_target E cfg fs details permit ''repo patch restoration target became a symlink'')
      in case attempt of
        (Inl e, fs') \<Rightarrow>
          (if recoverable e
           then ebind (pidx permit ''permit_id'') (\<lambda>pid.
                ebind (fence_recovery E now pid expected_state (JObj permit) (exn_text e) ledger) (\<lambda>(recovery, ledger').
                Inr (obj_or_empty (pget recovery ''result''), ledger')))
           else Inl e, fs')
      | (Inr backup_path, fs') \<Rightarrow>
          (ebind (aborted_result permit reason backup_path test_results) (\<lambda>terminal.
           ebind (pidx permit ''permit_id'') (\<lambda>pid.
           ebind (record_transition E now (py_str pid) expected_state ''aborted''
                    [(''restored'', JBool True), (''restored_at'', JStr (format_time E now))] (Some terminal) ledger)
             (\<lambda>(_, ledger'). Inr (terminal, ledger')))), fs'))"

definition recovery_candidates :: "jobj \<Rightarrow> (string \<times> jobj) list" where
  "recovery_candidates records = concat (map (\<lambda>(k, r). case r of
      JObj rec \<Rightarrow> if str_in (pget rec ''state'') MUTATION_STATES then [(k, rec)] else []
    | _ \<Rightarrow> []) records)"

definition recover_one ::
  "pyenv \<Rightarrow> permit_config \<Rightarrow> int \<Rightarrow> string \<times> jobj \<Rightarrow> jobj \<Rightarrow> fsys \<Rightarrow> (py_exn + (jobj \<times> jobj)) \<times> fsys" where
  "recover_one E cfg now candidate ledger fs =
     (let permit_id = fst candidate; rec = snd candidate; state = py_str (pget rec ''state'');
          fence = (\<lambda>reason. fence_recovery E now (JStr permit_id) state (pget rec ''permit'') reason ledger) in
      case (pget rec ''permit'', pget rec ''transaction'') of
        (JObj permit, JObj details) \<Rightarrow>
          (case restore_target E cfg fs details permit ''repo patch recovery target became a symlink'' of
             (Inl e, fs') \<Rightarrow> (if recoverable e then fence (exn_text e) else Inl e, fs')
           | (Inr backup_path, fs') \<Rightarrow>
               (ebind (aborted_result permit ''incomplete repo patch authority transaction restored during recovery'' backup_path [])
                  (\<lambda>terminal.
                ebind (record_transition E now permit_id state ''aborted''
                         [(''recovered_at'', JStr (format_time E now)), (''restored'', JBool True)] (Some terminal) ledger)
                  (\<lambda>(_, ledger').
                Inr ([(''permit_id'', JStr permit_id), (''state'', JStr ''aborted''), (''result'', JObj terminal)], ledger'))), fs'))
      | _ \<Rightarrow> (fence ''authority transaction metadata is missing'', fs))"

text \<open>The loop; an exception stops it with the ledger and files as they are then.\<close>

fun recover_loop ::
  "pyenv \<Rightarrow> permit_config \<Rightarrow> int \<Rightarrow> (string \<times> jobj) list \<Rightarrow> jobj \<Rightarrow> fsys \<Rightarrow> (py_exn + jobj list) \<times> jobj \<times> fsys" where
  "recover_loop E cfg now [] ledger fs = (Inr [], ledger, fs)"
| "recover_loop E cfg now (c # cs) ledger fs =
     (case recover_one E cfg now c ledger fs of
        (Inl e, fs') \<Rightarrow> (Inl e, ledger, fs')
      | (Inr (item, ledger'), fs') \<Rightarrow>
          (case recover_loop E cfg now cs ledger' fs' of
             (Inl e, w) \<Rightarrow> (Inl e, w)
           | (Inr items, w) \<Rightarrow> (Inr (item # items), w)))"

definition recover_incomplete_actions ::
  "pyenv \<Rightarrow> permit_config \<Rightarrow> int \<Rightarrow> jobj \<Rightarrow> fsys \<Rightarrow> (py_exn + jobj list) \<times> jobj \<times> fsys" where
  "recover_incomplete_actions E cfg now ledger fs = (case pget_or ledger ''permits'' (JObj []) of
      JObj records \<Rightarrow> recover_loop E cfg now (recovery_candidates records) ledger fs
    | _ \<Rightarrow> (Inl (ValueError ''repo patch authority ledger is missing permits''), ledger, fs))"

end
