(* ===== verification/Hsai_Bridge_Props.thy ===== *)
theory Hsai_Bridge_Props
  imports Hsai_Bridge
begin

text \<open>
  Correctness of the admission bridge: it fails closed, a decision it accepts is bound to
  the request, the context it attaches is the one the executor's check accepts, and a
  proof packet it verifies cannot claim more than was admitted.
\<close>

section \<open>Lemmas\<close>

declare run_checks.simps [simp del]

lemma same_item_Inr [simp]: "same_item a x b y msg = Inr u \<longleftrightarrow>
    (\<exists>v w. map_of a x = Some v \<and> map_of b y = Some w \<and> py_eq v w)"
  by (auto simp: same_item_def pidx_def split: option.splits)

lemma pidx_eq_Inr [simp]: "pidx d k = Inr v \<longleftrightarrow> map_of d k = Some v"
  by (auto simp: pidx_def split: option.splits)

lemma map_of_pget: "map_of d k = Some v \<Longrightarrow> pget d k = v"
  by (simp add: pget_def)

lemma error_decision_verdict [simp]: "map_of (error_decision E now request reason) ''decision'' = Some (JStr ''error'')"
  by (simp add: error_decision_def Let_def)

lemma gate_of_Inr:
  "gate_of E el request d = Inr gate \<Longrightarrow>
     \<exists>verdict dd cd. map_of d ''decision'' = Some verdict \<and> map_of d ''decision_digest'' = Some dd
       \<and> map_of d ''candidate_digest'' = Some cd
       \<and> pget gate ''allowed'' = JBool (py_eq verdict (JStr ''allow'')) \<and> pget gate ''request'' = JObj request
       \<and> pget gate ''decision'' = JObj d \<and> pget gate ''request_digest'' = JStr (sha256_digest E (JObj request))
       \<and> pget gate ''decision_digest'' = dd \<and> pget gate ''candidate_digest'' = cd"
  by (auto simp: gate_of_def split: option.splits)

lemma missing_items_Nil: "missing_items n e = [] \<longleftrightarrow>
    set (map py_str (list_or_empty n)) \<subseteq> set (map py_str (list_or_empty e))"
  by (auto simp: missing_items_def filter_empty_conv)

text \<open>C13: the bridge fails closed. Whatever the adapter does (raise, answer nonsense, answer
  for another request), a gate that comes out is itself valid, and it is open exactly when
  the adapter answered this request with a decision that passes the validation and says
  \<open>allow\<close>.\<close>

theorem hsai_gate_fails_closed:
  assumes "evaluate_hsai_gate E S now admit eligible request = Inr gate"
  shows "validate_bridge_gate E S gate None None None = Inr ()
    \<and> (pget gate ''allowed'' = JBool True \<longleftrightarrow>
        (\<exists>d. admit request = Inr (JObj d) \<and> validate_hsai_decision E S request (JObj d) = Inr ()
           \<and> pget d ''decision'' = JStr ''allow''))"
proof -
  define raw where "raw = (case admit request of
      Inl text \<Rightarrow> JObj (error_decision E now request (''hsai_unavailable:'' @ text)) | Inr v \<Rightarrow> v)"
  obtain d where gate: "gate_of E (Some eligible) request d = Inr gate"
    and vg: "validate_bridge_gate E S gate None None None = Inr ()"
    and d: "(case validate_hsai_decision E S request raw of
          Inr _ \<Rightarrow> as_obj raw
        | Inl (ValueError msg) \<Rightarrow>
            ebind (validate_hsai_decision E S request
                (JObj (error_decision E now request (''hsai_malformed_or_mismatched:'' @ msg))))
              (\<lambda>_. Inr (error_decision E now request (''hsai_malformed_or_mismatched:'' @ msg)))
        | Inl e \<Rightarrow> Inl e) = Inr d"
    using assms unfolding evaluate_hsai_gate_def raw_def [symmetric] Let_def by auto
  obtain verdict where v: "map_of d ''decision'' = Some verdict"
    "pget gate ''allowed'' = JBool (verdict = JStr ''allow'')" using gate_of_Inr [OF gate] by auto
  show ?thesis
  proof (cases "validate_hsai_decision E S request raw")
    case (Inl e)
    then have "pget gate ''allowed'' \<noteq> JBool True" using d v by (auto split: py_exn.splits)
    moreover have "\<not> (\<exists>d. admit request = Inr (JObj d) \<and> validate_hsai_decision E S request (JObj d) = Inr ())"
      using Inl by (auto simp: raw_def)
    ultimately show ?thesis using vg by blast
  next
    case (Inr u)
    then have raw: "raw = JObj d" using d by simp
    show ?thesis
    proof (cases "admit request")
      case (Inl msg)
      then have "d = error_decision E now request (''hsai_unavailable:'' @ msg)" using raw by (simp add: raw_def)
      then show ?thesis using v vg Inl by auto
    next
      case (Inr w)
      then have "w = JObj d" using raw by (simp add: raw_def)
      then show ?thesis using Inr v vg \<open>validate_hsai_decision E S request raw = Inr u\<close> raw
        by (auto simp: map_of_pget)
    qed
  qed
qed

lemma decision_bound:
  assumes "validate_hsai_decision E S request (JObj d) = Inr ()"
  shows "pget d ''request_digest'' = JStr (sha256_digest E (JObj request))
    \<and> pget d ''decision_digest'' = JStr (decision_digest E d)
    \<and> py_eq (pget d ''mesh_run_id'') (pget request ''mesh_run_id'')
    \<and> py_eq (pget d ''mesh_action_id'') (pget request ''mesh_action_id'')
    \<and> py_eq (pget d ''action_kind'') (pget request ''action_kind'')
    \<and> py_eq (pget d ''candidate_digest'') (pget request ''candidate_payload_digest'')
    \<and> py_eq (pget d ''admission_policy_id'') (pget request ''mesh_policy_id'')
    \<and> set (map py_str (list_or_empty (pget request ''explicit_nonclaims'')))
        \<subseteq> set (map py_str (list_or_empty (pget d ''enforced_nonclaims'')))
    \<and> (pget d ''decision'' = JStr ''allow'' \<longrightarrow> truthy (pget request ''explicit_nonclaims''))"
  using assms unfolding validate_hsai_decision_def Let_def
  by (simp add: missing_items_Nil pget_def del: set_map) (elim exE conjE, simp del: set_map)

text \<open>A decision that passes the validation is bound to the request: it names the
  request's digest, run, action, kind, candidate and policy, enforces every non-claim the
  request made, carries its own digest, and says \<open>allow\<close> only where there are non-claims.\<close>

theorem hsai_decision_bound:
  assumes "validate_hsai_decision E S request (JObj d) = Inr ()"
  shows "pget d ''request_digest'' = JStr (sha256_digest E (JObj request))
    \<and> pget d ''decision_digest'' = JStr (decision_digest E d)
    \<and> py_eq (pget d ''mesh_run_id'') (pget request ''mesh_run_id'')
    \<and> py_eq (pget d ''mesh_action_id'') (pget request ''mesh_action_id'')
    \<and> py_eq (pget d ''action_kind'') (pget request ''action_kind'')
    \<and> py_eq (pget d ''candidate_digest'') (pget request ''candidate_payload_digest'')
    \<and> py_eq (pget d ''admission_policy_id'') (pget request ''mesh_policy_id'')
    \<and> set (map py_str (list_or_empty (pget request ''explicit_nonclaims'')))
        \<subseteq> set (map py_str (list_or_empty (pget d ''enforced_nonclaims'')))
    \<and> (pget d ''decision'' = JStr ''allow'' \<longrightarrow> truthy (pget request ''explicit_nonclaims''))"
  using assms by (rule decision_bound)

section \<open>The attached context is the one the executor checks\<close>

lemma pset_pset [simp]: "pset (pset d k v) k w = pset d k w"
  by (induction d) (auto simp: pset_def)

lemma pset_same: "map_of d k = Some v \<Longrightarrow> pset d k v = d"
  by (induction d) (auto simp: pset_def split: if_splits)

lemma ppop_pset [simp]: "ppop (pset d k v) k = ppop d k"
  by (induction d) (auto simp: pset_def ppop_def)

lemma ppop_ppop [simp]: "ppop (ppop d k) k = ppop d k"
  by (simp add: ppop_def delete_idem)

lemma ppop_absent: "\<not> phas d k \<Longrightarrow> ppop d k = d"
  by (simp add: phas_def ppop_def delete_id map_of_eq_None_iff)

lemma pset_execution_plan:
  "pset (decision_asdict d) ''execution_plan'' (JObj x) = decision_asdict (d\<lparr>execution_plan := x\<rparr>)"
  by (simp add: decision_asdict_def)

lemma from_asdict_Inr: "decision_from_dict S (decision_asdict d) = Inr d' \<Longrightarrow> d' = d
    \<and> validate_payload (S ''decision.schema.json'') (JObj (decision_asdict d)) = Inr ()"
  using decision_roundtrip [of S d] by (auto simp: decision_from_dict_def)

text \<open>The plan of a decision with the context stripped, for a decision that has parameters.\<close>

definition plan_without_context :: "Decision \<Rightarrow> jobj" where
  "plan_without_context d = pset (execution_plan d) ''parameters'' (JObj (ppop (parameters_of d) CONTEXT_KEY))"

lemma payload_without_context:
  assumes "pget (execution_plan d) ''parameters'' = JObj ps"
  shows "decision_payload_without_hsai_context S d =
    ebind (decision_to_dict S d) (\<lambda>_. Inr (decision_asdict (d\<lparr>execution_plan := plan_without_context d\<rparr>)))"
proof -
  have "plan_without_context d = execution_plan d" if "\<not> phas ps CONTEXT_KEY"
    using that assms by (auto simp: plan_without_context_def parameters_of_def ppop_absent pget_def intro!: pset_same split: option.splits)
  then show ?thesis
    using assms by (auto simp: decision_payload_without_hsai_context_def decision_to_dict_def Let_def
        pset_execution_plan plan_without_context_def parameters_of_def intro!: ebind_cong)
qed

lemma asdict_plan [simp]: "map_of (decision_asdict d) ''execution_plan'' = Some (JObj (execution_plan d))"
  by (simp add: decision_asdict_def)

lemma por_obj [simp]: "por (JObj x) (JObj []) = JObj x"
  by (cases x) (auto simp: por_def)

lemma attach_result:
  assumes "attach_hsai_execution_context E S d gate permit = Inr d'"
    and ps: "pget (execution_plan d) ''parameters'' = JObj ps"
  shows "\<exists>ctx. d' = d\<lparr>execution_plan := pset (execution_plan d) ''parameters'' (JObj (pset (ppop ps CONTEXT_KEY) CONTEXT_KEY (JObj ctx)))\<rparr>
     \<and> pget ctx ''schema_version'' = JStr EXECUTION_CONTEXT_V1 \<and> pget ctx ''request'' = pget gate ''request''
     \<and> pget ctx ''decision'' = pget gate ''decision'' \<and> pget ctx ''request_digest'' = pget gate ''request_digest''
     \<and> pget ctx ''decision_digest'' = pget gate ''decision_digest''
     \<and> pget ctx ''candidate_digest'' = pget gate ''candidate_digest''
     \<and> validate_payload (S ''decision.schema.json'') (JObj (decision_asdict d')) = Inr ()
     \<and> validate_bridge_gate E S gate (Some d) None None = Inr ()"
proof -
  have plan: "pget (plan_without_context d) ''parameters'' = JObj (ppop ps CONTEXT_KEY)"
    using ps by (simp add: plan_without_context_def parameters_of_def)
  have "\<exists>rq dc rd dd cd ex. map_of gate ''request'' = Some rq \<and> map_of gate ''decision'' = Some dc
      \<and> map_of gate ''request_digest'' = Some rd \<and> map_of gate ''decision_digest'' = Some dd
      \<and> map_of gate ''candidate_digest'' = Some cd \<and> validate_bridge_gate E S gate (Some d) None None = Inr ()
      \<and> decision_from_dict S (decision_asdict (d\<lparr>execution_plan :=
          pset (execution_plan d) ''parameters'' (JObj (pset (ppop ps CONTEXT_KEY) CONTEXT_KEY
            (JObj ([(''schema_version'', JStr EXECUTION_CONTEXT_V1), (''request'', rq), (''decision'', dc),
               (''request_digest'', rd), (''decision_digest'', dd), (''candidate_digest'', cd)] @ ex))))\<rparr>)) = Inr d'"
    using assms(1) plan
    by (cases permit) (auto simp: attach_hsai_execution_context_def payload_without_context [OF ps] Let_def
        pset_execution_plan plan_without_context_def)
  then obtain rq dc rd dd cd ex where g: "map_of gate ''request'' = Some rq" "map_of gate ''decision'' = Some dc"
      "map_of gate ''request_digest'' = Some rd" "map_of gate ''decision_digest'' = Some dd"
      "map_of gate ''candidate_digest'' = Some cd" and v: "validate_bridge_gate E S gate (Some d) None None = Inr ()"
    and new: "decision_from_dict S (decision_asdict (d\<lparr>execution_plan :=
          pset (execution_plan d) ''parameters'' (JObj (pset (ppop ps CONTEXT_KEY) CONTEXT_KEY
            (JObj ([(''schema_version'', JStr EXECUTION_CONTEXT_V1), (''request'', rq), (''decision'', dc),
               (''request_digest'', rd), (''decision_digest'', dd), (''candidate_digest'', cd)] @ ex))))\<rparr>)) = Inr d'"
    by blast
  from from_asdict_Inr [OF new] v g show ?thesis by (intro exI conjI) (auto simp: pget_def)
qed

lemma pget_ppop_other [simp]: "k' \<noteq> k \<Longrightarrow> pget (ppop d k) k' = pget d k'"
  by (simp add: pget_def)

lemma context_key_other [simp]:
  "''mesh_run_id'' \<noteq> CONTEXT_KEY" "''run_id'' \<noteq> CONTEXT_KEY" "''mesh_action_id'' \<noteq> CONTEXT_KEY"
  by (simp_all add: CONTEXT_KEY_def)

lemma bridge_gate_parts:
  assumes "validate_bridge_gate E S gate ed ev ap = Inr ()"
  shows "validate_hsai_decision E S (obj_or_empty (pget gate ''request'')) (JObj (obj_or_empty (pget gate ''decision''))) = Inr ()
    \<and> run_checks (gate_checks E gate (obj_or_empty (pget gate ''request'')) (obj_or_empty (pget gate ''decision''))) = Inr ()
    \<and> (\<forall>d. ed = Some d \<longrightarrow> decision_checks E S (obj_or_empty (pget gate ''request'')) d = Inr ())"
  using assms by (auto simp: validate_bridge_gate_def Let_def simp del: run_checks_Inr)

lemma decision_checks_ids:
  assumes "decision_checks E S request d = Inr ()"
  shows "map_of request ''mesh_run_id'' = Some (JStr (expected_mesh_run_id d))
    \<and> map_of request ''mesh_action_id'' = Some (JStr (expected_mesh_action_id d))
    \<and> (\<not> is_v2 request \<longrightarrow> (\<exists>p. decision_payload_without_hsai_context S d = Inr p
          \<and> map_of request ''candidate_payload_digest'' = Some (JStr (sha256_digest E (JObj p)))))"
  using assms by (auto simp: decision_checks_def Let_def split: if_splits)

lemma decision_checks_v2:
  assumes "decision_checks E S request d = Inr ()" and "is_v2 request"
    and "expected_mesh_run_id d' = expected_mesh_run_id d" and "expected_mesh_action_id d' = expected_mesh_action_id d"
  shows "decision_checks E S request d' = Inr ()"
  using assms by (auto simp: decision_checks_def Let_def split: if_splits)

text \<open>The context round trip. A decision to which the bridge attached the context of an
  admitted (\<open>allow\<close>) gate passes the executor's context check, with or without a permit in
  the context, for both request versions.\<close>

theorem hsai_context_accepted:
  assumes att: "attach_hsai_execution_context E S d gate permit = Inr d'"
    and ps: "pget (execution_plan d) ''parameters'' = JObj ps"
    and allow: "pget (obj_or_empty (pget gate ''decision'')) ''decision'' = JStr ''allow''"
  shows "\<exists>ctx. validate_hsai_execution_context E S d' = Inr ctx \<and> pget ctx ''request'' = pget gate ''request''
    \<and> repo_patch_admission_failure E S d' = Inr None"
proof -
  obtain ctx where d': "d' = d\<lparr>execution_plan := pset (execution_plan d) ''parameters''
        (JObj (pset (ppop ps CONTEXT_KEY) CONTEXT_KEY (JObj ctx)))\<rparr>"
    and ctx: "pget ctx ''schema_version'' = JStr EXECUTION_CONTEXT_V1" "pget ctx ''request'' = pget gate ''request''"
      "pget ctx ''decision'' = pget gate ''decision''" "pget ctx ''request_digest'' = pget gate ''request_digest''"
      "pget ctx ''decision_digest'' = pget gate ''decision_digest''"
      "pget ctx ''candidate_digest'' = pget gate ''candidate_digest''"
    and schema: "validate_payload (S ''decision.schema.json'') (JObj (decision_asdict d')) = Inr ()"
    and gate: "validate_bridge_gate E S gate (Some d) None None = Inr ()"
    using attach_result [OF att ps] by blast
  define rq where "rq = obj_or_empty (pget gate ''request'')"
  define dc where "dc = obj_or_empty (pget gate ''decision'')"
  note g = bridge_gate_parts [OF gate, folded rq_def dc_def]
  have params: "parameters_of d' = pset (ppop ps CONTEXT_KEY) CONTEXT_KEY (JObj ctx)"
    and params0: "parameters_of d = ps" using ps by (simp_all add: d' parameters_of_def)
  have ids: "expected_mesh_run_id d' = expected_mesh_run_id d" "expected_mesh_action_id d' = expected_mesh_action_id d"
    by (simp_all add: expected_mesh_run_id_def expected_mesh_action_id_def params params0) (simp_all add: d')
  have payload: "decision_payload_without_hsai_context S d' = Inr p" if "decision_payload_without_hsai_context S d = Inr p" for p
  proof -
    have ps': "pget (execution_plan d') ''parameters'' = JObj (parameters_of d')" by (simp add: params) (simp add: d')
    have "plan_without_context d' = plan_without_context d"
      by (simp add: plan_without_context_def params params0) (simp add: d')
    then show ?thesis using that schema payload_without_context [OF ps] payload_without_context [OF ps']
      by (auto simp: decision_to_dict_def d')
  qed
  have dd: "map_of dc ''decision'' = Some (JStr ''allow'')"
    using allow by (auto simp: dc_def pget_def split: option.splits)
  have "validate_bridge_gate E S gate' (Some d') None None = Inr ()"
    if "is_v2 rq" "gate_from_verified_contracts E rq dc = Inr gate'" for gate'
  proof -
    note g' = gate_of_Inr [OF that(2) [unfolded gate_from_verified_contracts_def]]
    have "decision_checks E S rq d' = Inr ()" using decision_checks_v2 [OF _ that(1) ids] g by blast
    moreover have "run_checks (gate_checks E gate' rq dc) = Inr ()"
      using g g' decision_bound [of E S rq dc] by (auto simp: gate_checks_def pget_def)
    ultimately show ?thesis using g g' dd unfolding validate_bridge_gate_def by (auto simp: Let_def pget_def)
  qed
  moreover have "\<exists>gate'. gate_from_verified_contracts E rq dc = Inr gate'"
    using g dd by (auto simp: gate_from_verified_contracts_def gate_of_def validate_hsai_decision_def)
  moreover note decision_checks_ids [OF g [THEN conjunct2, THEN conjunct2, rule_format, OF refl]]
  ultimately have ok: "validate_hsai_execution_context E S d' = Inr ctx"
    using g dd ctx ids payload unfolding validate_hsai_execution_context_def Let_def
    by (auto simp: params rq_def [symmetric] dc_def [symmetric] gate_checks_def)
  then show ?thesis using ctx by (simp add: repo_patch_admission_failure_def)
qed

section \<open>Verified proof packets\<close>

lemma verify_pass:
  assumes "verify_combined_proof_packet_payload E S packet request decision = Inr report"
    and "pget report ''status'' = JStr ''pass''"
  shows "validate_hsai_decision E S request (JObj decision) = Inr ()
    \<and> (\<exists>gate. gate_from_verified_contracts E request decision = Inr gate
         \<and> validate_combined_proof_packet E S gate packet = Inr ())
    \<and> validate_combined_proof_claim_adequacy request decision packet = Inr ()"
proof -
  define r where "r = ebind (validate_hsai_decision E S request (JObj decision)) (\<lambda>_.
        ebind (gate_from_verified_contracts E request decision) (\<lambda>gate.
        ebind (validate_combined_proof_packet E S gate packet) (\<lambda>_.
        validate_combined_proof_claim_adequacy request decision packet)))"
  have "r = Inr ()"
    using assms unfolding verify_combined_proof_packet_payload_def r_def [symmetric]
    by (auto split: sum.splits py_exn.splits)
  then show ?thesis by (auto simp: r_def)
qed

text \<open>A packet that verifies claims no more than was admitted: it carries the request's
  digest and the decision's verdict; where the verdict is \<open>allow\<close> the accepted claims are a
  nonempty part of the requested ones; where it is anything else there are none, the
  action was blocked, and no executor receipt exists.\<close>

theorem combined_packet_verified:
  assumes "verify_combined_proof_packet_payload E S packet request decision = Inr report"
    and "pget report ''status'' = JStr ''pass''"
  shows "pget packet ''hsai_request_digest'' = JStr (sha256_digest E (JObj request))
    \<and> py_eq (pget packet ''hsai_decision'') (pget decision ''decision'')
    \<and> \<not> phas packet ''accepted_claims''
    \<and> (pget decision ''decision'' = JStr ''allow'' \<longrightarrow> string_list (pget decision ''accepted_claims'') \<noteq> []
         \<and> set (string_list (pget decision ''accepted_claims'')) \<subseteq> set (string_list (pget request ''requested_claims'')))
    \<and> (pget decision ''decision'' \<noteq> JStr ''allow'' \<longrightarrow> string_list (pget decision ''accepted_claims'') = []
         \<and> pget (obj_or_empty (pget packet ''action_execution_result'')) ''status'' = JStr ''blocked''
         \<and> pget packet ''executor_receipt_digest'' = JNull)"
proof -
  obtain gate where g: "gate_from_verified_contracts E request decision = Inr gate"
    and v: "validate_combined_proof_packet E S gate packet = Inr ()"
    and c: "validate_combined_proof_claim_adequacy request decision packet = Inr ()"
    using verify_pass [OF assms] by blast
  note gate = gate_of_Inr [OF g [unfolded gate_from_verified_contracts_def]]
  have "same_item packet ''hsai_request_digest'' gate ''request_digest'' ''combined proof packet request digest mismatch'' = Inr ()"
    "same_item packet ''hsai_decision'' decision ''decision'' ''combined proof packet HSAI decision mismatch'' = Inr ()"
    "\<not> phas packet ''accepted_claims''"
    "str_or (pget (obj_or_empty (pget packet ''action_execution_result'')) ''status'') (JStr []) = ''blocked''
       \<Longrightarrow> pget packet ''executor_receipt_digest'' = JNull"
    using v gate unfolding validate_combined_proof_packet_def Let_def
    by (simp_all add: pget_def del: same_item_Inr) (elim exE conjE, simp)+
  moreover obtain verdict where "map_of decision ''decision'' = Some verdict" using gate by auto
  ultimately show ?thesis using c gate
    by (auto simp: validate_combined_proof_claim_adequacy_def Let_def pget_def str_or_def por_def split: if_splits)
qed

end
