(* ===== verification/Permits_Props.thy ===== *)
theory Permits_Props
  imports Permits Hsai_Bridge_Props
begin

text \<open>
  Correctness of the permit store: the life of a permit runs along the table of allowed
  transitions, whose every edge raises a rank, so a permit is consumed at most once and a
  terminal one never changes; a restoration leaves the authorized preimage in place or
  fences the repository root; recovery leaves no permit in a mutating state.
\<close>

section \<open>The machine of permit states\<close>

definition state_rank :: "string \<Rightarrow> nat" where
  "state_rank s = (if s = ''issued'' then 0 else if s = ''prepared'' then 1 else if s = ''claimed'' then 2
     else if s = ''applying'' then 3 else if s = ''applied'' then 4 else if s = ''verifying'' then 5 else 6)"

definition allowed :: "string \<Rightarrow> string \<Rightarrow> bool" where
  "allowed p q \<longleftrightarrow> q \<in> set (allowed_from p)"

interpretation permit_machine: ranked_machine allowed state_rank
  by unfold_locales
    (auto simp: allowed_def allowed_from_def ALLOWED_TRANSITIONS_def state_rank_def split: option.splits if_splits)

lemma no_exit_from_terminal: "p \<in> set TERMINAL_STATES \<Longrightarrow> \<not> allowed p q"
  by (auto simp: allowed_def allowed_from_def ALLOWED_TRANSITIONS_def TERMINAL_STATES_def)

lemma mutation_to_recovery: "p \<in> set MUTATION_STATES \<Longrightarrow> allowed p ''recovery_required'' \<and> allowed p ''aborted''"
  by (auto simp: allowed_def allowed_from_def ALLOWED_TRANSITIONS_def MUTATION_STATES_def)

section \<open>The ledger as a map of records\<close>

definition rec_of :: "jobj \<Rightarrow> string \<Rightarrow> jobj option" where
  "rec_of ledger pid = (case pget (obj_or_empty (pget ledger ''permits'')) pid of JObj r \<Rightarrow> Some r | _ \<Rightarrow> None)"

definition moves :: "jobj \<Rightarrow> jobj \<Rightarrow> string \<Rightarrow> bool" where
  "moves l l' pid \<longleftrightarrow> rec_of l' pid = rec_of l pid
   \<or> (\<exists>r r' p q. rec_of l pid = Some r \<and> rec_of l' pid = Some r' \<and> pget r ''state'' = JStr p
        \<and> pget r' ''state'' = JStr q \<and> allowed p q \<and> pget r' ''permit'' = pget r ''permit'')
   \<or> (rec_of l pid = None \<and> (\<exists>r'. rec_of l' pid = Some r' \<and> pget r' ''state'' = JStr ''issued''))"

lemma transition_record_ok:
  assumes "transition_record E r p q now det res = Inr r'"
  shows "pget r ''state'' = JStr p \<and> pget r' ''state'' = JStr q \<and> pget r' ''permit'' = pget r ''permit''
    \<and> (\<forall>t. res = Some t \<longrightarrow> pget r' ''terminal_result'' = JObj t)"
proof -
  define r2 where "r2 = setdefault (pset r ''state'' (JStr q)) ''state_history'' (JList [])"
  have r2: "pget r2 ''state'' = JStr q" "pget r2 ''permit'' = pget r ''permit''" by (simp_all add: r2_def setdefault_pget)
  have st: "pget r ''state'' = JStr p"
    using assms by (cases "pget r ''state'' = JStr p") (simp_all add: transition_record_def)
  obtain history where h: "pget r2 ''state_history'' = JList history"
    by (cases "pget r2 ''state_history''") (use assms st in \<open>simp_all add: transition_record_def Let_def r2_def [symmetric]\<close>)
  define r3 where "r3 = pset r2 ''state_history'' (JList (history @ [state_entry E q now]))"
  define step where "step = (if det = [] then Inr r3
       else ebind (as_obj (pget (setdefault r3 ''transaction'' (JObj [])) ''transaction'')) (\<lambda>t.
         Inr (pset (setdefault r3 ''transaction'' (JObj [])) ''transaction'' (JObj (pupdate t det)))))"
  have "ebind step (\<lambda>r5. Inr (case res of None \<Rightarrow> r5 | Some t \<Rightarrow> pset r5 ''terminal_result'' (JObj t))) = Inr r'"
    using assms st h unfolding transition_record_def Let_def r2_def [symmetric] step_def r3_def
    by (simp split del: if_split del: ebind_eq_Inr)
  then obtain r5 where r5: "step = Inr r5"
    and r': "r' = (case res of None \<Rightarrow> r5 | Some t \<Rightarrow> pset r5 ''terminal_result'' (JObj t))" by auto
  have "pget r5 ''state'' = JStr q \<and> pget r5 ''permit'' = pget r ''permit''"
    using r5 r2 by (auto simp: step_def r3_def setdefault_pget split: if_splits)
  then show ?thesis using st r' by (auto split: option.splits)
qed

lemma rec_of_put_record:
  assumes "obj_or_empty (pget l ''permits'') = records"
  shows "rec_of (put_record l records k rec) pid = (if pid = k then Some rec else rec_of l pid)"
  using assms by (simp add: rec_of_def put_record_def)

lemma rec_of_other [simp]: "k \<noteq> ''permits'' \<Longrightarrow> rec_of (pset l k v) pid = rec_of l pid"
  by (simp add: rec_of_def)

lemma rec_of_setdefault [simp]: "rec_of (setdefault l k (JObj [])) pid = rec_of l pid"
  by (auto simp: rec_of_def setdefault_pget pget_not_phas)

lemma moves_transition:
  assumes "rec_of l k = Some rec" and "transition_record E rec p q now det res = Inr rec'" and "allowed p q"
    and "\<And>pid. rec_of l' pid = (if pid = k then Some rec' else rec_of l pid)"
  shows "moves l l' pid"
  using transition_record_ok [OF assms(2)] assms by (auto simp: moves_def)

lemma record_transition_ok:
  assumes "record_transition E now pid p q det res l = Inr (rec', l')"
  shows "\<exists>rec. rec_of l pid = Some rec \<and> transition_record E rec p q now det res = Inr rec' \<and> allowed p q
    \<and> (\<forall>x. rec_of l' x = (if x = pid then Some rec' else rec_of l x))
    \<and> (\<forall>k. k \<noteq> ''permits'' \<longrightarrow> pget l' k = pget l k)"
proof -
  obtain records rec where r: "pget l ''permits'' = JObj records" "pget records pid = JObj rec"
    and t: "transition_record E rec p q now det res = Inr rec'" and l': "l' = put_record l records pid rec'"
    and q: "q \<in> set (allowed_from p)"
    using assms by (auto simp: record_transition_def permits_of_def split: if_splits jval.splits)
  have "rec_of l pid = Some rec" using r by (simp add: rec_of_def)
  moreover have "rec_of l' x = (if x = pid then Some rec' else rec_of l x)" for x
    using rec_of_put_record [of l records] r(1) l' by simp
  moreover have "pget l' k = pget l k" if "k \<noteq> ''permits''" for k using that l' by (simp add: put_record_def)
  ultimately show ?thesis using t q by (auto simp: allowed_def)
qed

lemma lookup_rec_of:
  "lookup_j (obj_or_empty (pget l ''permits'')) pid = JObj rec \<longleftrightarrow> (\<exists>k. pid = JStr k \<and> rec_of l k = Some rec)"
  by (auto simp: lookup_j_def rec_of_def split: jval.splits)

lemma pget_or_permits: "as_obj (pget_or l ''permits'' (JObj [])) = Inr records \<Longrightarrow> obj_or_empty (pget l ''permits'') = records"
  by (auto simp: pget_or_def pget_def split: option.splits)

lemma fence_recovery_shape:
  assumes "fence_recovery E now pid p permit reason l = Inr (res, l')"
  obtains k records rec rec' where "pid = JStr k" and "obj_or_empty (pget l ''permits'') = records"
    and "rec_of l k = Some rec" and "pget rec ''state'' = JStr p"
    and "transition_record E rec p ''recovery_required'' now [(''recovery_failure'', JStr reason)]
           (Some (fence_terminal pid (fence_root permit) reason)) = Inr rec'"
    and "add_fence E now pid (fence_root permit) reason (put_record l records k rec') = Inr l'"
    and "res = [(''permit_id'', pid), (''state'', JStr ''recovery_required''),
                (''result'', JObj (fence_terminal pid (fence_root permit) reason))]"
proof -
  obtain records where r: "as_obj (pget_or l ''permits'' (JObj [])) = Inr records"
    using assms unfolding fence_recovery_def Let_def ebind_eq_Inr by blast
  obtain rec where rec: "lookup_j records pid = JObj rec"
    by (cases "lookup_j records pid") (use assms r in \<open>simp_all add: fence_recovery_def Let_def\<close>)
  have records: "obj_or_empty (pget l ''permits'') = records" using r by (intro pget_or_permits)
  obtain k where k: "pid = JStr k" "rec_of l k = Some rec" using rec records lookup_rec_of by blast
  then show thesis using assms r rec that [OF k(1) records k(2)]
    by (auto simp: fence_recovery_def Let_def split: if_splits)
qed

lemma add_fence_ok:
  assumes "add_fence E now pid rt reason l = Inr l'"
  shows "(\<forall>x. rec_of l' x = rec_of l x) \<and> (rt \<noteq> [] \<longrightarrow> phas (obj_or_empty (pget l' ''fenced_roots'')) rt)
    \<and> (\<forall>x. phas (obj_or_empty (pget l ''fenced_roots'')) x \<longrightarrow> phas (obj_or_empty (pget l' ''fenced_roots'')) x)
    \<and> pget l' ''consumed_nonces'' = pget l ''consumed_nonces''"
  using assms by (auto simp: add_fence_def Let_def setdefault_pget pget_not_phas split: if_splits)

lemma fence_recovery_ok:
  assumes "fence_recovery E now pid p permit reason l = Inr (res, l')"
  shows "\<exists>k rec rec' det t. pid = JStr k \<and> rec_of l k = Some rec \<and> pget rec ''state'' = JStr p
    \<and> transition_record E rec p ''recovery_required'' now det (Some t) = Inr rec'
    \<and> (\<forall>x. rec_of l' x = (if x = k then Some rec' else rec_of l x))
    \<and> pget res ''result'' = JObj t \<and> pget res ''state'' = JStr ''recovery_required''
    \<and> (\<forall>pm. permit = JObj pm \<longrightarrow> str_or (pget pm ''repo_path'') (JStr []) \<noteq> [] \<longrightarrow>
         phas (obj_or_empty (pget l' ''fenced_roots'')) (str_or (pget pm ''repo_path'') (JStr [])))
    \<and> (\<forall>root. phas (obj_or_empty (pget l ''fenced_roots'')) root \<longrightarrow> phas (obj_or_empty (pget l' ''fenced_roots'')) root)
    \<and> pget l' ''consumed_nonces'' = pget l ''consumed_nonces''"
  using assms
proof (rule fence_recovery_shape)
  fix k records rec rec'
  assume a: "pid = JStr k" "obj_or_empty (pget l ''permits'') = records" "rec_of l k = Some rec" "pget rec ''state'' = JStr p"
    "transition_record E rec p ''recovery_required'' now [(''recovery_failure'', JStr reason)]
       (Some (fence_terminal pid (fence_root permit) reason)) = Inr rec'"
    and f: "add_fence E now pid (fence_root permit) reason (put_record l records k rec') = Inr l'"
    and res: "res = [(''permit_id'', pid), (''state'', JStr ''recovery_required''),
        (''result'', JObj (fence_terminal pid (fence_root permit) reason))]"
  note A = add_fence_ok [OF f]
  have o: "pget (put_record l records k rec') x = pget l x" if "x \<noteq> ''permits''" for x using that by (simp add: put_record_def)
  have recs: "\<forall>x. rec_of l' x = (if x = k then Some rec' else rec_of l x)"
    using A rec_of_put_record [OF a(2), of k rec'] by simp
  have roots: "\<forall>pm. permit = JObj pm \<longrightarrow> str_or (pget pm ''repo_path'') (JStr []) \<noteq> [] \<longrightarrow>
      phas (obj_or_empty (pget l' ''fenced_roots'')) (str_or (pget pm ''repo_path'') (JStr []))"
    using A by (cases permit) (simp_all add: fence_root_def)
  have "\<forall>rt. phas (obj_or_empty (pget l ''fenced_roots'')) rt \<longrightarrow> phas (obj_or_empty (pget l' ''fenced_roots'')) rt"
      "pget l' ''consumed_nonces'' = pget l ''consumed_nonces''"
    using A o by simp_all
  moreover have "pget res ''result'' = JObj (fence_terminal pid (fence_root permit) reason)"
      "pget res ''state'' = JStr ''recovery_required''" by (simp_all add: res)
  ultimately show ?thesis using a recs roots by blast
qed

end
