(* ===== verification/Permits_Life.thy ===== *)
theory Permits_Life
  imports Permits_Props
begin

text \<open>
  The life of a permit: the operations of the store as steps on the ledger and the file
  system, what every run keeps, and the properties of runs. Files may change under the
  store's feet at any time (step \<open>world\<close>).
\<close>

section \<open>Records only move forward\<close>

fun rank_of :: "jobj \<Rightarrow> nat" where
  "rank_of r = (case pget r ''state'' of JStr s \<Rightarrow> state_rank s | _ \<Rightarrow> 6)"

text \<open>A record stays, moves to a state of higher rank, or is fenced: a terminal record whose state is in \<open>A\<close>
  may be set to \<open>recovery_required\<close>, because \<open>_fence_recovery\<close> does not consult \<open>ALLOWED_TRANSITIONS\<close>.\<close>

definition advances :: "string set \<Rightarrow> jobj \<Rightarrow> jobj \<Rightarrow> bool" where
  "advances A r r' \<longleftrightarrow> r' = r \<or> rank_of r < rank_of r'
     \<or> pget r ''state'' \<in> JStr ` A \<and> rank_of r = 6 \<and> pget r' ''state'' = JStr ''recovery_required''"

definition forward :: "string set \<Rightarrow> jobj \<Rightarrow> jobj \<Rightarrow> bool" where
  "forward A l l' \<longleftrightarrow> (\<forall>pid r. rec_of l pid = Some r \<longrightarrow>
     (\<exists>r'. rec_of l' pid = Some r' \<and> pget r' ''permit'' = pget r ''permit'' \<and> advances A r r'))"

lemma rank_of_le: "rank_of r \<le> 6"
  by (simp add: state_rank_def split: jval.splits)

lemma rank_of_recovery: "pget r ''state'' = JStr ''recovery_required'' \<Longrightarrow> rank_of r = 6"
  by (simp add: state_rank_def)

lemma advances_refl [simp]: "advances A r r"
  by (simp add: advances_def)

lemma advances_trans: "advances A r r1 \<Longrightarrow> advances A r1 r2 \<Longrightarrow> advances A r r2"
  using rank_of_le [of r1] rank_of_le [of r2] rank_of_recovery [of r1] rank_of_recovery [of r2]
  unfolding advances_def by (elim disjE conjE) (simp_all del: rank_of.simps)

lemma forward_refl [simp]: "forward A l l"
  by (simp add: forward_def)

lemma forward_trans: "forward A a b \<Longrightarrow> forward A b c \<Longrightarrow> forward A a c"
  unfolding forward_def
proof (intro allI impI)
  fix pid r
  assume ab: "\<forall>pid r. rec_of a pid = Some r \<longrightarrow>
      (\<exists>r'. rec_of b pid = Some r' \<and> pget r' ''permit'' = pget r ''permit'' \<and> advances A r r')"
    and bc: "\<forall>pid r. rec_of b pid = Some r \<longrightarrow>
      (\<exists>r'. rec_of c pid = Some r' \<and> pget r' ''permit'' = pget r ''permit'' \<and> advances A r r')"
    and r: "rec_of a pid = Some r"
  obtain r1 where r1: "rec_of b pid = Some r1" "pget r1 ''permit'' = pget r ''permit''" "advances A r r1"
    using ab r by blast
  obtain r2 where r2: "rec_of c pid = Some r2" "pget r2 ''permit'' = pget r1 ''permit''" "advances A r1 r2"
    using bc r1(1) by blast
  show "\<exists>r'. rec_of c pid = Some r' \<and> pget r' ''permit'' = pget r ''permit'' \<and> advances A r r'"
    using r1 r2 advances_trans [OF r1(3) r2(3)] by (intro exI [of _ r2]) simp
qed

lemma moves_forward: "(\<And>pid. moves l l' pid) \<Longrightarrow> forward A l l'"
  unfolding forward_def
proof (intro allI impI)
  fix pid r
  assume m: "\<And>pid. moves l l' pid" and r: "rec_of l pid = Some r"
  show "\<exists>r'. rec_of l' pid = Some r' \<and> pget r' ''permit'' = pget r ''permit'' \<and> advances A r r'"
    using m [of pid] r permit_machine.rank_mono by (auto simp: moves_def advances_def)
qed

lemma same_records_forward: "(\<And>pid. rec_of l' pid = rec_of l pid) \<Longrightarrow> forward A l l'"
  by (simp add: forward_def)

text \<open>What no operation removes: consumed nonces and fenced roots.\<close>

definition nonces_of :: "jobj \<Rightarrow> jobj" where
  "nonces_of l = obj_or_empty (pget l ''consumed_nonces'')"

definition fences_of :: "jobj \<Rightarrow> jobj" where
  "fences_of l = obj_or_empty (pget l ''fenced_roots'')"

definition keeps :: "string set \<Rightarrow> jobj \<Rightarrow> jobj \<Rightarrow> bool" where
  "keeps A l l' \<longleftrightarrow> forward A l l' \<and> (\<forall>n. phas (nonces_of l) n \<longrightarrow> phas (nonces_of l') n)
     \<and> (\<forall>root. phas (fences_of l) root \<longrightarrow> phas (fences_of l') root)"

lemma keeps_refl [simp]: "keeps A l l"
  by (simp add: keeps_def)

lemma keeps_trans: "keeps A a b \<Longrightarrow> keeps A b c \<Longrightarrow> keeps A a c"
  unfolding keeps_def using forward_trans by blast

lemma of_setdefault [simp]:
  "nonces_of (setdefault l k (JObj [])) = nonces_of l" "fences_of (setdefault l k (JObj [])) = fences_of l"
  by (auto simp: nonces_of_def fences_of_def setdefault_pget pget_not_phas)

lemma of_pset [simp]:
  "k \<noteq> ''consumed_nonces'' \<Longrightarrow> nonces_of (pset l k v) = nonces_of l"
  "k \<noteq> ''fenced_roots'' \<Longrightarrow> fences_of (pset l k v) = fences_of l"
  by (simp_all add: nonces_of_def fences_of_def)

lemma of_put_record [simp]:
  "nonces_of (put_record l records k r) = nonces_of l" "fences_of (put_record l records k r) = fences_of l"
  by (simp_all add: put_record_def)

section \<open>Each operation moves forward\<close>

lemma record_transition_keeps:
  assumes "record_transition E now pid p q det res l = Inr (rec', l')"
  shows "keeps A l l'"
proof -
  obtain rec where r: "rec_of l pid = Some rec" "transition_record E rec p q now det res = Inr rec'" "allowed p q"
      "\<And>x. rec_of l' x = (if x = pid then Some rec' else rec_of l x)" and o: "\<And>k. k \<noteq> ''permits'' \<Longrightarrow> pget l' k = pget l k"
    using record_transition_ok [OF assms] by blast
  have "forward A l l'" by (rule moves_forward, rule moves_transition [OF r])
  then show ?thesis using o by (simp add: keeps_def nonces_of_def fences_of_def)
qed

lemma fence_recovery_keeps:
  assumes "fence_recovery E now pid p permit reason l = Inr (res, l')" and "p \<in> set MUTATION_STATES \<or> p \<in> A"
  shows "keeps A l l'"
proof -
  obtain k rec rec' det t where r: "rec_of l k = Some rec"
      "transition_record E rec p ''recovery_required'' now det (Some t) = Inr rec'"
      "\<And>x. rec_of l' x = (if x = k then Some rec' else rec_of l x)"
    and f: "\<And>root. phas (obj_or_empty (pget l ''fenced_roots'')) root \<Longrightarrow> phas (obj_or_empty (pget l' ''fenced_roots'')) root"
      "pget l' ''consumed_nonces'' = pget l ''consumed_nonces''"
    using fence_recovery_ok [OF assms(1)] by blast
  have t: "pget rec ''state'' = JStr p" "pget rec' ''state'' = JStr ''recovery_required''" "pget rec' ''permit'' = pget rec ''permit''"
    using transition_record_ok [OF r(2)] by simp_all
  have "rank_of rec < 6 \<or> rank_of rec = 6" using rank_of_le [of rec] by linarith
  moreover have "rank_of rec < 6" if "p \<in> set MUTATION_STATES" using that t(1) by (auto simp: MUTATION_STATES_def state_rank_def)
  ultimately have "advances A rec rec'" using assms(2) t rank_of_recovery [OF t(2)] by (auto simp: advances_def simp del: rank_of.simps)
  then have "forward A l l'" using r t(3) by (auto simp: forward_def)
  then show ?thesis using f by (simp add: keeps_def fences_of_def nonces_of_def)
qed

lemma consume_ok:
  assumes "consume E S cfg now fs permit d key params l = Inr (res, l')"
  shows "\<exists>k nonce rec rec'. map_of permit ''permit_id'' = Some (JStr k) \<and> map_of permit ''authority_nonce'' = Some nonce
    \<and> validate_permit E S cfg now fs permit d key params = Inr ()
    \<and> rec_of l k = Some rec \<and> py_eq (pget rec ''permit'') (JObj permit)
    \<and> transition_record E rec ''prepared'' ''claimed'' now [] None = Inr rec'
    \<and> (\<forall>x. rec_of l' x = (if x = k then Some rec' else rec_of l x))
    \<and> \<not> phas (nonces_of l) (py_str nonce) \<and> phas (nonces_of l') (py_str nonce)
    \<and> (\<forall>n. phas (nonces_of l) n \<longrightarrow> phas (nonces_of l') n) \<and> fences_of l' = fences_of l"
proof -
  obtain u records pid where "validate_permit E S cfg now fs permit d key params = Inr u"
    and "permits_of l = Inr records" and "pidx permit ''permit_id'' = Inr pid"
    using assms unfolding consume_def ebind_eq_Inr by blast
  then have v: "validate_permit E S cfg now fs permit d key params = Inr ()" and recs: "pget l ''permits'' = JObj records" and pid: "map_of permit ''permit_id'' = Some pid"
    by (auto simp: permits_of_def pidx_def split: jval.splits option.splits)
  obtain rec where rec: "lookup_j records pid = JObj rec"
    by (cases "lookup_j records pid") (use assms v recs pid in \<open>simp_all add: consume_def permits_of_def pidx_def\<close>)
  obtain k where k: "pid = JStr k" "rec_of l k = Some rec"
    using lookup_rec_of [of l pid rec] rec recs by auto
  define l0 where "l0 = setdefault l ''consumed_nonces'' (JObj [])"
  obtain nonces nonce rec' where c: "py_eq (pget rec ''permit'') (JObj permit)"
      "pget l0 ''consumed_nonces'' = JObj nonces" "map_of permit ''authority_nonce'' = Some nonce"
      "\<not> phas nonces (py_str nonce)" "transition_record E rec ''prepared'' ''claimed'' now [] None = Inr rec'"
    and l': "l' = pset (put_record l0 records k rec') ''consumed_nonces'' (JObj (pset nonces (py_str nonce) pid))"
    using assms v recs pid rec k(1) unfolding consume_def permits_of_def l0_def [symmetric]
    by (auto simp: Let_def split: if_splits)
  have "nonces_of l = nonces" using c(2) of_setdefault(1) [of l "''consumed_nonces''"]
    by (simp add: nonces_of_def l0_def)
  moreover have "pget l0 ''permits'' = JObj records" using recs by (simp add: l0_def setdefault_pget)
  then have "rec_of l' x = (if x = k then Some rec' else rec_of l x)" for x
    using rec_of_put_record [of l0 records k rec' x] by (simp add: l' l0_def)
  moreover have "nonces_of l' = pset nonces (py_str nonce) pid" by (simp add: nonces_of_def l')
  moreover have "fences_of l' = fences_of l" by (simp add: l' l0_def)
  ultimately show ?thesis using pid k v c by (intro exI [of _ k] exI [of _ nonce] exI [of _ rec] exI [of _ rec']) simp
qed

lemma consume_keeps:
  assumes "consume E S cfg now fs permit d key params l = Inr (res, l')"
  shows "keeps A l l'"
proof -
  obtain k rec rec' where r: "rec_of l k = Some rec"
      "transition_record E rec ''prepared'' ''claimed'' now [] None = Inr rec'"
      "\<And>x. rec_of l' x = (if x = k then Some rec' else rec_of l x)"
    and o: "\<And>n. phas (nonces_of l) n \<Longrightarrow> phas (nonces_of l') n" "fences_of l' = fences_of l"
    using consume_ok [OF assms] by blast
  have "allowed ''prepared'' ''claimed''"
    by (simp add: allowed_def allowed_from_def ALLOWED_TRANSITIONS_def)
  then have "forward A l l'" by (intro moves_forward moves_transition [OF r(1,2) _ r(3)])
  then show ?thesis using o by (simp add: keeps_def)
qed

lemma ledger_sections_same [simp]:
  "rec_of (ledger_sections l) pid = rec_of l pid" "nonces_of (ledger_sections l) = nonces_of l"
  "fences_of (ledger_sections l) = fences_of l"
  by (simp_all add: ledger_sections_def)

lemma ledger_sections_pget:
  "k \<notin> {''permits'', ''consumed_nonces'', ''idempotency'', ''fenced_roots''} \<Longrightarrow> pget (ledger_sections l) k = pget l k"
  by (simp add: ledger_sections_def setdefault_pget)

lemma seal_permit_pget:
  assumes "k \<notin> {''authority_entry_digest'', ''ledger_tip_after'', ''permit_digest'', ''authorization_proof''}"
  shows "pget (seal_permit E cfg tip p) k = pget p k"
  using assms by (simp add: seal_permit_def Let_def)

lemma permit_fields_pget:
  assumes "permit_fields E cfg now expires gate request admission v params pid nonce key repo target pre post tip = Inr p"
  shows "pget p ''permit_id'' = JStr pid \<and> pget p ''authority_nonce'' = JStr nonce
    \<and> pget p ''expected_ledger_tip_before'' = JStr tip \<and> pget p ''repo_path'' = JStr repo \<and> pget p ''target_path'' = JStr target
    \<and> pget p ''target_preimage_digest'' = JStr pre \<and> pget p ''target_postimage_digest'' = JStr post
    \<and> pget p ''canonical_actuation_payload_digest'' = JStr (cdigest E (JObj params))"
  using assms unfolding permit_fields_def ebind_eq_Inr by (elim exE conjE) (simp, elim subst, simp)

lemma issue_fresh_ok:
  assumes "issue_fresh E S cfg now token1 token2 v gate key ttl permit_id nonce0 params (repo, target, pre, post)
      permits idempotency l = Inr (permit, l')"
    and "pget l ''permits'' = JObj permits"
  shows "\<exists>pid. rec_of l pid = None \<and> validate_permit_semantics E permit = Inr ()
    \<and> (\<forall>x. rec_of l' x = (if x = pid then Some [(''permit'', JObj permit), (''state'', JStr ''issued''),
             (''state_history'', JList [state_entry E ''issued'' now])] else rec_of l x))
    \<and> nonces_of l' = nonces_of l \<and> fences_of l' = fences_of l
    \<and> pget permit ''permit_id'' = JStr pid \<and> pget permit ''repo_path'' = JStr repo \<and> pget permit ''target_path'' = JStr target
    \<and> pget permit ''target_preimage_digest'' = JStr pre \<and> pget permit ''target_postimage_digest'' = JStr post
    \<and> pget permit ''canonical_actuation_payload_digest'' = JStr (cdigest E (JObj params))
    \<and> pget permit ''expected_ledger_tip_before'' = JStr (str_or (pget l ''tip'') (JStr GENESIS_LEDGER_TIP))
    \<and> pget l' ''tip'' = pget permit ''ledger_tip_after'' \<and> pget l' ''idempotency'' = JObj (pset idempotency key (JStr pid))"
proof -
  define pid where "pid = (case permit_id of Some (c # cs) \<Rightarrow> c # cs | _ \<Rightarrow> ''permit_'' @ token1)"
  define nonce where "nonce = (case nonce0 of Some (c # cs) \<Rightarrow> c # cs | _ \<Rightarrow> token2)"
  define tip where "tip = str_or (pget l ''tip'') (JStr GENESIS_LEDGER_TIP)"
  have free: "\<not> phas permits pid"
    using assms(1) unfolding issue_fresh_def Let_def prod.case pid_def [symmetric] by (auto split: if_splits)
  obtain base where base: "permit_fields E cfg now (now + ttl * 1000000) gate (obj_or_empty (pget gate ''request''))
        (obj_or_empty (pget gate ''decision'')) v params pid nonce key repo target pre post tip = Inr base"
    and p: "permit = seal_permit E cfg tip base" and sem: "validate_permit_semantics E permit = Inr ()"
    and l': "l' = pset (pset (put_record l permits pid [(''permit'', JObj permit), (''state'', JStr ''issued''),
                 (''state_history'', JList [state_entry E ''issued'' now])]) ''idempotency''
              (JObj (pset idempotency key (JStr pid)))) ''tip'' (pget permit ''ledger_tip_after'')"
    using assms(1) unfolding issue_fresh_def Let_def prod.case pid_def [symmetric] nonce_def [symmetric] tip_def [symmetric]
    by (auto split: if_splits)
  have "rec_of l pid = None" using free assms(2) by (simp add: rec_of_def pget_not_phas)
  moreover have "rec_of l' x = (if x = pid then Some [(''permit'', JObj permit), (''state'', JStr ''issued''),
             (''state_history'', JList [state_entry E ''issued'' now])] else rec_of l x)" for x
    using rec_of_put_record [of l permits pid _ x] assms(2) by (simp add: l')
  moreover have "nonces_of l' = nonces_of l" "fences_of l' = fences_of l" "pget l' ''tip'' = pget permit ''ledger_tip_after''"
      "pget l' ''idempotency'' = JObj (pset idempotency key (JStr pid))"
    by (simp_all add: l')
  moreover note permit_fields_pget [OF base]
  ultimately show ?thesis using sem by (intro exI [of _ pid]) (simp add: p seal_permit_pget tip_def)
qed

end
