(* ===== verification/Permits_Steps.thy ===== *)
theory Permits_Steps
  imports Permits_Life
begin

text \<open>
  Issuing, restoration and recovery, the runs of the permit store and what holds along them.
\<close>

section \<open>Issuing\<close>

text \<open>The two outcomes under the lock: the stored permit again, or a fresh one.\<close>

lemma issue_locked_ok:
  assumes "issue_locked E S cfg now token1 token2 v gate key ttl permit_id nonce0 params binding l = Inr (permit, l')"
  shows "\<exists>permits idempotency. \<not> phas (fences_of l) (fst binding)
    \<and> pget (ledger_sections l) ''permits'' = JObj permits
    \<and> pget (ledger_sections l) ''idempotency'' = JObj idempotency
    \<and> (if pget idempotency key = JNull
       then issue_fresh E S cfg now token1 token2 v gate key ttl permit_id nonce0 params binding permits idempotency
              (ledger_sections l) = Inr (permit, l')
       else l' = ledger_sections l \<and> pget (obj_or_empty (lookup_j permits (pget idempotency key))) ''permit'' = JObj permit
          \<and> pget permit ''canonical_actuation_payload_digest'' = JStr (cdigest E (JObj params)))"
proof -
  define l0 where "l0 = ledger_sections l"
  obtain permits nonces idempotency roots where s: "pget l0 ''permits'' = JObj permits" "pget l0 ''consumed_nonces'' = JObj nonces"
      "pget l0 ''idempotency'' = JObj idempotency" "pget l0 ''fenced_roots'' = JObj roots"
    using assms unfolding issue_locked_def Let_def l0_def [symmetric] ebind_eq_Inr as_obj_eq_Inr by blast
  have fences: "fences_of l = roots" using s(4) ledger_sections_same(3) [of l] by (simp add: fences_of_def l0_def)
  have nf: "\<not> phas roots (fst binding)"
    using assms s unfolding issue_locked_def Let_def l0_def [symmetric] by (auto split: if_splits)
  show ?thesis
  proof (cases "pget idempotency key = JNull")
    case True
    then have "issue_fresh E S cfg now token1 token2 v gate key ttl permit_id nonce0 params binding permits idempotency l0
        = Inr (permit, l')"
      using assms s nf unfolding issue_locked_def Let_def l0_def [symmetric] by simp
    then show ?thesis using s nf fences True by (auto simp: l0_def)
  next
    case False
    have "\<exists>p. pget (obj_or_empty (lookup_j permits (pget idempotency key))) ''permit'' = JObj p"
      by (cases "pget (obj_or_empty (lookup_j permits (pget idempotency key))) ''permit''")
        (use assms s nf False in \<open>simp_all add: issue_locked_def Let_def l0_def [symmetric]\<close>)
    then obtain p where p: "pget (obj_or_empty (lookup_j permits (pget idempotency key))) ''permit'' = JObj p" by blast
    have "l' = l0 \<and> p = permit \<and> pget p ''canonical_actuation_payload_digest'' = JStr (cdigest E (JObj params))"
      using assms s nf False p unfolding issue_locked_def Let_def l0_def [symmetric]
      by (auto simp: pget_def split: if_splits)
    then show ?thesis using s nf fences False p by (auto simp: l0_def)
  qed
qed

lemma issue_ok:
  assumes "issue E S cfg now fs token1 token2 d v gate key ttl permit_id nonce0 l = Inr (permit, l')"
  shows "\<exists>ps repo target pre content post. issue_checks E S cfg d v gate key ttl = Inr ()
    \<and> map_of (execution_plan d) ''parameters'' = Some (JObj ps)
    \<and> repo_patch_target_binding E fs (canonical_actuation_parameters ps) = Inr (repo, target, pre)
    \<and> repo_patch_postimage E fs (canonical_actuation_parameters ps) target = Inr (content, post)
    \<and> issue_locked E S cfg now token1 token2 v gate key ttl permit_id nonce0 (canonical_actuation_parameters ps)
        (repo, target, pre, post) l = Inr (permit, l')"
  using assms unfolding issue_def by (auto split: prod.splits)

lemma issue_locked_keeps:
  assumes "issue_locked E S cfg now token1 token2 v gate key ttl permit_id nonce0 params binding l = Inr (permit, l')"
  shows "keeps A l l'"
proof -
  obtain permits idempotency where o: "pget (ledger_sections l) ''permits'' = JObj permits"
    "if pget idempotency key = JNull
       then issue_fresh E S cfg now token1 token2 v gate key ttl permit_id nonce0 params binding permits idempotency
              (ledger_sections l) = Inr (permit, l')
       else l' = ledger_sections l"
    using issue_locked_ok [OF assms] by (metis (no_types, lifting))
  obtain repo target pre post where b: "binding = (repo, target, pre, post)" by (metis prod.exhaust)
  show ?thesis
  proof (cases "pget idempotency key = JNull")
    case True
    then have "issue_fresh E S cfg now token1 token2 v gate key ttl permit_id nonce0 params (repo, target, pre, post)
        permits idempotency (ledger_sections l) = Inr (permit, l')" using o(2) b by simp
    from issue_fresh_ok [OF this o(1)] obtain pid r where r: "rec_of l pid = None"
        "\<And>x. rec_of l' x = (if x = pid then Some r else rec_of l x)"
        "nonces_of l' = nonces_of l" "fences_of l' = fences_of l"
      unfolding ledger_sections_same by blast
    have "forward A l l'" using r(1,2) by (auto simp: forward_def)
    then show ?thesis using r by (simp add: keeps_def)
  next
    case False
    then have "l' = ledger_sections l" using o by simp
    then show ?thesis by (simp add: keeps_def same_records_forward)
  qed
qed

section \<open>Restoration\<close>

text \<open>What the shared restoration block leaves: on success the target holds the authorized
  preimage; every error is one that the callers handle; no other file changes.\<close>

lemma restore_target_Inr:
  assumes "restore_target E cfg fs details permit msg = (Inr backup, fs')"
  shows "\<exists>tp pre content. map_of permit ''target_path'' = Some tp \<and> map_of permit ''target_preimage_digest'' = Some pre
    \<and> fs_file fs backup = Some content
    \<and> fs' = atomic_replace_bytes fs (path_str (py_str tp)) content
    \<and> pre = JStr (bytes_digest E content)
    \<and> file_digest E fs' (path_str (py_str tp)) = Inr (bytes_digest E content)"
proof -
  obtain target pre content where c: "restore_checks E cfg fs details permit msg = Inr (backup, target, pre)"
      "fs_file fs backup = Some content" "fs' = atomic_replace_bytes fs target content" "pre = JStr (bytes_digest E content)"
    using assms unfolding restore_target_def
    by (auto simp: Let_def file_digest_def atomic_replace_bytes_def bytes_digest_def split: sum.splits option.splits)
  obtain tp where "map_of permit ''target_path'' = Some tp" "target = path_str (py_str tp)"
      "map_of permit ''target_preimage_digest'' = Some pre"
    using c(1) unfolding restore_checks_def by (auto simp: Let_def split: if_splits)
  then show ?thesis using c by (intro exI [of _ tp] exI [of _ pre] exI [of _ content])
      (simp add: file_digest_def atomic_replace_bytes_def bytes_digest_def)
qed

lemma ck_recoverable: "ck b m = Inl e \<Longrightarrow> recoverable e"
  by (auto simp: ck_def split: if_splits)

lemma file_digest_recoverable: "file_digest E fs p = Inl e \<Longrightarrow> recoverable e"
  by (auto simp: file_digest_def split: option.splits)

lemma pidx_recoverable: "pidx d k = Inl e \<Longrightarrow> recoverable e"
  by (auto simp: pidx_def split: option.splits)

lemmas recoverables = ck_recoverable file_digest_recoverable pidx_recoverable

lemma restore_target_Inl:
  assumes "restore_target E cfg fs details permit msg = (Inl e, fs')"
  shows "recoverable e"
proof -
  have "validated_backup_path E cfg fs details permit = Inl e \<Longrightarrow> recoverable e" for e
    by (auto simp: validated_backup_path_def Let_def ebind_eq_Inl split: option.splits if_splits intro: recoverables)
  then have "restore_checks E cfg fs details permit msg = Inl e \<Longrightarrow> recoverable e" for e
    by (auto simp: restore_checks_def Let_def ebind_eq_Inl split: if_splits intro: recoverables)
  then show ?thesis using assms
    by (auto simp: restore_target_def Let_def ebind_eq_Inl split: sum.splits option.splits prod.splits intro: recoverables)
qed

text \<open>The two ways a restoration ends: the permit is aborted and its target holds the
  authorized preimage, or the record waits for recovery and the repository root is fenced.\<close>

definition restored :: "pyenv \<Rightarrow> jobj \<Rightarrow> fsys \<Rightarrow> bool" where
  "restored E permit fs \<longleftrightarrow> (\<exists>tp dg. pget permit ''target_path'' = tp \<and> file_digest E fs (path_str (py_str tp)) = Inr dg
     \<and> pget permit ''target_preimage_digest'' = JStr dg)"

definition fenced :: "jobj \<Rightarrow> jobj \<Rightarrow> bool" where
  "fenced permit l \<longleftrightarrow> (let root = str_or (pget permit ''repo_path'') (JStr []) in root = [] \<or> phas (fences_of l) root)"

lemma restore_target_restored:
  "restore_target E cfg fs details permit msg = (Inr backup, fs') \<Longrightarrow> restored E permit fs'"
  using restore_target_Inr [of E cfg fs details permit msg backup fs'] by (auto simp: restored_def pget_def)

lemma abort_ok:
  assumes "abort_with_restoration E cfg now permit p reason results l fs = (Inr (res, l'), fs')"
  shows "\<exists>pid r r'. map_of permit ''permit_id'' = Some (JStr pid) \<and> rec_of l pid = Some r \<and> pget r ''state'' = JStr p
    \<and> rec_of l' pid = Some r' \<and> pget r' ''terminal_result'' = JObj res
    \<and> (pget r' ''state'' = JStr ''aborted'' \<and> restored E permit fs'
       \<or> pget r' ''state'' = JStr ''recovery_required'' \<and> fenced permit l')
    \<and> (\<forall>A. p \<in> set MUTATION_STATES \<or> p \<in> A \<longrightarrow> keeps A l l')"
proof -
  define attempt where "attempt = (case restoration_details permit p l of
      Inl e \<Rightarrow> (Inl e, fs)
    | Inr details \<Rightarrow> restore_target E cfg fs details permit ''repo patch restoration target became a symlink'')"
  show ?thesis
  proof (cases "fst attempt")
    case (Inl e)
    then obtain pid recovery where p: "map_of permit ''permit_id'' = Some pid"
        "fence_recovery E now pid p (JObj permit) (exn_text e) l = Inr (recovery, l')"
        "res = obj_or_empty (pget recovery ''result'')"
      using assms unfolding abort_with_restoration_def attempt_def [symmetric]
      by (cases attempt) (auto split: if_splits)
    obtain k rec rec' det t where f: "pid = JStr k" "rec_of l k = Some rec" "pget rec ''state'' = JStr p"
        "transition_record E rec p ''recovery_required'' now det (Some t) = Inr rec'"
        "rec_of l' k = Some rec'" "pget recovery ''result'' = JObj t"
      and roots: "str_or (pget permit ''repo_path'') (JStr []) \<noteq> [] \<Longrightarrow>
         phas (obj_or_empty (pget l' ''fenced_roots'')) (str_or (pget permit ''repo_path'') (JStr []))"
      using fence_recovery_ok [OF p(2)] by (metis (no_types, lifting))
    have "fenced permit l'" using roots by (auto simp: fenced_def fences_of_def Let_def)
    then show ?thesis using p f transition_record_ok [OF f(4)] fence_recovery_keeps [OF p(2)] by auto
  next
    case (Inr backup)
    then obtain pid rec' where p: "map_of permit ''permit_id'' = Some pid"
        "record_transition E now (py_str pid) p ''aborted'' [(''restored'', JBool True), (''restored_at'', JStr (format_time E now))]
           (Some res) l = Inr (rec', l')" and fs': "fs' = snd attempt"
      using assms unfolding abort_with_restoration_def attempt_def [symmetric]
      by (cases attempt) auto
    obtain details where d: "restoration_details permit p l = Inr details"
        "restore_target E cfg fs details permit ''repo patch restoration target became a symlink'' = (Inr backup, fs')"
      using Inr fs' by (auto simp: attempt_def split: sum.splits) (metis prod.collapse)
    then obtain k where k: "pid = JStr k"
      using p(1) by (auto simp: restoration_details_def lookup_j_def split: jval.splits)
    obtain rec where r: "rec_of l k = Some rec" 
        "transition_record E rec p ''aborted'' now [(''restored'', JBool True), (''restored_at'', JStr (format_time E now))] (Some res) = Inr rec'"
        "rec_of l' k = Some rec'"
      using record_transition_ok [OF p(2)] k by auto
    show ?thesis using p k r transition_record_ok [OF r(2)] restore_target_restored [OF d(2)]
        record_transition_keeps [OF p(2)] by auto
  qed
qed

end
