(* ===== verification/Permits_Recovery.thy ===== *)
theory Permits_Recovery
  imports Permits_Steps
begin

text \<open>
  Recovery after a crash, the well-formedness of the ledger, and the runs of the store.
\<close>

section \<open>Recovery\<close>

lemma recover_one_ok:
  assumes "recover_one E cfg now (pid, rec) l fs = (Inr (item, l'), fs')" and "str_in (pget rec ''state'') MUTATION_STATES"
  shows "keeps A l l' \<and> (\<forall>x. x \<noteq> pid \<longrightarrow> rec_of l' x = rec_of l x)
    \<and> (\<exists>r'. rec_of l' pid = Some r'
        \<and> (pget r' ''state'' = JStr ''aborted'' \<and> restored E (obj_or_empty (pget rec ''permit'')) fs'
          \<or> pget r' ''state'' = JStr ''recovery_required'' \<and> fenced (obj_or_empty (pget rec ''permit'')) l'))"
proof -
  obtain p where p: "pget rec ''state'' = JStr p" "p \<in> set MUTATION_STATES"
    using assms(2) by (auto simp: str_in_def split: jval.splits)
  have fence: ?thesis if f0: "fence_recovery E now (JStr pid) p (pget rec ''permit'') reason l = Inr (item, l')" for reason
  proof -
    obtain k rec0 rec' det t where k: "JStr pid = JStr k" and f0': "rec_of l k = Some rec0"
        "transition_record E rec0 p ''recovery_required'' now det (Some t) = Inr rec'"
        "\<forall>x. rec_of l' x = (if x = k then Some rec' else rec_of l x)"
      and roots: "\<forall>pm. pget rec ''permit'' = JObj pm \<longrightarrow> str_or (pget pm ''repo_path'') (JStr []) \<noteq> [] \<longrightarrow>
         phas (obj_or_empty (pget l' ''fenced_roots'')) (str_or (pget pm ''repo_path'') (JStr []))"
      using fence_recovery_ok [OF f0] by (elim exE conjE) (rule that)
    then have f: "rec_of l pid = Some rec0"
        "transition_record E rec0 p ''recovery_required'' now det (Some t) = Inr rec'"
        "\<forall>x. rec_of l' x = (if x = pid then Some rec' else rec_of l x)" by simp_all
    have "fenced (obj_or_empty (pget rec ''permit'')) l'"
      using roots by (cases "pget rec ''permit''") (auto simp: fenced_def fences_of_def Let_def str_or_def por_def)
    then show ?thesis using f transition_record_ok [OF f(2)] fence_recovery_keeps [OF f0 disjI1 [OF p(2)]] by auto
  qed
  show ?thesis
  proof (cases "\<exists>permit details. pget rec ''permit'' = JObj permit \<and> pget rec ''transaction'' = JObj details")
    case False
    then have "fence_recovery E now (JStr pid) p (pget rec ''permit'') ''authority transaction metadata is missing'' l = Inr (item, l')"
      using assms(1) p by (auto simp: recover_one_def Let_def split: jval.splits)
    then show ?thesis by (rule fence)
  next
    case True
    then obtain permit details where pd: "pget rec ''permit'' = JObj permit" "pget rec ''transaction'' = JObj details" by blast
    obtain r fs1 where t: "restore_target E cfg fs details permit ''repo patch recovery target became a symlink'' = (r, fs1)"
      by fastforce
    show ?thesis
    proof (cases r)
      case (Inl e)
      then have "fence_recovery E now (JStr pid) p (pget rec ''permit'') (exn_text e) l = Inr (item, l')"
        using assms(1) p pd t by (auto simp: recover_one_def split: if_splits)
      then show ?thesis by (rule fence)
    next
      case (Inr backup)
      then obtain terminal rec' where tr: "record_transition E now pid p ''aborted''
          [(''recovered_at'', JStr (format_time E now)), (''restored'', JBool True)] (Some terminal) l = Inr (rec', l')"
        and fs': "fs' = fs1"
        using assms(1) p pd t by (auto simp: recover_one_def)
      obtain rec0 where r: "transition_record E rec0 p ''aborted'' now
          [(''recovered_at'', JStr (format_time E now)), (''restored'', JBool True)] (Some terminal) = Inr rec'"
          "\<And>x. rec_of l' x = (if x = pid then Some rec' else rec_of l x)"
        using record_transition_ok [OF tr] by blast
      have "restored E permit fs'" using restore_target_restored t Inr fs' by blast
      then show ?thesis using r transition_record_ok [OF r(1)] record_transition_keeps [OF tr] pd by auto
    qed
  qed
qed

lemma recover_loop_ok:
  assumes "recover_loop E cfg now cs l fs = (res, l', fs')"
    and "\<And>c. c \<in> set cs \<Longrightarrow> str_in (pget (snd c) ''state'') MUTATION_STATES"
  shows "keeps A l l' \<and> (\<forall>x. x \<notin> fst ` set cs \<longrightarrow> rec_of l' x = rec_of l x)
    \<and> (is_ok res \<longrightarrow> (\<forall>x \<in> fst ` set cs. \<exists>r'. rec_of l' x = Some r' \<and> \<not> str_in (pget r' ''state'') MUTATION_STATES))"
  using assms
proof (induction cs arbitrary: l fs res l' fs')
  case (Cons c cs)
  obtain pid rec where c: "c = (pid, rec)" by fastforce
  obtain o1 fs1 where one: "recover_one E cfg now c l fs = (o1, fs1)" by fastforce
  show ?case
  proof (cases o1)
    case (Inl e)
    then show ?thesis using Cons.prems(1) one by auto
  next
    case (Inr il)
    then obtain item l1 where o1: "o1 = Inr (item, l1)" by (cases il) simp
    obtain res1 l2 fs2 where lp: "recover_loop E cfg now cs l1 fs1 = (res1, l2, fs2)" by (metis prod.exhaust)
    have fin: "l' = l2" "is_ok res \<longleftrightarrow> is_ok res1"
      using Cons.prems(1) one o1 lp by (auto split: sum.splits)
    note s1 = recover_one_ok [where A = A, OF one [unfolded c o1]]
    have m: "str_in (pget rec ''state'') MUTATION_STATES" using Cons.prems(2) [of c] c by simp
    obtain r1 where r1: "rec_of l1 pid = Some r1" "\<not> str_in (pget r1 ''state'') MUTATION_STATES"
      using s1 [OF m] by (fastforce simp: str_in_def MUTATION_STATES_def)
    have IH: "keeps A l1 l2 \<and> (\<forall>x. x \<notin> fst ` set cs \<longrightarrow> rec_of l2 x = rec_of l1 x)
      \<and> (is_ok res1 \<longrightarrow> (\<forall>x \<in> fst ` set cs. \<exists>r'. rec_of l2 x = Some r' \<and> \<not> str_in (pget r' ''state'') MUTATION_STATES))"
      using Cons.IH [OF lp] Cons.prems(2) by simp
    then have "keeps A l l2" using s1 [OF m] keeps_trans [of A l l1 l2] by blast
    moreover have "\<exists>r'. rec_of l2 pid = Some r' \<and> \<not> str_in (pget r' ''state'') MUTATION_STATES"
      if "is_ok res1" using IH that r1 by (cases "pid \<in> fst ` set cs") auto
    ultimately show ?thesis using IH fin s1 [OF m] c by auto
  qed
qed auto

lemma recovery_candidates_iff:
  "rec_of l pid = Some r \<Longrightarrow> str_in (pget r ''state'') MUTATION_STATES \<Longrightarrow>
   (pid, r) \<in> set (recovery_candidates (obj_or_empty (pget l ''permits'')))"
  by (auto simp: recovery_candidates_def rec_of_def pget_def split: jval.splits option.splits
      intro!: bexI [of _ "(pid, JObj r)"] dest: map_of_SomeD)

lemma recovery_candidates_state:
  "c \<in> set (recovery_candidates records) \<Longrightarrow> str_in (pget (snd c) ''state'') MUTATION_STATES"
  by (auto simp: recovery_candidates_def split: jval.splits if_splits)

lemma recover_incomplete_ok:
  assumes "recover_incomplete_actions E cfg now l fs = (res, l', fs')"
  shows "keeps A l l' \<and> (is_ok res \<longrightarrow> (\<forall>pid r. rec_of l' pid = Some r \<longrightarrow> \<not> str_in (pget r ''state'') MUTATION_STATES))"
proof (cases "\<exists>records. pget_or l ''permits'' (JObj []) = JObj records")
  case True
  then obtain records where r: "pget_or l ''permits'' (JObj []) = JObj records" by blast
  then have records: "obj_or_empty (pget l ''permits'') = records" by (intro pget_or_permits) simp
  have lp: "recover_loop E cfg now (recovery_candidates records) l fs = (res, l', fs')"
    using assms r by (simp add: recover_incomplete_actions_def)
  have L: "keeps A l l' \<and> (\<forall>x. x \<notin> fst ` set (recovery_candidates records) \<longrightarrow> rec_of l' x = rec_of l x)
    \<and> (is_ok res \<longrightarrow> (\<forall>x \<in> fst ` set (recovery_candidates records).
          \<exists>r'. rec_of l' x = Some r' \<and> \<not> str_in (pget r' ''state'') MUTATION_STATES))"
    by (rule recover_loop_ok [OF lp]) (rule recovery_candidates_state)
  have "\<not> str_in (pget r ''state'') MUTATION_STATES" if "is_ok res" "rec_of l' pid = Some r" for pid r
  proof (cases "pid \<in> fst ` set (recovery_candidates records)")
    case True
    then show ?thesis using L that by fastforce
  next
    case False
    then have "rec_of l pid = Some r" using L that by auto
    then show ?thesis using recovery_candidates_iff [of l pid r] False records by force
  qed
  then show ?thesis using L by blast
next
  case False
  then have "res = Inl (ValueError ''repo patch authority ledger is missing permits'') \<and> l' = l"
    using assms by (auto simp: recover_incomplete_actions_def split: jval.splits)
  then show ?thesis by simp
qed

end
