(* ===== verification/Permits_Wf.thy ===== *)
theory Permits_Wf
  imports Permits_Recovery
begin

text \<open>
  Well-formed ledgers: every operation keeps them so, and on a well-formed ledger recovery
  always runs to its end.
\<close>

section \<open>Well-formed records\<close>

declare is_forms [simp]

definition wf_record :: "jobj \<Rightarrow> bool" where
  "wf_record r \<longleftrightarrow> is_str (pget r ''state'') \<and> is_list (pget r ''state_history'')
     \<and> (phas r ''transaction'' \<longrightarrow> is_obj (pget r ''transaction''))
     \<and> (\<exists>p. pget r ''permit'' = JObj p \<and> phas p ''permit_id'')"

definition wf_ledger :: "jobj \<Rightarrow> bool" where
  "wf_ledger l \<longleftrightarrow> (phas l ''permits'' \<longrightarrow> is_obj (pget l ''permits''))
     \<and> (phas l ''fenced_roots'' \<longrightarrow> is_obj (pget l ''fenced_roots''))
     \<and> distinct (map fst (obj_or_empty (pget l ''permits'')))
     \<and> (\<forall>pid r. rec_of l pid = Some r \<longrightarrow> wf_record r)"

text \<open>A matching state is enough for a transition of a well-formed record, and it stays
  well-formed.\<close>

lemma transition_record_total:
  assumes "wf_record r" and "pget r ''state'' = JStr p"
  shows "\<exists>r'. transition_record E r p q now det res = Inr r' \<and> wf_record r'"
proof -
  obtain h where h: "pget r ''state_history'' = JList h" using assms(1) by (auto simp: wf_record_def)
  then have has: "phas r ''state_history''" by (simp add: phas_if_pget)
  define r3 where "r3 = pset (pset r ''state'' (JStr q)) ''state_history'' (JList (h @ [state_entry E q now]))"
  have r3: "wf_record r3" using assms(1) by (auto simp: wf_record_def r3_def)
  define r4 where "r4 = setdefault r3 ''transaction'' (JObj [])"
  obtain t where t: "pget r4 ''transaction'' = JObj t"
    using r3 by (cases "phas r3 ''transaction''") (auto simp: wf_record_def r4_def setdefault_pget)
  define r5 where "r5 = (if det = [] then r3 else pset r4 ''transaction'' (JObj (pupdate t det)))"
  have r5: "wf_record r5" using r3 by (auto simp: wf_record_def r5_def r4_def setdefault_pget)
  have "transition_record E r p q now det res
     = Inr (case res of None \<Rightarrow> r5 | Some x \<Rightarrow> pset r5 ''terminal_result'' (JObj x))"
  proof -
    have s: "setdefault (pset r ''state'' (JStr q)) ''state_history'' (JList []) = pset r ''state'' (JStr q)"
      using has by (simp add: setdefault_def)
    have "pget (pset r ''state'' (JStr q)) ''state_history'' = JList h" using h by simp
    then show ?thesis using assms(2) t
      unfolding transition_record_def Let_def s by (cases res) (simp_all add: r3_def [symmetric] r4_def [symmetric] r5_def)
  qed
  moreover have "wf_record (pset r5 ''terminal_result'' (JObj x))" for x
    using r5 by (auto simp: wf_record_def)
  ultimately show ?thesis using r5 by (cases res) auto
qed

lemma transition_record_wf:
  assumes "transition_record E r p q now det res = Inr r'" and "wf_record r"
  shows "wf_record r'"
  using transition_record_total [OF assms(2), of p E q now det res] transition_record_ok [OF assms(1)] assms(1) by auto

section \<open>Operations keep the ledger well-formed\<close>

lemma wf_rec_of: "wf_ledger l \<Longrightarrow> rec_of l pid = Some r \<Longrightarrow> wf_record r"
  by (simp add: wf_ledger_def)

lemma wf_put_record:
  assumes "wf_ledger l" and "obj_or_empty (pget l ''permits'') = records" and "wf_record r"
  shows "wf_ledger (put_record l records k r)"
proof -
  have "pget (put_record l records k r) ''permits'' = JObj (pset records k (JObj r))"
    "pget (put_record l records k r) ''fenced_roots'' = pget l ''fenced_roots''"
    "phas (put_record l records k r) ''fenced_roots'' = phas l ''fenced_roots''"
    by (simp_all add: put_record_def)
  then show ?thesis using assms rec_of_put_record [OF assms(2), of k r]
    by (auto simp: wf_ledger_def distinct_pset)
qed

lemma wf_pset_other:
  assumes "wf_ledger l" and "k \<noteq> ''permits''" and "k = ''fenced_roots'' \<longrightarrow> is_obj v"
  shows "wf_ledger (pset l k v)"
  using assms by (cases "k = ''fenced_roots''") (auto simp: wf_ledger_def)

lemma wf_setdefault: "wf_ledger l \<Longrightarrow> wf_ledger (setdefault l k (JObj []))"
  unfolding wf_ledger_def rec_of_setdefault
  by (auto simp: setdefault_def pget_not_phas pget_pset)

lemma record_transition_wf:
  assumes "record_transition E now pid p q det res l = Inr (rec', l')" and "wf_ledger l"
  shows "wf_ledger l'"
proof -
  obtain records rec where r: "pget l ''permits'' = JObj records" "pget records pid = JObj rec"
    and t: "transition_record E rec p q now det res = Inr rec'" and l': "l' = put_record l records pid rec'"
    using assms(1) by (auto simp: record_transition_def permits_of_def split: if_splits jval.splits)
  have "rec_of l pid = Some rec" using r by (simp add: rec_of_def)
  then have "wf_record rec" using assms(2) by (auto simp: wf_ledger_def)
  then show ?thesis unfolding l' using assms(2) r(1) transition_record_wf [OF t] by (intro wf_put_record) simp_all
qed

lemma add_fence_wf: "add_fence E now pid rt reason l = Inr l' \<Longrightarrow> wf_ledger l \<Longrightarrow> wf_ledger l'"
  by (auto simp: add_fence_def Let_def intro: wf_pset_other wf_setdefault split: if_splits)

lemma add_fence_total:
  assumes "wf_ledger l"
  shows "\<exists>l'. add_fence E now pid rt reason l = Inr l'"
proof -
  have "wf_ledger (setdefault l ''fenced_roots'' (JObj []))" using assms by (rule wf_setdefault)
  then obtain roots where "pget (setdefault l ''fenced_roots'' (JObj [])) ''fenced_roots'' = JObj roots"
    by (auto simp: wf_ledger_def)
  then show ?thesis by (simp add: add_fence_def)
qed

lemma fence_recovery_wf:
  assumes "fence_recovery E now pid p permit reason l = Inr (res, l')" and "wf_ledger l"
  shows "wf_ledger l'"
  using assms(1)
proof (rule fence_recovery_shape)
  fix k records rec rec'
  assume a: "obj_or_empty (pget l ''permits'') = records" "rec_of l k = Some rec"
    "transition_record E rec p ''recovery_required'' now [(''recovery_failure'', JStr reason)]
       (Some (fence_terminal pid (fence_root permit) reason)) = Inr rec'"
    "add_fence E now pid (fence_root permit) reason (put_record l records k rec') = Inr l'"
  have "wf_record rec'" using transition_record_wf [OF a(3)] a(2) assms(2) by (auto simp: wf_ledger_def)
  then show ?thesis using add_fence_wf [OF a(4)] wf_put_record [OF assms(2) a(1)] by blast
qed

lemma wf_permits:
  assumes "wf_ledger l"
  obtains records where "pget_or l ''permits'' (JObj []) = JObj records" "obj_or_empty (pget l ''permits'') = records"
  using assms by (cases "phas l ''permits''") (auto simp: wf_ledger_def pget_or_def pget_def phas_def)

lemma fence_recovery_total:
  assumes "wf_ledger l" and "rec_of l k = Some rec" and "pget rec ''state'' = JStr p"
  shows "\<exists>res l'. fence_recovery E now (JStr k) p permit reason l = Inr (res, l')"
proof -
  obtain records where r: "pget_or l ''permits'' (JObj []) = JObj records" "obj_or_empty (pget l ''permits'') = records"
    using assms(1) by (rule wf_permits)
  then have lk: "lookup_j records (JStr k) = JObj rec"
    using lookup_rec_of [of l "JStr k" rec] assms(2) by simp
  obtain rec' where t: "transition_record E rec p ''recovery_required'' now [(''recovery_failure'', JStr reason)]
       (Some (fence_terminal (JStr k) (fence_root permit) reason)) = Inr rec'" "wf_record rec'"
    using transition_record_total [OF wf_rec_of [OF assms(1,2)] assms(3)] by blast
  obtain l' where "add_fence E now (JStr k) (fence_root permit) reason (put_record l records k rec') = Inr l'"
    using add_fence_total wf_put_record [OF assms(1) r(2) t(2)] by blast
  then show ?thesis using r(1) lk t(1) assms(3) by (simp add: fence_recovery_def Let_def)
qed

lemma record_transition_total:
  assumes "wf_ledger l" and "rec_of l k = Some rec" and "pget rec ''state'' = JStr p" and "allowed p q"
    and "q \<in> set TERMINAL_STATES \<longleftrightarrow> res \<noteq> None"
  shows "\<exists>r' l'. record_transition E now k p q det res l = Inr (r', l')"
proof -
  obtain records where r: "pget l ''permits'' = JObj records" "pget records k = JObj rec"
    using assms(2) by (cases "pget l ''permits''") (auto simp: rec_of_def split: jval.splits)
  obtain r' where "transition_record E rec p q now det res = Inr r'"
    using transition_record_total [OF wf_rec_of [OF assms(1,2)] assms(3)] by blast
  then show ?thesis using r assms(4,5)
    by (cases res) (simp_all add: record_transition_def permits_of_def allowed_def)
qed

lemma abort_total:
  assumes "wf_ledger l" and "rec_of l pid = Some rec" and "pget rec ''state'' = JStr p" and "p \<in> set MUTATION_STATES"
    and "map_of permit ''permit_id'' = Some (JStr pid)"
  shows "\<exists>res l' fs'. abort_with_restoration E cfg now permit p reason results l fs = (Inr (res, l'), fs')"
proof -
  define attempt where "attempt = (case restoration_details permit p l of
      Inl e \<Rightarrow> (Inl e, fs)
    | Inr details \<Rightarrow> restore_target E cfg fs details permit ''repo patch restoration target became a symlink'')"
  show ?thesis
  proof (cases "fst attempt")
    case (Inl e)
    obtain records where "pget_or l ''permits'' (JObj []) = JObj records" using assms(1) by (rule wf_permits)
    then have "restoration_details permit p l = Inl e \<Longrightarrow> recoverable e"
      using assms(5) by (auto simp: restoration_details_def ebind_eq_Inl split: jval.splits if_splits intro: pidx_recoverable)
    moreover have "restore_target E cfg fs d permit m = (Inl e, x) \<Longrightarrow> recoverable e" for d m x by (rule restore_target_Inl)
    ultimately have "recoverable e" using Inl by (cases "restoration_details permit p l")
        (auto simp: attempt_def, metis prod.collapse)
    moreover obtain recovery l' where "fence_recovery E now (JStr pid) p (JObj permit) (exn_text e) l = Inr (recovery, l')"
      using fence_recovery_total [OF assms(1-3)] by blast
    ultimately show ?thesis using Inl assms(5) unfolding abort_with_restoration_def attempt_def [symmetric]
      by (cases attempt) (simp add: pidx_def)
  next
    case (Inr backup)
    obtain terminal where a: "aborted_result permit reason backup results = Inr terminal"
      using assms(5) by (auto simp: aborted_result_def)
    have "allowed p ''aborted''" "''aborted'' \<in> set TERMINAL_STATES"
      using mutation_to_recovery assms(4) by (auto simp: TERMINAL_STATES_def)
    then obtain r' l' where "record_transition E now pid p ''aborted''
        [(''restored'', JBool True), (''restored_at'', JStr (format_time E now))] (Some terminal) l = Inr (r', l')"
      using record_transition_total [OF assms(1-3), of "''aborted''" "Some terminal"] by simp blast
    then show ?thesis using Inr a assms(5) unfolding abort_with_restoration_def attempt_def [symmetric]
      by (cases attempt) (simp add: pidx_def)
  qed
qed

lemma recover_one_total:
  assumes "wf_ledger l" and "rec_of l pid = Some rec" and "str_in (pget rec ''state'') MUTATION_STATES"
  shows "\<exists>item l' fs'. recover_one E cfg now (pid, rec) l fs = (Inr (item, l'), fs') \<and> wf_ledger l'"
proof -
  obtain p where p: "pget rec ''state'' = JStr p" "p \<in> set MUTATION_STATES"
    using assms(3) by (auto simp: str_in_def split: jval.splits)
  have fence: "\<exists>item l'. fence_recovery E now (JStr pid) p (pget rec ''permit'') reason l = Inr (item, l') \<and> wf_ledger l'" for reason
    using fence_recovery_total [OF assms(1,2) p(1)] fence_recovery_wf assms(1) by blast
  obtain permit where pm: "pget rec ''permit'' = JObj permit" "phas permit ''permit_id''"
    using wf_rec_of [OF assms(1,2)] by (auto simp: wf_record_def)
  show ?thesis
  proof (cases "\<exists>details. pget rec ''transaction'' = JObj details")
    case False
    then show ?thesis using fence p pm by (auto simp: recover_one_def Let_def split: jval.splits)
  next
    case True
    then obtain details where d: "pget rec ''transaction'' = JObj details" by blast
    obtain r fs1 where t: "restore_target E cfg fs details permit ''repo patch recovery target became a symlink'' = (r, fs1)"
      by fastforce
    show ?thesis
    proof (cases r)
      case (Inl e)
      then have "recoverable e" using restore_target_Inl t by blast
      then show ?thesis using fence [of "exn_text e"] p pm d t Inl by (auto simp: recover_one_def)
    next
      case (Inr backup)
      obtain terminal where a: "aborted_result permit ''incomplete repo patch authority transaction restored during recovery'' backup [] = Inr terminal"
        using pm(2) by (auto simp: aborted_result_def phas_def)
      have "allowed p ''aborted''" "''aborted'' \<in> set TERMINAL_STATES"
        using mutation_to_recovery p(2) by (auto simp: TERMINAL_STATES_def)
      then obtain r' l' where "record_transition E now pid p ''aborted''
          [(''recovered_at'', JStr (format_time E now)), (''restored'', JBool True)] (Some terminal) l = Inr (r', l')"
        using record_transition_total [OF assms(1,2) p(1), of "''aborted''" "Some terminal"] by simp blast
      then show ?thesis using a p pm d t Inr record_transition_wf assms(1)
        by (auto simp: recover_one_def)
    qed
  qed
qed

lemma recover_loop_total:
  assumes "wf_ledger l" and "distinct (map fst cs)"
    and "\<And>c. c \<in> set cs \<Longrightarrow> rec_of l (fst c) = Some (snd c) \<and> str_in (pget (snd c) ''state'') MUTATION_STATES"
  shows "\<exists>items l' fs'. recover_loop E cfg now cs l fs = (Inr items, l', fs') \<and> wf_ledger l'"
  using assms
proof (induction cs arbitrary: l fs)
  case (Cons c cs)
  obtain pid rec where c: "c = (pid, rec)" by fastforce
  have m: "rec_of l pid = Some rec" "str_in (pget rec ''state'') MUTATION_STATES" using Cons.prems(3) [of c] c by auto
  obtain item l1 fs1 where one: "recover_one E cfg now (pid, rec) l fs = (Inr (item, l1), fs1)" "wf_ledger l1"
    using recover_one_total [OF Cons.prems(1) m] by blast
  have same: "rec_of l1 x = rec_of l x" if "x \<noteq> pid" for x using recover_one_ok [OF one(1) m(2)] that by blast
  have "rec_of l1 (fst b) = Some (snd b) \<and> str_in (pget (snd b) ''state'') MUTATION_STATES" if "b \<in> set cs" for b
  proof -
    have "fst b \<noteq> pid" using Cons.prems(2) c that by force
    then show ?thesis using Cons.prems(3) [of b] that same by simp
  qed
  then have "\<exists>items l' fs'. recover_loop E cfg now cs l1 fs1 = (Inr items, l', fs') \<and> wf_ledger l'"
    using Cons.prems(2) by (intro Cons.IH [OF one(2)]) auto
  then obtain items l2 fs2 where "recover_loop E cfg now cs l1 fs1 = (Inr items, l2, fs2)" "wf_ledger l2" by blast
  then show ?case using one(1) c by simp
qed simp

lemma candidates_distinct: "distinct (map fst records) \<Longrightarrow> distinct (map fst (recovery_candidates records))"
proof (induction records)
  case (Cons kr records)
  obtain k r where kr: "kr = (k, r)" by fastforce
  have "k \<notin> fst ` set (recovery_candidates records)"
    using Cons.prems kr by (force simp: recovery_candidates_def split: jval.splits if_splits)
  then show ?case using Cons kr by (auto simp: recovery_candidates_def split: jval.splits)
qed (simp add: recovery_candidates_def)

lemma candidates_current:
  assumes "wf_ledger l" and "c \<in> set (recovery_candidates (obj_or_empty (pget l ''permits'')))"
  shows "rec_of l (fst c) = Some (snd c)"
proof -
  have "(fst c, JObj (snd c)) \<in> set (obj_or_empty (pget l ''permits''))"
    using assms(2) by (auto simp: recovery_candidates_def split: jval.splits if_splits)
  then have "map_of (obj_or_empty (pget l ''permits'')) (fst c) = Some (JObj (snd c))"
    using assms(1) by (auto simp: wf_ledger_def)
  then show ?thesis by (simp add: rec_of_def pget_def)
qed

lemma recover_incomplete_total:
  assumes "wf_ledger l"
  shows "\<exists>items l' fs'. recover_incomplete_actions E cfg now l fs = (Inr items, l', fs') \<and> wf_ledger l'"
proof -
  obtain records where r: "pget_or l ''permits'' (JObj []) = JObj records" "obj_or_empty (pget l ''permits'') = records"
    using assms by (rule wf_permits)
  have "distinct (map fst (recovery_candidates records))"
    using candidates_distinct assms r(2) by (auto simp: wf_ledger_def)
  moreover have "rec_of l (fst c) = Some (snd c) \<and> str_in (pget (snd c) ''state'') MUTATION_STATES"
    if "c \<in> set (recovery_candidates records)" for c
    using candidates_current [OF assms] recovery_candidates_state that r(2) by blast
  ultimately obtain items l' fs' where "recover_loop E cfg now (recovery_candidates records) l fs = (Inr items, l', fs')" "wf_ledger l'"
    using recover_loop_total [OF assms] by blast
  then show ?thesis using r(1) by (simp add: recover_incomplete_actions_def)
qed

end
