(* ===== verification/Permits_Correct.thy ===== *)
theory Permits_Correct
  imports Permits_Wf
begin

text \<open>
  The permit store as a transition system, and its correctness theorems. A state is a ledger
  with the files; a step is a successful operation with any arguments, a recovery, or a
  change of the files by anyone else (which also covers an aborted restoration).
\<close>

section \<open>Runs\<close>

lemma consume_wf:
  assumes "consume E S cfg now fs permit d key params l = Inr (res, l')" and "wf_ledger l"
  shows "wf_ledger l'"
proof -
  obtain u records pid where "permits_of l = Inr records" and "pidx permit ''permit_id'' = Inr pid"
    and v: "validate_permit E S cfg now fs permit d key params = Inr u"
    using assms(1) unfolding consume_def ebind_eq_Inr by blast
  then have recs: "pget l ''permits'' = JObj records" and pid: "map_of permit ''permit_id'' = Some pid"
    by (auto simp: permits_of_def split: jval.splits)
  obtain rec where rec: "lookup_j records pid = JObj rec"
    by (cases "lookup_j records pid") (use assms(1) v recs pid in \<open>simp_all add: consume_def permits_of_def pidx_def\<close>)
  obtain k where k: "pid = JStr k" "rec_of l k = Some rec" using lookup_rec_of [of l pid rec] rec recs by auto
  define l0 where "l0 = setdefault l ''consumed_nonces'' (JObj [])"
  obtain nonces n rec' where c: "transition_record E rec ''prepared'' ''claimed'' now [] None = Inr rec'"
    and l': "l' = pset (put_record l0 records k rec') ''consumed_nonces'' (JObj (pset nonces n pid))"
    using assms(1) v recs pid rec k(1) unfolding consume_def permits_of_def l0_def [symmetric]
    by (auto simp: Let_def split: if_splits)
  have "wf_ledger l0" using assms(2) by (simp add: l0_def wf_setdefault)
  moreover have "obj_or_empty (pget l0 ''permits'') = records" using recs by (simp add: l0_def setdefault_pget)
  ultimately have "wf_ledger (put_record l0 records k rec')"
    using transition_record_wf [OF c wf_rec_of [OF assms(2) k(2)]] by (intro wf_put_record)
  then show ?thesis unfolding l' by (intro wf_pset_other) simp_all
qed

lemma ledger_sections_wf: "wf_ledger l \<Longrightarrow> wf_ledger (ledger_sections l)"
  by (simp add: ledger_sections_def wf_setdefault)

lemma issue_wf:
  assumes "issue E S cfg now fs token1 token2 d v gate key ttl permit_id nonce0 l = Inr (permit, l')" and "wf_ledger l"
  shows "wf_ledger l'"
proof -
  obtain ps repo target pre post where "issue_locked E S cfg now token1 token2 v gate key ttl permit_id nonce0
      (canonical_actuation_parameters ps) (repo, target, pre, post) l = Inr (permit, l')"
    using issue_ok [OF assms(1)] by blast
  from issue_locked_ok [OF this] obtain permits idempotency where p: "pget (ledger_sections l) ''permits'' = JObj permits"
    and o: "if pget idempotency key = JNull
       then issue_fresh E S cfg now token1 token2 v gate key ttl permit_id nonce0 (canonical_actuation_parameters ps)
              (repo, target, pre, post) permits idempotency (ledger_sections l) = Inr (permit, l')
       else l' = ledger_sections l" by (metis (no_types, lifting))
  show ?thesis
  proof (cases "pget idempotency key = JNull")
    case True
    then have f: "issue_fresh E S cfg now token1 token2 v gate key ttl permit_id nonce0 (canonical_actuation_parameters ps)
              (repo, target, pre, post) permits idempotency (ledger_sections l) = Inr (permit, l')" using o by simp
    then obtain pid tip idem where l': "l' = pset (pset (put_record (ledger_sections l) permits pid
            [(''permit'', JObj permit), (''state'', JStr ''issued''), (''state_history'', JList [state_entry E ''issued'' now])])
          ''idempotency'' idem) ''tip'' tip"
      unfolding issue_fresh_def Let_def prod.case by (auto split: if_splits)
    have "phas permit ''permit_id''" using issue_fresh_ok [OF f p] by (auto intro: phas_if_pget)
    then have "wf_record [(''permit'', JObj permit), (''state'', JStr ''issued''), (''state_history'', JList [state_entry E ''issued'' now])]"
      by (simp add: wf_record_def)
    then have "wf_ledger (put_record (ledger_sections l) permits pid
            [(''permit'', JObj permit), (''state'', JStr ''issued''), (''state_history'', JList [state_entry E ''issued'' now])])"
      using p by (intro wf_put_record ledger_sections_wf assms(2)) simp_all
    then show ?thesis unfolding l' by (intro wf_pset_other) simp_all
  qed (use o ledger_sections_wf assms(2) in simp)
qed

lemma abort_wf:
  assumes "abort_with_restoration E cfg now permit p reason results l fs = (Inr (res, l'), fs')" and "wf_ledger l"
  shows "wf_ledger l'"
proof -
  define attempt where "attempt = (case restoration_details permit p l of
      Inl e \<Rightarrow> (Inl e, fs)
    | Inr details \<Rightarrow> restore_target E cfg fs details permit ''repo patch restoration target became a symlink'')"
  show ?thesis
    using assms record_transition_wf fence_recovery_wf unfolding abort_with_restoration_def attempt_def [symmetric]
    by (cases attempt; cases "fst attempt") (auto split: if_splits)
qed

text \<open>A call of the store, in which an abort names as the expected state any state of \<open>A\<close>.
  \<open>abort_with_restoration\<close> itself takes any text as the expected state, so the steps of the store are the
  calls with \<open>A = UNIV\<close>; the callers in the repository pass states of \<open>MUTATION_STATES\<close> only.\<close>

inductive permit_call :: "string set \<Rightarrow> pyenv \<Rightarrow> schemas \<Rightarrow> permit_config \<Rightarrow> jobj \<times> fsys \<Rightarrow> jobj \<times> fsys \<Rightarrow> bool"
  for A :: "string set" and E :: pyenv and S :: schemas and cfg :: permit_config where
  step_issue: "issue E S cfg now fs token1 token2 d v gate key ttl permit_id nonce l = Inr (permit, l')
    \<Longrightarrow> permit_call A E S cfg (l, fs) (l', fs)"
| step_consume: "consume E S cfg now fs permit d key params l = Inr (res, l') \<Longrightarrow> permit_call A E S cfg (l, fs) (l', fs)"
| step_transition: "record_transition E now pid p q details res l = Inr (r, l') \<Longrightarrow> permit_call A E S cfg (l, fs) (l', fs)"
| step_abort: "abort_with_restoration E cfg now permit p reason results l fs = (Inr (res, l'), fs') \<Longrightarrow> p \<in> A
    \<Longrightarrow> permit_call A E S cfg (l, fs) (l', fs')"
| step_recover: "recover_incomplete_actions E cfg now l fs = (res, l', fs') \<Longrightarrow> permit_call A E S cfg (l, fs) (l', fs')"
| step_world: "permit_call A E S cfg (l, fs) (l, fs')"

abbreviation permit_step :: "pyenv \<Rightarrow> schemas \<Rightarrow> permit_config \<Rightarrow> jobj \<times> fsys \<Rightarrow> jobj \<times> fsys \<Rightarrow> bool" where
  "permit_step \<equiv> permit_call UNIV"

lemma issue_keeps:
  "issue E S cfg now fs token1 token2 d v gate key ttl permit_id nonce l = Inr (permit, l') \<Longrightarrow> keeps A l l'"
  by (drule issue_ok) (elim exE conjE, rule issue_locked_keeps)

lemma step_keeps: "permit_call A E S cfg s t \<Longrightarrow> keeps A (fst s) (fst t)"
proof (induction rule: permit_call.induct)
  case (step_abort now permit p reason results l fs res l' fs')
  then show ?case using abort_ok [OF step_abort(1)] by (metis fst_conv)
qed (auto dest: issue_keeps consume_keeps record_transition_keeps recover_incomplete_ok)

lemma run_keeps: "(permit_call A E S cfg)\<^sup>*\<^sup>* s t \<Longrightarrow> keeps A (fst s) (fst t)"
  by (induction rule: rtranclp_induct) (auto intro: keeps_trans step_keeps)

lemma step_wf: "permit_call A E S cfg s t \<Longrightarrow> wf_ledger (fst s) \<Longrightarrow> wf_ledger (fst t)"
proof (induction rule: permit_call.induct)
  case (step_recover now l fs res l' fs')
  then show ?case using recover_incomplete_total [of l E cfg now fs] by auto
qed (auto dest: issue_wf consume_wf record_transition_wf abort_wf)

interpretation permit_ledger: invariant_system "\<lambda>s. fst s = []" "permit_call A E S cfg" "\<lambda>s. wf_ledger (fst s)"
  by unfold_locales (simp add: wf_ledger_def rec_of_def, rule step_wf)

abbreviation permit_reach :: "pyenv \<Rightarrow> schemas \<Rightarrow> permit_config \<Rightarrow> jobj \<times> fsys \<Rightarrow> bool" where
  "permit_reach E S cfg \<equiv> reach (\<lambda>s. fst s = []) (permit_step E S cfg)"

section \<open>Properties\<close>

text \<open>C8: a permit is consumed at most once. After \<open>consume\<close> accepted a permit, no later
  \<open>consume\<close> accepts a permit with the same id or the same nonce, whatever operations,
  recoveries and file changes happen in between.\<close>

theorem permit_consumed_once:
  assumes "consume E S cfg now fs permit d key params l = Inr (res, l1)"
    and "(permit_step E S cfg)\<^sup>*\<^sup>* (l1, fs) (l2, fs2)"
    and "pget permit' ''permit_id'' = pget permit ''permit_id'' \<or> pget permit' ''authority_nonce'' = pget permit ''authority_nonce''"
  shows "\<not> is_ok (consume E S cfg' now' fs2 permit' d' key' params' l2)"
proof
  assume "is_ok (consume E S cfg' now' fs2 permit' d' key' params' l2)"
  then obtain res' l3 where c': "consume E S cfg' now' fs2 permit' d' key' params' l2 = Inr (res', l3)"
    by (cases "consume E S cfg' now' fs2 permit' d' key' params' l2") auto
  obtain k nonce r r' where a: "map_of permit ''permit_id'' = Some (JStr k)" "map_of permit ''authority_nonce'' = Some nonce"
      "transition_record E r ''prepared'' ''claimed'' now [] None = Inr r'" "rec_of l1 k = Some r'"
      "phas (nonces_of l1) (py_str nonce)"
    using consume_ok [OF assms(1)] by (metis (no_types, lifting))
  obtain k2 nonce2 r2 r2' where b: "map_of permit' ''permit_id'' = Some (JStr k2)" "map_of permit' ''authority_nonce'' = Some nonce2"
      "transition_record E r2 ''prepared'' ''claimed'' now' [] None = Inr r2'" "rec_of l2 k2 = Some r2"
      "\<not> phas (nonces_of l2) (py_str nonce2)"
    using consume_ok [OF c'] by (metis (no_types, lifting))
  have kp: "keeps UNIV l1 l2" using run_keeps [OF assms(2)] by simp
  then have "nonce2 \<noteq> nonce" using a(5) b(5) by (auto simp: keeps_def)
  then have "k2 = k" using assms(3) a(1,2) b(1,2) by (auto simp: pget_def)
  moreover have "rank_of r' = 2" "rank_of r2 = 1"
    using transition_record_ok [OF a(3)] transition_record_ok [OF b(3)] by (simp_all add: state_rank_def)
  moreover have "advances UNIV r' r2"
    using kp a(4) b(4) \<open>k2 = k\<close> unfolding keeps_def forward_def by (metis option.inject)
  ultimately show False by (auto simp: advances_def simp del: rank_of.simps)
qed


text \<open>A fenced repository root stays closed. While a root is fenced no permit is issued
  for a target in it, and no run of the store removes a fence.\<close>

theorem permit_fenced_root:
  assumes "phas (fences_of l) repo" and "(permit_step E S cfg)\<^sup>*\<^sup>* (l, fs) (l', fs')"
    and "map_of (execution_plan d) ''parameters'' = Some (JObj ps)"
    and "repo_patch_target_binding E fs' (canonical_actuation_parameters ps) = Inr (repo, target, pre)"
  shows "\<not> is_ok (issue E S cfg now fs' token1 token2 d v gate key ttl permit_id nonce l')"
proof
  assume "is_ok (issue E S cfg now fs' token1 token2 d v gate key ttl permit_id nonce l')"
  then obtain permit l2 where i: "issue E S cfg now fs' token1 token2 d v gate key ttl permit_id nonce l' = Inr (permit, l2)"
    by (cases "issue E S cfg now fs' token1 token2 d v gate key ttl permit_id nonce l'") auto
  then have "\<not> phas (fences_of l') repo"
    using issue_ok [OF i] issue_locked_ok assms(3,4) by (metis Inr_inject Pair_inject fst_conv jval.inject(6) option.inject)
  then show False using run_keeps [OF assms(2)] assms(1) by (auto simp: keeps_def)
qed

text \<open>C17: restoration. When \<open>abort_with_restoration\<close> returns, the permit's record is terminal
  and holds the returned result, and either the target file has exactly the authorized
  preimage again, or the record waits for recovery and its repository root is fenced.\<close>

theorem abort_restores_or_fences:
  assumes "abort_with_restoration E cfg now permit p reason results l fs = (Inr (res, l'), fs')"
  shows "\<exists>pid r'. pget permit ''permit_id'' = JStr pid \<and> rec_of l' pid = Some r' \<and> pget r' ''terminal_result'' = JObj res
    \<and> (pget r' ''state'' = JStr ''aborted'' \<and> restored E permit fs'
       \<or> pget r' ''state'' = JStr ''recovery_required'' \<and> fenced permit l')"
  using abort_ok [OF assms] by (auto simp: pget_def)

text \<open>C9: crash recovery terminates and completes. From every state the store can reach
  from an empty ledger, with any change of the files in between,
  \<open>recover_incomplete_actions\<close> returns (it never raises), and afterwards no permit is in a
  mutating state.\<close>

theorem recovery_completes:
  assumes "permit_reach E S cfg (l, fs)"
  shows "\<exists>items l' fs'. recover_incomplete_actions E cfg now l fs = (Inr items, l', fs')
    \<and> (\<forall>pid r. rec_of l' pid = Some r \<longrightarrow> \<not> str_in (pget r ''state'') MUTATION_STATES)"
proof -
  have "wf_ledger l" using permit_ledger.reach_inv [OF assms] by simp
  then obtain items l' fs' where r: "recover_incomplete_actions E cfg now l fs = (Inr items, l', fs')"
    using recover_incomplete_total by blast
  then show ?thesis using recover_incomplete_ok [OF r] by auto
qed

end
