(* ===== verification/Permits_Binding.thy ===== *)
theory Permits_Binding
  imports Permits_Correct
begin

text \<open>
  What a permit is bound to: the target file and its scope, the patch, the gate it was
  issued for, and what is checked again when it is consumed.
\<close>

section \<open>The target and the patch\<close>

lemma path_relative_to_Some:
  assumes "path_relative_to a b = Some rel"
  shows "\<exists>ps. path_root a = path_root b \<and> path_parts a = path_parts b @ ps \<and> rel = path_str_of [] ps"
proof -
  have *: "path_root a = path_root b" "take (length (path_parts b)) (path_parts a) = path_parts b"
      "rel = path_str_of [] (drop (length (path_parts b)) (path_parts a))"
    using assms by (auto simp: path_relative_to_def split: if_splits)
  have "path_parts a = path_parts b @ drop (length (path_parts b)) (path_parts a)"
    using append_take_drop_id [of "length (path_parts b)" "path_parts a"] *(2) by simp
  with * show ?thesis by blast
qed

text \<open>Patch scope. A target that \<open>repo_patch_target_binding\<close> accepts lies inside the
  repository root (its path extends the root's path part by part), its path relative to the
  root is one of the allowed paths, neither the root nor the target as given is a symbolic
  link, and the returned digest is that of the file's current content.\<close>

theorem target_binding_in_scope:
  assumes "repo_patch_target_binding E fs parameters = Inr (repo, target, dg)"
  shows "\<exists>ps allowed content. path_root target = path_root repo \<and> path_parts target = path_parts repo @ ps
    \<and> allowed_path_strs parameters = Inr allowed \<and> path_str_of [] ps \<in> set allowed
    \<and> fs_file fs target = Some content \<and> dg = bytes_digest E content
    \<and> (\<exists>raw. repo = fs_resolve fs raw \<and> path_is_absolute raw \<and> \<not> fs_symlink fs raw)
    \<and> (\<exists>raw. target = fs_resolve fs raw \<and> \<not> fs_symlink fs raw)"
proof -
  obtain rp where rp: "map_of parameters ''repo_path'' = Some rp"
    using assms by (auto simp: repo_patch_target_binding_def)
  define raw where "raw = path_str (py_str rp)"
  obtain template where tm: "pget parameters ''patch_template'' = JObj template"
    using assms rp by (cases "pget parameters ''patch_template''") (auto simp: repo_patch_target_binding_def Let_def pidx_def split: if_splits)
  define raw_target where "raw_target = path_str (str_or (pget template ''target_file'') (JStr []))"
  define un where "un = (if path_is_absolute raw_target then raw_target else path_join (fs_resolve fs raw) raw_target)"
  obtain rel allowed content where r: "path_is_absolute raw" "\<not> fs_symlink fs raw" "repo = fs_resolve fs raw"
      "\<not> fs_symlink fs un" "target = fs_resolve fs un" "path_relative_to target repo = Some rel"
      "allowed_path_strs parameters = Inr allowed" "rel \<in> set allowed" "fs_file fs target = Some content"
      "dg = bytes_digest E content"
    using assms rp tm unfolding repo_patch_target_binding_def Let_def
    by (auto simp: pidx_def raw_def [symmetric] raw_target_def [symmetric] un_def file_digest_def bytes_digest_def
        split: if_splits option.splits)
  obtain ps where "path_root target = path_root repo" "path_parts target = path_parts repo @ ps" "rel = path_str_of [] ps"
    using path_relative_to_Some [OF r(6)] by blast
  then show ?thesis using r by blast
qed

lemma binding_digest:
  "repo_patch_target_binding E fs parameters = Inr (repo, target, dg) \<Longrightarrow>
   \<exists>content. fs_file fs target = Some content \<and> dg = bytes_digest E content"
  by (auto simp: repo_patch_target_binding_def Let_def file_digest_def bytes_digest_def
      split: if_splits jval.splits option.splits)

lemma postimage_digest:
  "repo_patch_postimage E fs parameters target = Inr (post, dg) \<Longrightarrow> dg = bytes_digest E post"
  by (auto simp: repo_patch_postimage_def Let_def split: jval.splits option.splits sum.splits if_splits)

text \<open>The patch. The target's bytes are UTF-8; the postimage a permit authorizes is the encoding of
  the target's text, its line ends translated to line feeds, with the leftmost occurrence of
  the anchor text replaced, nothing else changed, and its digest is the returned one.\<close>

theorem postimage_replaces_anchor:
  assumes "repo_patch_postimage E fs parameters target = Inr (post, dg)"
  shows "\<exists>template anchor new content points a b. pget parameters ''patch_template'' = JObj template
    \<and> map_of template ''find'' = Some anchor \<and> map_of template ''replace'' = Some new
    \<and> fs_file fs target = Some content \<and> utf8_points content = Some points
    \<and> text_newlines points = a @ text_points (py_str anchor) @ b
    \<and> post = utf8_bytes (a @ text_points (py_str new) @ b)
    \<and> (\<forall>a' b'. text_newlines points = a' @ text_points (py_str anchor) @ b' \<longrightarrow> length a \<le> length a')
    \<and> dg = bytes_digest E post"
proof -
  obtain template anchor new content points where t: "pget parameters ''patch_template'' = JObj template"
      "map_of template ''find'' = Some anchor" "map_of template ''replace'' = Some new"
      "fs_file fs target = Some content" "utf8_points content = Some points"
      "occurs (text_points (py_str anchor)) (text_newlines points)"
      "post = utf8_bytes (replace_first (text_points (py_str anchor)) (text_points (py_str new)) (text_newlines points))"
      "dg = bytes_digest E post"
    using assms by (auto simp: repo_patch_postimage_def read_text_utf8_def pidx_def Let_def
        split: jval.splits option.splits if_splits)
  obtain a b where "text_newlines points = a @ text_points (py_str anchor) @ b"
      "post = utf8_bytes (a @ text_points (py_str new) @ b)"
      "\<forall>a' b'. text_newlines points = a' @ text_points (py_str anchor) @ b' \<longrightarrow> length a \<le> length a'"
    using replace_first_ok [OF t(6), of "text_points (py_str new)"] t(7) by metis
  then show ?thesis using t(1-5,8) by blast
qed

section \<open>Issuing\<close>

lemma issue_checks_ok:
  assumes "issue_checks E S cfg d v gate key ttl = Inr ()"
  shows "validate_bridge_gate E S gate (Some d) (Some v) (Some True) = Inr () \<and> 1 \<le> ttl \<and> ttl \<le> 300
    \<and> pget gate ''authority_eligible'' = JBool True \<and> passed v \<and> final_recommendation v = ''execute''
    \<and> pget (obj_or_empty (pget gate ''decision'')) ''decision'' = JStr ''allow''
    \<and> (\<exists>action. map_of (execution_plan d) ''action'' = Some action \<and> key = decision_id d @ '':'' @ py_str action)"
  using assms by (auto simp: issue_checks_def pget_or_def pget_def split: if_splits option.splits)

text \<open>The permit id an idempotency key stands for, the permit stored under it, and a fresh permit in the ledger.\<close>

definition key_entry :: "jobj \<Rightarrow> string \<Rightarrow> jval" where
  "key_entry l key = pget (obj_or_empty (pget l ''idempotency'')) key"

definition stored_permit :: "jobj \<Rightarrow> string \<Rightarrow> jobj \<Rightarrow> bool" where
  "stored_permit l key permit \<longleftrightarrow>
     (\<exists>pid r. key_entry l key = JStr pid \<and> rec_of l pid = Some r \<and> pget r ''permit'' = JObj permit)"

definition freshly_issued :: "pyenv \<Rightarrow> string \<Rightarrow> jobj \<Rightarrow> jobj \<Rightarrow> jobj \<Rightarrow> string \<Rightarrow> string \<Rightarrow> string \<Rightarrow> string \<Rightarrow> bool" where
  "freshly_issued E key l l' permit repo target pre post \<longleftrightarrow>
     (\<exists>pid r. key_entry l key = JNull \<and> key_entry l' key = JStr pid \<and> rec_of l pid = None \<and> rec_of l' pid = Some r \<and> pget r ''permit'' = JObj permit \<and> pget r ''state'' = JStr ''issued''
        \<and> (\<forall>x. x \<noteq> pid \<longrightarrow> rec_of l' x = rec_of l x)
        \<and> validate_permit_semantics E permit = Inr ()
        \<and> pget permit ''permit_id'' = JStr pid \<and> pget permit ''repo_path'' = JStr repo \<and> pget permit ''target_path'' = JStr target
        \<and> pget permit ''target_preimage_digest'' = JStr pre \<and> pget permit ''target_postimage_digest'' = JStr post
        \<and> pget permit ''expected_ledger_tip_before'' = JStr (str_or (pget l ''tip'') (JStr GENESIS_LEDGER_TIP))
        \<and> pget l' ''tip'' = JStr (expected_ledger_tip E permit))"

text \<open>C34: issuing. A permit comes only from a gate that validates for this very decision and
  evaluation, was allowed by an authority-eligible adapter and approved by the Mesh policy,
  for 1 to 300 seconds. It is either the permit the ledger stores under the same idempotency key, issued for
  the same actuation parameters (the ledger only gains its missing empty sections), or, for a key not
  used before, a fresh one: semantically
  valid, chained to the ledger's tip and becoming the new tip, bound to the target's current
  content and to the patched content, and stored as issued under its own, unused id, which the
  idempotency key stands for from then on.\<close>

theorem issue_binds_permit:
  assumes "issue E S cfg now fs token1 token2 d v gate key ttl permit_id nonce l = Inr (permit, l')"
  shows "\<exists>ps repo target pre content post. issue_checks E S cfg d v gate key ttl = Inr ()
    \<and> validate_bridge_gate E S gate (Some d) (Some v) (Some True) = Inr ()
    \<and> passed v \<and> final_recommendation v = ''execute'' \<and> 1 \<le> ttl \<and> ttl \<le> 300
    \<and> pget gate ''authority_eligible'' = JBool True
    \<and> map_of (execution_plan d) ''parameters'' = Some (JObj ps)
    \<and> repo_patch_target_binding E fs (canonical_actuation_parameters ps) = Inr (repo, target, pre)
    \<and> repo_patch_postimage E fs (canonical_actuation_parameters ps) target = Inr (content, post)
    \<and> \<not> phas (fences_of l) repo
    \<and> pget permit ''canonical_actuation_payload_digest'' = JStr (cdigest E (JObj (canonical_actuation_parameters ps)))
    \<and> (l' = ledger_sections l \<and> stored_permit l key permit \<or> freshly_issued E key l l' permit repo target pre post)"
proof -
  obtain ps repo target pre content post where c: "issue_checks E S cfg d v gate key ttl = Inr ()"
      "map_of (execution_plan d) ''parameters'' = Some (JObj ps)"
      "repo_patch_target_binding E fs (canonical_actuation_parameters ps) = Inr (repo, target, pre)"
      "repo_patch_postimage E fs (canonical_actuation_parameters ps) target = Inr (content, post)"
    and lk: "issue_locked E S cfg now token1 token2 v gate key ttl permit_id nonce (canonical_actuation_parameters ps)
        (repo, target, pre, post) l = Inr (permit, l')"
    using issue_ok [OF assms] by blast
  obtain permits idempotency where nf: "\<not> phas (fences_of l) repo" and p: "pget (ledger_sections l) ''permits'' = JObj permits"
    and i: "pget (ledger_sections l) ''idempotency'' = JObj idempotency"
    and o: "if pget idempotency key = JNull
       then issue_fresh E S cfg now token1 token2 v gate key ttl permit_id nonce (canonical_actuation_parameters ps)
              (repo, target, pre, post) permits idempotency (ledger_sections l) = Inr (permit, l')
       else l' = ledger_sections l \<and> pget (obj_or_empty (lookup_j permits (pget idempotency key))) ''permit'' = JObj permit
          \<and> pget permit ''canonical_actuation_payload_digest'' = JStr (cdigest E (JObj (canonical_actuation_parameters ps)))"
    using issue_locked_ok [OF lk] unfolding fst_conv by (metis (no_types, lifting))
  have e: "key_entry l key = pget idempotency key"
    using i by (auto simp: key_entry_def ledger_sections_def setdefault_pget pget_not_phas split: if_splits)
  show ?thesis
  proof (cases "pget idempotency key = JNull")
    case True
    then have f: "issue_fresh E S cfg now token1 token2 v gate key ttl permit_id nonce (canonical_actuation_parameters ps)
        (repo, target, pre, post) permits idempotency (ledger_sections l) = Inr (permit, l')" using o by simp
    obtain pid where F: "rec_of l pid = None" "validate_permit_semantics E permit = Inr ()"
        "\<forall>x. rec_of l' x = (if x = pid then Some [(''permit'', JObj permit), (''state'', JStr ''issued''),
             (''state_history'', JList [state_entry E ''issued'' now])] else rec_of l x)"
        "pget permit ''permit_id'' = JStr pid" "pget permit ''repo_path'' = JStr repo" "pget permit ''target_path'' = JStr target"
        "pget permit ''target_preimage_digest'' = JStr pre" "pget permit ''target_postimage_digest'' = JStr post"
        "pget permit ''canonical_actuation_payload_digest'' = JStr (cdigest E (JObj (canonical_actuation_parameters ps)))"
        "pget permit ''expected_ledger_tip_before'' = JStr (str_or (pget l ''tip'') (JStr GENESIS_LEDGER_TIP))"
        "pget l' ''tip'' = pget permit ''ledger_tip_after''" "pget l' ''idempotency'' = JObj (pset idempotency key (JStr pid))"
      using issue_fresh_ok [OF f p] by (auto simp: ledger_sections_pget)
    have k: "key_entry l key = JNull" "key_entry l' key = JStr pid" using True e F(12) by (simp_all add: key_entry_def)
    define r where "r = [(''permit'', JObj permit), (''state'', JStr ''issued''), (''state_history'', JList [state_entry E ''issued'' now])]"
    have r: "rec_of l' pid = Some r" "pget r ''permit'' = JObj permit" "pget r ''state'' = JStr ''issued''"
        "\<forall>x. x \<noteq> pid \<longrightarrow> rec_of l' x = rec_of l x"
      using F(3) by (simp_all add: r_def)
    have tip: "pget l' ''tip'' = JStr (expected_ledger_tip E permit)"
      using F(11) semantics_parts [OF F(2)] by (auto simp: validate_digest_chain_def split: if_splits)
    have "freshly_issued E key l l' permit repo target pre post"
      unfolding freshly_issued_def by (rule exI [of _ pid], rule exI [of _ r]) (intro conjI; fact)
    then show ?thesis using c nf F(9) issue_checks_ok [OF c(1)] by blast
  next
    case False
    then have "l' = ledger_sections l" "pget (obj_or_empty (lookup_j permits (pget idempotency key))) ''permit'' = JObj permit"
        "pget permit ''canonical_actuation_payload_digest'' = JStr (cdigest E (JObj (canonical_actuation_parameters ps)))"
      using o by simp_all
    moreover from this(2) obtain r where "lookup_j permits (pget idempotency key) = JObj r" "pget r ''permit'' = JObj permit"
      by (cases "lookup_j permits (pget idempotency key)") auto
    moreover from this(1) have "\<exists>pid. pget idempotency key = JStr pid \<and> rec_of l pid = Some r"
      using lookup_rec_of [of "ledger_sections l" "pget idempotency key" r] p by simp
    ultimately have "l' = ledger_sections l \<and> stored_permit l key permit"
      and "pget permit ''canonical_actuation_payload_digest'' = JStr (cdigest E (JObj (canonical_actuation_parameters ps)))"
      using e by (auto simp: stored_permit_def)
    then show ?thesis using c nf issue_checks_ok [OF c(1)] by blast
  qed
qed

section \<open>Consuming\<close>

lemma validate_permit_ok:
  assumes "validate_permit E S cfg now fs permit d key params = Inr ()"
  shows "\<exists>pf repo target pre content post nb ex. validate_permit_semantics E permit = Inr ()
    \<and> pget permit ''authorization_proof'' = JObj pf \<and> pget pf ''key_id'' = JStr (signing_key_id cfg)
    \<and> verify_hmac_signature_proof E (permit_signed_payload permit) pf (signing_key cfg)
    \<and> pget permit ''issuer'' = JStr (issuer cfg) \<and> pget permit ''executor_audience'' = JStr (executor_audience cfg)
    \<and> repo_patch_target_binding E fs (canonical_actuation_parameters params) = Inr (repo, target, pre)
    \<and> repo_patch_postimage E fs (canonical_actuation_parameters params) target = Inr (content, post)
    \<and> pget permit ''target_path'' = JStr target \<and> pget permit ''target_preimage_digest'' = JStr pre
    \<and> pget permit ''target_postimage_digest'' = JStr post
    \<and> permit_parse_time E (py_str (pget permit ''not_before'')) = Inr nb
    \<and> permit_parse_time E (py_str (pget permit ''expires_at'')) = Inr ex \<and> nb \<le> now \<and> now \<le> ex
    \<and> pget permit ''mesh_action_id'' = JStr (decision_id d)
    \<and> pget permit ''canonical_actuation_payload_digest'' = JStr (cdigest E (JObj (canonical_actuation_parameters params)))"
proof -
  obtain pf where pf: "pget permit ''authorization_proof'' = JObj pf"
    using assms by (cases "pget permit ''authorization_proof''") (auto simp: validate_permit_def)
  obtain repo target pre where b: "repo_patch_target_binding E fs (canonical_actuation_parameters params) = Inr (repo, target, pre)"
    using assms pf by (auto simp: validate_permit_def Let_def)
  obtain content post where b2: "repo_patch_postimage E fs (canonical_actuation_parameters params) target = Inr (content, post)"
    using assms pf b by (auto simp: validate_permit_def Let_def)
  have s: "validate_permit_semantics E permit = Inr ()" "pget permit ''issuer'' = JStr (issuer cfg)"
      "pget permit ''executor_audience'' = JStr (executor_audience cfg)" "pget pf ''key_id'' = JStr (signing_key_id cfg)"
      "verify_hmac_signature_proof E (permit_signed_payload permit) pf (signing_key cfg)"
    using assms pf by (auto simp: validate_permit_def Let_def)
  obtain nb ex where t: "permit_parse_time E (py_str (pget permit ''not_before'')) = Inr nb" "nb \<le> now"
      "permit_parse_time E (py_str (pget permit ''expires_at'')) = Inr ex" "now \<le> ex"
    using assms pf b by (auto simp: validate_permit_def Let_def pget_def)
  have "pget permit ''target_path'' = JStr target" "pget permit ''target_preimage_digest'' = JStr pre"
      "pget permit ''target_postimage_digest'' = JStr post" "pget permit ''mesh_action_id'' = JStr (decision_id d)"
      "pget permit ''canonical_actuation_payload_digest'' = JStr (cdigest E (JObj (canonical_actuation_parameters params)))"
    using assms pf b b2 by (auto simp: validate_permit_def Let_def pget_def)
  with pf b b2 s t show ?thesis by blast
qed

text \<open>C35: what is checked at the moment of use. A permit is accepted only inside its time
  window, with a valid HMAC under the configured key, for the decision it names, while the
  target file still has the authorized preimage and the patch, applied to the file's text as
  \<open>read_text\<close> reads it, still yields the authorized postimage; the ledger holds this very permit as prepared and records it as claimed.\<close>

theorem consume_authorized:
  assumes "consume E S cfg now fs permit d key params l = Inr (res, l')"
  shows "\<exists>pf target content original nb ex. pget permit ''authorization_proof'' = JObj pf
    \<and> verify_hmac_signature_proof E (permit_signed_payload permit) pf (signing_key cfg)
    \<and> permit_parse_time E (py_str (pget permit ''not_before'')) = Inr nb
    \<and> permit_parse_time E (py_str (pget permit ''expires_at'')) = Inr ex \<and> nb \<le> now \<and> now \<le> ex
    \<and> pget permit ''mesh_action_id'' = JStr (decision_id d)
    \<and> pget permit ''target_path'' = JStr target \<and> fs_file fs target = Some original
    \<and> pget permit ''target_preimage_digest'' = JStr (bytes_digest E original)
    \<and> repo_patch_postimage E fs (canonical_actuation_parameters params) target = Inr (content, bytes_digest E content)
    \<and> pget permit ''target_postimage_digest'' = JStr (bytes_digest E content)
    \<and> (\<exists>k r r'. pget permit ''permit_id'' = JStr k \<and> rec_of l k = Some r \<and> py_eq (pget r ''permit'') (JObj permit)
         \<and> pget r ''state'' = JStr ''prepared'' \<and> rec_of l' k = Some r' \<and> pget r' ''state'' = JStr ''claimed'')"
proof -
  obtain k r r' where k: "map_of permit ''permit_id'' = Some (JStr k)"
      "validate_permit E S cfg now fs permit d key params = Inr ()" "rec_of l k = Some r" "py_eq (pget r ''permit'') (JObj permit)"
      "transition_record E r ''prepared'' ''claimed'' now [] None = Inr r'" "rec_of l' k = Some r'"
    using consume_ok [OF assms] by (metis (no_types, lifting))
  obtain pf repo target pre content post nb ex where v: "pget permit ''authorization_proof'' = JObj pf"
      "verify_hmac_signature_proof E (permit_signed_payload permit) pf (signing_key cfg)"
      "repo_patch_target_binding E fs (canonical_actuation_parameters params) = Inr (repo, target, pre)"
      "repo_patch_postimage E fs (canonical_actuation_parameters params) target = Inr (content, post)"
      "pget permit ''target_path'' = JStr target" "pget permit ''target_preimage_digest'' = JStr pre"
      "pget permit ''target_postimage_digest'' = JStr post"
      "permit_parse_time E (py_str (pget permit ''not_before'')) = Inr nb"
      "permit_parse_time E (py_str (pget permit ''expires_at'')) = Inr ex" "nb \<le> now" "now \<le> ex"
      "pget permit ''mesh_action_id'' = JStr (decision_id d)"
    using validate_permit_ok [OF k(2)] by blast
  obtain original where o: "fs_file fs target = Some original" "pre = bytes_digest E original"
    using binding_digest [OF v(3)] by blast
  have p: "post = bytes_digest E content" using postimage_digest [OF v(4)] .
  have "pget permit ''permit_id'' = JStr k" using k(1) by (simp add: pget_def)
  then have "\<exists>k r r'. pget permit ''permit_id'' = JStr k \<and> rec_of l k = Some r \<and> py_eq (pget r ''permit'') (JObj permit)
         \<and> pget r ''state'' = JStr ''prepared'' \<and> rec_of l' k = Some r' \<and> pget r' ''state'' = JStr ''claimed''"
    using k(3,4,6) transition_record_ok [OF k(5)] by blast
  with v o p show ?thesis by blast
qed

end
