(* ===== verification/Hsai_Bridge_Run.thy ===== *)
theory Hsai_Bridge_Run
  imports Hsai_Bridge_Props
begin

text \<open>
  A concrete run of the bridge (an open schema for every contract, a constant digest, an
  adapter that allows), and the instances of the bridge theorems on it.
\<close>

definition open_schemas :: schemas where
  "open_schemas name = []"

definition flat_env :: pyenv where
  "flat_env = toy_env\<lparr>sha256_hex := (\<lambda>_. replicate 64 (CHR ''0'')), hmac_sha256_hex := (\<lambda>_ _. replicate 64 (CHR ''0''))\<rparr>"

definition flat_digest :: string where
  "flat_digest = ''sha256:'' @ replicate 64 (CHR ''0'')"

lemma flat_digests [simp]: "sha256_digest flat_env v = flat_digest" "decision_digest flat_env d = flat_digest"
  by (simp_all add: sha256_digest_def decision_digest_def flat_env_def flat_digest_def)

lemma flat_digest_ok [simp]: "require_digest l (JStr flat_digest) = Inr ()"
  by (simp add: require_digest_def ck_def flat_digest_def starts_with_iff)

lemma open_schema_ok [simp]: "validate_payload (open_schemas n) v = Inr ()"
  by (cases v) (simp_all add: open_schemas_def validate_payload_def validate_node.simps enum_check_def type_check_def selects_def)

definition sample_request :: jobj where
  "sample_request =
     [(''schema_version'', JStr HSAI_REQUEST_V1), (''mesh_run_id'', JStr ''run_t''), (''mesh_action_id'', JStr ''d''),
      (''action_kind'', JStr ''repo_patch''), (''mesh_policy_id'', JStr ''p''),
      (''action_proposal_digest'', JStr flat_digest), (''candidate_payload_digest'', JStr flat_digest),
      (''evidence_packet_digest'', JStr flat_digest), (''requested_claims'', jstrs [''c'']),
      (''explicit_nonclaims'', jstrs [''n'']), (''actor_ref'', JObj [(''team_id'', JStr ''team'')])]"

definition sample_admission :: jobj where
  "sample_admission =
     [(''schema_version'', JStr HSAI_DECISION_V1), (''mesh_run_id'', JStr ''run_t''), (''mesh_action_id'', JStr ''d''),
      (''action_kind'', JStr ''repo_patch''), (''request_digest'', JStr flat_digest),
      (''candidate_digest'', JStr flat_digest), (''decision'', JStr ''allow''), (''admission_policy_id'', JStr ''p''),
      (''accepted_claims'', jstrs [''c'']), (''enforced_nonclaims'', jstrs [''n'']),
      (''formal_evidence_metadata'', JObj [(''nonclaim'', JStr ''metadata only'')]), (''decision_digest'', JStr flat_digest)]"

lemma sample_decision_valid: "validate_hsai_decision flat_env open_schemas sample_request (JObj sample_admission) = Inr ()"
  by (simp add: validate_hsai_decision_def validate_hsai_request_payload_def missing_items_Nil pidx_def
      sample_request_def sample_admission_def jstrs_def Let_def)

definition sample_gate :: jobj where
  "sample_gate = [(''allowed'', JBool True), (''authority_eligible'', JBool True), (''request'', JObj sample_request),
      (''decision'', JObj sample_admission), (''request_digest'', JStr flat_digest),
      (''decision_digest'', JStr flat_digest), (''candidate_digest'', JStr flat_digest), (''reason_codes'', JList [])]"

lemma flat_nonempty: "py_strip flat_digest \<noteq> []"
  by (simp add: flat_digest_def py_strip_def py_lstrip_def py_isspace_def)

lemma sample_gate_built:
  "evaluate_hsai_gate flat_env open_schemas ''0'' (\<lambda>_. Inr (JObj sample_admission)) True sample_request = Inr sample_gate"
proof -
  have g: "gate_of flat_env (Some True) sample_request sample_admission = Inr sample_gate"
    by (simp add: gate_of_def pidx_def sample_admission_def sample_gate_def list_or_def por_def)
  have "run_checks (gate_checks flat_env sample_gate sample_request sample_admission) = Inr ()"
    by (simp add: gate_checks_def pidx_def sample_admission_def sample_gate_def sample_request_def str_or_def por_def
        flat_nonempty) (simp add: py_strip_def py_lstrip_def py_isspace_def flat_digest_def)
  then have "validate_bridge_gate flat_env open_schemas sample_gate None None None = Inr ()"
    using sample_decision_valid unfolding validate_bridge_gate_def
    by (simp add: Let_def pidx_def sample_gate_def) (simp add: sample_admission_def)
  then show ?thesis
    using g sample_decision_valid by (simp add: evaluate_hsai_gate_def Let_def)
qed

lemma sample_gate_valid: "validate_bridge_gate flat_env open_schemas sample_gate None None None = Inr ()"
  using sample_gate_built by (auto simp: evaluate_hsai_gate_def Let_def split: sum.splits py_exn.splits)

theorem hsai_gate_fails_closed_witness:
  "validate_bridge_gate flat_env open_schemas sample_gate None None None = Inr ()"
  using hsai_gate_fails_closed [OF sample_gate_built] by blast

theorem hsai_decision_bound_witness:
  "set (map py_str (list_or_empty (pget sample_request ''explicit_nonclaims'')))
     \<subseteq> set (map py_str (list_or_empty (pget sample_admission ''enforced_nonclaims'')))"
  using hsai_decision_bound [OF sample_decision_valid] by blast

definition sample_params :: jobj where
  "sample_params =
     [(''repo_path'', JStr ''/r''),
      (''patch_template'', JObj [(''target_file'', JStr ''f''), (''find'', JStr ''old''), (''replace'', JStr ''new'')]),
      (''allowed_paths'', jstrs [''f'']), (''mesh_policy_id'', JStr ''p'')]"

definition sample_decision :: Decision where
  "sample_decision = \<lparr>decision_id = ''d'', trigger_id = ''t'', summary = ''s'', decision_type = ''k'',
     autonomy_tier = ''2'', reasoning = [], expected_outcome = [], risk = [], confidence = JInt 1,
     execution_plan = [(''system'', JStr ''repo_patch_service''), (''action'', JStr ''investigate_and_patch''),
       (''parameters'', JObj sample_params)]\<rparr>"

lemma sample_ids [simp]:
  "expected_mesh_run_id sample_decision = ''run_t''" "expected_mesh_action_id sample_decision = ''d''"
  "decision_payload_without_hsai_context open_schemas sample_decision = Inr (decision_asdict sample_decision)"
  by (simp_all add: expected_mesh_run_id_def expected_mesh_action_id_def parameters_of_def str_or_def por_def
      sample_decision_def sample_params_def decision_payload_without_hsai_context_def decision_to_dict_def CONTEXT_KEY_def)

lemma sample_gate_for_decision: "validate_bridge_gate flat_env open_schemas sample_gate (Some sample_decision) None None = Inr ()"
proof -
  have "decision_checks flat_env open_schemas sample_request sample_decision = Inr ()"
    by (simp add: decision_checks_def is_v2_def sample_request_def HSAI_REQUEST_V1_def HSAI_REQUEST_V2_def pidx_def
        proposal_digest_def decision_to_dict_def decision_asdict_def Let_def)
  then show ?thesis using sample_gate_valid
    unfolding validate_bridge_gate_def by (simp add: Let_def sample_gate_def)
qed

lemma sample_attach: "\<exists>d'. attach_hsai_execution_context flat_env open_schemas sample_decision sample_gate None = Inr d'"
  using sample_gate_for_decision
  by (simp add: attach_hsai_execution_context_def pidx_def sample_gate_def Let_def)
     (simp add: sample_decision_def decision_from_dict_def decision_asdict_def DECISION_FIELDS_def str_field_def
        obj_field_def any_field_def)

theorem hsai_context_accepted_witness:
  "\<exists>d'. attach_hsai_execution_context flat_env open_schemas sample_decision sample_gate None = Inr d'
      \<and> repo_patch_admission_failure flat_env open_schemas d' = Inr None"
proof -
  obtain d' where d': "attach_hsai_execution_context flat_env open_schemas sample_decision sample_gate None = Inr d'"
    using sample_attach by blast
  have "pget (execution_plan sample_decision) ''parameters'' = JObj sample_params"
    by (simp add: sample_decision_def)
  moreover have "pget (obj_or_empty (pget sample_gate ''decision'')) ''decision'' = JStr ''allow''"
    by (simp add: sample_gate_def sample_admission_def)
  ultimately show ?thesis using hsai_context_accepted [OF d'] d' by blast
qed

definition sample_packet :: jobj where
  "sample_packet =
     [(''mesh_run_id'', JStr ''run_t''), (''mesh_action_id'', JStr ''d''), (''mesh_policy_id'', JStr ''p''),
      (''hsai_request_digest'', JStr flat_digest), (''hsai_decision_digest'', JStr flat_digest),
      (''hsai_candidate_digest'', JStr flat_digest), (''hsai_decision'', JStr ''allow''), (''nonclaims'', jstrs [''n'']),
      (''action_execution_result'', JObj [(''status'', JStr ''executed'')]), (''executor_receipt_digest'', JStr ''r''),
      (''audit_export_metadata'', JObj
         [(''exportable'', JBool True), (''format'', JStr ''mesh_proof_export.v1''),
          (''included_in_execution_external_refs'', JBool True),
          (''canonical_digest'', JStr ''json.sha256.sorted_keys.compact.v1''),
          (''hsai_request_schema_version'', JStr HSAI_REQUEST_V1), (''hsai_decision_schema_version'', JStr HSAI_DECISION_V1),
          (''replay_protected'', JBool True), (''state_slice'', JStr ''mesh.hsai_admission_bridge.v1''),
          (''formal_evidence_metadata'', JObj [(''nonclaim'', JStr ''metadata only'')])])]"

lemma sample_packet_ok:
  "gate_from_verified_contracts flat_env sample_request sample_admission = Inr gate \<Longrightarrow>
   validate_combined_proof_packet flat_env open_schemas gate sample_packet = Inr ()"
proof -
  assume g: "gate_from_verified_contracts flat_env sample_request sample_admission = Inr gate"
  note f = gate_of_Inr [OF g [unfolded gate_from_verified_contracts_def]]
  have m: "map_of gate ''request'' = Some (JObj sample_request)" "map_of gate ''decision'' = Some (JObj sample_admission)"
    "map_of gate ''request_digest'' = Some (JStr flat_digest)" "map_of gate ''decision_digest'' = Some (JStr flat_digest)"
    "map_of gate ''candidate_digest'' = Some (JStr flat_digest)" "pget gate ''allowed'' = JBool True"
    using f by (auto simp: pget_def sample_admission_def split: option.splits)
  have "run_checks (gate_checks flat_env gate sample_request sample_admission) = Inr ()"
    using m by (simp add: gate_checks_def pidx_def pget_def sample_admission_def sample_request_def str_or_def por_def)
      (simp add: py_strip_def py_lstrip_def py_isspace_def flat_digest_def)
  then have "validate_bridge_gate flat_env open_schemas gate None None None = Inr ()"
    using sample_decision_valid m unfolding validate_bridge_gate_def
    by (simp add: Let_def pidx_def pget_def) (simp add: sample_admission_def)
  then show ?thesis using m
    by (simp add: validate_combined_proof_packet_def pidx_def sample_packet_def Let_def)
       (simp add: sample_request_def sample_admission_def jstrs_def str_or_def por_def)
qed

theorem combined_packet_verified_witness:
  "\<exists>report. verify_combined_proof_packet_payload flat_env open_schemas sample_packet sample_request sample_admission = Inr report
     \<and> pget sample_packet ''hsai_request_digest'' = JStr (sha256_digest flat_env (JObj sample_request))"
proof -
  obtain gate where g: "gate_from_verified_contracts flat_env sample_request sample_admission = Inr gate"
    by (simp add: gate_from_verified_contracts_def gate_of_def pidx_def sample_admission_def)
  have "validate_combined_proof_claim_adequacy sample_request sample_admission sample_packet = Inr ()"
    by (simp add: validate_combined_proof_claim_adequacy_def pidx_def sample_request_def sample_admission_def
        sample_packet_def jstrs_def string_list_def str_or_def por_def Let_def)
       (simp add: py_strip_def py_lstrip_def py_isspace_def)
  then have r: "\<exists>report. verify_combined_proof_packet_payload flat_env open_schemas sample_packet sample_request sample_admission
      = Inr report \<and> pget report ''status'' = JStr ''pass''"
    using g sample_decision_valid sample_packet_ok [OF g]
    by (simp add: verify_combined_proof_packet_payload_def)
  then obtain report where "verify_combined_proof_packet_payload flat_env open_schemas sample_packet sample_request sample_admission
      = Inr report" "pget report ''status'' = JStr ''pass''" by blast
  from combined_packet_verified [OF this] this(1) show ?thesis by blast
qed

theorem decision_to_from_dict_witness:
  "decision_from_dict open_schemas (decision_asdict sample_decision) = Inr sample_decision"
  by (rule decision_to_from_dict) (simp add: decision_to_dict_def)

end
