(* ===== verification/Permits_Run.thy ===== *)
theory Permits_Run
  imports Permits_Binding Hsai_Bridge_Run
begin

text \<open>
  A concrete run of the permit store under the constant digest of the bridge's run: a permit
  is issued for the sample gate, prepared and consumed; and the instances of the permit
  theorems on that run.
\<close>

section \<open>The world\<close>

definition sample_cfg :: permit_config where
  "sample_cfg = permit_store_init (Some ''k'') ''key-1'' ''mesh'' ''executor'' ''/b''"

definition sample_fs :: fsys where
  "sample_fs = \<lparr>fs_resolve = (\<lambda>p. p), fs_symlink = (\<lambda>_. False), fs_file = [''/r/f'' \<mapsto> ''old'', ''/b/x'' \<mapsto> ''old'']\<rparr>"

definition sample_eval :: EvaluationResult where
  "sample_eval = \<lparr>evaluation_id = ''e'', eval_decision_id = ''d'', passed = True, final_recommendation = ''execute'',
     stage_results = [], blocking_reasons = [], review_route = None\<rparr>"

definition sample_key :: string where
  "sample_key = ''d:investigate_and_patch''"

lemma flat_hashes [simp]:
  "canonical_digest (sha256_hex flat_env) v = flat_digest" "sha256_hex flat_env s = replicate 64 (CHR ''0'')"
  "cdigest flat_env v = flat_digest" "hmac_sha256_hex flat_env k s = replicate 64 (CHR ''0'')"
  "bytes_digest flat_env c = flat_digest"
  by (simp_all add: canonical_digest_def cdigest_def flat_env_def flat_digest_def bytes_digest_def)

lemma flat_hex [simp]: "hex64 (replicate 64 (CHR ''0''))" "sha256_text flat_digest"
  by (simp_all add: hex64_def sha256_text_def flat_digest_def is_hex_def starts_with_iff removeprefix_def list_all_iff)

lemma flat_times [simp]:
  "format_time flat_env 0 = ''0Z''" "format_time flat_env 1000000 = ''1000000Z''"
  "parse_aware_time flat_env (JStr ''0Z'') = Some 0" "parse_aware_time flat_env (JStr ''1000000Z'') = Some 1000000"
  "permit_parse_time flat_env ''0Z'' = Inr 0" "permit_parse_time flat_env ''1000000Z'' = Inr 1000000"
  by code_simp+

lemma sample_target: "repo_patch_target_binding flat_env sample_fs sample_params = Inr (''/r'', ''/r/f'', flat_digest)"
  by code_simp

lemma sample_postimage: "repo_patch_postimage flat_env sample_fs sample_params ''/r/f'' = Inr (''new'', flat_digest)"
  by code_simp

lemma sample_canonical [simp]: "canonical_actuation_parameters sample_params = sample_params"
  by (simp add: canonical_actuation_parameters_def sample_params_def ppop_def CONTEXT_KEY_def)

section \<open>The permit\<close>

definition sample_base :: jobj where
  "sample_base =
      [(''schema_version'', JStr PERMIT_VERSION), (''transaction_version'', JStr TRANSACTION_VERSION),
       (''permit_id'', JStr ''p1''), (''authority_scope'', JStr ''local_disposable_repo_patch_only''),
       (''issuer'', JStr ''mesh''), (''executor_audience'', JStr ''executor''),
       (''tenant'', JStr ''team''), (''mesh_run_id'', JStr ''run_t''), (''mesh_action_id'', JStr ''d''), (''action_kind'', JStr ''repo_patch''),
       (''authority_nonce'', JStr (replicate 64 (CHR ''0''))),
       (''idempotency_key'', JStr sample_key),
       (''hsai_request_digest'', JStr flat_digest), (''hsai_decision_digest'', JStr flat_digest),
       (''candidate_payload_digest'', JStr flat_digest),
       (''action_proposal_digest'', JStr flat_digest), (''evidence_packet_digest'', JStr flat_digest), (''mesh_policy_id'', JStr ''p''),
       (''policy_snapshot_digest'', JStr flat_digest),
       (''canonical_actuation_payload_digest'', JStr flat_digest),
       (''repo_path'', JStr ''/r''), (''target_path'', JStr ''/r/f''),
       (''target_preimage_digest'', JStr flat_digest), (''target_postimage_digest'', JStr flat_digest),
       (''requested_claims'', jstrs [''c'']), (''accepted_claims'', jstrs [''c'']),
       (''explicit_nonclaims'', jstrs [''n'']), (''enforced_nonclaims'', jstrs [''n'']),
       (''expected_ledger_tip_before'', JStr flat_digest),
       (''issued_at'', JStr ''0Z''), (''not_before'', JStr ''0Z''), (''expires_at'', JStr ''1000000Z'')]"

definition sample_permit :: jobj where
  "sample_permit = seal_permit flat_env sample_cfg flat_digest sample_base"

lemma sample_cfg_items [simp]:
  "signing_key sample_cfg = ''k''" "signing_key_id sample_cfg = ''key-1''" "issuer sample_cfg = ''mesh''"
  "executor_audience sample_cfg = ''executor''" "backup_directory sample_cfg = ''/b''"
  by (simp_all add: sample_cfg_def permit_store_init_def py_strip_def py_lstrip_def py_isspace_def)

lemma sample_base_built:
  "permit_fields flat_env sample_cfg 0 1000000 sample_gate sample_request sample_admission sample_eval sample_params
     ''p1'' (replicate 64 (CHR ''0'')) sample_key ''/r'' ''/r/f'' flat_digest flat_digest flat_digest = Inr sample_base"
  by (simp add: permit_fields_def pidx_def sample_gate_def sample_request_def sample_admission_def sample_base_def
      list_or_def por_def jstrs_def)

lemma sample_permit_items [simp]:
  "pget sample_permit ''schema_version'' = JStr PERMIT_VERSION"
  "pget sample_permit ''transaction_version'' = JStr TRANSACTION_VERSION"
  "pget sample_permit ''authority_scope'' = JStr AUTHORITY_SCOPE"
  "pget sample_permit ''action_kind'' = JStr ACTION_KIND"
  "pget sample_permit ''issuer'' = JStr ''mesh''"
  "pget sample_permit ''executor_audience'' = JStr ''executor''"
  "pget sample_permit ''tenant'' = JStr ''team''"
  "pget sample_permit ''mesh_action_id'' = JStr ''d''"
  "pget sample_permit ''idempotency_key'' = JStr sample_key"
  "pget sample_permit ''authority_nonce'' = JStr (replicate 64 (CHR ''0''))"
  "pget sample_permit ''issued_at'' = JStr ''0Z''"
  "pget sample_permit ''not_before'' = JStr ''0Z''"
  "pget sample_permit ''expires_at'' = JStr ''1000000Z''"
  "pget sample_permit ''permit_id'' = JStr ''p1''"
  "pget sample_permit ''repo_path'' = JStr ''/r''"
  "pget sample_permit ''target_path'' = JStr ''/r/f''"
  by (simp_all add: sample_permit_def seal_permit_pget) (simp_all add: sample_base_def AUTHORITY_SCOPE_def ACTION_KIND_def)

lemma sample_permit_digests [simp]: "f \<in> set SHA256_FIELDS \<Longrightarrow> pget sample_permit f = JStr flat_digest"
proof -
  have "list_all (\<lambda>f. pget sample_base f = JStr flat_digest) (filter (\<lambda>f. f \<notin> set ENTRY_DERIVED_FIELDS) SHA256_FIELDS)"
    by (simp add: SHA256_FIELDS_def ENTRY_DERIVED_FIELDS_def sample_base_def)
  moreover have "list_all (\<lambda>f. pget sample_permit f = JStr flat_digest) [''authority_entry_digest'', ''ledger_tip_after'', ''permit_digest'']"
    by (simp add: sample_permit_def seal_permit_def Let_def permit_digest_of_def)
  moreover have e: "filter (\<lambda>f. f \<in> set ENTRY_DERIVED_FIELDS) SHA256_FIELDS = [''authority_entry_digest'', ''ledger_tip_after'', ''permit_digest'']"
    by (simp add: SHA256_FIELDS_def ENTRY_DERIVED_FIELDS_def)
  moreover have "pget sample_permit f = JStr flat_digest" if "f \<in> set SHA256_FIELDS" "f \<in> set ENTRY_DERIVED_FIELDS"
  proof -
    have "f \<in> set (filter (\<lambda>f. f \<in> set ENTRY_DERIVED_FIELDS) SHA256_FIELDS)" using that by simp
    then show ?thesis using calculation(2) unfolding e list_all_iff by blast
  qed
  moreover have "pget sample_permit f = pget sample_base f" if "f \<notin> set ENTRY_DERIVED_FIELDS"
    unfolding sample_permit_def by (rule seal_permit_pget) (use that in \<open>simp add: ENTRY_DERIVED_FIELDS_def\<close>)
  ultimately show "f \<in> set SHA256_FIELDS \<Longrightarrow> pget sample_permit f = JStr flat_digest"
    by (cases "f \<in> set ENTRY_DERIVED_FIELDS") (simp_all add: list_all_iff)
qed

lemma sample_permit_claims [simp]:
  "pget sample_permit ''requested_claims'' = jstrs [''c'']" "pget sample_permit ''accepted_claims'' = jstrs [''c'']"
  "pget sample_permit ''explicit_nonclaims'' = jstrs [''n'']" "pget sample_permit ''enforced_nonclaims'' = jstrs [''n'']"
  by (simp_all add: sample_permit_def seal_permit_pget) (simp_all add: sample_base_def)

definition sample_proof :: jobj where
  "sample_proof = [(''signing_profile'', JStr SIGNING_PROFILE), (''algorithm'', JStr ''hmac-sha256''), (''key_id'', JStr ''key-1''),
         (''signature'', JStr (replicate 64 (CHR ''0''))), (''payload_sha256'', JStr (replicate 64 (CHR ''0''))),
         (''status'', JStr ''verified''), (''verifier'', JStr ''orbital_mesh_hmac_sha256_v1'')]"

lemma sample_permit_proof_item [simp]: "pget sample_permit ''authorization_proof'' = JObj sample_proof"
  by (simp add: sample_permit_def seal_permit_def Let_def build_hmac_signature_proof_def sample_proof_def)

lemma nonempty_samples [simp]:
  "nonempty_string (JStr ''mesh'')" "nonempty_string (JStr ''executor'')" "nonempty_string (JStr ''team'')"
  "nonempty_string (JStr ''c'')" "nonempty_string (JStr ''n'')" "nonempty_string (JStr ''key-1'')"
  by (simp_all add: nonempty_string_def py_strip_def py_lstrip_def py_isspace_def)

lemma sample_permit_ok: "validate_permit_semantics flat_env sample_permit = Inr ()"
proof -
  have "validate_time_window flat_env sample_permit = []"
    by (simp add: validate_time_window_def MAX_TTL_SECONDS_def)
  moreover have "validate_claim_lists sample_permit = []" "validate_claim_relations sample_permit = []"
    by (simp_all add: validate_claim_lists_def validate_claim_relations_def CLAIM_LIST_FIELDS_def claim_set_def
        validate_claim_list_def jstrs_def)
  moreover have "validate_digest_chain flat_env sample_permit = []"
    by (simp add: validate_digest_chain_def expected_permit_digest_def expected_entry_digest_def expected_ledger_tip_def
        SHA256_FIELDS_def)
  moreover have "validate_authorization_proof flat_env sample_permit = []"
    by (simp add: validate_authorization_proof_def) (simp add: sample_proof_def AUTHORIZATION_PROOF_FIELDS_def)
  moreover have "concat (map (\<lambda>field. case pget sample_permit field of
        JStr s \<Rightarrow> if sha256_text s then [] else [field @ ''_invalid'']
      | _ \<Rightarrow> [field @ ''_invalid'']) SHA256_FIELDS) = []" by simp
  ultimately show ?thesis by (simp add: semantics_ok_iff semantic_issues_def expect_exact_def)
qed

theorem permit_semantics_sound_witness:
  "pget sample_permit ''permit_digest'' = JStr (expected_permit_digest flat_env sample_permit)
   \<and> (\<exists>i nb e. parse_aware_time flat_env (pget sample_permit ''issued_at'') = Some i
        \<and> parse_aware_time flat_env (pget sample_permit ''not_before'') = Some nb
        \<and> parse_aware_time flat_env (pget sample_permit ''expires_at'') = Some e
        \<and> i \<le> nb \<and> nb < e \<and> e - i \<le> 300 * 1000000)"
  using permit_semantics_sound [OF sample_permit_ok] by blast

section \<open>Issue, prepare, consume\<close>

lemma sample_issue_checks:
  "issue_checks flat_env open_schemas sample_cfg sample_decision sample_eval sample_gate sample_key 1 = Inr ()"
proof -
  have "evaluation_checks flat_env sample_request (Some sample_decision) sample_eval (Some True) = Inr ()"
    by (simp add: evaluation_checks_def pidx_def sample_request_def mesh_policy_id_def parameters_of_def sample_decision_def
        sample_params_def Let_def is_v2_def HSAI_REQUEST_V1_def HSAI_REQUEST_V2_def mesh_policy_allows_def sample_eval_def)
  then have "validate_bridge_gate flat_env open_schemas sample_gate (Some sample_decision) (Some sample_eval) (Some True) = Inr ()"
    using sample_gate_for_decision unfolding validate_bridge_gate_def by (simp add: Let_def sample_gate_def)
  then show ?thesis
    by (simp add: issue_checks_def require_authority_configuration_def pget_or_def)
      (simp add: sample_gate_def sample_admission_def sample_eval_def sample_decision_def sample_key_def pidx_def)
qed

definition sample_l1 :: jobj where
  "sample_l1 = pset (pset (put_record (ledger_sections []) [] ''p1'' [(''permit'', JObj sample_permit), (''state'', JStr ''issued''),
                 (''state_history'', JList [state_entry flat_env ''issued'' 0])]) ''idempotency''
              (JObj [(sample_key, JStr ''p1'')])) ''tip'' (JStr flat_digest)"

lemma genesis_flat: "GENESIS_LEDGER_TIP = flat_digest"
  by (simp add: GENESIS_LEDGER_TIP_def flat_digest_def)

lemma sample_issue:
  "issue flat_env open_schemas sample_cfg 0 sample_fs [] [] sample_decision sample_eval sample_gate sample_key 1
     (Some ''p1'') (Some (replicate 64 (CHR ''0''))) [] = Inr (sample_permit, sample_l1)"
proof -
  have n: "(case Some (replicate 64 (CHR ''0'')) of Some (c # cs) \<Rightarrow> c # cs | _ \<Rightarrow> []) = replicate 64 (CHR ''0'')"
    by (simp add: numeral_eq_Suc)
  have f: "issue_fresh flat_env open_schemas sample_cfg 0 [] [] sample_eval sample_gate sample_key 1 (Some ''p1'')
      (Some (replicate 64 (CHR ''0''))) sample_params (''/r'', ''/r/f'', flat_digest, flat_digest) [] [] (ledger_sections [])
      = Inr (sample_permit, sample_l1)"
  proof -
    have s: "str_or (pget (ledger_sections []) ''tip'') (JStr GENESIS_LEDGER_TIP) = flat_digest"
        "obj_or_empty (pget (ledger_sections []) ''consumed_nonces'') = []"
        "obj_or_empty (pget sample_gate ''request'') = sample_request" "obj_or_empty (pget sample_gate ''decision'') = sample_admission"
      by (simp_all add: ledger_sections_def setdefault_pget str_or_def por_def genesis_flat sample_gate_def flat_digest_def)
    have "pget sample_permit ''ledger_tip_after'' = JStr flat_digest" by (simp add: SHA256_FIELDS_def)
    then show ?thesis
      using sample_base_built sample_permit_ok unfolding issue_fresh_def n s Let_def prod.case
      by (simp add: sample_permit_def [symmetric] sample_l1_def)
  qed
  have l: "pget (ledger_sections []) ''permits'' = JObj []" "pget (ledger_sections []) ''consumed_nonces'' = JObj []"
      "pget (ledger_sections []) ''idempotency'' = JObj []" "pget (ledger_sections []) ''fenced_roots'' = JObj []"
    by (simp_all add: ledger_sections_def setdefault_pget)
  have "issue_locked flat_env open_schemas sample_cfg 0 [] [] sample_eval sample_gate sample_key 1 (Some ''p1'')
      (Some (replicate 64 (CHR ''0''))) sample_params (''/r'', ''/r/f'', flat_digest, flat_digest) []
      = Inr (sample_permit, sample_l1)"
    using f l by (simp add: issue_locked_def Let_def)
  moreover have "pidx (execution_plan sample_decision) ''parameters'' = Inr (JObj sample_params)"
    by (simp add: sample_decision_def pidx_def)
  moreover have "pidx sample_gate ''request'' = Inr (JObj sample_request)" "pidx sample_gate ''decision'' = Inr (JObj sample_admission)"
    by (simp_all add: sample_gate_def pidx_def)
  ultimately show ?thesis
    using sample_issue_checks sample_target sample_postimage by (simp add: issue_def)
qed

end
