(* ===== verification/Permits_Witness.thy ===== *)
theory Permits_Witness
  imports Permits_Run
begin

text \<open>
  The rest of the concrete run, and the instances of the permit theorems on it.
\<close>

section \<open>The run\<close>

lemma sample_reach1: "permit_reach flat_env open_schemas sample_cfg (sample_l1, sample_fs)"
proof (rule reach_step)
  show "permit_reach flat_env open_schemas sample_cfg ([], sample_fs)" by (rule reach_init) simp
  show "permit_step flat_env open_schemas sample_cfg ([], sample_fs) (sample_l1, sample_fs)"
    by (rule step_issue [OF sample_issue])
qed

lemma sample_l1_rec: "rec_of sample_l1 ''p1'' = Some [(''permit'', JObj sample_permit), (''state'', JStr ''issued''),
                 (''state_history'', JList [state_entry flat_env ''issued'' 0])]"
  by (simp add: sample_l1_def rec_of_put_record ledger_sections_def setdefault_pget)

lemma sample_wf1: "wf_ledger sample_l1"
  using permit_ledger.reach_inv [OF sample_reach1] by simp

definition sample_details :: jobj where
  "sample_details = [(''backup_path'', JStr ''/b/x'')]"

definition sample_rt :: "py_exn + (jobj \<times> jobj)" where
  "sample_rt = record_transition flat_env 0 ''p1'' ''issued'' ''prepared'' sample_details None sample_l1"

definition sample_r2 :: jobj where "sample_r2 = fst (projr sample_rt)"
definition sample_l2 :: jobj where "sample_l2 = snd (projr sample_rt)"

lemma sample_prepare:
  "record_transition flat_env 0 ''p1'' ''issued'' ''prepared'' sample_details None sample_l1 = Inr (sample_r2, sample_l2)"
proof -
  have "allowed ''issued'' ''prepared''" "''prepared'' \<notin> set TERMINAL_STATES"
    by (simp_all add: allowed_def allowed_from_def ALLOWED_TRANSITIONS_def TERMINAL_STATES_def)
  then have "\<exists>r l. sample_rt = Inr (r, l)"
    unfolding sample_rt_def by (intro record_transition_total [OF sample_wf1 sample_l1_rec]) simp_all
  then show ?thesis by (auto simp: sample_r2_def sample_l2_def sample_rt_def)
qed

lemma sample_r2_items:
  "rec_of sample_l2 ''p1'' = Some sample_r2" "pget sample_r2 ''state'' = JStr ''prepared''"
  "pget sample_r2 ''permit'' = JObj sample_permit" "wf_record sample_r2"
  "nonces_of sample_l2 = []" "pget sample_l2 ''consumed_nonces'' = JObj []"
proof -
  obtain rec where r: "rec_of sample_l1 ''p1'' = Some rec"
      "transition_record flat_env rec ''issued'' ''prepared'' 0 sample_details None = Inr sample_r2"
      "\<forall>x. rec_of sample_l2 x = (if x = ''p1'' then Some sample_r2 else rec_of sample_l1 x)"
      "\<forall>k. k \<noteq> ''permits'' \<longrightarrow> pget sample_l2 k = pget sample_l1 k"
    using record_transition_ok [OF sample_prepare] by blast
  have l2: "rec_of sample_l2 ''p1'' = Some sample_r2" using r(3) by simp
  have "wf_record sample_r2" using wf_rec_of [OF record_transition_wf [OF sample_prepare sample_wf1] l2] .
  then show "rec_of sample_l2 ''p1'' = Some sample_r2" "pget sample_r2 ''state'' = JStr ''prepared''"
    "pget sample_r2 ''permit'' = JObj sample_permit" "wf_record sample_r2"
    using l2 transition_record_ok [OF r(2)] sample_l1_rec r(1) by auto
  have "pget sample_l1 ''consumed_nonces'' = JObj []"
    by (simp add: sample_l1_def put_record_def ledger_sections_def setdefault_pget)
  then show "pget sample_l2 ''consumed_nonces'' = JObj []" "nonces_of sample_l2 = []" using r(4) by (simp_all add: nonces_of_def)
qed

definition sample_context :: jobj where
  "sample_context = [(''request'', JObj sample_request), (''request_digest'', JStr flat_digest),
     (''decision_digest'', JStr flat_digest), (''candidate_digest'', JStr flat_digest)]"

definition sample_decision2 :: Decision where
  "sample_decision2 = sample_decision\<lparr>execution_plan :=
     [(''system'', JStr ''repo_patch_service''), (''action'', JStr ''investigate_and_patch''),
       (''parameters'', JObj (sample_params @ [(CONTEXT_KEY, JObj sample_context)]))]\<rparr>"

lemma sample_permit_valid:
  "validate_permit flat_env open_schemas sample_cfg 5 sample_fs sample_permit sample_decision2 sample_key sample_params = Inr ()"
proof -
  have hm: "verify_hmac_signature_proof flat_env (permit_signed_payload sample_permit) sample_proof ''k''"
    by (simp add: verify_hmac_signature_proof_def build_hmac_signature_proof_def sample_proof_def por_def numeral_eq_Suc)
  have pd: "permit_digest_of flat_env sample_permit = flat_digest" by (simp add: permit_digest_of_def)
  have ps: "pidx (execution_plan sample_decision2) ''parameters'' = Inr (JObj (sample_params @ [(CONTEXT_KEY, JObj sample_context)]))"
      "pidx (execution_plan sample_decision2) ''action'' = Inr (JStr ''investigate_and_patch'')" "decision_id sample_decision2 = ''d''"
    by (simp_all add: sample_decision2_def pidx_def) (simp add: sample_decision_def)
  have cx: "pget (sample_params @ [(CONTEXT_KEY, JObj sample_context)]) CONTEXT_KEY = JObj sample_context"
    by (simp add: sample_params_def CONTEXT_KEY_def)
  have pf: "pget sample_proof ''key_id'' = JStr ''key-1''" "pget sample_proof ''signing_profile'' = JStr SIGNING_PROFILE"
    by (simp_all add: sample_proof_def)
  have cr: "pget sample_context ''request'' = JObj sample_request" "pget sample_context ''request_digest'' = JStr flat_digest"
    "pget sample_context ''decision_digest'' = JStr flat_digest" "pget sample_context ''candidate_digest'' = JStr flat_digest"
    by (simp_all add: sample_context_def)
  have ac: "pget_or sample_request ''actor_ref'' (JObj []) = JObj [(''team_id'', JStr ''team'')]"
    by (simp add: sample_request_def pget_or_def)
  have items: "pidx sample_permit f = Inr (pget sample_permit f)" if "pget sample_permit f \<noteq> JNull" for f
    using map_of_Some_pget [OF refl that] by simp
  have dg: "pget sample_permit ''permit_digest'' = JStr flat_digest" "pget sample_permit ''hsai_request_digest'' = JStr flat_digest"
      "pget sample_permit ''hsai_decision_digest'' = JStr flat_digest" "pget sample_permit ''candidate_payload_digest'' = JStr flat_digest"
      "pget sample_permit ''canonical_actuation_payload_digest'' = JStr flat_digest"
      "pget sample_permit ''target_preimage_digest'' = JStr flat_digest" "pget sample_permit ''target_postimage_digest'' = JStr flat_digest"
    by (simp_all add: SHA256_FIELDS_def)
  show ?thesis
    unfolding validate_permit_def Let_def
    by (simp add: sample_permit_ok hm pd ps cx pf cr ac items dg sample_target sample_postimage require_authority_configuration_def
        del: pidx_eq_Inr) (simp add: sample_key_def)
qed

lemma py_eq_refl_permit: "py_eq (JObj sample_permit) (JObj sample_permit)"
proof (rule py_eq_refl)
  have "wf_jval (JObj sample_base)" by (simp add: sample_base_def jstrs_def)
  moreover have "wf_jval (JObj (build_hmac_signature_proof flat_env p kid s prof))" for p kid s prof
    by (simp add: build_hmac_signature_proof_def)
  ultimately show "wf_jval (JObj sample_permit)"
    unfolding sample_permit_def seal_permit_def Let_def by (intro wf_jval_pset) simp_all
qed

lemma sample_consume:
  "\<exists>res l3. consume flat_env open_schemas sample_cfg 5 sample_fs sample_permit sample_decision2 sample_key sample_params sample_l2
     = Inr (res, l3)"
proof -
  obtain records where p: "pget sample_l2 ''permits'' = JObj records" "pget records ''p1'' = JObj sample_r2"
    using sample_r2_items(1) by (cases "pget sample_l2 ''permits''") (auto simp: rec_of_def split: jval.splits)
  have n: "setdefault sample_l2 ''consumed_nonces'' (JObj []) = sample_l2"
    using sample_r2_items(6) by (simp add: setdefault_def phas_if_pget)
  obtain r3 where "transition_record flat_env sample_r2 ''prepared'' ''claimed'' 5 [] None = Inr r3"
    using transition_record_total [OF sample_r2_items(4,2)] by blast
  moreover have items: "pidx sample_permit f = Inr (pget sample_permit f)" if "pget sample_permit f \<noteq> JNull" for f
    using map_of_Some_pget [OF refl that] by simp
  moreover have "pget sample_permit f \<noteq> JNull" if "f \<in> set SHA256_FIELDS" for f using that by simp
  then have "pidx sample_permit f = Inr (JStr flat_digest)" if "f \<in> set SHA256_FIELDS" for f using that items by simp
  then have "pidx sample_permit ''permit_digest'' = Inr (JStr flat_digest)" "pidx sample_permit ''authority_entry_digest'' = Inr (JStr flat_digest)"
    "pidx sample_permit ''ledger_tip_after'' = Inr (JStr flat_digest)" "pidx sample_permit ''target_preimage_digest'' = Inr (JStr flat_digest)"
    "pidx sample_permit ''target_postimage_digest'' = Inr (JStr flat_digest)" by (simp_all add: SHA256_FIELDS_def del: pidx_eq_Inr)
  ultimately show ?thesis
    using p n sample_r2_items(2,3,6) sample_permit_valid py_eq_refl_permit
    by (simp add: consume_def permits_of_def lookup_j_def Let_def del: pidx_eq_Inr ebind_eq_Inr)
qed

lemma sample_reach2: "permit_reach flat_env open_schemas sample_cfg (sample_l2, sample_fs)"
  by (rule reach_step [OF sample_reach1]) (rule step_transition [OF sample_prepare])

lemma sample_wf2: "wf_ledger sample_l2"
  using permit_ledger.reach_inv [OF sample_reach2] by simp

lemma sample_abort:
  "\<exists>res l3 fs3. abort_with_restoration flat_env sample_cfg 5 sample_permit ''prepared'' ''r'' [] sample_l2 sample_fs = (Inr (res, l3), fs3)"
  using abort_total [OF sample_wf2 sample_r2_items(1,2)] map_of_Some_pget [of sample_permit "''permit_id''"]
  by (simp add: MUTATION_STATES_def)

section \<open>Instances\<close>

theorem permit_consumed_once_witness:
  "\<exists>res l3. consume flat_env open_schemas sample_cfg 5 sample_fs sample_permit sample_decision2 sample_key sample_params sample_l2
       = Inr (res, l3)
     \<and> \<not> is_ok (consume flat_env open_schemas sample_cfg 6 sample_fs sample_permit sample_decision2 sample_key sample_params l3)"
proof -
  obtain res l3 where c: "consume flat_env open_schemas sample_cfg 5 sample_fs sample_permit sample_decision2 sample_key
      sample_params sample_l2 = Inr (res, l3)" using sample_consume by blast
  from permit_consumed_once [OF c rtranclp.rtrancl_refl] c show ?thesis by blast
qed


theorem permit_fenced_root_witness:
  "\<not> is_ok (issue flat_env open_schemas sample_cfg 0 sample_fs [] [] sample_decision sample_eval sample_gate sample_key 1
     None None [(''fenced_roots'', JObj [(''/r'', JNull)])])"
proof (rule permit_fenced_root)
  show "phas (fences_of [(''fenced_roots'', JObj [(''/r'', JNull)])]) ''/r''" by (simp add: fences_of_def)
  show "(permit_step flat_env open_schemas sample_cfg)\<^sup>*\<^sup>* ([(''fenced_roots'', JObj [(''/r'', JNull)])], sample_fs)
      ([(''fenced_roots'', JObj [(''/r'', JNull)])], sample_fs)" by simp
  show "map_of (execution_plan sample_decision) ''parameters'' = Some (JObj sample_params)" by (simp add: sample_decision_def)
  show "repo_patch_target_binding flat_env sample_fs (canonical_actuation_parameters sample_params) = Inr (''/r'', ''/r/f'', flat_digest)"
    using sample_target by simp
qed

theorem abort_restores_or_fences_witness:
  "\<exists>res l3 fs3 r. abort_with_restoration flat_env sample_cfg 5 sample_permit ''prepared'' ''r'' [] sample_l2 sample_fs = (Inr (res, l3), fs3)
     \<and> rec_of l3 ''p1'' = Some r \<and> pget r ''terminal_result'' = JObj res"
proof -
  obtain res l3 fs3 where a: "abort_with_restoration flat_env sample_cfg 5 sample_permit ''prepared'' ''r'' [] sample_l2 sample_fs
      = (Inr (res, l3), fs3)" using sample_abort by blast
  from abort_restores_or_fences [OF a] a show ?thesis by auto
qed

theorem recovery_completes_witness:
  "\<exists>items l3 fs3. recover_incomplete_actions flat_env sample_cfg 9 sample_l2 sample_fs = (Inr items, l3, fs3)"
  using recovery_completes [OF sample_reach2] by blast

theorem target_binding_in_scope_witness:
  "\<exists>ps. path_parts ''/r/f'' = path_parts ''/r'' @ ps"
  using target_binding_in_scope [OF sample_target] by blast

theorem postimage_replaces_anchor_witness:
  "\<exists>content points a b anchor new. fs_file sample_fs ''/r/f'' = Some content \<and> utf8_points content = Some points
     \<and> text_newlines points = a @ text_points (py_str anchor) @ b \<and> ''new'' = utf8_bytes (a @ text_points (py_str new) @ b)"
  using postimage_replaces_anchor [OF sample_postimage] by blast

text \<open>The line ends of a file with carriage returns are not preserved.\<close>

lemma postimage_drops_returns:
  "map_sum id fst (repo_patch_postimage flat_env (sample_fs\<lparr>fs_file := [''/r/f'' \<mapsto> ''old'' @ [CHR 0x0D, CHR 0x0A]]\<rparr>)
     sample_params ''/r/f'') = Inr (''new'' @ [CHR 0x0A])"
  by code_simp

theorem issue_binds_permit_witness:
  "passed sample_eval \<and> pget sample_permit ''canonical_actuation_payload_digest'' = JStr (cdigest flat_env (JObj sample_params))
   \<and> freshly_issued flat_env sample_key [] sample_l1 sample_permit ''/r'' ''/r/f'' flat_digest flat_digest"
proof -
  have "map_of (execution_plan sample_decision) ''parameters'' = Some (JObj sample_params)" by (simp add: sample_decision_def)
  moreover have "\<not> stored_permit [] sample_key sample_permit" by (simp add: stored_permit_def key_entry_def)
  ultimately show ?thesis
    using issue_binds_permit [OF sample_issue] sample_canonical sample_target sample_postimage by auto
qed

theorem consume_authorized_witness:
  "\<exists>nb ex. permit_parse_time flat_env (py_str (pget sample_permit ''not_before'')) = Inr nb
     \<and> permit_parse_time flat_env (py_str (pget sample_permit ''expires_at'')) = Inr ex \<and> nb \<le> 5 \<and> 5 \<le> ex"
proof -
  obtain res l3 where c: "consume flat_env open_schemas sample_cfg 5 sample_fs sample_permit sample_decision2 sample_key
      sample_params sample_l2 = Inr (res, l3)" using sample_consume by blast
  from consume_authorized [OF c] show ?thesis by blast
qed

end
