(* ===== verification/Execution_Attempts.thy ===== *)
theory Execution_Attempts
  imports Hsai_Bridge_Props
begin

text \<open>
  \<open>shared/mesh_runtime/execution_attempts.py\<close>: the durable ledger of side-effecting execution
  attempts. The state is the dictionary of the file \<open>execution_attempts.json\<close>; every method
  runs under its lock and writes it back when the block returns.
\<close>

definition attempt_get :: "string \<Rightarrow> jobj \<Rightarrow> jobj option" where
  "attempt_get key payload = (case pget_or payload ''attempts'' (JObj []) of
      JObj attempts \<Rightarrow> (case pget attempts key of JObj r \<Rightarrow> Some r | _ \<Rightarrow> None)
    | _ \<Rightarrow> None)"

definition put_attempt :: "jobj \<Rightarrow> jobj \<Rightarrow> string \<Rightarrow> jobj \<Rightarrow> jobj" where
  "put_attempt payload attempts key r = pset payload ''attempts'' (JObj (pset attempts key (JObj r)))"

definition attempt_begin :: "string \<Rightarrow> string \<Rightarrow> string \<Rightarrow> jobj \<Rightarrow> jobj \<Rightarrow> py_exn + (jobj \<times> jobj)" where
  "attempt_begin now key did plan payload =
     ebind (as_obj (pget (setdefault payload ''attempts'' (JObj [])) ''attempts'')) (\<lambda>attempts.
     ebind (case pget attempts key of
        JObj r \<Rightarrow>
          ebind (py_int (por (pget_or r ''attempt_count'' (JInt 0)) (JInt 0))) (\<lambda>n.
          Inr (pset (pset r ''attempt_count'' (JInt (n + 1))) ''updated_at'' (JStr now)))
      | _ \<Rightarrow>
          Inr [(''idempotency_key'', JStr key), (''decision_id'', JStr did),
               (''system'', pget plan ''system''), (''action'', pget plan ''action''),
               (''status'', JStr ''attempt_started''), (''attempt_count'', JInt 1),
               (''created_at'', JStr now), (''updated_at'', JStr now)]) (\<lambda>r.
     Inr (r, put_attempt payload attempts key r)))"

definition attempt_update :: "string \<Rightarrow> string \<Rightarrow> jobj \<Rightarrow> jobj \<Rightarrow> py_exn + (jobj \<times> jobj)" where
  "attempt_update now key updates payload =
     ebind (as_obj (pget (setdefault payload ''attempts'' (JObj [])) ''attempts'')) (\<lambda>attempts.
     ebind (as_obj (pget_or attempts key
        (JObj [(''idempotency_key'', JStr key), (''status'', JStr ''attempt_started''), (''attempt_count'', JInt 0),
               (''created_at'', JStr now)]))) (\<lambda>r0.
     let r = pset (pupdate r0 updates) ''updated_at'' (JStr now)
     in Inr (r, put_attempt payload attempts key r)))"

definition attempt_mark_dispatched :: "string \<Rightarrow> string \<Rightarrow> jobj \<Rightarrow> py_exn + (jobj \<times> jobj)" where
  "attempt_mark_dispatched now key payload =
     attempt_update now key [(''status'', JStr ''remote_command_dispatched''), (''dispatched_at'', JStr now)] payload"

definition attempt_complete :: "string \<Rightarrow> string \<Rightarrow> string \<Rightarrow> jobj \<Rightarrow> jobj option \<Rightarrow> jobj \<Rightarrow> py_exn + (jobj \<times> jobj)" where
  "attempt_complete now key status refs fail payload =
     attempt_update now key
       [(''status'', JStr status), (''completed_at'', JStr now), (''external_refs'', JObj refs),
        (''failure'', case fail of Some f \<Rightarrow> JObj f | None \<Rightarrow> JNull)] payload"

definition has_terminal_outcome :: "jobj option \<Rightarrow> py_exn + bool" where
  "has_terminal_outcome r = (case r of
      None \<Rightarrow> Inr False
    | Some d \<Rightarrow> if d = [] then Inr False else in_set (pget d ''status'') [''succeeded'', ''failed'', ''rejected''])"

definition dispatched_without_outcome :: "jobj option \<Rightarrow> bool" where
  "dispatched_without_outcome r = (case r of
      None \<Rightarrow> False
    | Some d \<Rightarrow> d \<noteq> [] \<and> py_eq (pget d ''status'') (JStr ''remote_command_dispatched''))"

section \<open>Reading back what was written\<close>

lemma attempt_get_put [simp]:
  "attempt_get key (put_attempt payload attempts k r) =
     (if key = k then Some r else (case pget attempts key of JObj x \<Rightarrow> Some x | _ \<Rightarrow> None))"
  by (auto simp: attempt_get_def put_attempt_def pget_or_def pset_def update_conv pget_def split: option.splits jval.splits)

lemma attempts_setdefault:
  assumes "pget (setdefault payload ''attempts'' (JObj [])) ''attempts'' = JObj attempts"
  shows "attempt_get key payload = (case pget attempts key of JObj x \<Rightarrow> Some x | _ \<Rightarrow> None)"
proof -
  have "pget_or payload ''attempts'' (JObj []) = JObj attempts"
    using assms unfolding setdefault_def pget_or_def pset_def pget_def phas_def
    by (cases "map_of payload ''attempts''") (simp_all add: update_conv)
  then show ?thesis by (simp add: attempt_get_def)
qed

lemma pupdate_pget_other: "k \<notin> fst ` set u \<Longrightarrow> pget (pupdate d u) k = pget d k"
  by (induction d u rule: pupdate.induct) auto

lemma attempt_update_get:
  assumes "attempt_update now key ((''status'', JStr s) # u) payload = Inr (r, payload')"
    and u: "''status'' \<notin> fst ` set u"
  shows "attempt_get key payload' = Some r \<and> pget r ''status'' = JStr s
    \<and> (\<forall>k. k \<noteq> key \<longrightarrow> attempt_get k payload' = attempt_get k payload)"
proof -
  obtain attempts r0 where a: "pget (setdefault payload ''attempts'' (JObj [])) ''attempts'' = JObj attempts"
    and r: "r = pset (pupdate r0 ((''status'', JStr s) # u)) ''updated_at'' (JStr now)"
      "payload' = put_attempt payload attempts key r"
    using assms(1) unfolding attempt_update_def Let_def by (auto simp del: pupdate.simps)
  have "pget r ''status'' = JStr s"
    by (simp add: r(1) pget_pset pupdate_pget_other [OF u])
  then show ?thesis using attempts_setdefault [OF a] by (simp add: r(2))
qed

lemma attempt_begin_get:
  assumes "attempt_begin now key did plan payload = Inr (r, payload')"
  shows "attempt_get key payload' = Some r
    \<and> pget r ''status'' = (case attempt_get key payload of Some r0 \<Rightarrow> pget r0 ''status'' | None \<Rightarrow> JStr ''attempt_started'')
    \<and> (\<forall>k. k \<noteq> key \<longrightarrow> attempt_get k payload' = attempt_get k payload)"
proof -
  obtain attempts where a: "pget (setdefault payload ''attempts'' (JObj [])) ''attempts'' = JObj attempts"
    and p: "payload' = put_attempt payload attempts key r"
    using assms unfolding attempt_begin_def by auto
  have "pget r ''status'' = (case pget attempts key of JObj r0 \<Rightarrow> pget r0 ''status'' | _ \<Rightarrow> JStr ''attempt_started'')"
    using assms unfolding attempt_begin_def a by (cases "pget attempts key") (auto simp: pget_pset)
  then show ?thesis using attempts_setdefault [OF a] by (cases "pget attempts key") (simp_all add: p)
qed

text \<open>An attempt that is closed: dispatched, or with an outcome. Nothing may be dispatched for
  it again.\<close>

definition closed_attempt :: "string \<Rightarrow> jobj \<Rightarrow> bool" where
  "closed_attempt key payload \<longleftrightarrow>
     has_terminal_outcome (attempt_get key payload) = Inr True \<or> dispatched_without_outcome (attempt_get key payload)"

lemma closed_status:
  "attempt_get key payload = Some r \<Longrightarrow>
   closed_attempt key payload \<longleftrightarrow> str_in (pget r ''status'') [''remote_command_dispatched'', ''succeeded'', ''failed'', ''rejected'']"
  by (cases r) (auto simp: closed_attempt_def has_terminal_outcome_def dispatched_without_outcome_def str_in_def in_set_def
      split: jval.splits)

end
