(* ===== verification/Orchestrator.thy ===== *)
theory Orchestrator
  imports Execution_Attempts
begin

text \<open>
  \<open>services/orchestrator/service.py\<close>: the service that executes an approved decision. Its state
  is the ledger of execution attempts; everything it does to the outside world is written
  to a log, in order, together with every write of the ledger, so that a crash is a prefix
  of the log.

  The services it calls are arguments: the execution adapter, the HSAI admission adapter,
  the repo-patch authority client, the clock. Each may answer differently at every call
  (it sees the log so far) and may raise. Logging and the choice of an adapter in
  \<open>_build_adapter\<close> are left out.
\<close>

section \<open>The world\<close>

record cli_result =
  cr_status :: string
  cr_refs :: jobj
  cr_failure :: "jobj option"
  cr_retryable :: bool

datatype orch_event =
    StoreWrite jobj
  | Admission jobj
  | Preflight string
  | Review string
  | Dispatch string "jobj option"
  | Incident string
  | Sleep rat

datatype 'a answer = Answer 'a | AuthorityError string | Raises py_exn

record orch_world =
  w_attempts :: jobj
  w_log :: "orch_event list"
  w_client :: bool

record orch_config =
  orchestration_mode :: string
  max_transient_retries :: int
  max_retry_window_seconds :: int
  repo_patch_authority_key_id :: string

record orch_services =
  s_env :: pyenv
  s_schemas :: schemas
  s_now :: "orch_event list \<Rightarrow> string"
  s_clock :: "orch_event list \<Rightarrow> rat"
  s_float_text :: "string \<Rightarrow> py_exn + rat"
  s_execute_decision :: "orch_event list \<Rightarrow> Decision \<Rightarrow> string \<Rightarrow> py_exn + cli_result"
  s_open_incident :: "orch_event list \<Rightarrow> Decision \<Rightarrow> jval \<Rightarrow> py_exn + jobj"
  s_admit :: "orch_event list \<Rightarrow> jobj \<Rightarrow> string + jval"
  s_authority_eligible :: bool
  s_build_client :: "orch_event list \<Rightarrow> py_exn + unit"
  s_preflight :: "orch_event list \<Rightarrow> Decision \<Rightarrow> EvaluationResult \<Rightarrow> string \<Rightarrow> jobj answer"
  s_authority_execute :: "orch_event list \<Rightarrow> Decision \<Rightarrow> EvaluationResult \<Rightarrow> jobj \<Rightarrow> string \<Rightarrow> jobj \<Rightarrow> jobj answer"

section \<open>Computations with state and exceptions\<close>

type_synonym 'a orch = "orch_world \<Rightarrow> (py_exn + 'a) \<times> orch_world"

definition oret :: "'a \<Rightarrow> 'a orch" where
  "oret x w = (Inr x, w)"

definition olift :: "py_exn + 'a \<Rightarrow> 'a orch" where
  "olift r w = (r, w)"

definition obind :: "'a orch \<Rightarrow> ('a \<Rightarrow> 'b orch) \<Rightarrow> 'b orch" where
  "obind m f w = (case m w of (Inl e, w') \<Rightarrow> (Inl e, w') | (Inr x, w') \<Rightarrow> f x w')"

definition otell :: "orch_event \<Rightarrow> unit orch" where
  "otell e w = (Inr (), w\<lparr>w_log := w_log w @ [e]\<rparr>)"

definition oask :: "(orch_event list \<Rightarrow> 'a) \<Rightarrow> 'a orch" where
  "oask f w = (Inr (f (w_log w)), w)"

text \<open>\<open>isoformat().replace("+00:00", "Z")\<close>\<close>

definition now_iso :: "orch_services \<Rightarrow> orch_event list \<Rightarrow> string" where
  "now_iso sv h = replace_all ''+00:00'' ''Z'' (s_now sv h)"

text \<open>A method of the attempt store: it returns the record and the ledger is written back.\<close>

definition ostore :: "(string \<Rightarrow> jobj \<Rightarrow> py_exn + (jobj \<times> jobj)) \<Rightarrow> orch_services \<Rightarrow> jobj orch" where
  "ostore op sv w = (case op (now_iso sv (w_log w)) (w_attempts w) of
      Inl e \<Rightarrow> (Inl e, w)
    | Inr (r, payload) \<Rightarrow> (Inr r, w\<lparr>w_attempts := payload, w_log := w_log w @ [StoreWrite payload]\<rparr>))"

definition ostore_get :: "string \<Rightarrow> jobj option orch" where
  "ostore_get key w = (Inr (attempt_get key (w_attempts w)), w)"

section \<open>Contracts of the reviewers and the authority\<close>

definition REPO_PATCH_REVIEW_FLAGS :: jobj where
  "REPO_PATCH_REVIEW_FLAGS =
     [(''repo_patch_review_only'', JBool True), (''repo_patch_final_parameters_unchanged'', JBool True),
      (''repo_patch_authority_invoked'', JBool False), (''repo_patch_authority_credentials_forwarded'', JBool False),
      (''repo_patch_review_state_slice'', JStr ''mesh.repo_patch_review_only_boundary.v1'')]"

definition NESTED_REPO_PATCH_REVIEW_FLAGS :: jobj where
  "NESTED_REPO_PATCH_REVIEW_FLAGS =
     [(''repo_patch_review_only'', JBool True), (''final_parameters_unchanged'', JBool True),
      (''authority_invoked'', JBool False), (''authority_credentials_forwarded'', JBool False)]"

definition CREDENTIAL_FIELD_FRAGMENTS :: "string list" where
  "CREDENTIAL_FIELD_FRAGMENTS =
     [''access_token'', ''api_key'', ''authorization_header'', ''bearer_token'', ''cookie'', ''credential'', ''kubeconfig'',
      ''password'', ''private_key'', ''refresh_token'', ''secret'']"

definition PROHIBITED_REVIEW_FIELDS :: "string list" where
  "PROHIBITED_REVIEW_FIELDS = [''authorization_proof'', ''execution_permit'', ''authority_response'', ''authority_receipt'']"

fun contains_prohibited_review_field :: "jval \<Rightarrow> bool" where
  "contains_prohibited_review_field (JObj d) =
     list_ex (\<lambda>(k, v). py_lower k \<in> set PROHIBITED_REVIEW_FIELDS \<or> contains_prohibited_review_field v) d"
| "contains_prohibited_review_field (JList xs) = list_ex contains_prohibited_review_field xs"
| "contains_prohibited_review_field _ = False"

definition credential_key :: "string \<Rightarrow> bool" where
  "credential_key k = list_ex (\<lambda>fragment. contains_str (py_lower k) fragment) CREDENTIAL_FIELD_FRAGMENTS"

definition forwarded_flag :: "string \<Rightarrow> jval \<Rightarrow> bool" where
  "forwarded_flag k v \<longleftrightarrow>
     py_lower k \<in> {''authority_credentials_forwarded'', ''repo_patch_authority_credentials_forwarded''} \<and> v = JBool False"

fun contains_credential_field :: "jval \<Rightarrow> bool" where
  "contains_credential_field (JObj d) =
     list_ex (\<lambda>(k, v). \<not> forwarded_flag k v \<and> (credential_key k \<or> contains_credential_field v)) d"
| "contains_credential_field (JList xs) = list_ex contains_credential_field xs"
| "contains_credential_field _ = False"

definition repo_patch_parameter_contract_failure :: "Decision \<Rightarrow> string option" where
  "repo_patch_parameter_contract_failure d = (case pget (execution_plan d) ''parameters'' of
      JObj parameters \<Rightarrow>
        if phas parameters ''_mesh_hsai_admission_context'' then Some ''repo_patch_pre_attached_authority_context_rejected''
        else if contains_credential_field (JObj parameters) then Some ''repo_patch_parameter_credentials_rejected''
        else None
    | _ \<Rightarrow> Some ''repo_patch_parameters_rejected'')"

definition nonblank :: "jval \<Rightarrow> bool" where
  "nonblank v = (case v of JStr s \<Rightarrow> py_strip s \<noteq> [] | _ \<Rightarrow> False)"

definition flags_match :: "jobj \<Rightarrow> jobj \<Rightarrow> bool" where
  "flags_match refs flags = list_all (\<lambda>(field, expected). py_eq (pget refs field) expected) flags"

definition nested_review_ok :: "jobj \<Rightarrow> bool" where
  "nested_review_ok nested \<longleftrightarrow>
     flags_match nested NESTED_REPO_PATCH_REVIEW_FLAGS
   \<and> pget nested ''approved'' = JBool True
   \<and> py_eq (pget nested ''next_action'') (JStr ''authority_service_review_required'')
   \<and> nonblank (pget nested ''mode'') \<and> nonblank (pget nested ''summary'')
   \<and> (case pget nested ''risk_flags'' of JList flags \<Rightarrow> list_all is_str flags | _ \<Rightarrow> False)
   \<and> (phas nested ''model_parameter_changes_ignored'' \<longrightarrow> pget nested ''model_parameter_changes_ignored'' = JBool True)"

definition repo_patch_review_contract_failure :: "cli_result \<Rightarrow> string option" where
  "repo_patch_review_contract_failure review =
     (let refs = cr_refs review;
          review_keys = filter (phas refs) [''goose_review'', ''hermes_review''];
          rejected = Some ''repo_patch_review_contract_rejected'' in
      if cr_status review \<noteq> ''succeeded'' \<or> cr_retryable review \<or> cr_failure review \<noteq> None then rejected
      else if \<not> flags_match refs REPO_PATCH_REVIEW_FLAGS then rejected
      else (case review_keys of
        [rk] \<Rightarrow>
          if \<not> set (map fst refs) \<subseteq> set (rk # ''repo_patch_model_parameter_changes_ignored'' # map fst REPO_PATCH_REVIEW_FLAGS)
          then rejected
          else if phas refs ''repo_patch_model_parameter_changes_ignored''
                \<and> pget refs ''repo_patch_model_parameter_changes_ignored'' \<noteq> JBool True then rejected
          else (case pget refs rk of
              JObj nested \<Rightarrow>
                if \<not> nested_review_ok nested then rejected
                else if contains_prohibited_review_field (JObj refs) then Some ''repo_patch_review_authority_material_rejected''
                else if contains_credential_field (JObj refs) then Some ''repo_patch_review_credentials_rejected''
                else None
            | _ \<Rightarrow> rejected)
      | _ \<Rightarrow> rejected))"

definition authority_response_contract_failure :: "jobj \<Rightarrow> string \<Rightarrow> py_exn + string option" where
  "authority_response_contract_failure response key_id =
     (let rejected = Inr (Some ''repo_patch_authority_response_contract_rejected'');
          status = pget response ''status'';
          rejection = pget response ''rejection'' in
      if \<not> py_eq (pget response ''schema_version'') (JStr ''mesh.repo_patch_authority_response.v1'') then rejected
      else ebind (in_set status [''completed'', ''rejected'']) (\<lambda>known.
        if \<not> known then rejected
        else (case (pget response ''execution_result'', pget response ''receipt'', pget response ''authorization_proof'') of
          (JObj result, JObj receipt, JObj pf) \<Rightarrow>
            ebind (in_set (pget result ''status'') [''succeeded'', ''failed'', ''rejected'']) (\<lambda>terminal.
            if \<not> terminal then rejected
            else if \<not> is_obj (pget result ''external_refs'') then rejected
            else if pget result ''failure'' \<noteq> JNull \<and> \<not> is_obj (pget result ''failure'') then rejected
            else if pget result ''retryable'' \<noteq> JBool False then rejected
            else if (py_eq status (JStr ''completed'') \<and> rejection \<noteq> JNull)
                 \<or> (py_eq status (JStr ''rejected'') \<and> \<not> is_obj rejection) then rejected
            else if \<not> py_eq (pget pf ''signing_profile'') (JStr ''mesh-repo-patch-authority-response-ed25519-v1'')
                 \<or> \<not> py_eq (pget pf ''algorithm'') (JStr ''ed25519'')
                 \<or> \<not> py_eq (pget pf ''key_id'') (JStr key_id)
                 \<or> \<not> py_eq (pget pf ''status'') (JStr ''verified'')
                 \<or> \<not> py_eq (pget pf ''verifier'') (JStr ''orbital_mesh_ed25519_v1'') then rejected
            else if contains_credential_field (JObj [(''execution_result'', JObj result), (''receipt'', JObj receipt)])
            then Inr (Some ''repo_patch_authority_response_credentials_rejected'')
            else Inr None)
        | _ \<Rightarrow> rejected)))"

section \<open>Helpers of the service\<close>

definition requires_replay_guard :: "Decision \<Rightarrow> bool" where
  "requires_replay_guard d \<longleftrightarrow>
     repo_patch_requires_hsai d
   \<or> (py_eq (pget (execution_plan d) ''system'') (JStr ''systemd_service'')
      \<and> py_eq (pget (execution_plan d) ''action'') (JStr ''restart_systemd_service''))"

definition hsai_external_refs :: "pyenv \<Rightarrow> schemas \<Rightarrow> jobj \<Rightarrow> jobj \<Rightarrow> py_exn + jobj" where
  "hsai_external_refs E S gate packet =
     ebind (validate_bridge_gate E S gate None None None) (\<lambda>_.
     ebind (validate_combined_proof_packet E S gate packet) (\<lambda>_.
     ebind (pidx gate ''request_digest'') (\<lambda>rd.
     ebind (pidx gate ''decision_digest'') (\<lambda>dd.
     ebind (pidx gate ''candidate_digest'') (\<lambda>cd.
     ebind (ebind (pidx gate ''decision'') as_obj) (\<lambda>decision.
     ebind (pidx decision ''decision'') (\<lambda>verdict.
     ebind (pidx gate ''reason_codes'') (\<lambda>codes.
     Inr [(''hsai_admission'', JObj
            [(''schema_version'', JStr ''mesh.hsai_admission_bridge.v1''), (''request_digest'', rd), (''decision_digest'', dd),
             (''candidate_digest'', cd), (''decision'', verdict), (''reason_codes'', JList (list_or codes))]),
          (''combined_proof_packet'', JObj packet)]))))))))"

text \<open>\<open>dict(v)\<close>\<close>

fun as_dict :: "jval \<Rightarrow> py_exn + jobj" where
  "as_dict (JObj d) = Inr d"
| "as_dict _ = Inl (TypeError ''cannot convert to dict'')"

definition result_from_prior_attempt :: "jobj \<Rightarrow> py_exn + cli_result" where
  "result_from_prior_attempt r =
     ebind (as_dict (por (pget r ''external_refs'') (JObj []))) (\<lambda>refs.
     Inr \<lparr>cr_status = py_str (pget_or r ''status'' (JStr ''failed'')),
          cr_refs = pset refs ''idempotency_replayed'' (JBool True),
          cr_failure = (case pget r ''failure'' of JObj f \<Rightarrow> Some f | _ \<Rightarrow> None),
          cr_retryable = False\<rparr>)"

definition unknown_after_dispatch :: "jobj option \<Rightarrow> cli_result" where
  "unknown_after_dispatch r =
     \<lparr>cr_status = ''failed'',
      cr_refs = [(''idempotency_guard'', JStr ''remote_command_dispatched_without_outcome''),
                 (''idempotency_key'', case r of Some d \<Rightarrow> pget d ''idempotency_key'' | None \<Rightarrow> JNull)],
      cr_failure = Some [(''reason'', JStr ''outcome_unknown_after_dispatch''),
                         (''detail'', JStr ''remote command may already have executed; refusing to retry side-effecting action'')],
      cr_retryable = False\<rparr>"

definition retry_delay_seconds :: "orch_services \<Rightarrow> int \<Rightarrow> jobj option \<Rightarrow> py_exn + rat" where
  "retry_delay_seconds sv attempts fail =
     (let hint = (case fail of Some f \<Rightarrow> pget f ''retry_after_seconds'' | None \<Rightarrow> JNull) in
      if hint \<noteq> JNull then py_float (s_float_text sv) hint
      else Inr (of_int (min (2 ^ nat (max (attempts - 1) 0)) 8)))"

definition failed_result :: "jobj \<Rightarrow> jobj \<Rightarrow> cli_result" where
  "failed_result refs fail = \<lparr>cr_status = ''failed'', cr_refs = refs, cr_failure = Some fail, cr_retryable = False\<rparr>"

text \<open>\<open>ExecutionRecord(...)\<close> and its \<open>validate()\<close>.\<close>

definition make_record ::
  "orch_services \<Rightarrow> orch_config \<Rightarrow> Decision \<Rightarrow> string \<Rightarrow> string \<Rightarrow> string \<Rightarrow> jobj \<Rightarrow> jobj option \<Rightarrow> ExecutionRecord orch" where
  "make_record sv cfg d key started status refs fail =
     obind (oask (s_now sv)) (\<lambda>completed.
     obind (olift (pidx (execution_plan d) ''system'')) (\<lambda>system.
     obind (olift (pidx (execution_plan d) ''action'')) (\<lambda>action.
     obind (olift (pidx (execution_plan d) ''parameters'')) (\<lambda>parameters.
     let r = \<lparr>execution_id = ''exe_'' @ decision_id d, exec_decision_id = decision_id d, started_at = started,
              completed_at = completed, executor = orchestration_mode cfg, exec_status = status, exec_idempotency_key = key,
              applied_action = [(''system'', system), (''action'', action), (''parameters'', parameters)],
              external_refs = refs, failure = fail\<rparr>
     in obind (olift (execution_validate (s_schemas sv) r)) (\<lambda>_. oret r)))))"

definition repo_patch_review_rejected ::
  "orch_services \<Rightarrow> orch_config \<Rightarrow> Decision \<Rightarrow> string \<Rightarrow> string \<Rightarrow> cli_result \<Rightarrow> ExecutionRecord orch" where
  "repo_patch_review_rejected sv cfg d key started review =
     (let fail = (case cr_failure review of Some (e # f) \<Rightarrow> e # f | _ \<Rightarrow> [(''reason'', JStr ''repo_patch_review_rejected'')])
      in make_record sv cfg d key started ''rejected'' (cr_refs review)
           (Some (pset fail ''orchestration_mode'' (JStr (orchestration_mode cfg)))))"

definition repo_patch_admission_rejected ::
  "orch_services \<Rightarrow> orch_config \<Rightarrow> Decision \<Rightarrow> EvaluationResult \<Rightarrow> string \<Rightarrow> string \<Rightarrow> jobj \<Rightarrow> string \<Rightarrow> ExecutionRecord orch" where
  "repo_patch_admission_rejected sv cfg d v key started gate reason =
     (let E = s_env sv; S = s_schemas sv; allowed = mesh_policy_allows v;
          codes = list_or (pget gate ''reason_codes'') in
      obind (oask (now_iso sv)) (\<lambda>now.
      obind (olift (build_combined_proof_packet E S now None gate allowed
          [(''status'', JStr ''blocked''), (''executor'', JStr (orchestration_mode cfg)), (''reason'', JStr reason),
           (''hsai_reason_codes'', JList codes), (''mesh_blocking_reasons'', jstrs (blocking_reasons v))]
          None (Some d) (Some v))) (\<lambda>packet.
      obind (olift (ebind (ebind (pidx gate ''decision'') as_obj) (\<lambda>x. pidx x ''decision''))) (\<lambda>verdict.
      obind (olift (hsai_external_refs E S gate packet)) (\<lambda>refs.
      make_record sv cfg d key started ''rejected'' refs
        (Some [(''reason'', JStr reason),
               (''blocking_reasons'', JList (map JStr (blocking_reasons v) @ codes)),
               (''hsai_decision'', verdict),
               (''mesh_policy_approved'', JBool allowed)]))))))"

section \<open>One attempt\<close>

text \<open>The variables of \<open>execute\<close> that the retry loop assigns, and how an iteration ends: with
  the next iteration, with \<open>break\<close>, or with \<open>return\<close>.\<close>

record loop_state =
  ls_review :: "cli_result option"
  ls_gate :: "jobj option"
  ls_result :: "cli_result option"

datatype loop_exit = Again loop_state | Break loop_state | Return ExecutionRecord

definition build_client :: "orch_services \<Rightarrow> (py_exn + unit) orch" where
  "build_client sv w =
     (if w_client w then (Inr (Inr ()), w)
      else case s_build_client sv (w_log w) of
          Inr _ \<Rightarrow> (Inr (Inr ()), w\<lparr>w_client := True\<rparr>)
        | Inl (OSError m) \<Rightarrow> (Inr (Inl (OSError m)), w)
        | Inl (TypeError m) \<Rightarrow> (Inr (Inl (TypeError m)), w)
        | Inl (ValueError m) \<Rightarrow> (Inr (Inl (ValueError m)), w)
        | Inl e \<Rightarrow> (Inl e, w))"

definition admit_gate :: "orch_services \<Rightarrow> jobj \<Rightarrow> jobj orch" where
  "admit_gate sv request =
     obind (otell (Admission request)) (\<lambda>_.
     obind (oask (\<lambda>log. evaluate_hsai_gate (s_env sv) (s_schemas sv) (now_iso sv log) (s_admit sv log)
        (s_authority_eligible sv) request)) olift)"

definition initial_request :: "orch_services \<Rightarrow> Decision \<Rightarrow> EvaluationResult \<Rightarrow> jobj orch" where
  "initial_request sv d v =
     obind (oask (now_iso sv)) (\<lambda>now. olift (build_hsai_admission_request (s_env sv) (s_schemas sv) now None d v))"

definition replay_or :: "jobj option \<Rightarrow> loop_state \<Rightarrow> loop_exit orch \<Rightarrow> loop_exit orch" where
  "replay_or prior st next =
     obind (olift (has_terminal_outcome prior)) (\<lambda>terminal.
     if terminal then
       obind (olift (result_from_prior_attempt (case prior of Some r \<Rightarrow> r | None \<Rightarrow> []))) (\<lambda>result.
       oret (Break (st\<lparr>ls_result := Some result\<rparr>)))
     else if dispatched_without_outcome prior then oret (Break (st\<lparr>ls_result := Some (unknown_after_dispatch prior)\<rparr>))
     else next)"

definition mark_started :: "orch_services \<Rightarrow> Decision \<Rightarrow> string \<Rightarrow> unit orch" where
  "mark_started sv d key =
     (if requires_replay_guard d then
        obind (ostore (\<lambda>now. attempt_begin now key (decision_id d) (execution_plan d)) sv) (\<lambda>_.
        obind (ostore (\<lambda>now. attempt_mark_dispatched now key) sv) (\<lambda>_. oret ()))
      else oret ())"

definition prior_attempt :: "Decision \<Rightarrow> string \<Rightarrow> jobj option orch" where
  "prior_attempt d key = (if requires_replay_guard d then ostore_get key else oret None)"

definition unknown_outcome :: "Decision \<Rightarrow> string \<Rightarrow> loop_state \<Rightarrow> loop_exit orch" where
  "unknown_outcome d key st =
     obind (prior_attempt d key) (\<lambda>prior. oret (Break (st\<lparr>ls_result := Some (unknown_after_dispatch prior)\<rparr>)))"

text \<open>The result that a response of the authority within its contract stands for.\<close>

definition authority_candidate :: "cli_result \<Rightarrow> jobj \<Rightarrow> jobj \<Rightarrow> cli_result" where
  "authority_candidate review response result =
     \<lparr>cr_status = str_or (pget result ''status'') (JStr ''failed''),
      cr_refs = pset (pupdate (cr_refs review) (obj_or_empty (pget result ''external_refs''))) ''repo_patch_authority''
        (JObj [(''state_slice'', JStr ''mesh.repo_patch_authority_orchestration.v1''),
               (''schema_version'', pget response ''schema_version''), (''status'', pget response ''status''),
               (''receipt'', pget response ''receipt''), (''rejection'', pget response ''rejection''),
               (''authorization_proof'', pget response ''authorization_proof'')]),
      cr_failure = (case pget result ''failure'' of JObj f \<Rightarrow> Some f | _ \<Rightarrow> None),
      cr_retryable = False\<rparr>"

text \<open>From the candidate result on: the outcome is recorded, and a retryable failure within
  the retry limits sleeps and goes round again.\<close>

definition after_candidate ::
  "orch_services \<Rightarrow> orch_config \<Rightarrow> Decision \<Rightarrow> string \<Rightarrow> rat \<Rightarrow> int \<Rightarrow> loop_state \<Rightarrow> cli_result \<Rightarrow> loop_exit orch" where
  "after_candidate sv cfg d key started_clock attempts st candidate =
     (let st' = st\<lparr>ls_result := Some candidate\<rparr> in
      obind (if requires_replay_guard d then
           obind (ostore (\<lambda>now. attempt_complete now key (cr_status candidate) (cr_refs candidate) (cr_failure candidate)) sv)
             (\<lambda>_. oret ())
         else oret ()) (\<lambda>_.
      if cr_status candidate = ''succeeded'' \<or> \<not> cr_retryable candidate \<or> max_transient_retries cfg < attempts
      then oret (Break st')
      else
        obind (olift (retry_delay_seconds sv attempts (cr_failure candidate))) (\<lambda>delay.
        obind (oask (s_clock sv)) (\<lambda>clock.
        if of_int (max_retry_window_seconds cfg) < fl (fl (clock - started_clock) + delay) then oret (Break st')
        else if 0 < delay then obind (otell (Sleep delay)) (\<lambda>_. oret (Again st'))
        else oret (Again st')))))"

definition reject_loop :: "ExecutionRecord orch \<Rightarrow> loop_exit orch" where
  "reject_loop m = obind m (\<lambda>r. oret (Return r))"

text \<open>The authority is called with the admitted gate, and its answer is taken.\<close>

definition authority_attempt ::
  "orch_services \<Rightarrow> orch_config \<Rightarrow> Decision \<Rightarrow> EvaluationResult \<Rightarrow> string \<Rightarrow> rat \<Rightarrow> int \<Rightarrow> loop_state
    \<Rightarrow> jobj \<Rightarrow> jobj \<Rightarrow> cli_result \<Rightarrow> loop_exit orch" where
  "authority_attempt sv cfg d v key started_clock attempts st gate receipt review =
     obind (mark_started sv d key) (\<lambda>_.
     obind (otell (Dispatch key (Some gate))) (\<lambda>_.
     obind (oask (\<lambda>log. s_authority_execute sv log d v gate key receipt)) (\<lambda>a. case a of
        AuthorityError _ \<Rightarrow> unknown_outcome d key st
      | Raises e \<Rightarrow> olift (Inl e)
      | Answer response \<Rightarrow>
          obind (olift (authority_response_contract_failure response (repo_patch_authority_key_id cfg))) (\<lambda>contract.
          case (contract, pget response ''execution_result'') of
            (None, JObj result) \<Rightarrow> after_candidate sv cfg d key started_clock attempts st (authority_candidate review response result)
          | _ \<Rightarrow> unknown_outcome d key st))))"

definition reviewed_attempt ::
  "orch_services \<Rightarrow> orch_config \<Rightarrow> Decision \<Rightarrow> EvaluationResult \<Rightarrow> string \<Rightarrow> string \<Rightarrow> rat \<Rightarrow> int \<Rightarrow> loop_state
    \<Rightarrow> jobj \<Rightarrow> jobj \<Rightarrow> loop_exit orch" where
  "reviewed_attempt sv cfg d v key started started_clock attempts st gate receipt =
     obind (otell (Review key)) (\<lambda>_.
     obind (oask (\<lambda>log. s_execute_decision sv log d key)) (\<lambda>answer.
     obind (olift answer) (\<lambda>review.
     if cr_status review \<noteq> ''succeeded'' then reject_loop (repo_patch_review_rejected sv cfg d key started review)
     else (case repo_patch_review_contract_failure review of
         Some reason \<Rightarrow>
           reject_loop (repo_patch_review_rejected sv cfg d key started (failed_result [] [(''reason'', JStr reason)]))
       | None \<Rightarrow>
           authority_attempt sv cfg d v key started_clock attempts
             (st\<lparr>ls_gate := Some gate, ls_review := Some review\<rparr>) gate receipt review))))"

definition admitted_attempt ::
  "orch_services \<Rightarrow> orch_config \<Rightarrow> Decision \<Rightarrow> EvaluationResult \<Rightarrow> string \<Rightarrow> string \<Rightarrow> rat \<Rightarrow> int \<Rightarrow> loop_state
    \<Rightarrow> jobj \<Rightarrow> loop_exit orch" where
  "admitted_attempt sv cfg d v key started started_clock attempts st receipt =
     obind (oask (now_iso sv)) (\<lambda>now.
     case build_hsai_admission_request_v2 (s_env sv) (s_schemas sv) now None d v receipt of
       Inl (TypeError _) \<Rightarrow> reject_loop (obind (initial_request sv d v) (\<lambda>request. obind (admit_gate sv request) (\<lambda>gate.
         repo_patch_admission_rejected sv cfg d v key started gate ''hsai_pre_execution_request_invalid'')))
     | Inl (ValueError _) \<Rightarrow> reject_loop (obind (initial_request sv d v) (\<lambda>request. obind (admit_gate sv request) (\<lambda>gate.
         repo_patch_admission_rejected sv cfg d v key started gate ''hsai_pre_execution_request_invalid'')))
     | Inl e \<Rightarrow> olift (Inl e)
     | Inr request \<Rightarrow>
         obind (admit_gate sv request) (\<lambda>gate.
         obind (olift (validate_bridge_gate (s_env sv) (s_schemas sv) gate (Some d) (Some v) None)) (\<lambda>_.
         if pget gate ''allowed'' \<noteq> JBool True \<or> pget gate ''authority_eligible'' \<noteq> JBool True
         then reject_loop (repo_patch_admission_rejected sv cfg d v key started gate ''hsai_admission_blocked'')
         else reviewed_attempt sv cfg d v key started started_clock attempts st gate receipt)))"

definition repo_patch_attempt ::
  "orch_services \<Rightarrow> orch_config \<Rightarrow> Decision \<Rightarrow> EvaluationResult \<Rightarrow> string \<Rightarrow> string \<Rightarrow> rat \<Rightarrow> int \<Rightarrow> loop_state
    \<Rightarrow> loop_exit orch" where
  "repo_patch_attempt sv cfg d v key started started_clock attempts st =
     obind (build_client sv) (\<lambda>client. case client of
       Inl e \<Rightarrow>
         oret (Break (st\<lparr>ls_result := Some (failed_result (case ls_review st of Some r \<Rightarrow> cr_refs r | None \<Rightarrow> [])
           [(''reason'', JStr ''repo_patch_authority_configuration_rejected''), (''detail'', JStr (exn_text e))])\<rparr>))
     | Inr _ \<Rightarrow>
         obind (otell (Preflight key)) (\<lambda>_.
         obind (oask (\<lambda>log. s_preflight sv log d v key)) (\<lambda>a. case a of
           AuthorityError m \<Rightarrow>
             oret (Break (st\<lparr>ls_result := Some (failed_result []
               [(''reason'', JStr ''repo_patch_authority_preflight_rejected''), (''detail'', JStr m)])\<rparr>))
         | Raises e \<Rightarrow> olift (Inl e)
         | Answer receipt \<Rightarrow> admitted_attempt sv cfg d v key started started_clock attempts st receipt)))"

definition adapter_attempt ::
  "orch_services \<Rightarrow> orch_config \<Rightarrow> Decision \<Rightarrow> string \<Rightarrow> rat \<Rightarrow> int \<Rightarrow> loop_state \<Rightarrow> loop_exit orch" where
  "adapter_attempt sv cfg d key started_clock attempts st =
     obind (mark_started sv d key) (\<lambda>_.
     obind (otell (Dispatch key None)) (\<lambda>_.
     obind (oask (\<lambda>log. s_execute_decision sv log d key)) (\<lambda>answer.
     obind (olift answer) (\<lambda>candidate.
     after_candidate sv cfg d key started_clock attempts st candidate))))"

definition attempt_body ::
  "orch_services \<Rightarrow> orch_config \<Rightarrow> Decision \<Rightarrow> EvaluationResult \<Rightarrow> string \<Rightarrow> string \<Rightarrow> rat \<Rightarrow> int \<Rightarrow> loop_state
    \<Rightarrow> loop_exit orch" where
  "attempt_body sv cfg d v key started started_clock attempts st =
     obind (prior_attempt d key) (\<lambda>prior.
     replay_or prior st
       (if repo_patch_requires_hsai d then repo_patch_attempt sv cfg d v key started started_clock attempts st
        else adapter_attempt sv cfg d key started_clock attempts st))"

section \<open>The retry loop\<close>

datatype loop_end = Ended int loop_state | Returned ExecutionRecord

function attempt_loop ::
  "orch_services \<Rightarrow> orch_config \<Rightarrow> Decision \<Rightarrow> EvaluationResult \<Rightarrow> string \<Rightarrow> string \<Rightarrow> rat \<Rightarrow> int \<Rightarrow> loop_state
    \<Rightarrow> loop_end orch" where
  "attempt_loop sv cfg d v key started started_clock attempts st =
     (if attempts \<le> max_transient_retries cfg then
        obind (attempt_body sv cfg d v key started started_clock (attempts + 1) st) (\<lambda>x. case x of
          Again st' \<Rightarrow> attempt_loop sv cfg d v key started started_clock (attempts + 1) st'
        | Break st' \<Rightarrow> oret (Ended (attempts + 1) st')
        | Return r \<Rightarrow> oret (Returned r))
      else oret (Ended attempts st))"
  by pat_completeness auto
termination
  by (relation "measure (\<lambda>(sv, cfg, d, v, key, started, started_clock, attempts, st).
      nat (max_transient_retries cfg + 1 - attempts))") auto

section \<open>The service\<close>

definition open_incident ::
  "orch_services \<Rightarrow> orch_config \<Rightarrow> Decision \<Rightarrow> string \<Rightarrow> int \<Rightarrow> cli_result \<Rightarrow> (jobj \<times> jobj option) orch" where
  "open_incident sv cfg d key attempts result =
     (let fail = cr_failure result; truthy_fail = (case fail of Some (_ # _) \<Rightarrow> True | _ \<Rightarrow> False);
          annotations = [(''attempts'', JInt attempts), (''orchestration_mode'', JStr (orchestration_mode cfg))] in
      if cr_status result \<noteq> ''succeeded'' \<and> cr_retryable result then
        obind (olift (if truthy_fail then pidx (the fail) ''reason'' else Inr (JStr ''transient_execution_failure''))) (\<lambda>reason.
        obind (otell (Incident key)) (\<lambda>_.
        obind (oask (\<lambda>log. s_open_incident sv log d reason)) (\<lambda>answer.
        obind (olift answer) (\<lambda>refs.
        oret (pupdate (cr_refs result) refs,
              Some (pupdate (if truthy_fail then the fail else [(''reason'', JStr ''transient_execution_failure'')])
                ((''human_review_route'', JStr ''human_review'') # annotations)))))))
      else oret (cr_refs result, if truthy_fail then Some (pupdate (the fail) annotations) else fail))"

definition attach_packet ::
  "orch_services \<Rightarrow> orch_config \<Rightarrow> Decision \<Rightarrow> EvaluationResult \<Rightarrow> jobj option \<Rightarrow> cli_result \<Rightarrow> jobj \<Rightarrow> jobj option \<Rightarrow> jobj orch" where
  "attach_packet sv cfg d v gate result refs fail = (case gate of
      None \<Rightarrow> oret refs
    | Some g \<Rightarrow>
        if truthy (pget refs ''idempotency_replayed'') then oret refs
        else (let E = s_env sv; S = s_schemas sv;
                  digest = executor_receipt_digest E (cr_status result) refs
                    (case fail of Some f \<Rightarrow> JObj f | None \<Rightarrow> JNull) in
          obind (oask (now_iso sv)) (\<lambda>now.
          obind (olift (build_combined_proof_packet E S now None g True
              [(''status'', JStr (if cr_status result = ''succeeded'' then ''executed'' else ''failed'')),
               (''executor'', JStr (orchestration_mode cfg)), (''result_status'', JStr (cr_status result)),
               (''result_digest'', JStr digest)]
              (Some digest) (Some d) (Some v))) (\<lambda>packet.
          obind (olift (hsai_external_refs E S g packet)) (\<lambda>more.
          oret (pupdate refs more))))))"

definition finish_execution ::
  "orch_services \<Rightarrow> orch_config \<Rightarrow> Decision \<Rightarrow> EvaluationResult \<Rightarrow> string \<Rightarrow> string \<Rightarrow> int \<Rightarrow> loop_state \<Rightarrow> ExecutionRecord orch" where
  "finish_execution sv cfg d v key started attempts st = (case ls_result st of
      None \<Rightarrow> olift (Inl (RuntimeError ''execution did not produce a result''))
    | Some result \<Rightarrow>
        obind (open_incident sv cfg d key attempts result) (\<lambda>(refs0, fail).
        obind (attach_packet sv cfg d v (ls_gate st) result refs0 fail) (\<lambda>refs.
        obind (if requires_replay_guard d \<and> \<not> truthy (pget refs ''idempotency_replayed'')
                 \<and> \<not> py_eq (pget refs ''idempotency_guard'') (JStr ''remote_command_dispatched_without_outcome'')
               then obind (ostore (\<lambda>now. attempt_complete now key (cr_status result) refs fail) sv) (\<lambda>_. oret ())
               else oret ()) (\<lambda>_.
        make_record sv cfg d key started (cr_status result) refs fail))))"

definition policy_rejected ::
  "orch_services \<Rightarrow> orch_config \<Rightarrow> Decision \<Rightarrow> EvaluationResult \<Rightarrow> string \<Rightarrow> string \<Rightarrow> ExecutionRecord orch" where
  "policy_rejected sv cfg d v key started =
     make_record sv cfg d key started ''rejected'' []
       (Some [(''reason'', JStr (final_recommendation v)), (''blocking_reasons'', jstrs (blocking_reasons v))])"

definition initial_gate_rejected ::
  "orch_services \<Rightarrow> orch_config \<Rightarrow> Decision \<Rightarrow> EvaluationResult \<Rightarrow> string \<Rightarrow> string \<Rightarrow> ExecutionRecord orch" where
  "initial_gate_rejected sv cfg d v key started =
     obind (initial_request sv d v) (\<lambda>request.
     obind (admit_gate sv request) (\<lambda>gate.
     obind (olift (validate_bridge_gate (s_env sv) (s_schemas sv) gate (Some d) (Some v) None)) (\<lambda>_.
     repo_patch_admission_rejected sv cfg d v key started gate
       (if \<not> mesh_policy_allows v then ''mesh_policy_blocked''
        else if pget gate ''allowed'' \<noteq> JBool True then ''hsai_admission_blocked''
        else ''hsai_adapter_not_authority_eligible: authority-eligible HSAI adapter required''))))"

definition execute_decision :: "orch_services \<Rightarrow> orch_config \<Rightarrow> Decision \<Rightarrow> EvaluationResult \<Rightarrow> ExecutionRecord orch" where
  "execute_decision sv cfg d v =
     obind (oask (s_now sv)) (\<lambda>started.
     obind (olift (pidx (execution_plan d) ''action'')) (\<lambda>action.
     let key = decision_id d @ '':'' @ py_str action;
         proceed =
           (if \<not> passed v \<or> final_recommendation v \<noteq> ''execute'' then policy_rejected sv cfg d v key started
            else
              obind (oask (s_clock sv)) (\<lambda>started_clock.
              obind (attempt_loop sv cfg d v key started started_clock 0 \<lparr>ls_review = None, ls_gate = None, ls_result = None\<rparr>)
                (\<lambda>x. case x of
                   Returned r \<Rightarrow> oret r
                 | Ended attempts st \<Rightarrow> finish_execution sv cfg d v key started attempts st)))
     in if repo_patch_requires_hsai d then (case repo_patch_parameter_contract_failure d of
            Some reason \<Rightarrow> repo_patch_review_rejected sv cfg d key started (failed_result [] [(''reason'', JStr reason)])
          | None \<Rightarrow>
              if \<not> mesh_policy_allows v \<or> \<not> s_authority_eligible sv then initial_gate_rejected sv cfg d v key started
              else proceed)
        else proceed))"

end
