(* ===== verification/Orchestrator_Monitor.thy ===== *)
theory Orchestrator_Monitor
  imports Orchestrator
begin

text \<open>
  Reasoning about the log of the orchestrator. A monitor reads the log event by event and may
  refuse one; a triple says that a computation only adds events its monitor accepts. The
  locale \<open>log_monitor\<close> has one rule for each way to build a computation; it is
  interpreted by the monitors of the at-most-once guarantee, of the authorization of a
  dispatch, and of the number of dispatches.
\<close>

declare attempt_loop.simps [simp del]

section \<open>Monitors\<close>

fun follow :: "('s \<Rightarrow> 'e \<Rightarrow> 's option) \<Rightarrow> 's \<Rightarrow> 'e list \<Rightarrow> 's option" where
  "follow step s [] = Some s"
| "follow step s (e # es) = (case step s e of None \<Rightarrow> None | Some s' \<Rightarrow> follow step s' es)"

lemma follow_append:
  "follow step s (xs @ ys) = (case follow step s xs of None \<Rightarrow> None | Some s' \<Rightarrow> follow step s' ys)"
  by (induction xs arbitrary: s) (auto split: option.splits)

definition triple ::
  "('s \<Rightarrow> orch_event \<Rightarrow> 's option) \<Rightarrow> (jobj \<Rightarrow> 's \<Rightarrow> bool) \<Rightarrow> ('s \<Rightarrow> bool) \<Rightarrow> 'a orch \<Rightarrow> ('a \<Rightarrow> 's \<Rightarrow> bool) \<Rightarrow> bool" where
  "triple step agrees P m Q \<longleftrightarrow>
     (\<forall>w s. agrees (w_attempts w) s \<and> P s \<longrightarrow>
        (\<exists>es s'. w_log (snd (m w)) = w_log w @ es \<and> follow step s es = Some s' \<and> agrees (w_attempts (snd (m w))) s'
               \<and> (\<forall>x. fst (m w) = Inr x \<longrightarrow> Q x s')))"

lemma triple_log:
  assumes "triple step agrees P m Q" "agrees p s" "P s"
  shows "\<exists>s'. follow step s (w_log (snd (m \<lparr>w_attempts = p, w_log = [], w_client = c\<rparr>))) = Some s'"
proof -
  let ?w = "\<lparr>w_attempts = p, w_log = [], w_client = c\<rparr>"
  have "agrees (w_attempts ?w) s \<and> P s" using assms(2,3) by simp
  then obtain es s' where "w_log (snd (m ?w)) = w_log ?w @ es" "follow step s es = Some s'"
    using assms(1) unfolding triple_def by blast
  then show ?thesis by auto
qed

section \<open>Quiet computations\<close>

text \<open>Events other than a write of the ledger and a dispatch.\<close>

fun quiet :: "orch_event \<Rightarrow> bool" where
  "quiet (StoreWrite _) = False"
| "quiet (Dispatch _ _) = False"
| "quiet _ = True"

definition quiet_comp :: "'a orch \<Rightarrow> bool" where
  "quiet_comp m \<longleftrightarrow>
     (\<forall>w. \<exists>es. w_log (snd (m w)) = w_log w @ es \<and> list_all quiet es \<and> w_attempts (snd (m w)) = w_attempts w)"

lemma quiet_ret [intro!, simp]: "quiet_comp (oret x)"
  by (simp add: quiet_comp_def oret_def)

lemma quiet_lift [intro!, simp]: "quiet_comp (olift r)"
  by (simp add: quiet_comp_def olift_def)

lemma quiet_ask [intro!, simp]: "quiet_comp (oask f)"
  by (simp add: quiet_comp_def oask_def)

lemma quiet_get [intro!, simp]: "quiet_comp (ostore_get key)"
  by (simp add: quiet_comp_def ostore_get_def)

lemma quiet_tell [intro]: "quiet e \<Longrightarrow> quiet_comp (otell e)"
  by (simp add: quiet_comp_def otell_def)

lemma quiet_bind [intro!]:
  assumes "quiet_comp m" and "\<And>x. quiet_comp (f x)"
  shows "quiet_comp (obind m f)"
  unfolding quiet_comp_def
proof
  fix w
  obtain es where es: "w_log (snd (m w)) = w_log w @ es" "list_all quiet es" "w_attempts (snd (m w)) = w_attempts w"
    using assms(1) unfolding quiet_comp_def by blast
  show "\<exists>es. w_log (snd (obind m f w)) = w_log w @ es \<and> list_all quiet es
      \<and> w_attempts (snd (obind m f w)) = w_attempts w"
  proof (cases "m w")
    case (Pair r w')
    show ?thesis
    proof (cases r)
      case (Inl e)
      then show ?thesis using es Pair by (auto simp: obind_def)
    next
      case (Inr x)
      obtain es' where "w_log (snd (f x w')) = w_log w' @ es'" "list_all quiet es'" "w_attempts (snd (f x w')) = w_attempts w'"
        using assms(2) unfolding quiet_comp_def by blast
      then show ?thesis using es Pair Inr by (intro exI [of _ "es @ es'"]) (simp add: obind_def)
    qed
  qed
qed

lemma quiet_make_record [intro!, simp]: "quiet_comp (make_record sv cfg d key started status refs fail)"
  unfolding make_record_def Let_def by (intro quiet_bind) simp_all

lemma quiet_review_rejected [intro!, simp]: "quiet_comp (repo_patch_review_rejected sv cfg d key started review)"
  unfolding repo_patch_review_rejected_def Let_def by simp

lemma quiet_admission_rejected [intro!, simp]: "quiet_comp (repo_patch_admission_rejected sv cfg d v key started gate reason)"
  unfolding repo_patch_admission_rejected_def Let_def by (intro quiet_bind) simp_all

lemma quiet_build_client [intro!, simp]: "quiet_comp (build_client sv)"
  by (auto simp: quiet_comp_def build_client_def split: sum.splits py_exn.splits)

lemma quiet_admit_gate [intro!, simp]: "quiet_comp (admit_gate sv request)"
  unfolding admit_gate_def by (intro quiet_bind quiet_tell) simp_all

lemma quiet_initial_request [intro!, simp]: "quiet_comp (initial_request sv d v)"
  unfolding initial_request_def by (intro quiet_bind) simp_all

lemma quiet_prior_attempt [intro!, simp]: "quiet_comp (prior_attempt d key)"
  by (simp add: prior_attempt_def)

lemma quiet_unknown_outcome [intro!, simp]: "quiet_comp (unknown_outcome d key st)"
  unfolding unknown_outcome_def by (intro quiet_bind) simp_all

lemma quiet_reject_loop [intro!]: "quiet_comp m \<Longrightarrow> quiet_comp (reject_loop m)"
  unfolding reject_loop_def by (intro quiet_bind) simp_all

lemma quiet_open_incident [intro!, simp]: "quiet_comp (open_incident sv cfg d key attempts result)"
  unfolding open_incident_def Let_def by (auto intro!: quiet_bind quiet_tell)

lemma quiet_attach_packet [intro!, simp]: "quiet_comp (attach_packet sv cfg d v gate result refs fail)"
  unfolding attach_packet_def Let_def by (cases gate) (auto intro!: quiet_bind)

lemma quiet_policy_rejected [intro!, simp]: "quiet_comp (policy_rejected sv cfg d v key started)"
  by (simp add: policy_rejected_def)

lemma quiet_initial_gate_rejected [intro!, simp]: "quiet_comp (initial_gate_rejected sv cfg d v key started)"
  unfolding initial_gate_rejected_def by (intro quiet_bind) simp_all

section \<open>Rules\<close>

text \<open>What a computation that dispatches may assume of the request it hands over.\<close>

definition authorized_dispatch :: "orch_services \<Rightarrow> Decision \<Rightarrow> EvaluationResult \<Rightarrow> jobj option \<Rightarrow> bool" where
  "authorized_dispatch sv d v g \<longleftrightarrow>
     mesh_policy_allows v
   \<and> (if repo_patch_requires_hsai d
      then s_authority_eligible sv \<and> repo_patch_parameter_contract_failure d = None
         \<and> (\<exists>gate. g = Some gate \<and> pget gate ''allowed'' = JBool True \<and> pget gate ''authority_eligible'' = JBool True
              \<and> validate_bridge_gate (s_env sv) (s_schemas sv) gate (Some d) (Some v) None = Inr ())
      else g = None)"

definition TERMINAL_STATUSES :: "string list" where
  "TERMINAL_STATUSES = [''succeeded'', ''failed'', ''rejected'']"

definition good_result :: "(string \<Rightarrow> bool) \<Rightarrow> loop_state \<Rightarrow> bool" where
  "good_result good st \<longleftrightarrow> (\<forall>r. ls_result st = Some r \<longrightarrow> good (cr_status r))"

definition exit_ok :: "(string \<Rightarrow> bool) \<Rightarrow> ('s \<Rightarrow> bool) \<Rightarrow> loop_exit \<Rightarrow> 's \<Rightarrow> bool" where
  "exit_ok good P x s \<longleftrightarrow> (case x of
      Again st \<Rightarrow> P s \<and> good_result good st
    | Break st \<Rightarrow> good_result good st
    | Return _ \<Rightarrow> True)"

lemma prior_result_terminal:
  assumes "has_terminal_outcome (Some r) = Inr True" and "result_from_prior_attempt r = Inr x"
  shows "cr_status x \<in> set TERMINAL_STATUSES"
proof -
  obtain s where s: "pget r ''status'' = JStr s" "s \<in> set TERMINAL_STATUSES"
    using assms(1)
    by (auto simp: has_terminal_outcome_def in_set_def str_in_def TERMINAL_STATUSES_def split: if_splits jval.splits)
  then have "pget_or r ''status'' (JStr ''failed'') = JStr s"
    by (auto simp: pget_def pget_or_def split: option.splits)
  then show ?thesis using assms(2) s(2) by (auto simp: result_from_prior_attempt_def)
qed

lemma authority_contract_terminal:
  assumes "authority_response_contract_failure response kid = Inr None" and "pget response ''execution_result'' = JObj result"
  shows "cr_status (authority_candidate review response result) \<in> set TERMINAL_STATUSES"
proof -
  obtain s where "pget result ''status'' = JStr s" "s \<in> set TERMINAL_STATUSES"
    using assms unfolding authority_response_contract_failure_def Let_def
    by (auto simp: in_set_def str_in_def TERMINAL_STATUSES_def split: if_splits jval.splits)
  then show ?thesis by (auto simp: authority_candidate_def str_or_def por_def TERMINAL_STATUSES_def)
qed

lemma obind_lift: "obind (olift (Inr x)) f = f x" "obind (olift (Inl e)) f = olift (Inl e)"
  by (simp_all add: obind_def olift_def fun_eq_iff)

locale log_monitor =
  fixes mstep :: "'s \<Rightarrow> orch_event \<Rightarrow> 's option"
    and agrees :: "jobj \<Rightarrow> 's \<Rightarrow> bool"
  assumes quiet_step: "quiet e \<Longrightarrow> mstep s e = Some s"
begin

lemma follow_quiet: "list_all quiet es \<Longrightarrow> follow mstep s es = Some s"
  by (induction es) (simp_all add: quiet_step)

lemma t_quiet: "quiet_comp m \<Longrightarrow> (\<And>x s. P s \<Longrightarrow> Q x s) \<Longrightarrow> triple mstep agrees P m Q"
  unfolding triple_def quiet_comp_def by (metis follow_quiet)

lemma t_ret: "(\<And>s. P s \<Longrightarrow> Q x s) \<Longrightarrow> triple mstep agrees P (oret x) Q"
  by (auto simp: triple_def oret_def)

lemma t_lift: "(\<And>x s. r = Inr x \<Longrightarrow> P s \<Longrightarrow> Q x s) \<Longrightarrow> triple mstep agrees P (olift r) Q"
  by (auto simp: triple_def olift_def)

lemma t_ask: "(\<And>h s. P s \<Longrightarrow> Q (f h) s) \<Longrightarrow> triple mstep agrees P (oask f) Q"
  by (auto simp: triple_def oask_def)

lemma t_pre: "triple mstep agrees P m Q \<Longrightarrow> (\<And>s. P' s \<Longrightarrow> P s) \<Longrightarrow> triple mstep agrees P' m Q"
  unfolding triple_def by blast

lemma t_post: "triple mstep agrees P m Q \<Longrightarrow> (\<And>x s. Q x s \<Longrightarrow> Q' x s) \<Longrightarrow> triple mstep agrees P m Q'"
  unfolding triple_def by meson

lemma t_tell:
  "(\<And>s. P s \<Longrightarrow> \<exists>s'. mstep s e = Some s' \<and> (\<forall>p. agrees p s \<longrightarrow> agrees p s') \<and> Q () s')
    \<Longrightarrow> triple mstep agrees P (otell e) Q"
  unfolding triple_def otell_def by (fastforce intro!: exI [of _ "[e]"])

lemma t_store:
  assumes "\<And>now p r p' s. op now p = Inr (r, p') \<Longrightarrow> agrees p s \<Longrightarrow> P s
      \<Longrightarrow> \<exists>s'. mstep s (StoreWrite p') = Some s' \<and> agrees p' s' \<and> Q r s'"
  shows "triple mstep agrees P (ostore op sv) Q"
  unfolding triple_def
proof (intro allI impI)
  fix w :: orch_world and s assume w: "agrees (w_attempts w) s \<and> P s"
  show "\<exists>es s'. w_log (snd (ostore op sv w)) = w_log w @ es \<and> follow mstep s es = Some s'
      \<and> agrees (w_attempts (snd (ostore op sv w))) s' \<and> (\<forall>x. fst (ostore op sv w) = Inr x \<longrightarrow> Q x s')"
  proof (cases "op (now_iso sv (w_log w)) (w_attempts w)")
    case (Inl e)
    then show ?thesis using w by (auto simp: ostore_def)
  next
    case (Inr y)
    obtain r p' where y: "y = (r, p')" by (cases y)
    obtain s' where "mstep s (StoreWrite p') = Some s'" "agrees p' s'" "Q r s'"
      using assms [OF Inr [unfolded y]] w by blast
    then show ?thesis using Inr y by (intro exI [of _ "[StoreWrite p']"] exI [of _ s']) (simp add: ostore_def)
  qed
qed

lemma t_bind:
  assumes m: "triple mstep agrees P m R" and f: "\<And>x. triple mstep agrees (R x) (f x) Q"
  shows "triple mstep agrees P (obind m f) Q"
  unfolding triple_def
proof (intro allI impI)
  fix w :: orch_world and s assume w: "agrees (w_attempts w) s \<and> P s"
  obtain es s1 where es: "w_log (snd (m w)) = w_log w @ es" "follow mstep s es = Some s1"
      "agrees (w_attempts (snd (m w))) s1" "\<And>x. fst (m w) = Inr x \<Longrightarrow> R x s1"
    using m w unfolding triple_def by blast
  show "\<exists>es s'. w_log (snd (obind m f w)) = w_log w @ es \<and> follow mstep s es = Some s'
      \<and> agrees (w_attempts (snd (obind m f w))) s' \<and> (\<forall>x. fst (obind m f w) = Inr x \<longrightarrow> Q x s')"
  proof (cases "m w")
    case (Pair r w')
    show ?thesis
    proof (cases r)
      case (Inl e)
      then show ?thesis using es(1-3) Pair by (intro exI [of _ es] exI [of _ s1]) (simp add: obind_def)
    next
      case (Inr x)
      have "agrees (w_attempts w') s1" "R x s1" using es(3,4) Pair Inr by simp_all
      then obtain es' s' where "w_log (snd (f x w')) = w_log w' @ es'" "follow mstep s1 es' = Some s'"
          "agrees (w_attempts (snd (f x w'))) s'" "\<And>y. fst (f x w') = Inr y \<Longrightarrow> Q y s'"
        using f [of x] unfolding triple_def by blast
      then show ?thesis using es Pair Inr
        by (intro exI [of _ "es @ es'"] exI [of _ s']) (simp add: obind_def follow_append)
    qed
  qed
qed

lemma t_skip: "quiet_comp m \<Longrightarrow> (\<And>x. triple mstep agrees P (f x) Q) \<Longrightarrow> triple mstep agrees P (obind m f) Q"
  by (rule t_bind [where R = "\<lambda>_. P"]) (auto intro: t_quiet)

lemma t_check: "(\<And>x. r = Inr x \<Longrightarrow> triple mstep agrees P (f x) Q) \<Longrightarrow> triple mstep agrees P (obind (olift r) f) Q"
  by (cases r) (simp_all add: obind_lift, simp add: triple_def olift_def)

text \<open>One iteration, the loop and \<open>execute\<close>, for a monitor that can pass a dispatch: \<open>I a\<close> holds
  before an iteration with \<open>a\<close> attempts made, \<open>R a\<close> once the ledger has no outcome, \<open>M a\<close> when the
  attempt is marked.\<close>

definition passes ::
  "orch_services \<Rightarrow> orch_config \<Rightarrow> Decision \<Rightarrow> EvaluationResult \<Rightarrow> string \<Rightarrow> (string \<Rightarrow> bool)
    \<Rightarrow> (int \<Rightarrow> 's \<Rightarrow> bool) \<Rightarrow> (int \<Rightarrow> 's \<Rightarrow> bool) \<Rightarrow> (int \<Rightarrow> 's \<Rightarrow> bool) \<Rightarrow> bool" where
  "passes sv cfg d v key good I R M \<longleftrightarrow>
     (\<forall>p s a. agrees p s \<and> I a s \<and> a \<le> max_transient_retries cfg
        \<and> (requires_replay_guard d \<longrightarrow> \<not> closed_attempt key p) \<longrightarrow> R a s)
   \<and> (\<forall>a. triple mstep agrees (R a) (mark_started sv d key) (\<lambda>_. M a))
   \<and> (\<forall>a g s. M a s \<and> authorized_dispatch sv d v g \<longrightarrow>
        (\<exists>s'. mstep s (Dispatch key g) = Some s' \<and> (\<forall>p. agrees p s \<longrightarrow> agrees p s') \<and> I (a + 1) s'))
   \<and> (requires_replay_guard d \<longrightarrow> (\<forall>P status refs fail. good status \<longrightarrow>
        triple mstep agrees P (ostore (\<lambda>now. attempt_complete now key status refs fail) sv) (\<lambda>_ _. True))
      \<and> (\<forall>a status refs fail. good status \<longrightarrow>
        triple mstep agrees (I a) (ostore (\<lambda>now. attempt_complete now key status refs fail) sv) (\<lambda>_. I a)))
   \<and> (\<forall>status \<in> set TERMINAL_STATUSES. good status)
   \<and> (\<not> repo_patch_requires_hsai d \<longrightarrow> (\<forall>h r. s_execute_decision sv h d key = Inr r \<longrightarrow> good (cr_status r)))"

lemma passes_ready:
  assumes "passes sv cfg d v key good I R M" "agrees p s" "I a s" "a \<le> max_transient_retries cfg"
    and "requires_replay_guard d \<Longrightarrow> \<not> closed_attempt key p"
  shows "R a s"
  using assms unfolding passes_def by blast

lemma t_outcome:
  assumes "passes sv cfg d v key good I R M" and "good (cr_status c)"
  shows "triple mstep agrees (I a) (after_candidate sv cfg d key t n st c) (exit_ok good (I a))"
proof -
  have st: "good_result good (st\<lparr>ls_result := Some c\<rparr>)" using assms(2) by (simp add: good_result_def)
  have c: "triple mstep agrees (I a)
      (if requires_replay_guard d then
         obind (ostore (\<lambda>now. attempt_complete now key (cr_status c) (cr_refs c) (cr_failure c)) sv) (\<lambda>_. oret ())
       else oret ()) (\<lambda>_. I a)"
    using assms unfolding passes_def by (auto intro!: t_bind [where R = "\<lambda>_. I a"] t_ret)
  show ?thesis
    unfolding after_candidate_def Let_def
    by (rule t_bind [OF c]) (auto intro!: t_ret t_skip quiet_tell simp: exit_ok_def st)
qed

lemma t_unknown: "good ''failed'' \<Longrightarrow> triple mstep agrees P (unknown_outcome d key st) (exit_ok good P')"
  unfolding unknown_outcome_def
  by (rule t_skip) (auto intro!: t_ret simp: exit_ok_def good_result_def unknown_after_dispatch_def)

lemma t_reject: "quiet_comp m \<Longrightarrow> triple mstep agrees P (reject_loop m) (exit_ok good P')"
  unfolding reject_loop_def by (rule t_skip) (auto intro!: t_ret simp: exit_ok_def)

lemma t_marked:
  assumes "passes sv cfg d v key good I R M" and "authorized_dispatch sv d v g"
    and rest: "triple mstep agrees (I (a + 1)) m Q"
  shows "triple mstep agrees (R a) (obind (mark_started sv d key) (\<lambda>_. obind (otell (Dispatch key g)) (\<lambda>_. m))) Q"
proof (rule t_bind [where R = "\<lambda>_. M a"])
  show "triple mstep agrees (R a) (mark_started sv d key) (\<lambda>_. M a)" using assms(1) unfolding passes_def by blast
  show "triple mstep agrees (M a) (obind (otell (Dispatch key g)) (\<lambda>_. m)) Q"
    by (rule t_bind [OF t_tell rest]) (use assms(1,2) in \<open>unfold passes_def, blast\<close>)
qed

lemma good_failed: "passes sv cfg d v key good I R M \<Longrightarrow> good ''failed''"
  by (simp add: passes_def TERMINAL_STATUSES_def)

lemma t_authority:
  assumes p: "passes sv cfg d v key good I R M" and g: "authorized_dispatch sv d v (Some gate)"
  shows "triple mstep agrees (R a) (authority_attempt sv cfg d v key t n st gate receipt review) (exit_ok good (I (a + 1)))"
  unfolding authority_attempt_def
proof (rule t_marked [OF p g], rule t_skip, simp)
  have u: "triple mstep agrees (I (a + 1)) (unknown_outcome d key st) (exit_ok good (I (a + 1)))"
    by (rule t_unknown) (rule good_failed [OF p])
  fix x
  show "triple mstep agrees (I (a + 1)) (case x of
        AuthorityError _ \<Rightarrow> unknown_outcome d key st
      | Raises e \<Rightarrow> olift (Inl e)
      | Answer response \<Rightarrow>
          obind (olift (authority_response_contract_failure response (repo_patch_authority_key_id cfg))) (\<lambda>contract.
          case (contract, pget response ''execution_result'') of
            (None, JObj result) \<Rightarrow> after_candidate sv cfg d key t n st (authority_candidate review response result)
          | _ \<Rightarrow> unknown_outcome d key st)) (exit_ok good (I (a + 1)))"
  proof (cases x)
    case (Answer response)
    have "good (cr_status (authority_candidate review response result))"
      if "authority_response_contract_failure response kid = Inr None" "pget response ''execution_result'' = JObj result" for kid result
      using authority_contract_terminal [OF that] p unfolding passes_def by blast
    then show ?thesis using t_outcome [OF p] u Answer
      by (auto intro!: t_check split: option.splits jval.splits)
  qed (auto intro: u t_lift)
qed

lemma t_adapter:
  assumes p: "passes sv cfg d v key good I R M" and g: "authorized_dispatch sv d v None" and "\<not> repo_patch_requires_hsai d"
  shows "triple mstep agrees (R a) (adapter_attempt sv cfg d key t n st) (exit_ok good (I (a + 1)))"
  unfolding adapter_attempt_def
proof (rule t_marked [OF p g], rule t_bind [where R = "\<lambda>x s. I (a + 1) s \<and> (\<forall>r. x = Inr r \<longrightarrow> good (cr_status r))"])
  show "triple mstep agrees (I (a + 1)) (oask (\<lambda>h. s_execute_decision sv h d key))
      (\<lambda>x s. I (a + 1) s \<and> (\<forall>r. x = Inr r \<longrightarrow> good (cr_status r)))"
    by (rule t_ask) (use p assms(3) in \<open>auto simp: passes_def\<close>)
  show "triple mstep agrees (\<lambda>s. I (a + 1) s \<and> (\<forall>r. x = Inr r \<longrightarrow> good (cr_status r)))
      (obind (olift x) (after_candidate sv cfg d key t n st)) (exit_ok good (I (a + 1)))" for x
  proof (rule t_check)
    fix r assume "x = Inr r"
    then show "triple mstep agrees (\<lambda>s. I (a + 1) s \<and> (\<forall>r. x = Inr r \<longrightarrow> good (cr_status r)))
        (after_candidate sv cfg d key t n st r) (exit_ok good (I (a + 1)))"
      using t_outcome [OF p, of r] by (cases "good (cr_status r)") (auto intro: t_pre simp: triple_def)
  qed
qed

lemma t_reviewed:
  assumes "passes sv cfg d v key good I R M" and "authorized_dispatch sv d v (Some gate)"
  shows "triple mstep agrees (R a) (reviewed_attempt sv cfg d v key started t n st gate receipt) (exit_ok good (I (a + 1)))"
  unfolding reviewed_attempt_def
  by (intro t_skip t_check quiet_tell) (auto intro!: t_reject t_authority [OF assms] split: option.splits)

lemma t_admitted:
  assumes "passes sv cfg d v key good I R M" and "repo_patch_requires_hsai d" and "mesh_policy_allows v"
    and "s_authority_eligible sv" and "repo_patch_parameter_contract_failure d = None"
  shows "triple mstep agrees (R a) (admitted_attempt sv cfg d v key started t n st receipt) (exit_ok good (I (a + 1)))"
  unfolding admitted_attempt_def
  by (intro t_skip)
     (auto intro!: t_reject t_skip t_check t_reviewed [OF assms(1)] t_lift simp: authorized_dispatch_def assms(2-)
       split: sum.splits py_exn.splits)

lemma t_repo_patch:
  assumes "passes sv cfg d v key good I R M" and "repo_patch_requires_hsai d" and "mesh_policy_allows v"
    and "s_authority_eligible sv" and "repo_patch_parameter_contract_failure d = None"
  shows "triple mstep agrees (R a) (repo_patch_attempt sv cfg d v key started t n st) (exit_ok good (I (a + 1)))"
  unfolding repo_patch_attempt_def using good_failed [OF assms(1)]
  by (intro t_skip)
     (auto intro!: t_ret t_skip quiet_tell t_admitted [OF assms] t_lift simp: exit_ok_def good_result_def failed_result_def
       split: sum.splits answer.splits)

lemma t_body:
  assumes p: "passes sv cfg d v key good I R M" and "mesh_policy_allows v"
    and "repo_patch_requires_hsai d \<Longrightarrow> s_authority_eligible sv \<and> repo_patch_parameter_contract_failure d = None"
    and "a \<le> max_transient_retries cfg"
  shows "triple mstep agrees (I a) (attempt_body sv cfg d v key started t n st) (exit_ok good (I (a + 1)))"
  unfolding attempt_body_def
proof (rule t_bind [where R = "\<lambda>prior s. \<exists>q. agrees q s \<and> I a s
      \<and> (if requires_replay_guard d then prior = attempt_get key q else prior = None)"])
  show "triple mstep agrees (I a) (prior_attempt d key)
      (\<lambda>prior s. \<exists>q. agrees q s \<and> I a s \<and> (if requires_replay_guard d then prior = attempt_get key q else prior = None))"
    by (auto simp: triple_def prior_attempt_def ostore_get_def oret_def)
next
  fix prior
  let ?P = "\<lambda>s. \<exists>q. agrees q s \<and> I a s \<and> (if requires_replay_guard d then prior = attempt_get key q else prior = None)"
  have rest: "triple mstep agrees (R a) (if repo_patch_requires_hsai d then repo_patch_attempt sv cfg d v key started t n st
      else adapter_attempt sv cfg d key t n st) (exit_ok good (I (a + 1)))"
    using t_repo_patch [OF p] t_adapter [OF p] assms(2,3) by (simp add: authorized_dispatch_def)
  have ready: "R a s" if "?P s" "has_terminal_outcome prior = Inr False" "\<not> dispatched_without_outcome prior" for s
    using passes_ready [OF p _ _ assms(4)] that by (auto simp: closed_attempt_def split: if_splits)
  show "triple mstep agrees ?P (replay_or prior st (if repo_patch_requires_hsai d
      then repo_patch_attempt sv cfg d v key started t n st else adapter_attempt sv cfg d key t n st)) (exit_ok good (I (a + 1)))"
    unfolding replay_or_def
  proof (rule t_check)
    fix terminal assume h: "has_terminal_outcome prior = Inr terminal"
    have result: "good (cr_status x)" if "terminal" "result_from_prior_attempt (case prior of Some r \<Rightarrow> r | None \<Rightarrow> []) = Inr x" for x
      using h that prior_result_terminal p unfolding passes_def
      by (cases prior) (auto simp: has_terminal_outcome_def)
    show "triple mstep agrees ?P (if terminal then
        obind (olift (result_from_prior_attempt (case prior of Some r \<Rightarrow> r | None \<Rightarrow> []))) (\<lambda>result.
          oret (Break (st\<lparr>ls_result := Some result\<rparr>)))
      else if dispatched_without_outcome prior then oret (Break (st\<lparr>ls_result := Some (unknown_after_dispatch prior)\<rparr>))
      else if repo_patch_requires_hsai d then repo_patch_attempt sv cfg d v key started t n st
      else adapter_attempt sv cfg d key t n st) (exit_ok good (I (a + 1)))"
    proof (cases "terminal \<or> dispatched_without_outcome prior")
      case True
      then show ?thesis using result good_failed [OF p]
        by (auto intro!: t_check t_ret simp: exit_ok_def good_result_def unknown_after_dispatch_def)
    next
      case False
      then show ?thesis using t_pre [OF rest, of ?P] ready h by simp
    qed
  qed
qed

lemma t_loop:
  assumes p: "passes sv cfg d v key good I R M" and "mesh_policy_allows v"
    and "repo_patch_requires_hsai d \<Longrightarrow> s_authority_eligible sv \<and> repo_patch_parameter_contract_failure d = None"
    and "good_result good st"
  shows "triple mstep agrees (I a) (attempt_loop sv cfg d v key started t a st)
    (\<lambda>x _. \<forall>n st'. x = Ended n st' \<longrightarrow> good_result good st')"
  using assms
proof (induction sv cfg d v key started t a st rule: attempt_loop.induct)
  case (1 sv cfg d v key started t a st)
  show ?case
  proof (cases "a \<le> max_transient_retries cfg")
    case True
    have again: "triple mstep agrees (I (a + 1)) (attempt_loop sv cfg d v key started t (a + 1) st')
        (\<lambda>x _. \<forall>n st'. x = Ended n st' \<longrightarrow> good_result good st')" if "good_result good st'" for st'
      by (rule "1.IH" [OF True "1.prems"(1-3) that])
    show ?thesis
      unfolding attempt_loop.simps [of sv cfg d v key started t a] if_P [OF True]
    proof (rule t_bind [OF t_body [OF "1.prems"(1-3) True]])
      fix x
      show "triple mstep agrees (exit_ok good (I (a + 1)) x) (case x of
          Again st' \<Rightarrow> attempt_loop sv cfg d v key started t (a + 1) st'
        | Break st' \<Rightarrow> oret (Ended (a + 1) st')
        | Return r \<Rightarrow> oret (Returned r)) (\<lambda>x _. \<forall>n st'. x = Ended n st' \<longrightarrow> good_result good st')"
      proof (cases x)
        case (Again st')
        then show ?thesis using t_pre [OF again, of st'] by (cases "good_result good st'") (auto simp: exit_ok_def triple_def)
      qed (auto intro!: t_ret simp: exit_ok_def)
    qed
  next
    case False
    then show ?thesis using "1.prems"(4) by (simp add: attempt_loop.simps) (auto intro!: t_ret)
  qed
qed

lemma t_finish:
  assumes p: "passes sv cfg d v key good I R M" and "good_result good st"
  shows "triple mstep agrees P (finish_execution sv cfg d v key started n st) (\<lambda>_ _. True)"
proof (cases "ls_result st")
  case None
  then show ?thesis by (auto simp: finish_execution_def intro: t_lift)
next
  case (Some result)
  have "triple mstep agrees P (ostore (\<lambda>now. attempt_complete now key (cr_status result) refs fail) sv) (\<lambda>_ _. True)"
    if "requires_replay_guard d" for P refs fail
    using p assms(2) that Some unfolding passes_def good_result_def by blast
  then have complete: "triple mstep agrees P (if requires_replay_guard d \<and> b
      then obind (ostore (\<lambda>now. attempt_complete now key (cr_status result) refs fail) sv) (\<lambda>_. oret ())
      else oret ()) (\<lambda>_ _. True)" for P refs fail b
    by (auto intro!: t_bind [where R = "\<lambda>_ _. True"] t_ret)
  show ?thesis
    unfolding finish_execution_def Some option.case
    by (rule t_skip, simp, simp only: split_beta, rule t_skip, simp) (rule t_bind [OF complete], auto intro: t_quiet)
qed

theorem t_execute:
  assumes "\<And>action. pidx (execution_plan d) ''action'' = Inr action
      \<Longrightarrow> passes sv cfg d v (decision_id d @ '':'' @ py_str action) good I R M"
  shows "triple mstep agrees (I 0) (execute_decision sv cfg d v) (\<lambda>_ _. True)"
  unfolding execute_decision_def Let_def
proof (rule t_skip, simp, rule t_check)
  fix started action assume a: "pidx (execution_plan d) ''action'' = Inr action"
  let ?key = "decision_id d @ '':'' @ py_str action"
  let ?loop = "\<lambda>t. attempt_loop sv cfg d v ?key started t 0 \<lparr>ls_review = None, ls_gate = None, ls_result = None\<rparr>"
  let ?proceed = "if \<not> passed v \<or> final_recommendation v \<noteq> ''execute'' then policy_rejected sv cfg d v ?key started
    else obind (oask (s_clock sv)) (\<lambda>t. obind (?loop t) (\<lambda>x. case x of
        Returned r \<Rightarrow> oret r
      | Ended n st \<Rightarrow> finish_execution sv cfg d v ?key started n st))"
  have run: "triple mstep agrees (I 0) ?proceed (\<lambda>_ _. True)"
    if "repo_patch_requires_hsai d \<Longrightarrow> s_authority_eligible sv \<and> repo_patch_parameter_contract_failure d = None"
  proof (cases "mesh_policy_allows v")
    case True
    have loop: "triple mstep agrees (I 0) (?loop t) (\<lambda>x _. \<forall>n st. x = Ended n st \<longrightarrow> good_result good st)" for t
      by (rule t_loop [OF assms [OF a] True]) (use that in \<open>simp_all add: good_result_def\<close>)
    have rest: "triple mstep agrees (\<lambda>_. \<forall>n st. x = Ended n st \<longrightarrow> good_result good st) (case x of
        Returned r \<Rightarrow> oret r
      | Ended n st \<Rightarrow> finish_execution sv cfg d v ?key started n st) (\<lambda>_ _. True)" for x
    proof (cases x)
      case (Ended n st)
      then show ?thesis using t_finish [OF assms [OF a], of st] by (cases "good_result good st") (auto simp: triple_def)
    qed (auto intro: t_ret)
    have "\<not> (\<not> passed v \<or> final_recommendation v \<noteq> ''execute'')" using True by (simp add: mesh_policy_allows_def)
    then show ?thesis
      by (simp only: if_False) (rule t_skip [OF quiet_ask], rule t_bind [OF loop rest])
  qed (auto simp: mesh_policy_allows_def intro: t_quiet)
  show "triple mstep agrees (I 0)
     (if repo_patch_requires_hsai d then (case repo_patch_parameter_contract_failure d of
         None \<Rightarrow>
           if \<not> mesh_policy_allows v \<or> \<not> s_authority_eligible sv then initial_gate_rejected sv cfg d v ?key started
           else ?proceed
       | Some reason \<Rightarrow> repo_patch_review_rejected sv cfg d ?key started (failed_result [] [(''reason'', JStr reason)]))
      else ?proceed) (\<lambda>_ _. True)"
    using run by (cases "repo_patch_requires_hsai d"; cases "repo_patch_parameter_contract_failure d"; cases "mesh_policy_allows v \<and> s_authority_eligible sv")
      (auto intro: t_quiet)
qed

end

end
