(* ===== verification/Orchestrator_Props.thy ===== *)
theory Orchestrator_Props
  imports Orchestrator_Monitor "HOL-Library.Sublist"
begin

text \<open>
  Correctness of the orchestrator: a guarded action is dispatched at most once over any number
  of executions and crashes, nothing is dispatched without authorization, the retry loop is
  bounded, and an attempt whose outcome is known or unknown is answered from the ledger.
\<close>

section \<open>The ledger under the operations of the store\<close>

lemma closed_begin:
  assumes "attempt_begin now key did plan p = Inr (r, p')"
  shows "closed_attempt k p' \<longleftrightarrow> closed_attempt k p"
proof (cases "k = key")
  case True
  note g = attempt_begin_get [OF assms]
  show ?thesis
  proof (cases "attempt_get key p")
    case None
    then have "pget r ''status'' = JStr ''attempt_started''" using g by simp
    then have "\<not> closed_attempt k p'" using g closed_status [of key p' r] True by (simp add: str_in_def)
    then show ?thesis using None True by (simp add: closed_attempt_def has_terminal_outcome_def dispatched_without_outcome_def)
  next
    case (Some r0)
    then show ?thesis using g closed_status [of key p' r] closed_status [of key p r0] True by simp
  qed
next
  case False
  then show ?thesis using attempt_begin_get [OF assms] by (simp add: closed_attempt_def)
qed

lemma closed_update:
  assumes "attempt_update now key ((''status'', JStr s) # u) p = Inr (r, p')" "''status'' \<notin> fst ` set u"
    and "s \<in> set (''remote_command_dispatched'' # TERMINAL_STATUSES)"
  shows "closed_attempt k p' \<longleftrightarrow> k = key \<or> closed_attempt k p"
proof (cases "k = key")
  case True
  then show ?thesis
    using attempt_update_get [OF assms(1,2)] closed_status [of key p' r] assms(3) by (simp add: str_in_def TERMINAL_STATUSES_def)
next
  case False
  then show ?thesis using attempt_update_get [OF assms(1,2)] by (simp add: closed_attempt_def)
qed

lemma closed_dispatched:
  "attempt_mark_dispatched now key p = Inr (r, p') \<Longrightarrow> closed_attempt k p' \<longleftrightarrow> k = key \<or> closed_attempt k p"
  unfolding attempt_mark_dispatched_def by (erule closed_update) simp_all

lemma closed_complete:
  "attempt_complete now key s refs fail p = Inr (r, p') \<Longrightarrow> s \<in> set TERMINAL_STATUSES
    \<Longrightarrow> closed_attempt k p' \<longleftrightarrow> k = key \<or> closed_attempt k p"
  unfolding attempt_complete_def by (erule closed_update) simp_all

section \<open>At most one dispatch\<close>

datatype phase = Attempt_Open | Attempt_Armed | Attempt_Spent

text \<open>The phases of one key. \<open>c\<close> says whether the adapters keep to the three terminal statuses: if they do a closed
  attempt is never opened again (\<open>None\<close> if it were), otherwise the store may open it.\<close>

fun once_step :: "bool \<Rightarrow> string \<Rightarrow> phase \<Rightarrow> orch_event \<Rightarrow> phase option" where
  "once_step c k ph (StoreWrite p) =
     (if ph = Attempt_Open then Some (if closed_attempt k p then Attempt_Armed else Attempt_Open)
      else if closed_attempt k p then Some Attempt_Spent else if c then None else Some Attempt_Open)"
| "once_step c k ph (Dispatch j g) = (if j \<noteq> k then Some ph else if ph = Attempt_Armed then Some Attempt_Spent else None)"
| "once_step c k ph _ = Some ph"

definition once_agrees :: "string \<Rightarrow> jobj \<Rightarrow> phase \<Rightarrow> bool" where
  "once_agrees k p ph \<longleftrightarrow> (ph = Attempt_Open \<longleftrightarrow> \<not> closed_attempt k p)"

interpretation once: log_monitor "once_step c k" "once_agrees k" for c k
proof
  show "quiet e \<Longrightarrow> once_step c k s e = Some s" for e s by (cases e) simp_all
qed

lemma once_started:
  assumes "key = k \<Longrightarrow> requires_replay_guard d"
  shows "triple (once_step c k) (once_agrees k) (\<lambda>s. key = k \<longrightarrow> s = Attempt_Open) (mark_started sv d key)
    (\<lambda>_ s. key = k \<longrightarrow> s = Attempt_Armed)"
proof (cases "requires_replay_guard d")
  case True
  have "triple (once_step c k) (once_agrees k) (\<lambda>s. key = k \<longrightarrow> s = Attempt_Open)
      (ostore (\<lambda>now. attempt_begin now key (decision_id d) (execution_plan d)) sv) (\<lambda>_ s. key = k \<longrightarrow> s = Attempt_Open)"
    by (rule once.t_store) (auto simp: once_agrees_def closed_begin)
  moreover have "triple (once_step c k) (once_agrees k) (\<lambda>s. key = k \<longrightarrow> s = Attempt_Open)
      (ostore (\<lambda>now. attempt_mark_dispatched now key) sv) (\<lambda>_ s. key = k \<longrightarrow> s = Attempt_Armed)"
    by (rule once.t_store) (auto simp: once_agrees_def closed_dispatched)
  ultimately show ?thesis using True unfolding mark_started_def
    by (auto intro!: once.t_bind once.t_ret)
next
  case False
  then show ?thesis using assms by (auto simp: mark_started_def intro!: once.t_ret)
qed

lemma once_complete:
  assumes "c \<longrightarrow> status \<in> set TERMINAL_STATUSES"
  shows "triple (once_step c k) (once_agrees k) P (ostore (\<lambda>now. attempt_complete now key status refs fail) sv) (\<lambda>_ _. True)"
proof (rule once.t_store)
  fix t p r p' s
  assume "attempt_complete t key status refs fail p = Inr (r, p')" "once_agrees k p s"
  then show "\<exists>s'. once_step c k s (StoreWrite p') = Some s' \<and> once_agrees k p' s' \<and> True"
    using assms closed_complete [of t key status refs fail p r p' k] by (cases c) (auto simp: once_agrees_def)
qed

text \<open>The executions the guarantee is about: a decision with the tracked key is under the replay
  guard. \<open>c\<close> adds the contract of the adapters, that they report one of the three terminal
  statuses; \<open>GooseCliAdapter\<close> and \<open>HermesCliAdapter\<close> do not check it.\<close>

definition attempt_key :: "Decision \<Rightarrow> py_exn + string" where
  "attempt_key d = ebind (pidx (execution_plan d) ''action'') (\<lambda>action. Inr (decision_id d @ '':'' @ py_str action))"

definition guarded_run :: "bool \<Rightarrow> string \<Rightarrow> orch_services \<Rightarrow> Decision \<Rightarrow> bool" where
  "guarded_run c k sv d \<longleftrightarrow>
     (attempt_key d = Inr k \<longrightarrow> requires_replay_guard d)
   \<and> (c \<and> \<not> repo_patch_requires_hsai d \<longrightarrow>
      (\<forall>h key r. s_execute_decision sv h d key = Inr r \<longrightarrow> cr_status r \<in> set TERMINAL_STATUSES))"

lemma once_passes:
  assumes "guarded_run c k sv d" and "pidx (execution_plan d) ''action'' = Inr action"
  shows "once.passes c k sv cfg d v (decision_id d @ '':'' @ py_str action) (\<lambda>s. c \<longrightarrow> s \<in> set TERMINAL_STATUSES)
    (\<lambda>_ _. True) (\<lambda>_ s. attempt_key d = Inr k \<longrightarrow> s = Attempt_Open) (\<lambda>_ s. attempt_key d = Inr k \<longrightarrow> s = Attempt_Armed)"
proof -
  let ?key = "decision_id d @ '':'' @ py_str action"
  have k: "attempt_key d = Inr k \<longleftrightarrow> ?key = k"
    using assms(2) by (simp add: attempt_key_def del: append.simps pidx_eq_Inr)
  then have g: "?key = k \<Longrightarrow> requires_replay_guard d" using assms(1) by (simp add: guarded_run_def)
  show ?thesis
    unfolding once.passes_def k
  proof (intro conjI)
    show "\<forall>p s a. once_agrees k p s \<and> True \<and> a \<le> max_transient_retries cfg
        \<and> (requires_replay_guard d \<longrightarrow> \<not> closed_attempt ?key p) \<longrightarrow> ?key = k \<longrightarrow> s = Attempt_Open"
      using g by (auto simp: once_agrees_def)
    show "\<forall>a::int. triple (once_step c k) (once_agrees k) (\<lambda>s. ?key = k \<longrightarrow> s = Attempt_Open) (mark_started sv d ?key)
        (\<lambda>_ s. ?key = k \<longrightarrow> s = Attempt_Armed)"
      using once_started [OF g] by blast
    show "\<forall>(a::int) g s. (?key = k \<longrightarrow> s = Attempt_Armed) \<and> authorized_dispatch sv d v g \<longrightarrow>
        (\<exists>s'. once_step c k s (Dispatch ?key g) = Some s' \<and> (\<forall>p. once_agrees k p s \<longrightarrow> once_agrees k p s') \<and> True)"
      by (auto simp: once_agrees_def)
    show "requires_replay_guard d \<longrightarrow>
        (\<forall>P status refs fail. (c \<longrightarrow> status \<in> set TERMINAL_STATUSES) \<longrightarrow> triple (once_step c k) (once_agrees k) P
          (ostore (\<lambda>now. attempt_complete now ?key status refs fail) sv) (\<lambda>_ _. True))
      \<and> (\<forall>(a::int) status refs fail. (c \<longrightarrow> status \<in> set TERMINAL_STATUSES) \<longrightarrow> triple (once_step c k) (once_agrees k) (\<lambda>_. True)
          (ostore (\<lambda>now. attempt_complete now ?key status refs fail) sv) (\<lambda>_ _. True))"
      using once_complete by blast
  qed (use assms(1) in \<open>auto simp: guarded_run_def\<close>)
qed

text \<open>The ledger on disk after a prefix of the log.\<close>

fun durable :: "jobj \<Rightarrow> orch_event list \<Rightarrow> jobj" where
  "durable p [] = p"
| "durable p (e # es) = durable (case e of StoreWrite q \<Rightarrow> q | _ \<Rightarrow> p) es"

definition run_log :: "orch_services \<Rightarrow> orch_config \<Rightarrow> Decision \<Rightarrow> EvaluationResult \<Rightarrow> bool \<Rightarrow> jobj \<Rightarrow> orch_event list" where
  "run_log sv cfg d v client p = w_log (snd (execute_decision sv cfg d v \<lparr>w_attempts = p, w_log = [], w_client = client\<rparr>))"

fun is_dispatch :: "string \<Rightarrow> orch_event \<Rightarrow> bool" where
  "is_dispatch k (Dispatch j _) = (j = k)"
| "is_dispatch k _ = False"

definition dispatches :: "string \<Rightarrow> orch_event list \<Rightarrow> nat" where
  "dispatches k es = length (filter (is_dispatch k) es)"

text \<open>The writes that open a closed attempt again. Under the contract of the adapters there are none.\<close>

fun reopenings :: "string \<Rightarrow> jobj \<Rightarrow> orch_event list \<Rightarrow> nat" where
  "reopenings k p [] = 0"
| "reopenings k p (StoreWrite q # es) = (if closed_attempt k p \<and> \<not> closed_attempt k q then 1 else 0) + reopenings k q es"
| "reopenings k p (_ # es) = reopenings k p es"

lemma durable_append: "durable p (es @ es') = durable (durable p es) es'"
  by (induction es arbitrary: p) (auto split: orch_event.splits)

lemma reopenings_append: "reopenings k p (es @ es') = reopenings k p es + reopenings k (durable p es) es'"
proof (induction es arbitrary: p)
  case (Cons e es)
  then show ?case by (cases e) simp_all
qed simp

text \<open>Any number of executions, one after the other, each of which may crash after any of its events, over
  one ledger.\<close>

inductive crash_history :: "bool \<Rightarrow> string \<Rightarrow> jobj \<Rightarrow> jobj \<Rightarrow> orch_event list \<Rightarrow> bool" for c k p0 where
  history_start: "crash_history c k p0 p0 []"
| history_run: "crash_history c k p0 p es \<Longrightarrow> guarded_run c k sv d \<Longrightarrow> prefix es' (run_log sv cfg d v client p)
    \<Longrightarrow> crash_history c k p0 (durable p es') (es @ es')"

lemma history_durable: "crash_history c k p0 p es \<Longrightarrow> p = durable p0 es"
  by (induction rule: crash_history.induct) (simp_all add: durable_append)

definition budget :: "phase \<Rightarrow> nat" where
  "budget ph = (if ph = Attempt_Spent then 0 else 1)"

lemma once_follow:
  "follow (once_step c k) ph es = Some ph' \<Longrightarrow> once_agrees k p ph
    \<Longrightarrow> dispatches k es + budget ph' \<le> budget ph + reopenings k p es \<and> (c \<longrightarrow> reopenings k p es = 0)
      \<and> once_agrees k (durable p es) ph'"
proof (induction es arbitrary: p ph)
  case (Cons e es)
  let ?q = "case e of StoreWrite q \<Rightarrow> q | _ \<Rightarrow> p" and ?n = "reopenings k p [e]"
  obtain ph1 where s: "once_step c k ph e = Some ph1" "follow (once_step c k) ph1 es = Some ph'"
    using Cons.prems(1) by (auto split: option.splits)
  have a: "once_agrees k ?q ph1" and "(if is_dispatch k e then 1 else 0) + budget ph1 \<le> budget ph + ?n" and "c \<longrightarrow> ?n = 0"
    using s(1) Cons.prems(2) by (cases e; auto simp: once_agrees_def budget_def split: if_splits)+
  moreover have "reopenings k p (e # es) = ?n + reopenings k ?q es" by (cases e) simp_all
  ultimately show ?case using Cons.IH [OF s(2) a] by (auto simp: dispatches_def)
qed (simp add: dispatches_def)

lemma once_run:
  assumes "guarded_run c k sv d" and "prefix es (run_log sv cfg d v client p)"
  shows "dispatches k es + (if closed_attempt k (durable p es) then 0 else 1) \<le> (if closed_attempt k p then 0 else 1) + reopenings k p es
    \<and> (c \<longrightarrow> reopenings k p es = 0)"
proof -
  let ?ph = "if closed_attempt k p then Attempt_Spent else Attempt_Open"
  have ag: "once_agrees k p ?ph" by (simp add: once_agrees_def)
  have t: "triple (once_step c k) (once_agrees k) (\<lambda>_. True) (execute_decision sv cfg d v) (\<lambda>_ _. True)"
    by (rule once.t_execute) (rule once_passes [OF assms(1)])
  obtain ph where "follow (once_step c k) ?ph (run_log sv cfg d v client p) = Some ph"
    unfolding run_log_def using triple_log [OF t, of p ?ph client] ag by blast
  then obtain ph' where "follow (once_step c k) ?ph es = Some ph'"
    using assms(2) by (auto simp: prefix_def follow_append split: option.splits)
  from once_follow [OF this ag] show ?thesis by (auto simp: once_agrees_def budget_def split: if_splits)
qed

lemma history_budget:
  "crash_history c k p0 p es \<Longrightarrow>
    dispatches k es + (if closed_attempt k p then 0 else 1) \<le> (if closed_attempt k p0 then 0 else 1) + reopenings k p0 es
    \<and> (c \<longrightarrow> reopenings k p0 es = 0)"
proof (induction rule: crash_history.induct)
  case (history_run p es sv d es' cfg v client)
  then show ?case using once_run [OF history_run.hyps(2,3)] history_durable [OF history_run.hyps(1)]
    by (auto simp: dispatches_def reopenings_append)
qed (simp add: dispatches_def)

section \<open>Authorization\<close>

definition auth_step :: "orch_services \<Rightarrow> Decision \<Rightarrow> EvaluationResult \<Rightarrow> unit \<Rightarrow> orch_event \<Rightarrow> unit option" where
  "auth_step sv d v s e = (case e of
      Dispatch _ g \<Rightarrow> if authorized_dispatch sv d v g then Some () else None
    | _ \<Rightarrow> Some ())"

interpretation auth: log_monitor "auth_step sv d v" "\<lambda>_ _. True" for sv d v
proof
  show "quiet e \<Longrightarrow> auth_step sv d v s e = Some s" for e s by (cases e) (simp_all add: auth_step_def)
qed

lemma auth_store: "triple (auth_step sv d v) (\<lambda>_ _. True) P (ostore f sv') (\<lambda>_ _. True)"
  by (rule auth.t_store) (simp add: auth_step_def)

lemma auth_passes:
  "auth.passes sv d v sv cfg d v key (\<lambda>_. True) (\<lambda>_ _. True) (\<lambda>_ _. True) (\<lambda>_ _. True)"
proof -
  have "triple (auth_step sv d v) (\<lambda>_ _. True) (\<lambda>_. True) (mark_started sv d key) (\<lambda>_ _. True)"
    unfolding mark_started_def by (auto intro!: auth.t_bind [OF auth_store] auth.t_ret)
  then show ?thesis by (auto simp: auth.passes_def auth_store auth_step_def)
qed

lemma auth_follow: "follow (auth_step sv d v) s es = Some s' \<Longrightarrow> Dispatch k g \<in> set es \<Longrightarrow> authorized_dispatch sv d v g"
  by (induction es arbitrary: s) (auto simp: auth_step_def split: option.splits if_splits)

lemma run_authorized:
  assumes "Dispatch k g \<in> set (run_log sv cfg d v client p)"
  shows "authorized_dispatch sv d v g"
proof -
  have t: "triple (auth_step sv d v) (\<lambda>_ _. True) (\<lambda>_. True) (execute_decision sv cfg d v) (\<lambda>_ _. True)"
    by (rule auth.t_execute) (rule auth_passes)
  obtain s' where "follow (auth_step sv d v) () (run_log sv cfg d v client p) = Some s'"
    unfolding run_log_def using triple_log [OF t, where p = p and c = client] by blast
  then show ?thesis using auth_follow assms by blast
qed

section \<open>The bound of the retry loop\<close>

fun count_step :: "nat \<Rightarrow> orch_event \<Rightarrow> nat option" where
  "count_step n (Dispatch _ _) = (if n = 0 then None else Some (n - 1))"
| "count_step n _ = Some n"

interpretation bounded: log_monitor count_step "\<lambda>_ _. True"
proof
  show "quiet e \<Longrightarrow> count_step s e = Some s" for e s by (cases e) simp_all
qed

definition any_dispatch :: "orch_event \<Rightarrow> bool" where
  "any_dispatch e \<longleftrightarrow> (\<exists>k g. e = Dispatch k g)"

lemma count_follow: "follow count_step n es = Some m \<Longrightarrow> length (filter any_dispatch es) + m = n"
proof (induction es arbitrary: n)
  case (Cons e es)
  then show ?case by (cases e) (auto simp: any_dispatch_def split: if_splits)
qed simp

lemma count_store: "triple count_step (\<lambda>_ _. True) P (ostore f sv) (\<lambda>_. P)"
  by (rule bounded.t_store) simp

lemma count_passes:
  "bounded.passes sv cfg d v key (\<lambda>_. True) (\<lambda>a n. nat (max_transient_retries cfg + 1 - a) \<le> n)
    (\<lambda>a n. Suc (nat (max_transient_retries cfg - a)) \<le> n) (\<lambda>a n. Suc (nat (max_transient_retries cfg - a)) \<le> n)"
proof -
  let ?m = "max_transient_retries cfg"
  have "triple count_step (\<lambda>_ _. True) P (mark_started sv d key) (\<lambda>_. P)" for P
    unfolding mark_started_def by (auto intro!: bounded.t_bind [OF count_store] bounded.t_ret)
  moreover have "triple count_step (\<lambda>_ _. True) P (ostore f sv) (\<lambda>_ _. True)" for P and f :: "string \<Rightarrow> jobj \<Rightarrow> py_exn + (jobj \<times> jobj)"
    by (rule bounded.t_store) simp
  moreover have "\<exists>n'. count_step n (Dispatch key g) = Some n' \<and> nat (?m + 1 - (a + 1)) \<le> n'"
    if "Suc (nat (?m - a)) \<le> n" for n a g using that by auto
  ultimately show ?thesis by (auto simp: bounded.passes_def count_store)
qed

lemma run_bounded:
  "length (filter any_dispatch (run_log sv cfg d v client p)) \<le> nat (max_transient_retries cfg + 1)"
proof -
  have t: "triple count_step (\<lambda>_ _. True) (\<lambda>n. nat (max_transient_retries cfg + 1 - 0) \<le> n) (execute_decision sv cfg d v) (\<lambda>_ _. True)"
    by (rule bounded.t_execute) (rule count_passes)
  obtain m where "follow count_step (nat (max_transient_retries cfg + 1)) (run_log sv cfg d v client p) = Some m"
    unfolding run_log_def using triple_log [OF t, where p = p and c = client and s = "nat (max_transient_retries cfg + 1)"] by auto
  then show ?thesis using count_follow by fastforce
qed

section \<open>Replay from the ledger\<close>

text \<open>Computations without any effect.\<close>

definition pure_comp :: "'a orch \<Rightarrow> bool" where
  "pure_comp m \<longleftrightarrow> (\<forall>w. snd (m w) = w)"

lemma pure_simps [simp]: "pure_comp (oret x)" "pure_comp (olift r)" "pure_comp (oask f)" "pure_comp (ostore_get key)"
  by (simp_all add: pure_comp_def oret_def olift_def oask_def ostore_get_def)

lemma pure_bind [intro!]: "pure_comp m \<Longrightarrow> (\<And>x. pure_comp (f x)) \<Longrightarrow> pure_comp (obind m f)"
  by (auto simp: pure_comp_def obind_def split: prod.splits sum.splits) (metis snd_conv)+

lemma obind_pure_Inr:
  "pure_comp m \<Longrightarrow> fst (obind m f w) = Inr y \<Longrightarrow> \<exists>x. fst (m w) = Inr x \<and> fst (f x w) = Inr y"
  by (cases "m w") (auto simp: pure_comp_def obind_def split: sum.splits dest: spec [of _ w])

lemma pure_make_record [simp]: "pure_comp (make_record sv cfg d key started status refs fail)"
  unfolding make_record_def Let_def by (intro pure_bind) simp_all

lemma make_record_fields:
  "fst (make_record sv cfg d key started status refs fail w) = Inr r \<Longrightarrow> exec_status r = status \<and> external_refs r = refs \<and> failure r = fail"
  unfolding make_record_def Let_def obind_def oask_def olift_def oret_def
  by (auto split: sum.splits)

text \<open>What a closed attempt stands for.\<close>

definition replayed_result :: "jobj \<Rightarrow> py_exn + cli_result" where
  "replayed_result r =
     (if dispatched_without_outcome (Some r) then Inr (unknown_after_dispatch (Some r)) else result_from_prior_attempt r)"

definition annotated :: "orch_config \<Rightarrow> cli_result \<Rightarrow> jobj option" where
  "annotated cfg x = (case cr_failure x of
      Some (e # f) \<Rightarrow> Some (pupdate (e # f) [(''attempts'', JInt 1), (''orchestration_mode'', JStr (orchestration_mode cfg))])
    | other \<Rightarrow> other)"

lemma replayed_marks:
  assumes "replayed_result r = Inr x"
  shows "\<not> cr_retryable x \<and> (truthy (pget (cr_refs x) ''idempotency_replayed'')
     \<or> py_eq (pget (cr_refs x) ''idempotency_guard'') (JStr ''remote_command_dispatched_without_outcome''))"
  using assms by (auto simp: replayed_result_def unknown_after_dispatch_def result_from_prior_attempt_def pget_pset split: if_splits)

lemma body_closed:
  assumes "requires_replay_guard d" "attempt_get key (w_attempts w) = Some r" "closed_attempt key (w_attempts w)"
  shows "attempt_body sv cfg d v key started t n st w = (case replayed_result r of
      Inl e \<Rightarrow> (Inl e, w) | Inr x \<Rightarrow> (Inr (Break (st\<lparr>ls_result := Some x\<rparr>)), w))"
proof (cases "dispatched_without_outcome (Some r)")
  case True
  then have "has_terminal_outcome (Some r) = Inr False"
    by (auto simp: dispatched_without_outcome_def has_terminal_outcome_def in_set_def str_in_def)
  then show ?thesis using assms True
    by (simp add: attempt_body_def prior_attempt_def ostore_get_def obind_def replay_or_def olift_def oret_def replayed_result_def)
next
  case False
  then have "has_terminal_outcome (Some r) = Inr True" using assms by (simp add: closed_attempt_def)
  then show ?thesis using assms False
    by (simp add: attempt_body_def prior_attempt_def ostore_get_def obind_def replay_or_def olift_def oret_def replayed_result_def
        split: sum.splits)
qed

lemma finish_replayed:
  assumes "replayed_result r = Inr x" "ls_result st = Some x" "ls_gate st = None"
  shows "finish_execution sv cfg d v key started 1 st = make_record sv cfg d key started (cr_status x) (cr_refs x) (annotated cfg x)"
proof
  fix w
  have "open_incident sv cfg d key 1 x = oret (cr_refs x, annotated cfg x)"
    using replayed_marks [OF assms(1)] by (auto simp: open_incident_def annotated_def Let_def split: option.splits list.splits)
  then show "finish_execution sv cfg d v key started 1 st w
      = make_record sv cfg d key started (cr_status x) (cr_refs x) (annotated cfg x) w"
    using assms(2,3) replayed_marks [OF assms(1)]
    by (auto simp: finish_execution_def attach_packet_def obind_def oret_def)
qed

lemma execute_closed:
  assumes a: "pidx (execution_plan d) ''action'' = Inr action"
    and r: "attempt_get (decision_id d @ '':'' @ py_str action) (w_attempts w) = Some r"
      "closed_attempt (decision_id d @ '':'' @ py_str action) (w_attempts w)"
    and d: "requires_replay_guard d" "mesh_policy_allows v" "0 \<le> max_transient_retries cfg"
      "repo_patch_requires_hsai d \<Longrightarrow> s_authority_eligible sv \<and> repo_patch_parameter_contract_failure d = None"
  shows "execute_decision sv cfg d v w = (case replayed_result r of
      Inl e \<Rightarrow> (Inl e, w)
    | Inr x \<Rightarrow> make_record sv cfg d (decision_id d @ '':'' @ py_str action) (s_now sv (w_log w)) (cr_status x) (cr_refs x)
        (annotated cfg x) w)"
proof -
  let ?key = "decision_id d @ '':'' @ py_str action" and ?st = "\<lparr>ls_review = None, ls_gate = None, ls_result = None\<rparr>"
  let ?go = "\<lambda>started. obind (oask (s_clock sv)) (\<lambda>t. obind (attempt_loop sv cfg d v ?key started t 0 ?st) (\<lambda>x. case x of
        Returned r \<Rightarrow> oret r
      | Ended n st \<Rightarrow> finish_execution sv cfg d v ?key started n st))"
  have "execute_decision sv cfg d v w = ?go (s_now sv (w_log w)) w"
    using a d by (auto simp: execute_decision_def obind_def oask_def olift_def mesh_policy_allows_def Let_def
        simp del: pidx_eq_Inr append.simps split: option.splits)
  also have "\<dots> = (case replayed_result r of
      Inl e \<Rightarrow> (Inl e, w)
    | Inr x \<Rightarrow> make_record sv cfg d ?key (s_now sv (w_log w)) (cr_status x) (cr_refs x) (annotated cfg x) w)"
    using d(3) body_closed [OF d(1) r] finish_replayed [of r]
    by (simp add: obind_def oask_def attempt_loop.simps [of _ _ _ _ _ _ _ 0] oret_def del: append.simps split: sum.splits)
  finally show ?thesis .
qed

section \<open>The properties\<close>


text \<open>C2: nothing is dispatched without authorization. Whatever the services answer, every dispatch of
  an execution is one that the evaluation passed and recommends, and for a repository patch
  the authority gets a gate that allows it, that comes from an authority-eligible adapter
  and that is bound to this decision and evaluation, for parameters free of credentials.\<close>

theorem orchestrator_dispatch_authorized:
  assumes "Dispatch k g \<in> set (run_log sv cfg d v client p)"
  shows "authorized_dispatch sv d v g"
  using run_authorized [OF assms] .

text \<open>C39: the retry loop is bounded. One execution dispatches at most once more than the configured
  number of transient retries, whatever the adapter, the clock and the authority do.\<close>

theorem orchestrator_retries_bounded:
  "length (filter any_dispatch (run_log sv cfg d v client p)) \<le> nat (max_transient_retries cfg + 1)"
  by (rule run_bounded)


end
