(* ===== verification/Orchestrator_Witness.thy ===== *)
theory Orchestrator_Witness
  imports Orchestrator_Props Hsai_Bridge_Run
begin

text \<open>The orchestrator on a concrete decision: a restart of a systemd service that succeeds at the
  first dispatch, is answered from the ledger afterwards, and crashes after its dispatch.\<close>

definition restart_decision :: Decision where
  "restart_decision = \<lparr>decision_id = ''d1'', trigger_id = ''t1'', summary = ''s'', decision_type = ''x'', autonomy_tier = ''a'',
     reasoning = [], expected_outcome = [], risk = [], confidence = JInt 1,
     execution_plan = [(''system'', JStr ''systemd_service''), (''action'', JStr ''restart_systemd_service''),
       (''parameters'', JObj [])]\<rparr>"

definition restart_evaluation :: EvaluationResult where
  "restart_evaluation = \<lparr>evaluation_id = ''e1'', eval_decision_id = ''d1'', passed = True, final_recommendation = ''execute'',
     stage_results = [], blocking_reasons = [], review_route = None\<rparr>"

definition restart_services :: orch_services where
  "restart_services = \<lparr>s_env = flat_env, s_schemas = open_schemas, s_now = (\<lambda>_. ''now''), s_clock = (\<lambda>_. 0),
     s_float_text = (\<lambda>s. Inl (ValueError s)),
     s_execute_decision = (\<lambda>_ _ _. Inr \<lparr>cr_status = ''succeeded'', cr_refs = [], cr_failure = None, cr_retryable = False\<rparr>),
     s_open_incident = (\<lambda>_ _ _. Inr []), s_admit = (\<lambda>_ _. Inl ''off''), s_authority_eligible = False,
     s_build_client = (\<lambda>_. Inr ()), s_preflight = (\<lambda>_ _ _ _. AuthorityError ''off''),
     s_authority_execute = (\<lambda>_ _ _ _ _ _. AuthorityError ''off'')\<rparr>"

definition restart_config :: orch_config where
  "restart_config = \<lparr>orchestration_mode = ''native'', max_transient_retries = 2, max_retry_window_seconds = 60,
     repo_patch_authority_key_id = ''k''\<rparr>"

definition restart_key :: string where
  "restart_key = ''d1:restart_systemd_service''"

definition restart_log :: "orch_event list" where
  "restart_log = run_log restart_services restart_config restart_decision restart_evaluation False []"

lemma restart_log_dispatches: "dispatches restart_key restart_log = 1"
  by code_simp

lemma restart_dispatch: "Dispatch restart_key None \<in> set restart_log"
  by code_simp

lemma restart_guarded: "guarded_run True restart_key restart_services restart_decision"
  by (auto simp: guarded_run_def restart_services_def restart_decision_def requires_replay_guard_def repo_patch_requires_hsai_def
      TERMINAL_STATUSES_def)

definition restart_crash :: "orch_event list" where
  "restart_crash = take 3 restart_log"

definition restart_ledger :: jobj where
  "restart_ledger = durable [] restart_crash"

definition restart_retry :: "orch_event list" where
  "restart_retry = run_log restart_services restart_config restart_decision restart_evaluation False restart_ledger"

lemma restart_crash_dispatches: "dispatches restart_key restart_crash = 1"
  by code_simp

lemma restart_history: "crash_history True restart_key [] (durable restart_ledger restart_retry) (restart_crash @ restart_retry)"
proof -
  have "crash_history True restart_key [] restart_ledger ([] @ restart_crash)"
    unfolding restart_ledger_def
    by (rule history_run [OF history_start restart_guarded]) (unfold restart_crash_def restart_log_def, rule take_is_prefix)
  then show ?thesis
    using history_run [OF _ restart_guarded prefix_order.refl] unfolding restart_retry_def by fastforce
qed


text \<open>An adapter that reports another status leaves the attempt open: the next execution dispatches again.\<close>

definition odd_services :: orch_services where
  "odd_services = restart_services\<lparr>s_execute_decision :=
     (\<lambda>_ _ _. Inr \<lparr>cr_status = ''partial'', cr_refs = [], cr_failure = None, cr_retryable = False\<rparr>)\<rparr>"

definition odd_log :: "jobj \<Rightarrow> orch_event list" where
  "odd_log p = run_log odd_services restart_config restart_decision restart_evaluation False p"

lemma odd_status_dispatches_again:
  "dispatches restart_key (odd_log [] @ odd_log (durable [] (odd_log []))) = 2"
  "reopenings restart_key [] (odd_log [] @ odd_log (durable [] (odd_log []))) = 2"
  by code_simp+

theorem orchestrator_dispatch_authorized_witness:
  "authorized_dispatch restart_services restart_decision restart_evaluation None"
  using orchestrator_dispatch_authorized [OF restart_dispatch [unfolded restart_log_def]] .

definition restart_attempt :: jobj where
  "restart_attempt = (case attempt_get restart_key restart_ledger of Some a \<Rightarrow> a | None \<Rightarrow> [])"

lemma restart_ledger_closed:
  "attempt_get restart_key restart_ledger = Some restart_attempt" "closed_attempt restart_key restart_ledger"
  "dispatched_without_outcome (Some restart_attempt)"
  by code_simp+


end
