(* ===== verification/Trust_Ladder.thy ===== *)
theory Trust_Ladder
  imports Py_Env
begin

text \<open>
  \<open>shared/mesh_runtime/trust_ladder.py\<close>: the learned autonomy level of an action class on a
  service. The state is the dictionary of \<open>trust_ladder.json\<close>; an entry counts runs,
  successes and consecutive failures, and its level is computed from them.
\<close>

section \<open>Levels and entries\<close>

definition TRUST_LEVELS :: "string list" where
  "TRUST_LEVELS = [''suggest'', ''draft'', ''approve'', ''auto'']"

definition LEVEL_ORDER :: "(string \<times> int) list" where
  "LEVEL_ORDER = [(''suggest'', 0), (''draft'', 1), (''approve'', 2), (''auto'', 3)]"

definition RATIONALE_FIELDS :: "string list" where
  "RATIONALE_FIELDS = [''next_level'', ''autonomy_ceiling_reason'', ''promotion_blockers'', ''promotion_requirements'']"

record trust_config =
  min_draft_runs :: int
  min_approve_runs :: int
  min_auto_runs :: int
  draft_success_rate :: rat
  approve_success_rate :: rat
  auto_success_rate :: rat

definition entry_key :: "string \<Rightarrow> string \<Rightarrow> string" where
  "entry_key action_class service = action_class @ ''::'' @ service"

definition default_entry :: "string \<Rightarrow> string \<Rightarrow> jobj" where
  "default_entry action_class service =
     [(''action_class'', JStr action_class), (''service'', JStr service), (''level'', JStr ''suggest''),
      (''previous_level'', JStr ''suggest''), (''total_runs'', JInt 0), (''successful_runs'', JInt 0), (''success_rate'', JFloat 0),
      (''consecutive_failures'', JInt 0), (''promotion_count'', JInt 0), (''demotion_count'', JInt 0), (''override_count'', JInt 0),
      (''last_outcome'', JNull), (''last_outcome_at'', JNull), (''last_level_change_at'', JNull)]"

definition persisted_entry :: "jobj \<Rightarrow> jobj" where
  "persisted_entry entry = pwithout entry RATIONALE_FIELDS"

text \<open>\<open>_LEVEL_ORDER.get(level, 0)\<close>; a list or a dictionary has no hash.\<close>

definition level_index :: "jval \<Rightarrow> py_exn + int" where
  "level_index v = (case v of
      JStr s \<Rightarrow> Inr (case map_of LEVEL_ORDER s of Some i \<Rightarrow> i | None \<Rightarrow> 0)
    | JList _ \<Rightarrow> Inl (TypeError ''unhashable type: list'')
    | JObj _ \<Rightarrow> Inl (TypeError ''unhashable type: dict'')
    | _ \<Rightarrow> Inr 0)"

definition next_level_of :: "string \<Rightarrow> string option" where
  "next_level_of level =
     (let idx = (case map_of LEVEL_ORDER level of Some i \<Rightarrow> i | None \<Rightarrow> 0) in
      if 3 \<le> idx then None else Some (TRUST_LEVELS ! nat (idx + 1)))"

section \<open>The level of an entry\<close>

text \<open>A comparison \<open>a >= b\<close> with a number on the right.\<close>

definition num_ge :: "jval \<Rightarrow> rat \<Rightarrow> py_exn + bool" where
  "num_ge v r = (case num_of v of Some x \<Rightarrow> Inr (r \<le> x) | None \<Rightarrow> Inl (TypeError ''>= not supported''))"

definition both :: "py_exn + bool \<Rightarrow> py_exn + bool \<Rightarrow> py_exn + bool" where
  "both a b = ebind a (\<lambda>x. if x then b else Inr False)"

definition compute_level :: "trust_config \<Rightarrow> jobj \<Rightarrow> py_exn + string" where
  "compute_level cfg entry =
     ebind (num_ge (pget_or entry ''consecutive_failures'' (JInt 0)) 2) (\<lambda>failing.
     if failing then
       ebind (level_index (pget_or entry ''level'' (JStr ''suggest''))) (\<lambda>i.
       Inr (TRUST_LEVELS ! nat (max 0 (i - 1))))
     else
       let total = pget_or entry ''total_runs'' (JInt 0); rate = pget_or entry ''success_rate'' (JFloat 0) in
       ebind (both (num_ge total (of_int (min_auto_runs cfg))) (num_ge rate (auto_success_rate cfg))) (\<lambda>a.
       if a then Inr ''auto'' else
       ebind (both (num_ge total (of_int (min_approve_runs cfg))) (num_ge rate (approve_success_rate cfg))) (\<lambda>b.
       if b then Inr ''approve'' else
       ebind (both (num_ge total (of_int (min_draft_runs cfg))) (num_ge rate (draft_success_rate cfg))) (\<lambda>c.
       Inr (if c then ''draft'' else ''suggest'')))))"

definition requirements_for :: "trust_config \<Rightarrow> string option \<Rightarrow> int \<times> rat" where
  "requirements_for cfg level =
     (if level = Some ''draft'' then (min_draft_runs cfg, draft_success_rate cfg)
      else if level = Some ''approve'' then (min_approve_runs cfg, approve_success_rate cfg)
      else if level = Some ''auto'' then (min_auto_runs cfg, auto_success_rate cfg)
      else (0, 0))"

text \<open>\<open>f"{x:.0%}"\<close>\<close>

definition percent :: "rat \<Rightarrow> string" where
  "percent x = int_str (round_he (fl (x * 100))) @ ''%''"

definition promotion_blockers :: "trust_config \<Rightarrow> jobj \<Rightarrow> string option \<Rightarrow> int \<Rightarrow> rat \<Rightarrow> int \<Rightarrow> string list" where
  "promotion_blockers cfg entry next_lvl total_runs success_rate consecutive_failures =
     (case next_lvl of
        None \<Rightarrow> []
      | Some nl \<Rightarrow>
          (let (required_runs, required_rate) = requirements_for cfg next_lvl in
           (if total_runs < required_runs
            then [int_str (required_runs - total_runs) @ '' more successful or reviewed runs before '' @ nl] else [])
         @ (if success_rate < required_rate
            then [''success rate '' @ percent success_rate @ '' below '' @ percent required_rate @ '' for '' @ nl] else [])
         @ (if 0 < consecutive_failures
            then [int_str consecutive_failures @ '' recent failure(s) must be cleared by successful feedback''] else [])))
     @ (if truthy (pget entry ''manual_override_reason'')
        then [''manual override: '' @ py_str (pget entry ''manual_override_reason'')] else [])"

definition ceiling_reason :: "string \<Rightarrow> string option \<Rightarrow> string list \<Rightarrow> string" where
  "ceiling_reason current next_lvl blockers =
     (if current = ''auto'' then ''auto ceiling reached; production authority still requires policy, allowlist, evaluation, approval-mode, and rollback gates''
      else if blockers \<noteq> [] then join_str ''; '' blockers
      else case next_lvl of
          Some nl \<Rightarrow> ''eligible for '' @ nl @ '' after the next successful feedback update''
        | None \<Rightarrow> ''no higher autonomy level is defined'')"

definition annotate_entry :: "(string \<Rightarrow> py_exn + rat) \<Rightarrow> trust_config \<Rightarrow> jobj \<Rightarrow> py_exn + jobj" where
  "annotate_entry float_text cfg entry =
     (let current = py_str (por (pget entry ''level'') (JStr ''suggest''));
          next_lvl = next_level_of current;
          (required_runs, required_rate) = requirements_for cfg next_lvl;
          requirements = JObj [(''min_runs'', JInt required_runs), (''min_success_rate'', JFloat required_rate)] in
      ebind (py_int (por (pget entry ''total_runs'') (JInt 0))) (\<lambda>total.
      ebind (py_float float_text (por (pget entry ''success_rate'') (JFloat 0))) (\<lambda>rate.
      ebind (py_int (por (pget entry ''consecutive_failures'') (JInt 0))) (\<lambda>failures.
      let blockers = promotion_blockers cfg entry next_lvl total rate failures in
      Inr (pset (pset (pset (pset entry ''next_level'' (case next_lvl of Some s \<Rightarrow> JStr s | None \<Rightarrow> JNull))
             ''promotion_requirements'' requirements)
             ''promotion_blockers'' (JList (map JStr blockers)))
             ''autonomy_ceiling_reason'' (JStr (ceiling_reason current next_lvl blockers)))))))"

section \<open>The store\<close>

definition stored_entry :: "string \<Rightarrow> jobj \<Rightarrow> py_exn + jval" where
  "stored_entry key payload =
     ebind (as_obj (pget_or payload ''ladder'' (JObj []))) (\<lambda>ladder. Inr (pget ladder key))"

definition get_level :: "string \<Rightarrow> string \<Rightarrow> jobj \<Rightarrow> py_exn + jval" where
  "get_level action_class service payload =
     ebind (stored_entry (entry_key action_class service) payload) (\<lambda>entry.
     if truthy entry then ebind (as_obj entry) (\<lambda>d. pidx d ''level'') else Inr (JStr ''suggest''))"

definition get_entry ::
  "(string \<Rightarrow> py_exn + rat) \<Rightarrow> trust_config \<Rightarrow> string \<Rightarrow> string \<Rightarrow> jobj \<Rightarrow> py_exn + jobj" where
  "get_entry float_text cfg action_class service payload =
     ebind (stored_entry (entry_key action_class service) payload) (\<lambda>entry.
     ebind (as_obj (por entry (JObj (default_entry action_class service)))) (annotate_entry float_text cfg))"

text \<open>\<open>entry[key] = int(entry.get(key, 0)) + 1\<close>\<close>

definition bump :: "jobj \<Rightarrow> string \<Rightarrow> py_exn + jobj" where
  "bump entry key = ebind (py_int (pget_or entry key (JInt 0))) (\<lambda>n. Inr (pset entry key (JInt (n + 1))))"

definition count_outcome :: "string \<Rightarrow> jobj \<Rightarrow> py_exn + jobj" where
  "count_outcome outcome entry =
     ebind (bump entry ''total_runs'') (\<lambda>e1.
     if outcome = ''successful''
     then ebind (bump e1 ''successful_runs'') (\<lambda>e2. Inr (pset e2 ''consecutive_failures'' (JInt 0)))
     else bump e1 ''consecutive_failures'')"

definition success_rate_of :: "jobj \<Rightarrow> py_exn + rat" where
  "success_rate_of entry =
     ebind (pidx entry ''total_runs'') (\<lambda>t.
     ebind (pidx entry ''successful_runs'') (\<lambda>s.
     case (num_of t, num_of s) of
       (Some runs, Some successful) \<Rightarrow> Inr (py_round 3 (if 0 < runs then fl (successful / runs) else 0))
     | _ \<Rightarrow> Inl (TypeError ''unsupported operand type(s) for /'')))"

definition apply_level :: "string \<Rightarrow> jobj \<Rightarrow> string \<Rightarrow> py_exn + jobj" where
  "apply_level now entry new_level =
     ebind (pidx entry ''level'') (\<lambda>old.
     if py_eq (JStr new_level) old then Inr entry
     else
       let e1 = pset (pset entry ''level'' (JStr new_level)) ''last_level_change_at'' (JStr now) in
       ebind (level_index (JStr new_level)) (\<lambda>new_idx.
       ebind (level_index (pget_or e1 ''previous_level'' (JStr ''suggest''))) (\<lambda>prev_idx.
       ebind (bump e1 (if prev_idx < new_idx then ''promotion_count'' else ''demotion_count'')) (\<lambda>e2.
       Inr (pset e2 ''previous_level'' (JStr new_level))))))"

definition put_entry :: "jobj \<Rightarrow> jobj \<Rightarrow> string \<Rightarrow> jobj \<Rightarrow> jobj" where
  "put_entry payload ladder key entry = pset payload ''ladder'' (JObj (pset ladder key (JObj (persisted_entry entry))))"

definition outcome_entry :: "trust_config \<Rightarrow> string \<Rightarrow> string \<Rightarrow> bool \<Rightarrow> jobj \<Rightarrow> py_exn + jobj" where
  "outcome_entry cfg now outcome override entry =
     (if override then bump (pset entry ''last_override_at'' (JStr now)) ''override_count''
      else
        ebind (count_outcome outcome entry) (\<lambda>e1.
        let e2 = pset (pset e1 ''last_outcome'' (JStr outcome)) ''last_outcome_at'' (JStr now) in
        ebind (success_rate_of e2) (\<lambda>rate.
        let e3 = pset e2 ''success_rate'' (JFloat rate) in
        ebind (compute_level cfg e3) (apply_level now e3))))"

definition record_outcome ::
  "(string \<Rightarrow> py_exn + rat) \<Rightarrow> trust_config \<Rightarrow> string \<Rightarrow> string \<Rightarrow> string \<Rightarrow> string \<Rightarrow> bool \<Rightarrow> jobj \<Rightarrow> py_exn + (jobj \<times> jobj)" where
  "record_outcome float_text cfg now action_class service outcome override payload =
     (let key = entry_key action_class service in
      ebind (as_obj (pget (setdefault payload ''ladder'' (JObj [])) ''ladder'')) (\<lambda>ladder.
      ebind (as_obj (por (pget ladder key) (JObj (default_entry action_class service)))) (\<lambda>entry.
      ebind (outcome_entry cfg now outcome override entry) (\<lambda>e.
      ebind (annotate_entry float_text cfg e) (\<lambda>annotated.
      Inr (annotated, put_entry payload ladder key e))))))"

definition override_level ::
  "(string \<Rightarrow> py_exn + rat) \<Rightarrow> trust_config \<Rightarrow> string \<Rightarrow> string \<Rightarrow> string \<Rightarrow> string \<Rightarrow> string \<Rightarrow> jobj \<Rightarrow> py_exn + (jobj \<times> jobj)" where
  "override_level float_text cfg now action_class service level reason payload =
     (if level \<notin> set TRUST_LEVELS then Inl (ValueError (''unknown trust level: '' @ str_repr level))
      else let key = entry_key action_class service in
      ebind (as_obj (pget (setdefault payload ''ladder'' (JObj [])) ''ladder'')) (\<lambda>ladder.
      ebind (as_obj (por (pget ladder key) (JObj (default_entry action_class service)))) (\<lambda>entry.
      let e = pset (pset (pset entry ''level'' (JStr level)) ''last_level_change_at'' (JStr now)) ''manual_override_reason'' (JStr reason) in
      ebind (annotate_entry float_text cfg e) (\<lambda>annotated.
      Inr (annotated, put_entry payload ladder key e)))))"

definition list_entries :: "(string \<Rightarrow> py_exn + rat) \<Rightarrow> trust_config \<Rightarrow> jobj \<Rightarrow> py_exn + jobj list" where
  "list_entries float_text cfg payload =
     ebind (as_obj (pget_or payload ''ladder'' (JObj []))) (\<lambda>ladder.
     foldr (\<lambda>(k, v) acc. ebind (as_obj v) (\<lambda>d. ebind (annotate_entry float_text cfg d) (\<lambda>a. ebind acc (\<lambda>rest. Inr (a # rest)))))
       ladder (Inr []))"

section \<open>Well-formed ladders\<close>

lemma pget_or_pget: "pget e k \<noteq> JNull \<Longrightarrow> pget_or e k v = pget e k"
  by (auto simp: pget_or_def pget_def split: option.splits)

lemma pidx_pget: "pget e k \<noteq> JNull \<Longrightarrow> pidx e k = Inr (pget e k)"
  by (auto simp: pidx_def pget_def split: option.splits)

definition rate_of_counts :: "int \<Rightarrow> int \<Rightarrow> rat" where
  "rate_of_counts t s = py_round 3 (if 0 < t then fl (of_int s / of_int t) else 0)"

text \<open>The counters of an entry: total runs, successes, consecutive failures, level, previous
  level, promotions, demotions and overrides.\<close>

definition entry_counts :: "jobj \<Rightarrow> int \<Rightarrow> int \<Rightarrow> int \<Rightarrow> string \<Rightarrow> bool" where
  "entry_counts e t s c l \<longleftrightarrow>
     pget e ''total_runs'' = JInt t \<and> pget e ''successful_runs'' = JInt s \<and> pget e ''consecutive_failures'' = JInt c
   \<and> pget e ''success_rate'' = JFloat (rate_of_counts t s) \<and> pget e ''level'' = JStr l
   \<and> (\<exists>p. pget e ''previous_level'' = JStr p)
   \<and> (\<forall>k \<in> {''promotion_count'', ''demotion_count'', ''override_count''}. \<exists>n. pget e k = JInt n)"

definition wf_entry :: "jobj \<Rightarrow> bool" where
  "wf_entry e \<longleftrightarrow> (\<exists>t s c l. entry_counts e t s c l \<and> l \<in> set TRUST_LEVELS \<and> 0 \<le> s \<and> 0 \<le> c \<and> s + c \<le> t)"

definition entry_of :: "string \<Rightarrow> jobj \<Rightarrow> jobj option" where
  "entry_of key payload = (case pget_or payload ''ladder'' (JObj []) of
      JObj ladder \<Rightarrow> (case pget ladder key of JObj e \<Rightarrow> Some e | _ \<Rightarrow> None)
    | _ \<Rightarrow> None)"

definition wf_ladder :: "jobj \<Rightarrow> bool" where
  "wf_ladder payload \<longleftrightarrow>
     (\<exists>ladder. pget_or payload ''ladder'' (JObj []) = JObj ladder
        \<and> (\<forall>key. pget ladder key = JNull \<or> (\<exists>e. pget ladder key = JObj e \<and> wf_entry e)))"

definition stats_level :: "trust_config \<Rightarrow> int \<Rightarrow> rat \<Rightarrow> string" where
  "stats_level cfg t r =
     (if min_auto_runs cfg \<le> t \<and> auto_success_rate cfg \<le> r then ''auto''
      else if min_approve_runs cfg \<le> t \<and> approve_success_rate cfg \<le> r then ''approve''
      else if min_draft_runs cfg \<le> t \<and> draft_success_rate cfg \<le> r then ''draft''
      else ''suggest'')"

definition demoted :: "string \<Rightarrow> string" where
  "demoted l = (if l = ''auto'' then ''approve'' else if l = ''approve'' then ''draft'' else ''suggest'')"

definition level_after :: "trust_config \<Rightarrow> int \<Rightarrow> int \<Rightarrow> int \<Rightarrow> string \<Rightarrow> string" where
  "level_after cfg t s c l = (if 2 \<le> c then demoted l else stats_level cfg t (rate_of_counts t s))"

lemma level_after_known: "level_after cfg t s c l \<in> set TRUST_LEVELS"
  by (simp add: level_after_def demoted_def stats_level_def TRUST_LEVELS_def)

lemma compute_level_counts:
  assumes "pget e ''total_runs'' = JInt t" "pget e ''consecutive_failures'' = JInt c" "pget e ''level'' = JStr l"
    "pget e ''success_rate'' = JFloat (rate_of_counts t s)" "l \<in> set TRUST_LEVELS"
  shows "compute_level cfg e = Inr (level_after cfg t s c l)"
  using assms(5)
  by (auto simp: compute_level_def num_ge_def both_def pget_or_pget assms(1-4) level_after_def stats_level_def Let_def
      level_index_def demoted_def TRUST_LEVELS_def LEVEL_ORDER_def)

lemma default_counts: "entry_counts (default_entry a sv) 0 0 0 ''suggest''"
  by (auto simp: entry_counts_def default_entry_def rate_of_counts_def py_round_def round_he_def)

lemma persisted_pget: "k \<notin> set RATIONALE_FIELDS \<Longrightarrow> pget (persisted_entry e) k = pget e k"
proof -
  assume "k \<notin> set RATIONALE_FIELDS"
  then have "map_of (filter (\<lambda>(k, v). k \<notin> set RATIONALE_FIELDS) e) k = map_of e k" by (induction e) auto
  then show ?thesis by (simp add: persisted_entry_def pwithout_def pget_def)
qed

lemma persisted_counts: "entry_counts (persisted_entry e) t s c l \<longleftrightarrow> entry_counts e t s c l"
  by (simp add: entry_counts_def persisted_pget RATIONALE_FIELDS_def)

lemma annotate_total:
  assumes "entry_counts e t s c l"
  shows "\<exists>a. annotate_entry ft cfg e = Inr a \<and> entry_counts a t s c l"
proof -
  have "pget e ''total_runs'' = JInt t" "pget e ''consecutive_failures'' = JInt c" "pget e ''success_rate'' = JFloat (rate_of_counts t s)"
    using assms by (simp_all add: entry_counts_def)
  then have "\<exists>n r f. py_int (por (pget e ''total_runs'') (JInt 0)) = Inr n
      \<and> py_float ft (por (pget e ''success_rate'') (JFloat 0)) = Inr r
      \<and> py_int (por (pget e ''consecutive_failures'') (JInt 0)) = Inr f"
    by (auto simp: por_def)
  then obtain a where "annotate_entry ft cfg e = Inr a"
    and "\<And>k. k \<notin> set RATIONALE_FIELDS \<Longrightarrow> pget a k = pget e k"
    unfolding annotate_entry_def Let_def
    by (cases "requirements_for cfg (next_level_of (py_str (por (pget e ''level'') (JStr ''suggest''))))")
       (auto simp: RATIONALE_FIELDS_def pget_pset)
  then show ?thesis using assms by (auto simp: entry_counts_def RATIONALE_FIELDS_def)
qed

lemma count_outcome_counts:
  assumes "entry_counts e t s c l"
  shows "\<exists>e1. count_outcome outcome e = Inr e1
    \<and> pget e1 ''total_runs'' = JInt (t + 1)
    \<and> pget e1 ''successful_runs'' = JInt (if outcome = ''successful'' then s + 1 else s)
    \<and> pget e1 ''consecutive_failures'' = JInt (if outcome = ''successful'' then 0 else c + 1)
    \<and> (\<forall>k. k \<notin> {''total_runs'', ''successful_runs'', ''consecutive_failures''} \<longrightarrow> pget e1 k = pget e k)"
proof -
  have "pget e ''total_runs'' = JInt t" "pget e ''consecutive_failures'' = JInt c" "pget e ''successful_runs'' = JInt s"
    using assms by (simp_all add: entry_counts_def)
  then show ?thesis by (simp add: count_outcome_def bump_def pget_or_pget pget_pset)
qed

lemma apply_level_counts:
  assumes "pget e ''level'' = JStr l" "pget e ''previous_level'' = JStr p"
    "\<forall>k \<in> {''promotion_count'', ''demotion_count''}. \<exists>n. pget e k = JInt n"
  shows "\<exists>e'. apply_level now e nl = Inr e' \<and> pget e' ''level'' = JStr nl
    \<and> (\<exists>p. pget e' ''previous_level'' = JStr p) \<and> (\<forall>k \<in> {''promotion_count'', ''demotion_count''}. \<exists>n. pget e' k = JInt n)
    \<and> (\<forall>k. k \<notin> {''level'', ''previous_level'', ''last_level_change_at'', ''promotion_count'', ''demotion_count''} \<longrightarrow> pget e' k = pget e k)"
proof (cases "l = nl")
  case True
  then show ?thesis using assms by (auto simp: apply_level_def pidx_pget)
next
  case False
  let ?e1 = "pset (pset e ''level'' (JStr nl)) ''last_level_change_at'' (JStr now)"
  obtain i j where ij: "level_index (JStr nl) = Inr i" "level_index (pget_or ?e1 ''previous_level'' (JStr ''suggest'')) = Inr j"
    using assms(2) by (simp add: level_index_def pget_or_pget pget_pset)
  obtain n m where "pget e ''promotion_count'' = JInt n" "pget e ''demotion_count'' = JInt m" using assms(3) by auto
  then show ?thesis using False assms(1) ij
    by (simp add: apply_level_def pidx_pget Let_def bump_def pget_or_pget pget_pset)
qed

lemma outcome_entry_counts:
  assumes e: "entry_counts e t s c l" and l: "l \<in> set TRUST_LEVELS"
  shows "\<exists>e'. outcome_entry cfg now outcome False e = Inr e'
    \<and> (let s' = (if outcome = ''successful'' then s + 1 else s); c' = (if outcome = ''successful'' then 0 else c + 1) in
       entry_counts e' (t + 1) s' c' (level_after cfg (t + 1) s' c' l))"
proof -
  let ?s = "if outcome = ''successful'' then s + 1 else s" and ?c = "if outcome = ''successful'' then 0 else c + 1"
  obtain e1 where e1: "count_outcome outcome e = Inr e1" "pget e1 ''total_runs'' = JInt (t + 1)"
      "pget e1 ''successful_runs'' = JInt ?s" "pget e1 ''consecutive_failures'' = JInt ?c"
      "\<And>k. k \<notin> {''total_runs'', ''successful_runs'', ''consecutive_failures''} \<Longrightarrow> pget e1 k = pget e k"
    using count_outcome_counts [OF e] by blast
  let ?e2 = "pset (pset e1 ''last_outcome'' (JStr outcome)) ''last_outcome_at'' (JStr now)"
  let ?e3 = "pset ?e2 ''success_rate'' (JFloat (rate_of_counts (t + 1) ?s))"
  have rate: "success_rate_of ?e2 = Inr (rate_of_counts (t + 1) ?s)"
    using e1(2,3) by (simp add: success_rate_of_def pidx_pget pget_pset rate_of_counts_def del: of_int_add)
  have lv: "pget ?e3 ''level'' = JStr l" using e e1(5) by (simp add: pget_pset entry_counts_def)
  have level: "compute_level cfg ?e3 = Inr (level_after cfg (t + 1) ?s ?c l)"
    by (rule compute_level_counts [OF _ _ lv _ l]) (use e1(2,4) in \<open>simp_all add: pget_pset\<close>)
  obtain p where p: "pget ?e3 ''previous_level'' = JStr p" using e e1(5) by (auto simp: pget_pset entry_counts_def)
  have "\<forall>k \<in> {''promotion_count'', ''demotion_count''}. \<exists>n. pget ?e3 k = JInt n"
    using e e1(5) by (auto simp: pget_pset entry_counts_def)
  from apply_level_counts [OF lv p this] obtain e' where e': "apply_level now ?e3 (level_after cfg (t + 1) ?s ?c l) = Inr e'"
      "pget e' ''level'' = JStr (level_after cfg (t + 1) ?s ?c l)" "\<exists>p. pget e' ''previous_level'' = JStr p"
      "\<forall>k \<in> {''promotion_count'', ''demotion_count''}. \<exists>n. pget e' k = JInt n"
      "\<And>k. k \<notin> {''level'', ''previous_level'', ''last_level_change_at'', ''promotion_count'', ''demotion_count''} \<Longrightarrow> pget e' k = pget ?e3 k"
    by metis
  have "outcome_entry cfg now outcome False e = Inr e'"
    using e1(1) rate level e'(1) by (simp add: outcome_entry_def Let_def)
  moreover have "entry_counts e' (t + 1) ?s ?c (level_after cfg (t + 1) ?s ?c l)"
    using e'(2-) e1(2-) e unfolding entry_counts_def by (auto simp: pget_pset)
  ultimately show ?thesis by (auto simp: Let_def)
qed

lemma override_entry_counts:
  assumes "entry_counts e t s c l"
  shows "\<exists>e'. outcome_entry cfg now outcome True e = Inr e' \<and> entry_counts e' t s c l"
proof -
  obtain n where "pget e ''override_count'' = JInt n" using assms by (auto simp: entry_counts_def)
  then show ?thesis using assms by (auto simp: outcome_entry_def bump_def pget_or_pget pget_pset entry_counts_def)
qed

section \<open>The store keeps ladders well formed\<close>

definition current_entry :: "string \<Rightarrow> string \<Rightarrow> jobj \<Rightarrow> jobj" where
  "current_entry a sv payload = (case entry_of (entry_key a sv) payload of Some e \<Rightarrow> e | None \<Rightarrow> default_entry a sv)"

lemma wf_default: "wf_entry (default_entry a sv)"
  using default_counts [of a sv] unfolding wf_entry_def by (force simp: TRUST_LEVELS_def)

lemma setdefault_pget_or: "pget (setdefault p k v) k = pget_or p k v"
  by (auto simp: setdefault_def pget_or_def pget_pset pget_def phas_def split: option.splits)

lemma wf_ladder_read:
  assumes "wf_ladder p"
  obtains ladder where "pget_or p ''ladder'' (JObj []) = JObj ladder"
    "as_obj (por (pget ladder (entry_key a sv)) (JObj (default_entry a sv))) = Inr (current_entry a sv p)"
    "wf_entry (current_entry a sv p)"
proof -
  obtain ladder where l: "pget_or p ''ladder'' (JObj []) = JObj ladder"
      "\<forall>key. pget ladder key = JNull \<or> (\<exists>e. pget ladder key = JObj e \<and> wf_entry e)"
    using assms unfolding wf_ladder_def by blast
  have "as_obj (por (pget ladder (entry_key a sv)) (JObj (default_entry a sv))) = Inr (current_entry a sv p)
      \<and> wf_entry (current_entry a sv p)"
  proof (cases "pget ladder (entry_key a sv) = JNull")
    case True
    then show ?thesis using l(1) by (simp add: por_def current_entry_def entry_of_def wf_default)
  next
    case False
    then obtain e where e: "pget ladder (entry_key a sv) = JObj e" "wf_entry e" using l(2) by blast
    then have "e \<noteq> []" by (auto simp: wf_entry_def entry_counts_def pget_def)
    then show ?thesis using e l(1) by (simp add: por_def current_entry_def entry_of_def)
  qed
  then show ?thesis using l(1) that by blast
qed

lemma entry_of_put:
  assumes "pget_or p ''ladder'' (JObj []) = JObj ladder"
  shows "entry_of k (put_entry p ladder key e) = (if k = key then Some (persisted_entry e) else entry_of k p)"
  using assms by (simp add: entry_of_def put_entry_def pget_or_pget pget_pset)

lemma wf_put:
  assumes "wf_ladder p" "pget_or p ''ladder'' (JObj []) = JObj ladder" "wf_entry e"
  shows "wf_ladder (put_entry p ladder key e)"
proof -
  have "wf_entry (persisted_entry e)" using assms(3) by (simp add: wf_entry_def persisted_counts)
  then show ?thesis using assms(1,2) by (simp add: wf_ladder_def put_entry_def pget_or_pget pget_pset)
qed

lemma outcome_entry_wf:
  assumes "wf_entry e"
  shows "\<exists>e'. outcome_entry cfg now outcome ov e = Inr e' \<and> wf_entry e'"
proof -
  obtain t s c l where c: "entry_counts e t s c l" "l \<in> set TRUST_LEVELS" "0 \<le> s" "0 \<le> c" "s + c \<le> t"
    using assms unfolding wf_entry_def by blast
  show ?thesis
  proof (cases ov)
    case True
    obtain e' where "outcome_entry cfg now outcome True e = Inr e'" "entry_counts e' t s c l"
      using override_entry_counts [OF c(1)] by blast
    moreover have "ov = True" using True by simp
    ultimately show ?thesis using c(2-) unfolding wf_entry_def by blast
  next
    case False
    obtain e' where "outcome_entry cfg now outcome False e = Inr e'"
        "entry_counts e' (t + 1) (if outcome = ''successful'' then s + 1 else s) (if outcome = ''successful'' then 0 else c + 1)
          (level_after cfg (t + 1) (if outcome = ''successful'' then s + 1 else s) (if outcome = ''successful'' then 0 else c + 1) l)"
      using outcome_entry_counts [OF c(1,2)] unfolding Let_def by blast
    moreover have "0 \<le> (if outcome = ''successful'' then s + 1 else s)" "0 \<le> (if outcome = ''successful'' then 0 else c + 1)"
        "(if outcome = ''successful'' then s + 1 else s) + (if outcome = ''successful'' then 0 else c + 1) \<le> t + 1"
      using c(3-) by auto
    moreover have "ov = False" using False by simp
    ultimately show ?thesis using level_after_known unfolding wf_entry_def by blast
  qed
qed

lemma record_outcome_run:
  assumes "wf_ladder p"
  shows "\<exists>r e p'. record_outcome ft cfg now a sv outcome ov p = Inr (r, p')
    \<and> outcome_entry cfg now outcome ov (current_entry a sv p) = Inr e \<and> wf_ladder p'
    \<and> entry_of (entry_key a sv) p' = Some (persisted_entry e)
    \<and> (\<forall>k. k \<noteq> entry_key a sv \<longrightarrow> entry_of k p' = entry_of k p)"
proof -
  obtain ladder where l: "pget_or p ''ladder'' (JObj []) = JObj ladder"
      "as_obj (por (pget ladder (entry_key a sv)) (JObj (default_entry a sv))) = Inr (current_entry a sv p)"
      "wf_entry (current_entry a sv p)"
    using wf_ladder_read [OF assms] by blast
  obtain e where e: "outcome_entry cfg now outcome ov (current_entry a sv p) = Inr e" "wf_entry e"
    using outcome_entry_wf [OF l(3)] by blast
  obtain r where "annotate_entry ft cfg e = Inr r" using annotate_total e(2) unfolding wf_entry_def by blast
  then have "record_outcome ft cfg now a sv outcome ov p = Inr (r, put_entry p ladder (entry_key a sv) e)"
    using l e(1) by (simp add: record_outcome_def Let_def setdefault_pget_or)
  moreover have "entry_of k (put_entry p ladder (entry_key a sv) e) = (if k = entry_key a sv then Some (persisted_entry e) else entry_of k p)" for k
    by (rule entry_of_put [OF l(1)])
  ultimately show ?thesis using e(1) wf_put [OF assms l(1) e(2)] by auto
qed

lemma override_level_run:
  assumes "wf_ladder p" "level \<in> set TRUST_LEVELS"
  shows "\<exists>r p'. override_level ft cfg now a sv level reason p = Inr (r, p') \<and> wf_ladder p'"
proof -
  obtain ladder where l: "pget_or p ''ladder'' (JObj []) = JObj ladder"
      "as_obj (por (pget ladder (entry_key a sv)) (JObj (default_entry a sv))) = Inr (current_entry a sv p)"
      "wf_entry (current_entry a sv p)"
    using wf_ladder_read [OF assms(1)] by blast
  let ?e = "pset (pset (pset (current_entry a sv p) ''level'' (JStr level)) ''last_level_change_at'' (JStr now))
    ''manual_override_reason'' (JStr reason)"
  obtain t s c lv where "entry_counts (current_entry a sv p) t s c lv" "0 \<le> s" "0 \<le> c" "s + c \<le> t" using l(3) unfolding wf_entry_def by blast
  then have e: "entry_counts ?e t s c level" "wf_entry ?e"
    using assms(2) by (auto simp: entry_counts_def pget_pset wf_entry_def)
  obtain r where "annotate_entry ft cfg ?e = Inr r" using annotate_total [OF e(1)] by blast
  then have "override_level ft cfg now a sv level reason p = Inr (r, put_entry p ladder (entry_key a sv) ?e)"
    using assms(2) l by (simp add: override_level_def Let_def setdefault_pget_or)
  then show ?thesis using wf_put [OF assms(1) l(1) e(2)] by blast
qed

inductive trust_step :: "(string \<Rightarrow> py_exn + rat) \<Rightarrow> trust_config \<Rightarrow> jobj \<Rightarrow> jobj \<Rightarrow> bool" for ft cfg where
  step_outcome: "record_outcome ft cfg now a sv outcome ov p = Inr (r, p') \<Longrightarrow> trust_step ft cfg p p'"
| step_override: "override_level ft cfg now a sv level reason p = Inr (r, p') \<Longrightarrow> trust_step ft cfg p p'"

lemma trust_step_wf: "trust_step ft cfg p p' \<Longrightarrow> wf_ladder p \<Longrightarrow> wf_ladder p'"
proof (induction rule: trust_step.induct)
  case (step_outcome now a sv outcome ov p r p')
  then show ?case using record_outcome_run [OF step_outcome.prems, of ft cfg now a sv outcome ov] by auto
next
  case (step_override now a sv level reason p r p')
  then have "level \<in> set TRUST_LEVELS" by (auto simp: override_level_def split: if_splits)
  then show ?case using override_level_run [OF step_override.prems, of level ft cfg now a sv reason] step_override.hyps by auto
qed

interpretation trust_ladder: invariant_system "\<lambda>p. p = []" "trust_step ft cfg" wf_ladder for ft cfg
  by unfold_locales (simp add: wf_ladder_def pget_or_def pget_def, rule trust_step_wf)

abbreviation trust_reach :: "(string \<Rightarrow> py_exn + rat) \<Rightarrow> trust_config \<Rightarrow> jobj \<Rightarrow> bool" where
  "trust_reach ft cfg \<equiv> reach (\<lambda>p. p = []) (trust_step ft cfg)"

section \<open>The properties\<close>

text \<open>C33: on every ladder the store can reach, an outcome is recorded without an error, the counters
  fit together (successes and the current run of failures within the total, the rate the rounded
  quotient, the level one of the four), and an override succeeds exactly for a known level.\<close>

theorem trust_ladder_sound:
  assumes "trust_reach ft cfg p"
  shows "(\<exists>r p'. record_outcome ft cfg now a sv outcome ov p = Inr (r, p'))
    \<and> (is_ok (override_level ft cfg now a sv level reason p) \<longleftrightarrow> level \<in> set TRUST_LEVELS)
    \<and> (entry_of key p = Some e \<longrightarrow>
        (\<exists>t s c l. entry_counts e t s c l \<and> l \<in> set TRUST_LEVELS \<and> 0 \<le> s \<and> 0 \<le> c \<and> s + c \<le> t))"
proof -
  have wf: "wf_ladder p" by (rule trust_ladder.reach_inv [OF assms])
  obtain ladder where l: "pget_or p ''ladder'' (JObj []) = JObj ladder"
      "\<forall>key. pget ladder key = JNull \<or> (\<exists>e. pget ladder key = JObj e \<and> wf_entry e)"
    using wf unfolding wf_ladder_def by blast
  have "entry_of key p = Some e \<longrightarrow> wf_entry e"
    using l(2) by (auto simp: entry_of_def l(1) split: jval.splits) (metis jval.distinct(11) jval.inject(6))
  moreover have "is_ok (override_level ft cfg now a sv level reason p) \<longleftrightarrow> level \<in> set TRUST_LEVELS"
    using override_level_run [OF wf, of level ft cfg now a sv reason]
    by (cases "level \<in> set TRUST_LEVELS") (auto simp: is_ok_iff, simp add: override_level_def)
  ultimately show ?thesis using record_outcome_run [OF wf, of ft cfg now a sv outcome ov] unfolding wf_entry_def by blast
qed

text \<open>The level after an outcome. Recording an outcome adds it to the counters; from two
  consecutive failures on the level drops by one, otherwise it is the one the totals earn: automatic
  execution needs the configured number of runs at the configured rate. Other entries do not change.\<close>

theorem trust_level_after_outcome:
  assumes "trust_reach ft cfg p" and "entry_counts (current_entry a sv p) t s c l"
    and "record_outcome ft cfg now a sv outcome False p = Inr (r, p')"
  shows "\<exists>s' c'. s' = (if outcome = ''successful'' then s + 1 else s) \<and> c' = (if outcome = ''successful'' then 0 else c + 1)
    \<and> entry_counts (current_entry a sv p') (t + 1) s' c' (if 2 \<le> c' then demoted l else stats_level cfg (t + 1) (rate_of_counts (t + 1) s'))
    \<and> (\<forall>k. k \<noteq> entry_key a sv \<longrightarrow> entry_of k p' = entry_of k p)"
proof -
  have wf: "wf_ladder p" by (rule trust_ladder.reach_inv [OF assms(1)])
  obtain e where e: "outcome_entry cfg now outcome False (current_entry a sv p) = Inr e"
      "entry_of (entry_key a sv) p' = Some (persisted_entry e)" "\<forall>k. k \<noteq> entry_key a sv \<longrightarrow> entry_of k p' = entry_of k p"
    using record_outcome_run [OF wf, of ft cfg now a sv outcome False] assms(3) by auto
  have "wf_entry (current_entry a sv p)" using wf_ladder_read [OF wf] by blast
  then have "l \<in> set TRUST_LEVELS" using assms(2) by (auto simp: wf_entry_def entry_counts_def)
  from outcome_entry_counts [OF assms(2) this, of cfg now outcome] show ?thesis
    using e by (auto simp: Let_def current_entry_def persisted_counts level_after_def)
qed

text \<open>The comment of \<open>override_level\<close> says that a forced level persists until the next promotion or
  demotion; the next recorded outcome computes the level from the totals alone.\<close>

definition sample_ladder_cfg :: trust_config where
  "sample_ladder_cfg = \<lparr>min_draft_runs = 3, min_approve_runs = 10, min_auto_runs = 30, draft_success_rate = 1 / 2,
     approve_success_rate = 7 / 10, auto_success_rate = 17 / 20\<rparr>"

definition no_text :: "string \<Rightarrow> py_exn + rat" where
  "no_text s = Inl (ValueError s)"

definition forced_ladder :: jobj where
  "forced_ladder = (case override_level no_text sample_ladder_cfg ''t0'' ''a'' ''s'' ''auto'' ''why'' [] of Inr (_, p) \<Rightarrow> p | Inl _ \<Rightarrow> [])"

definition after_success :: jobj where
  "after_success = (case record_outcome no_text sample_ladder_cfg ''t1'' ''a'' ''s'' ''successful'' False forced_ladder of
     Inr (_, p) \<Rightarrow> p | Inl _ \<Rightarrow> [])"

theorem trust_override_undone_by_success:
  "get_level ''a'' ''s'' forced_ladder = Inr (JStr ''auto'') \<and> get_level ''a'' ''s'' after_success = Inr (JStr ''suggest'')"
  by code_simp

lemma forced_reach: "trust_reach no_text sample_ladder_cfg forced_ladder"
proof -
  have "is_ok (override_level no_text sample_ladder_cfg ''t0'' ''a'' ''s'' ''auto'' ''why'' [])" by code_simp
  then obtain r where "override_level no_text sample_ladder_cfg ''t0'' ''a'' ''s'' ''auto'' ''why'' [] = Inr (r, forced_ladder)"
    by (auto simp: forced_ladder_def is_ok_iff)
  then have "trust_step no_text sample_ladder_cfg [] forced_ladder" by (rule step_override)
  then show ?thesis by (rule reach_step [where s = "[]", rotated]) (simp add: reach_init)
qed

theorem trust_ladder_sound_witness:
  "\<exists>r p'. record_outcome no_text sample_ladder_cfg ''t1'' ''a'' ''s'' ''failed'' False forced_ladder = Inr (r, p')"
  using trust_ladder_sound [OF forced_reach] by blast

theorem trust_level_after_outcome_witness:
  "\<exists>r p'. record_outcome no_text sample_ladder_cfg ''t1'' ''a'' ''s'' ''failed'' False forced_ladder = Inr (r, p')
    \<and> entry_counts (current_entry ''a'' ''s'' p') 1 0 1 ''suggest''"
proof -
  have c: "entry_counts (current_entry ''a'' ''s'' forced_ladder) 0 0 0 ''auto''"
  proof -
    let ?e = "current_entry ''a'' ''s'' forced_ladder"
    have "pget ?e ''total_runs'' = JInt 0" "pget ?e ''successful_runs'' = JInt 0" "pget ?e ''consecutive_failures'' = JInt 0"
      "pget ?e ''success_rate'' = JFloat 0" "rate_of_counts 0 0 = 0" "pget ?e ''level'' = JStr ''auto''"
      "pget ?e ''previous_level'' = JStr ''suggest''" "pget ?e ''promotion_count'' = JInt 0" "pget ?e ''demotion_count'' = JInt 0"
      "pget ?e ''override_count'' = JInt 0"
      by code_simp+
    then show ?thesis by (simp add: entry_counts_def)
  qed
  obtain r p' where run: "record_outcome no_text sample_ladder_cfg ''t1'' ''a'' ''s'' ''failed'' False forced_ladder = Inr (r, p')"
    using record_outcome_run [OF trust_ladder.reach_inv [OF forced_reach]] by blast
  have "stats_level sample_ladder_cfg (0 + 1) (rate_of_counts (0 + 1) 0) = ''suggest''" by code_simp
  then show ?thesis using trust_level_after_outcome [OF forced_reach c run] run by auto
qed

end
