(* ===== verification/Deferred_Runs.thy ===== *)
theory Deferred_Runs
  imports Py_Env
begin

text \<open>
  \<open>shared/mesh_runtime/deferred_runs.py\<close>: the queue of runs to start later. The state is the
  dictionary of \<open>deferred_runs.json\<close>; every method runs under its lock. The clock, its text and the
  random identifier are arguments.
\<close>

section \<open>Operations\<close>

definition deferred_record :: "string \<Rightarrow> string \<Rightarrow> string \<Rightarrow> string \<Rightarrow> jobj \<Rightarrow> jobj \<Rightarrow> jobj" where
  "deferred_record hex12 now source_run_id due_at signal_payload parameters =
     [(''defer_id'', JStr (''defer_'' @ hex12)), (''source_run_id'', JStr source_run_id), (''due_at'', JStr due_at),
      (''signal_payload'', JObj signal_payload), (''parameters'', JObj parameters), (''status'', JStr ''pending''),
      (''created_at'', JStr now), (''claimed_at'', JNull), (''child_run_id'', JNull)]"

definition deferred_list :: "jobj \<Rightarrow> py_exn + jval list" where
  "deferred_list payload = (case pget (setdefault payload ''deferred_runs'' (JList [])) ''deferred_runs'' of
      JList rs \<Rightarrow> Inr rs
    | _ \<Rightarrow> Inl (AttributeError ''append''))"

definition put_deferred :: "jobj \<Rightarrow> jval list \<Rightarrow> jobj" where
  "put_deferred payload rs = pset payload ''deferred_runs'' (JList rs)"

definition deferred_create ::
  "string \<Rightarrow> string \<Rightarrow> string \<Rightarrow> string \<Rightarrow> jobj \<Rightarrow> jobj \<Rightarrow> jobj \<Rightarrow> py_exn + (jobj \<times> jobj)" where
  "deferred_create hex12 now source_run_id due_at signal_payload parameters payload =
     ebind (deferred_list payload) (\<lambda>rs.
     let r = deferred_record hex12 now source_run_id due_at signal_payload parameters
     in Inr (r, put_deferred payload (rs @ [JObj r])))"

text \<open>\<open>datetime.fromisoformat(value.replace("Z", "+00:00"))\<close>; a time without an offset cannot be
  compared with the clock.\<close>

definition is_due :: "pyenv \<Rightarrow> int \<Rightarrow> jobj \<Rightarrow> py_exn + bool" where
  "is_due E now r = (case fromisoformat E (replace_all ''Z'' ''+00:00'' (py_str (pget r ''due_at''))) of
      None \<Rightarrow> Inr True
    | Some (Aware due_at) \<Rightarrow> Inr (due_at \<le> now)
    | Some (Naive _) \<Rightarrow> Inl (TypeError ''can't compare offset-naive and offset-aware datetimes''))"

definition claim_record :: "string \<Rightarrow> jobj \<Rightarrow> jobj" where
  "claim_record now_text r = pset (pset r ''status'' (JStr ''claimed'')) ''claimed_at'' (JStr now_text)"

fun is_pending :: "jval \<Rightarrow> bool" where
  "is_pending (JObj r) = py_eq (pget r ''status'') (JStr ''pending'')"
| "is_pending _ = False"

fun claim_loop :: "pyenv \<Rightarrow> int \<Rightarrow> string \<Rightarrow> int \<Rightarrow> jval list \<Rightarrow> py_exn + (jobj list \<times> jval list)" where
  "claim_loop E now now_text room [] = Inr ([], [])"
| "claim_loop E now now_text room (v # vs) =
     (if room \<le> 0 then Inr ([], v # vs)
      else case v of
        JObj r \<Rightarrow>
          if \<not> is_pending v then ebind (claim_loop E now now_text room vs) (\<lambda>(cs, vs'). Inr (cs, v # vs'))
          else ebind (is_due E now r) (\<lambda>due.
            if due then
              ebind (claim_loop E now now_text (room - 1) vs) (\<lambda>(cs, vs').
              Inr (claim_record now_text r # cs, JObj (claim_record now_text r) # vs'))
            else ebind (claim_loop E now now_text room vs) (\<lambda>(cs, vs'). Inr (cs, v # vs')))
      | _ \<Rightarrow> ebind (claim_loop E now now_text room vs) (\<lambda>(cs, vs'). Inr (cs, v # vs')))"

definition claim_due :: "pyenv \<Rightarrow> int \<Rightarrow> string \<Rightarrow> int \<Rightarrow> jobj \<Rightarrow> py_exn + (jobj list \<times> jobj)" where
  "claim_due E now now_text limit payload =
     ebind (deferred_list payload) (\<lambda>rs.
     ebind (claim_loop E now now_text limit rs) (\<lambda>(cs, rs').
     Inr (cs, put_deferred payload rs')))"

fun update_first :: "string \<Rightarrow> (jobj \<Rightarrow> jobj) \<Rightarrow> jval list \<Rightarrow> jval list" where
  "update_first defer_id f [] = []"
| "update_first defer_id f (v # vs) = (case v of
      JObj r \<Rightarrow> if py_eq (pget r ''defer_id'') (JStr defer_id) then JObj (f r) # vs else v # update_first defer_id f vs
    | _ \<Rightarrow> v # update_first defer_id f vs)"

definition mark_spawned :: "string \<Rightarrow> string \<Rightarrow> string \<Rightarrow> jobj \<Rightarrow> py_exn + jobj" where
  "mark_spawned now defer_id child_run_id payload =
     ebind (deferred_list payload) (\<lambda>rs.
     Inr (put_deferred payload (update_first defer_id
       (\<lambda>r. pupdate r [(''status'', JStr ''spawned''), (''child_run_id'', JStr child_run_id), (''updated_at'', JStr now)]) rs)))"

definition mark_failed :: "string \<Rightarrow> string \<Rightarrow> string \<Rightarrow> jobj \<Rightarrow> py_exn + jobj" where
  "mark_failed now defer_id reason payload =
     ebind (deferred_list payload) (\<lambda>rs.
     Inr (put_deferred payload (update_first defer_id
       (\<lambda>r. pupdate r [(''status'', JStr ''failed''), (''failure'', JObj [(''reason'', JStr reason)]), (''updated_at'', JStr now)]) rs)))"

section \<open>Claimed once\<close>

definition deferred_of :: "jobj \<Rightarrow> jval list" where
  "deferred_of payload = list_or_empty (pget payload ''deferred_runs'')"

lemma deferred_list_of: "deferred_list payload = Inr rs \<Longrightarrow> deferred_of payload = rs"
  by (cases "phas payload ''deferred_runs''")
     (auto simp: deferred_list_def deferred_of_def setdefault_pget pget_not_phas split: jval.splits)

lemma deferred_of_put [simp]: "deferred_of (put_deferred payload rs) = rs"
  by (simp add: deferred_of_def put_deferred_def)

text \<open>What every operation keeps: records stay in their place, and none becomes pending again.\<close>

definition keeps_claims :: "jval list \<Rightarrow> jval list \<Rightarrow> bool" where
  "keeps_claims rs rs' \<longleftrightarrow> length rs \<le> length rs' \<and> (\<forall>i < length rs. is_pending (rs' ! i) \<longrightarrow> is_pending (rs ! i))"

lemma keeps_claims_refl [simp]: "keeps_claims rs rs"
  by (simp add: keeps_claims_def)

lemma keeps_claims_trans: "keeps_claims a b \<Longrightarrow> keeps_claims b c \<Longrightarrow> keeps_claims a c"
  by (auto simp: keeps_claims_def)

lemma keeps_claims_Cons: "keeps_claims (v # vs) (v' # vs') \<longleftrightarrow> (is_pending v' \<longrightarrow> is_pending v) \<and> keeps_claims vs vs'"
  by (auto simp: keeps_claims_def nth_Cons split: nat.splits)

lemma claim_record_status [simp]: "pget (claim_record now_text r) ''status'' = JStr ''claimed''"
  by (simp add: claim_record_def pget_pset)

lemma claimed_not_pending [simp]: "\<not> is_pending (JObj (claim_record now_text r))"
  by simp

lemma claim_loop_spec:
  assumes "claim_loop E now now_text room rs = Inr (cs, rs')"
  shows "keeps_claims rs rs' \<and> length rs' = length rs \<and> int (length cs) \<le> max 0 room
    \<and> map JObj cs = map snd (filter (\<lambda>(v, v'). is_pending v \<and> \<not> is_pending v') (zip rs rs'))
    \<and> (\<forall>r \<in> set cs. pget r ''status'' = JStr ''claimed'')"
  using assms
proof (induction rs arbitrary: room cs rs')
  case (Cons v vs)
  show ?case
  proof (cases "room \<le> 0")
    case True
    have "filter (\<lambda>(v, v'). is_pending v \<and> \<not> is_pending v') (zip us us) = []" for us
      by (auto simp: filter_empty_conv set_zip)
    then show ?thesis using Cons.prems True by (auto simp del: zip_Cons_Cons)
  next
    case False
    show ?thesis
    proof (cases "\<exists>r. v = JObj r \<and> is_pending v \<and> is_due E now r = Inr True")
      case True
      then obtain r where r: "v = JObj r" "is_pending v" "is_due E now r = Inr True" by blast
      then obtain cs1 vs1 where l: "claim_loop E now now_text (room - 1) vs = Inr (cs1, vs1)"
          "cs = claim_record now_text r # cs1" "rs' = JObj (claim_record now_text r) # vs1"
        using Cons.prems False by auto
      show ?thesis using Cons.IH [OF l(1)] l(2,3) r False
        by (auto simp: keeps_claims_Cons simp del: is_pending.simps)
    next
      case other: False
      then obtain vs1 where l: "claim_loop E now now_text room vs = Inr (cs, vs1)" "rs' = v # vs1"
        using Cons.prems False by (cases v) (auto split: if_splits)
      show ?thesis using Cons.IH [OF l(1)] l(2) by (simp add: keeps_claims_Cons)
    qed
  qed
qed (simp add: keeps_claims_def)

lemma update_first_keeps:
  assumes "\<And>r. \<not> is_pending (JObj (f r))"
  shows "keeps_claims rs (update_first did f rs)"
  using assms by (induction rs) (auto simp: keeps_claims_Cons split: jval.splits)

inductive deferred_step :: "pyenv \<Rightarrow> jobj \<Rightarrow> jobj \<Rightarrow> bool" for E where
  step_create: "deferred_create hex12 now src due sig params p = Inr (r, p') \<Longrightarrow> deferred_step E p p'"
| step_claim: "claim_due E now now_text limit p = Inr (cs, p') \<Longrightarrow> deferred_step E p p'"
| step_spawned: "mark_spawned now_text did child p = Inr p' \<Longrightarrow> deferred_step E p p'"
| step_failed: "mark_failed now_text did reason p = Inr p' \<Longrightarrow> deferred_step E p p'"

lemma claim_due_keeps: "claim_due E now now_text limit p = Inr (cs, p') \<Longrightarrow> keeps_claims (deferred_of p) (deferred_of p')"
  using claim_loop_spec deferred_list_of by (fastforce simp: claim_due_def)

lemma deferred_step_keeps: "deferred_step E p p' \<Longrightarrow> keeps_claims (deferred_of p) (deferred_of p')"
proof (induction rule: deferred_step.induct)
  case (step_create hex12 now src due sig params p r p')
  then show ?case using deferred_list_of [of p] by (auto simp: deferred_create_def Let_def keeps_claims_def nth_append)
next
  case (step_spawned now_text did child p p')
  then show ?case using deferred_list_of [of p] by (auto simp: mark_spawned_def intro!: update_first_keeps)
next
  case (step_failed now_text did reason p p')
  then show ?case using deferred_list_of [of p] by (auto simp: mark_failed_def intro!: update_first_keeps)
qed (rule claim_due_keeps)

interpretation deferred: invariant_system "\<lambda>p. p = p0" "deferred_step E" "\<lambda>p. keeps_claims (deferred_of p0) (deferred_of p)" for p0 E
  by unfold_locales (simp, metis keeps_claims_trans deferred_step_keeps)

definition claimed_at :: "jobj \<Rightarrow> jobj \<Rightarrow> nat set" where
  "claimed_at p p' = {i. i < length (deferred_of p) \<and> is_pending (deferred_of p ! i) \<and> \<not> is_pending (deferred_of p' ! i)}"

text \<open>C32: a deferred run is claimed at most once. What \<open>claim_due\<close> returns are the records at the
  positions that were pending and are pending no more, within the limit; whatever is created,
  claimed, spawned or failed afterwards, no later call claims one of these positions again.\<close>

theorem deferred_claimed_once:
  assumes "claim_due E now now_text limit p = Inr (cs, p1)" and "(deferred_step E)\<^sup>*\<^sup>* p1 p2"
    and "claim_due E now' now_text' limit' p2 = Inr (cs', p3)"
  shows "map JObj cs = map snd (filter (\<lambda>(v, v'). is_pending v \<and> \<not> is_pending v') (zip (deferred_of p) (deferred_of p1)))
    \<and> int (length cs) \<le> max 0 limit \<and> (\<forall>r \<in> set cs. pget r ''status'' = JStr ''claimed'')
    \<and> claimed_at p p1 \<inter> claimed_at p2 p3 = {}"
proof -
  have "keeps_claims (deferred_of p1) (deferred_of p2)"
    by (rule deferred.rtranclp_inv [OF assms(2)]) simp
  moreover have "keeps_claims (deferred_of p) (deferred_of p1)" by (rule claim_due_keeps [OF assms(1)])
  ultimately have "claimed_at p p1 \<inter> claimed_at p2 p3 = {}"
    by (fastforce simp: claimed_at_def keeps_claims_def)
  moreover obtain rs rs' where "deferred_list p = Inr rs" "claim_loop E now now_text limit rs = Inr (cs, rs')" "p1 = put_deferred p rs'"
    using assms(1) by (auto simp: claim_due_def)
  ultimately show ?thesis using claim_loop_spec [of E now now_text limit rs cs rs'] deferred_list_of by auto
qed

text \<open>One pending record whose due time has no offset makes every call raise, so that nothing behind it
  is claimed.\<close>

theorem deferred_naive_time_blocks:
  assumes "deferred_of p = JObj r # rs" and "is_pending (JObj r)" and "0 < limit"
    and "fromisoformat E (replace_all ''Z'' ''+00:00'' (py_str (pget r ''due_at''))) = Some (Naive due)"
  shows "\<not> is_ok (claim_due E now now_text limit p)"
proof -
  have "deferred_list p = Inr (JObj r # rs)"
  proof (cases "phas p ''deferred_runs''")
    case True
    then show ?thesis using assms(1)
      by (cases "pget p ''deferred_runs''") (auto simp: deferred_list_def setdefault_def deferred_of_def)
  qed (use assms(1) in \<open>simp add: deferred_of_def pget_not_phas\<close>)
  then show ?thesis using assms(2-) by (simp add: claim_due_def is_due_def)
qed

section \<open>An instance\<close>

definition queue0 :: jobj where
  "queue0 = put_deferred [] [JObj (deferred_record ''a'' ''n'' ''r1'' ''5+00:00'' [] []), JObj (deferred_record ''b'' ''n'' ''r2'' ''50+00:00'' [] [])]"

definition claim_at :: "int \<Rightarrow> jobj \<Rightarrow> jobj list \<times> jobj" where
  "claim_at now p = (case claim_due toy_env now ''n'' 10 p of Inr x \<Rightarrow> x | Inl _ \<Rightarrow> ([], []))"

theorem deferred_claimed_once_witness:
  "length (fst (claim_at 10 queue0)) = 1 \<and> length (fst (claim_at 60 (snd (claim_at 10 queue0)))) = 1
    \<and> claimed_at queue0 (snd (claim_at 10 queue0)) \<inter> claimed_at (snd (claim_at 10 queue0)) (snd (claim_at 60 (snd (claim_at 10 queue0)))) = {}"
proof -
  have n: "length (fst (claim_at 10 queue0)) = 1" "length (fst (claim_at 60 (snd (claim_at 10 queue0)))) = 1" by code_simp+
  have "claim_due toy_env 10 ''n'' 10 queue0 = Inr (claim_at 10 queue0)"
    "claim_due toy_env 60 ''n'' 10 (snd (claim_at 10 queue0)) = Inr (claim_at 60 (snd (claim_at 10 queue0)))"
    using n by (auto simp: claim_at_def split: sum.splits)
  then show ?thesis using n deferred_claimed_once [of toy_env 10 "''n''" 10 queue0 "fst (claim_at 10 queue0)" "snd (claim_at 10 queue0)"
      "snd (claim_at 10 queue0)" 60 "''n''" 10 "fst (claim_at 60 (snd (claim_at 10 queue0)))" "snd (claim_at 60 (snd (claim_at 10 queue0)))"]
    by simp
qed

end
