(* ===== verification/Autonomy_Policy.thy ===== *)
theory Autonomy_Policy
  imports Contracts
begin

text \<open>
  \<open>shared/mesh_runtime/autonomy_policy.py\<close>: the verdict on whether a decision may be executed at
  all and whether it may be executed live, from its autonomy tier, the certification of the
  connector it uses, the scope it asks for, an observed approval and its evidence. The
  certification registry is a file: its content is an argument.
\<close>

section \<open>Tables\<close>

definition ADVISORY_SCOPES :: "string list" where
  "ADVISORY_SCOPES = [''contract-check'', ''eval-read'', ''explain'', ''local-audit'', ''metrics-read'', ''orchestration-evidence'',
     ''proposal'', ''read-only'', ''review'']"

definition MUTATING_SCOPES :: "string list" where
  "MUTATING_SCOPES = [''alert-intake'', ''append-only-audit-write'', ''incident-write'', ''patch'', ''rollback'', ''rollout-restart'',
     ''scale'', ''write'']"

definition TARGET_MINIMUM_STATE :: "(string \<times> string) list" where
  "TARGET_MINIMUM_STATE = [(''local'', ''staging-ready''), (''staging'', ''staging-ready''), (''pilot'', ''pilot-ready''),
     (''production'', ''production-ready''), (''prod'', ''production-ready''), (''expansion'', ''production-ready'')]"

definition SYSTEM_CONNECTOR :: "(string \<times> string) list" where
  "SYSTEM_CONNECTOR = [(''audit_log_sink'', ''audit_sink''), (''feature_flag_service'', ''feature_flag_adapter''),
     (''incident_service'', ''incident_adapter''), (''kubernetes_service'', ''kubernetes''), (''repo_patch_service'', ''codex''),
     (''systemd_service'', ''systemd_service'')]"

definition ACTION_SCOPE :: "(string \<times> string) list" where
  "ACTION_SCOPE = [(''investigate_and_patch'', ''proposal''), (''open_incident'', ''incident-write''), (''patch_resources'', ''patch''),
     (''record_defer_until'', ''local-audit''), (''record_no_action'', ''local-audit''), (''restart_deployment'', ''rollout-restart''),
     (''restart_pod'', ''rollout-restart''), (''restart_systemd_service'', ''restart-service''), (''rollback_deployment'', ''rollback''),
     (''scale_deployment'', ''scale''), (''set_rollout'', ''write'')]"

definition STATE_ORDER :: "(string \<times> int) list" where
  "STATE_ORDER = [(''disabled'', 0), (''mock'', 1), (''unfinished'', 1), (''read-only'', 2), (''proposal-only'', 2),
     (''staging-ready'', 3), (''pilot-ready'', 4), (''production-ready'', 5)]"

text \<open>\<open>d.get(k, default)\<close> on one of these tables.\<close>

definition table_get :: "(string \<times> 'a) list \<Rightarrow> string \<Rightarrow> 'a \<Rightarrow> 'a" where
  "table_get t k dflt = (case map_of t k of Some x \<Rightarrow> x | None \<Rightarrow> dflt)"

section \<open>Reading the decision\<close>

definition tier_from_decision :: "Decision \<Rightarrow> string" where
  "tier_from_decision d =
     (if autonomy_tier d = ''autonomous'' then ''fully_autonomous''
      else if autonomy_tier d = ''approval_required'' then ''approval_required''
      else ''advisory_only'')"

definition execution_override :: "Decision \<Rightarrow> string \<Rightarrow> string option" where
  "execution_override d key =
     (let parameters = obj_or_empty (pget_or (execution_plan d) ''parameters'' (JObj []));
          certification = obj_or_empty (pget (reasoning d) ''connector_certification'') in
      if truthy (pget parameters key) then Some (py_str (pget parameters key))
      else if truthy (pget certification key) then Some (py_str (pget certification key))
      else None)"

text \<open>\<open>str(value or "")\<close>\<close>

definition str_or_empty :: "jval \<Rightarrow> string" where
  "str_or_empty v = py_str (por v (JStr []))"

definition override_or :: "string option \<Rightarrow> string \<Rightarrow> string" where
  "override_or x dflt = (case x of Some (c # s) \<Rightarrow> c # s | _ \<Rightarrow> dflt)"

definition connector_id_of :: "Decision \<Rightarrow> string" where
  "connector_id_of d = override_or (execution_override d ''connector_id'')
     (table_get SYSTEM_CONNECTOR (str_or_empty (pget (execution_plan d) ''system'')) ''unknown'')"

definition requested_scope_of :: "Decision \<Rightarrow> string" where
  "requested_scope_of d = override_or (execution_override d ''requested_scope'')
     (table_get ACTION_SCOPE (str_or_empty (pget (execution_plan d) ''action'')) ''unknown'')"

definition decision_evidence_refs :: "Decision \<Rightarrow> string list" where
  "decision_evidence_refs d =
     decision_id d
     # concat (map (\<lambda>k. map py_str (list_or_empty (pget (reasoning d) k))) [''source_event_ids'', ''evidence_event_ids''])
     @ (let pack = obj_or_empty (pget (reasoning d) ''evidence_pack'') in
        map (\<lambda>k. py_str (pget pack k)) (filter (\<lambda>k. truthy (pget pack k)) [''artifact_ref'', ''proof_ref'', ''run_export_ref'']))"

definition minimum_state_of :: "string \<Rightarrow> string" where
  "minimum_state_of profile = table_get TARGET_MINIMUM_STATE (py_lower profile) ''pilot-ready''"

definition state_at_least :: "string \<Rightarrow> string \<Rightarrow> bool" where
  "state_at_least observed minimum \<longleftrightarrow> table_get STATE_ORDER minimum 4 \<le> table_get STATE_ORDER observed 0"

definition scope_is_mutating :: "string \<Rightarrow> bool" where
  "scope_is_mutating scope \<longleftrightarrow> scope \<in> set MUTATING_SCOPES \<or> scope \<notin> set ADVISORY_SCOPES"

section \<open>The certification registry\<close>

text \<open>The registry file: absent, not readable as JSON, or its content.\<close>

datatype registry_file = No_File | Bad_File | File_Content jval

definition load_connector_certification_registry :: "schemas \<Rightarrow> registry_file \<Rightarrow> py_exn + jval" where
  "load_connector_certification_registry S f = (case f of
      No_File \<Rightarrow> Inr JNull
    | Bad_File \<Rightarrow> Inl (ValueError ''invalid JSON'')
    | File_Content v \<Rightarrow>
        ebind (validate_payload (S ''connector-certification-registry.schema.json'') v) (\<lambda>_. Inr v))"

fun find_connector :: "string \<Rightarrow> jval list \<Rightarrow> jobj option" where
  "find_connector cid [] = None"
| "find_connector cid (v # vs) = (case v of
      JObj r \<Rightarrow> if py_eq (pget r ''connector_id'') (JStr cid) then Some r else find_connector cid vs
    | _ \<Rightarrow> find_connector cid vs)"

text \<open>\<open>for item in value\<close>: a dictionary gives its keys, a string its characters.\<close>

fun py_iter :: "jval \<Rightarrow> py_exn + jval list" where
  "py_iter (JList xs) = Inr xs"
| "py_iter (JObj d) = Inr (map (JStr \<circ> fst) d)"
| "py_iter (JStr s) = Inr (map (\<lambda>c. JStr [c]) s)"
| "py_iter _ = Inl (TypeError ''object is not iterable'')"

definition connector_record :: "schemas \<Rightarrow> registry_file \<Rightarrow> string \<Rightarrow> py_exn + jobj option" where
  "connector_record S f cid = (case load_connector_certification_registry S f of
      Inl (OSError _) \<Rightarrow> Inr None
    | Inl (ValueError _) \<Rightarrow> Inr None
    | Inl e \<Rightarrow> Inl e
    | Inr registry \<Rightarrow>
        ebind (as_obj (por registry (JObj []))) (\<lambda>d.
        ebind (py_iter (pget_or d ''connectors'' (JList []))) (\<lambda>connectors.
        Inr (find_connector cid connectors))))"

section \<open>The verdict\<close>

record AutonomyPolicyVerdict =
  policy_tier :: string
  allowed :: bool
  live_execution_allowed :: bool
  mock_execution_only :: bool
  connector_id :: string
  connector_state :: "string option"
  requested_scope :: string
  minimum_state :: string
  blockers :: "string list"
  live_blockers :: "string list"
  evidence_refs :: "string list"
  approval_observed :: bool

definition verdict_to_dict :: "AutonomyPolicyVerdict \<Rightarrow> jobj" where
  "verdict_to_dict v =
     [(''policy_tier'', JStr (policy_tier v)), (''allowed'', JBool (allowed v)),
      (''live_execution_allowed'', JBool (live_execution_allowed v)), (''mock_execution_only'', JBool (mock_execution_only v)),
      (''connector_id'', JStr (connector_id v)), (''connector_state'', jopt (connector_state v)),
      (''requested_scope'', JStr (requested_scope v)), (''minimum_state'', JStr (minimum_state v)),
      (''blockers'', JList (map JStr (blockers v))), (''live_blockers'', JList (map JStr (live_blockers v))),
      (''evidence_refs'', JList (map JStr (evidence_refs v))), (''approval_observed'', JBool (approval_observed v))]"

definition blocked_if :: "bool \<Rightarrow> string \<Rightarrow> string list" where
  "blocked_if c reason = (if c then [reason] else [])"

definition policy_blockers :: "string \<Rightarrow> string \<Rightarrow> string list \<Rightarrow> bool \<Rightarrow> bool \<Rightarrow> string list" where
  "policy_blockers tier scope refs approval force =
     blocked_if (tier = ''denied_always'') ''autonomy_tier_denied_always''
     @ blocked_if (tier = ''advisory_only'' \<and> scope \<notin> set ADVISORY_SCOPES) ''advisory_only_scope_cannot_mutate''
     @ blocked_if (tier = ''approval_required'' \<and> \<not> approval) ''approval_required_before_execution''
     @ blocked_if (tier = ''fully_autonomous'' \<and> force) ''approval_required_before_execution''
     @ blocked_if (scope_is_mutating scope \<and> tier = ''fully_autonomous'' \<and> refs = []) ''evidence_required_before_execution''"

definition certification_blockers :: "jobj option \<Rightarrow> string option \<Rightarrow> string list \<Rightarrow> string \<Rightarrow> string \<Rightarrow> string list" where
  "certification_blockers rec state scopes scope minimum =
     (case rec of
        None \<Rightarrow> [''connector_not_certified'']
      | Some _ \<Rightarrow> blocked_if (\<not> state_at_least (override_or state ''disabled'') minimum) ''connector_state_below_target_minimum'')
     @ blocked_if (scope \<notin> set scopes) ''scope_not_allowed_by_connector_certification''"

definition policy_verdict ::
  "string \<Rightarrow> string \<Rightarrow> string \<Rightarrow> string list \<Rightarrow> string \<Rightarrow> string option \<Rightarrow> string list \<Rightarrow> bool \<Rightarrow> bool \<Rightarrow> bool
    \<Rightarrow> AutonomyPolicyVerdict" where
  "policy_verdict tier connector scope refs minimum state certification approval live force =
     (let base = policy_blockers tier scope refs approval force @ (if live then certification else []);
          live_only = base @ certification @ blocked_if (scope_is_mutating scope \<and> \<not> live) ''live_execution_disabled'';
          ok = (base = []); live_ok = (ok \<and> live_only = [])
      in \<lparr>policy_tier = tier, allowed = ok, live_execution_allowed = live_ok, mock_execution_only = (ok \<and> \<not> live_ok),
          connector_id = connector, connector_state = state, requested_scope = scope, minimum_state = minimum,
          blockers = sorted_set base, live_blockers = sorted_set live_only, evidence_refs = refs,
          approval_observed = approval\<rparr>)"

definition evaluate_autonomy_policy ::
  "schemas \<Rightarrow> registry_file \<Rightarrow> Decision \<Rightarrow> string option \<Rightarrow> string \<Rightarrow> string option \<Rightarrow> string option \<Rightarrow> string list
    \<Rightarrow> bool \<Rightarrow> bool \<Rightarrow> bool \<Rightarrow> py_exn + AutonomyPolicyVerdict" where
  "evaluate_autonomy_policy S f d tier_arg profile connector_arg scope_arg refs_arg approval live force =
     (let tier = override_or tier_arg (tier_from_decision d);
          connector = override_or connector_arg (connector_id_of d);
          scope = override_or scope_arg (requested_scope_of d);
          refs = filter (\<lambda>r. py_strip r \<noteq> []) (if refs_arg = [] then decision_evidence_refs d else refs_arg);
          minimum = minimum_state_of profile in
      ebind (connector_record S f connector) (\<lambda>rec.
      let state = map_option (\<lambda>r. py_str (pget r ''state'')) rec in
      ebind (case rec of Some r \<Rightarrow> py_iter (pget_or r ''allowed_scopes'' (JList [])) | None \<Rightarrow> Inr []) (\<lambda>scopes.
      Inr (policy_verdict tier connector scope refs minimum state
        (certification_blockers rec state (map py_str scopes) scope minimum) approval live force))))"

section \<open>What the verdict means\<close>

lemma blocked_if_Nil [simp]: "blocked_if c r = [] \<longleftrightarrow> \<not> c" and set_blocked_if [simp]: "x \<in> set (blocked_if c r) \<longleftrightarrow> c \<and> x = r"
  by (auto simp: blocked_if_def)

lemma state_at_least_override [simp]: "state_at_least (override_or (Some s) ''disabled'') m = state_at_least s m"
  by (cases s) (simp_all add: override_or_def state_at_least_def table_get_def STATE_ORDER_def)

lemma find_connector_id: "find_connector cid vs = Some r \<Longrightarrow> py_eq (pget r ''connector_id'') (JStr cid)"
  by (induction vs) (auto split: jval.splits if_splits)

lemma connector_record_nonempty: "connector_record S f cid = Inr (Some r) \<Longrightarrow> r \<noteq> []"
  using find_connector_id by (fastforce simp: connector_record_def split: sum.splits py_exn.splits)

lemma certification_blockers_Nil:
  "certification_blockers rec state scopes scope m = [] \<longleftrightarrow>
     rec \<noteq> None \<and> state_at_least (override_or state ''disabled'') m \<and> scope \<in> set scopes"
  by (auto simp: certification_blockers_def split: option.splits)

lemma policy_blockers_Nil:
  "policy_blockers tier scope refs approval force = [] \<longleftrightarrow>
     tier \<noteq> ''denied_always'' \<and> (tier = ''advisory_only'' \<longrightarrow> scope \<in> set ADVISORY_SCOPES)
   \<and> (tier = ''approval_required'' \<longrightarrow> approval) \<and> (tier = ''fully_autonomous'' \<longrightarrow> \<not> force)
   \<and> (scope_is_mutating scope \<and> tier = ''fully_autonomous'' \<longrightarrow> refs \<noteq> [])"
  by (auto simp: policy_blockers_def)

definition certified :: "schemas \<Rightarrow> registry_file \<Rightarrow> string \<Rightarrow> string \<Rightarrow> string \<Rightarrow> bool" where
  "certified S f connector scope minimum \<longleftrightarrow>
     (\<exists>r scopes. connector_record S f connector = Inr (Some r) \<and> state_at_least (py_str (pget r ''state'')) minimum
        \<and> py_iter (pget_or r ''allowed_scopes'' (JList [])) = Inr scopes \<and> scope \<in> set (map py_str scopes))"

lemma certified_iff:
  assumes "connector_record S f connector = Inr rec0"
    and "(case rec0 of Some r \<Rightarrow> py_iter (pget_or r ''allowed_scopes'' (JList [])) | None \<Rightarrow> Inr []) = Inr scopes"
  shows "certification_blockers rec0 (map_option (\<lambda>r. py_str (pget r ''state'')) rec0) (map py_str scopes) scope m = []
    \<longleftrightarrow> certified S f connector scope m"
  using assms by (cases rec0) (auto simp: certification_blockers_Nil certified_def)

lemma certification_blockers_set:
  "set (certification_blockers rec state scopes scope m) \<subseteq>
     {''connector_not_certified'', ''connector_state_below_target_minimum'', ''scope_not_allowed_by_connector_certification''}"
  by (auto simp: certification_blockers_def split: option.splits)

lemma evaluate_autonomy_verdict:
  assumes "evaluate_autonomy_policy S f d tier_arg profile connector_arg scope_arg refs_arg approval live force = Inr v"
  shows "\<exists>rec state scopes. v = policy_verdict (override_or tier_arg (tier_from_decision d)) (override_or connector_arg (connector_id_of d))
      (override_or scope_arg (requested_scope_of d))
      (filter (\<lambda>r. py_strip r \<noteq> []) (if refs_arg = [] then decision_evidence_refs d else refs_arg)) (minimum_state_of profile) state
      (certification_blockers rec state scopes (override_or scope_arg (requested_scope_of d)) (minimum_state_of profile)) approval live force
    \<and> (certification_blockers rec state scopes (override_or scope_arg (requested_scope_of d)) (minimum_state_of profile) = []
       \<longleftrightarrow> certified S f (override_or connector_arg (connector_id_of d)) (override_or scope_arg (requested_scope_of d))
             (minimum_state_of profile))"
proof -
  let ?connector = "override_or connector_arg (connector_id_of d)"
  obtain rec where r: "connector_record S f ?connector = Inr rec"
    using assms unfolding evaluate_autonomy_policy_def Let_def by auto
  obtain scopes where sc: "(case rec of Some r \<Rightarrow> py_iter (pget_or r ''allowed_scopes'' (JList [])) | None \<Rightarrow> Inr []) = Inr scopes"
    using assms unfolding evaluate_autonomy_policy_def Let_def r by auto
  show ?thesis
    using assms certified_iff [OF r sc] unfolding evaluate_autonomy_policy_def Let_def r ebind_Inr sc by blast
qed

text \<open>C30: when a decision may run live. A live execution is allowed exactly when the connector is
  certified for the scope at the state the target requires, the tier is not denied, an
  advisory tier keeps to advisory scopes, a required approval was observed and no approval is
  forced on an autonomous tier, a mutating scope has live execution switched on, and an
  autonomous mutation has evidence; what is allowed and not live is a mock execution.\<close>

theorem autonomy_live_execution_iff:
  assumes "evaluate_autonomy_policy S f d tier_arg profile connector_arg scope_arg refs_arg approval live force = Inr v"
  shows "(live_execution_allowed v \<longleftrightarrow>
      certified S f (connector_id v) (requested_scope v) (minimum_state v)
    \<and> policy_tier v \<noteq> ''denied_always''
    \<and> (policy_tier v = ''advisory_only'' \<longrightarrow> requested_scope v \<in> set ADVISORY_SCOPES)
    \<and> (policy_tier v = ''approval_required'' \<longrightarrow> approval)
    \<and> (policy_tier v = ''fully_autonomous'' \<longrightarrow> \<not> force)
    \<and> (scope_is_mutating (requested_scope v) \<longrightarrow> live)
    \<and> (scope_is_mutating (requested_scope v) \<and> policy_tier v = ''fully_autonomous'' \<longrightarrow> evidence_refs v \<noteq> []))
    \<and> (mock_execution_only v \<longleftrightarrow> allowed v \<and> \<not> live_execution_allowed v)
    \<and> (live_execution_allowed v \<longleftrightarrow> live_blockers v = [])"
proof -
  obtain rec state scopes where v: "v = policy_verdict (override_or tier_arg (tier_from_decision d))
      (override_or connector_arg (connector_id_of d)) (override_or scope_arg (requested_scope_of d))
      (filter (\<lambda>r. py_strip r \<noteq> []) (if refs_arg = [] then decision_evidence_refs d else refs_arg)) (minimum_state_of profile) state
      (certification_blockers rec state scopes (override_or scope_arg (requested_scope_of d)) (minimum_state_of profile)) approval live force"
    and c: "certification_blockers rec state scopes (override_or scope_arg (requested_scope_of d)) (minimum_state_of profile) = []
       \<longleftrightarrow> certified S f (override_or connector_arg (connector_id_of d)) (override_or scope_arg (requested_scope_of d))
             (minimum_state_of profile)"
    using evaluate_autonomy_verdict [OF assms] by blast
  show ?thesis unfolding v policy_verdict_def Let_def by (auto simp: c policy_blockers_Nil)
qed

text \<open>The evidence that an autonomous mutation must have includes the identifier of the decision
  itself unless the caller passes references, so the requirement cannot fail then.\<close>

theorem autonomy_evidence_never_missing:
  assumes "evaluate_autonomy_policy S f d tier_arg profile connector_arg scope_arg [] approval live force = Inr v"
    and "py_strip (decision_id d) \<noteq> []"
  shows "''evidence_required_before_execution'' \<notin> set (blockers v)"
proof -
  obtain rec state scopes where v: "v = policy_verdict (override_or tier_arg (tier_from_decision d))
      (override_or connector_arg (connector_id_of d)) (override_or scope_arg (requested_scope_of d))
      (filter (\<lambda>r. py_strip r \<noteq> []) (decision_evidence_refs d)) (minimum_state_of profile) state
      (certification_blockers rec state scopes (override_or scope_arg (requested_scope_of d)) (minimum_state_of profile)) approval live force"
    using evaluate_autonomy_verdict [OF assms(1)] by auto
  have "filter (\<lambda>r. py_strip r \<noteq> []) (decision_evidence_refs d) \<noteq> []" using assms(2) by (simp add: decision_evidence_refs_def)
  then show ?thesis unfolding v policy_verdict_def Let_def
    using certification_blockers_set by (fastforce simp: policy_blockers_def)
qed

section \<open>An instance\<close>

definition kube_registry :: registry_file where
  "kube_registry = File_Content (JObj [(''connectors'', JList [JObj [(''connector_id'', JStr ''kubernetes''),
     (''state'', JStr ''production-ready''), (''allowed_scopes'', JList [JStr ''scale''])]])])"

definition scale_decision :: Decision where
  "scale_decision = \<lparr>decision_id = ''d1'', trigger_id = ''t1'', summary = ''s'', decision_type = ''scale_deployment'',
     autonomy_tier = ''approval_required'', reasoning = [], expected_outcome = [], risk = [], confidence = JInt 1,
     execution_plan = [(''system'', JStr ''kubernetes_service''), (''action'', JStr ''scale_deployment''), (''parameters'', JObj [])]\<rparr>"

lemma scale_verdict:
  "\<exists>v. evaluate_autonomy_policy (\<lambda>_. []) kube_registry scale_decision None ''production'' None None [] True True False = Inr v
    \<and> live_execution_allowed v \<and> policy_tier v = ''approval_required''"
proof -
  have "case evaluate_autonomy_policy (\<lambda>_. []) kube_registry scale_decision None ''production'' None None [] True True False of
      Inr v \<Rightarrow> live_execution_allowed v \<and> policy_tier v = ''approval_required'' | Inl _ \<Rightarrow> False"
    by code_simp
  then show ?thesis by (auto split: sum.splits)
qed

theorem autonomy_live_execution_iff_witness:
  "\<exists>v. evaluate_autonomy_policy (\<lambda>_. []) kube_registry scale_decision None ''production'' None None [] True True False = Inr v
    \<and> certified (\<lambda>_. []) kube_registry (connector_id v) (requested_scope v) (minimum_state v)"
  using scale_verdict autonomy_live_execution_iff by blast

end
