(* ===== verification/Remediation_Safety.thy ===== *)
theory Remediation_Safety
  imports Autonomy_Policy
begin

text \<open>
  \<open>shared/mesh_runtime/remediation_safety.py\<close>: the scored safety case of a proposed remediation.
  Scores are doubles: every sum and product of the code is rounded here as the code rounds it.
  The state store is an argument: what it answers when asked for the historical success rate.
\<close>

section \<open>Data\<close>

record Trigger =
  trig_id :: string
  trigger_type :: string
  triggered_at :: string
  environment :: string
  trig_service :: string
  endpoint :: string
  flag_key :: "string option"
  current_rollout_pct :: "int option"
  comparison_window :: "jobj option"
  segment :: jobj
  metrics :: jobj
  related_context :: jobj

datatype history_source = No_Store | Store_Without_Rates | Store_Rate "py_exn + jval"

definition lit :: "int \<Rightarrow> int \<Rightarrow> rat" where
  "lit n d = fl (of_int n / of_int d)"

definition fadd :: "rat \<Rightarrow> rat \<Rightarrow> rat" where
  "fadd a b = fl (a + b)"

definition DEFAULT_THRESHOLD :: rat where
  "DEFAULT_THRESHOLD = lit 72 100"

definition AUDIT_ACTIONS :: "string list" where
  "AUDIT_ACTIONS = [''record_no_action'', ''open_incident'']"

definition MUTATING_DECISIONS :: "string list" where
  "MUTATING_DECISIONS = [''reduce_rollout'', ''disable_flag'', ''investigate_and_patch'', ''rollback_deployment'', ''restart_deployment'',
     ''restart_pod'', ''scale_deployment'', ''cordon_node'', ''drain_node'', ''argocd_sync'', ''argocd_rollback'', ''restart_systemd_service'']"

definition SEVERE_SIGNATURES :: "string list" where
  "SEVERE_SIGNATURES = [''disk_pressure'', ''jwt_missing'', ''jwt_secret_missing'', ''rpc_exposed'', ''authrpc_exposed'',
     ''engine_api_unreachable'', ''consensus_disconnect'']"

definition PROTECTED_TIERS :: "string list" where
  "PROTECTED_TIERS = [''strategic'', ''platinum'']"

record RemediationSafetyCase =
  score :: rat
  threshold :: rat
  verdict :: string
  case_passed :: bool
  components :: "(string \<times> rat) list"
  hard_stops :: "string list"
  warnings :: "string list"
  case_refs :: "string list"

definition safety_case_to_dict :: "RemediationSafetyCase \<Rightarrow> jobj" where
  "safety_case_to_dict c =
     [(''score'', JFloat (score c)), (''threshold'', JFloat (threshold c)), (''verdict'', JStr (verdict c)),
      (''passed'', JBool (case_passed c)), (''components'', JObj (map (\<lambda>(k, x). (k, JFloat x)) (components c))),
      (''hard_stops'', JList (map JStr (hard_stops c))), (''warnings'', JList (map JStr (warnings c))),
      (''evidence_refs'', JList (map JStr (case_refs c)))]"

section \<open>Component scores\<close>

definition clamp :: "rat \<Rightarrow> rat" where
  "clamp x = max 0 (min x 1)"

definition bool_score :: "bool \<Rightarrow> rat" where
  "bool_score b = (if b then 1 else 0)"

definition add_if :: "bool \<Rightarrow> rat \<Rightarrow> rat \<Rightarrow> rat" where
  "add_if c x sc = (if c then fadd sc x else sc)"

definition source_event_ids :: "Decision \<Rightarrow> string list" where
  "source_event_ids d = map py_str (list_or_empty
     (por (pget (reasoning d) ''source_event_ids'') (por (pget (reasoning d) ''evidence_event_ids'') (JList []))))"

fun first_dict :: "jval list \<Rightarrow> jobj" where
  "first_dict [] = []"
| "first_dict (v # vs) = (case v of JObj d \<Rightarrow> d | _ \<Rightarrow> first_dict vs)"

definition nonempty_dict :: "jval \<Rightarrow> bool" where
  "nonempty_dict v = (case v of JObj d \<Rightarrow> d \<noteq> [] | _ \<Rightarrow> False)"

definition pack_score :: "Decision \<Rightarrow> rat \<Rightarrow> py_exn + rat" where
  "pack_score d sc = (case pget (reasoning d) ''evidence_pack'' of
      JObj pack \<Rightarrow>
        if pack = [] then Inr sc
        else ebind (as_obj (pget_or pack ''evidence_pack_artifact'' (JObj []))) (\<lambda>artifact.
          let s1 = fadd sc (lit 20 100) in
          Inr (case pget_or artifact ''missing_fields'' (JList []) of
              JList (m # ms) \<Rightarrow> fadd s1 (- min (lit 25 100) (fl (lit 5 100 * of_nat (length (m # ms)))))
            | _ \<Rightarrow> s1))
    | _ \<Rightarrow> Inr sc)"

definition evidence_score :: "Trigger \<Rightarrow> Decision \<Rightarrow> py_exn + rat" where
  "evidence_score t d =
     (let s0 = lit 20 100;
          s1 = add_if (metrics t \<noteq> []) (lit 15 100) s0;
          s2 = add_if (related_context t \<noteq> []) (lit 15 100) s1;
          s3 = add_if (case pget_or (reasoning d) ''evidence'' (JList []) of JList xs \<Rightarrow> 2 \<le> length xs | _ \<Rightarrow> False) (lit 20 100) s2 in
      ebind (pack_score d s3) (\<lambda>s4.
      let s5 = add_if (source_event_ids d \<noteq> []) (lit 10 100) s4;
          signal = first_dict [pget (reasoning d) ''evidence_pack'', pget (related_context t) ''source_signal''] in
      Inr (clamp (if trigger_type t = ''reth_node_degraded''
         then fold (\<lambda>field sc. add_if (nonempty_dict (pget signal field)) (lit 4 100) sc)
                [''execution'', ''consensus'', ''storage'', ''rpc'', ''node''] s5
         else s5))))"

text \<open>\<open>value >= constant\<close> on a number of the payload.\<close>

definition at_least :: "jval \<Rightarrow> rat \<Rightarrow> py_exn + bool" where
  "at_least v r = (case num_of v of Some x \<Rightarrow> Inr (r \<le> x) | None \<Rightarrow> Inl (TypeError ''>= not supported''))"

definition action_score :: "Decision \<Rightarrow> py_exn + rat" where
  "action_score d =
     (let action = str_or_empty (pget (execution_plan d) ''action'');
          rollback = truthy (pget (execution_plan d) ''rollback_plan'');
          level = pget (risk d) ''level'' in
      if action \<in> set AUDIT_ACTIONS then Inr 1
      else
        let s1 = add_if rollback (lit 20 100) (lit 40 100) in
        ebind (at_least (confidence d) (lit 85 100)) (\<lambda>sure.
        ebind (if sure then Inr True else at_least (confidence d) (lit 75 100)) (\<lambda>fair.
        let s2 = fadd s1 (if sure then lit 20 100 else if fair then lit 10 100 else - lit 15 100);
            s3 = add_if (py_eq level (JStr ''low'')) (lit 10 100) s2;
            s4 = add_if (py_eq level (JStr ''high'')) (- lit 25 100) s3;
            s5 = add_if (decision_type d \<in> set MUTATING_DECISIONS \<and> \<not> rollback) (- lit 25 100) s4
        in Inr (clamp s5))))"

definition multi_service :: "Decision \<Rightarrow> bool" where
  "multi_service d = starts_with (str_or_empty (pget (risk d) ''blast_radius'')) ''multi_''"

definition high_risk :: "Decision \<Rightarrow> bool" where
  "high_risk d = py_eq (pget (risk d) ''level'') (JStr ''high'')"

definition blast_radius_score :: "Trigger \<Rightarrow> Decision \<Rightarrow> py_exn + rat" where
  "blast_radius_score t d =
     (let s1 = add_if (multi_service d) (- lit 45 100) 1;
          s2 = add_if (high_risk d) (- lit 30 100) s1 in
      ebind (in_set (pget (segment t) ''customer_tier'') PROTECTED_TIERS) (\<lambda>protected.
      let s3 = add_if protected (- lit 25 100) s2;
          s4 = add_if (autonomy_tier d \<in> {''approval_required'', ''escalated''}) (- lit 15 100) s3
      in Inr (clamp s4)))"

definition history_score :: "(string \<Rightarrow> py_exn + rat) \<Rightarrow> history_source \<Rightarrow> py_exn + rat" where
  "history_score float_text h = (case h of
      Store_Rate (Inl _) \<Rightarrow> Inr (lit 50 100)
    | Store_Rate (Inr v) \<Rightarrow> if v = JNull then Inr (lit 58 100) else ebind (py_float float_text v) (\<lambda>r. Inr (clamp r))
    | _ \<Rightarrow> Inr (lit 58 100))"

definition recovery_score :: "Trigger \<Rightarrow> Decision \<Rightarrow> rat" where
  "recovery_score t d =
     (let action = str_or_empty (pget (execution_plan d) ''action'');
          observations = por (pget (related_context t) ''post_action_observations'') (pget (reasoning d) ''post_action_observations'') in
      if action \<in> set AUDIT_ACTIONS then 1
      else if nonempty_dict observations then lit 85 100
      else if truthy (pget (expected_outcome d) ''target_metrics'') then lit 65 100
      else lit 45 100)"

section \<open>Stops and warnings\<close>

definition signatures_in :: "jobj \<Rightarrow> string list" where
  "signatures_in source =
     (let raw = pget source ''error_signatures'';
          raw' = (if raw = JNull then (case pget source ''logs'' of JObj logs \<Rightarrow> pget logs ''error_signatures'' | _ \<Rightarrow> JNull) else raw)
      in map py_str (list_or_empty raw'))"

definition error_signatures :: "Trigger \<Rightarrow> Decision \<Rightarrow> string list" where
  "error_signatures t d =
     signatures_in (related_context t) @ signatures_in (obj_or_empty (pget (reasoning d) ''evidence_pack''))"

definition hard_stops_of ::
  "Trigger \<Rightarrow> Decision \<Rightarrow> string list \<Rightarrow> rat \<Rightarrow> rat \<Rightarrow> bool \<Rightarrow> bool \<Rightarrow> bool \<Rightarrow> py_exn + string list" where
  "hard_stops_of t d prior_blocking_reasons evidence history schema_ok policy_ok readiness_ok =
     ebind (in_set (pget (segment t) ''customer_tier'') PROTECTED_TIERS) (\<lambda>protected.
     let autonomous = (autonomy_tier d = ''autonomous'') in
     Inr (blocked_if (\<not> schema_ok) ''schema validation failed''
        @ blocked_if (\<not> policy_ok) ''policy validation failed''
        @ blocked_if (\<not> readiness_ok) ''execution readiness failed''
        @ blocked_if (autonomous \<and> high_risk d) ''autonomous high-risk action is forbidden''
        @ blocked_if (multi_service d \<and> autonomous) ''autonomous multi-service action is forbidden''
        @ blocked_if (protected \<and> autonomous) ''autonomous protected-tier action is forbidden''
        @ blocked_if (set (error_signatures t d) \<inter> set SEVERE_SIGNATURES \<noteq> {} \<and> decision_type d \<noteq> ''escalate'')
            ''severe signature requires escalation''
        @ blocked_if (decision_type d \<in> set MUTATING_DECISIONS \<and> evidence < lit 55 100) ''mutating action lacks sufficient evidence''
        @ blocked_if (decision_type d \<in> set MUTATING_DECISIONS \<and> history < lit 35 100)
            ''historical success rate is too weak for autonomous remediation''))"

definition warnings_of :: "Trigger \<Rightarrow> Decision \<Rightarrow> rat \<Rightarrow> rat \<Rightarrow> history_source \<Rightarrow> string list" where
  "warnings_of t d history recovery h =
     blocked_if (history < lit 60 100) ''historical support is weak or unavailable''
     @ blocked_if (recovery < lit 60 100) ''post-action recovery evidence is weak''
     @ blocked_if (truthy (pget (related_context t) ''conflicting_signals'')) ''conflicting signals are present''
     @ blocked_if (source_event_ids d = []) ''no source run event ids available for analysis provenance''
     @ blocked_if (h = No_Store) ''state store unavailable for historical prior''"

definition safety_evidence_refs :: "Trigger \<Rightarrow> Decision \<Rightarrow> string list" where
  "safety_evidence_refs t d = filter (\<lambda>r. r \<noteq> []) (trig_id t # decision_id d # source_event_ids d)"

section \<open>The safety case\<close>

definition weighted_score :: "(string \<times> rat) list \<Rightarrow> rat" where
  "weighted_score cs =
     (let term = (\<lambda>k w. fl ((case map_of cs k of Some x \<Rightarrow> x | None \<Rightarrow> 0) * lit w 100)) in
      py_round 3 (fadd (fadd (fadd (fadd (fadd (fadd (fadd (term ''policy'' 18) (term ''quality'' 12)) (term ''readiness'' 14))
        (term ''evidence'' 18)) (term ''action'' 14)) (term ''blast_radius'' 10)) (term ''history'' 8)) (term ''recovery'' 6)))"

definition evaluate_remediation_safety ::
  "(string \<Rightarrow> py_exn + rat) \<Rightarrow> Trigger \<Rightarrow> Decision \<Rightarrow> history_source \<Rightarrow> string list \<Rightarrow> bool \<Rightarrow> bool \<Rightarrow> bool \<Rightarrow> bool \<Rightarrow> rat
    \<Rightarrow> py_exn + RemediationSafetyCase" where
  "evaluate_remediation_safety float_text t d h prior_blocking_reasons promptfoo_ok schema_ok policy_ok readiness_ok limit =
     ebind (evidence_score t d) (\<lambda>evidence.
     ebind (action_score d) (\<lambda>action.
     ebind (blast_radius_score t d) (\<lambda>blast.
     ebind (history_score float_text h) (\<lambda>history.
     let recovery = recovery_score t d;
         cs = [(''policy'', bool_score (schema_ok \<and> policy_ok)), (''quality'', bool_score promptfoo_ok),
               (''readiness'', bool_score readiness_ok), (''evidence'', evidence), (''action'', action), (''blast_radius'', blast),
               (''history'', history), (''recovery'', recovery)];
         sc = weighted_score cs in
     ebind (hard_stops_of t d prior_blocking_reasons evidence history schema_ok policy_ok readiness_ok) (\<lambda>stops.
     let v = (if stops \<noteq> [] then ''human_review'' else if sc < limit then ''needs_more_evidence'' else ''pass'')
     in Inr \<lparr>score = sc, threshold = limit, verdict = v, case_passed = (v = ''pass''),
             components = map (\<lambda>(k, x). (k, py_round 3 x)) cs, hard_stops = stops,
             warnings = warnings_of t d history recovery h, case_refs = safety_evidence_refs t d\<rparr>)))))"

definition safety_blocking_reason :: "RemediationSafetyCase \<Rightarrow> string option" where
  "safety_blocking_reason c =
     (if case_passed c then None
      else if hard_stops c \<noteq> [] then Some ''remediation safety case has hard stops''
      else Some ''remediation safety score below execution threshold'')"

section \<open>The properties\<close>

lemma hard_stops_Nil:
  "hard_stops_of t d prior evidence history schema_ok policy_ok readiness_ok = Inr [] \<longleftrightarrow>
     schema_ok \<and> policy_ok \<and> readiness_ok
   \<and> (\<exists>protected. in_set (pget (segment t) ''customer_tier'') PROTECTED_TIERS = Inr protected
        \<and> (autonomy_tier d = ''autonomous'' \<longrightarrow> \<not> high_risk d \<and> \<not> multi_service d \<and> \<not> protected))
   \<and> (set (error_signatures t d) \<inter> set SEVERE_SIGNATURES \<noteq> {} \<longrightarrow> decision_type d = ''escalate'')
   \<and> (decision_type d \<in> set MUTATING_DECISIONS \<longrightarrow> lit 55 100 \<le> evidence \<and> lit 35 100 \<le> history)"
  unfolding hard_stops_of_def Let_def by auto

lemma safety_case_unfold:
  assumes "evaluate_remediation_safety ft t d h prior promptfoo_ok schema_ok policy_ok readiness_ok limit = Inr c"
  obtains evidence history where "evidence_score t d = Inr evidence" "history_score ft h = Inr history"
    "hard_stops_of t d prior evidence history schema_ok policy_ok readiness_ok = Inr (hard_stops c)"
    "case_passed c \<longleftrightarrow> hard_stops c = [] \<and> limit \<le> score c" "threshold c = limit"
    "case_passed c \<longleftrightarrow> verdict c = ''pass''"
  using assms unfolding evaluate_remediation_safety_def Let_def by (auto split: if_splits)

text \<open>C31: what a passed safety case guarantees. The case passes exactly when it has no hard stop and
  its score reaches the threshold; so schema, policy and readiness passed, an autonomous
  action is not of high risk, on several services or on a protected tier, a severe error signature
  is escalated, and a mutation has the evidence and the history it needs.\<close>

theorem remediation_pass_guarantees:
  assumes "evaluate_remediation_safety ft t d h prior promptfoo_ok schema_ok policy_ok readiness_ok limit = Inr c"
  shows "(safety_blocking_reason c = None \<longleftrightarrow> hard_stops c = [] \<and> limit \<le> score c)
    \<and> (safety_blocking_reason c = None \<longrightarrow> schema_ok \<and> policy_ok \<and> readiness_ok
       \<and> (autonomy_tier d = ''autonomous'' \<longrightarrow> \<not> high_risk d \<and> \<not> multi_service d
            \<and> in_set (pget (segment t) ''customer_tier'') PROTECTED_TIERS = Inr False)
       \<and> (\<forall>x \<in> set (error_signatures t d). x \<in> set SEVERE_SIGNATURES \<longrightarrow> decision_type d = ''escalate'')
       \<and> (decision_type d \<in> set MUTATING_DECISIONS \<longrightarrow> (\<exists>evidence history. evidence_score t d = Inr evidence
            \<and> history_score ft h = Inr history \<and> lit 55 100 \<le> evidence \<and> lit 35 100 \<le> history)))"
proof -
  obtain evidence history where c: "evidence_score t d = Inr evidence" "history_score ft h = Inr history"
      "hard_stops_of t d prior evidence history schema_ok policy_ok readiness_ok = Inr (hard_stops c)"
      "case_passed c \<longleftrightarrow> hard_stops c = [] \<and> limit \<le> score c"
    using safety_case_unfold [OF assms] by blast
  have "safety_blocking_reason c = None \<longleftrightarrow> case_passed c" by (simp add: safety_blocking_reason_def)
  moreover have "case_passed c \<Longrightarrow> hard_stops_of t d prior evidence history schema_ok policy_ok readiness_ok = Inr []"
    using c(3,4) by simp
  ultimately show ?thesis using c(1,2,4) unfolding hard_stops_Nil by auto
qed

text \<open>The comment says that blockers of the earlier stages are treated as hard stops; the function does
  not read them: the case is the same whatever they are.\<close>

theorem remediation_ignores_prior_blockers:
  "evaluate_remediation_safety ft t d h prior promptfoo_ok schema_ok policy_ok readiness_ok limit
     = evaluate_remediation_safety ft t d h prior' promptfoo_ok schema_ok policy_ok readiness_ok limit"
  by (simp add: evaluate_remediation_safety_def hard_stops_of_def)

section \<open>An instance\<close>

definition scale_trigger :: Trigger where
  "scale_trigger = \<lparr>trig_id = ''t1'', trigger_type = ''latency'', triggered_at = ''now'', environment = ''prod'', trig_service = ''api'',
     endpoint = ''/'', flag_key = None, current_rollout_pct = None, comparison_window = None, segment = [],
     metrics = [(''p95'', JInt 900)], related_context = [(''post_action_observations'', JObj [(''p95'', JInt 200)])]\<rparr>"

definition risky_decision :: Decision where
  "risky_decision = scale_decision\<lparr>autonomy_tier := ''autonomous'', risk := [(''level'', JStr ''high'')]\<rparr>"

definition risky_case :: "py_exn + RemediationSafetyCase" where
  "risky_case = evaluate_remediation_safety (\<lambda>s. Inl (ValueError s)) scale_trigger risky_decision No_Store [] True True True True
     DEFAULT_THRESHOLD"

lemma risky_case_built: "\<exists>c. risky_case = Inr c"
proof -
  have "is_ok (evidence_score scale_trigger risky_decision)"
    by (simp add: evidence_score_def pack_score_def Let_def risky_decision_def scale_decision_def)
  moreover have "is_ok (action_score risky_decision)"
    by (auto simp: action_score_def at_least_def Let_def risky_decision_def scale_decision_def)
  moreover have tier: "in_set (pget (segment scale_trigger) ''customer_tier'') PROTECTED_TIERS = Inr False"
    by (simp add: scale_trigger_def in_set_def str_in_def)
  ultimately obtain x y z u where "evidence_score scale_trigger risky_decision = Inr x" "action_score risky_decision = Inr y"
      "blast_radius_score scale_trigger risky_decision = Inr z"
      "\<And>e h. hard_stops_of scale_trigger risky_decision [] e h True True True = Inr (u e h)"
    by (auto simp: is_ok_iff blast_radius_score_def hard_stops_of_def Let_def)
  then show ?thesis
    unfolding risky_case_def evaluate_remediation_safety_def history_score_def Let_def by (simp only: ebind_Inr history_source.case) blast
qed

theorem remediation_pass_guarantees_witness:
  "\<exists>c. risky_case = Inr c \<and> safety_blocking_reason c \<noteq> None"
proof -
  obtain c where c: "risky_case = Inr c" using risky_case_built by blast
  have "autonomy_tier risky_decision = ''autonomous''" "high_risk risky_decision"
    by (simp_all add: risky_decision_def high_risk_def)
  then show ?thesis using c remediation_pass_guarantees [OF c [unfolded risky_case_def]] by blast
qed

end
