(* ===== verification/Evidence_Sufficiency.thy ===== *)
theory Evidence_Sufficiency
  imports Remediation_Safety
begin

text \<open>\<open>shared/mesh_runtime/evidence_sufficiency.py\<close>: how much evidence a decision must carry, by the risk
  it declares and by whether its action mutates the target.\<close>

definition MUTATING_ACTIONS :: "string list" where
  "MUTATING_ACTIONS = [''disable_flag'', ''reduce_rollout'', ''rollback_deployment'', ''restart_deployment'', ''scale_deployment'',
     ''patch_resources'', ''restart_systemd_service'', ''investigate_and_patch'']"

definition RISK_MINIMUMS :: "(string \<times> int) list" where
  "RISK_MINIMUMS = [(''low'', 1), (''medium'', 3), (''high'', 4)]"

text \<open>The indices \<open>i\<close> with \<open>P (xs ! i)\<close>, counted from \<open>n\<close>, as reference texts.\<close>

fun indexed_refs :: "string \<Rightarrow> (jval \<Rightarrow> bool) \<Rightarrow> nat \<Rightarrow> jval list \<Rightarrow> string list" where
  "indexed_refs prefix P n [] = []"
| "indexed_refs prefix P n (v # vs) =
     (if P v then [prefix @ ''['' @ int_str (int n) @ '']''] else []) @ indexed_refs prefix P (Suc n) vs"

definition list_refs :: "jobj \<Rightarrow> string \<Rightarrow> string \<Rightarrow> string list" where
  "list_refs payload key prefix = indexed_refs prefix truthy 0 (list_or_empty (pget payload key))"

definition nested_list_refs :: "jobj \<Rightarrow> string \<Rightarrow> string \<Rightarrow> string \<Rightarrow> string list" where
  "nested_list_refs payload key1 key2 prefix = list_refs (obj_or_empty (pget payload key1)) key2 prefix"

definition evidence_pack_of :: "Decision \<Rightarrow> jobj" where
  "evidence_pack_of d = obj_or_empty (pget (reasoning d) ''evidence_pack'')"

definition collect_evidence_refs :: "Trigger \<Rightarrow> Decision \<Rightarrow> py_exn + string list" where
  "collect_evidence_refs t d =
     (let pack = evidence_pack_of d; p = ''decision.reasoning.evidence_pack.'' in
      ebind (py_iter (por (pget (reasoning d) ''evidence'') (JList []))) (\<lambda>evidence.
      Inr (sorted_set
        ((if metrics t \<noteq> [] then [''trigger.metrics''] else [])
         @ (if related_context t \<noteq> [] then [''trigger.related_context''] else [])
         @ indexed_refs ''decision.reasoning.evidence'' (\<lambda>v. case v of JStr s \<Rightarrow> py_strip s \<noteq> [] | _ \<Rightarrow> False) 0 evidence
         @ list_refs pack ''evidence_nodes'' (p @ ''evidence_nodes'')
         @ list_refs pack ''probe_results'' (p @ ''probe_results'')
         @ list_refs pack ''fast_path_signatures'' (p @ ''fast_path_signatures'')
         @ list_refs pack ''citations'' (p @ ''citations'')
         @ nested_list_refs pack ''scenario_analysis'' ''evidence_refs'' (p @ ''scenario_analysis.evidence_refs'')
         @ nested_list_refs pack ''investigation_report'' ''findings'' (p @ ''investigation_report.findings'')
         @ nested_list_refs pack ''investigation_report'' ''root_cause_candidates'' (p @ ''investigation_report.root_cause_candidates'')
         @ (if pget pack ''sufficient'' = JBool True then [p @ ''sufficient''] else [])
         @ (if pget (obj_or_empty (pget pack ''evidence_pack_artifact'')) ''sufficient'' = JBool True
            then [p @ ''evidence_pack_artifact.sufficient''] else [])))))"

definition has_rollback_ref :: "Decision \<Rightarrow> bool" where
  "has_rollback_ref d = truthy (pget (execution_plan d) ''rollback_plan'')"

definition has_structured_evidence :: "Decision \<Rightarrow> bool" where
  "has_structured_evidence d =
     (let pack = evidence_pack_of d in
      pget pack ''sufficient'' = JBool True
    \<or> list_ex (\<lambda>k. truthy (pget pack k)) [''evidence_nodes'', ''probe_results'', ''investigation_report'', ''scenario_analysis''])"

definition risk_tier_of :: "Decision \<Rightarrow> string" where
  "risk_tier_of d = py_lower (py_str (por (pget (risk d) ''level'') (JStr ''high'')))"

definition action_class_of :: "Decision \<Rightarrow> string" where
  "action_class_of d = py_str (por (pget (execution_plan d) ''action'') (JStr (decision_type d)))"

definition mutating_decision :: "Decision \<Rightarrow> bool" where
  "mutating_decision d \<longleftrightarrow> action_class_of d \<in> set MUTATING_ACTIONS \<or> decision_type d \<in> set MUTATING_ACTIONS"

definition required_evidence :: "Decision \<Rightarrow> int" where
  "required_evidence d = (if mutating_decision d then table_get RISK_MINIMUMS (risk_tier_of d) 3 else 1)"

definition sufficiency_notes :: "bool \<Rightarrow> string \<Rightarrow> int \<Rightarrow> string list" where
  "sufficiency_notes mutating tier required =
     [if mutating then ''mutating action'' else ''non-mutating action'', tier @ '' risk requires '' @ int_str required @ '' evidence refs'']"

definition evaluate_evidence_sufficiency :: "schemas \<Rightarrow> Trigger \<Rightarrow> Decision \<Rightarrow> py_exn + jobj" where
  "evaluate_evidence_sufficiency S t d =
     (let tier = risk_tier_of d; mutating = mutating_decision d; required = required_evidence d in
      ebind (collect_evidence_refs t d) (\<lambda>refs.
      let missing = blocked_if (int (length refs) < required) ''minimum_evidence_count''
            @ blocked_if (mutating \<and> tier \<in> {''medium'', ''high''} \<and> \<not> has_rollback_ref d) ''rollback_reference''
            @ blocked_if (mutating \<and> tier = ''high'' \<and> \<not> has_structured_evidence d) ''structured_evidence_pack'';
          packet = [(''schema_version'', JStr ''mesh.evidence_sufficiency.v1''), (''passed'', JBool (missing = [])),
            (''action_class'', JStr (action_class_of d)), (''risk_tier'', JStr tier), (''required_evidence_count'', JInt required),
            (''observed_evidence_count'', JInt (int (length refs))), (''evidence_refs'', JList (map JStr refs)),
            (''missing'', JList (map JStr missing)), (''notes'', JList (map JStr (sufficiency_notes mutating tier required)))]
      in ebind (validate_payload (S ''evidence-sufficiency.schema.json'') (JObj packet)) (\<lambda>_. Inr packet)))"

section \<open>What sufficiency means\<close>

lemma collect_distinct: "collect_evidence_refs t d = Inr refs \<Longrightarrow> distinct refs \<and> sorted refs"
  unfolding collect_evidence_refs_def Let_def by auto

text \<open>Evidence is sufficient exactly when enough distinct references are present for the risk of
  the decision, a mutation of medium or high risk has a rollback plan, and one of high risk has
  a structured evidence pack. A decision without a risk level counts as high risk.\<close>

theorem evidence_sufficient_iff:
  assumes "evaluate_evidence_sufficiency S t d = Inr packet"
  shows "\<exists>refs. collect_evidence_refs t d = Inr refs \<and> distinct refs \<and> sorted refs
    \<and> (pget packet ''passed'' = JBool True \<longleftrightarrow>
        required_evidence d \<le> int (length refs)
      \<and> (mutating_decision d \<and> risk_tier_of d \<in> {''medium'', ''high''} \<longrightarrow> has_rollback_ref d)
      \<and> (mutating_decision d \<and> risk_tier_of d = ''high'' \<longrightarrow> has_structured_evidence d))
    \<and> (mutating_decision d \<and> \<not> truthy (pget (risk d) ''level'') \<longrightarrow> required_evidence d = 4)"
proof -
  obtain refs where r: "collect_evidence_refs t d = Inr refs"
    using assms unfolding evaluate_evidence_sufficiency_def Let_def by auto
  have "risk_tier_of d = ''high''" if "\<not> truthy (pget (risk d) ''level'')"
    using that by (simp add: risk_tier_of_def por_def) code_simp
  then have "mutating_decision d \<and> \<not> truthy (pget (risk d) ''level'') \<longrightarrow> required_evidence d = 4"
    by (auto simp: required_evidence_def table_get_def RISK_MINIMUMS_def)
  moreover have "pget packet ''passed'' = JBool (required_evidence d \<le> int (length refs)
      \<and> (mutating_decision d \<and> risk_tier_of d \<in> {''medium'', ''high''} \<longrightarrow> has_rollback_ref d)
      \<and> (mutating_decision d \<and> risk_tier_of d = ''high'' \<longrightarrow> has_structured_evidence d))"
    using assms unfolding evaluate_evidence_sufficiency_def Let_def r ebind_Inr by auto
  ultimately show ?thesis using r collect_distinct [OF r] by simp
qed

definition scale_sufficiency :: "py_exn + jobj" where
  "scale_sufficiency = evaluate_evidence_sufficiency (\<lambda>_. []) scale_trigger scale_decision"

theorem evidence_sufficient_iff_witness:
  "\<exists>packet. scale_sufficiency = Inr packet \<and> pget packet ''passed'' \<noteq> JBool True"
proof -
  have "is_ok scale_sufficiency" "mutating_decision scale_decision" "risk_tier_of scale_decision = ''high''" "\<not> has_rollback_ref scale_decision"
    by code_simp+
  then show ?thesis
    using evidence_sufficient_iff unfolding is_ok_iff scale_sufficiency_def by blast
qed

end
