(* ===== verification/Trajectory.thy ===== *)
theory Trajectory
  imports Evidence_Sufficiency Merkle
begin

text \<open>
  \<open>services/evaluation/mesh_evaluator.py\<close> and \<open>shared/mesh_runtime/temperature_policy.py\<close>: the trace of a
  task, the behavioural score and the verifier over it, the summary of the contract checks, and
  the sampling temperature that goes with a trace. Traces are JSON data. An event of a run
  is a dictionary or a \<open>RunEvent\<close>.
\<close>

section \<open>Events\<close>

datatype event_arg = Ev_Dict jobj | Ev_Run RunEvent

definition run_event_to_dict :: "RunEvent \<Rightarrow> jobj" where
  "run_event_to_dict e =
     [(''event_id'', JStr (ev_event_id e)), (''run_id'', JStr (ev_run_id e)), (''sequence'', JInt (ev_sequence e)),
      (''stage'', JStr (ev_stage e)), (''event_type'', JStr (ev_event_type e)), (''recorded_at'', JStr (ev_recorded_at e)),
      (''payload'', JObj (ev_payload e)), (''summary'', case ev_summary e of None \<Rightarrow> JNull | Some s \<Rightarrow> JObj s),
      (''merkle_leaf_hash'', opt_str (ev_merkle_leaf_hash e)), (''artifact_key'', opt_str (ev_artifact_key e)),
      (''integration_name'', opt_str (ev_integration_name e)), (''status'', opt_str (ev_status e))]"

fun event_to_dict :: "event_arg \<Rightarrow> jobj" where
  "event_to_dict (Ev_Dict d) = d"
| "event_to_dict (Ev_Run e) = run_event_to_dict e"

text \<open>\<open>events.sort(key=...)\<close>: numbers or texts as keys; keys that do not compare raise.\<close>

definition seq_of :: "jobj \<Rightarrow> jval" where
  "seq_of e = pget_or e ''sequence'' (JInt 0)"

definition sort_events :: "jobj list \<Rightarrow> py_exn + jobj list" where
  "sort_events es =
     (if length es \<le> 1 then Inr es
      else if list_all (\<lambda>e. num_of (seq_of e) \<noteq> None) es
      then Inr (sort_key (\<lambda>e. case num_of (seq_of e) of Some r \<Rightarrow> r | None \<Rightarrow> 0) es)
      else if list_all (\<lambda>e. is_str (seq_of e)) es
      then Inr (sort_key (\<lambda>e. case seq_of e of JStr s \<Rightarrow> s | _ \<Rightarrow> []) es)
      else Inl (TypeError ''< not supported''))"

definition jget :: "jval \<Rightarrow> string \<Rightarrow> jval" where
  "jget v k = (case v of JObj d \<Rightarrow> pget d k | _ \<Rightarrow> JNull)"

section \<open>The trace\<close>

definition TOOL_EVENTS :: "string list" where
  "TOOL_EVENTS = [''evidence_probe_completed'', ''subdecision_recorded'', ''agent_task_recorded'', ''execution_recorded'']"

fun tool_event_calls :: "jobj list \<Rightarrow> py_exn + jval list" where
  "tool_event_calls [] = Inr []"
| "tool_event_calls (e # es) =
     ebind (in_set (pget e ''event_type'') TOOL_EVENTS) (\<lambda>hit.
     ebind (tool_event_calls es) (\<lambda>cs.
     Inr (if hit then JObj [(''stage'', pget e ''stage''), (''event_type'', pget e ''event_type''),
            (''artifact_key'', pget e ''artifact_key''), (''summary'', pget e ''summary'')] # cs else cs)))"

definition tool_calls :: "jobj list \<Rightarrow> jval \<Rightarrow> py_exn + jval list" where
  "tool_calls events execution =
     ebind (tool_event_calls events) (\<lambda>calls.
     Inr (calls @ (case jget execution ''applied_action'' of
         JObj a \<Rightarrow> [JObj [(''stage'', JStr ''executing''), (''event_type'', JStr ''applied_action''), (''summary'', JObj a)]]
       | _ \<Rightarrow> [])))"

definition failure_cause :: "jval \<Rightarrow> jval \<Rightarrow> jval \<Rightarrow> jval" where
  "failure_cause evaluation execution feedback =
     (case jget evaluation ''blocking_reasons'' of
        JList (r # rs) \<Rightarrow> JStr (py_str r)
      | _ \<Rightarrow>
        if truthy (jget execution ''failure'') then JStr (py_str (jget execution ''failure''))
        else if is_obj feedback \<and> \<not> (jget feedback ''outcome'' = JNull \<or> jget feedback ''outcome'' = JStr ''successful'')
        then JStr (py_str (jget feedback ''outcome''))
        else JNull)"

definition build_trace ::
  "jobj \<Rightarrow> jobj \<Rightarrow> jval \<Rightarrow> jval \<Rightarrow> jval \<Rightarrow> event_arg list \<Rightarrow> jobj \<Rightarrow> py_exn + jobj" where
  "build_trace trigger decision evaluation execution feedback run_events artifacts =
     ebind (sort_events (map event_to_dict run_events)) (\<lambda>events.
     let trigger_payload = por (JObj trigger) (pget artifacts ''trigger'');
         decision_payload = por (JObj decision) (pget artifacts ''decision'');
         decision_reasoning = (if is_obj decision_payload then pget_or (obj_or_empty decision_payload) ''reasoning'' (JObj []) else JObj []);
         reasoning_evidence = (if is_obj decision_reasoning then pget_or (obj_or_empty decision_reasoning) ''evidence_pack'' (JObj []) else JObj []);
         evaluation_payload = por evaluation (pget artifacts ''evaluation'');
         execution_payload = por execution (pget artifacts ''execution'');
         feedback_payload = por feedback (pget artifacts ''feedback'')
     in ebind (tool_calls events execution_payload) (\<lambda>calls.
     Inr [(''trace_version'', JStr ''mesh_task_trace_v1''),
          (''mesh_eval'', pget artifacts ''mesh_eval''),
          (''task'', JObj [(''trigger_id'', jget trigger_payload ''trigger_id''), (''trigger_type'', jget trigger_payload ''trigger_type''),
             (''service'', jget trigger_payload ''service''), (''endpoint'', jget trigger_payload ''endpoint'')]),
          (''context'', JObj [(''evidence_pack'', por (pget artifacts ''evidence_pack'') reasoning_evidence),
             (''reasoning_bank_packet'', pget artifacts ''reasoning_bank_packet''),
             (''scenario_analysis'', por (pget artifacts ''scenario_analysis'') (jget reasoning_evidence ''scenario_analysis'')),
             (''service_agent'', pget artifacts ''service_agent'')]),
          (''decision'', decision_payload),
          (''evaluation'', evaluation_payload),
          (''execution'', execution_payload),
          (''feedback'', feedback_payload),
          (''events'', JList (map JObj events)),
          (''tool_calls'', JList calls),
          (''failure_cause'', failure_cause evaluation_payload execution_payload feedback_payload)]))"

section \<open>Temperatures\<close>

definition T_MIN :: rat where "T_MIN = lit 5 100"

definition T_MAX :: rat where "T_MAX = lit 70 100"

definition unit_of :: "rat \<Rightarrow> rat" where
  "unit_of x = max 0 (min 1 x)"

definition clamp_temperature :: "rat \<Rightarrow> rat" where
  "clamp_temperature x = max T_MIN (min T_MAX x)"

definition FIXED_TEMPERATURES :: "(string \<times> rat) list" where
  "FIXED_TEMPERATURES = [(''verifier'', 0), (''judge'', 0), (''scorer'', 0), (''tool_executor'', lit 10 100), (''memory_distiller'', lit 20 100)]"

definition fixed_temperature :: "string \<Rightarrow> jobj" where
  "fixed_temperature component =
     [(''component'', JStr component), (''temperature'', JFloat (table_get FIXED_TEMPERATURES component 0)),
      (''policy'', JStr ''fixed_component_v1''), (''acceptance'', JStr ''deterministic_verifier_required'')]"

text \<open>The six inputs, in the order of \<open>TemperatureInputs\<close>.\<close>

record temperature_inputs =
  novelty :: rat
  ambiguity :: rat
  search_need :: rat
  risk_input :: rat
  contract_strictness :: rat
  prior_failure_similarity :: rat

definition normalized :: "temperature_inputs \<Rightarrow> temperature_inputs" where
  "normalized i = \<lparr>novelty = unit_of (novelty i), ambiguity = unit_of (ambiguity i), search_need = unit_of (search_need i),
     risk_input = unit_of (risk_input i), contract_strictness = unit_of (contract_strictness i),
     prior_failure_similarity = unit_of (prior_failure_similarity i)\<rparr>"

definition raw_temperature :: "temperature_inputs \<Rightarrow> rat" where
  "raw_temperature i =
     (let t = (\<lambda>w x. fl (lit w 100 * x)) in
      fadd (fadd (fadd (fadd (fadd (fadd (lit 20 100) (t 20 (novelty i))) (t 15 (ambiguity i))) (t 20 (search_need i)))
        (- t 30 (risk_input i))) (- t 25 (contract_strictness i))) (- t 25 (prior_failure_similarity i)))"

definition generator_temperature :: "temperature_inputs \<Rightarrow> jobj" where
  "generator_temperature inputs =
     (let i = normalized inputs; raw = raw_temperature i in
      [(''temperature'', JFloat (clamp_temperature raw)), (''raw_temperature'', JFloat raw),
       (''min'', JFloat T_MIN), (''max'', JFloat T_MAX),
       (''inputs'', JObj [(''novelty'', JFloat (novelty i)), (''ambiguity'', JFloat (ambiguity i)), (''search_need'', JFloat (search_need i)),
          (''risk'', JFloat (risk_input i)), (''contract_strictness'', JFloat (contract_strictness i)),
          (''prior_failure_similarity'', JFloat (prior_failure_similarity i))]),
       (''policy'', JStr ''dynamic_generator_v1''), (''acceptance'', JStr ''deterministic_verifier_required'')])"

text \<open>\<open>_nested(payload, *keys)\<close>\<close>

fun nested :: "jval \<Rightarrow> string list \<Rightarrow> jval" where
  "nested v [] = v"
| "nested v (k # ks) = nested (jget v k) ks"

text \<open>\<open>value in {...}\<close> raises on a value without a hash, and so does a table lookup.\<close>

definition temperature_policy_for_trace :: "(string \<Rightarrow> py_exn + rat) \<Rightarrow> jobj \<Rightarrow> py_exn + jobj" where
  "temperature_policy_for_trace ft trace =
     (let decision = obj_or_empty (pget trace ''decision'');
          context = obj_or_empty (pget trace ''context'');
          packet = pget context ''reasoning_bank_packet'';
          risk_level = py_str (por (nested (JObj decision) [''risk'', ''level'']) (JStr ''medium''));
          prior = (if list_ex (\<lambda>k. truthy (jget packet k)) [''claims'', ''procedures'', ''contradictions''] then lit 80 100 else 0) in
      ebind (in_set (nested (JObj decision) [''execution_plan'', ''system'']) [''kubernetes_service'', ''systemd_service'']) (\<lambda>strict.
      ebind (py_float ft (por (pget_or decision ''confidence'' (JFloat (lit 50 100))) (JFloat (lit 50 100)))) (\<lambda>sure.
      Inr (generator_temperature
        \<lparr>novelty = (if prior \<noteq> 0 then lit 30 100 else lit 70 100), ambiguity = fadd 1 (- sure),
         search_need = (if \<not> truthy (pget context ''evidence_pack'') then lit 60 100 else lit 20 100),
         risk_input = table_get [(''low'', lit 20 100), (''medium'', lit 50 100), (''high'', 1)] risk_level (lit 50 100),
         contract_strictness = (if strict then 1 else lit 50 100), prior_failure_similarity = prior\<rparr>))))"

section \<open>Contract checks\<close>

definition stage_passed :: "jval \<Rightarrow> bool" where
  "stage_passed stage = (case stage of
      JObj d \<Rightarrow> if phas d ''passed'' then truthy (pget d ''passed'') else \<not> truthy (pget d ''hard_stops'')
    | _ \<Rightarrow> False)"

definition summarize_contracts :: "jobj \<Rightarrow> jobj \<Rightarrow> jobj \<Rightarrow> jobj \<Rightarrow> jobj \<Rightarrow> jobj" where
  "summarize_contracts schema_stage policy_stage rules_stage readiness_stage safety_stage =
     (let checks = [(''schema_validation'', JObj schema_stage), (''policy_validation'', JObj policy_stage),
            (''business_rules'', JObj rules_stage), (''execution_readiness'', JObj readiness_stage),
            (''remediation_safety'', JObj safety_stage)];
          ok = list_all (\<lambda>(k, v). stage_passed v) checks
      in [(''passed'', JBool ok), (''score'', JFloat (if ok then 1 else 0)),
          (''temperature'', JObj (fixed_temperature ''verifier'')), (''checks'', JObj checks)])"

section \<open>The behavioural score\<close>

record TraceScore =
  ts_passed :: bool
  ts_score :: rat
  ts_notes :: "string list"
  ts_artifacts :: jobj

record scorer_item =
  si_name :: string
  si_passed :: bool
  si_blocking :: bool
  si_score :: rat
  si_note :: string
  si_refs :: "jval list"

definition item_to_dict :: "scorer_item \<Rightarrow> jobj" where
  "item_to_dict i = [(''name'', JStr (si_name i)), (''passed'', JBool (si_passed i)), (''blocking'', JBool (si_blocking i)),
     (''score'', JFloat (si_score i)), (''note'', JStr (si_note i)), (''evidence_refs'', JList (si_refs i))]"

definition EVIDENCE_EVENTS :: "string list" where
  "EVIDENCE_EVENTS = [''evidence_pack_ready'', ''evidence_probe_completed'', ''evidence_node_recorded'']"

text \<open>\<open>any(event.get("event_type") in {...} for event in events if isinstance(event, dict))\<close>\<close>

fun any_event :: "jval list \<Rightarrow> py_exn + bool" where
  "any_event [] = Inr False"
| "any_event (v # vs) = (case v of
      JObj e \<Rightarrow> ebind (in_set (pget e ''event_type'') EVIDENCE_EVENTS) (\<lambda>hit. if hit then Inr True else any_event vs)
    | _ \<Rightarrow> any_event vs)"

fun event_refs :: "jval list \<Rightarrow> py_exn + jval list" where
  "event_refs [] = Inr []"
| "event_refs (v # vs) =
     ebind (as_obj v) (\<lambda>e.
     ebind (in_set (pget e ''event_type'') EVIDENCE_EVENTS) (\<lambda>hit.
     ebind (event_refs vs) (\<lambda>rs.
     Inr (if hit then JObj [(''event_id'', pget e ''event_id''), (''stage'', pget e ''stage''),
            (''event_type'', pget e ''event_type''), (''artifact_key'', pget e ''artifact_key'')] # rs else rs))))"

definition trace_context :: "jobj \<Rightarrow> jobj" where
  "trace_context trace = obj_or_empty (pget trace ''context'')"

definition trace_action :: "jobj \<Rightarrow> jval" where
  "trace_action trace = nested (JObj (obj_or_empty (pget trace ''decision''))) [''execution_plan'', ''action'']"

definition has_kubernetes_diagnostic_context :: "jobj \<Rightarrow> bool" where
  "has_kubernetes_diagnostic_context trace =
     (let task = obj_or_empty (pget trace ''task''); pack = pget (trace_context trace) ''evidence_pack'' in
      pget task ''trigger_type'' \<noteq> JStr ''kubernetes_deployment_unhealthy''
    \<or> list_ex (\<lambda>k. truthy (jget pack k)) [''probe_results'', ''fast_path_signatures'', ''evidence_nodes'']
    \<or> truthy (nested (pget trace ''decision'') [''reasoning'', ''evidence'']))"

definition blind_restart :: "jobj \<Rightarrow> bool" where
  "blind_restart trace \<longleftrightarrow> trace_action trace = JStr ''restart_deployment'' \<and> \<not> has_kubernetes_diagnostic_context trace"

definition evidence_inspection :: "jobj \<Rightarrow> py_exn + scorer_item" where
  "evidence_inspection trace =
     (let pack = pget (trace_context trace) ''evidence_pack''; events = list_or_empty (pget trace ''events'') in
      ebind (if truthy pack then Inr True else any_event events) (\<lambda>inspected.
      ebind (event_refs events) (\<lambda>refs.
      Inr \<lparr>si_name = ''evidence_inspection'', si_passed = inspected, si_blocking = True, si_score = (if inspected then 1 else 0),
           si_note = (if inspected then ''agent inspected evidence'' else ''agent reached evaluation without evidence inspection''),
           si_refs = refs\<rparr>)))"

definition tool_sequence :: "jobj \<Rightarrow> scorer_item" where
  "tool_sequence trace =
     (let ok = (truthy (trace_action trace) \<and> \<not> blind_restart trace) in
      \<lparr>si_name = ''tool_sequence'', si_passed = ok, si_blocking = True, si_score = (if ok then 1 else 0),
       si_note = (if ok then ''tool/action sequence matches task context''
                  else ''tool/action sequence is missing or restarts without diagnostic context''),
       si_refs = list_or_empty (pget trace ''tool_calls'')\<rparr>)"

definition known_failure_avoidance :: "jobj \<Rightarrow> scorer_item" where
  "known_failure_avoidance trace =
     (let packet = pget (trace_context trace) ''reasoning_bank_packet'';
          guardrails = list_or_empty (jget packet ''claims'') @ list_or_empty (jget packet ''contradictions'');
          ok = (\<not> blind_restart trace) in
      \<lparr>si_name = ''known_failure_avoidance'', si_passed = ok, si_blocking = True, si_score = (if ok then 1 else 0),
       si_note = (if ok then ''known failure modes avoided'' else ''known blind restart failure mode was not avoided''),
       si_refs = map (\<lambda>v. JObj [(''claim_id'', jget v ''claim_id''), (''statement'', jget v ''statement'')])
         (filter is_obj (take 5 guardrails))\<rparr>)"

text \<open>\<open>value in {None, ...}\<close>\<close>

definition in_set_opt :: "jval \<Rightarrow> string list \<Rightarrow> py_exn + bool" where
  "in_set_opt v ss = ebind (in_set v ss) (\<lambda>b. Inr (b \<or> v = JNull))"

definition both_in :: "py_exn + bool \<Rightarrow> py_exn + bool \<Rightarrow> py_exn + bool" where
  "both_in a b = ebind a (\<lambda>x. if x then b else Inr False)"

definition system_outcome :: "jobj \<Rightarrow> py_exn + scorer_item" where
  "system_outcome trace =
     (let execution = obj_or_empty (pget trace ''execution''); feedback = obj_or_empty (pget trace ''feedback'') in
      if execution = [] \<and> feedback = [] then
        Inr \<lparr>si_name = ''system_outcome'', si_passed = True, si_blocking = False, si_score = 1 / 2,
             si_note = ''outcome pending at evaluation gate'', si_refs = []\<rparr>
      else
        ebind (both_in (in_set_opt (pget execution ''status'') [''succeeded'', ''rejected''])
                 (in_set_opt (pget feedback ''outcome'') [''successful'', ''rolled_back''])) (\<lambda>ok.
        Inr \<lparr>si_name = ''system_outcome'', si_passed = ok, si_blocking = False, si_score = (if ok then 1 else 0),
             si_note = (if ok then ''system outcome matches verifier state'' else ''system outcome indicates failed execution or feedback''),
             si_refs = [JObj [(''artifact_key'', JStr ''execution''), (''status'', pget execution ''status'')],
                        JObj [(''artifact_key'', JStr ''feedback''), (''outcome'', pget feedback ''outcome'')]]\<rparr>))"

text \<open>The four scores are 0, 1/2 or 1, so their sum is exact.\<close>

definition score_trace :: "jobj \<Rightarrow> py_exn + TraceScore" where
  "score_trace trace =
     ebind (evidence_inspection trace) (\<lambda>a.
     ebind (system_outcome trace) (\<lambda>d.
     let items = [a, tool_sequence trace, known_failure_avoidance trace, d] in
     Inr \<lparr>ts_passed = list_all si_passed (filter si_blocking items),
          ts_score = py_round 4 (fl (sum_list (map si_score items) / 4)),
          ts_notes = map si_note items,
          ts_artifacts = [(''scorers'', JList (map (JObj \<circ> item_to_dict) items)), (''temperature'', JObj (fixed_temperature ''scorer''))]\<rparr>))"

section \<open>The verifier\<close>

definition verify_trace :: "jobj \<Rightarrow> py_exn + jobj" where
  "verify_trace trace =
     (let execution = obj_or_empty (pget trace ''execution''); feedback = obj_or_empty (pget trace ''feedback'');
          evaluation = obj_or_empty (pget trace ''evaluation''); pending = (execution = [] \<and> feedback = []) in
      ebind (if pending then Inr True
             else both_in (in_set (pget execution ''status'') [''succeeded'', ''rejected''])
                    (in_set (pget feedback ''outcome'') [''successful'', ''rolled_back'', ''not_executed''])) (\<lambda>ok.
      Inr [(''passed'', JBool ok), (''score'', JFloat (if ok then 1 else 0)), (''temperature'', JObj (fixed_temperature ''verifier'')),
           (''facts'', JObj [(''evaluation_recommendation'', pget evaluation ''final_recommendation''),
              (''evaluation_passed'', pget evaluation ''passed''), (''execution_status'', pget execution ''status''),
              (''feedback_outcome'', pget feedback ''outcome'')]),
           (''notes'', JList [JStr (if pending then ''post-action verifier pending''
              else if ok then ''verifier accepted observed state'' else ''verifier rejected observed state'')])]))"

section \<open>What a passing trajectory means\<close>

lemma score_trace_passed:
  assumes "score_trace trace = Inr sc"
  shows "ts_passed sc \<longleftrightarrow>
     (truthy (pget (trace_context trace) ''evidence_pack'') \<or> any_event (list_or_empty (pget trace ''events'')) = Inr True)
   \<and> truthy (trace_action trace) \<and> \<not> blind_restart trace"
proof -
  obtain a d where a: "evidence_inspection trace = Inr a" and d: "system_outcome trace = Inr d"
    and sc: "ts_passed sc \<longleftrightarrow> list_all si_passed (filter si_blocking [a, tool_sequence trace, known_failure_avoidance trace, d])"
    using assms by (auto simp: score_trace_def Let_def)
  have "\<not> si_blocking d" using d by (auto simp: system_outcome_def Let_def split: if_splits)
  moreover have "si_blocking a" "si_passed a \<longleftrightarrow> truthy (pget (trace_context trace) ''evidence_pack'')
      \<or> any_event (list_or_empty (pget trace ''events'')) = Inr True"
    using a by (auto simp: evidence_inspection_def Let_def split: if_splits)
  ultimately show ?thesis by (auto simp: sc tool_sequence_def known_failure_avoidance_def Let_def)
qed

lemma build_trace_fields:
  assumes "build_trace t d ev ex fb es arts = Inr trace" and "d \<noteq> []"
  shows "pget trace ''decision'' = JObj d"
    and "pget (trace_context trace) ''evidence_pack'' = por (pget arts ''evidence_pack'')
          (if is_obj (pget_or d ''reasoning'' (JObj [])) then pget_or (obj_or_empty (pget_or d ''reasoning'' (JObj []))) ''evidence_pack'' (JObj []) else JObj [])"
  using assms by (auto simp: build_trace_def Let_def trace_context_def por_def pget_def)

end
