(* ===== verification/Review_Blockers.thy ===== *)
theory Review_Blockers
  imports Py_Env "HOL-Library.Multiset"
begin

text \<open>
  \<open>shared/mesh_runtime/review_blockers.py\<close>: the blocking reasons of an evaluation, sorted into those
  that end it, those that more evidence can clear, and the rest. A loop that appends each reason
  to one of several lists is written as the lists it builds.
\<close>

section \<open>Patterns\<close>

definition TERMINAL_REVIEW_PATTERNS :: "string list" where
  "TERMINAL_REVIEW_PATTERNS = [''recent rollback cooldown is active'', ''signal indicates multi-service impact'',
     ''signal indicates high business impact'', ''required execution credentials are unavailable'',
     ''cross-run correlation requires approval'', ''correlated failure type is'', ''unclassified trigger type'']"

definition RECOVERABLE_REVIEW_PATTERNS :: "string list" where
  "RECOVERABLE_REVIEW_PATTERNS = [''conflicting signals are present'', ''historical success rate is weak for'',
     ''no source run event ids available for analysis provenance'', ''kubernetes trigger lacks error signatures'']"

definition TERMINAL_BLOCKER_PATTERNS :: "string list" where
  "TERMINAL_BLOCKER_PATTERNS = [''decision type falls outside the allowed action set'',
     ''execution plan falls outside the allowed action set'', ''duplicate evaluation suppressed for trigger_id'',
     ''scope requires approval before execution'', ''decision routes to human review'', ''recent rollback cooldown conflict'',
     ''risk level is high'', ''action is not idempotent'', ''rollback parameters are missing'',
     ''required credentials are unavailable'', ''remediation safety case has hard stops'']"

definition RECOVERABLE_BLOCKER_PATTERNS :: "string list" where
  "RECOVERABLE_BLOCKER_PATTERNS = [''trajectory quality gate did not pass'', ''confidence below minimum threshold'',
     ''remediation safety score below execution threshold'', ''repo path is missing or does not exist'',
     ''allowed repo patch paths are missing'', ''bounded test commands are missing'', ''patch template is missing'',
     ''patch template field `'']"

definition RETRY_HINTS :: "(string \<times> string) list" where
  "RETRY_HINTS =
     [(''trajectory quality gate did not pass'',
       ''Expand grounded evidence and rerun the Mesh trajectory scorer against the updated run context.''),
      (''confidence below minimum threshold'',
       ''Add corroborating evidence from prior runs, active memory, or historical outcomes before reevaluating.''),
      (''conflicting signals are present'',
       ''Collect corroborating evidence to disambiguate the conflicting telemetry before rerunning.''),
      (''historical success rate is weak for'',
       ''Bring in stronger verification or service-specific prior cases before retrying the action.''),
      (''no source run event ids available for analysis provenance'',
       ''Preserve run-event provenance on the next attempt so the analysis can cite source evidence.''),
      (''kubernetes trigger lacks error signatures'', ''Collect fresh rollout event signatures or pod symptoms before retrying.''),
      (''repo path is missing or does not exist'', ''Restore bounded repo context before relaunching the remediation run.''),
      (''allowed repo patch paths are missing'', ''Attach bounded repo patch paths before retrying.''),
      (''bounded test commands are missing'', ''Attach bounded verification commands before retrying.''),
      (''patch template is missing'', ''Attach a bounded patch template before retrying.''),
      (''patch template field `'', ''Fill in the missing bounded patch template fields before retrying.'')]"

definition APPROVAL_REASONS :: "string list" where
  "APPROVAL_REASONS = [''approval required before execution'', ''approval_required_before_execution'']"

fun first_match :: "string \<Rightarrow> string list \<Rightarrow> string option" where
  "first_match lowered [] = None"
| "first_match lowered (p # ps) = (if contains_str lowered (py_lower p) then Some p else first_match lowered ps)"

definition matches :: "string \<Rightarrow> string list \<Rightarrow> string option" where
  "matches reason patterns = first_match (py_lower (py_strip reason)) patterns"

abbreviation matched :: "string \<Rightarrow> string list \<Rightarrow> bool" where
  "matched reason patterns \<equiv> matches reason patterns \<noteq> None"

definition nonblank_reasons :: "string list \<Rightarrow> string list" where
  "nonblank_reasons rs = filter (\<lambda>r. r \<noteq> []) (map py_strip rs)"

section \<open>Review reasons\<close>

record review_analysis =
  terminal_review :: "string list"
  recoverable_review :: "string list"
  unclassified_review :: "string list"
  review_auto :: bool

definition classify_review_reasons :: "string list \<Rightarrow> review_analysis" where
  "classify_review_reasons review_reasons =
     (let rs = nonblank_reasons review_reasons;
          terminal = filter (\<lambda>r. matched r TERMINAL_REVIEW_PATTERNS) rs;
          recoverable = filter (\<lambda>r. \<not> matched r TERMINAL_REVIEW_PATTERNS \<and> matched r RECOVERABLE_REVIEW_PATTERNS) rs;
          unclassified = filter (\<lambda>r. \<not> matched r TERMINAL_REVIEW_PATTERNS \<and> \<not> matched r RECOVERABLE_REVIEW_PATTERNS) rs
      in \<lparr>terminal_review = terminal, recoverable_review = recoverable, unclassified_review = unclassified,
          review_auto = (recoverable \<noteq> [] \<and> terminal = [] \<and> unclassified = [])\<rparr>)"

definition review_to_dict :: "review_analysis \<Rightarrow> jobj" where
  "review_to_dict a =
     [(''terminal_review_reasons'', JList (map JStr (terminal_review a))),
      (''recoverable_review_reasons'', JList (map JStr (recoverable_review a))),
      (''unclassified_review_reasons'', JList (map JStr (unclassified_review a))),
      (''can_auto_remediate'', JBool (review_auto a))]"

section \<open>Blocking reasons\<close>

datatype blocker_class = Terminal_Blocker | Recoverable_Blocker | Unclassified_Blocker

definition classify_blocker :: "review_analysis \<Rightarrow> string \<Rightarrow> blocker_class" where
  "classify_blocker review r =
     (if r \<in> set APPROVAL_REASONS then (if review_auto review then Recoverable_Blocker else Terminal_Blocker)
      else if matched r TERMINAL_BLOCKER_PATTERNS then Terminal_Blocker
      else if matched r RECOVERABLE_BLOCKER_PATTERNS then Recoverable_Blocker
      else if r \<in> set (recoverable_review review) then Recoverable_Blocker
      else if r \<in> set (terminal_review review) \<or> r \<in> set (unclassified_review review) then Terminal_Blocker
      else Unclassified_Blocker)"

fun retry_hints :: "string list \<Rightarrow> string list \<Rightarrow> string list" where
  "retry_hints hints [] = hints"
| "retry_hints hints (r # rs) =
     (case matches r (map fst RETRY_HINTS) of
        None \<Rightarrow> retry_hints hints rs
      | Some p \<Rightarrow>
          (let hint = (case map_of RETRY_HINTS p of Some h \<Rightarrow> h | None \<Rightarrow> [])
           in retry_hints (if hint \<in> set hints then hints else hints @ [hint]) rs))"

record blocker_analysis =
  terminal_blockers :: "string list"
  recoverable_blockers :: "string list"
  derived_blockers :: "string list"
  unclassified_blockers :: "string list"
  review_reason_analysis :: review_analysis
  can_auto_remediate :: bool
  recommended_route :: string
  analysis_hints :: "string list"

definition classify_blocking_reasons :: "string list \<Rightarrow> string list \<Rightarrow> blocker_analysis" where
  "classify_blocking_reasons reasons scenario_review_reasons =
     (let review = classify_review_reasons scenario_review_reasons;
          rs = nonblank_reasons reasons;
          terminal = filter (\<lambda>r. classify_blocker review r = Terminal_Blocker) rs;
          recoverable = filter (\<lambda>r. classify_blocker review r = Recoverable_Blocker) rs;
          unclassified = filter (\<lambda>r. classify_blocker review r = Unclassified_Blocker) rs;
          auto_ok = (recoverable \<noteq> [] \<and> terminal = [] \<and> unclassified = [])
      in \<lparr>terminal_blockers = terminal, recoverable_blockers = recoverable,
          derived_blockers = filter (\<lambda>r. r \<in> set APPROVAL_REASONS) rs, unclassified_blockers = unclassified,
          review_reason_analysis = review, can_auto_remediate = auto_ok,
          recommended_route = (if auto_ok then ''needs_more_evidence'' else if reasons \<noteq> [] then ''human_review'' else ''execute''),
          analysis_hints = retry_hints [] recoverable\<rparr>)"

definition blockers_to_dict :: "blocker_analysis \<Rightarrow> jobj" where
  "blockers_to_dict a =
     [(''terminal_blockers'', JList (map JStr (terminal_blockers a))),
      (''recoverable_blockers'', JList (map JStr (recoverable_blockers a))),
      (''derived_blockers'', JList (map JStr (derived_blockers a))),
      (''unclassified_blockers'', JList (map JStr (unclassified_blockers a))),
      (''review_reason_analysis'', JObj (review_to_dict (review_reason_analysis a))),
      (''can_auto_remediate'', JBool (can_auto_remediate a)),
      (''recommended_route'', JStr (recommended_route a)),
      (''retry_hints'', JList (map JStr (analysis_hints a)))]"

section \<open>What the classification means\<close>

lemma first_match_iff: "first_match s ps \<noteq> None \<longleftrightarrow> (\<exists>p \<in> set ps. contains_str s (py_lower p))"
  by (induction ps) auto

lemma count_partition:
  assumes "\<And>x. (P x \<or> Q x \<or> R x) \<and> \<not> (P x \<and> Q x) \<and> \<not> (P x \<and> R x) \<and> \<not> (Q x \<and> R x)"
  shows "mset (filter P xs) + mset (filter Q xs) + mset (filter R xs) = mset xs"
  by (induction xs) (use assms in auto)

lemma hints_distinct: "distinct hints \<Longrightarrow> distinct (retry_hints hints rs)"
  by (induction hints rs rule: retry_hints.induct) (auto simp: Let_def split: option.split)

lemma classify_blocker_cases:
  "classify_blocker R r \<noteq> Terminal_Blocker \<Longrightarrow> classify_blocker R r \<noteq> Unclassified_Blocker \<Longrightarrow> classify_blocker R r = Recoverable_Blocker"
  by (cases "classify_blocker R r") auto

text \<open>Every blocking reason is classified once. The terminal, recoverable and unclassified blockers
  together are the nonblank reasons, each as often as it was given; an automatic retry is offered
  only when every one of them is recoverable, so never with a terminal pattern among them and
  never for an approval unless the review itself is recoverable; and the route is to execute only
  when nothing blocks.\<close>

theorem blockers_classified:
  "let a = classify_blocking_reasons reasons review in
     mset (terminal_blockers a) + mset (recoverable_blockers a) + mset (unclassified_blockers a) = mset (nonblank_reasons reasons)
   \<and> (can_auto_remediate a \<longrightarrow> nonblank_reasons reasons \<noteq> []
        \<and> (\<forall>r \<in> set (nonblank_reasons reasons). classify_blocker (classify_review_reasons review) r = Recoverable_Blocker))
   \<and> (can_auto_remediate a \<longrightarrow> (\<forall>r \<in> set (nonblank_reasons reasons).
        if r \<in> set APPROVAL_REASONS then review_auto (classify_review_reasons review)
        else \<not> matched r TERMINAL_BLOCKER_PATTERNS))
   \<and> (recommended_route a = ''execute'' \<longleftrightarrow> reasons = [])
   \<and> distinct (analysis_hints a)"
proof -
  let ?R = "classify_review_reasons review" and ?rs = "nonblank_reasons reasons"
  define a where "a = classify_blocking_reasons reasons review"
  have lists: "terminal_blockers a = filter (\<lambda>r. classify_blocker ?R r = Terminal_Blocker) ?rs"
      "recoverable_blockers a = filter (\<lambda>r. classify_blocker ?R r = Recoverable_Blocker) ?rs"
      "unclassified_blockers a = filter (\<lambda>r. classify_blocker ?R r = Unclassified_Blocker) ?rs"
    and hints: "analysis_hints a = retry_hints [] (recoverable_blockers a)"
    and retry: "can_auto_remediate a \<longleftrightarrow> recoverable_blockers a \<noteq> [] \<and> terminal_blockers a = [] \<and> unclassified_blockers a = []"
    and route: "recommended_route a = (if can_auto_remediate a then ''needs_more_evidence''
        else if reasons \<noteq> [] then ''human_review'' else ''execute'')"
    by (simp_all add: a_def classify_blocking_reasons_def Let_def)
  have "mset (terminal_blockers a) + mset (recoverable_blockers a) + mset (unclassified_blockers a) = mset ?rs"
    unfolding lists by (rule count_partition) (auto intro: classify_blocker_cases)
  moreover have rec: "?rs \<noteq> [] \<and> (\<forall>r \<in> set ?rs. classify_blocker ?R r = Recoverable_Blocker)" if "can_auto_remediate a"
    using that unfolding retry lists filter_empty_conv by (auto intro: classify_blocker_cases)
  moreover have "if r \<in> set APPROVAL_REASONS then review_auto ?R else \<not> matched r TERMINAL_BLOCKER_PATTERNS"
    if "classify_blocker ?R r = Recoverable_Blocker" for r
    using that by (simp add: classify_blocker_def split: if_splits)
  moreover have "can_auto_remediate a \<Longrightarrow> reasons \<noteq> []" using rec by (auto simp: nonblank_reasons_def)
  then have "recommended_route a = ''execute'' \<longleftrightarrow> reasons = []" by (auto simp: route)
  moreover have "distinct (analysis_hints a)" by (simp add: hints hints_distinct)
  ultimately show ?thesis unfolding a_def [symmetric] Let_def by blast
qed

definition sample_reasons :: "string list" where
  "sample_reasons = [''confidence below minimum threshold'', '' '', ''approval required before execution'']"

theorem blockers_classified_witness:
  "\<not> can_auto_remediate (classify_blocking_reasons sample_reasons [''unclassified trigger type'']) \<and>
   recommended_route (classify_blocking_reasons sample_reasons [''unclassified trigger type'']) \<noteq> ''execute''"
proof -
  have "''approval required before execution'' \<in> set (nonblank_reasons sample_reasons)" by code_simp
  moreover have "''approval required before execution'' \<in> set APPROVAL_REASONS" by (simp add: APPROVAL_REASONS_def)
  moreover have "\<not> review_auto (classify_review_reasons [''unclassified trigger type''])" by code_simp
  moreover have "sample_reasons \<noteq> []" by (simp add: sample_reasons_def)
  ultimately show ?thesis
    using blockers_classified [of sample_reasons "[''unclassified trigger type'']"] by (auto simp: Let_def)
qed

end
