(* ===== verification/Evaluation.thy ===== *)
theory Evaluation
  imports Trajectory Review_Blockers
begin

text \<open>
  \<open>services/evaluation/service.py\<close>: the evaluation of a decision, which composes the policy files, the
  register of evaluated triggers (\<open>register_evaluation\<close> of \<open>shared/mesh_runtime/state.py\<close>), the business and
  readiness rules, the evidence gate, the autonomy policy, the safety case, the
  trajectory score and the SRE judge into the result the orchestrator consults; and the native
  judge of \<open>services/evaluation/sre_judge.py\<close>.

  The policy files, the certification registry, the session store, the historical success
  rates, the probe of the evaluation lanes, the trace exporters and a configured judge are fields of
  \<open>eval_services\<close>. The state is the dictionary of the evaluations file.
\<close>

section \<open>Values\<close>

text \<open>\<open>v in container\<close>, \<open>d.get(key, default)\<close> for a key that is any value, and \<open>a < b\<close> on numbers
  (other operands raise).\<close>

definition py_contains :: "jval \<Rightarrow> jval \<Rightarrow> py_exn + bool" where
  "py_contains v container = (case container of
      JList xs \<Rightarrow> Inr (list_ex (py_eq v) xs)
    | JObj d \<Rightarrow> in_set v (map fst d)
    | JStr s \<Rightarrow> (case v of JStr p \<Rightarrow> Inr (contains_str s p) | _ \<Rightarrow> Inl (TypeError ''in <string> requires string''))
    | _ \<Rightarrow> Inl (TypeError ''argument is not iterable''))"

definition dict_get :: "jobj \<Rightarrow> jval \<Rightarrow> jval \<Rightarrow> py_exn + jval" where
  "dict_get d key dflt = (case key of
      JStr k \<Rightarrow> Inr (pget_or d k dflt)
    | JList _ \<Rightarrow> Inl (TypeError ''unhashable type: list'')
    | JObj _ \<Rightarrow> Inl (TypeError ''unhashable type: dict'')
    | _ \<Rightarrow> Inr dflt)"

definition num_lt :: "jval \<Rightarrow> jval \<Rightarrow> py_exn + bool" where
  "num_lt a b = (case (num_of a, num_of b) of
      (Some x, Some y) \<Rightarrow> Inr (x < y)
    | _ \<Rightarrow> Inl (TypeError ''< not supported''))"

definition pand :: "jval \<Rightarrow> jval \<Rightarrow> jval" where
  "pand a b = (if truthy a then b else a)"

definition trigger_asdict :: "Trigger \<Rightarrow> jobj" where
  "trigger_asdict t =
     [(''trigger_id'', JStr (trig_id t)), (''trigger_type'', JStr (trigger_type t)), (''triggered_at'', JStr (triggered_at t)),
      (''environment'', JStr (environment t)), (''service'', JStr (trig_service t)), (''endpoint'', JStr (endpoint t)),
      (''flag_key'', jopt (flag_key t)),
      (''current_rollout_pct'', case current_rollout_pct t of None \<Rightarrow> JNull | Some n \<Rightarrow> JInt n),
      (''comparison_window'', case comparison_window t of None \<Rightarrow> JNull | Some w \<Rightarrow> JObj w),
      (''segment'', JObj (segment t)), (''metrics'', JObj (metrics t)), (''related_context'', JObj (related_context t))]"

section \<open>The SRE judgment\<close>

record SreJudgment =
  sj_recommendation :: string
  sj_confidence :: rat
  sj_risk_assessment :: string
  sj_missing_evidence :: "string list"
  sj_rationale :: string
  sj_followups :: "string list"
  sj_checks :: "(string \<times> string \<times> string) list"
  sj_model :: string
  sj_agreement :: "bool option"
  sj_raw_judgments :: "jval list"
  sj_error :: "string option"

definition judgment_to_dict :: "SreJudgment \<Rightarrow> jobj" where
  "judgment_to_dict j =
     [(''recommendation'', JStr (sj_recommendation j)), (''confidence'', JFloat (py_round 3 (max 0 (min (sj_confidence j) 1)))),
      (''risk_assessment'', JStr (sj_risk_assessment j)), (''missing_evidence'', JList (map JStr (sj_missing_evidence j))),
      (''sre_rationale'', JStr (sj_rationale j)), (''required_followups'', JList (map JStr (sj_followups j))),
      (''checks'', JList (map (\<lambda>(n, v, r). JObj [(''name'', JStr n), (''verdict'', JStr v), (''reason'', JStr r)]) (sj_checks j))),
      (''model'', JStr (sj_model j)), (''agreement'', case sj_agreement j of None \<Rightarrow> JNull | Some b \<Rightarrow> JBool b),
      (''raw_judgments'', JList (sj_raw_judgments j)), (''error'', jopt (sj_error j))]"

definition HARD_BLOCKER_TOKENS :: "string list" where
  "HARD_BLOCKER_TOKENS = [''falls outside'', ''human review'', ''risk level is high'', ''not idempotent'', ''required credentials'',
     ''approval required'', ''not allowlisted'']"

definition is_hard_blocker :: "string \<Rightarrow> bool" where
  "is_hard_blocker reason = list_ex (contains_str (py_lower reason)) HARD_BLOCKER_TOKENS"

definition missing_evidence_from_decision :: "Decision \<Rightarrow> py_exn + string list" where
  "missing_evidence_from_decision d =
     (let artifact = (case pget_or (reasoning d) ''evidence_pack'' (JObj []) of
            JObj pack \<Rightarrow> pget_or pack ''evidence_pack_artifact'' (JObj []) | _ \<Rightarrow> JObj []);
          missing = (case artifact of JObj a \<Rightarrow> pget_or a ''missing_fields'' (JList []) | _ \<Rightarrow> JList [])
      in ebind (py_iter missing) (\<lambda>xs. Inr (map py_str xs)))"

definition native_judge :: "Trigger \<Rightarrow> Decision \<Rightarrow> jobj \<Rightarrow> string list \<Rightarrow> py_exn + SreJudgment" where
  "native_judge t d stage_res reasons =
     (let pass = (\<lambda>b. if b then ''pass'' else ''fail''); joined = join_str ''; '' reasons;
          rec_why = (if decision_type d = ''defer_until''
                 then (''defer'', ''Decision explicitly requests a timed recheck before action.'')
                 else if list_ex is_hard_blocker reasons then (''human_review'', ''Hard safety or review blockers are present.'')
                 else if reasons \<noteq> [] then (''human_review'', ''Evaluation has unresolved blockers.'')
                 else (''execute'', ''No blockers remain after policy and readiness checks.''));
          execute = (fst rec_why = ''execute'') in
      ebind (missing_evidence_from_decision d) (\<lambda>missing.
      Inr \<lparr>sj_recommendation = fst rec_why, sj_confidence = (if execute then lit 75 100 else lit 65 100),
           sj_risk_assessment = py_str (pget_or (risk d) ''level'' (JStr ''medium'')), sj_missing_evidence = missing,
           sj_rationale = snd rec_why, sj_followups = (if execute then [] else [''human review or additional evidence'']),
           sj_checks = [(''decision_has_evidence'', pass (truthy (pget (reasoning d) ''evidence'')), ''decision includes evidence''),
             (''risk_level'', pass (\<not> py_eq (pget (risk d) ''level'') (JStr ''high'')), ''risk='' @ py_str (pget (risk d) ''level'')),
             (''blocking_reasons'', pass (reasons = []), if joined = [] then ''none'' else joined)],
           sj_model = ''native'', sj_agreement = None, sj_raw_judgments = [], sj_error = None\<rparr>))"

section \<open>Configuration and services\<close>

record eval_config =
  c_feature_flag_credentials :: bool
  c_incident_credentials :: bool
  c_audit_logging :: bool
  c_ssh_allowed_hosts :: "string list"
  c_ssh_allowed_services :: "string list"
  c_readiness_profile :: string
  c_kubernetes_live :: bool
  c_force_approval_gate :: bool

text \<open>What the session store answers: it lacks the method, it raises, or it returns.\<close>

datatype 'a lookup = No_Method | Lookup "py_exn + 'a"

record eval_services =
  ev_schemas :: schemas
  ev_policies :: "string \<Rightarrow> jobj"
  ev_registry :: registry_file
  ev_path_exists :: "string \<Rightarrow> bool"
  ev_history :: "string \<Rightarrow> string \<Rightarrow> history_source"
  ev_session_artifacts :: "string \<Rightarrow> jval lookup"
  ev_run_events :: "string \<Rightarrow> event_arg list option lookup"
  ev_mesh_eval :: "nat \<Rightarrow> Trigger \<Rightarrow> Decision \<Rightarrow> py_exn + jval"
  ev_phoenix :: "jobj \<Rightarrow> py_exn + jval"
  ev_stack :: "jobj \<Rightarrow> jobj \<Rightarrow> jval \<Rightarrow> py_exn + jval"
  ev_judge :: "Trigger \<Rightarrow> Decision \<Rightarrow> jobj \<Rightarrow> string list \<Rightarrow> py_exn + SreJudgment"
  ev_judge_enforces :: bool
  ev_float_text :: "string \<Rightarrow> py_exn + rat"
  ev_now :: string

section \<open>The register of evaluated triggers\<close>

definition register_evaluation :: "string \<Rightarrow> string \<Rightarrow> string \<Rightarrow> jobj \<Rightarrow> py_exn + (bool \<times> jobj)" where
  "register_evaluation now tid did payload =
     (let p = setdefault payload ''evaluated_triggers'' (JObj []) in
      ebind (as_obj (pget p ''evaluated_triggers'')) (\<lambda>records.
      if pget records tid \<noteq> JNull then Inr (False, p)
      else Inr (True, pset p ''evaluated_triggers''
             (JObj (pset records tid (JObj [(''decision_id'', JStr did), (''recorded_at'', JStr now)]))))))"

section \<open>The stages\<close>

definition schema_stage :: "schemas \<Rightarrow> Trigger \<Rightarrow> Decision \<Rightarrow> py_exn + string option" where
  "schema_stage S t d =
     (case ebind (validate_payload (S ''trigger.schema.json'') (JObj (trigger_asdict t))) (\<lambda>_.
           validate_payload (S ''decision.schema.json'') (JObj (decision_asdict d))) of
        Inr _ \<Rightarrow> Inr None
      | Inl (ValueError m) \<Rightarrow> Inr (Some m)
      | Inl e \<Rightarrow> Inl e)"

record policy_gate =
  pc_system :: jval
  pc_decision_allowed :: bool
  pc_plan_allowed :: bool
  pc_idempotent :: bool

definition policy_checks :: "jobj \<Rightarrow> Decision \<Rightarrow> py_exn + policy_gate" where
  "policy_checks policy d =
     ebind (pidx (execution_plan d) ''system'') (\<lambda>system.
     ebind (pidx (execution_plan d) ''action'') (\<lambda>action.
     ebind (ebind (pidx policy ''allowed_decision_types'') (py_contains (JStr (decision_type d)))) (\<lambda>decision_ok.
     ebind (ebind (pidx policy ''allowed_execution_systems'') (py_contains system)) (\<lambda>system_ok.
     ebind (ebind (pidx policy ''allowed_execution_actions'') (\<lambda>v. ebind (as_obj v) (\<lambda>table.
            ebind (dict_get table system (JList [])) (py_contains action)))) (\<lambda>action_ok.
     ebind (ebind (pidx policy ''idempotent_actions'') (py_contains action)) (\<lambda>idempotent.
     Inr \<lparr>pc_system = system, pc_decision_allowed = decision_ok, pc_plan_allowed = (system_ok \<and> action_ok),
          pc_idempotent = idempotent\<rparr>))))))"

definition policy_notes_of :: "policy_gate \<Rightarrow> bool \<Rightarrow> string list" where
  "policy_notes_of g suppressed =
     blocked_if (\<not> pc_decision_allowed g) ''decision type falls outside the allowed action set''
     @ blocked_if (\<not> pc_plan_allowed g) ''execution plan falls outside the allowed action set''
     @ blocked_if suppressed ''duplicate evaluation suppressed for trigger_id''"

definition business_notes_of :: "jobj \<Rightarrow> Trigger \<Rightarrow> Decision \<Rightarrow> py_exn + string list" where
  "business_notes_of protected_policy t d =
     ebind (pidx (segment t) ''customer_tier'') (\<lambda>tier.
     ebind (ebind (pidx protected_policy ''approval_required_customer_tiers'') (py_contains tier)) (\<lambda>protected.
     ebind (num_lt (JInt 0) (pget_or (related_context t) ''rollbacks_last_24h'' (JInt 0))) (\<lambda>repeated.
     ebind (pidx (risk d) ''blast_radius'') (\<lambda>radius.
     let autonomous = (autonomy_tier d = ''autonomous'') in
     Inr (blocked_if (autonomous \<and> (protected \<or> repeated \<or> starts_with (py_str radius) ''multi_''))
            ''scope requires approval before execution''
        @ blocked_if (autonomy_tier d = ''approval_required'') ''approval required before execution''
        @ blocked_if (repeated \<and> autonomous) ''recent rollback cooldown conflict''
        @ blocked_if (decision_type d = ''escalate'' \<and> trigger_type t \<noteq> ''webhook_alert_firing'') ''decision routes to human review'')))))"

definition credentials_available :: "eval_config \<Rightarrow> Trigger \<Rightarrow> jval \<Rightarrow> jval" where
  "credentials_available cfg t system =
     (let get = (\<lambda>k b. pget_or (related_context t) k (JBool b));
          audit = get ''audit_logging_available'' (c_audit_logging cfg) in
      if system = JStr ''feature_flag_service''
      then pand (get ''feature_flag_credentials_available'' (c_feature_flag_credentials cfg)) audit
      else if system = JStr ''incident_service''
      then pand (get ''incident_credentials_available'' (c_incident_credentials cfg)) audit
      else if system = JStr ''kubernetes_service''
      then pand (JBool (truthy (get ''cluster_access_available'' True))) audit
      else audit)"

definition nonempty_str :: "jval \<Rightarrow> bool" where
  "nonempty_str v = (case v of JStr s \<Rightarrow> s \<noteq> [] | _ \<Rightarrow> False)"

definition nonempty_list :: "jval \<Rightarrow> bool" where
  "nonempty_list v = (case v of JList xs \<Rightarrow> xs \<noteq> [] | _ \<Rightarrow> False)"

definition repo_patch_notes :: "(string \<Rightarrow> bool) \<Rightarrow> jval \<Rightarrow> Decision \<Rightarrow> py_exn + string list" where
  "repo_patch_notes exists system d =
     (if system \<noteq> JStr ''repo_patch_service'' then Inr []
      else ebind (as_obj (pget_or (execution_plan d) ''parameters'' (JObj []))) (\<lambda>ps.
        Inr (blocked_if (\<not> (case pget ps ''repo_path'' of JStr s \<Rightarrow> s \<noteq> [] \<and> exists s | _ \<Rightarrow> False)) ''repo path is missing or does not exist''
           @ blocked_if (\<not> nonempty_list (pget ps ''allowed_paths'')) ''allowed repo patch paths are missing''
           @ blocked_if (\<not> nonempty_list (pget ps ''test_commands'')) ''bounded test commands are missing''
           @ (case pget ps ''patch_template'' of
                JObj template \<Rightarrow> map (\<lambda>k. ''patch template field `'' @ k @ ''` is missing'')
                  (filter (\<lambda>k. \<not> nonempty_str (pget template k)) [''target_file'', ''find'', ''replace''])
              | _ \<Rightarrow> [''patch template is missing'']))))"

definition host_name :: "string \<Rightarrow> string" where
  "host_name host = py_strip (case dropWhile (\<lambda>c. c \<noteq> CHR ''@'') host of [] \<Rightarrow> host | _ # rest \<Rightarrow> rest)"

definition systemd_notes :: "eval_config \<Rightarrow> jval \<Rightarrow> Decision \<Rightarrow> py_exn + string list" where
  "systemd_notes cfg system d =
     (if system \<noteq> JStr ''systemd_service'' then Inr []
      else ebind (as_obj (pget_or (execution_plan d) ''parameters'' (JObj []))) (\<lambda>ps.
        let host = pget ps ''host''; service = pget ps ''service'';
            hosts = c_ssh_allowed_hosts cfg; services = c_ssh_allowed_services cfg in
        Inr (blocked_if (\<not> nonempty_str host) ''systemd host is missing''
           @ blocked_if (\<not> nonempty_str service) ''systemd service is missing''
           @ (if hosts = [] then [''systemd host allowlist is empty'']
              else case host of JStr h \<Rightarrow> blocked_if (host_name h \<notin> set hosts) ''systemd host is not allowlisted'' | _ \<Rightarrow> [])
           @ (if services = [] then [''systemd service allowlist is empty'']
              else case service of
                  JStr s \<Rightarrow> blocked_if (s \<notin> set services
                      \<and> (if ends_with s ''.service'' then s else s @ ''.service'') \<notin> set services) ''systemd service is not allowlisted''
                | _ \<Rightarrow> []))))"

text \<open>The readiness stage: its notes and its verdict, which is what the conjunction of the code returns.\<close>

definition readiness_stage ::
  "eval_config \<Rightarrow> (string \<Rightarrow> bool) \<Rightarrow> jobj \<Rightarrow> policy_gate \<Rightarrow> Trigger \<Rightarrow> Decision \<Rightarrow> py_exn + (string list \<times> jval)" where
  "readiness_stage cfg exists rollback_policy g t d =
     ebind (ebind (pidx rollback_policy ''require_rollback_plan_for_decision_types'') (py_contains (JStr (decision_type d)))) (\<lambda>required.
     let present = truthy (pget (execution_plan d) ''rollback_plan''); cred = credentials_available cfg t (pc_system g) in
     ebind (repo_patch_notes exists (pc_system g) d) (\<lambda>repo.
     ebind (systemd_notes cfg (pc_system g) d) (\<lambda>systemd.
     ebind (ebind (pidx rollback_policy ''minimum_confidence'') (num_lt (confidence d))) (\<lambda>unsure.
     ebind (pidx (risk d) ''level'') (\<lambda>level.
     let high = py_eq level (JStr ''high'') in
     Inr (blocked_if unsure ''confidence below minimum threshold''
        @ blocked_if high ''risk level is high''
        @ blocked_if (\<not> pc_idempotent g) ''action is not idempotent''
        @ blocked_if (required \<and> \<not> present) ''rollback parameters are missing''
        @ blocked_if (\<not> truthy cred) ''required credentials are unavailable''
        @ repo @ systemd,
        pand cred (JBool ((required \<longrightarrow> present) \<and> pc_idempotent g \<and> \<not> unsure \<and> \<not> high \<and> repo = [] \<and> systemd = []))))))))"

section \<open>Approvals, artifacts and events of the run\<close>

fun event_payload :: "event_arg \<Rightarrow> jobj" where
  "event_payload (Ev_Dict d) = d"
| "event_payload (Ev_Run e) = ev_payload e"

fun event_type_attr :: "event_arg \<Rightarrow> string" where
  "event_type_attr (Ev_Dict d) = []"
| "event_type_attr (Ev_Run e) = ev_event_type e"

definition approves :: "event_arg \<Rightarrow> bool" where
  "approves e =
     (let p = event_payload e;
          ty = py_lower (py_str (por (pget p ''event_type'') (JStr (event_type_attr e))));
          command = py_lower (str_or_empty (pget p ''command''));
          outcome = py_lower (str_or_empty (pget p ''outcome'')) in
      (contains_str ty ''approval'' \<and> outcome \<in> {''approved'', ''accepted'', ''succeeded''}) \<or> command \<in> {''approve'', ''approved''})"

definition approval_observed_in :: "event_arg list \<Rightarrow> jobj \<Rightarrow> bool" where
  "approval_observed_in events artifacts \<longleftrightarrow> list_ex approves events \<or> nonempty_list (pget artifacts ''approval_records'')"

definition live_execution_enabled :: "eval_config \<Rightarrow> jval \<Rightarrow> bool" where
  "live_execution_enabled cfg system = (if system = JStr ''kubernetes_service'' then c_kubernetes_live cfg else False)"

definition artifacts_for_run :: "(string \<Rightarrow> jval lookup) \<Rightarrow> string \<Rightarrow> jobj" where
  "artifacts_for_run store run_id = (case store run_id of Lookup (Inr (JObj a)) \<Rightarrow> a | _ \<Rightarrow> [])"

definition events_for_run :: "(string \<Rightarrow> event_arg list option lookup) \<Rightarrow> string option \<Rightarrow> event_arg list" where
  "events_for_run store run_id = (case run_id of
      None \<Rightarrow> []
    | Some r \<Rightarrow> (case store r of Lookup (Inr (Some es)) \<Rightarrow> es | _ \<Rightarrow> []))"

definition scenario_review_reasons :: "Decision \<Rightarrow> py_exn + string list" where
  "scenario_review_reasons d =
     ebind (as_obj (pget_or (reasoning d) ''evidence_pack'' (JObj []))) (\<lambda>pack.
     ebind (as_obj (pget_or pack ''scenario_analysis'' (JObj []))) (\<lambda>scenario.
     Inr (map py_str (list_or_empty (pget_or scenario ''required_review_reasons'' (JList []))))))"

section \<open>The gates\<close>

record eval_request =
  rq_trigger :: Trigger
  rq_decision :: Decision
  rq_allow_rereevaluation :: bool
  rq_run_id :: "string option"
  rq_run_events :: "event_arg list"
  rq_artifacts :: jobj

record eval_gates =
  g_schema :: "string option"
  g_policy :: policy_gate
  g_suppressed :: bool
  g_business :: "string list"
  g_readiness :: "string list"
  g_ready :: jval
  g_evidence :: jobj
  g_verdict :: AutonomyPolicyVerdict
  g_safety :: RemediationSafetyCase

definition policy_ok :: "eval_gates \<Rightarrow> bool" where
  "policy_ok g \<longleftrightarrow> pc_decision_allowed (g_policy g) \<and> pc_plan_allowed (g_policy g) \<and> \<not> g_suppressed g"

definition gate_reasons :: "eval_gates \<Rightarrow> string list" where
  "gate_reasons g =
     (case g_schema g of None \<Rightarrow> [] | Some m \<Rightarrow> [m])
     @ policy_notes_of (g_policy g) (g_suppressed g) @ g_business g @ g_readiness g
     @ blocked_if (\<not> truthy (pget (g_evidence g) ''passed'')) ''evidence sufficiency gate did not pass''
     @ blockers (g_verdict g)
     @ (case safety_blocking_reason (g_safety g) of None \<Rightarrow> [] | Some r \<Rightarrow> [r])"

definition run_gates ::
  "eval_services \<Rightarrow> eval_config \<Rightarrow> eval_request \<Rightarrow> string option \<Rightarrow> policy_gate \<Rightarrow> bool \<Rightarrow> py_exn + eval_gates" where
  "run_gates sv cfg rq schema pol duplicate =
     (let t = rq_trigger rq; d = rq_decision rq; suppressed = (duplicate \<and> \<not> rq_allow_rereevaluation rq) in
      ebind (business_notes_of (ev_policies sv ''protected-scope.policy.json'') t d) (\<lambda>business.
      ebind (readiness_stage cfg (ev_path_exists sv) (ev_policies sv ''rollback.policy.json'') pol t d) (\<lambda>(readiness, ready).
      ebind (evaluate_evidence_sufficiency (ev_schemas sv) t d) (\<lambda>evidence.
      ebind (evaluate_autonomy_policy (ev_schemas sv) (ev_registry sv) d None (c_readiness_profile cfg) None None []
          (approval_observed_in (rq_run_events rq) (rq_artifacts rq)) (live_execution_enabled cfg (pc_system pol))
          (c_force_approval_gate cfg)) (\<lambda>v.
      let prior = (case schema of None \<Rightarrow> [] | Some m \<Rightarrow> [m]) @ policy_notes_of pol suppressed @ business @ readiness
            @ blocked_if (\<not> truthy (pget evidence ''passed'')) ''evidence sufficiency gate did not pass'' @ blockers v in
      ebind (evaluate_remediation_safety (ev_float_text sv) t d (ev_history sv (decision_type d) (trig_service t)) prior True
          (schema = None) (pc_decision_allowed pol \<and> pc_plan_allowed pol \<and> \<not> suppressed) (truthy ready) DEFAULT_THRESHOLD) (\<lambda>safety.
      Inr \<lparr>g_schema = schema, g_policy = pol, g_suppressed = suppressed, g_business = business, g_readiness = readiness,
           g_ready = ready, g_evidence = evidence, g_verdict = v, g_safety = safety\<rparr>))))))"

section \<open>The stage results\<close>

definition schema_result :: "eval_gates \<Rightarrow> jobj" where
  "schema_result g = (case g_schema g of
      None \<Rightarrow> [(''passed'', JBool True)]
    | Some m \<Rightarrow> [(''passed'', JBool False), (''notes'', JList [JStr m])])"

definition policy_result :: "eval_gates \<Rightarrow> jobj" where
  "policy_result g = [(''passed'', JBool (policy_ok g)), (''notes'', JList (map JStr (policy_notes_of (g_policy g) (g_suppressed g))))]"

definition business_result :: "eval_gates \<Rightarrow> jobj" where
  "business_result g = [(''passed'', JBool (g_business g = [])),
     (''notes'', JList (map JStr (if g_business g = [] then [''single-service scope'', ''no cooldown conflict''] else g_business g)))]"

definition readiness_result :: "eval_gates \<Rightarrow> jobj" where
  "readiness_result g =
     (let system = pc_system (g_policy g) in
      [(''passed'', g_ready g),
       (''notes'', JList (map JStr (if g_readiness g = []
          then [if system = JStr ''feature_flag_service'' then ''feature flag credentials available''
                else if system = JStr ''incident_service'' then ''incident credentials available'' else ''audit logging available'',
                ''rollback value present'']
          else g_readiness g)))])"

definition trajectory_result :: "TraceScore \<Rightarrow> jobj" where
  "trajectory_result sc = [(''passed'', JBool (ts_passed sc)), (''score'', JFloat (ts_score sc)),
     (''notes'', JList (map JStr (ts_notes sc))), (''artifacts'', JObj (ts_artifacts sc))]"

record eval_trace =
  et_trace :: jobj
  et_score :: TraceScore
  et_verifier :: jobj

definition trace_stage :: "eval_services \<Rightarrow> eval_request \<Rightarrow> py_exn + eval_trace" where
  "trace_stage sv rq =
     (let t = rq_trigger rq; d = rq_decision rq in
      ebind (ev_mesh_eval sv 0 t d) (\<lambda>m0.
      let a0 = pset (rq_artifacts rq) ''mesh_eval'' m0 in
      ebind (case rq_run_id rq of
          None \<Rightarrow> Inr a0
        | Some r \<Rightarrow> ebind (ev_mesh_eval sv 1 t d) (\<lambda>m1.
            Inr (pset (pupdate a0 (artifacts_for_run (ev_session_artifacts sv) r)) ''mesh_eval'' m1))) (\<lambda>artifacts.
      ebind (build_trace (trigger_asdict t) (decision_asdict d) JNull JNull JNull
          (if rq_run_events rq \<noteq> [] then rq_run_events rq else events_for_run (ev_run_events sv) (rq_run_id rq)) artifacts) (\<lambda>tr0.
      ebind (temperature_policy_for_trace (ev_float_text sv) tr0) (\<lambda>temperature.
      let tr = pset tr0 ''temperature_policy'' (JObj temperature) in
      ebind (score_trace tr) (\<lambda>sc.
      ebind (verify_trace tr) (\<lambda>verifier.
      Inr \<lparr>et_trace = tr, et_score = sc, et_verifier = verifier\<rparr>)))))))"

definition stage_results_of ::
  "eval_services \<Rightarrow> eval_gates \<Rightarrow> eval_trace \<Rightarrow> string list \<Rightarrow> string list \<Rightarrow> py_exn + jobj" where
  "stage_results_of sv g et reasons review =
     (let analysis = JObj (blockers_to_dict (classify_blocking_reasons reasons review));
          trajectory = JObj (trajectory_result (et_score et));
          verdict = JObj (verdict_to_dict (g_verdict g)); safety = JObj (safety_case_to_dict (g_safety g)) in
      ebind (ev_phoenix sv (et_trace et)) (\<lambda>spans.
      ebind (ev_stack sv (et_trace et) [(''trajectory_quality'', trajectory), (''verifier'', JObj (et_verifier et)),
          (''evidence_sufficiency'', JObj (g_evidence g)), (''autonomy_policy'', verdict), (''blocker_analysis'', analysis)] spans) (\<lambda>stack.
      Inr [(''schema_validation'', JObj (schema_result g)), (''policy_validation'', JObj (policy_result g)),
           (''contract_checks'', JObj (summarize_contracts (schema_result g) (policy_result g) (business_result g) (readiness_result g)
              (safety_case_to_dict (g_safety g)))),
           (''trajectory_quality'', trajectory), (''behavioral_scores'', JObj (ts_artifacts (et_score et))),
           (''verifier'', JObj (et_verifier et)), (''business_rules'', JObj (business_result g)),
           (''execution_readiness'', JObj (readiness_result g)), (''evidence_sufficiency'', JObj (g_evidence g)),
           (''autonomy_policy'', verdict), (''remediation_safety'', safety), (''blocker_analysis'', analysis),
           (''evaluation_stack'', stack), (''phoenix_spans'', spans)])))"

section \<open>The evaluation\<close>

definition policy_reject :: "eval_gates \<Rightarrow> bool" where
  "policy_reject g \<longleftrightarrow> \<not> pc_decision_allowed (g_policy g) \<or> \<not> pc_plan_allowed (g_policy g) \<or> g_suppressed g"

definition judge_reasons :: "bool \<Rightarrow> string \<Rightarrow> string list \<Rightarrow> string list" where
  "judge_reasons enforces recommendation reasons =
     (if enforces \<and> recommendation \<in> {''human_review'', ''defer''} \<and> reasons = [] then [''sre judge recommends '' @ recommendation] else [])
     @ (if enforces \<and> recommendation = ''reject'' then [''sre judge rejected decision''] else [])"

definition conclude ::
  "eval_services \<Rightarrow> Decision \<Rightarrow> bool \<Rightarrow> string list \<Rightarrow> string list \<Rightarrow> jobj \<Rightarrow> SreJudgment \<Rightarrow> py_exn + EvaluationResult" where
  "conclude sv d reject0 reasons0 review preliminary j =
     (let rec = sj_recommendation j; enforces = ev_judge_enforces sv;
          reasons = reasons0 @ judge_reasons enforces rec reasons0;
          reject = (reject0 \<or> (enforces \<and> rec = ''reject''));
          ok = (reasons = []);
          final0 = (if reject then ''reject'' else if ok then ''execute'' else ''human_review'');
          final = (if enforces \<and> \<not> reject \<and> rec = ''defer'' then ''human_review'' else final0);
          v = \<lparr>evaluation_id = ''eval_'' @ decision_id d, eval_decision_id = decision_id d, passed = ok, final_recommendation = final,
               stage_results = pupdate preliminary [(''sre_judgment'', JObj (judgment_to_dict j)),
                 (''blocker_analysis'', JObj (blockers_to_dict (classify_blocking_reasons reasons review)))],
               blocking_reasons = reasons, review_route = (if \<not> ok \<and> \<not> reject then Some ''human_review'' else None)\<rparr> in
      ebind (validate_payload (ev_schemas sv ''evaluation-result.schema.json'') (JObj (evaluation_asdict v))) (\<lambda>_. Inr v))"

definition evaluate_rest ::
  "eval_services \<Rightarrow> eval_config \<Rightarrow> eval_request \<Rightarrow> string option \<Rightarrow> policy_gate \<Rightarrow> bool \<Rightarrow> py_exn + EvaluationResult" where
  "evaluate_rest sv cfg rq schema pol duplicate =
     ebind (run_gates sv cfg rq schema pol duplicate) (\<lambda>g.
     ebind (trace_stage sv rq) (\<lambda>et.
     let reasons = gate_reasons g @ blocked_if (\<not> ts_passed (et_score et)) ''trajectory quality gate did not pass'' in
     ebind (scenario_review_reasons (rq_decision rq)) (\<lambda>review.
     ebind (stage_results_of sv g et reasons review) (\<lambda>preliminary.
     ebind (ev_judge sv (rq_trigger rq) (rq_decision rq) preliminary reasons) (\<lambda>j.
     conclude sv (rq_decision rq) (policy_reject g) reasons review preliminary j)))))"

definition evaluate_decision ::
  "eval_services \<Rightarrow> eval_config \<Rightarrow> eval_request \<Rightarrow> jobj \<Rightarrow> (py_exn + EvaluationResult) \<times> jobj" where
  "evaluate_decision sv cfg rq p =
     (let t = rq_trigger rq; d = rq_decision rq in
      case ebind (schema_stage (ev_schemas sv) t d) (\<lambda>schema.
           ebind (policy_checks (ev_policies sv ''autonomy.policy.json'') d) (\<lambda>pol. Inr (schema, pol))) of
        Inl e \<Rightarrow> (Inl e, p)
      | Inr (schema, pol) \<Rightarrow>
          (case (if schema = None then register_evaluation (ev_now sv) (trig_id t) (decision_id d) p else Inr (True, p)) of
             Inl e \<Rightarrow> (Inl e, p)
           | Inr (accepted, p') \<Rightarrow> (evaluate_rest sv cfg rq schema pol (\<not> accepted), p')))"

end
