(* ===== verification/Evaluation_Props.thy ===== *)
theory Evaluation_Props
  imports Evaluation
begin

text \<open>
  Correctness of the evaluation: it recommends execution exactly when every gate is open, and for
  one trigger it does so at most once unless a re-evaluation is allowed.
\<close>

section \<open>The gates, stated of the inputs\<close>

text \<open>The business rules and the readiness rules, without the notes the code collects.\<close>

definition scope_clear :: "jobj \<Rightarrow> Trigger \<Rightarrow> Decision \<Rightarrow> bool" where
  "scope_clear protected_policy t d \<longleftrightarrow>
     autonomy_tier d \<noteq> ''approval_required''
   \<and> (decision_type d = ''escalate'' \<longrightarrow> trigger_type t = ''webhook_alert_firing'')
   \<and> (autonomy_tier d = ''autonomous'' \<longrightarrow>
        py_contains (pget (segment t) ''customer_tier'') (pget protected_policy ''approval_required_customer_tiers'') = Inr False
      \<and> num_lt (JInt 0) (pget_or (related_context t) ''rollbacks_last_24h'' (JInt 0)) = Inr False
      \<and> \<not> starts_with (py_str (pget (risk d) ''blast_radius'')) ''multi_'')"

definition plan_ready :: "eval_services \<Rightarrow> eval_config \<Rightarrow> policy_gate \<Rightarrow> Trigger \<Rightarrow> Decision \<Rightarrow> bool" where
  "plan_ready sv cfg pol t d \<longleftrightarrow>
     (let rb = ev_policies sv ''rollback.policy.json'' in
      num_lt (confidence d) (pget rb ''minimum_confidence'') = Inr False
    \<and> \<not> py_eq (pget (risk d) ''level'') (JStr ''high'')
    \<and> pc_idempotent pol
    \<and> (py_contains (JStr (decision_type d)) (pget rb ''require_rollback_plan_for_decision_types'') = Inr True
         \<longrightarrow> truthy (pget (execution_plan d) ''rollback_plan''))
    \<and> truthy (credentials_available cfg t (pc_system pol))
    \<and> repo_patch_notes (ev_path_exists sv) (pc_system pol) d = Inr []
    \<and> systemd_notes cfg (pc_system pol) d = Inr [])"

definition policy_verdict_of :: "eval_services \<Rightarrow> eval_config \<Rightarrow> eval_request \<Rightarrow> policy_gate \<Rightarrow> py_exn + AutonomyPolicyVerdict" where
  "policy_verdict_of sv cfg rq pol =
     evaluate_autonomy_policy (ev_schemas sv) (ev_registry sv) (rq_decision rq) None (c_readiness_profile cfg) None None []
       (approval_observed_in (rq_run_events rq) (rq_artifacts rq)) (live_execution_enabled cfg (pc_system pol)) (c_force_approval_gate cfg)"

definition safety_case_of :: "eval_services \<Rightarrow> eval_request \<Rightarrow> py_exn + RemediationSafetyCase" where
  "safety_case_of sv rq =
     evaluate_remediation_safety (ev_float_text sv) (rq_trigger rq) (rq_decision rq)
       (ev_history sv (decision_type (rq_decision rq)) (trig_service (rq_trigger rq))) [] True True True True DEFAULT_THRESHOLD"

text \<open>A trigger that is in the register.\<close>

definition evaluated :: "string \<Rightarrow> jobj \<Rightarrow> bool" where
  "evaluated tid p \<longleftrightarrow> pget (obj_or_empty (pget p ''evaluated_triggers'')) tid \<noteq> JNull"

text \<open>Every gate before the judge is open.\<close>

definition cleared :: "eval_services \<Rightarrow> eval_config \<Rightarrow> eval_request \<Rightarrow> jobj \<Rightarrow> bool" where
  "cleared sv cfg rq p \<longleftrightarrow>
     (let t = rq_trigger rq; d = rq_decision rq in
      schema_stage (ev_schemas sv) t d = Inr None
    \<and> (rq_allow_rereevaluation rq \<or> \<not> evaluated (trig_id t) p)
    \<and> scope_clear (ev_policies sv ''protected-scope.policy.json'') t d
    \<and> (\<exists>pol w. policy_checks (ev_policies sv ''autonomy.policy.json'') d = Inr pol
         \<and> pc_decision_allowed pol \<and> pc_plan_allowed pol \<and> plan_ready sv cfg pol t d
         \<and> policy_verdict_of sv cfg rq pol = Inr w \<and> allowed w)
    \<and> (\<exists>packet. evaluate_evidence_sufficiency (ev_schemas sv) t d = Inr packet \<and> pget packet ''passed'' = JBool True)
    \<and> (\<exists>c. safety_case_of sv rq = Inr c \<and> case_passed c)
    \<and> (\<exists>et. trace_stage sv rq = Inr et \<and> ts_passed (et_score et)))"

section \<open>Lemmas on the stages\<close>

lemma truthy_pand [simp]: "truthy (pand a b) \<longleftrightarrow> truthy a \<and> truthy b"
  by (simp add: pand_def)

lemma business_clear:
  assumes "business_notes_of pp t d = Inr notes"
  shows "notes = [] \<longleftrightarrow> scope_clear pp t d"
proof -
  obtain tier tiers protected repeated radius where r: "pidx (segment t) ''customer_tier'' = Inr tier"
      "pidx pp ''approval_required_customer_tiers'' = Inr tiers" "py_contains tier tiers = Inr protected"
      "num_lt (JInt 0) (pget_or (related_context t) ''rollbacks_last_24h'' (JInt 0)) = Inr repeated"
      "pidx (risk d) ''blast_radius'' = Inr radius"
    using assms unfolding business_notes_of_def ebind_eq_Inr by blast
  show ?thesis
    using assms unfolding business_notes_of_def r ebind_Inr Let_def scope_clear_def r(1,2,5) [THEN pidx_pget_eq] by auto
qed

lemma readiness_ready:
  assumes "readiness_stage cfg (ev_path_exists sv) (ev_policies sv ''rollback.policy.json'') pol t d = Inr (notes, ready)"
  shows "(notes = [] \<longleftrightarrow> plan_ready sv cfg pol t d) \<and> (truthy ready \<longleftrightarrow> notes = [])"
proof -
  let ?rb = "ev_policies sv ''rollback.policy.json''"
  obtain types required repo systemd conf unsure level where
    r: "pidx ?rb ''require_rollback_plan_for_decision_types'' = Inr types" "py_contains (JStr (decision_type d)) types = Inr required"
      "repo_patch_notes (ev_path_exists sv) (pc_system pol) d = Inr repo" "systemd_notes cfg (pc_system pol) d = Inr systemd"
      "pidx ?rb ''minimum_confidence'' = Inr conf" "num_lt (confidence d) conf = Inr unsure" "pidx (risk d) ''level'' = Inr level"
    using assms unfolding readiness_stage_def ebind_eq_Inr Let_def by blast
  show ?thesis
    using assms unfolding readiness_stage_def r ebind_Inr Let_def plan_ready_def r(1,5,7) [THEN pidx_pget_eq]
    by auto
qed

lemma verdict_blockers:
  assumes "evaluate_autonomy_policy S f d tier_arg profile connector_arg scope_arg refs_arg approval live force = Inr w"
  shows "blockers w = [] \<longleftrightarrow> allowed w"
proof -
  obtain a b c e m st cert where "w = policy_verdict a b c e m st cert approval live force"
    using evaluate_autonomy_verdict [OF assms] by blast
  then show ?thesis by (simp add: policy_verdict_def Let_def)
qed

lemma safety_reason_None: "safety_blocking_reason c = None \<longleftrightarrow> case_passed c"
  by (simp add: safety_blocking_reason_def)

lemma safety_prior:
  "evaluate_remediation_safety ft t d h prior q s po r limit = evaluate_remediation_safety ft t d h [] q s po r limit"
  by (simp add: evaluate_remediation_safety_def hard_stops_of_def)

lemma evidence_passed_bool:
  assumes "evaluate_evidence_sufficiency S t d = Inr packet"
  shows "truthy (pget packet ''passed'') \<longleftrightarrow> pget packet ''passed'' = JBool True"
  using assms by (auto simp: evaluate_evidence_sufficiency_def Let_def pget_def)

lemma policy_notes_Nil [simp]:
  "policy_notes_of pol suppressed = [] \<longleftrightarrow> pc_decision_allowed pol \<and> pc_plan_allowed pol \<and> \<not> suppressed"
  by (auto simp: policy_notes_of_def)

section \<open>Execution is recommended exactly when everything is clear\<close>

lemma run_gates_clear:
  assumes rg: "run_gates sv cfg rq schema pol duplicate = Inr g"
  shows "gate_reasons g = [] \<longleftrightarrow>
      schema = None \<and> pc_decision_allowed pol \<and> pc_plan_allowed pol \<and> (duplicate \<longrightarrow> rq_allow_rereevaluation rq)
    \<and> scope_clear (ev_policies sv ''protected-scope.policy.json'') (rq_trigger rq) (rq_decision rq)
    \<and> plan_ready sv cfg pol (rq_trigger rq) (rq_decision rq)
    \<and> (\<exists>packet. evaluate_evidence_sufficiency (ev_schemas sv) (rq_trigger rq) (rq_decision rq) = Inr packet
         \<and> pget packet ''passed'' = JBool True)
    \<and> (\<exists>w. policy_verdict_of sv cfg rq pol = Inr w \<and> allowed w)
    \<and> (\<exists>c. safety_case_of sv rq = Inr c \<and> case_passed c)" (is "_ \<longleftrightarrow> ?clear")
    and "policy_reject g \<Longrightarrow> gate_reasons g \<noteq> []"
proof -
  let ?t = "rq_trigger rq" and ?d = "rq_decision rq"
  obtain business readiness ready evidence w prior c suppressed where
    bu: "business_notes_of (ev_policies sv ''protected-scope.policy.json'') ?t ?d = Inr business" and
    re: "readiness_stage cfg (ev_path_exists sv) (ev_policies sv ''rollback.policy.json'') pol ?t ?d = Inr (readiness, ready)" and
    ev: "evaluate_evidence_sufficiency (ev_schemas sv) ?t ?d = Inr evidence" and
    ve: "policy_verdict_of sv cfg rq pol = Inr w" and
    sa: "evaluate_remediation_safety (ev_float_text sv) ?t ?d (ev_history sv (decision_type ?d) (trig_service ?t)) prior True
          (schema = None) (pc_decision_allowed pol \<and> pc_plan_allowed pol \<and> \<not> suppressed) (truthy ready) DEFAULT_THRESHOLD = Inr c" and
    su: "suppressed = (duplicate \<and> \<not> rq_allow_rereevaluation rq)" and
    g: "g = \<lparr>g_schema = schema, g_policy = pol, g_suppressed = suppressed, g_business = business, g_readiness = readiness,
           g_ready = ready, g_evidence = evidence, g_verdict = w, g_safety = c\<rparr>"
    using rg unfolding run_gates_def Let_def policy_verdict_of_def ebind_eq_Inr by fastforce
  note facts = business_clear [OF bu] readiness_ready [OF re] evidence_passed_bool [OF ev]
    verdict_blockers [OF ve [unfolded policy_verdict_of_def]] safety_reason_None [of c]
  have reasons: "gate_reasons g = [] \<longleftrightarrow> schema = None \<and> policy_notes_of pol suppressed = [] \<and> business = [] \<and> readiness = []
      \<and> truthy (pget evidence ''passed'') \<and> blockers w = [] \<and> safety_blocking_reason c = None"
    by (auto simp: gate_reasons_def g split: option.splits)
  have safe: "safety_case_of sv rq = Inr c"
    if "schema = None" "pc_decision_allowed pol \<and> pc_plan_allowed pol \<and> \<not> suppressed" "truthy ready"
    using sa that unfolding safety_case_of_def by (simp add: safety_prior [where prior = prior])
  show "gate_reasons g = [] \<longleftrightarrow> ?clear"
    unfolding reasons policy_notes_Nil using facts safe su ev ve by (auto simp: su)
  show "policy_reject g \<Longrightarrow> gate_reasons g \<noteq> []"
    unfolding reasons by (auto simp: policy_reject_def g)
qed

lemma conclude_execute:
  assumes "conclude sv d reject0 reasons0 review preliminary j = Inr v" and "reject0 \<Longrightarrow> reasons0 \<noteq> []"
  shows "(final_recommendation v = ''execute'' \<longleftrightarrow>
      reasons0 = [] \<and> (ev_judge_enforces sv \<longrightarrow> sj_recommendation j \<notin> {''human_review'', ''defer'', ''reject''}))
    \<and> (passed v \<longleftrightarrow> blocking_reasons v = []) \<and> (final_recommendation v = ''execute'' \<longrightarrow> passed v)
    \<and> eval_decision_id v = decision_id d"
  using assms unfolding conclude_def Let_def by (auto simp: judge_reasons_def split: if_splits)

text \<open>The first part of an evaluation: what it leaves in the register and whether it goes on.\<close>

lemma evaluate_unfold:
  assumes "evaluate_decision sv cfg rq p = (Inr v, p')"
  shows "\<exists>schema pol accepted.
    schema_stage (ev_schemas sv) (rq_trigger rq) (rq_decision rq) = Inr schema
  \<and> policy_checks (ev_policies sv ''autonomy.policy.json'') (rq_decision rq) = Inr pol
  \<and> evaluate_rest sv cfg rq schema pol (\<not> accepted) = Inr v
  \<and> (if schema = None
     then register_evaluation (ev_now sv) (trig_id (rq_trigger rq)) (decision_id (rq_decision rq)) p = Inr (accepted, p')
     else accepted \<and> p' = p)"
proof -
  obtain schema pol where s: "schema_stage (ev_schemas sv) (rq_trigger rq) (rq_decision rq) = Inr schema"
      "policy_checks (ev_policies sv ''autonomy.policy.json'') (rq_decision rq) = Inr pol"
    using assms by (auto simp: evaluate_decision_def Let_def split: sum.splits)
  show ?thesis
  proof (cases "schema = None")
    case True
    then show ?thesis using assms s by (auto simp: evaluate_decision_def Let_def split: sum.splits)
  next
    case False
    then show ?thesis using assms s by (auto simp: evaluate_decision_def Let_def ex_bool_eq)
  qed
qed

lemma register_accepts:
  assumes "register_evaluation now tid did p = Inr (accepted, p')"
  shows "accepted \<longleftrightarrow> \<not> evaluated tid p"
  using assms unfolding register_evaluation_def Let_def evaluated_def
  by (cases "phas p ''evaluated_triggers''") (auto simp: setdefault_def pget_not_phas split: if_splits elim: as_obj.elims)

lemma evaluate_rest_execute:
  assumes "evaluate_rest sv cfg rq schema pol duplicate = Inr v"
  shows "\<exists>g et reasons preliminary j. run_gates sv cfg rq schema pol duplicate = Inr g \<and> trace_stage sv rq = Inr et
    \<and> reasons = gate_reasons g @ blocked_if (\<not> ts_passed (et_score et)) ''trajectory quality gate did not pass''
    \<and> ev_judge sv (rq_trigger rq) (rq_decision rq) preliminary reasons = Inr j
    \<and> (final_recommendation v = ''execute'' \<longleftrightarrow> gate_reasons g = [] \<and> ts_passed (et_score et)
         \<and> (ev_judge_enforces sv \<longrightarrow> sj_recommendation j \<notin> {''human_review'', ''defer'', ''reject''}))
    \<and> (passed v \<longleftrightarrow> blocking_reasons v = []) \<and> (final_recommendation v = ''execute'' \<longrightarrow> passed v)
    \<and> eval_decision_id v = decision_id (rq_decision rq)"
proof -
  obtain g et review preliminary j where r: "run_gates sv cfg rq schema pol duplicate = Inr g" "trace_stage sv rq = Inr et"
      "ev_judge sv (rq_trigger rq) (rq_decision rq) preliminary
         (gate_reasons g @ blocked_if (\<not> ts_passed (et_score et)) ''trajectory quality gate did not pass'') = Inr j"
      "conclude sv (rq_decision rq) (policy_reject g)
         (gate_reasons g @ blocked_if (\<not> ts_passed (et_score et)) ''trajectory quality gate did not pass'') review preliminary j = Inr v"
    using assms unfolding evaluate_rest_def Let_def ebind_eq_Inr by blast
  have "policy_reject g \<Longrightarrow> gate_reasons g @ blocked_if (\<not> ts_passed (et_score et)) ''trajectory quality gate did not pass'' \<noteq> []"
    using run_gates_clear(2) [OF r(1)] by simp
  from conclude_execute [OF r(4) this] have "(final_recommendation v = ''execute'' \<longleftrightarrow> gate_reasons g = [] \<and> ts_passed (et_score et)
         \<and> (ev_judge_enforces sv \<longrightarrow> sj_recommendation j \<notin> {''human_review'', ''defer'', ''reject''}))
    \<and> (passed v \<longleftrightarrow> blocking_reasons v = []) \<and> (final_recommendation v = ''execute'' \<longrightarrow> passed v)
    \<and> eval_decision_id v = decision_id (rq_decision rq)" by auto
  then show ?thesis using r(1,2,3) by blast
qed

lemma evaluation_clears:
  assumes "evaluate_decision sv cfg rq p = (Inr v, p')"
  shows "\<exists>preliminary reasons j. ev_judge sv (rq_trigger rq) (rq_decision rq) preliminary reasons = Inr j
    \<and> (final_recommendation v = ''execute'' \<longleftrightarrow> cleared sv cfg rq p
         \<and> (ev_judge_enforces sv \<longrightarrow> sj_recommendation j \<notin> {''human_review'', ''defer'', ''reject''}))
    \<and> (passed v \<longleftrightarrow> blocking_reasons v = []) \<and> (final_recommendation v = ''execute'' \<longrightarrow> passed v)
    \<and> eval_decision_id v = decision_id (rq_decision rq)"
proof -
  obtain schema pol accepted where u: "schema_stage (ev_schemas sv) (rq_trigger rq) (rq_decision rq) = Inr schema"
      "policy_checks (ev_policies sv ''autonomy.policy.json'') (rq_decision rq) = Inr pol"
      "evaluate_rest sv cfg rq schema pol (\<not> accepted) = Inr v"
    and reg: "if schema = None
     then register_evaluation (ev_now sv) (trig_id (rq_trigger rq)) (decision_id (rq_decision rq)) p = Inr (accepted, p')
     else accepted \<and> p' = p"
    using evaluate_unfold [OF assms] by blast
  obtain g et reasons preliminary j where g: "run_gates sv cfg rq schema pol (\<not> accepted) = Inr g" and et: "trace_stage sv rq = Inr et"
    and j: "ev_judge sv (rq_trigger rq) (rq_decision rq) preliminary reasons = Inr j"
    and fin: "final_recommendation v = ''execute'' \<longleftrightarrow> gate_reasons g = [] \<and> ts_passed (et_score et)
         \<and> (ev_judge_enforces sv \<longrightarrow> sj_recommendation j \<notin> {''human_review'', ''defer'', ''reject''})"
    and rest: "passed v \<longleftrightarrow> blocking_reasons v = []" "final_recommendation v = ''execute'' \<longrightarrow> passed v"
      "eval_decision_id v = decision_id (rq_decision rq)"
    using evaluate_rest_execute [OF u(3)] by blast
  have acc: "schema = None \<Longrightarrow> accepted \<longleftrightarrow> \<not> evaluated (trig_id (rq_trigger rq)) p" using reg register_accepts by auto
  have "gate_reasons g = [] \<and> ts_passed (et_score et) \<longleftrightarrow> cleared sv cfg rq p"
    unfolding run_gates_clear(1) [OF g] cleared_def Let_def u et using acc by auto
  then show ?thesis using j fin rest by blast
qed

text \<open>C7: the evaluation recommends execution exactly when every gate is open: trigger and decision meet
  their schemas, the trigger was not evaluated before (or a re-evaluation is allowed), decision
  type, system and action are on the allow lists and the action is idempotent, an autonomous
  decision touches no protected tier, no recent rollback and one service only, no approval is outstanding,
  confidence, risk, rollback plan, credentials, patch and host checks are in order, the evidence
  suffices, the autonomy policy allows it, the safety case and the trajectory pass, and a judge that
  is in force does not object. What it recommends to execute has passed, and a result
  passes exactly when it has no blocking reason.\<close>

theorem evaluation_execute_iff:
  assumes "evaluate_decision sv cfg rq p = (Inr v, p')"
  shows "\<exists>preliminary reasons j. ev_judge sv (rq_trigger rq) (rq_decision rq) preliminary reasons = Inr j
    \<and> (final_recommendation v = ''execute'' \<longleftrightarrow> cleared sv cfg rq p
         \<and> (ev_judge_enforces sv \<longrightarrow> sj_recommendation j \<notin> {''human_review'', ''defer'', ''reject''}))
    \<and> (passed v \<longleftrightarrow> blocking_reasons v = []) \<and> (final_recommendation v = ''execute'' \<longrightarrow> passed v)
    \<and> eval_decision_id v = decision_id (rq_decision rq)"
  by (rule evaluation_clears [OF assms])

section \<open>One evaluation per trigger\<close>

lemma register_keeps:
  assumes "register_evaluation now tid did p = Inr (accepted, p')"
  shows "evaluated tid p' \<and> (\<forall>a. evaluated a p \<longrightarrow> evaluated a p')"
  using assms unfolding register_evaluation_def Let_def evaluated_def
  by (cases "phas p ''evaluated_triggers''")
     (auto simp: setdefault_def pget_not_phas pget_pset split: if_splits elim: as_obj.elims)

text \<open>The evaluations file as a system: a step is an evaluation of anything, whether it succeeds or raises.\<close>

inductive eval_step :: "jobj \<Rightarrow> jobj \<Rightarrow> bool" where
  eval_step: "evaluate_decision sv cfg rq p = (x, p') \<Longrightarrow> eval_step p p'"

inductive_cases eval_stepE: "eval_step p p'"

lemma eval_step_keeps: "eval_step p p' \<Longrightarrow> evaluated a p \<Longrightarrow> evaluated a p'"
proof (erule eval_stepE)
  fix sv cfg rq x
  assume e: "evaluate_decision sv cfg rq p = (x, p')" and a: "evaluated a p"
  then consider "p' = p" | accepted where
      "register_evaluation (ev_now sv) (trig_id (rq_trigger rq)) (decision_id (rq_decision rq)) p = Inr (accepted, p')"
    unfolding evaluate_decision_def Let_def by (auto split: sum.splits if_splits)
  then show "evaluated a p'" using a register_keeps by cases auto
qed

interpretation evaluations: invariant_system "evaluated a" eval_step "evaluated a" for a
  by unfold_locales (auto intro: eval_step_keeps)

lemma evaluate_registers:
  assumes "evaluate_decision sv cfg rq p = (Inr v, p')" and "schema_stage (ev_schemas sv) (rq_trigger rq) (rq_decision rq) = Inr None"
  shows "evaluated (trig_id (rq_trigger rq)) p'"
  using evaluate_unfold [OF assms(1)] assms(2) register_keeps by auto

text \<open>C29: a trigger is cleared for execution at most once. After an evaluation of a well-formed trigger and
  decision, whatever it recommended and whatever evaluations follow, an evaluation of the
  same trigger that is not an allowed re-evaluation does not recommend execution.\<close>

theorem evaluation_executes_once:
  assumes "evaluate_decision sv cfg rq p = (Inr v, p1)"
    and "schema_stage (ev_schemas sv) (rq_trigger rq) (rq_decision rq) = Inr None"
    and "eval_step\<^sup>*\<^sup>* p1 p2" and "evaluate_decision sv' cfg' rq' p2 = (Inr v', p3)"
    and "trig_id (rq_trigger rq') = trig_id (rq_trigger rq)" and "\<not> rq_allow_rereevaluation rq'"
  shows "final_recommendation v' \<noteq> ''execute''"
proof -
  have "evaluated (trig_id (rq_trigger rq')) p2"
    using evaluations.rtranclp_inv [OF assms(3)] evaluate_registers [OF assms(1,2)] assms(5) by simp
  then have "\<not> cleared sv' cfg' rq' p2" using assms(6) by (simp add: cleared_def Let_def)
  then show ?thesis using evaluation_clears [OF assms(4)] by blast
qed

end
