(* ===== verification/Evaluation_Witness.thy ===== *)
theory Evaluation_Witness
  imports Evaluation_Props Orchestrator_Witness
begin

text \<open>The evaluation on a concrete trigger: an autonomous restart of a systemd service that every gate lets
  through, the same trigger a second time, and the dispatch that follows the first evaluation.\<close>

definition host_trigger :: Trigger where
  "host_trigger = \<lparr>trig_id = ''t1'', trigger_type = ''latency'', triggered_at = ''now'', environment = ''prod'', trig_service = ''api'',
     endpoint = ''/'', flag_key = None, current_rollout_pct = None, comparison_window = None,
     segment = [(''customer_tier'', JStr ''standard'')], metrics = [(''p95'', JInt 900)],
     related_context = [(''post_action_observations'', JObj [(''p95'', JInt 200)])]\<rparr>"

definition host_decision :: Decision where
  "host_decision = \<lparr>decision_id = ''d1'', trigger_id = ''t1'', summary = ''s'', decision_type = ''restart_systemd_service'',
     autonomy_tier = ''autonomous'',
     reasoning = [(''evidence'', JList [JStr ''a'', JStr ''b'']), (''evidence_pack'', JObj [(''sufficient'', JBool True)]),
       (''source_event_ids'', JList [JStr ''e1''])],
     expected_outcome = [], risk = [(''level'', JStr ''low''), (''blast_radius'', JStr ''single_service'')], confidence = JInt 1,
     execution_plan = [(''system'', JStr ''systemd_service''), (''action'', JStr ''restart_systemd_service''),
       (''parameters'', JObj [(''host'', JStr ''ops@h1''), (''service'', JStr ''api'')]), (''rollback_plan'', JObj [(''a'', JInt 1)])]\<rparr>"

definition host_policies :: "string \<Rightarrow> jobj" where
  "host_policies name =
     (if name = ''autonomy.policy.json'' then
        [(''allowed_decision_types'', JList [JStr ''no_action'', JStr ''restart_systemd_service'']),
         (''allowed_execution_systems'', JList [JStr ''systemd_service'']),
         (''allowed_execution_actions'', JObj [(''systemd_service'', JList [JStr ''restart_systemd_service''])]),
         (''idempotent_actions'', JList [JStr ''restart_systemd_service''])]
      else if name = ''protected-scope.policy.json'' then
        [(''approval_required_customer_tiers'', JList [JStr ''strategic'', JStr ''platinum''])]
      else [(''require_rollback_plan_for_decision_types'', JList [JStr ''restart_deployment'']), (''minimum_confidence'', JFloat (3 / 4))])"

definition host_services :: eval_services where
  "host_services = \<lparr>ev_schemas = open_schemas, ev_policies = host_policies, ev_registry = No_File, ev_path_exists = (\<lambda>_. False),
     ev_history = (\<lambda>_ _. Store_Rate (Inr (JInt 1))), ev_session_artifacts = (\<lambda>_. No_Method), ev_run_events = (\<lambda>_. No_Method),
     ev_mesh_eval = (\<lambda>_ _ _. Inr JNull), ev_phoenix = (\<lambda>_. Inr JNull), ev_stack = (\<lambda>_ _ _. Inr JNull), ev_judge = native_judge,
     ev_judge_enforces = True, ev_float_text = (\<lambda>s. Inl (ValueError s)), ev_now = ''now''\<rparr>"

definition host_config :: eval_config where
  "host_config = \<lparr>c_feature_flag_credentials = True, c_incident_credentials = True, c_audit_logging = True,
     c_ssh_allowed_hosts = [''h1''], c_ssh_allowed_services = [''api.service''], c_readiness_profile = ''pilot'',
     c_kubernetes_live = False, c_force_approval_gate = False\<rparr>"

definition host_request :: eval_request where
  "host_request = \<lparr>rq_trigger = host_trigger, rq_decision = host_decision, rq_allow_rereevaluation = False, rq_run_id = None,
     rq_run_events = [], rq_artifacts = []\<rparr>"

definition host_run :: "(py_exn + EvaluationResult) \<times> jobj" where
  "host_run = evaluate_decision host_services host_config host_request []"

section \<open>The scores\<close>

definition host_evidence :: rat where
  "host_evidence = clamp (fadd (fadd (fadd (fadd (fadd (lit 20 100) (lit 15 100)) (lit 15 100)) (lit 20 100)) (lit 20 100)) (lit 10 100))"

definition host_action :: rat where
  "host_action = clamp (fadd (fadd (fadd (lit 40 100) (lit 20 100)) (lit 20 100)) (lit 10 100))"

lemma host_evidence_score: "evidence_score host_trigger host_decision = Inr host_evidence"
  by (simp add: evidence_score_def pack_score_def host_trigger_def host_decision_def add_if_def host_evidence_def Let_def
      source_event_ids_def por_def pget_or_def pget_def)

lemma lit_sure: "lit 85 100 \<le> 1" "lit 35 100 \<le> 1"
  by code_simp+

lemma host_action_score: "action_score host_decision = Inr host_action"
  using lit_sure(1)
  by (simp add: action_score_def host_decision_def add_if_def host_action_def Let_def at_least_def AUDIT_ACTIONS_def
      str_or_empty_def por_def)

lemma host_blast_score: "blast_radius_score host_trigger host_decision = Inr 1"
  by (simp add: blast_radius_score_def host_decision_def host_trigger_def multi_service_def high_risk_def add_if_def Let_def
      in_set_def str_in_def PROTECTED_TIERS_def clamp_def str_or_empty_def por_def)

lemma host_history_score: "history_score ft (Store_Rate (Inr (JInt 1))) = Inr 1"
proof -
  have "fl 1 = 1" by code_simp
  then show ?thesis by (simp add: history_score_def clamp_def)
qed

lemma host_recovery_score: "recovery_score host_trigger host_decision = lit 85 100"
  by (simp add: recovery_score_def host_decision_def host_trigger_def AUDIT_ACTIONS_def Let_def str_or_empty_def por_def nonempty_dict_def)

definition host_scores :: "(string \<times> rat) list" where
  "host_scores = [(''policy'', 1), (''quality'', 1), (''readiness'', 1), (''evidence'', host_evidence), (''action'', host_action),
     (''blast_radius'', 1), (''history'', 1), (''recovery'', lit 85 100)]"

lemma host_values: "host_evidence = 9007199254740991 / 9007199254740992" "host_action = 8106479329266893 / 9007199254740992"
  by code_simp+

lemma host_lits:
  "lit 6 100 = 1080863910568919 / 18014398509481984"
  "lit 8 100 = 5764607523034235 / 72057594037927936"
  "lit 10 100 = 3602879701896397 / 36028797018963968"
  "lit 12 100 = 1080863910568919 / 9007199254740992"
  "lit 14 100 = 1261007895663739 / 9007199254740992"
  "lit 18 100 = 3242591731706757 / 18014398509481984"
  "lit 85 100 = 7656119366529843 / 9007199254740992"
  by code_simp+

lemma host_terms:
  "fl (3242591731706757 / 18014398509481984) = 3242591731706757 / 18014398509481984"
  "fl (1080863910568919 / 9007199254740992) = 1080863910568919 / 9007199254740992"
  "fl (1261007895663739 / 9007199254740992) = 1261007895663739 / 9007199254740992"
  "fl ((9007199254740991 / 9007199254740992) * (3242591731706757 / 18014398509481984)) = 6485183463413513 / 36028797018963968"
  "fl ((8106479329266893 / 9007199254740992) * (1261007895663739 / 9007199254740992)) = 4539628424389461 / 36028797018963968"
  "fl (3602879701896397 / 36028797018963968) = 3602879701896397 / 36028797018963968"
  "fl (5764607523034235 / 72057594037927936) = 5764607523034235 / 72057594037927936"
  "fl ((7656119366529843 / 9007199254740992) * (1080863910568919 / 18014398509481984)) = 7349874591868649 / 144115188075855872"
  by code_simp+

lemma host_sums:
  "fadd (3242591731706757 / 18014398509481984) (1080863910568919 / 9007199254740992) = 5404319552844595 / 18014398509481984"
  "fadd (5404319552844595 / 18014398509481984) (1261007895663739 / 9007199254740992) = 7926335344172073 / 18014398509481984"
  "fadd (7926335344172073 / 18014398509481984) (6485183463413513 / 36028797018963968) = 5584463537939415 / 9007199254740992"
  "fadd (5584463537939415 / 9007199254740992) (4539628424389461 / 36028797018963968) = 1679842661009195 / 2251799813685248"
  "fadd (1679842661009195 / 2251799813685248) (3602879701896397 / 36028797018963968) = 7620090569510879 / 9007199254740992"
  "fadd (7620090569510879 / 9007199254740992) (5764607523034235 / 72057594037927936) = 4170333254945079 / 4503599627370496"
  "fadd (4170333254945079 / 4503599627370496) (7349874591868649 / 144115188075855872) = 8800033671881949 / 9007199254740992"
  by code_simp+

lemma host_total: "DEFAULT_THRESHOLD \<le> py_round 3 (8800033671881949 / 9007199254740992)"
  by code_simp

lemma host_weighted: "DEFAULT_THRESHOLD \<le> weighted_score host_scores"
proof -
  have "weighted_score host_scores = py_round 3 (fadd (fadd (fadd (fadd (fadd (fadd (fadd (fl (lit 18 100)) (fl (lit 12 100))) (fl (lit 14 100)))
        (fl (host_evidence * lit 18 100))) (fl (host_action * lit 14 100))) (fl (lit 10 100))) (fl (lit 8 100))) (fl (lit 85 100 * lit 6 100)))"
    by (simp add: weighted_score_def host_scores_def Let_def)
  also have "\<dots> = py_round 3 (8800033671881949 / 9007199254740992)"
    unfolding host_values host_lits host_terms host_sums ..
  finally show ?thesis using host_total by simp
qed

lemma host_evidence_enough: "lit 55 100 \<le> host_evidence"
  by code_simp

section \<open>The gates\<close>

definition host_pol :: policy_gate where
  "host_pol = \<lparr>pc_system = JStr ''systemd_service'', pc_decision_allowed = True, pc_plan_allowed = True, pc_idempotent = True\<rparr>"

lemma host_policy: "policy_checks (host_policies ''autonomy.policy.json'') host_decision = Inr host_pol"
  by code_simp

lemma host_business: "business_notes_of (host_policies ''protected-scope.policy.json'') host_trigger host_decision = Inr []"
  by code_simp

lemma host_readiness:
  "readiness_stage host_config (\<lambda>_. False) (host_policies ''rollback.policy.json'') host_pol host_trigger host_decision = Inr ([], JBool True)"
  by code_simp

lemma host_evidence_packet:
  "\<exists>packet. evaluate_evidence_sufficiency open_schemas host_trigger host_decision = Inr packet \<and> truthy (pget packet ''passed'')"
proof -
  have "case evaluate_evidence_sufficiency open_schemas host_trigger host_decision of Inr packet \<Rightarrow> truthy (pget packet ''passed'') | Inl _ \<Rightarrow> False"
    by code_simp
  then show ?thesis by (auto split: sum.splits)
qed

lemma host_verdict:
  "\<exists>w. evaluate_autonomy_policy open_schemas No_File host_decision None ''pilot'' None None [] False False False = Inr w \<and> blockers w = []"
proof -
  have "case evaluate_autonomy_policy open_schemas No_File host_decision None ''pilot'' None None [] False False False of
      Inr w \<Rightarrow> blockers w = [] | Inl _ \<Rightarrow> False"
    by code_simp
  then show ?thesis by (auto split: sum.splits)
qed

lemma host_stops: "hard_stops_of host_trigger host_decision prior host_evidence 1 True True True = Inr []"
  unfolding hard_stops_Nil using host_evidence_enough lit_sure(2)
  by (auto simp: host_trigger_def host_decision_def in_set_def str_in_def PROTECTED_TIERS_def high_risk_def multi_service_def
      str_or_empty_def por_def error_signatures_def signatures_in_def)

lemma host_safety:
  "\<exists>c. evaluate_remediation_safety ft host_trigger host_decision (Store_Rate (Inr (JInt 1))) prior True True True True DEFAULT_THRESHOLD = Inr c
    \<and> safety_blocking_reason c = None"
  using host_weighted
  unfolding evaluate_remediation_safety_def host_evidence_score host_action_score host_blast_score host_history_score host_recovery_score
    ebind_Inr Let_def host_stops host_scores_def
  by (simp add: safety_blocking_reason_def bool_score_def)

lemma host_gates:
  "\<exists>g. run_gates host_services host_config host_request None host_pol False = Inr g \<and> gate_reasons g = []"
proof -
  obtain packet where e: "evaluate_evidence_sufficiency open_schemas host_trigger host_decision = Inr packet" "truthy (pget packet ''passed'')"
    using host_evidence_packet by blast
  obtain w where w: "evaluate_autonomy_policy open_schemas No_File host_decision None ''pilot'' None None [] False False False = Inr w"
      "blockers w = []"
    using host_verdict by blast
  obtain c where c: "\<And>prior. evaluate_remediation_safety (\<lambda>s. Inl (ValueError s)) host_trigger host_decision (Store_Rate (Inr (JInt 1))) prior
      True True True True DEFAULT_THRESHOLD = Inr c" "safety_blocking_reason c = None"
    using host_safety [of "\<lambda>s. Inl (ValueError s)" "[]"] safety_prior by metis
  have ap: "approval_observed_in [] [] = False" "live_execution_enabled host_config (pc_system host_pol) = False"
    by code_simp+
  show ?thesis
    using e w c host_business host_readiness ap
    by (simp add: run_gates_def Let_def host_services_def host_request_def host_config_def gate_reasons_def policy_notes_of_def host_pol_def blocked_if_def)
qed

section \<open>The trace and the result\<close>

lemma host_trace: "\<exists>et. trace_stage host_services host_request = Inr et \<and> ts_passed (et_score et)"
proof -
  have "is_ok (build_trace (trigger_asdict host_trigger) (decision_asdict host_decision) JNull JNull JNull [] [(''mesh_eval'', JNull)])"
    by code_simp
  then obtain tr where b: "build_trace (trigger_asdict host_trigger) (decision_asdict host_decision) JNull JNull JNull [] [(''mesh_eval'', JNull)] = Inr tr"
    by (auto simp: is_ok_iff)
  have tr: "tr = (case build_trace (trigger_asdict host_trigger) (decision_asdict host_decision) JNull JNull JNull [] [(''mesh_eval'', JNull)] of
      Inr x \<Rightarrow> x | Inl _ \<Rightarrow> [])"
    by (simp add: b)
  have d: "pget tr ''decision'' = JObj (decision_asdict host_decision)" "pget tr ''events'' = JList []" "pget tr ''execution'' = JNull"
      "pget tr ''feedback'' = JNull" "truthy (pget (trace_context tr) ''evidence_pack'')"
    unfolding tr by code_simp+
  have in_set: "in_set (nested (JObj (decision_asdict host_decision)) [''execution_plan'', ''system''])
      [''kubernetes_service'', ''systemd_service''] = Inr True" by code_simp
  have sure: "por (pget_or (decision_asdict host_decision) ''confidence'' x) x = JInt 1" for x
    by (simp add: decision_asdict_def host_decision_def pget_or_def por_def)
  have "is_ok (temperature_policy_for_trace ft tr)" for ft
    by (simp only: temperature_policy_for_trace_def d Let_def obj_or_empty.simps in_set sure py_float.simps ebind_Inr is_ok.simps)
  then obtain temperature where t: "temperature_policy_for_trace (\<lambda>s. Inl (ValueError s)) tr = Inr temperature"
    by (auto simp: is_ok_iff)
  let ?tr = "pset tr ''temperature_policy'' (JObj temperature)"
  have f: "pget ?tr k = pget tr k" if "k \<noteq> ''temperature_policy''" for k using that by (simp add: pget_pset)
  have sc: "is_ok (score_trace ?tr)"
    using d by (auto simp: is_ok_iff score_trace_def evidence_inspection_def system_outcome_def trace_context_def f Let_def)
  then obtain x where x: "score_trace ?tr = Inr x" by (auto simp: is_ok_iff)
  have "trace_action ?tr = JStr ''restart_systemd_service''"
    by (simp add: trace_action_def f d) (simp add: decision_asdict_def host_decision_def jget_def)
  then have "ts_passed x" using d by (simp add: score_trace_passed [OF x] blind_restart_def trace_context_def f)
  moreover obtain y where "verify_trace ?tr = Inr y"
    using d by (auto simp: verify_trace_def f Let_def)
  ultimately show ?thesis
    using b t x by (simp add: trace_stage_def Let_def host_services_def host_request_def events_for_run_def pset_def)
qed

lemma host_selectors:
  "rq_decision host_request = host_decision" "rq_trigger host_request = host_trigger" "ev_judge host_services = native_judge"
  "ev_schemas host_services = open_schemas" "ev_policies host_services = host_policies" "ev_now host_services = ''now''"
  "decision_type host_decision = ''restart_systemd_service''" "trig_id host_trigger = ''t1''" "rq_allow_rereevaluation host_request = False"
  by (simp_all add: host_request_def host_services_def host_decision_def host_trigger_def)

lemma host_judge:
  "\<exists>j. native_judge host_trigger host_decision preliminary reasons = Inr j \<and> (reasons = [] \<longrightarrow> sj_recommendation j = ''execute'')"
proof -
  have "missing_evidence_from_decision host_decision = Inr []" by code_simp
  then show ?thesis by (simp add: native_judge_def host_selectors Let_def)
qed

lemma host_rest:
  assumes g: "run_gates host_services host_config host_request None host_pol duplicate = Inr g"
  shows "\<exists>v. evaluate_rest host_services host_config host_request None host_pol duplicate = Inr v
    \<and> (gate_reasons g = [] \<longrightarrow> final_recommendation v = ''execute'')"
proof -
  obtain et where et: "trace_stage host_services host_request = Inr et" "ts_passed (et_score et)" using host_trace by blast
  have rv: "scenario_review_reasons host_decision = Inr []" by code_simp
  obtain pre where pre: "stage_results_of host_services g et (gate_reasons g) [] = Inr pre"
    by (simp add: stage_results_of_def Let_def host_services_def)
  obtain j where j: "native_judge host_trigger host_decision pre (gate_reasons g) = Inr j"
      "gate_reasons g = [] \<longrightarrow> sj_recommendation j = ''execute''" using host_judge by blast
  have "\<exists>v. conclude host_services host_decision (policy_reject g) (gate_reasons g) [] pre j = Inr v"
    by (simp add: conclude_def Let_def host_selectors)
  then obtain v where v: "conclude host_services host_decision (policy_reject g) (gate_reasons g) [] pre j = Inr v" by blast
  have "evaluate_rest host_services host_config host_request None host_pol duplicate = Inr v"
    by (simp add: evaluate_rest_def g et rv pre j(1) v host_selectors blocked_if_def)
  then show ?thesis using conclude_execute [OF v run_gates_clear(2) [OF g]] j(2) by auto
qed

lemma host_schema: "schema_stage open_schemas host_trigger host_decision = Inr None"
  by (simp add: schema_stage_def)

lemma host_evaluated: "\<exists>v p'. host_run = (Inr v, p') \<and> final_recommendation v = ''execute''"
proof -
  obtain v where "evaluate_rest host_services host_config host_request None host_pol False = Inr v" "final_recommendation v = ''execute''"
    using host_gates host_rest by metis
  moreover have "\<exists>p'. register_evaluation ''now'' ''t1'' (decision_id host_decision) [] = Inr (True, p')"
    by (simp add: register_evaluation_def setdefault_def)
  ultimately show ?thesis
    using host_policy host_schema by (auto simp: host_run_def evaluate_decision_def host_selectors)
qed

theorem evaluation_execute_iff_witness:
  "\<exists>v p'. host_run = (Inr v, p') \<and> cleared host_services host_config host_request []"
proof -
  obtain v p' where v: "host_run = (Inr v, p')" "final_recommendation v = ''execute''" using host_evaluated by blast
  then show ?thesis using evaluation_execute_iff [OF v(1) [unfolded host_run_def]] by blast
qed

section \<open>The same trigger again\<close>

lemma host_safety_total:
  "\<exists>c. evaluate_remediation_safety ft host_trigger host_decision (Store_Rate (Inr (JInt 1))) prior True s po r limit = Inr c"
  unfolding evaluate_remediation_safety_def host_evidence_score host_action_score host_blast_score host_history_score host_recovery_score
    ebind_Inr Let_def hard_stops_of_def
  by (simp add: host_trigger_def in_set_def)

lemma host_gates_total: "\<exists>g. run_gates host_services host_config host_request None host_pol duplicate = Inr g"
proof -
  obtain packet w where "evaluate_evidence_sufficiency open_schemas host_trigger host_decision = Inr packet"
      "evaluate_autonomy_policy open_schemas No_File host_decision None ''pilot'' None None [] False False False = Inr w"
    using host_evidence_packet host_verdict by blast
  moreover have "approval_observed_in [] [] = False" "live_execution_enabled host_config (pc_system host_pol) = False"
    by code_simp+
  ultimately show ?thesis
    using host_business host_readiness host_safety_total
    by (simp add: run_gates_def Let_def host_services_def host_request_def host_config_def)
qed

lemma host_again:
  assumes "host_run = (Inr v, p1)"
  shows "\<exists>v' p2. evaluate_decision host_services host_config host_request p1 = (Inr v', p2)"
proof -
  have p1: "p1 = [(''evaluated_triggers'', JObj [(''t1'', JObj [(''decision_id'', JStr (decision_id host_decision)),
      (''recorded_at'', JStr ''now'')])])]"
    using evaluate_unfold [OF assms [unfolded host_run_def]]
    by (auto simp: host_selectors host_schema register_evaluation_def setdefault_def)
  have "register_evaluation ''now'' ''t1'' (decision_id host_decision) p1 = Inr (False, p1)"
    by (simp add: p1 register_evaluation_def setdefault_def)
  moreover obtain v' where "evaluate_rest host_services host_config host_request None host_pol True = Inr v'"
    using host_gates_total host_rest by metis
  ultimately show ?thesis using host_policy host_schema by (simp add: evaluate_decision_def host_selectors)
qed

theorem evaluation_executes_once_witness:
  "\<exists>v p1 v' p2. host_run = (Inr v, p1) \<and> final_recommendation v = ''execute''
     \<and> evaluate_decision host_services host_config host_request p1 = (Inr v', p2) \<and> final_recommendation v' \<noteq> ''execute''"
proof -
  obtain v p1 where v: "host_run = (Inr v, p1)" "final_recommendation v = ''execute''" using host_evaluated by blast
  obtain v' p2 where v': "evaluate_decision host_services host_config host_request p1 = (Inr v', p2)" using host_again [OF v(1)] by blast
  have "schema_stage (ev_schemas host_services) (rq_trigger host_request) (rq_decision host_request) = Inr None"
    by (simp add: host_selectors host_schema)
  from evaluation_executes_once [OF v(1) [unfolded host_run_def] this rtranclp.rtrancl_refl v' refl] v v' show ?thesis
    by (auto simp: host_selectors)
qed

section \<open>The dispatch that follows\<close>

lemma host_dispatch:
  "Dispatch ''d1:restart_systemd_service'' None \<in> set (run_log restart_services restart_config host_decision
     \<lparr>evaluation_id = a, eval_decision_id = b, passed = True, final_recommendation = ''execute'', stage_results = c,
      blocking_reasons = e, review_route = f\<rparr> False [])"
  by code_simp

end
