(* ===== verification/Py_IO.thy ===== *)
theory Py_IO
  imports Permits Authority_Store
begin

text \<open>
  Programs with effects: a state with the file system, a counter and a budget, and an outcome that is a value,
  an exception or the death of the process. The counter numbers the answers of the outside world (the clock, random tokens,
  subprocesses); each operation that changes something outside the process spends one unit of the budget and the process
  dies before the operation when none is left, so that quantifying over the budget quantifies over every crash point.
\<close>

datatype 'a outcome = Done 'a | Raised authority_exn | Killed

record machine =
  m_fs :: fsys
  m_tick :: nat
  m_budget :: nat

type_synonym ('z, 'a) io = "'z machine_scheme \<Rightarrow> 'a outcome \<times> 'z machine_scheme"

definition io_return :: "'a \<Rightarrow> ('z, 'a) io" where
  "io_return x = (\<lambda>w. (Done x, w))"

definition io_raise :: "py_exn \<Rightarrow> ('z, 'a) io" where
  "io_raise e = (\<lambda>w. (Raised (PyExn e), w))"

definition io_bind :: "('z, 'a) io \<Rightarrow> ('a \<Rightarrow> ('z, 'b) io) \<Rightarrow> ('z, 'b) io" where
  "io_bind m f = (\<lambda>w. case m w of
      (Done x, w') \<Rightarrow> f x w'
    | (Raised e, w') \<Rightarrow> (Raised e, w')
    | (Killed, w') \<Rightarrow> (Killed, w'))"

definition io_lift :: "py_exn + 'a \<Rightarrow> ('z, 'a) io" where
  "io_lift r = (case r of Inl e \<Rightarrow> io_raise e | Inr x \<Rightarrow> io_return x)"

definition io_of :: "authority_exn + 'a \<Rightarrow> ('z, 'a) io" where
  "io_of r = (\<lambda>w. case r of Inl e \<Rightarrow> (Raised e, w) | Inr x \<Rightarrow> (Done x, w))"

text \<open>\<open>try: m except caught: h\<close>, \<open>try: m finally: fin\<close>, and an exception as a value.\<close>

definition io_catch :: "(authority_exn \<Rightarrow> bool) \<Rightarrow> ('z, 'a) io \<Rightarrow> (authority_exn \<Rightarrow> ('z, 'a) io) \<Rightarrow> ('z, 'a) io" where
  "io_catch caught m h = (\<lambda>w. case m w of
      (Raised e, w') \<Rightarrow> if caught e then h e w' else (Raised e, w')
    | r \<Rightarrow> r)"

definition io_finally :: "('z, 'a) io \<Rightarrow> ('z, unit) io \<Rightarrow> ('z, 'a) io" where
  "io_finally m fin = (\<lambda>w. case m w of
      (Done x, w') \<Rightarrow> io_bind fin (\<lambda>_. io_return x) w'
    | (Raised e, w') \<Rightarrow> io_bind fin (\<lambda>_ w''. (Raised e, w'')) w'
    | (Killed, w') \<Rightarrow> (Killed, w'))"

definition io_attempt :: "('z, 'a) io \<Rightarrow> ('z, authority_exn + 'a) io" where
  "io_attempt m = (\<lambda>w. case m w of
      (Done x, w') \<Rightarrow> (Done (Inr x), w')
    | (Raised e, w') \<Rightarrow> (Done (Inl e), w')
    | (Killed, w') \<Rightarrow> (Killed, w'))"

definition io_tick :: "('z, nat) io" where
  "io_tick = (\<lambda>w. (Done (m_tick w), w\<lparr>m_tick := m_tick w + 1\<rparr>))"

definition io_fs :: "('z, fsys) io" where
  "io_fs = (\<lambda>w. (Done (m_fs w), w))"

text \<open>An effect on the files, with the number of the answer it gets.\<close>

definition io_effect :: "(nat \<Rightarrow> fsys \<Rightarrow> (py_exn + 'a) \<times> fsys) \<Rightarrow> ('z, 'a) io" where
  "io_effect f = (\<lambda>w. if m_budget w = 0 then (Killed, w)
     else case f (m_tick w) (m_fs w) of
       (r, fs') \<Rightarrow> io_lift r (w\<lparr>m_fs := fs', m_tick := m_tick w + 1, m_budget := m_budget w - 1\<rparr>))"

definition io_check :: "bool \<Rightarrow> string \<Rightarrow> ('z, unit) io" where
  "io_check b msg = (if b then io_return () else io_raise (ValueError msg))"

section \<open>Rules\<close>

lemma io_return_apply [simp]: "io_return x w = (Done x, w)"
  by (simp add: io_return_def)

lemma io_raise_apply [simp]: "io_raise e w = (Raised (PyExn e), w)"
  by (simp add: io_raise_def)

lemma io_lift_simps [simp]: "io_lift (Inl e) = io_raise e" "io_lift (Inr x) = io_return x"
  by (simp_all add: io_lift_def)

lemma io_bind_Done: "io_bind m f w = (Done y, w') \<longleftrightarrow> (\<exists>x w1. m w = (Done x, w1) \<and> f x w1 = (Done y, w'))"
  by (auto simp: io_bind_def split: prod.splits outcome.splits)

lemma io_bind_cases:
  assumes "io_bind m f w = (r, w')"
  obtains (returned) x w1 where "m w = (Done x, w1)" "f x w1 = (r, w')"
    | (raised) e where "m w = (Raised e, w')" "r = Raised e"
    | (killed) "m w = (Killed, w')" "r = Killed"
  using assms by (auto simp: io_bind_def split: prod.splits outcome.splits)

lemma io_bind_return [simp]: "io_bind (io_return x) f = f x"
  by (simp add: io_bind_def io_return_def)

lemma io_bind_raise [simp]: "io_bind (io_raise e) f = io_raise e"
  by (simp add: io_bind_def io_raise_def fun_eq_iff)

lemma io_bind_assoc: "io_bind (io_bind m f) g = io_bind m (\<lambda>x. io_bind (f x) g)"
  by (auto simp: io_bind_def fun_eq_iff split: prod.split outcome.split)

lemma io_bind_attempt:
  "io_bind (io_attempt m) f w = (case m w of
      (Done x, w1) \<Rightarrow> f (Inr x) w1 | (Raised e, w1) \<Rightarrow> f (Inl e) w1 | (Killed, w1) \<Rightarrow> (Killed, w1))"
  by (simp add: io_bind_def io_attempt_def split: prod.split outcome.split)

lemma io_check_Done [simp]: "io_check b msg w = (Done (), w') \<longleftrightarrow> b \<and> w' = w"
  by (auto simp: io_check_def)

lemma io_tick_apply [simp]: "io_tick w = (Done (m_tick w), w\<lparr>m_tick := m_tick w + 1\<rparr>)"
  by (simp add: io_tick_def)

lemma io_fs_apply [simp]: "io_fs w = (Done (m_fs w), w)"
  by (simp add: io_fs_def)

text \<open>
  A relation on states that every part of a program keeps: \<open>io_keeps R m\<close> when \<open>m\<close> relates the state before it to
  the state after it, however it ends.
\<close>

definition io_keeps :: "('z machine_scheme \<Rightarrow> 'z machine_scheme \<Rightarrow> bool) \<Rightarrow> ('z, 'a) io \<Rightarrow> bool" where
  "io_keeps R m \<longleftrightarrow> (\<forall>w. R w (snd (m w)))"

named_theorems keeps

lemma io_keepsD: "io_keeps R m \<Longrightarrow> m w = (r, w') \<Longrightarrow> R w w'"
  by (metis io_keeps_def snd_conv)

lemma keeps_return [keeps]: "reflp R \<Longrightarrow> io_keeps R (io_return x)"
  by (simp add: io_keeps_def reflp_def)

lemma keeps_raise [keeps]: "reflp R \<Longrightarrow> io_keeps R (io_raise e)"
  by (simp add: io_keeps_def reflp_def)

lemma keeps_lift [keeps]: "reflp R \<Longrightarrow> io_keeps R (io_lift r)"
  by (cases r) (auto simp: keeps_return keeps_raise)

lemma keeps_check [keeps]: "reflp R \<Longrightarrow> io_keeps R (io_check b msg)"
  by (simp add: io_check_def keeps_return keeps_raise)

lemma keeps_of [keeps]: "reflp R \<Longrightarrow> io_keeps R (io_of r)"
  by (auto simp: io_keeps_def reflp_def io_of_def split: sum.split)

lemma keeps_fs [keeps]: "reflp R \<Longrightarrow> io_keeps R io_fs"
  by (simp add: io_keeps_def reflp_def)

lemma keeps_bind [keeps]:
  "transp R \<Longrightarrow> io_keeps R m \<Longrightarrow> (\<And>x. io_keeps R (f x)) \<Longrightarrow> io_keeps R (io_bind m f)"
  unfolding io_keeps_def
proof (intro allI)
  fix w assume t: "transp R" and m: "\<forall>w. R w (snd (m w))" and f: "\<And>x. \<forall>w. R w (snd (f x w))"
  obtain r w1 where w1: "m w = (r, w1)" by fastforce
  then have "R w w1" using m by (metis snd_conv)
  moreover have "R w1 (snd (f x w1))" for x using f by blast
  ultimately show "R w (snd (io_bind m f w))"
    using transpD [OF t] w1 by (cases r) (auto simp: io_bind_def)
qed

lemma keeps_attempt [keeps]: "io_keeps R m \<Longrightarrow> io_keeps R (io_attempt m)"
  unfolding io_keeps_def io_attempt_def by (auto split: prod.split outcome.split) (metis snd_conv)+

lemma keeps_catch [keeps]:
  "transp R \<Longrightarrow> io_keeps R m \<Longrightarrow> (\<And>e. io_keeps R (h e)) \<Longrightarrow> io_keeps R (io_catch caught m h)"
  unfolding io_keeps_def
proof (intro allI)
  fix w assume t: "transp R" and m: "\<forall>w. R w (snd (m w))" and h: "\<And>e. \<forall>w. R w (snd (h e w))"
  obtain r w1 where w1: "m w = (r, w1)" by fastforce
  then have "R w w1" using m by (metis snd_conv)
  moreover have "R w1 (snd (h x w1))" for x using h by blast
  ultimately show "R w (snd (io_catch caught m h w))"
    using transpD [OF t] w1 by (cases r) (auto simp: io_catch_def)
qed

lemma keeps_finally [keeps]:
  "transp R \<Longrightarrow> io_keeps R m \<Longrightarrow> io_keeps R fin \<Longrightarrow> io_keeps R (io_finally m fin)"
  unfolding io_keeps_def
proof (intro allI)
  fix w assume t: "transp R" and m: "\<forall>w. R w (snd (m w))" and f: "\<forall>w. R w (snd (fin w))"
  obtain r w1 where w1: "m w = (r, w1)" by fastforce
  obtain r2 w2 where w2: "fin w1 = (r2, w2)" by fastforce
  have "R w w1" "R w1 w2" using m f w1 w2 by (metis snd_conv)+
  then show "R w (snd (io_finally m fin w))"
    using transpD [OF t] w1 w2 by (cases r; cases r2) (auto simp: io_finally_def io_bind_def)
qed

end
