(* ===== verification/Authority_Protocol.thy ===== *)
theory Authority_Protocol
  imports Json_Text Hsai_Bridge Permit_Validation
begin

text \<open>
  \<open>shared/mesh_runtime/repo_patch_authority.py\<close>, the signed protocol between the orchestrator and the
  out-of-process repo-patch authority, with the Ed25519 proofs of \<open>perennial/signing.py\<close>: length-prefixed JSON
  frames over a stream, the receipt of a preflight, and the client that verifies every response.

  The Ed25519 functions of the \<open>cryptography\<close> package (with the base64 text of a signature) are the
  parameter \<open>ed25519\<close>; the socket is a \<open>connection\<close>, a sequence of byte strings as they arrive.
  \<open>RepoPatchAuthorityError\<close> is a \<open>RuntimeError\<close>. The name of an exception's class is its constructor's.
\<close>

section \<open>Ed25519 proofs\<close>

record ed25519 =
  ed_present :: bool
  ed_sign :: "string \<Rightarrow> string \<Rightarrow> py_exn + (string \<times> string)"
  ed_verify :: "string \<Rightarrow> string \<Rightarrow> string \<Rightarrow> py_exn + bool"

text \<open>
  \<open>ed_sign key text\<close> is the signature and the public key, or what loading the key raised;
  \<open>ed_verify key signature text\<close> is false on \<open>InvalidSignature\<close>, \<open>ValueError\<close>, \<open>TypeError\<close> and on a key of another kind.
\<close>

definition build_ed25519_signature_proof ::
  "pyenv \<Rightarrow> ed25519 \<Rightarrow> jobj \<Rightarrow> string \<Rightarrow> string \<Rightarrow> string \<Rightarrow> py_exn + jobj" where
  "build_ed25519_signature_proof E L payload key_id private_key_pem signing_profile =
     (if \<not> ed_present L
      then Inl (RuntimeError ''cryptography package is required for Ed25519 Darkharness signatures'')
      else ebind (ed_sign L private_key_pem (signing_text payload)) (\<lambda>sp.
        Inr [(''signing_profile'', JStr signing_profile),
             (''algorithm'', JStr ''ed25519''),
             (''key_id'', JStr key_id),
             (''signature'', JStr (fst sp)),
             (''payload_sha256'', JStr (sha256_hex E (signing_text payload))),
             (''public_key_pem'', JStr (snd sp)),
             (''status'', JStr ''verified''),
             (''verifier'', JStr ''orbital_mesh_ed25519_v1'')]))"

text \<open>\<open>hmac.compare_digest\<close> of two texts takes only ASCII.\<close>

definition compare_digest :: "string \<Rightarrow> string \<Rightarrow> py_exn + bool" where
  "compare_digest a b =
     (if list_ex json_high a \<or> list_ex json_high b
      then Inl (TypeError ''comparing strings with non-ASCII characters is not supported'')
      else Inr (a = b))"

definition verify_ed25519_signature_proof ::
  "pyenv \<Rightarrow> ed25519 \<Rightarrow> jobj \<Rightarrow> jobj \<Rightarrow> string \<Rightarrow> py_exn + bool" where
  "verify_ed25519_signature_proof E L payload pf public_key_pem =
     (if \<not> ed_present L then Inr False
      else if \<not> py_eq (pget pf ''algorithm'') (JStr ''ed25519'') then Inr False
      else let key_pem = (if public_key_pem \<noteq> [] then public_key_pem
                          else py_str (por (pget pf ''public_key_pem'') (JStr []))) in
      if key_pem = [] then Inr False
      else ebind (compare_digest (py_str (por (pget pf ''payload_sha256'') (JStr [])))
                    (sha256_hex E (signing_text payload))) (\<lambda>same.
        if \<not> same then Inr False
        else ed_verify L key_pem (py_str (por (pget pf ''signature'') (JStr []))) (signing_text payload)))"

section \<open>Constants\<close>

definition AUTHORITY_REQUEST_VERSION :: string where
  "AUTHORITY_REQUEST_VERSION = ''mesh.repo_patch_authority_request.v1''"
definition AUTHORITY_RESPONSE_VERSION :: string where
  "AUTHORITY_RESPONSE_VERSION = ''mesh.repo_patch_authority_response.v1''"
definition CLIENT_REQUEST_SIGNING_PROFILE :: string where
  "CLIENT_REQUEST_SIGNING_PROFILE = ''mesh-repo-patch-authority-client-ed25519-v1''"
definition AUTHORITY_RESPONSE_SIGNING_PROFILE :: string where
  "AUTHORITY_RESPONSE_SIGNING_PROFILE = ''mesh-repo-patch-authority-response-ed25519-v1''"
definition MAX_FRAME_BYTES :: int where
  "MAX_FRAME_BYTES = 1024 * 1024"
definition PREFLIGHT_RECEIPT_STATE_SLICE :: string where
  "PREFLIGHT_RECEIPT_STATE_SLICE = ''mesh.repo_patch_disposable_worktree.v1''"

definition git_object :: "string \<Rightarrow> bool" where
  "git_object s \<longleftrightarrow> 40 \<le> length s \<and> length s \<le> 64 \<and> list_all is_hex s"

section \<open>Preflight receipts\<close>

definition RECEIPT_FIELDS :: "string list" where
  "RECEIPT_FIELDS = [''state_slice'', ''base_commit'', ''base_tree'', ''target_path'', ''target_preimage_digest'',
     ''target_postimage_digest'', ''authorized_diff_digest'', ''changed_paths'', ''test_results'']"

definition TEST_RESULT_FIELDS :: "string list" where
  "TEST_RESULT_FIELDS = [''argv'', ''returncode'', ''stdout_digest'', ''stderr_digest'']"

definition text_matches :: "(string \<Rightarrow> bool) \<Rightarrow> jval \<Rightarrow> bool" where
  "text_matches P v = (case v of JStr s \<Rightarrow> P s | _ \<Rightarrow> False)"

definition portable_target :: "string \<Rightarrow> bool" where
  "portable_target p \<longleftrightarrow> \<not> path_is_absolute p \<and> ''..'' \<notin> set (path_parts p) \<and> path_str p = p \<and> p \<notin> {[], ''.''}"

fun digest_fields :: "jobj \<Rightarrow> string \<Rightarrow> string list \<Rightarrow> py_exn + unit" where
  "digest_fields d label [] = Inr ()"
| "digest_fields d label (f # fs) =
     (if text_matches sha256_text (pget d f) then digest_fields d label fs
      else Inl (ValueError (label @ f @ '' rejected'')))"

definition validate_test_result :: "jval \<Rightarrow> py_exn + unit" where
  "validate_test_result r =
     (case r of
        JObj d \<Rightarrow>
          if set (map fst d) \<noteq> set TEST_RESULT_FIELDS
          then Inl (ValueError ''repo patch preflight test result fields rejected'')
          else ebind (case pget d ''argv'' of
              JList (a # as) \<Rightarrow> ck (list_all (text_matches (\<lambda>s. s \<noteq> [])) (a # as)) ''repo patch preflight test argv rejected''
            | _ \<Rightarrow> Inl (ValueError ''repo patch preflight test argv rejected'')) (\<lambda>_.
          ebind (ck (is_int (pget d ''returncode'') \<and> \<not> is_bool (pget d ''returncode''))
                   ''repo patch preflight test return code rejected'') (\<lambda>_.
          digest_fields d ''repo patch preflight test '' [''stdout_digest'', ''stderr_digest'']))
      | _ \<Rightarrow> Inl (ValueError ''repo patch preflight test result fields rejected''))"

fun validate_test_results :: "jval list \<Rightarrow> py_exn + unit" where
  "validate_test_results [] = Inr ()"
| "validate_test_results (r # rs) = ebind (validate_test_result r) (\<lambda>_. validate_test_results rs)"

definition validate_preflight_receipt :: "jobj \<Rightarrow> py_exn + unit" where
  "validate_preflight_receipt receipt =
     ebind (ck (set (map fst receipt) = set RECEIPT_FIELDS) ''repo patch preflight receipt fields rejected'') (\<lambda>_.
     ebind (ck (py_eq (pget receipt ''state_slice'') (JStr PREFLIGHT_RECEIPT_STATE_SLICE))
              ''repo patch preflight receipt state slice rejected'') (\<lambda>_.
     ebind (ck (text_matches git_object (pget receipt ''base_commit''))
              ''repo patch preflight receipt base commit rejected'') (\<lambda>_.
     ebind (ck (text_matches git_object (pget receipt ''base_tree''))
              ''repo patch preflight receipt base tree rejected'') (\<lambda>_.
     ebind (ck (text_matches portable_target (pget receipt ''target_path''))
              ''repo patch preflight receipt target path rejected'') (\<lambda>_.
     ebind (digest_fields receipt ''repo patch preflight receipt ''
              [''target_preimage_digest'', ''target_postimage_digest'', ''authorized_diff_digest'']) (\<lambda>_.
     ebind (ck (py_eq (pget receipt ''changed_paths'') (JList [pget receipt ''target_path'']))
              ''repo patch preflight receipt changed paths rejected'') (\<lambda>_.
     case pget receipt ''test_results'' of
       JList (r # rs) \<Rightarrow> validate_test_results (r # rs)
     | _ \<Rightarrow> Inl (ValueError ''repo patch preflight receipt requires test results''))))))))"

definition validate_authority_request_operation :: "jobj \<Rightarrow> py_exn + unit" where
  "validate_authority_request_operation body =
     (let operation = pget body ''operation''; gate = pget body ''hsai_gate''; receipt = pget body ''preflight_receipt'' in
      if operation = JStr ''preflight''
      then ck (gate = JNull \<and> receipt = JNull)
             ''repo patch authority preflight must not carry an HSAI gate or preflight receipt''
      else if operation = JStr ''execute''
      then (case (gate, receipt) of
              (JObj _, JObj r) \<Rightarrow> validate_preflight_receipt r
            | _ \<Rightarrow> Inl (ValueError ''repo patch authority execute requires an HSAI gate and preflight receipt''))
      else Inl (ValueError ''repo patch authority operation is invalid''))"

section \<open>Frames\<close>

text \<open>
  \<open>incoming\<close> holds the bytes still to arrive, cut as the network cuts them; after them \<open>recv\<close> returns nothing
  or raises \<open>hangup\<close>. \<open>send_error\<close> is what \<open>sendall\<close> raises, if it does.
\<close>

record connection =
  incoming :: "string list"
  hangup :: "py_exn option"
  outgoing :: string
  send_error :: "py_exn option"

definition recv :: "connection \<Rightarrow> nat \<Rightarrow> py_exn + (string \<times> connection)" where
  "recv c n = (case dropWhile (\<lambda>b. b = []) (incoming c) of
      [] \<Rightarrow> (case hangup c of None \<Rightarrow> Inr ([], c\<lparr>incoming := []\<rparr>) | Some e \<Rightarrow> Inl e)
    | b # bs \<Rightarrow> Inr (take n b, c\<lparr>incoming := drop n b # bs\<rparr>))"

function receive_loop :: "string list \<Rightarrow> nat \<Rightarrow> connection \<Rightarrow> py_exn + (string \<times> connection)" where
  "receive_loop chunks remaining c =
     (if remaining = 0 then Inr (concat chunks, c)
      else (case recv c remaining of
          Inl e \<Rightarrow> Inl e
        | Inr (chunk, c') \<Rightarrow>
            if chunk = [] then Inl (RuntimeError ''repo patch authority frame ended early'')
            else receive_loop (chunks @ [chunk]) (remaining - length chunk) c'))"
  by pat_completeness auto
termination
  by (relation "measure (\<lambda>(_, n, _). n)") auto

declare receive_loop.simps [simp del]

definition receive_exact :: "connection \<Rightarrow> nat \<Rightarrow> py_exn + (string \<times> connection)" where
  "receive_exact c n = receive_loop [] n c"

text \<open>\<open>struct.pack(">I", n)\<close> and \<open>struct.unpack\<close>.\<close>

definition pack_u32 :: "nat \<Rightarrow> string" where
  "pack_u32 n = [char_of (n div 16777216), char_of (n div 65536 mod 256), char_of (n div 256 mod 256), char_of (n mod 256)]"

definition unpack_u32 :: "string \<Rightarrow> nat" where
  "unpack_u32 bs = foldl (\<lambda>a b. 256 * a + of_char b) 0 bs"

fun reject_pairs :: "jobj \<Rightarrow> (string \<times> jval) list \<Rightarrow> py_exn + jobj" where
  "reject_pairs result [] = Inr result"
| "reject_pairs result ((key, v) # pairs) =
     (if phas result key then Inl (ValueError (''duplicate JSON key: '' @ key))
      else reject_pairs (pset result key v) pairs)"

definition reject_duplicate_keys :: pairs_hook where
  "reject_duplicate_keys pairs = reject_pairs [] pairs"

definition send_json_frame :: "connection \<Rightarrow> jobj \<Rightarrow> int \<Rightarrow> py_exn + connection" where
  "send_json_frame c payload max_frame_bytes =
     (let encoded = utf8_encode (json_dumps False (JObj payload)) in
      if encoded = [] \<or> max_frame_bytes < int (length encoded)
      then Inl (RuntimeError ''repo patch authority frame size rejected'')
      else if 4294967296 \<le> length encoded then Inl (RuntimeError ''struct.error'')
      else (case send_error c of
          Some e \<Rightarrow> Inl e
        | None \<Rightarrow> Inr (c\<lparr>outgoing := outgoing c @ pack_u32 (length encoded) @ encoded\<rparr>)))"

definition receive_json_frame :: "connection \<Rightarrow> int \<Rightarrow> py_exn + (jobj \<times> connection)" where
  "receive_json_frame c max_frame_bytes =
     ebind (receive_exact c 4) (\<lambda>hc.
     let frame_length = unpack_u32 (fst hc) in
     if frame_length = 0 \<or> max_frame_bytes < int frame_length
     then Inl (RuntimeError ''repo patch authority frame size rejected'')
     else ebind (receive_exact (snd hc) frame_length) (\<lambda>rc.
     case utf8_decode (fst rc) of
       None \<Rightarrow> Inl (RuntimeError ''repo patch authority JSON frame rejected'')
     | Some t \<Rightarrow>
         (case json_loads reject_duplicate_keys t of
            Inl _ \<Rightarrow> Inl (RuntimeError ''repo patch authority JSON frame rejected'')
          | Inr (JObj payload) \<Rightarrow> Inr (payload, snd rc)
          | Inr _ \<Rightarrow> Inl (RuntimeError ''repo patch authority JSON frame must be an object''))))"

section \<open>The client\<close>

record authority_client =
  cl_socket_path :: string
  cl_private_key :: string
  cl_key_id :: string
  cl_authority_key :: string
  cl_authority_key_id :: string
  cl_timeout :: rat
  cl_ttl :: int
  cl_max_frame :: int

definition validate_private_key :: "pyenv \<Rightarrow> ed25519 \<Rightarrow> string \<Rightarrow> string \<Rightarrow> string \<Rightarrow> py_exn + unit" where
  "validate_private_key E L private_key_pem key_id profile =
     ebind (build_ed25519_signature_proof E L [(''key_validation'', JStr profile)] key_id private_key_pem profile) (\<lambda>_. Inr ())"

definition authority_client_init ::
  "pyenv \<Rightarrow> ed25519 \<Rightarrow> string \<Rightarrow> string \<Rightarrow> string \<Rightarrow> string \<Rightarrow> string \<Rightarrow> rat \<Rightarrow> int \<Rightarrow> int \<Rightarrow> py_exn + authority_client" where
  "authority_client_init E L socket_path client_key client_key_id authority_key authority_key_id timeout ttl max_frame =
     (let cl = \<lparr>cl_socket_path = path_str socket_path, cl_private_key = py_strip client_key,
                cl_key_id = py_strip client_key_id, cl_authority_key = py_strip authority_key,
                cl_authority_key_id = py_strip authority_key_id, cl_timeout = timeout, cl_ttl = ttl, cl_max_frame = max_frame\<rparr> in
      if \<not> path_is_absolute socket_path then Inl (ValueError ''repo patch authority socket path must be absolute'')
      else if cl_private_key cl = [] \<or> cl_authority_key cl = []
      then Inl (ValueError ''repo patch authority client requires explicit Ed25519 key material'')
      else if cl_key_id cl = [] \<or> cl_authority_key_id cl = []
      then Inl (ValueError ''repo patch authority client requires explicit key ids'')
      else if timeout \<le> 0 \<or> \<not> (1 \<le> ttl \<and> ttl \<le> 60)
      then Inl (ValueError ''repo patch authority client timing configuration is invalid'')
      else if \<not> (1024 \<le> max_frame \<and> max_frame \<le> MAX_FRAME_BYTES)
      then Inl (ValueError ''repo patch authority client frame limit is invalid'')
      else ebind (validate_private_key E L (cl_private_key cl) (cl_key_id cl) CLIENT_REQUEST_SIGNING_PROFILE) (\<lambda>_. Inr cl))"

text \<open>\<open>key in d.get("parameters", {})\<close>, for whatever the parameters are.\<close>

definition key_in :: "string \<Rightarrow> jval \<Rightarrow> py_exn + bool" where
  "key_in key v = (case v of
      JObj d \<Rightarrow> Inr (phas d key)
    | JList xs \<Rightarrow> Inr (JStr key \<in> set xs)
    | JStr s \<Rightarrow> Inr (contains_str s key)
    | _ \<Rightarrow> Inl (TypeError ''argument is not iterable''))"

text \<open>\<open>_parse_time\<close>.\<close>

definition protocol_parse_time :: "pyenv \<Rightarrow> string \<Rightarrow> py_exn + int" where
  "protocol_parse_time E s =
     (case fromisoformat E (replace_all ''Z'' ''+00:00'' s) of
        None \<Rightarrow> Inl (ValueError ''Invalid isoformat string'')
      | Some (Naive _) \<Rightarrow> Inl (ValueError ''repo patch authority timestamp must include a timezone'')
      | Some (Aware t) \<Rightarrow> Inr t)"

definition protocol_time_of :: "pyenv \<Rightarrow> jobj \<Rightarrow> string \<Rightarrow> py_exn + int" where
  "protocol_time_of E body k =
     ebind (pidx body k) (\<lambda>v. case v of JStr s \<Rightarrow> protocol_parse_time E s | _ \<Rightarrow> Inl (AttributeError ''replace''))"

text \<open>A window of at most a minute, open now, with five seconds of skew for its start.\<close>

definition time_window :: "int \<Rightarrow> int \<Rightarrow> int \<Rightarrow> bool" where
  "time_window issued expiry now \<longleftrightarrow>
     issued \<le> now + 5000000 \<and> issued < expiry \<and> expiry - issued \<le> 60000000 \<and> now \<le> expiry"

text \<open>\<open>except (KeyError, TypeError, ValueError) as exc: raise RepoPatchAuthorityError(...) from exc\<close>.\<close>

fun rejected_as :: "string \<Rightarrow> py_exn + 'a \<Rightarrow> py_exn + 'a" where
  "rejected_as msg (Inl (KeyError _)) = Inl (RuntimeError msg)"
| "rejected_as msg (Inl (TypeError _)) = Inl (RuntimeError msg)"
| "rejected_as msg (Inl (ValueError _)) = Inl (RuntimeError msg)"
| "rejected_as msg r = r"

text \<open>The peer: what \<open>connect\<close> raises, the connection to send on, and what arrives in answer to the bytes sent.\<close>

record network =
  net_connect :: "py_exn option"
  net_send :: connection
  net_answer :: "string \<Rightarrow> connection"

definition exchange :: "network \<Rightarrow> jobj \<Rightarrow> int \<Rightarrow> py_exn + jobj" where
  "exchange net request max_frame_bytes =
     (case net_connect net of
        Some e \<Rightarrow> Inl e
      | None \<Rightarrow>
          ebind (send_json_frame (net_send net) request max_frame_bytes) (\<lambda>c.
          ebind (receive_json_frame (net_answer net (outgoing c)) max_frame_bytes) (\<lambda>rc. Inr (fst rc))))"

fun transport_failed :: "py_exn + 'a \<Rightarrow> py_exn + 'a" where
  "transport_failed (Inl (OSError _)) = Inl (RuntimeError ''repo patch authority transport failed: OSError'')"
| "transport_failed (Inl (ValueError _)) = Inl (RuntimeError ''repo patch authority transport failed: ValueError'')"
| "transport_failed r = r"

definition authority_request_body ::
  "pyenv \<Rightarrow> authority_client \<Rightarrow> string \<Rightarrow> int \<Rightarrow> string \<Rightarrow> jobj \<Rightarrow> EvaluationResult \<Rightarrow> jval \<Rightarrow> jval \<Rightarrow> string \<Rightarrow> jobj" where
  "authority_request_body E cl token now operation decision v gate receipt idempotency_key =
     [(''schema_version'', JStr AUTHORITY_REQUEST_VERSION),
      (''operation'', JStr operation),
      (''request_id'', JStr (''authority_request_'' @ token)),
      (''idempotency_key'', JStr idempotency_key),
      (''issued_at'', JStr (format_time E now)),
      (''expires_at'', JStr (format_time E (now + cl_ttl cl * 1000000))),
      (''client_key_id'', JStr (cl_key_id cl)),
      (''decision'', JObj decision),
      (''evaluation'', JObj (evaluation_asdict v)),
      (''hsai_gate'', gate),
      (''preflight_receipt'', receipt)]"

text \<open>The checks on a response.\<close>

definition verified_response ::
  "pyenv \<Rightarrow> schemas \<Rightarrow> ed25519 \<Rightarrow> authority_client \<Rightarrow> string \<Rightarrow> string \<Rightarrow> int \<Rightarrow> jobj \<Rightarrow> py_exn + jobj" where
  "verified_response E S L cl request_id idempotency_key now response =
     ebind (rejected_as ''repo patch authority response contract rejected''
              (ebind (validate_payload (S ''repo-patch-authority-response.schema.json'') (JObj response)) (\<lambda>_.
               ebind (pidx response ''body'') (\<lambda>b.
               ebind (pidx response ''authorization_proof'') (\<lambda>p. Inr (b, p)))))) (\<lambda>bp.
     ebind (as_obj (snd bp)) (\<lambda>pf.
     if \<not> py_eq (pget pf ''key_id'') (JStr (cl_authority_key_id cl))
     then Inl (RuntimeError ''repo patch authority response key id mismatch'')
     else if \<not> py_eq (pget pf ''signing_profile'') (JStr AUTHORITY_RESPONSE_SIGNING_PROFILE)
     then Inl (RuntimeError ''repo patch authority response signing profile mismatch'')
     else ebind (as_obj (fst bp)) (\<lambda>body.
     ebind (verify_ed25519_signature_proof E L body pf (cl_authority_key cl)) (\<lambda>ok.
     if \<not> ok then Inl (RuntimeError ''repo patch authority response signature rejected'')
     else ebind (pidx body ''request_id'') (\<lambda>rid.
     if \<not> py_eq rid (JStr request_id)
     then Inl (RuntimeError ''repo patch authority response request id mismatch'')
     else ebind (pidx body ''idempotency_key'') (\<lambda>ik.
     if \<not> py_eq ik (JStr idempotency_key)
     then Inl (RuntimeError ''repo patch authority response idempotency mismatch'')
     else ebind (rejected_as ''repo patch authority response time rejected''
            (ebind (protocol_time_of E body ''issued_at'') (\<lambda>i.
             ebind (protocol_time_of E body ''expires_at'') (\<lambda>x. Inr (i, x))))) (\<lambda>ix.
     if \<not> time_window (fst ix) (snd ix) now
     then Inl (RuntimeError ''repo patch authority response expired'')
     else Inr (pset body ''authorization_proof'' (JObj pf)))))))))"

text \<open>\<open>_submit\<close>: \<open>token\<close> is \<open>secrets.token_hex(32)\<close>, \<open>now1\<close> and \<open>now2\<close> the clock before the request and after the response.\<close>

definition client_submit ::
  "pyenv \<Rightarrow> schemas \<Rightarrow> ed25519 \<Rightarrow> network \<Rightarrow> authority_client \<Rightarrow> string \<Rightarrow> int \<Rightarrow> int \<Rightarrow> string \<Rightarrow> Decision \<Rightarrow> EvaluationResult
    \<Rightarrow> jobj option \<Rightarrow> jobj option \<Rightarrow> string \<Rightarrow> py_exn + jobj" where
  "client_submit E S L net cl token now1 now2 operation d v gate receipt idempotency_key =
     ebind (key_in CONTEXT_KEY (pget_or (execution_plan d) ''parameters'' (JObj []))) (\<lambda>has.
     if has then Inl (RuntimeError ''authority request must not carry an execution permit'')
     else ebind (decision_to_dict S d) (\<lambda>decision.
     let opt_obj = (\<lambda>x. case x of None \<Rightarrow> JNull | Some o' \<Rightarrow> JObj o');
         body = authority_request_body E cl token now1 operation decision v (opt_obj gate) (opt_obj receipt) idempotency_key in
     ebind (validate_authority_request_operation body) (\<lambda>_.
     ebind (build_ed25519_signature_proof E L body (cl_key_id cl) (cl_private_key cl) CLIENT_REQUEST_SIGNING_PROFILE) (\<lambda>pf.
     let request = [(''body'', JObj body), (''authorization_proof'', JObj pf)] in
     ebind (validate_payload (S ''repo-patch-authority-request.schema.json'') (JObj request)) (\<lambda>_.
     ebind (transport_failed (exchange net request (cl_max_frame cl))) (\<lambda>response.
     verified_response E S L cl (''authority_request_'' @ token) idempotency_key now2 response))))))"

definition client_preflight ::
  "pyenv \<Rightarrow> schemas \<Rightarrow> ed25519 \<Rightarrow> network \<Rightarrow> authority_client \<Rightarrow> string \<Rightarrow> int \<Rightarrow> int \<Rightarrow> Decision \<Rightarrow> EvaluationResult
    \<Rightarrow> string \<Rightarrow> py_exn + jobj" where
  "client_preflight E S L net cl token now1 now2 d v idempotency_key =
     ebind (client_submit E S L net cl token now1 now2 ''preflight'' d v None None idempotency_key) (\<lambda>response.
     let receipt = (case pget response ''execution_result'' of JObj r \<Rightarrow> pget r ''preflight_receipt'' | _ \<Rightarrow> JNull) in
     case receipt of
       JObj r \<Rightarrow>
         if pget response ''status'' = JStr ''completed''
         then ebind (validate_preflight_receipt r) (\<lambda>_. Inr r)
         else Inl (RuntimeError (''repo patch authority preflight rejected: '' @
           (case pget response ''rejection'' of JObj j \<Rightarrow> py_str (pget j ''code'') | _ \<Rightarrow> ''invalid_preflight_response'')))
     | _ \<Rightarrow> Inl (RuntimeError (''repo patch authority preflight rejected: '' @
           (case pget response ''rejection'' of JObj j \<Rightarrow> py_str (pget j ''code'') | _ \<Rightarrow> ''invalid_preflight_response''))))"

definition client_execute ::
  "pyenv \<Rightarrow> schemas \<Rightarrow> ed25519 \<Rightarrow> network \<Rightarrow> authority_client \<Rightarrow> string \<Rightarrow> int \<Rightarrow> int \<Rightarrow> Decision \<Rightarrow> EvaluationResult
    \<Rightarrow> jobj \<Rightarrow> string \<Rightarrow> jobj \<Rightarrow> py_exn + jobj" where
  "client_execute E S L net cl token now1 now2 d v gate idempotency_key receipt =
     ebind (validate_preflight_receipt receipt) (\<lambda>_.
     client_submit E S L net cl token now1 now2 ''execute'' d v (Some gate) (Some receipt) idempotency_key)"

end
