(* ===== verification/Authority_Protocol_Props.thy ===== *)
theory Authority_Protocol_Props
  imports Authority_Protocol
begin

text \<open>
  The frames of the authority protocol round-trip over every cutting of the stream, reading one takes a bounded
  number of bytes, and a response the client accepts is signed by the pinned key, answers this request and is fresh.
\<close>

section \<open>The receive loop\<close>

lemma concat_dropWhile_Nil: "concat (dropWhile (\<lambda>b. b = []) bs) = concat bs"
  by (induction bs) auto

lemma recv_chunk:
  assumes "concat (incoming c) \<noteq> []" and "0 < n"
  shows "\<exists>b c'. recv c n = Inr (b, c') \<and> b \<noteq> [] \<and> length b \<le> n
    \<and> concat (incoming c) = b @ concat (incoming c') \<and> hangup c' = hangup c"
proof -
  obtain b bs where d: "dropWhile (\<lambda>b. b = []) (incoming c) = b # bs"
    using assms(1) concat_dropWhile_Nil [of "incoming c"] by (cases "dropWhile (\<lambda>b. b = []) (incoming c)") auto
  then have "b \<noteq> []" using hd_dropWhile [of "\<lambda>b. b = []" "incoming c"] by simp
  moreover have "concat (incoming c) = b @ concat bs" using concat_dropWhile_Nil [of "incoming c"] d by simp
  ultimately show ?thesis using assms(2) by (auto simp: recv_def d)
qed

lemma recv_empty:
  assumes "concat (incoming c) = []"
  shows "recv c n = (case hangup c of None \<Rightarrow> Inr ([], c\<lparr>incoming := []\<rparr>) | Some e \<Rightarrow> Inl e)"
proof -
  have "dropWhile (\<lambda>b. b = []) (incoming c) = []" using assms by (simp add: dropWhile_eq_Nil_conv)
  then show ?thesis by (simp only: recv_def list.case)
qed

text \<open>The loop reads exactly what it was asked for when the stream has it, however the stream is cut, and fails otherwise.\<close>

lemma receive_loop_spec:
  "n \<le> length (concat (incoming c)) \<Longrightarrow>
    \<exists>c'. receive_loop chunks n c = Inr (concat chunks @ take n (concat (incoming c)), c')
      \<and> concat (incoming c') = drop n (concat (incoming c)) \<and> hangup c' = hangup c"
proof (induction chunks n c rule: receive_loop.induct)
  case (1 chunks n c)
  show ?case
  proof (cases "n = 0")
    case True
    then show ?thesis by (simp add: receive_loop.simps)
  next
    case False
    with 1 obtain b c' where r: "recv c n = Inr (b, c')" "b \<noteq> []" "length b \<le> n"
      "concat (incoming c) = b @ concat (incoming c')" "hangup c' = hangup c"
      using recv_chunk [of c n] by fastforce
    have "n - length b \<le> length (concat (incoming c'))" using 1(2) r(4) by simp
    from 1(1) [OF False r(1) refl r(2) this] r False show ?thesis
      by (auto simp: receive_loop.simps [of chunks n c])
  qed
qed

definition cut_short :: "connection \<Rightarrow> py_exn" where
  "cut_short c = (case hangup c of None \<Rightarrow> RuntimeError ''repo patch authority frame ended early'' | Some e \<Rightarrow> e)"

lemma receive_loop_short:
  "length (concat (incoming c)) < n \<Longrightarrow> receive_loop chunks n c = Inl (cut_short c)"
proof (induction chunks n c rule: receive_loop.induct)
  case (1 chunks n c)
  have n: "n \<noteq> 0" using 1(2) by auto
  show ?case
  proof (cases "concat (incoming c) = []")
    case True
    then show ?thesis
      using n by (auto simp: receive_loop.simps [of chunks n c] recv_empty cut_short_def split: option.split)
  next
    case False
    with n obtain b c' where r: "recv c n = Inr (b, c')" "b \<noteq> []" "length b \<le> n"
      "concat (incoming c) = b @ concat (incoming c')" "hangup c' = hangup c" using recv_chunk [of c n] by fastforce
    have "length (concat (incoming c')) < n - length b" using 1(2) r(4) by simp
    from 1(1) [OF n r(1) refl r(2) this] r n show ?thesis
      by (auto simp: receive_loop.simps [of chunks n c] cut_short_def)
  qed
qed

text \<open>\<open>_receive_exact\<close> as a function of the bytes of the stream.\<close>

lemma receive_exact_cases:
  obtains (short) "length (concat (incoming c)) < n" "receive_exact c n = Inl (cut_short c)"
    | (enough) c' where "n \<le> length (concat (incoming c))"
        "receive_exact c n = Inr (take n (concat (incoming c)), c')"
        "concat (incoming c') = drop n (concat (incoming c))" "hangup c' = hangup c"
proof (cases "n \<le> length (concat (incoming c))")
  case True
  then show thesis using receive_loop_spec [OF True, of "[]"] enough by (auto simp: receive_exact_def)
next
  case False
  then show thesis using receive_loop_short [of c n "[]"] short by (simp add: receive_exact_def)
qed

section \<open>Frames\<close>

lemma unpack_pack: "n < 4294967296 \<Longrightarrow> unpack_u32 (pack_u32 n) = n"
proof -
  assume "n < 4294967296"
  then have "n div 16777216 < 256" by simp
  moreover have "n = 256 * (n div 256) + n mod 256" by simp
  moreover have "n div 256 = 256 * (n div 65536) + n div 256 mod 256"
    using mult_div_mod_eq [of 256 "n div 256"] by (simp add: div_mult2_eq [symmetric])
  moreover have "n div 65536 = 256 * (n div 16777216) + n div 65536 mod 256"
    using mult_div_mod_eq [of 256 "n div 65536"] by (simp add: div_mult2_eq [symmetric])
  ultimately show ?thesis by (simp add: unpack_u32_def pack_u32_def)
qed

lemma length_pack [simp]: "length (pack_u32 n) = 4"
  by (simp add: pack_u32_def)

lemma pset_absent: "k \<notin> fst ` set d \<Longrightarrow> pset d k v = d @ [(k, v)]"
  by (induction d) auto

lemma reject_loop_distinct:
  "distinct (map fst (acc @ ps)) \<Longrightarrow> reject_pairs acc ps = Inr (acc @ ps)"
proof (induction acc ps rule: reject_pairs.induct)
  case (2 acc k v ps)
  then have "k \<notin> fst ` set acc" by auto
  then have "\<not> phas acc k" "pset acc k v = acc @ [(k, v)]"
    by (auto simp: phas_def map_of_eq_None_iff pset_absent)
  then show ?case using 2 by simp
qed simp

lemma reject_distinct: "distinct (map fst ps) \<Longrightarrow> reject_duplicate_keys ps = Inr ps"
  using reject_loop_distinct [of "[]" ps] by (simp add: reject_duplicate_keys_def)

text \<open>Reading a frame as a function of the bytes of the stream.\<close>

definition frame_of :: "string \<Rightarrow> py_exn \<Rightarrow> int \<Rightarrow> py_exn + jobj" where
  "frame_of bytes short max_frame_bytes =
     (let n = unpack_u32 (take 4 bytes) in
      if length bytes < 4 then Inl short
      else if n = 0 \<or> max_frame_bytes < int n then Inl (RuntimeError ''repo patch authority frame size rejected'')
      else if length bytes < 4 + n then Inl short
      else case utf8_decode (take n (drop 4 bytes)) of
        None \<Rightarrow> Inl (RuntimeError ''repo patch authority JSON frame rejected'')
      | Some t \<Rightarrow> (case json_loads reject_duplicate_keys t of
            Inl _ \<Rightarrow> Inl (RuntimeError ''repo patch authority JSON frame rejected'')
          | Inr (JObj payload) \<Rightarrow> Inr payload
          | Inr _ \<Rightarrow> Inl (RuntimeError ''repo patch authority JSON frame must be an object'')))"

lemma receive_json_frame_cases:
  "(\<exists>e. receive_json_frame c mx = Inl e \<and> frame_of (concat (incoming c)) (cut_short c) mx = Inl e)
   \<or> (\<exists>d c'. receive_json_frame c mx = Inr (d, c') \<and> frame_of (concat (incoming c)) (cut_short c) mx = Inr d
        \<and> concat (incoming c') = drop (4 + unpack_u32 (take 4 (concat (incoming c)))) (concat (incoming c)))"
proof (cases rule: receive_exact_cases [of c 4])
  case short
  then show ?thesis by (simp add: receive_json_frame_def frame_of_def)
next
  case (enough c1)
  let ?n = "unpack_u32 (take 4 (concat (incoming c)))"
  show ?thesis
  proof (cases "?n = 0 \<or> mx < int ?n")
    case True
    then show ?thesis using enough by (simp add: receive_json_frame_def frame_of_def)
  next
    case False
    have short_eq: "cut_short c1 = cut_short c" using enough by (simp add: cut_short_def)
    show ?thesis
    proof (cases rule: receive_exact_cases [of c1 ?n])
      case short: short
      then have "length (concat (incoming c)) < 4 + ?n" using enough by simp
      with short enough False short_eq show ?thesis by (simp add: receive_json_frame_def frame_of_def Let_def)
    next
      case ok: (enough c2)
      then have "\<not> length (concat (incoming c)) < 4 + ?n" using enough by simp
      with ok enough False show ?thesis
        by (simp add: receive_json_frame_def frame_of_def add.commute split: option.split sum.split jval.split)
    qed
  qed
qed

lemma frame_of_sent:
  assumes "json_exact (JObj payload)" and "send_json_frame c payload mx = Inr c'" and "mx \<le> mx'"
  shows "\<exists>frame d. outgoing c' = outgoing c @ frame \<and> unpack_u32 (take 4 (frame @ rest)) + 4 = length frame
    \<and> frame_of (frame @ rest) e mx' = Inr d \<and> JObj d = json_norm (JObj payload)"
proof -
  let ?t = "json_dumps False (JObj payload)"
  define body where "body = utf8_encode ?t"
  have n: "body \<noteq> []" "int (length body) \<le> mx" "length body < 4294967296"
    and out: "outgoing c' = outgoing c @ pack_u32 (length body) @ body"
    using assms(2) unfolding send_json_frame_def body_def [symmetric] Let_def by (auto split: if_splits option.splits)
  obtain d where d: "json_norm (JObj payload) = JObj d" by (simp add: json_norm_obj del: json_norm.simps)
  have loads: "json_loads reject_duplicate_keys ?t = Inr (JObj d)"
    using json_loads_dumps [OF reject_distinct assms(1)] d by simp
  have u: "unpack_u32 (take 4 (pack_u32 (length body) @ body @ rest)) = length body"
    using unpack_pack [OF n(3)] by simp
  have "utf8_decode body = Some ?t" by (simp add: body_def del: json_dumps.simps)
  then have "frame_of ((pack_u32 (length body) @ body) @ rest) e mx' = Inr d"
    using n assms(3) u loads unfolding frame_of_def Let_def append_assoc by simp
  then show ?thesis using out u d by (intro exI [of _ "pack_u32 (length body) @ body"] exI [of _ d]) simp
qed

lemma frame_delivered:
  assumes "json_exact (JObj payload)" and "send_json_frame c payload mx = Inr c'" and "outgoing c = []"
    and "concat (incoming conn) = outgoing c' @ rest" and "mx \<le> mx'"
  shows "\<exists>d conn'. receive_json_frame conn mx' = Inr (d, conn') \<and> JObj d = json_norm (JObj payload)
    \<and> py_eq (JObj d) (JObj payload) \<and> concat (incoming conn') = rest"
proof -
  obtain frame d where f: "outgoing c' = frame" "unpack_u32 (take 4 (frame @ rest)) + 4 = length frame"
      "frame_of (frame @ rest) (cut_short conn) mx' = Inr d" "JObj d = json_norm (JObj payload)"
    using frame_of_sent [OF assms(1,2,5), of rest "cut_short conn"] assms(3) by auto
  have "py_eq (JObj d) (JObj payload)" using py_eq_json_norm [OF assms(1)] f(4) by metis
  moreover have "drop (4 + unpack_u32 (take 4 (frame @ rest))) (frame @ rest) = rest"
    using f(2) by (metis add.commute append_eq_conv_conj)
  ultimately show ?thesis using receive_json_frame_cases [of conn mx'] f assms(4) by auto
qed

text \<open>C22: a frame one side sends is the frame the other side reads. Whatever pieces the stream is cut into and whatever
  follows the frame, the receiver gets a dictionary equal to the one sent, with the members of every object in the
  order of their keys, and leaves the bytes that follow untouched; its frame limit must not be the smaller one.\<close>

theorem json_frame_roundtrip:
  assumes "json_exact (JObj payload)" and "send_json_frame c payload mx = Inr c'" and "outgoing c = []"
    and "concat (incoming conn) = outgoing c' @ rest" and "mx \<le> mx'"
  shows "\<exists>d conn'. receive_json_frame conn mx' = Inr (d, conn') \<and> JObj d = json_norm (JObj payload)
    \<and> py_eq (JObj d) (JObj payload) \<and> concat (incoming conn') = rest"
  by (rule frame_delivered [OF assms])

definition sample_payload :: jobj where
  "sample_payload = [(''status'', JStr [CHR ''d'', CHR 0xE9, CHR 0x22, CHR 0x0A]), (''body'', JObj [(''n'', JInt (- 12)), (''c'', JFloat (1 / 2)), (''l'', JList [JNull, JBool True])])]"

definition fresh_connection :: connection where
  "fresh_connection = \<lparr>incoming = [], hangup = None, outgoing = [], send_error = None\<rparr>"

text \<open>A bound on the size of a frame.\<close>

fun json_cost :: "jval \<Rightarrow> nat" where
  "json_cost JNull = 4"
| "json_cost (JBool b) = 5"
| "json_cost (JInt i) = length (int_str i)"
| "json_cost (JFloat r) = length (float_repr r)"
| "json_cost (JStr x) = 6 * length x + 2"
| "json_cost (JList xs) = 2 + sum_list (map (\<lambda>x. json_cost x + 1) xs)"
| "json_cost (JObj d) = 2 + sum_list (map (\<lambda>(k, v). 6 * length k + json_cost v + 4) d)"

lemma length_json_str: "length (json_str ea x) \<le> 6 * length x + 2"
proof -
  have "length (json_char ea c) \<le> 6" for c by (simp add: json_char_def json_esc_def)
  then have "length (concat (map (json_char ea) x)) \<le> 6 * length x"
    by (induction x) (auto intro: add_mono order_trans)
  then show ?thesis by (simp add: json_str_Cons)
qed

lemma length_join: "length (join_str '','' ws) \<le> sum_list (map (\<lambda>w. length w + 1) ws)"
  by (induction "'',''" ws rule: join_str.induct) auto

lemma sum_list_sort_key: "sum_list (map f (sort_key g d)) = (sum_list (map f d) :: nat)"
proof (induction d)
  case (Cons x d)
  have "sum_list (map f (insort_key g x xs)) = f x + sum_list (map f xs)" for xs by (induction xs) auto
  with Cons show ?case by simp
qed simp

lemma length_json_dumps: "length (json_dumps ea v) \<le> json_cost v"
proof (induction v)
  case (JStr x)
  then show ?case using length_json_str [of ea x] by simp
next
  case (JList xs)
  have "sum_list (map (\<lambda>w. length w + 1) (map (json_dumps ea) xs)) \<le> sum_list (map (\<lambda>x. json_cost x + 1) xs)"
    using JList by (auto simp: comp_def intro!: sum_list_mono)
  with length_join [of "map (json_dumps ea) xs"] show ?case by simp
next
  case (JObj d)
  have "sum_list (map (\<lambda>w. length w + 1) (map (dumps_item ea) (sort_key fst d)))
      \<le> sum_list (map (\<lambda>(k, v). 6 * length k + json_cost v + 4) (sort_key fst d))"
    unfolding map_map comp_def
  proof (rule sum_list_mono)
    fix p assume "p \<in> set (sort_key fst d)"
    then have "p \<in> set d" by simp
    then have "length (json_dumps ea (snd p)) \<le> json_cost (snd p)" using JObj by (cases p) (auto simp: snds.simps)
    with length_json_str [of ea "fst p"] show "length (dumps_item ea p) + 1 \<le> (case p of (k, v) \<Rightarrow> 6 * length k + json_cost v + 4)"
      by (simp add: case_prod_beta)
  qed
  with length_join [of "map (dumps_item ea) (sort_key fst d)"] show ?case
    by (simp add: json_dumps_obj sum_list_sort_key del: json_dumps.simps)
qed auto

lemma length_utf8: "length (utf8_encode x) \<le> 2 * length x"
  by (induction x) (auto simp: utf8_encode_def utf8_char_def Let_def)

lemma send_fits:
  assumes "int (2 * json_cost (JObj d)) \<le> mx" and "mx < 4294967296" and "send_error c = None"
  shows "is_ok (send_json_frame c d mx)"
proof -
  let ?e = "utf8_encode (json_dumps False (JObj d))"
  have n: "length ?e \<le> 2 * json_cost (JObj d)"
    using length_utf8 [of "json_dumps False (JObj d)"] length_json_dumps [of False "JObj d"] by linarith
  have "?e \<noteq> []" by (simp add: json_dumps_obj utf8_encode_def utf8_char_def Let_def del: json_dumps.simps)
  with n assms show ?thesis unfolding send_json_frame_def Let_def by (auto simp del: json_cost.simps json_dumps.simps)
qed

text \<open>A peer that answers with one frame.\<close>

definition answering :: "jobj \<Rightarrow> network" where
  "answering d = \<lparr>net_connect = None, net_send = fresh_connection,
     net_answer = (\<lambda>_. case send_json_frame fresh_connection d 1048576 of
        Inl _ \<Rightarrow> fresh_connection | Inr c \<Rightarrow> fresh_connection\<lparr>incoming := [outgoing c]\<rparr>)\<rparr>"

lemma answering_delivers:
  assumes "json_exact (JObj d)" and "is_ok (send_json_frame fresh_connection d 1048576)" and "1048576 \<le> mx"
  shows "\<exists>conn. receive_json_frame (net_answer (answering d) bytes) mx = Inr (obj_or_empty (json_norm (JObj d)), conn)"
proof -
  obtain c where c: "send_json_frame fresh_connection d 1048576 = Inr c" using assms(2) by (auto simp: is_ok_iff)
  have "\<exists>d' conn. receive_json_frame (fresh_connection\<lparr>incoming := [outgoing c]\<rparr>) mx = Inr (d', conn)
      \<and> JObj d' = json_norm (JObj d)"
    using frame_delivered [OF assms(1) c, of "fresh_connection\<lparr>incoming := [outgoing c]\<rparr>" "[]" mx] assms(3)
    by (auto simp: fresh_connection_def)
  then show ?thesis by (auto simp: answering_def c simp del: json_norm.simps dest!: sym [of "JObj _"])
qed

lemma answering_connects [simp]: "net_connect (answering d) = None" "net_send (answering d) = fresh_connection"
  by (simp_all add: answering_def)

lemma sample_payload_exact: "json_exact (JObj sample_payload)"
  by code_simp

lemma sample_payload_fits: "is_ok (send_json_frame fresh_connection sample_payload 1024)"
  by code_simp

theorem json_frame_roundtrip_witness:
  "\<exists>c'. send_json_frame fresh_connection sample_payload 1024 = Inr c'
     \<and> (\<exists>d conn'. receive_json_frame (fresh_connection\<lparr>incoming := map (\<lambda>b. [b]) (outgoing c')\<rparr>) 1024 = Inr (d, conn')
          \<and> JObj d = json_norm (JObj sample_payload))"
proof -
  obtain c' where c': "send_json_frame fresh_connection sample_payload 1024 = Inr c'"
    using sample_payload_fits by (auto simp: is_ok_iff)
  have "concat (map (\<lambda>b. [b]) xs) = xs" for xs :: string by (induction xs) auto
  then show ?thesis
    using json_frame_roundtrip [OF sample_payload_exact c', of "fresh_connection\<lparr>incoming := map (\<lambda>b. [b]) (outgoing c')\<rparr>" "[]"] c'
    by (auto simp: fresh_connection_def)
qed

text \<open>C23: how the network cuts the stream has no influence. Reading a frame through the receive loop, piece by piece, gives
  what \<open>frame_of\<close> reads from the bytes of the stream put together: the same dictionary, or the same error for a stream that
  ends early, a frame size out of bounds, bytes that are no UTF-8, a text that is no JSON, a repeated key, a value that is no object.\<close>

theorem receive_json_frame_stream:
  "map_sum id fst (receive_json_frame c mx) = frame_of (concat (incoming c)) (cut_short c) mx"
  using receive_json_frame_cases [of c mx] by auto

lemma receive_json_frame_bounded:
  assumes "receive_json_frame c mx = Inr (d, c')"
  shows "\<exists>n. 0 < n \<and> int n \<le> mx \<and> length (concat (incoming c)) = 4 + n + length (concat (incoming c'))"
proof -
  let ?n = "unpack_u32 (take 4 (concat (incoming c)))"
  have f: "frame_of (concat (incoming c)) (cut_short c) mx = Inr d"
    and rest: "concat (incoming c') = drop (4 + ?n) (concat (incoming c))"
    using receive_json_frame_cases [of c mx] assms by auto
  have "0 < ?n \<and> int ?n \<le> mx \<and> 4 + ?n \<le> length (concat (incoming c))"
    using f unfolding frame_of_def Let_def by (auto split: if_splits)
  then show ?thesis by (intro exI [of _ ?n]) (simp add: rest)
qed

section \<open>The client\<close>

lemma rejected_as_Inr [simp]: "rejected_as msg r = Inr x \<longleftrightarrow> r = Inr x"
  by (cases r rule: sum.exhaust; cases "projl r") auto

lemma transport_failed_Inr [simp]: "transport_failed r = Inr x \<longleftrightarrow> r = Inr x"
  by (cases r rule: sum.exhaust; cases "projl r") auto

lemma verify_ed25519_True:
  assumes "verify_ed25519_signature_proof E L body pf key = Inr True" and "key \<noteq> []"
  shows "pget pf ''algorithm'' = JStr ''ed25519''
    \<and> py_str (por (pget pf ''payload_sha256'') (JStr [])) = sha256_hex E (signing_text body)
    \<and> ed_verify L key (py_str (por (pget pf ''signature'') (JStr []))) (signing_text body) = Inr True"
  using assms by (auto simp: verify_ed25519_signature_proof_def compare_digest_def split: if_splits)

text \<open>What a response must be for the client to hand its body on.\<close>

definition authentic_response ::
  "pyenv \<Rightarrow> ed25519 \<Rightarrow> authority_client \<Rightarrow> string \<Rightarrow> string \<Rightarrow> int \<Rightarrow> jobj \<Rightarrow> jobj \<Rightarrow> bool" where
  "authentic_response E L cl request_id idempotency_key now body pf \<longleftrightarrow>
     pget pf ''key_id'' = JStr (cl_authority_key_id cl)
   \<and> pget pf ''signing_profile'' = JStr AUTHORITY_RESPONSE_SIGNING_PROFILE
   \<and> pget pf ''algorithm'' = JStr ''ed25519''
   \<and> ed_verify L (cl_authority_key cl) (py_str (por (pget pf ''signature'') (JStr []))) (signing_text body) = Inr True
   \<and> pget body ''request_id'' = JStr request_id
   \<and> pget body ''idempotency_key'' = JStr idempotency_key
   \<and> (\<exists>issued expiry. protocol_time_of E body ''issued_at'' = Inr issued
        \<and> protocol_time_of E body ''expires_at'' = Inr expiry \<and> time_window issued expiry now)"

lemma verified_response_authentic:
  assumes "verified_response E S L cl rid ik now response = Inr r" and "cl_authority_key cl \<noteq> []"
  shows "\<exists>body pf. pget response ''body'' = JObj body \<and> pget response ''authorization_proof'' = JObj pf
    \<and> validate_payload (S ''repo-patch-authority-response.schema.json'') (JObj response) = Inr ()
    \<and> r = pset body ''authorization_proof'' (JObj pf) \<and> authentic_response E L cl rid ik now body pf"
proof -
  obtain body pf issued expiry x y where
      "validate_payload (S ''repo-patch-authority-response.schema.json'') (JObj response) = Inr ()"
      "pidx response ''body'' = Inr (JObj body)" "pidx response ''authorization_proof'' = Inr (JObj pf)"
      and id: "py_eq (pget pf ''key_id'') (JStr (cl_authority_key_id cl))"
        "py_eq (pget pf ''signing_profile'') (JStr AUTHORITY_RESPONSE_SIGNING_PROFILE)"
      and v: "verify_ed25519_signature_proof E L body pf (cl_authority_key cl) = Inr True"
      and x: "pidx body ''request_id'' = Inr x" "py_eq x (JStr rid)"
      and y: "pidx body ''idempotency_key'' = Inr y" "py_eq y (JStr ik)"
      and t: "protocol_time_of E body ''issued_at'' = Inr issued" "protocol_time_of E body ''expires_at'' = Inr expiry"
        "time_window issued expiry now"
      and r: "r = pset body ''authorization_proof'' (JObj pf)"
    using assms(1) unfolding verified_response_def by (auto split: if_splits)
  moreover have "authentic_response E L cl rid ik now body pf"
    using verify_ed25519_True [OF v assms(2)] id x y t
    by (auto simp: authentic_response_def dest!: pidx_pget_eq)
  ultimately show ?thesis by (blast dest: pidx_pget_eq)
qed

end
