(* ===== verification/Test_Policy.thy ===== *)
theory Test_Policy
  imports Json_Text Py_Shlex
begin

text \<open>
  \<open>shared/mesh_runtime/repo_patch_test_policy.py\<close>: the policy that authorises verification commands by their exact
  argument vector and binds each to the executable it resolves to. \<open>shutil.which\<close>, \<open>Path.resolve\<close> and the file
  metadata and contents are the parameter \<open>exec_env\<close>. Proved: only commands the policy lists are authorised,
  \<open>shlex.split\<close> inverts \<open>shlex.join\<close>, and an authorised record stays valid as long as the executable does not change.
\<close>

section \<open>\<open>shlex.quote\<close> and \<open>shlex.join\<close>\<close>

definition sh_safe :: "char \<Rightarrow> bool" where
  "sh_safe c \<longleftrightarrow> (CHR ''a'' \<le> c \<and> c \<le> CHR ''z'') \<or> (CHR ''A'' \<le> c \<and> c \<le> CHR ''Z'') \<or> (CHR ''0'' \<le> c \<and> c \<le> CHR ''9'')
     \<or> c \<in> {CHR ''_'', CHR ''@'', CHR ''%'', CHR ''+'', CHR ''='', CHR '':'', CHR '','', CHR ''.'', CHR ''/'', CHR ''-''}"

definition quoted_char :: "char \<Rightarrow> string" where
  "quoted_char c = (if c = CHR 0x27 then [CHR 0x27, CHR 0x22, CHR 0x27, CHR 0x22, CHR 0x27] else [c])"

definition shlex_quote :: "string \<Rightarrow> string" where
  "shlex_quote s =
     (if s = [] then [CHR 0x27, CHR 0x27]
      else if list_all sh_safe s then s
      else CHR 0x27 # concat (map quoted_char s) @ [CHR 0x27])"

definition shlex_join :: "string list \<Rightarrow> string" where
  "shlex_join ws = join_str '' '' (map shlex_quote ws)"

section \<open>The policy\<close>

record AuthorizedTestCommand =
  cmd_argv :: "string list"
  executable_path :: string
  executable_digest :: string
  command_digest :: string

definition command_to_dict :: "AuthorizedTestCommand \<Rightarrow> jobj" where
  "command_to_dict c =
     [(''argv'', JList (map JStr (cmd_argv c))), (''executable_path'', JStr (executable_path c)),
      (''executable_digest'', JStr (executable_digest c)), (''command_digest'', JStr (command_digest c))]"

record exec_env =
  ex_which :: "string \<Rightarrow> string option"
  ex_resolve :: "string \<Rightarrow> string"
  ex_regular :: "string \<Rightarrow> py_exn + bool"
  ex_access :: "string \<Rightarrow> bool"
  ex_read :: "string \<Rightarrow> py_exn + string"

record test_policy =
  allowed_commands :: "string list list"
  require_at_least_one :: bool

fun policy_loop :: "string list list \<Rightarrow> jval list list \<Rightarrow> py_exn + string list list" where
  "policy_loop normalized [] = Inr normalized"
| "policy_loop normalized (command # cs) =
     (let av = map py_str command in
      if av = [] \<or> [] \<in> set av then Inl (ValueError ''repo patch test policy contains an empty command or argument'')
      else policy_loop (List.insert av normalized) cs)"

definition policy_init :: "jval list list \<Rightarrow> bool \<Rightarrow> py_exn + test_policy" where
  "policy_init commands at_least_one =
     ebind (policy_loop [] commands) (\<lambda>normalized.
     Inr \<lparr>allowed_commands = normalized, require_at_least_one = at_least_one\<rparr>)"

text \<open>\<open>json.loads\<close> without a hook: a repeated member overwrites.\<close>

definition last_wins :: pairs_hook where
  "last_wins pairs = Inr (pupdate [] pairs)"

definition policy_from_environment :: "string \<Rightarrow> bool \<Rightarrow> py_exn + test_policy" where
  "policy_from_environment variable at_least_one =
     (let raw = py_strip variable in
      if raw = [] then policy_init [] at_least_one
      else case json_loads last_wins raw of
        Inl _ \<Rightarrow> Inl (ValueError ''repo patch test command policy is invalid JSON'')
      | Inr payload \<Rightarrow>
          (case payload of
             JList commands \<Rightarrow>
               if list_all is_list commands then policy_init (map list_or_empty commands) at_least_one
               else Inl (ValueError ''repo patch test command policy must be an array of argv arrays'')
           | _ \<Rightarrow> Inl (ValueError ''repo patch test command policy must be an array of argv arrays'')))"

definition SHELL_TOKENS :: "string list" where
  "SHELL_TOKENS = [''&&'', ''||'', '';'', ''|'', ''>'', ''<'', ''$('', [CHR 0x60]]"

definition uses_shell_syntax :: "string \<Rightarrow> bool" where
  "uses_shell_syntax command \<longleftrightarrow>
     starts_with (py_strip command) ''cd '' \<or> list_ex (contains_str command) SHELL_TOKENS"

definition resolve_executable :: "exec_env \<Rightarrow> string \<Rightarrow> py_exn + string" where
  "resolve_executable X v =
     (let resolved_text = (if path_is_absolute v then Some (path_str v) else ex_which X v) in
      case resolved_text of
        None \<Rightarrow> Inl (ValueError ''repo patch verification executable is unavailable'')
      | Some t \<Rightarrow>
          if t = [] then Inl (ValueError ''repo patch verification executable is unavailable'')
          else (case ex_regular X (ex_resolve X t) of
              Inl (OSError m) \<Rightarrow> Inl (ValueError (''repo patch verification executable is unavailable: '' @ m))
            | Inl e \<Rightarrow> Inl e
            | Inr regular \<Rightarrow>
                if \<not> regular \<or> \<not> ex_access X (ex_resolve X t)
                then Inl (ValueError ''repo patch verification executable is not a regular executable file'')
                else Inr (ex_resolve X t)))"

definition exec_digest :: "pyenv \<Rightarrow> exec_env \<Rightarrow> string \<Rightarrow> py_exn + string" where
  "exec_digest E X path = ebind (ex_read X path) (\<lambda>content. Inr (''sha256:'' @ sha256_hex E content))"

definition bound_command :: "pyenv \<Rightarrow> exec_env \<Rightarrow> string list \<Rightarrow> py_exn + AuthorizedTestCommand" where
  "bound_command E X av =
     ebind (resolve_executable X (hd av)) (\<lambda>path.
     ebind (exec_digest E X path) (\<lambda>digest.
     Inr \<lparr>cmd_argv = av, executable_path = path, executable_digest = digest,
          command_digest = canonical_digest (sha256_hex E)
            (JObj [(''argv'', JList (map JStr av)), (''executable_path'', JStr path), (''executable_digest'', JStr digest)])\<rparr>))"

definition authorize_one :: "pyenv \<Rightarrow> exec_env \<Rightarrow> test_policy \<Rightarrow> string \<Rightarrow> py_exn + AuthorizedTestCommand" where
  "authorize_one E X p command =
     (if uses_shell_syntax command
      then Inl (ValueError ''repo patch verification command contains prohibited shell syntax'')
      else ebind (shlex_split command) (\<lambda>av.
        if av = [] then Inl (ValueError ''repo patch verification command is empty'')
        else if av \<notin> set (allowed_commands p)
        then Inl (ValueError ''repo patch verification command is not policy-authorized'')
        else bound_command E X av))"

fun authorize_loop :: "pyenv \<Rightarrow> exec_env \<Rightarrow> test_policy \<Rightarrow> string list \<Rightarrow> py_exn + AuthorizedTestCommand list" where
  "authorize_loop E X p [] = Inr []"
| "authorize_loop E X p (command # cs) =
     ebind (authorize_one E X p command) (\<lambda>c. ebind (authorize_loop E X p cs) (\<lambda>as. Inr (c # as)))"

definition authorize :: "pyenv \<Rightarrow> exec_env \<Rightarrow> test_policy \<Rightarrow> string list \<Rightarrow> py_exn + AuthorizedTestCommand list" where
  "authorize E X p commands =
     (if require_at_least_one p \<and> commands = []
      then Inl (ValueError ''repo patch authority requires at least one verification command'')
      else authorize_loop E X p commands)"

fun record_commands :: "jobj list \<Rightarrow> py_exn + string list" where
  "record_commands [] = Inr []"
| "record_commands (r # rs) =
     (case pget r ''argv'' of
        JList av \<Rightarrow>
          if list_all is_str av then ebind (record_commands rs) (\<lambda>cs. Inr (shlex_join (map py_str av) # cs))
          else Inl (ValueError ''repo patch authorized command record has invalid argv'')
      | _ \<Rightarrow> Inl (ValueError ''repo patch authorized command record has invalid argv''))"

definition validate_authorized_test_commands ::
  "pyenv \<Rightarrow> exec_env \<Rightarrow> test_policy \<Rightarrow> jobj list \<Rightarrow> py_exn + AuthorizedTestCommand list" where
  "validate_authorized_test_commands E X p records =
     ebind (record_commands records) (\<lambda>commands.
     ebind (authorize E X p commands) (\<lambda>authorized.
     if py_eq (JList (map (\<lambda>c. JObj (command_to_dict c)) authorized)) (JList (map JObj records)) then Inr authorized
     else Inl (ValueError ''repo patch authorized command record drifted from current policy or executable'')))"

section \<open>\<open>shlex.split\<close> inverts \<open>shlex.join\<close>\<close>

lemma sh_safe_plain: "sh_safe c \<Longrightarrow> \<not> sh_space c \<and> c \<noteq> CHR 0x5C \<and> \<not> sh_quote c"
  by (auto simp: sh_safe_def sh_space_def sh_quote_def less_eq_char_def)

lemma sh_go_safe:
  "list_all sh_safe w \<Longrightarrow> st = ShStart \<or> st = ShWord \<Longrightarrow> w \<noteq> [] \<Longrightarrow>
    sh_go st t q (w @ r) = sh_go ShWord (rev w @ t) q r"
proof (induction w arbitrary: st t)
  case (Cons c w)
  then have "sh_go st t q ((c # w) @ r) = sh_go ShWord (c # t) q (w @ r)"
    using sh_safe_plain [of c] by (auto)
  then show ?case using Cons by (cases "w = []") auto
qed simp

lemma sh_go_quoted:
  "sh_go (ShQuote (CHR 0x27)) t q (concat (map quoted_char w) @ CHR 0x27 # r) = sh_go ShWord (rev w @ t) True r"
  by (induction w arbitrary: t q) (auto simp: quoted_char_def sh_space_def sh_quote_def)

lemma sh_go_quote:
  "\<exists>q. sh_go ShStart [] False (shlex_quote w @ r) = sh_go ShWord (rev w) q r \<and> (w = [] \<longrightarrow> q)"
proof -
  have quote: "sh_go ShStart [] False (CHR 0x27 # s) = sh_go (ShQuote (CHR 0x27)) [] False s" for s
    by (simp add: sh_space_def sh_quote_def)
  show ?thesis
  proof (cases "w \<noteq> [] \<and> list_all sh_safe w")
    case True
    then show ?thesis using sh_go_safe [of w ShStart "[]" False r] by (auto simp: shlex_quote_def)
  next
    case False
    then have "shlex_quote w @ r = CHR 0x27 # concat (map quoted_char w) @ CHR 0x27 # r" by (auto simp: shlex_quote_def)
    then show ?thesis using sh_go_quoted [of "[]" False w r] quote by auto
  qed
qed

lemma shlex_split_join: "shlex_split (shlex_join ws) = Inr ws"
proof -
  have "sh_go ShStart [] False (shlex_join ws) = Inr ws"
    unfolding shlex_join_def
  proof (induction ws)
    case (Cons w ws)
    show ?case
    proof (cases ws)
      case Nil
      obtain q where "sh_go ShStart [] False (shlex_quote w @ []) = sh_go ShWord (rev w) q []" "w = [] \<longrightarrow> q"
        using sh_go_quote by blast
      then show ?thesis using Nil by auto
    next
      case more: (Cons v vs)
      obtain q where "sh_go ShStart [] False (shlex_quote w @ '' '' @ join_str '' '' (map shlex_quote ws))
          = sh_go ShWord (rev w) q ('' '' @ join_str '' '' (map shlex_quote ws))" "w = [] \<longrightarrow> q"
        using sh_go_quote by blast
      then show ?thesis using Cons more by (auto simp: sh_space_def)
    qed
  qed simp
  then show ?thesis by (simp add: shlex_split_def)
qed

section \<open>What is authorised\<close>

lemma policy_loop_set:
  "policy_loop acc cs = Inr p \<Longrightarrow> set p = set acc \<union> set (map (map py_str) cs) \<and> (\<forall>av \<in> set (map (map py_str) cs). av \<noteq> [] \<and> [] \<notin> set av)"
proof (induction acc cs rule: policy_loop.induct)
  case (2 acc command cs)
  let ?av = "map py_str command"
  from 2(2) have "?av \<noteq> []" "[] \<notin> set ?av" and rest: "policy_loop (List.insert ?av acc) cs = Inr p"
    by (simp_all add: Let_def split: if_splits)
  with 2(1) [OF refl _ rest] show ?case by (simp del: set_map add: set_map [of "map py_str"])
qed simp

lemma policy_init_set:
  assumes "policy_init cs b = Inr p"
  shows "set (allowed_commands p) = set (map (map py_str) cs)" "require_at_least_one p = b"
    "\<forall>av \<in> set (allowed_commands p). av \<noteq> [] \<and> [] \<notin> set av"
  using assms policy_loop_set [of "[]" cs] by (auto simp: policy_init_def)

lemma authorize_loop_iff:
  "authorize_loop E X p commands = Inr as \<longleftrightarrow> list_all2 (\<lambda>command c. authorize_one E X p command = Inr c) commands as"
  by (induction commands arbitrary: as) (auto simp: list_all2_Cons1)

lemma authorize_one_Inr:
  "authorize_one E X p command = Inr c \<longleftrightarrow> \<not> uses_shell_syntax command \<and> (\<exists>av. shlex_split command = Inr av \<and> av \<noteq> []
     \<and> av \<in> set (allowed_commands p) \<and> bound_command E X av = Inr c)"
  by (auto simp: authorize_one_def)

lemma bound_command_argv: "bound_command E X av = Inr c \<Longrightarrow> cmd_argv c = av"
  by (auto simp: bound_command_def)

text \<open>C26: the policy authorises exactly what it lists. When a list of commands is authorised, each of them is free of
  shell syntax, splits into an argument vector that is literally one of the configured ones, and carries the path and the digest of
  the executable that its first word resolves to; and nothing is authorised from an empty list unless the policy permits it.\<close>

theorem authorize_only_listed:
  assumes "policy_init cs b = Inr p" and "authorize E X p commands = Inr authorized"
  shows "list_all2 (\<lambda>command c. \<not> uses_shell_syntax command \<and> shlex_split command = Inr (cmd_argv c)
      \<and> cmd_argv c \<in> set (map (map py_str) cs) \<and> cmd_argv c \<noteq> [] \<and> [] \<notin> set (cmd_argv c)
      \<and> resolve_executable X (hd (cmd_argv c)) = Inr (executable_path c)
      \<and> exec_digest E X (executable_path c) = Inr (executable_digest c)) commands authorized
    \<and> (b \<longrightarrow> authorized \<noteq> [])"
proof -
  note p = policy_init_set [OF assms(1)]
  have "list_all2 (\<lambda>command c. authorize_one E X p command = Inr c) commands authorized" and "b \<longrightarrow> commands \<noteq> []"
    using assms(2) p(2) by (auto simp: authorize_def authorize_loop_iff split: if_splits)
  then show ?thesis
    using p by (auto simp: authorize_one_Inr bound_command_def elim!: list_all2_mono)
qed

definition sample_exec :: exec_env where
  "sample_exec = \<lparr>ex_which = (\<lambda>v. Some (''/usr/bin/'' @ v)), ex_resolve = (\<lambda>p. p), ex_regular = (\<lambda>p. Inr True),
     ex_access = (\<lambda>p. True), ex_read = (\<lambda>p. Inr ''ELF'')\<rparr>"

definition sample_policy :: test_policy where
  "sample_policy = \<lparr>allowed_commands = [[''pytest'', ''-q'', ''a b'']], require_at_least_one = True\<rparr>"

definition sample_command :: string where
  "sample_command = ''pytest -q \"a b\"''"

lemma sample_policy_init: "policy_init [[JStr ''pytest'', JStr ''-q'', JStr ''a b'']] True = Inr sample_policy"
  by code_simp

lemma sample_authorized: "is_ok (authorize toy_env sample_exec sample_policy [sample_command])"
  by code_simp

theorem authorize_only_listed_witness:
  "\<exists>c. authorize toy_env sample_exec sample_policy [sample_command] = Inr [c] \<and> cmd_argv c = [''pytest'', ''-q'', ''a b'']"
proof -
  obtain as where as: "authorize toy_env sample_exec sample_policy [sample_command] = Inr as"
    using sample_authorized by (auto simp: is_ok_iff)
  note * = authorize_only_listed [OF sample_policy_init as]
  then obtain c where c: "as = [c]" "cmd_argv c \<in> set (map (map py_str) [[JStr ''pytest'', JStr ''-q'', JStr ''a b'']])"
    by (auto simp: list_all2_Cons1)
  then show ?thesis using as by auto
qed

text \<open>C27: an authorised command record survives re-validation. The records written from an authorisation are accepted again
  by the same policy and executables, and give the same commands. (Joining an argument vector must not itself spell a
  shell token.)\<close>

theorem authorized_records_revalidate:
  assumes "authorize E X p commands = Inr authorized"
    and "\<forall>c \<in> set authorized. \<not> uses_shell_syntax (shlex_join (cmd_argv c))"
  shows "validate_authorized_test_commands E X p (map command_to_dict authorized) = Inr authorized"
proof -
  have loop: "list_all2 (\<lambda>command c. authorize_one E X p command = Inr c) commands authorized"
    and one: "require_at_least_one p \<longrightarrow> authorized \<noteq> []"
    using assms(1) by (auto simp: authorize_def authorize_loop_iff split: if_splits)
  have "authorize_one E X p (shlex_join (cmd_argv c)) = Inr c" if c: "c \<in> set authorized" for c
  proof -
    obtain command where "authorize_one E X p command = Inr c"
      using loop c by (auto simp: list_all2_conv_all_nth in_set_conv_nth)
    then show ?thesis using assms(2) c bound_command_argv by (fastforce simp: authorize_one_Inr shlex_split_join)
  qed
  then have "authorize_loop E X p (map (\<lambda>c. shlex_join (cmd_argv c)) cs) = Inr cs" if "set cs \<subseteq> set authorized" for cs
    using that by (induction cs) auto
  then have a: "authorize E X p (map (\<lambda>c. shlex_join (cmd_argv c)) authorized) = Inr authorized"
    using one by (auto simp: authorize_def)
  have is_str_map: "list_all is_str (map JStr ws)" for ws by (induction ws) auto
  have "record_commands (map command_to_dict cs) = Inr (map (\<lambda>c. shlex_join (cmd_argv c)) cs)" for cs
    by (induction cs) (auto simp: command_to_dict_def is_str_map comp_def)
  moreover have "py_eq (JList (map (\<lambda>c. JObj (command_to_dict c)) authorized))
      (JList (map (\<lambda>c. JObj (command_to_dict c)) authorized))"
    by (rule py_eq_refl) (auto simp: command_to_dict_def list_all_iff)
  ultimately show ?thesis using a by (simp add: validate_authorized_test_commands_def comp_def)
qed

theorem authorized_records_revalidate_witness:
  "\<exists>c. authorize toy_env sample_exec sample_policy [sample_command] = Inr [c]
     \<and> validate_authorized_test_commands toy_env sample_exec sample_policy [command_to_dict c] = Inr [c]"
proof -
  obtain as where as: "authorize toy_env sample_exec sample_policy [sample_command] = Inr as"
    using sample_authorized by (auto simp: is_ok_iff)
  then obtain c where c: "as = [c]" "authorize_one toy_env sample_exec sample_policy sample_command = Inr c"
    by (auto simp: authorize_def sample_policy_def)
  then have "cmd_argv c = [''pytest'', ''-q'', ''a b'']"
    by (auto simp: authorize_one_Inr sample_policy_def dest!: bound_command_argv)
  moreover have "\<not> uses_shell_syntax (shlex_join [''pytest'', ''-q'', ''a b''])" by code_simp
  ultimately have "validate_authorized_test_commands toy_env sample_exec sample_policy (map command_to_dict as) = Inr as"
    using authorized_records_revalidate [OF as] c by simp
  then show ?thesis using as c by auto
qed

end
