(* ===== verification/Verifier_Client.thy ===== *)
theory Verifier_Client
  imports Authority_Protocol_Props Test_Policy Hsai_Bridge_Run
begin

text \<open>
  \<open>shared/mesh_runtime/repo_patch_verifier.py\<close>: the contract with the isolated verifier, which runs the authorised commands
  on a copy of the patched workspace. The client sends a job bound to the workspace manifest, the candidate patch, the
  commands and the verifier image, and accepts only a signed, bound, successful receipt. \<open>RepoPatchVerifierError\<close> is a
  \<open>RuntimeError\<close>. The entries of the workspace tree are data; the credentials of the peer are what the kernel reports.
\<close>

section \<open>Constants\<close>

definition VERIFIER_REQUEST_VERSION :: string where
  "VERIFIER_REQUEST_VERSION = ''mesh.repo_patch_verifier_request.v1''"
definition VERIFIER_PROTOCOL_STATE_SLICE :: string where
  "VERIFIER_PROTOCOL_STATE_SLICE = ''mesh.repo_patch_verifier_protocol.v1''"
definition VERIFIER_HANDOFF_STATE_SLICE :: string where
  "VERIFIER_HANDOFF_STATE_SLICE = ''mesh.repo_patch_verifier_workspace_handoff.v1''"
definition VERIFIER_RECEIPT_SIGNING_PROFILE :: string where
  "VERIFIER_RECEIPT_SIGNING_PROFILE = ''mesh-repo-patch-verifier-receipt-ed25519-v2''"
definition MAX_VERIFIER_FRAME_BYTES :: int where
  "MAX_VERIFIER_FRAME_BYTES = 1024 * 1024"
definition MAX_WORKSPACE_FILES :: nat where
  "MAX_WORKSPACE_FILES = 10000"
definition MAX_WORKSPACE_BYTES :: nat where
  "MAX_WORKSPACE_BYTES = 67108864"

definition workspace_id_text :: "string \<Rightarrow> bool" where
  "workspace_id_text s \<longleftrightarrow> starts_with s ''workspace_'' \<and> hex64 (removeprefix s ''workspace_'')"

definition job_id_text :: "string \<Rightarrow> bool" where
  "job_id_text s \<longleftrightarrow> starts_with s ''verifier_job_'' \<and> hex64 (removeprefix s ''verifier_job_'')"

definition workspace_id_for :: "pyenv \<Rightarrow> string \<Rightarrow> string" where
  "workspace_id_for E v = ''workspace_'' @ sha256_hex E v"

section \<open>The manifest of a workspace\<close>

datatype tree_entry = TDir | TFile bool string | TLink | TOther

text \<open>The loop over the sorted paths, with the number and the size of the files so far.\<close>

fun manifest_loop :: "pyenv \<Rightarrow> nat \<Rightarrow> nat \<Rightarrow> (string \<times> tree_entry) list \<Rightarrow> py_exn + jval list" where
  "manifest_loop E files bytes [] = Inr []"
| "manifest_loop E files bytes ((path, entry) # rest) =
     (if ''.git'' \<in> set (path_parts path) then manifest_loop E files bytes rest
      else case entry of
        TLink \<Rightarrow> Inl (ValueError ''verifier workspace symlinks are not supported'')
      | TDir \<Rightarrow> ebind (manifest_loop E files bytes rest) (\<lambda>rs.
          Inr (JObj [(''path'', JStr path), (''type'', JStr ''directory'')] # rs))
      | TOther \<Rightarrow> Inl (ValueError ''verifier workspace contains a non-regular file'')
      | TFile executable content \<Rightarrow>
          (let files' = files + 1; bytes' = bytes + length content in
           if MAX_WORKSPACE_FILES < files' \<or> MAX_WORKSPACE_BYTES < bytes'
           then Inl (ValueError ''verifier workspace exceeds the bounded handoff limit'')
           else ebind (manifest_loop E files' bytes' rest) (\<lambda>rs.
             Inr (JObj [(''path'', JStr path), (''type'', JStr ''file''), (''executable'', JBool executable),
                        (''size'', JInt (int (length content))), (''sha256'', JStr (sha256_hex E content))] # rs))))"

text \<open>\<open>usable\<close>: the root is an absolute directory and no symbolic link.\<close>

definition workspace_manifest_digest :: "pyenv \<Rightarrow> bool \<Rightarrow> (string \<times> tree_entry) list \<Rightarrow> py_exn + string" where
  "workspace_manifest_digest E usable entries =
     (if \<not> usable then Inl (ValueError ''verifier workspace must be an absolute non-symlink directory'')
      else ebind (manifest_loop E 0 0 (sort_key fst entries)) (\<lambda>records.
        Inr (canonical_digest (sha256_hex E) (JList records))))"

section \<open>The client\<close>

record verifier_client =
  vc_socket_path :: string
  vc_uid :: int
  vc_image_digest :: string
  vc_sandbox_digest :: string
  vc_public_key :: string
  vc_key_id :: string
  vc_timeout :: rat
  vc_max_frame :: int

text \<open>\<open>key_file\<close>: whether the path is a regular file and no link, its size and its text.\<close>

definition resolve_verifier_public_key ::
  "(string \<Rightarrow> py_exn + (bool \<times> int \<times> string)) \<Rightarrow> string \<Rightarrow> string option \<Rightarrow> py_exn + string" where
  "resolve_verifier_public_key key_file variable explicit =
     ebind (case explicit of
        Some k \<Rightarrow> Inr (py_strip k)
      | None \<Rightarrow>
          (let raw_path = py_strip variable in
           if raw_path = [] \<or> \<not> path_is_absolute raw_path
           then Inl (ValueError ''repo patch verifier public key path must be absolute'')
           else ebind (key_file raw_path) (\<lambda>(regular, n, content).
             if \<not> regular \<or> 65536 < n then Inl (ValueError ''repo patch verifier public key path rejected'')
             else Inr (py_strip content)))) (\<lambda>public_key.
     if public_key = [] \<or> \<not> contains_str public_key ''BEGIN PUBLIC KEY'' \<or> \<not> contains_str public_key ''END PUBLIC KEY''
     then Inl (ValueError ''repo patch verifier public key is invalid'')
     else Inr (public_key @ [CHR 0x0A]))"

definition resolve_verifier_key_id :: "string \<Rightarrow> string option \<Rightarrow> py_exn + string" where
  "resolve_verifier_key_id variable explicit =
     (let key_id = py_strip (case explicit of Some k \<Rightarrow> k | None \<Rightarrow> variable) in
      if key_id = [] \<or> 128 < length key_id then Inl (ValueError ''repo patch verifier key id is invalid'') else Inr key_id)"

definition verifier_client_init ::
  "(string \<Rightarrow> py_exn + (bool \<times> int \<times> string)) \<Rightarrow> string \<Rightarrow> string \<Rightarrow> string \<Rightarrow> int \<Rightarrow> string \<Rightarrow> string \<Rightarrow> string option
    \<Rightarrow> string option \<Rightarrow> rat \<Rightarrow> int \<Rightarrow> py_exn + verifier_client" where
  "verifier_client_init key_file key_variable id_variable socket_path uid img sandbox public_key key_id timeout max_frame =
     ebind (resolve_verifier_public_key key_file key_variable public_key) (\<lambda>k.
     ebind (resolve_verifier_key_id id_variable key_id) (\<lambda>kid.
     if \<not> path_is_absolute socket_path then Inl (ValueError ''repo patch verifier socket path must be absolute'')
     else if uid < 0 then Inl (ValueError ''repo patch verifier UID must be non-negative'')
     else if \<not> sha256_text img then Inl (ValueError ''repo patch verifier image digest is invalid'')
     else if \<not> sha256_text sandbox then Inl (ValueError ''repo patch verifier sandbox profile digest is invalid'')
     else if timeout \<le> 0 \<or> \<not> (1024 \<le> max_frame \<and> max_frame \<le> MAX_VERIFIER_FRAME_BYTES)
     then Inl (ValueError ''repo patch verifier client limits are invalid'')
     else Inr \<lparr>vc_socket_path = path_str socket_path, vc_uid = uid, vc_image_digest = img, vc_sandbox_digest = sandbox,
               vc_public_key = k, vc_key_id = kid, vc_timeout = timeout, vc_max_frame = max_frame\<rparr>))"

definition verifier_receipt_signed_payload :: "jobj \<Rightarrow> jobj" where
  "verifier_receipt_signed_payload response = pwithout response [''authorization_proof'']"

definition validate_signed_verifier_response ::
  "pyenv \<Rightarrow> schemas \<Rightarrow> ed25519 \<Rightarrow> jobj \<Rightarrow> string \<Rightarrow> string \<Rightarrow> py_exn + unit" where
  "validate_signed_verifier_response E S L response expected_key_id public_key_pem =
     ebind (validate_payload (S ''repo-patch-verifier-response-v2.schema.json'') (JObj response)) (\<lambda>_.
     case pget response ''authorization_proof'' of
       JObj pf \<Rightarrow>
         if \<not> py_eq (pget pf ''signing_profile'') (JStr VERIFIER_RECEIPT_SIGNING_PROFILE)
           \<or> \<not> py_eq (pget pf ''algorithm'') (JStr ''ed25519'')
           \<or> \<not> py_eq (pget pf ''key_id'') (JStr expected_key_id)
           \<or> \<not> py_eq (pget pf ''status'') (JStr ''verified'')
           \<or> \<not> py_eq (pget pf ''verifier'') (JStr ''orbital_mesh_ed25519_v1'')
           \<or> py_strip (py_str (por (pget pf ''public_key_pem'') (JStr []))) \<noteq> py_strip public_key_pem
         then Inl (ValueError ''repo patch verifier receipt signer identity rejected'')
         else ebind (verify_ed25519_signature_proof E L (verifier_receipt_signed_payload response) pf public_key_pem) (\<lambda>ok.
           ck ok ''repo patch verifier receipt signature rejected'')
     | _ \<Rightarrow> Inl (ValueError ''repo patch verifier receipt signature is missing''))"

definition job_binding :: "verifier_client \<Rightarrow> string \<Rightarrow> string \<Rightarrow> jobj \<Rightarrow> AuthorizedTestCommand list \<Rightarrow> jobj" where
  "job_binding vc workspace_id manifest candidate commands =
     [(''state_slice'', JStr VERIFIER_HANDOFF_STATE_SLICE), (''workspace_id'', JStr workspace_id),
      (''workspace_manifest_digest'', JStr manifest), (''candidate_binding'', JObj candidate),
      (''commands'', JList (map (\<lambda>c. JObj (command_to_dict c)) commands)),
      (''verifier_image_digest'', JStr (vc_image_digest vc)), (''sandbox_profile_digest'', JStr (vc_sandbox_digest vc))]"

definition job_id_of :: "pyenv \<Rightarrow> verifier_client \<Rightarrow> string \<Rightarrow> string \<Rightarrow> jobj \<Rightarrow> AuthorizedTestCommand list \<Rightarrow> string" where
  "job_id_of E vc workspace_id manifest candidate commands =
     ''verifier_job_'' @ removeprefix
       (canonical_digest (sha256_hex E) (JObj (job_binding vc workspace_id manifest candidate commands))) ''sha256:''"

definition verifier_request ::
  "pyenv \<Rightarrow> verifier_client \<Rightarrow> string \<Rightarrow> string \<Rightarrow> jobj \<Rightarrow> AuthorizedTestCommand list \<Rightarrow> int \<Rightarrow> int \<Rightarrow> jobj" where
  "verifier_request E vc workspace_id manifest candidate commands timeout output_limit =
     (let unsigned =
        [(''schema_version'', JStr VERIFIER_REQUEST_VERSION), (''state_slice'', JStr VERIFIER_PROTOCOL_STATE_SLICE),
         (''job_id'', JStr (job_id_of E vc workspace_id manifest candidate commands)),
         (''workspace_id'', JStr workspace_id), (''workspace_manifest_digest'', JStr manifest),
         (''candidate_binding'', JObj candidate),
         (''commands'', JList (map (\<lambda>c. JObj (command_to_dict c)) commands)),
         (''verifier_image_digest'', JStr (vc_image_digest vc)), (''sandbox_profile_digest'', JStr (vc_sandbox_digest vc)),
         (''timeout_seconds'', JInt timeout), (''output_limit_bytes'', JInt output_limit)]
      in unsigned @ [(''request_digest'', JStr (canonical_digest (sha256_hex E) (JObj unsigned)))])"

text \<open>\<open>peer_uid\<close> is what \<open>SO_PEERCRED\<close> reports once connected, or the error.\<close>

definition verifier_exchange :: "network \<Rightarrow> (py_exn + int) \<Rightarrow> verifier_client \<Rightarrow> jobj \<Rightarrow> py_exn + jobj" where
  "verifier_exchange net peer_uid vc request =
     (case net_connect net of
        Some e \<Rightarrow> Inl e
      | None \<Rightarrow>
          ebind peer_uid (\<lambda>uid.
          if uid \<noteq> vc_uid vc then Inl (RuntimeError ''repo patch verifier peer identity rejected'')
          else ebind (send_json_frame (net_send net) request (vc_max_frame vc)) (\<lambda>c.
          ebind (receive_json_frame (net_answer net (outgoing c)) (vc_max_frame vc)) (\<lambda>rc. Inr (fst rc)))))"

fun verifier_transport :: "py_exn + 'a \<Rightarrow> py_exn + 'a" where
  "verifier_transport (Inl (OSError _)) = Inl (RuntimeError ''repo patch verifier transport failed: OSError'')"
| "verifier_transport (Inl (ValueError _)) = Inl (RuntimeError ''repo patch verifier transport failed: ValueError'')"
| "verifier_transport r = r"

fun item_of :: "string \<Rightarrow> jval \<Rightarrow> py_exn + jval" where
  "item_of k (JObj d) = pidx d k"
| "item_of k _ = Inl (TypeError ''indices must be integers or slices, not str'')"

fun items_of :: "string \<Rightarrow> jval list \<Rightarrow> py_exn + jval list" where
  "items_of k [] = Inr []"
| "items_of k (r # rs) = ebind (item_of k r) (\<lambda>v. ebind (items_of k rs) (\<lambda>vs. Inr (v # vs)))"

text \<open>\<open>any(result["returncode"] != 0 for result in results)\<close> stops at the first nonzero code.\<close>

fun some_failed :: "jval list \<Rightarrow> py_exn + bool" where
  "some_failed [] = Inr False"
| "some_failed (r # rs) =
     ebind (item_of ''returncode'' r) (\<lambda>v. if \<not> py_eq v (JInt 0) then Inr True else some_failed rs)"

text \<open>\<open>tuple(v)\<close>.\<close>

fun tuple_of :: "jval \<Rightarrow> py_exn + jval list" where
  "tuple_of (JList xs) = Inr xs"
| "tuple_of (JStr s) = Inr (map (\<lambda>c. JStr [c]) s)"
| "tuple_of (JObj d) = Inr (map (\<lambda>kv. JStr (fst kv)) d)"
| "tuple_of _ = Inl (TypeError ''object is not iterable'')"

definition executed_argv :: "AuthorizedTestCommand list \<Rightarrow> jval list" where
  "executed_argv commands = map (\<lambda>c. JList (map JStr (executable_path c # tl (cmd_argv c)))) commands"

definition expect_item :: "jobj \<Rightarrow> string \<Rightarrow> jval \<Rightarrow> string \<Rightarrow> py_exn + unit" where
  "expect_item d k v msg = ebind (pidx d k) (\<lambda>x. ck (py_eq x v) msg)"

text \<open>The bindings of a receipt, before it is kept.\<close>

definition bound_receipt ::
  "pyenv \<Rightarrow> schemas \<Rightarrow> ed25519 \<Rightarrow> verifier_client \<Rightarrow> string \<Rightarrow> jval \<Rightarrow> string \<Rightarrow> jobj \<Rightarrow> py_exn + unit" where
  "bound_receipt E S L vc job_id request_digest manifest response =
     ebind (validate_signed_verifier_response E S L response (vc_key_id vc) (vc_public_key vc)) (\<lambda>_.
     ebind (expect_item response ''job_id'' (JStr job_id) ''verifier response request binding mismatch'') (\<lambda>_.
     ebind (expect_item response ''request_digest'' request_digest ''verifier response request binding mismatch'') (\<lambda>_.
     ebind (expect_item response ''workspace_manifest_before'' (JStr manifest) ''verifier response input manifest mismatch'') (\<lambda>_.
     ebind (expect_item response ''verifier_image_digest'' (JStr (vc_image_digest vc)) ''verifier response image binding mismatch'') (\<lambda>_.
     expect_item response ''sandbox_profile_digest'' (JStr (vc_sandbox_digest vc)) ''verifier response sandbox binding mismatch'')))))"

definition accepted_results :: "string \<Rightarrow> AuthorizedTestCommand list \<Rightarrow> jobj \<Rightarrow> py_exn + jval list" where
  "accepted_results manifest commands response =
     ebind (pidx response ''status'') (\<lambda>status.
     if \<not> py_eq status (JStr ''succeeded'')
     then ebind (pidx response ''code'') (\<lambda>code. Inl (RuntimeError (''repo patch verifier rejected: '' @ py_str code)))
     else ebind (expect_item response ''workspace_manifest_after'' (JStr manifest) ''verifier response workspace drifted'') (\<lambda>_.
     ebind (ebind (pidx response ''test_results'') tuple_of) (\<lambda>results.
     ebind (items_of ''argv'' results) (\<lambda>argvs.
     if \<not> py_eq (JList argvs) (JList (executed_argv commands))
     then Inl (ValueError ''verifier result command binding mismatch'')
     else ebind (some_failed results) (\<lambda>failed.
     if failed then Inl (ValueError ''verifier success response contains a failed command'') else Inr results)))))"

text \<open>\<open>verify\<close> returns the results and sets \<open>_last_verified_receipt\<close>.\<close>

definition verify ::
  "pyenv \<Rightarrow> schemas \<Rightarrow> ed25519 \<Rightarrow> network \<Rightarrow> (py_exn + int) \<Rightarrow> verifier_client \<Rightarrow> string \<Rightarrow> string \<Rightarrow> jobj
    \<Rightarrow> AuthorizedTestCommand list \<Rightarrow> int \<Rightarrow> int \<Rightarrow> (py_exn + jval list) \<times> jobj option" where
  "verify E S L net peer_uid vc workspace_id manifest candidate commands timeout output_limit =
     (if \<not> workspace_id_text workspace_id
      then (Inl (RuntimeError ''repo patch verifier workspace id rejected''), None)
      else if \<not> sha256_text manifest
      then (Inl (RuntimeError ''repo patch verifier workspace manifest rejected''), None)
      else let request = verifier_request E vc workspace_id manifest candidate commands timeout output_limit;
               job_id = job_id_of E vc workspace_id manifest candidate commands in
      case ebind (validate_payload (S ''repo-patch-verifier-request.schema.json'') (JObj request)) (\<lambda>_.
             verifier_transport (verifier_exchange net peer_uid vc request)) of
        Inl e \<Rightarrow> (Inl e, None)
      | Inr response \<Rightarrow>
          (case bound_receipt E S L vc job_id (pget request ''request_digest'') manifest response of
             Inl e \<Rightarrow> (rejected_as ''repo patch verifier response contract rejected'' (Inl e), None)
           | Inr _ \<Rightarrow>
               (rejected_as ''repo patch verifier response contract rejected'' (accepted_results manifest commands response),
                Some response)))"

section \<open>The verifier's check of a request\<close>

definition match_item :: "(string \<Rightarrow> bool) \<Rightarrow> jval \<Rightarrow> string \<Rightarrow> string \<Rightarrow> py_exn + unit" where
  "match_item P d k msg =
     ebind (item_of k d) (\<lambda>v. case v of JStr s \<Rightarrow> ck (P s) msg | _ \<Rightarrow> Inl (TypeError ''expected string or bytes-like object''))"

fun match_items :: "(string \<Rightarrow> bool) \<Rightarrow> jval \<Rightarrow> string list \<Rightarrow> string \<Rightarrow> py_exn + unit" where
  "match_items P d [] msg = Inr ()"
| "match_items P d (k # ks) msg = ebind (match_item P d k msg) (\<lambda>_. match_items P d ks msg)"

fun digest_texts :: "jobj \<Rightarrow> string list \<Rightarrow> py_exn + unit" where
  "digest_texts d [] = Inr ()"
| "digest_texts d (f # fs) =
     (if sha256_text (py_str (por (pget d f) (JStr []))) then digest_texts d fs
      else Inl (ValueError (''repo patch verifier '' @ f @ '' rejected'')))"

definition validate_command_record :: "pyenv \<Rightarrow> jval \<Rightarrow> py_exn + unit" where
  "validate_command_record E command =
     ebind (item_of ''argv'' command) (\<lambda>av.
     ebind (tuple_of av) (\<lambda>values.
     ebind (if list_ex (\<lambda>v. \<not> truthy v) values then Inl (ValueError ''repo patch verifier command identity rejected'')
            else match_item path_is_absolute command ''executable_path'' ''repo patch verifier command identity rejected'') (\<lambda>_.
     ebind (match_item sha256_text command ''executable_digest'' ''repo patch verifier executable digest rejected'') (\<lambda>_.
     ebind (item_of ''command_digest'' command) (\<lambda>digest.
     ebind (item_of ''executable_path'' command) (\<lambda>path.
     ebind (item_of ''executable_digest'' command) (\<lambda>xd.
     ck (py_eq digest (JStr (canonical_digest (sha256_hex E)
           (JObj [(''argv'', av), (''executable_path'', path), (''executable_digest'', xd)]))))
        ''repo patch verifier command digest rejected'')))))))"

fun validate_command_records :: "pyenv \<Rightarrow> jval list \<Rightarrow> py_exn + unit" where
  "validate_command_records E [] = Inr ()"
| "validate_command_records E (c # cs) = ebind (validate_command_record E c) (\<lambda>_. validate_command_records E cs)"

text \<open>\<open>schemas/repo-patch-verifier-request.schema.json\<close>, the schema of a request.\<close>

definition text_schema :: jval where
  "text_schema = JObj [(''type'', JStr ''string'')]"

definition const_schema :: "string \<Rightarrow> jval" where
  "const_schema s = JObj [(''type'', JStr ''string''), (''enum'', JList [JStr s])]"

definition closed_schema :: "string list \<Rightarrow> jobj \<Rightarrow> jobj" where
  "closed_schema required properties =
     [(''type'', JStr ''object''), (''additionalProperties'', JBool False), (''required'', JList (map JStr required)),
      (''properties'', JObj properties)]"

definition candidate_schema :: jobj where
  "candidate_schema = closed_schema
     [''base_commit'', ''base_tree'', ''target_path'', ''target_preimage_digest'', ''target_postimage_digest'', ''authorized_diff_digest'']
     [(''base_commit'', text_schema), (''base_tree'', text_schema), (''target_path'', text_schema),
      (''target_preimage_digest'', text_schema), (''target_postimage_digest'', text_schema),
      (''authorized_diff_digest'', text_schema)]"

definition command_schema :: jobj where
  "command_schema = closed_schema [''argv'', ''executable_path'', ''executable_digest'', ''command_digest'']
     [(''argv'', JObj [(''type'', JStr ''array''), (''minItems'', JInt 1), (''items'', text_schema)]),
      (''executable_path'', text_schema), (''executable_digest'', text_schema), (''command_digest'', text_schema)]"

definition verifier_request_schema :: jobj where
  "verifier_request_schema =
     [(''$schema'', JStr ''https://json-schema.org/draft/2020-12/schema''), (''$id'', JStr ''repo-patch-verifier-request.schema.json'')]
     @ closed_schema
     [''schema_version'', ''state_slice'', ''job_id'', ''workspace_id'', ''workspace_manifest_digest'', ''candidate_binding'',
      ''commands'', ''verifier_image_digest'', ''sandbox_profile_digest'', ''timeout_seconds'', ''output_limit_bytes'',
      ''request_digest'']
     [(''schema_version'', const_schema ''mesh.repo_patch_verifier_request.v1''),
      (''state_slice'', const_schema ''mesh.repo_patch_verifier_protocol.v1''),
      (''job_id'', text_schema), (''workspace_id'', text_schema), (''workspace_manifest_digest'', text_schema),
      (''candidate_binding'', JObj candidate_schema),
      (''commands'', JObj [(''type'', JStr ''array''), (''minItems'', JInt 1), (''items'', JObj command_schema)]),
      (''verifier_image_digest'', text_schema), (''sandbox_profile_digest'', text_schema),
      (''timeout_seconds'', JObj [(''type'', JStr ''integer'')]), (''output_limit_bytes'', JObj [(''type'', JStr ''integer'')]),
      (''request_digest'', text_schema)]"

definition validate_verifier_request :: "pyenv \<Rightarrow> schemas \<Rightarrow> jobj \<Rightarrow> py_exn + unit" where
  "validate_verifier_request E S request =
     ebind (validate_payload (S ''repo-patch-verifier-request.schema.json'') (JObj request)) (\<lambda>_.
     ebind (ck (py_eq (pget request ''schema_version'') (JStr VERIFIER_REQUEST_VERSION))
              ''repo patch verifier request version mismatch'') (\<lambda>_.
     ebind (ck (py_eq (pget request ''state_slice'') (JStr VERIFIER_PROTOCOL_STATE_SLICE))
              ''repo patch verifier request state slice mismatch'') (\<lambda>_.
     ebind (ck (job_id_text (py_str (por (pget request ''job_id'') (JStr [])))) ''repo patch verifier job id rejected'') (\<lambda>_.
     ebind (ck (workspace_id_text (py_str (por (pget request ''workspace_id'') (JStr []))))
              ''repo patch verifier workspace id rejected'') (\<lambda>_.
     ebind (digest_texts request
              [''workspace_manifest_digest'', ''verifier_image_digest'', ''sandbox_profile_digest'', ''request_digest'']) (\<lambda>_.
     ebind (pidx request ''candidate_binding'') (\<lambda>candidate.
     ebind (match_items git_object candidate [''base_commit'', ''base_tree''] ''repo patch verifier Git identity rejected'') (\<lambda>_.
     ebind (match_item portable_target candidate ''target_path'' ''repo patch verifier target path rejected'') (\<lambda>_.
     ebind (match_items sha256_text candidate [''target_preimage_digest'', ''target_postimage_digest'', ''authorized_diff_digest'']
              ''repo patch verifier candidate digest rejected'') (\<lambda>_.
     ebind (ebind (pidx request ''commands'') tuple_of) (\<lambda>commands.
     ebind (validate_command_records E commands) (\<lambda>_.
     ck (py_eq (pget request ''request_digest'')
           (JStr (canonical_digest (sha256_hex E) (JObj (pwithout request [''request_digest''])))))
        ''repo patch verifier request digest mismatch''))))))))))))"

section \<open>Proofs\<close>

lemma py_eq_JStr_right [simp]: "py_eq v (JStr s) \<longleftrightarrow> v = JStr s"
  by (cases v) auto

lemma expect_item_Inr: "expect_item d k (JStr s) msg = Inr u \<longleftrightarrow> map_of d k = Some (JStr s)"
  by (auto simp: expect_item_def pidx_def ck_def split: option.splits)

lemma verify_Inr:
  assumes "verify E S L net peer vc ws manifest candidate commands timeout limit = (Inr results, receipt)"
  shows "\<exists>response. verifier_exchange net peer vc (verifier_request E vc ws manifest candidate commands timeout limit) = Inr response
    \<and> bound_receipt E S L vc (job_id_of E vc ws manifest candidate commands)
        (pget (verifier_request E vc ws manifest candidate commands timeout limit) ''request_digest'') manifest response = Inr ()
    \<and> accepted_results manifest commands response = Inr results \<and> receipt = Some response"
proof -
  have t: "verifier_transport r = Inr x \<longleftrightarrow> r = Inr x" for r :: "py_exn + jobj" and x
    by (cases r rule: sum.exhaust; cases "projl r") auto
  have bad: "rejected_as msg (Inl e) \<noteq> Inr x" for msg e and x :: "jval list" by simp
  show ?thesis using assms unfolding verify_def Let_def
    by (auto simp: t bad split: if_splits sum.splits)
qed

lemma request_digest_text:
  "pget (verifier_request E vc ws manifest candidate commands timeout limit) ''request_digest'' = JStr (canonical_digest (sha256_hex E)
     (JObj (pwithout (verifier_request E vc ws manifest candidate commands timeout limit) [''request_digest''])))"
  by (simp add: verifier_request_def Let_def pwithout_def)

lemma signed_response_Inr:
  assumes "validate_signed_verifier_response E S L r kid key = Inr ()" and "key \<noteq> []"
  shows "\<exists>pf. pget r ''authorization_proof'' = JObj pf \<and> pget pf ''key_id'' = JStr kid
     \<and> ed_verify L key (py_str (por (pget pf ''signature'') (JStr []))) (signing_text (verifier_receipt_signed_payload r)) = Inr True"
proof -
  obtain pf where pf: "pget r ''authorization_proof'' = JObj pf" "pget pf ''key_id'' = JStr kid"
      "verify_ed25519_signature_proof E L (verifier_receipt_signed_payload r) pf key = Inr True"
    using assms(1) unfolding validate_signed_verifier_response_def
    by (auto simp: ck_def split: jval.splits if_splits)
  then show ?thesis using verify_ed25519_True [OF pf(3) assms(2)] by blast
qed

lemma results_pass:
  "items_of ''argv'' results = Inr argvs \<Longrightarrow> some_failed results = Inr False \<Longrightarrow> py_eq_list argvs (map g commands) \<Longrightarrow>
   list_all2 (\<lambda>c result. \<exists>d. result = JObj d \<and> py_eq (pget d ''argv'') (g c) \<and> py_eq (pget d ''returncode'') (JInt 0)) commands results"
proof (induction results arbitrary: argvs commands)
  case Nil
  then show ?case by (cases commands) auto
next
  case (Cons r rs)
  then obtain d v vs where r: "r = JObj d" "pidx d ''argv'' = Inr v" "items_of ''argv'' rs = Inr vs" "argvs = v # vs"
    by (cases r) auto
  obtain rc where rc: "pidx d ''returncode'' = Inr rc" "py_eq rc (JInt 0)" "some_failed rs = Inr False"
    using Cons.prems(2) r(1) by (auto split: if_splits)
  obtain c cs where c: "commands = c # cs" "py_eq v (g c)" "py_eq_list vs (map g cs)"
    using Cons.prems(3) r(4) by (cases commands) auto
  from Cons.IH [OF r(3) rc(3) c(3)] show ?case
    using r rc c pidx_pget_eq by auto
qed

text \<open>C24: a verification the authority relies on is one the pinned verifier signed for this job. When \<open>verify\<close> returns
  results, the kept receipt carries a signature of the pinned key over all its other members, names this job and request, the
  workspace manifest before and after the run, the pinned image and sandbox, and the results are one per command, each
  with the argument vector that was authorised and with return code zero.\<close>

theorem verify_bound_and_signed:
  assumes "verify E S L net peer vc ws manifest candidate commands timeout limit = (Inr results, receipt)"
    and "vc_public_key vc \<noteq> []"
  shows "peer = Inr (vc_uid vc) \<and> (\<exists>r pf. receipt = Some r \<and> pget r ''authorization_proof'' = JObj pf
     \<and> ed_verify L (vc_public_key vc) (py_str (por (pget pf ''signature'') (JStr [])))
         (signing_text (verifier_receipt_signed_payload r)) = Inr True
     \<and> pget pf ''key_id'' = JStr (vc_key_id vc)
     \<and> pget r ''job_id'' = JStr (job_id_of E vc ws manifest candidate commands)
     \<and> pget r ''request_digest'' = pget (verifier_request E vc ws manifest candidate commands timeout limit) ''request_digest''
     \<and> pget r ''workspace_manifest_before'' = JStr manifest \<and> pget r ''workspace_manifest_after'' = JStr manifest
     \<and> pget r ''verifier_image_digest'' = JStr (vc_image_digest vc)
     \<and> pget r ''sandbox_profile_digest'' = JStr (vc_sandbox_digest vc) \<and> pget r ''status'' = JStr ''succeeded''
     \<and> tuple_of (pget r ''test_results'') = Inr results
     \<and> list_all2 (\<lambda>c result. \<exists>d. result = JObj d \<and> py_eq (pget d ''argv'') (JList (map JStr (executable_path c # tl (cmd_argv c))))
          \<and> py_eq (pget d ''returncode'') (JInt 0)) commands results)"
proof -
  obtain r where x: "verifier_exchange net peer vc (verifier_request E vc ws manifest candidate commands timeout limit) = Inr r"
    and b: "bound_receipt E S L vc (job_id_of E vc ws manifest candidate commands)
        (pget (verifier_request E vc ws manifest candidate commands timeout limit) ''request_digest'') manifest r = Inr ()"
    and a: "accepted_results manifest commands r = Inr results" and r: "receipt = Some r"
    using verify_Inr [OF assms(1)] by blast
  have peer: "peer = Inr (vc_uid vc)"
    using x by (auto simp: verifier_exchange_def split: option.splits if_splits)
  have v: "validate_signed_verifier_response E S L r (vc_key_id vc) (vc_public_key vc) = Inr ()"
    using b by (auto simp: bound_receipt_def)
  obtain pf where pf: "pget r ''authorization_proof'' = JObj pf" "pget pf ''key_id'' = JStr (vc_key_id vc)"
      "ed_verify L (vc_public_key vc) (py_str (por (pget pf ''signature'') (JStr [])))
         (signing_text (verifier_receipt_signed_payload r)) = Inr True"
    using signed_response_Inr [OF v assms(2)] by blast
  have binds: "pget r ''job_id'' = JStr (job_id_of E vc ws manifest candidate commands)"
      "pget r ''request_digest'' = pget (verifier_request E vc ws manifest candidate commands timeout limit) ''request_digest''"
      "pget r ''workspace_manifest_before'' = JStr manifest" "pget r ''verifier_image_digest'' = JStr (vc_image_digest vc)"
      "pget r ''sandbox_profile_digest'' = JStr (vc_sandbox_digest vc)"
    using b unfolding bound_receipt_def request_digest_text by (simp_all add: expect_item_Inr pget_def)
  obtain argvs where t: "tuple_of (pget r ''test_results'') = Inr results" "items_of ''argv'' results = Inr argvs"
      "py_eq_list argvs (executed_argv commands)" "some_failed results = Inr False"
      and st: "pget r ''status'' = JStr ''succeeded''" "pget r ''workspace_manifest_after'' = JStr manifest"
    using a unfolding accepted_results_def by (auto simp: expect_item_Inr pget_def pidx_def split: if_splits option.splits)
  show ?thesis using peer r pf binds t st results_pass [OF t(2,4)] by (auto simp: executed_argv_def)
qed

section \<open>A concrete run\<close>

text \<open>Signatures that name the key; a key is its own public key.\<close>

definition toy_ed :: ed25519 where
  "toy_ed = \<lparr>ed_present = True, ed_sign = (\<lambda>key t. Inr (''S'' @ key, key)), ed_verify = (\<lambda>key s t. Inr (s = ''S'' @ key))\<rparr>"

lemma flat_sha [simp]: "sha256_hex flat_env t = replicate 64 (CHR ''0'')" "canonical_digest (sha256_hex flat_env) v = flat_digest"
  by (simp_all add: flat_env_def canonical_digest_def flat_digest_def)

lemma toy_ed_simps [simp]: "ed_present toy_ed" "ed_sign toy_ed k t = Inr (''S'' @ k, k)" "ed_verify toy_ed k s t = Inr (s = ''S'' @ k)"
  by (simp_all add: toy_ed_def)

definition sample_vc :: verifier_client where
  "sample_vc = \<lparr>vc_socket_path = ''/run/v'', vc_uid = 7, vc_image_digest = flat_digest, vc_sandbox_digest = flat_digest,
     vc_public_key = ''pk'', vc_key_id = ''kid'', vc_timeout = 35, vc_max_frame = 1048576\<rparr>"

definition sample_commands :: "AuthorizedTestCommand list" where
  "sample_commands = [\<lparr>cmd_argv = [''pytest'', ''-q''], executable_path = ''/bin/pytest'', executable_digest = flat_digest,
     command_digest = flat_digest\<rparr>]"

definition sample_ws :: string where
  "sample_ws = ''workspace_'' @ replicate 64 (CHR ''0'')"

definition sample_job :: string where
  "sample_job = ''verifier_job_'' @ replicate 64 (CHR ''0'')"

text \<open>The receipt with its members in the order in which they are read back.\<close>

definition sample_receipt :: jobj where
  "sample_receipt =
     [(''authorization_proof'', JObj
        [(''algorithm'', JStr ''ed25519''), (''key_id'', JStr ''kid''),
         (''payload_sha256'', JStr (replicate 64 (CHR ''0''))), (''public_key_pem'', JStr ''pk''), (''signature'', JStr ''Spk''),
         (''signing_profile'', JStr VERIFIER_RECEIPT_SIGNING_PROFILE), (''status'', JStr ''verified''),
         (''verifier'', JStr ''orbital_mesh_ed25519_v1'')]),
      (''job_id'', JStr sample_job), (''request_digest'', JStr flat_digest), (''sandbox_profile_digest'', JStr flat_digest),
      (''status'', JStr ''succeeded''),
      (''test_results'', JList [JObj [(''argv'', JList [JStr ''/bin/pytest'', JStr ''-q'']), (''returncode'', JInt 0)]]),
      (''verifier_image_digest'', JStr flat_digest),
      (''workspace_manifest_after'', JStr flat_digest), (''workspace_manifest_before'', JStr flat_digest)]"

abbreviation sample_job_request :: jobj where
  "sample_job_request \<equiv> verifier_request flat_env sample_vc sample_ws flat_digest [] sample_commands 30 65536"

lemma sample_texts: "sha256_text flat_digest" "workspace_id_text sample_ws"
  by code_simp+

lemma sample_job_id: "job_id_of flat_env sample_vc sample_ws flat_digest [] sample_commands = sample_job"
  by (simp add: job_id_of_def sample_job_def flat_digest_def removeprefix_def)

lemma sample_receipt_norm: "json_norm (JObj sample_receipt) = JObj sample_receipt" "json_exact (JObj sample_receipt)"
  by code_simp+

lemma sample_sent:
  "is_ok (send_json_frame fresh_connection sample_receipt 1048576)" "is_ok (send_json_frame fresh_connection sample_job_request 1048576)"
proof -
  have "json_cost (JObj sample_receipt) < 500000"
    by (simp add: sample_receipt_def sample_job_def flat_digest_def VERIFIER_RECEIPT_SIGNING_PROFILE_def int_str_def pos_str.simps)
  then show "is_ok (send_json_frame fresh_connection sample_receipt 1048576)"
    by (intro send_fits) (auto simp: fresh_connection_def simp del: json_cost.simps)
  have "json_cost (JObj sample_job_request) < 500000"
    unfolding verifier_request_def sample_job_id
    by (simp add: Let_def sample_vc_def sample_commands_def command_to_dict_def sample_ws_def
      sample_job_def flat_digest_def VERIFIER_REQUEST_VERSION_def VERIFIER_PROTOCOL_STATE_SLICE_def int_str_def pos_str.simps)
  then show "is_ok (send_json_frame fresh_connection sample_job_request 1048576)"
    by (intro send_fits) (auto simp: fresh_connection_def simp del: json_cost.simps)
qed

lemma sample_bound:
  "bound_receipt flat_env open_schemas toy_ed sample_vc sample_job (JStr flat_digest) flat_digest sample_receipt = Inr ()"
proof -
  have "verify_ed25519_signature_proof flat_env toy_ed d (obj_or_empty (pget sample_receipt ''authorization_proof'')) ''pk'' = Inr True" for d
    by (simp add: verify_ed25519_signature_proof_def sample_receipt_def compare_digest_def por_def list_ex_iff)
  then show ?thesis
    by (simp add: bound_receipt_def validate_signed_verifier_response_def sample_vc_def sample_receipt_def expect_item_Inr por_def ck_def
      py_strip_def py_lstrip_def py_isspace_def)
qed

lemma sample_accepted:
  "is_ok (accepted_results flat_digest sample_commands sample_receipt)"
  by (simp add: accepted_results_def sample_receipt_def sample_commands_def executed_argv_def expect_item_Inr pidx_def)

lemma sample_exchange: "verifier_exchange (answering sample_receipt) (Inr 7) sample_vc sample_job_request = Inr sample_receipt"
proof -
  obtain c where c: "send_json_frame fresh_connection sample_job_request 1048576 = Inr c"
    using sample_sent(2) by (auto simp: is_ok_iff)
  obtain conn where "receive_json_frame (net_answer (answering sample_receipt) (outgoing c)) 1048576 = Inr (sample_receipt, conn)"
    using answering_delivers [OF sample_receipt_norm(2) sample_sent(1), of 1048576 "outgoing c"] sample_receipt_norm(1)
    by (auto simp del: json_norm.simps)
  moreover have "vc_max_frame sample_vc = 1048576" "vc_uid sample_vc = 7" by (simp_all add: sample_vc_def)
  ultimately show ?thesis using c by (simp add: verifier_exchange_def)
qed

lemma sample_verified:
  "\<exists>results. verify flat_env open_schemas toy_ed (answering sample_receipt) (Inr 7) sample_vc sample_ws flat_digest []
     sample_commands 30 65536 = (Inr results, Some sample_receipt)"
proof -
  obtain results where "accepted_results flat_digest sample_commands sample_receipt = Inr results"
    using sample_accepted by (auto simp: is_ok_iff)
  moreover have "pget sample_job_request ''request_digest'' = JStr flat_digest" by (simp add: request_digest_text)
  ultimately show ?thesis
    using sample_texts sample_bound sample_exchange by (simp add: verify_def sample_job_id)
qed

theorem verify_bound_and_signed_witness:
  "\<exists>results r. verify flat_env open_schemas toy_ed (answering sample_receipt) (Inr 7) sample_vc sample_ws flat_digest []
       sample_commands 30 65536 = (Inr results, Some r)
     \<and> pget r ''job_id'' = JStr (job_id_of flat_env sample_vc sample_ws flat_digest [] sample_commands)
     \<and> length results = length sample_commands"
proof -
  obtain results where v: "verify flat_env open_schemas toy_ed (answering sample_receipt) (Inr 7) sample_vc sample_ws flat_digest []
     sample_commands 30 65536 = (Inr results, Some sample_receipt)" using sample_verified by blast
  have "vc_public_key sample_vc \<noteq> []" by (simp add: sample_vc_def)
  from verify_bound_and_signed [OF v this] v show ?thesis by (auto dest: list_all2_lengthD)
qed

lemma match_item_ok: "text_matches P (pget d k) \<Longrightarrow> match_item P (JObj d) k msg = Inr ()"
  by (auto simp: text_matches_def match_item_def pget_def pidx_def ck_def split: option.splits jval.splits)

lemma digest_text: "hex64 (sha256_hex E t) \<Longrightarrow> sha256_text (''sha256:'' @ sha256_hex E t)"
  by (simp add: sha256_text_def removeprefix_def starts_with_iff)

lemma por_text [simp]: "py_str (por (JStr x) (JStr [])) = x"
  by (simp add: por_def)

lemma validate_command_record_ok:
  assumes sha: "\<And>t. hex64 (sha256_hex E t)" and abs: "\<And>t. path_is_absolute (ex_resolve X t)"
    and "bound_command E X av = Inr c" and "[] \<notin> set av"
  shows "validate_command_record E (JObj (command_to_dict c)) = Inr ()"
proof -
  obtain path digest where c: "resolve_executable X (hd av) = Inr path" "exec_digest E X path = Inr digest"
      "c = \<lparr>cmd_argv = av, executable_path = path, executable_digest = digest,
          command_digest = canonical_digest (sha256_hex E)
            (JObj [(''argv'', JList (map JStr av)), (''executable_path'', JStr path), (''executable_digest'', JStr digest)])\<rparr>"
    using assms(3) by (auto simp: bound_command_def)
  have "path_is_absolute path"
    using c(1) abs by (auto simp: resolve_executable_def Let_def split: option.splits sum.splits if_splits py_exn.splits)
  moreover have "sha256_text digest" using c(2) digest_text [OF sha] by (auto simp: exec_digest_def)
  moreover have "\<not> list_ex (\<lambda>v. \<not> truthy v) (map JStr av)" using assms(4) by (auto simp: list_ex_iff)
  ultimately show ?thesis
    by (simp add: validate_command_record_def command_to_dict_def c(3) match_item_def pidx_def ck_def)
qed

lemma list_all2_right: "list_all2 P xs ys \<Longrightarrow> y \<in> set ys \<Longrightarrow> \<exists>x \<in> set xs. P x y"
  by (induction rule: list_all2_induct) auto

lemma validate_command_records_ok:
  assumes "\<And>t. hex64 (sha256_hex E t)" and "\<And>t. path_is_absolute (ex_resolve X t)"
    and "policy_init cs b = Inr p" and "authorize E X p cmds = Inr commands"
  shows "validate_command_records E (map (\<lambda>c. JObj (command_to_dict c)) commands) = Inr ()"
proof -
  have l: "list_all2 (\<lambda>command c. authorize_one E X p command = Inr c) cmds commands"
    using assms(4) by (auto simp: authorize_def authorize_loop_iff split: if_splits)
  have "validate_command_record E (JObj (command_to_dict c)) = Inr ()" if c: "c \<in> set commands" for c
  proof -
    obtain command where "authorize_one E X p command = Inr c" using list_all2_right [OF l c] by blast
    then obtain av where av: "bound_command E X av = Inr c" "av \<in> set (allowed_commands p)" by (auto simp: authorize_one_Inr)
    with policy_init_set(3) [OF assms(3)] have "[] \<notin> set av" by blast
    with validate_command_record_ok [OF assms(1,2) av(1)] show ?thesis .
  qed
  then show ?thesis by (induction commands) auto
qed

text \<open>The schema of the request accepts what the client builds.\<close>

lemma conforms_text [simp]: "conforms (JStr t) [(''type'', JStr ''string'')]"
  by (rule conforms_atom) (simp_all add: enum_ok_def type_ok_def matches_type_def)

lemma conforms_const [simp]: "conforms (JStr t) [(''type'', JStr ''string''), (''enum'', JList [JStr t])]"
  by (rule conforms_atom) (simp_all add: enum_ok_def type_ok_def matches_type_def)

lemma conforms_integer [simp]: "conforms (JInt n) [(''type'', JStr ''integer'')]"
  by (rule conforms_atom) (simp_all add: enum_ok_def type_ok_def matches_type_def)

lemma conforms_array:
  assumes "xs \<noteq> []" and "\<And>x. x \<in> set xs \<Longrightarrow> conforms x item"
  shows "conforms (JList xs) [(''type'', JStr ''array''), (''minItems'', JInt 1), (''items'', JObj item)]"
proof (rule conforms_list)
  have "1 \<le> length xs" using assms(1) by (cases xs) auto
  then have "(of_nat 1 :: rat) \<le> of_nat (length xs)" by (simp only: of_nat_le_iff)
  then show "min_ok xs [(''type'', JStr ''array''), (''minItems'', JInt 1), (''items'', JObj item)]" by (simp add: min_ok_def)
qed (use assms(2) in \<open>auto simp: enum_ok_def type_ok_def matches_type_def selects_def\<close>)

lemma conforms_closed:
  assumes "\<forall>k \<in> set required. phas d k"
    and "\<forall>(k, v) \<in> set d. \<exists>s. pget properties k = JObj s \<and> conforms v s"
    and "\<forall>k \<in> set [''type'', ''enum'', ''additionalProperties'', ''required'', ''properties'']. \<not> phas extra k"
  shows "conforms (JObj d) (extra @ closed_schema required properties)"
proof -
  let ?s = "extra @ closed_schema required properties"
  have e: "map_of extra k = None" if "k \<in> set [''type'', ''enum'', ''additionalProperties'', ''required'', ''properties'']" for k
    using assms(3) that by (auto simp: phas_def)
  have s: "pget ?s ''type'' = JStr ''object''" "pget ?s ''required'' = JList (map JStr required)" "\<not> phas ?s ''enum''"
      "pget ?s ''properties'' = JObj properties"
    using e by (simp_all add: pget_def phas_def closed_schema_def map_add_def)
  have "phas properties k" if "(k, v) \<in> set d" for k v
  proof -
    obtain s where "pget properties k = JObj s" using assms(2) \<open>(k, v) \<in> set d\<close> by blast
    then show ?thesis by (intro phas_if_pget) simp
  qed
  then have "fields_ok d ?s" using assms(1) s by (auto simp: fields_ok_def)
  then show ?thesis using s assms(2)
    by (intro conforms_obj) (auto simp: enum_ok_def type_ok_def matches_type_def selects_def)
qed

lemma conforms_closed_object:
  "\<forall>k \<in> set required. phas d k \<Longrightarrow> \<forall>(k, v) \<in> set d. \<exists>s. pget properties k = JObj s \<and> conforms v s
   \<Longrightarrow> conforms (JObj d) (closed_schema required properties)"
  using conforms_closed [of required d properties "[]"] by (simp add: phas_def)

lemma candidate_conforms:
  assumes "set candidate = {(''base_commit'', JStr bc), (''base_tree'', JStr bt), (''target_path'', JStr target),
      (''target_preimage_digest'', JStr pre), (''target_postimage_digest'', JStr post), (''authorized_diff_digest'', JStr diff)}"
  shows "conforms (JObj candidate) candidate_schema"
proof -
  have "phas candidate k" if "(k, v) \<in> set candidate" for k v
    using weak_map_of_SomeI [OF that] by (simp add: phas_def)
  then show ?thesis unfolding candidate_schema_def
    by (intro conforms_closed_object) (simp_all add: assms text_schema_def phas_def)
qed

lemma command_conforms:
  assumes "cmd_argv c \<noteq> []"
  shows "conforms (JObj (command_to_dict c)) command_schema"
proof -
  have "conforms (JList (map JStr (cmd_argv c))) [(''type'', JStr ''array''), (''minItems'', JInt 1), (''items'', JObj [(''type'', JStr ''string'')])]"
    using assms by (intro conforms_array) auto
  then show ?thesis unfolding command_schema_def
    by (intro conforms_closed_object) (simp_all add: command_to_dict_def text_schema_def phas_def)
qed

lemma verifier_request_conforms:
  assumes "conforms (JObj candidate) candidate_schema" and "commands \<noteq> []" and "\<forall>c \<in> set commands. cmd_argv c \<noteq> []"
  shows "conforms (JObj (verifier_request E vc ws manifest candidate commands timeout limit)) verifier_request_schema"
proof -
  have "conforms (JList (map (\<lambda>c. JObj (command_to_dict c)) commands))
      [(''type'', JStr ''array''), (''minItems'', JInt 1), (''items'', JObj command_schema)]"
    using assms(2,3) command_conforms by (intro conforms_array) auto
  then show ?thesis unfolding verifier_request_schema_def
    by (intro conforms_closed) (simp_all add: verifier_request_def Let_def phas_def assms(1) text_schema_def const_schema_def
        VERIFIER_REQUEST_VERSION_def VERIFIER_PROTOCOL_STATE_SLICE_def)
qed

lemma authorized_nonempty:
  assumes "policy_init cs b = Inr p" and "authorize E X p cmds = Inr commands"
  shows "length commands = length cmds \<and> (\<forall>c \<in> set commands. cmd_argv c \<noteq> [])"
proof -
  have l: "list_all2 (\<lambda>command c. authorize_one E X p command = Inr c) cmds commands"
    using assms(2) by (auto simp: authorize_def authorize_loop_iff split: if_splits)
  have "cmd_argv c \<noteq> []" if "c \<in> set commands" for c
    using list_all2_right [OF l that] by (auto simp: authorize_one_Inr bound_command_def)
  then show ?thesis using list_all2_lengthD [OF l] by simp
qed

text \<open>C28: client and verifier agree on the request. With the request schema of the repository, the request the client builds passes the
  verifier's own validation: for at least one command, authorised by the test policy with executables resolved to absolute paths, a
  candidate binding of exactly its six texts, each of its form, a workspace id, manifest digest, image digest and sandbox digest of
  theirs. SHA-256 is only used to be 64 hexadecimal digits.\<close>

theorem verifier_request_valid:
  assumes sha: "\<And>t. hex64 (sha256_hex E t)"
    and schema: "S ''repo-patch-verifier-request.schema.json'' = verifier_request_schema"
    and ids: "workspace_id_text ws" "sha256_text manifest" "sha256_text (vc_image_digest vc)" "sha256_text (vc_sandbox_digest vc)"
    and cand: "set candidate = {(''base_commit'', JStr bc), (''base_tree'', JStr bt), (''target_path'', JStr target),
        (''target_preimage_digest'', JStr pre), (''target_postimage_digest'', JStr post), (''authorized_diff_digest'', JStr diff)}"
        "git_object bc" "git_object bt" "portable_target target" "sha256_text pre" "sha256_text post" "sha256_text diff"
    and auth: "policy_init cs b = Inr p" "authorize E X p cmds = Inr commands" "cmds \<noteq> []"
        "\<And>t. path_is_absolute (ex_resolve X t)"
  shows "validate_verifier_request E S (verifier_request E vc ws manifest candidate commands timeout limit) = Inr ()"
proof -
  let ?r = "verifier_request E vc ws manifest candidate commands timeout limit"
  have "conforms (JObj ?r) verifier_request_schema"
    using authorized_nonempty [OF auth(1,2)] auth(3) candidate_conforms [OF cand(1)] by (intro verifier_request_conforms) auto
  then have valid: "validate_payload (S ''repo-patch-verifier-request.schema.json'') (JObj ?r) = Inr ()"
    using validate_accepts(1) by (simp add: validate_payload_def schema is_ok_unit [symmetric])
  have c: "pget candidate k = v" if e: "(k, v) \<in> set candidate" for k v
  proof -
    obtain v' where "map_of candidate k = Some v'" using weak_map_of_SomeI [OF e] by blast
    moreover from this have "(k, v') \<in> set candidate" by (rule map_of_SomeD)
    ultimately show ?thesis using e cand(1) by (auto simp: pget_def)
  qed
  have texts: "text_matches git_object (pget candidate ''base_commit'')" "text_matches git_object (pget candidate ''base_tree'')"
      "text_matches portable_target (pget candidate ''target_path'')" "text_matches sha256_text (pget candidate ''target_preimage_digest'')"
      "text_matches sha256_text (pget candidate ''target_postimage_digest'')" "text_matches sha256_text (pget candidate ''authorized_diff_digest'')"
    using cand c by (simp_all add: text_matches_def)
  have job: "job_id_text (job_id_of E vc ws manifest candidate commands)"
    using sha by (simp add: job_id_text_def job_id_of_def canonical_digest_def removeprefix_def starts_with_iff)
  have rd: "pget ?r ''request_digest'' = JStr (canonical_digest (sha256_hex E) (JObj (pwithout ?r [''request_digest''])))"
    by (rule request_digest_text)
  have rdt: "sha256_text (canonical_digest (sha256_hex E) v)" for v using digest_text [OF sha] by (simp add: canonical_digest_def)
  have cmds: "map_of ?r ''commands'' = Some (JList (map (\<lambda>c. JObj (command_to_dict c)) commands))"
    and flds: "pget ?r ''schema_version'' = JStr VERIFIER_REQUEST_VERSION" "pget ?r ''state_slice'' = JStr VERIFIER_PROTOCOL_STATE_SLICE"
      "pget ?r ''job_id'' = JStr (job_id_of E vc ws manifest candidate commands)" "pget ?r ''workspace_id'' = JStr ws"
      "pget ?r ''workspace_manifest_digest'' = JStr manifest" "pget ?r ''verifier_image_digest'' = JStr (vc_image_digest vc)"
      "pget ?r ''sandbox_profile_digest'' = JStr (vc_sandbox_digest vc)" "map_of ?r ''candidate_binding'' = Some (JObj candidate)"
    by (simp_all add: verifier_request_def Let_def)
  show ?thesis
    unfolding validate_verifier_request_def
    using valid ids job texts rdt validate_command_records_ok [OF sha auth(4,1,2)]
    by (simp add: flds cmds rd match_item_ok pidx_def ck_def)
qed

definition pinned_exec :: exec_env where
  "pinned_exec = sample_exec\<lparr>ex_resolve := (\<lambda>_. ''/bin/pytest'')\<rparr>"

definition sample_candidate :: jobj where
  "sample_candidate = [(''base_commit'', JStr (replicate 40 (CHR ''a''))), (''base_tree'', JStr (replicate 40 (CHR ''b''))),
     (''target_path'', JStr ''src/a.py''), (''target_preimage_digest'', JStr flat_digest),
     (''target_postimage_digest'', JStr flat_digest), (''authorized_diff_digest'', JStr flat_digest)]"

definition request_schemas :: schemas where
  "request_schemas = (\<lambda>name. if name = ''repo-patch-verifier-request.schema.json'' then verifier_request_schema else [])"

lemma sample_candidate_texts:
  "git_object (replicate 40 (CHR ''a''))" "git_object (replicate 40 (CHR ''b''))" "portable_target ''src/a.py''"
  by code_simp+

theorem verifier_request_valid_witness:
  "\<exists>commands. authorize flat_env pinned_exec sample_policy [sample_command] = Inr commands
     \<and> validate_verifier_request flat_env request_schemas
         (verifier_request flat_env sample_vc sample_ws flat_digest sample_candidate commands 30 65536) = Inr ()"
proof -
  have "is_ok (authorize flat_env pinned_exec sample_policy [sample_command])" by code_simp
  then obtain commands where c: "authorize flat_env pinned_exec sample_policy [sample_command] = Inr commands"
    by (auto simp: is_ok_iff)
  have h: "hex64 (sha256_hex flat_env t)" for t by (simp add: hex64_def list_all_iff is_hex_def less_eq_char_def)
  have s: "request_schemas ''repo-patch-verifier-request.schema.json'' = verifier_request_schema" by (simp add: request_schemas_def)
  have a: "path_is_absolute (ex_resolve pinned_exec t)" for t by (simp add: pinned_exec_def path_is_absolute_def path_root_def)
  have cand: "set sample_candidate = {(''base_commit'', JStr (replicate 40 (CHR ''a''))), (''base_tree'', JStr (replicate 40 (CHR ''b''))),
      (''target_path'', JStr ''src/a.py''), (''target_preimage_digest'', JStr flat_digest),
      (''target_postimage_digest'', JStr flat_digest), (''authorized_diff_digest'', JStr flat_digest)}"
    by (simp add: sample_candidate_def)
  have "validate_verifier_request flat_env request_schemas
      (verifier_request flat_env sample_vc sample_ws flat_digest sample_candidate commands 30 65536) = Inr ()"
    by (rule verifier_request_valid [where S = request_schemas and cmds = "[sample_command]", OF h s _ _ _ _ cand sample_candidate_texts _ _ _ sample_policy_init c _ a])
      (simp_all add: sample_texts sample_vc_def)
  then show ?thesis using c by blast
qed

end
