(* ===== verification/Patch_Workspace.thy ===== *)
theory Patch_Workspace
  imports Py_IO Verifier_Client
begin

text \<open>
  \<open>services/actuators/repo_patch_workspace.py\<close>: a patch is prepared in a detached Git worktree, verified there, and promoted to
  the source repository at most once by an atomic replacement of its one target file.

  Files are byte strings in \<open>m_fs\<close>; texts are encoded and decoded as UTF-8. What the operating system and Git answer is the
  parameter \<open>ws_env\<close>, indexed by the counter of answers: exit status and outputs of a \<open>git\<close> command (or the exception of
  \<open>subprocess.run\<close>), the files of a new worktree, which paths are directories, the number of links of a file, how many bytes
  a \<open>write\<close> takes, and which operation fails with an \<open>OSError\<close>. \<open>git worktree add\<close> and \<open>remove\<close> change only files
  under the workspace; the text of an \<open>OSError\<close> from \<open>open\<close> is the path.
\<close>

section \<open>The outside world\<close>

record ws_env =
  ws_git :: "nat \<Rightarrow> string \<Rightarrow> string list \<Rightarrow> py_exn + (int \<times> string \<times> string)"
  ws_checkout :: "nat \<Rightarrow> string \<Rightarrow> string \<Rightarrow> string option"
  ws_dir :: "nat \<Rightarrow> string \<Rightarrow> bool"
  ws_nlink :: "nat \<Rightarrow> string \<Rightarrow> nat"
  ws_written :: "nat \<Rightarrow> nat"
  ws_fault :: "nat \<Rightarrow> string option"
  ws_pid :: nat

definition MAX_TARGET_FILE_BYTES :: nat where
  "MAX_TARGET_FILE_BYTES = 1048576"

definition under :: "string \<Rightarrow> string \<Rightarrow> bool" where
  "under dir path \<longleftrightarrow> path = dir \<or> starts_with path (dir @ ''/'')"

definition git_raw :: "ws_env \<Rightarrow> string \<Rightarrow> string list \<Rightarrow> ('z, int \<times> string \<times> string) io" where
  "git_raw W repo args = io_bind io_tick (\<lambda>t. io_lift (ws_git W t repo args))"

definition first_text :: "string list \<Rightarrow> string" where
  "first_text xs = (case filter (\<lambda>x. x \<noteq> []) xs of [] \<Rightarrow> [] | x # _ \<Rightarrow> x)"

definition run_git :: "ws_env \<Rightarrow> string \<Rightarrow> string list \<Rightarrow> ('z, string) io" where
  "run_git W repo args =
     io_bind (git_raw W repo args) (\<lambda>(code, out, err).
     if code \<noteq> 0 then io_raise (ValueError (first_text [py_strip err, py_strip out, ''git command failed'']))
     else io_return (py_strip out))"

section \<open>Files under a root, without following links\<close>

fun open_parents :: "ws_env \<Rightarrow> fsys \<Rightarrow> nat \<Rightarrow> string \<Rightarrow> string \<Rightarrow> string list \<Rightarrow> py_exn + string" where
  "open_parents W fs t label current [] = Inr current"
| "open_parents W fs t label current (component # cs) =
     (let path = path_join current component in
      if fs_symlink fs path \<or> \<not> ws_dir W t path
      then Inl (ValueError (label @ '' parent contains a symlink or non-directory component: '' @ path))
      else open_parents W fs t label path cs)"

definition open_contained_parent :: "ws_env \<Rightarrow> fsys \<Rightarrow> nat \<Rightarrow> string \<Rightarrow> string \<Rightarrow> string \<Rightarrow> py_exn + (string \<times> string)" where
  "open_contained_parent W fs t repo relative_path label =
     (let parts = path_root relative_path # path_parts relative_path;
          parts = filter (\<lambda>p. p \<noteq> []) parts in
      if parts = [] \<or> list_ex (\<lambda>p. p \<in> {''.'', ''..''}) parts
      then Inl (ValueError (label @ '' path is not portable''))
      else if fs_symlink fs repo \<or> \<not> ws_dir W t repo
      then Inl (ValueError (label @ '' root is unavailable without symlink traversal: '' @ repo))
      else ebind (open_parents W fs t label repo (butlast parts)) (\<lambda>parent. Inr (parent, last parts)))"

text \<open>Opening a file for reading gives its path and its bytes.\<close>

definition open_contained_regular_file ::
  "ws_env \<Rightarrow> fsys \<Rightarrow> nat \<Rightarrow> string \<Rightarrow> string \<Rightarrow> string \<Rightarrow> py_exn + (string \<times> string)" where
  "open_contained_regular_file W fs t parent filename label =
     (let path = path_join parent filename in
      if fs_symlink fs path then Inl (ValueError (label @ '' is unavailable without symlink traversal: '' @ path))
      else case fs_file fs path of
        None \<Rightarrow> Inl (ValueError (label @ (if ws_dir W t path then '' must be a regular file''
                                        else '' is unavailable without symlink traversal: '' @ path)))
      | Some content \<Rightarrow>
          if ws_nlink W t path \<noteq> 1 then Inl (ValueError (label @ '' must not be hard linked''))
          else if MAX_TARGET_FILE_BYTES < length content
          then Inl (ValueError (label @ '' exceeds the bounded file-size limit''))
          else Inr (path, content))"

definition read_contained_regular_file :: "ws_env \<Rightarrow> string \<Rightarrow> string \<Rightarrow> string \<Rightarrow> ('z, string) io" where
  "read_contained_regular_file W repo relative_path label =
     io_bind io_tick (\<lambda>t. io_bind io_fs (\<lambda>fs.
     io_lift (ebind (open_contained_parent W fs t repo relative_path label) (\<lambda>(parent, filename).
              ebind (open_contained_regular_file W fs t parent filename label) (\<lambda>(path, content). Inr content)))))"

definition contained_file_digest :: "pyenv \<Rightarrow> ws_env \<Rightarrow> string \<Rightarrow> string \<Rightarrow> string \<Rightarrow> ('z, string) io" where
  "contained_file_digest E W repo relative_path label =
     io_bind (read_contained_regular_file W repo relative_path label) (\<lambda>content. io_return (bytes_digest E content))"

text \<open>One \<open>os.write\<close> at the end of the file: some of the bytes are taken, or none, or it fails.\<close>

definition append_file :: "fsys \<Rightarrow> string \<Rightarrow> string \<Rightarrow> fsys" where
  "append_file fs path bytes =
     fs\<lparr>fs_file := (fs_file fs)(path \<mapsto> (case fs_file fs path of None \<Rightarrow> [] | Some c \<Rightarrow> c) @ bytes)\<rparr>"

definition os_write :: "ws_env \<Rightarrow> string \<Rightarrow> string \<Rightarrow> ('z, nat) io" where
  "os_write W path view =
     io_effect (\<lambda>t fs. case ws_fault W t of
        Some m \<Rightarrow> (Inl (OSError m), fs)
      | None \<Rightarrow> (let n = min (ws_written W t) (length view) in (Inr n, append_file fs path (take n view))))"

text \<open>The loop of \<open>_write_descriptor\<close>.\<close>

function write_loop :: "ws_env \<Rightarrow> string \<Rightarrow> string \<Rightarrow> ('z, unit) io" where
  "write_loop W path view w =
     (if view = [] then (Done (), w)
      else case os_write W path view w of
        (Raised e, w') \<Rightarrow> (Raised e, w')
      | (Killed, w') \<Rightarrow> (Killed, w')
      | (Done written, w') \<Rightarrow>
          if written = 0 then (Raised (PyExn (ValueError ''repo patch file write made no progress'')), w')
          else write_loop W path (drop written view) w')"
  by pat_completeness auto
termination
  by (relation "measure (\<lambda>(_, _, view, _). length view)") auto

declare write_loop.simps [simp del]

definition os_call :: "ws_env \<Rightarrow> (fsys \<Rightarrow> fsys) \<Rightarrow> ('z, unit) io" where
  "os_call W f = io_effect (\<lambda>t fs. case ws_fault W t of Some m \<Rightarrow> (Inl (OSError m), fs) | None \<Rightarrow> (Inr (), f fs))"

definition set_file :: "string \<Rightarrow> string option \<Rightarrow> fsys \<Rightarrow> fsys" where
  "set_file path content fs = fs\<lparr>fs_file := (fs_file fs)(path := content)\<rparr>"

text \<open>\<open>os.ftruncate\<close>, the loop, \<open>os.fsync\<close>.\<close>

definition write_descriptor :: "ws_env \<Rightarrow> string \<Rightarrow> string \<Rightarrow> ('z, unit) io" where
  "write_descriptor W path payload =
     io_bind (os_call W (set_file path (Some []))) (\<lambda>_.
     io_bind (write_loop W path payload) (\<lambda>_.
     os_call W id))"

definition write_contained_regular_file :: "ws_env \<Rightarrow> string \<Rightarrow> string \<Rightarrow> string \<Rightarrow> string \<Rightarrow> ('z, unit) io" where
  "write_contained_regular_file W repo relative_path payload label =
     (if MAX_TARGET_FILE_BYTES < length payload
      then io_raise (ValueError (label @ '' postimage exceeds the bounded file-size limit''))
      else io_bind io_tick (\<lambda>t. io_bind io_fs (\<lambda>fs.
        io_bind (io_lift (ebind (open_contained_parent W fs t repo relative_path label) (\<lambda>(parent, filename).
                 open_contained_regular_file W fs t parent filename label))) (\<lambda>(path, _).
        write_descriptor W path payload))))"

section \<open>Promotion\<close>

text \<open>\<open>except OSError as exc: raise ValueError(...)\<close>.\<close>

definition is_os_error :: "authority_exn \<Rightarrow> bool" where
  "is_os_error e = (case e of PyExn (OSError _) \<Rightarrow> True | _ \<Rightarrow> False)"

fun authority_text :: "authority_exn \<Rightarrow> string" where
  "authority_text (PyExn e) = exn_text e"
| "authority_text (AuthorityStoreError m) = m"
| "authority_text (AuthorityConflictError m) = m"
| "authority_text (AuthorityNotFoundError m) = m"
| "authority_text (AuthorityStateError m) = m"

text \<open>\<open>os.open\<close> with \<open>O_CREAT | O_EXCL\<close>, \<open>os.replace\<close>, and \<open>os.unlink\<close> that passes over a missing file.\<close>

definition create_exclusive :: "ws_env \<Rightarrow> string \<Rightarrow> ('z, unit) io" where
  "create_exclusive W path =
     io_effect (\<lambda>t fs. case ws_fault W t of
        Some m \<Rightarrow> (Inl (OSError m), fs)
      | None \<Rightarrow>
          if fs_file fs path \<noteq> None \<or> fs_symlink fs path \<or> ws_dir W t path then (Inl (OSError path), fs)
          else (Inr (), set_file path (Some []) fs))"

definition os_replace :: "ws_env \<Rightarrow> string \<Rightarrow> string \<Rightarrow> ('z, unit) io" where
  "os_replace W source target =
     io_effect (\<lambda>t fs. case ws_fault W t of
        Some m \<Rightarrow> (Inl (OSError m), fs)
      | None \<Rightarrow> (case fs_file fs source of
            None \<Rightarrow> (Inl (OSError source), fs)
          | Some content \<Rightarrow> (Inr (), set_file source None (set_file target (Some content) fs))))"

definition staging_of :: "ws_env \<Rightarrow> string \<Rightarrow> string \<Rightarrow> string" where
  "staging_of W parent filename = path_join parent (''.'' @ filename @ ''.mesh-promote-'' @ int_str (int (ws_pid W)))"

definition reopened_digest :: "pyenv \<Rightarrow> ws_env \<Rightarrow> string \<Rightarrow> string \<Rightarrow> string \<Rightarrow> ('z, string) io" where
  "reopened_digest E W parent filename label =
     io_bind io_tick (\<lambda>t. io_bind io_fs (\<lambda>fs.
     io_bind (io_lift (open_contained_regular_file W fs t parent filename label)) (\<lambda>(_, content).
     io_return (bytes_digest E content))))"

definition staged_promotion :: "pyenv \<Rightarrow> ws_env \<Rightarrow> string \<Rightarrow> string \<Rightarrow> string \<Rightarrow> string \<Rightarrow> string \<Rightarrow> ('z, unit) io" where
  "staged_promotion E W parent filename expected_preimage updated_bytes expected_postimage =
     (let staging_name = ''.'' @ filename @ ''.mesh-promote-'' @ int_str (int (ws_pid W)); staging = staging_of W parent filename in
      io_bind (create_exclusive W staging) (\<lambda>_.
      io_bind (write_descriptor W staging updated_bytes) (\<lambda>_.
      io_bind (reopened_digest E W parent staging_name ''repo patch promotion staging file'') (\<lambda>staging_digest.
      io_bind (io_check (staging_digest = expected_postimage) ''repo patch promotion staging digest mismatch'') (\<lambda>_.
      io_bind (reopened_digest E W parent filename ''source target'') (\<lambda>current_digest.
      io_bind (io_check (current_digest = expected_preimage) ''source target changed immediately before promotion'') (\<lambda>_.
      io_bind (os_replace W staging (path_join parent filename)) (\<lambda>_.
      os_call W id))))))))"

definition promote_contained_regular_file ::
  "pyenv \<Rightarrow> ws_env \<Rightarrow> string \<Rightarrow> string \<Rightarrow> string \<Rightarrow> string \<Rightarrow> string \<Rightarrow> ('z, unit) io" where
  "promote_contained_regular_file E W repo relative_path expected_preimage updated_bytes expected_postimage =
     (if MAX_TARGET_FILE_BYTES < length updated_bytes
      then io_raise (ValueError ''source target postimage exceeds the bounded file-size limit'')
      else io_bind io_tick (\<lambda>t. io_bind io_fs (\<lambda>fs.
        io_bind (io_lift (open_contained_parent W fs t repo relative_path ''source target'')) (\<lambda>(parent, filename).
        io_bind (io_lift (open_contained_regular_file W fs t parent filename ''source target'')) (\<lambda>(_, source_bytes).
        io_bind (io_check (bytes_digest E source_bytes = expected_preimage)
                   ''source target changed immediately before promotion'') (\<lambda>_.
        io_finally
          (io_catch is_os_error
             (staged_promotion E W parent filename expected_preimage updated_bytes expected_postimage)
             (\<lambda>e. io_raise (ValueError (''repo patch atomic promotion failed: '' @ authority_text e))))
          (os_call W (set_file (staging_of W parent filename) None))))))))"

section \<open>A prepared patch\<close>

record PreparedPatchReceipt =
  rc_base_commit :: string
  rc_base_tree :: string
  rc_target_path :: string
  rc_target_preimage_digest :: string
  rc_target_postimage_digest :: string
  rc_authorized_diff_digest :: string
  rc_changed_paths :: "string list"
  rc_test_results :: "jobj list"
  rc_verifier_receipt :: "jobj option"

record PreparedRepoPatch =
  pp_source_repo :: string
  pp_workspace :: string
  pp_relative_target :: string
  pp_allowed_paths :: "string list"
  pp_base_commit :: string
  pp_base_tree :: string
  pp_target_preimage_digest :: string
  pp_original_bytes :: string
  pp_updated_bytes :: string
  pp_target_postimage_digest :: string
  pp_authorized_diff_digest :: string
  pp_test_results :: "jobj list"
  pp_verifier_receipt :: "jobj option"
  pp_changed_paths :: "string list"
  pp_verified :: bool
  pp_promoted :: bool
  pp_closed :: bool

definition prepared_init ::
  "pyenv \<Rightarrow> string \<Rightarrow> string \<Rightarrow> string \<Rightarrow> string list \<Rightarrow> string \<Rightarrow> string \<Rightarrow> string \<Rightarrow> string \<Rightarrow> string \<Rightarrow> PreparedRepoPatch" where
  "prepared_init E source workspace relative_target allowed commit tree preimage original updated =
     \<lparr>pp_source_repo = source, pp_workspace = workspace, pp_relative_target = relative_target, pp_allowed_paths = allowed,
      pp_base_commit = commit, pp_base_tree = tree, pp_target_preimage_digest = preimage,
      pp_original_bytes = original, pp_updated_bytes = updated, pp_target_postimage_digest = bytes_digest E updated,
      pp_authorized_diff_digest = bytes_digest E (original @ [CHR 0x00] @ updated), pp_test_results = [],
      pp_verifier_receipt = None, pp_changed_paths = [], pp_verified = False, pp_promoted = False, pp_closed = False\<rparr>"

definition prepared_receipt :: "PreparedRepoPatch \<Rightarrow> PreparedPatchReceipt" where
  "prepared_receipt p =
     \<lparr>rc_base_commit = pp_base_commit p, rc_base_tree = pp_base_tree p, rc_target_path = pp_relative_target p,
      rc_target_preimage_digest = pp_target_preimage_digest p, rc_target_postimage_digest = pp_target_postimage_digest p,
      rc_authorized_diff_digest = pp_authorized_diff_digest p, rc_changed_paths = pp_changed_paths p,
      rc_test_results = pp_test_results p, rc_verifier_receipt = pp_verifier_receipt p\<rparr>"

text \<open>The entries of \<open>git status -z\<close>: two status letters, a blank, the path.\<close>

fun status_paths :: "string list \<Rightarrow> py_exn + string list" where
  "status_paths [] = Inr []"
| "status_paths (entry # es) =
     (if length entry < 4 then Inl (ValueError ''repo patch workspace status entry is malformed'')
      else if list_ex (\<lambda>c. c \<in> {CHR ''R'', CHR ''C''}) (take 2 entry)
      then Inl (ValueError ''repo patch workspace renames and copies are not authorized'')
      else case utf8_decode (drop 3 entry) of
        None \<Rightarrow> Inl (ValueError ''UnicodeDecodeError'')
      | Some path \<Rightarrow> ebind (status_paths es) (\<lambda>ps. Inr (path # ps)))"

definition nul_entries :: "string \<Rightarrow> string list" where
  "nul_entries out = filter (\<lambda>e. e \<noteq> []) (split_on (CHR 0x00) out)"

definition changed_paths :: "ws_env \<Rightarrow> string \<Rightarrow> ('z, string list) io" where
  "changed_paths W workspace =
     io_bind (git_raw W workspace [''status'', ''--porcelain=v1'', ''-z'', ''--untracked-files=all'']) (\<lambda>(code, out, _).
     if code \<noteq> 0 then io_raise (ValueError ''repo patch workspace status inventory failed'')
     else io_bind (io_lift (status_paths (nul_entries out))) (\<lambda>ps. io_return (sort ps)))"

definition receipt_accepted :: "jobj \<Rightarrow> bool" where
  "receipt_accepted r \<longleftrightarrow>
     py_eq (pget r ''schema_version'') (JStr ''mesh.repo_patch_verifier_response.v2'')
   \<and> py_eq (pget r ''state_slice'') (JStr ''mesh.repo_patch_verifier_receipt.v2'')
   \<and> py_eq (pget r ''status'') (JStr ''succeeded'') \<and> is_obj (pget r ''authorization_proof'')"

definition accept_result :: "string list \<Rightarrow> jval \<Rightarrow> py_exn + jobj" where
  "accept_result arguments result =
     (if arguments = [] \<or> [] \<in> set arguments
      then Inl (ValueError ''repo patch verification command contains an empty argument'')
      else case result of
        JObj d \<Rightarrow>
          if \<not> py_eq (pget d ''argv'') (JList (map JStr arguments))
          then Inl (ValueError ''repo patch verifier result argv mismatch'')
          else if \<not> is_int (pget d ''returncode'') \<or> is_bool (pget d ''returncode'')
          then Inl (ValueError ''repo patch verifier result return code rejected'')
          else if \<not> text_matches sha256_text (pget d ''stdout_digest'') \<or> \<not> text_matches sha256_text (pget d ''stderr_digest'')
          then Inl (ValueError ''repo patch verifier result output digest rejected'')
          else if \<not> py_eq (pget d ''returncode'') (JInt 0)
          then Inl (ValueError ''repo patch verification command failed'')
          else Inr [(''argv'', JList (map JStr arguments)), (''returncode'', pget d ''returncode''),
                    (''stdout_digest'', pget d ''stdout_digest''), (''stderr_digest'', pget d ''stderr_digest'')]
      | _ \<Rightarrow> Inl (AttributeError ''get''))"

text \<open>The loop leaves the results it accepted before the one it rejects.\<close>

fun accept_loop :: "jobj list \<Rightarrow> (string list \<times> jval) list \<Rightarrow> (py_exn + unit) \<times> jobj list" where
  "accept_loop acc [] = (Inr (), acc)"
| "accept_loop acc ((command, result) # rest) =
     (case accept_result command result of Inl e \<Rightarrow> (Inl e, acc) | Inr r \<Rightarrow> accept_loop (acc @ [r]) rest)"

definition accept_verifier_results ::
  "pyenv \<Rightarrow> ws_env \<Rightarrow> string list list \<Rightarrow> jval list \<Rightarrow> jobj option \<Rightarrow> PreparedRepoPatch
    \<Rightarrow> ('z, (authority_exn + PreparedPatchReceipt) \<times> PreparedRepoPatch) io" where
  "accept_verifier_results E W commands results receipt p =
     (let refuse = (\<lambda>msg p'. io_return (Inl (PyExn (ValueError msg)), p')) in
      if pp_closed p then refuse ''repo patch workspace is closed'' p
      else if pp_verified p then refuse ''repo patch workspace was already verified'' p
      else if length commands \<noteq> length results then refuse ''repo patch verifier result count mismatch'' p
      else if (case receipt of None \<Rightarrow> False | Some r \<Rightarrow> \<not> receipt_accepted r)
      then refuse ''repo patch verifier receipt binding rejected'' p
      else (case accept_loop (pp_test_results p) (zip commands results) of
        (Inl e, acc) \<Rightarrow> io_return (Inl (PyExn e), p\<lparr>pp_test_results := acc\<rparr>)
      | (Inr _, acc) \<Rightarrow>
          io_bind (io_attempt (changed_paths W (pp_workspace p))) (\<lambda>found.
          case found of
            Inl e \<Rightarrow> io_return (Inl e, p\<lparr>pp_test_results := acc\<rparr>)
          | Inr paths \<Rightarrow>
              (let p' = p\<lparr>pp_test_results := acc, pp_changed_paths := paths\<rparr>;
                   undeclared = sorted_set (filter (\<lambda>q. q \<notin> set (pp_allowed_paths p)) paths) in
               if undeclared \<noteq> []
               then refuse (''repo patch verification produced undeclared changes: '' @ py_repr (jstrs undeclared)) p'
               else if paths \<noteq> [pp_relative_target p]
               then refuse ''repo patch verification did not produce exactly the authorized target change'' p'
               else io_bind (io_attempt (contained_file_digest E W (pp_workspace p) (pp_relative_target p) ''workspace target''))
                 (\<lambda>digest. case digest of
                    Inl e \<Rightarrow> io_return (Inl e, p')
                  | Inr d \<Rightarrow>
                      if d \<noteq> pp_target_postimage_digest p
                      then refuse ''repo patch workspace postimage drifted from the authorized bytes'' p'
                      else let p'' = p'\<lparr>pp_verifier_receipt := receipt, pp_verified := True\<rparr> in
                        io_return (Inr (prepared_receipt p''), p''))))))"

text \<open>The checks of \<open>promote\<close> before it touches the file.\<close>

definition promotion_checks :: "pyenv \<Rightarrow> ws_env \<Rightarrow> PreparedRepoPatch \<Rightarrow> ('z, unit) io" where
  "promotion_checks E W p =
     io_bind (io_check (\<not> pp_closed p) ''repo patch workspace is closed'') (\<lambda>_.
     io_bind (io_check (pp_verified p) ''repo patch workspace must verify before promotion'') (\<lambda>_.
     io_bind (io_check (\<not> pp_promoted p) ''repo patch workspace was already promoted'') (\<lambda>_.
     io_bind (run_git W (pp_source_repo p) [''rev-parse'', ''HEAD'']) (\<lambda>head.
     io_bind (io_check (head = pp_base_commit p) ''source repository HEAD changed after preparation'') (\<lambda>_.
     io_bind (run_git W (pp_source_repo p) [''rev-parse'', ''HEAD^{tree}'']) (\<lambda>tree.
     io_bind (io_check (tree = pp_base_tree p) ''source repository tree changed after preparation'') (\<lambda>_.
     io_bind (contained_file_digest E W (pp_source_repo p) (pp_relative_target p) ''source target'') (\<lambda>digest.
     io_bind (io_check (digest = pp_target_preimage_digest p) ''source target preimage changed after preparation'') (\<lambda>_.
     io_bind (run_git W (pp_source_repo p) [''status'', ''--porcelain=v1'', ''--untracked-files=all'']) (\<lambda>status.
     io_check (status = []) ''source repository became dirty after preparation''))))))))))"

definition promote :: "pyenv \<Rightarrow> ws_env \<Rightarrow> PreparedRepoPatch \<Rightarrow> ('z, (authority_exn + PreparedPatchReceipt) \<times> PreparedRepoPatch) io" where
  "promote E W p =
     io_bind (io_attempt
       (io_bind (promotion_checks E W p) (\<lambda>_.
        promote_contained_regular_file E W (pp_source_repo p) (pp_relative_target p) (pp_target_preimage_digest p)
          (pp_updated_bytes p) (pp_target_postimage_digest p)))) (\<lambda>r.
     case r of
       Inl e \<Rightarrow> io_return (Inl e, p)
     | Inr _ \<Rightarrow> (let p' = p\<lparr>pp_promoted := True\<rparr> in io_return (Inr (prepared_receipt p'), p')))"

definition remove_tree :: "string \<Rightarrow> fsys \<Rightarrow> fsys" where
  "remove_tree dir fs = fs\<lparr>fs_file := (\<lambda>path. if under dir path then None else fs_file fs path)\<rparr>"

text \<open>\<open>git worktree remove --force\<close> when it succeeds, \<open>shutil.rmtree\<close> of what is left, \<open>git worktree prune\<close>.\<close>

definition worktree_remove :: "ws_env \<Rightarrow> string \<Rightarrow> string \<Rightarrow> ('z, unit) io" where
  "worktree_remove W source workspace =
     io_effect (\<lambda>t fs. case ws_git W t source [''worktree'', ''remove'', ''--force'', workspace] of
        Inl e \<Rightarrow> (Inl e, fs)
      | Inr (code, _) \<Rightarrow> (Inr (), if code = 0 then remove_tree workspace fs else fs))"

definition exists_path :: "ws_env \<Rightarrow> nat \<Rightarrow> fsys \<Rightarrow> string \<Rightarrow> bool" where
  "exists_path W t fs path \<longleftrightarrow> ws_dir W t path \<or> fs_file fs path \<noteq> None"

definition rmtree_left :: "ws_env \<Rightarrow> string \<Rightarrow> ('z, unit) io" where
  "rmtree_left W workspace =
     io_bind io_tick (\<lambda>t. io_bind io_fs (\<lambda>fs.
     if exists_path W t fs workspace then os_call W (remove_tree workspace) else io_return ()))"

definition close_prepared :: "ws_env \<Rightarrow> PreparedRepoPatch \<Rightarrow> ('z, PreparedRepoPatch) io" where
  "close_prepared W p =
     (if pp_closed p then io_return p
      else io_bind (io_finally (worktree_remove W (pp_source_repo p) (pp_workspace p))
        (io_bind (rmtree_left W (pp_workspace p)) (\<lambda>_.
         io_bind (git_raw W (pp_source_repo p) [''worktree'', ''prune'']) (\<lambda>_. io_return ())))) (\<lambda>_.
      io_return (p\<lparr>pp_closed := True\<rparr>)))"

section \<open>The workspace manager\<close>

fun split_once :: "char \<Rightarrow> string \<Rightarrow> (string \<times> string) option" where
  "split_once sep [] = None"
| "split_once sep (c # s) = (if c = sep then Some ([], s) else map_option (\<lambda>(a, b). (c # a, b)) (split_once sep s))"

definition index_entry :: "string \<Rightarrow> (string \<times> string \<times> string \<times> string) option" where
  "index_entry entry =
     (case split_once (CHR 0x09) entry of
        None \<Rightarrow> None
      | Some (metadata, path) \<Rightarrow>
          (case split_once (CHR '' '') metadata of
             None \<Rightarrow> None
           | Some (mode, rest) \<Rightarrow>
               (case split_once (CHR '' '') rest of
                  None \<Rightarrow> None
                | Some (object_id, stage) \<Rightarrow> Some (mode, object_id, stage, path))))"

definition validate_git_index_regular_blob :: "ws_env \<Rightarrow> string \<Rightarrow> string \<Rightarrow> string \<Rightarrow> ('z, unit) io" where
  "validate_git_index_regular_blob W repo relative_path label =
     io_bind (git_raw W repo [''ls-files'', ''--stage'', ''-z'', ''--'', relative_path]) (\<lambda>(code, out, _).
     if code \<noteq> 0 then io_raise (ValueError (label @ '' Git index lookup failed''))
     else case nul_entries out of
       [entry] \<Rightarrow>
         (case index_entry entry of
            None \<Rightarrow> io_raise (ValueError (label @ '' Git index entry is malformed''))
          | Some (mode, object_id, stage, path) \<Rightarrow>
              (case utf8_decode path of
                 None \<Rightarrow> io_raise (ValueError ''UnicodeDecodeError'')
               | Some indexed_path \<Rightarrow>
                   if indexed_path \<noteq> relative_path then io_raise (ValueError (label @ '' Git index path mismatch''))
                   else io_check (mode \<in> {''100644'', ''100755''} \<and> stage = ''0'')
                          (label @ '' must be a stage-zero Git-indexed regular blob'')))
     | _ \<Rightarrow> io_raise (ValueError (label @ '' must be exactly one Git-indexed regular blob'')))"

definition worktree_add :: "ws_env \<Rightarrow> string \<Rightarrow> string \<Rightarrow> string \<Rightarrow> ('z, unit) io" where
  "worktree_add W source workspace commit =
     io_effect (\<lambda>t fs.
       let fs' = fs\<lparr>fs_file := (\<lambda>path. if under workspace path then ws_checkout W t workspace path else fs_file fs path)\<rparr> in
       case ws_git W t source [''worktree'', ''add'', ''--detach'', workspace, commit] of
        Inl e \<Rightarrow> (Inl e, fs')
      | Inr (code, out, err) \<Rightarrow>
          (if code \<noteq> 0 then (Inl (ValueError (first_text [py_strip err, ''repo patch worktree creation failed''])), fs')
           else (Inr (), fs')))"

text \<open>The checks before the worktree is made: the source repository, the target and its two texts.\<close>

definition prepare_source :: "ws_env \<Rightarrow> string \<Rightarrow> string \<Rightarrow> ('z, string) io" where
  "prepare_source W workspace_root repo_path =
     io_bind io_fs (\<lambda>fs.
     io_bind (io_check (path_is_absolute repo_path \<and> \<not> fs_symlink fs (path_str repo_path))
                ''source repository must be an absolute non-symlink path'') (\<lambda>_.
     let source = fs_resolve fs (path_str repo_path) in
     io_bind (run_git W source [''rev-parse'', ''--show-toplevel'']) (\<lambda>top.
     io_bind (io_check (top = source) ''source repository path must be the Git worktree root'') (\<lambda>_.
     io_bind (run_git W source [''status'', ''--porcelain=v1'', ''--untracked-files=all'']) (\<lambda>status.
     io_bind (io_check (status = []) ''source repository must be clean before preparation'') (\<lambda>_.
     io_bind (io_check (path_relative_to workspace_root source = None)
                ''repo patch workspace root must be outside the source repository'') (\<lambda>_.
     io_bind (io_check (\<not> fs_symlink fs workspace_root) ''repo patch workspace root must not be a symlink'') (\<lambda>_.
     io_return source))))))))"

definition prepare_images :: "ws_env \<Rightarrow> string \<Rightarrow> string \<Rightarrow> string list \<Rightarrow> string \<Rightarrow> string \<Rightarrow> ('z, string \<times> string) io" where
  "prepare_images W source target_file allowed find_text replace_text =
     io_bind (io_check (\<not> path_is_absolute target_file \<and> ''..'' \<notin> set (path_parts target_file)
                \<and> path_str target_file \<notin> {[], ''.''} \<and> path_str target_file = target_file)
                ''repo patch target must be a portable relative path'') (\<lambda>_.
     io_bind (io_check (path_str target_file \<in> set allowed) ''repo patch target falls outside allowed patch scope'') (\<lambda>_.
     io_bind (validate_git_index_regular_blob W source target_file ''source target'') (\<lambda>_.
     io_bind (read_contained_regular_file W source target_file ''source target'') (\<lambda>original.
     case utf8_points original of
       None \<Rightarrow> io_raise (ValueError ''repo patch target must be UTF-8 text'')
     | Some original_text \<Rightarrow>
         io_bind (io_check (occurs (text_points find_text) original_text) ''repo patch anchor not found in source target'') (\<lambda>_.
         io_return (original, utf8_bytes (replace_first (text_points find_text) (text_points replace_text) original_text)))))))"

text \<open>Between the worktree and the prepared patch; an exception removes the worktree again.\<close>

definition prepare_workspace :: "pyenv \<Rightarrow> ws_env \<Rightarrow> string \<Rightarrow> string \<Rightarrow> string \<Rightarrow> string \<Rightarrow> string \<Rightarrow> ('z, unit) io" where
  "prepare_workspace E W source workspace target_file original updated =
     io_catch (\<lambda>_. True)
       (io_bind (validate_git_index_regular_blob W workspace target_file ''workspace target'') (\<lambda>_.
        io_bind (contained_file_digest E W workspace target_file ''workspace target'') (\<lambda>digest.
        io_bind (io_check (digest = bytes_digest E original)
                   ''repo patch worktree target does not match the authorized preimage'') (\<lambda>_.
        write_contained_regular_file W workspace target_file updated ''workspace target''))))
       (\<lambda>e. io_bind (worktree_remove W source workspace) (\<lambda>_.
            io_bind (rmtree_left W workspace) (\<lambda>_. (\<lambda>w. (Raised e, w)))))"

definition prepare ::
  "pyenv \<Rightarrow> ws_env \<Rightarrow> string \<Rightarrow> string \<Rightarrow> string \<Rightarrow> string list \<Rightarrow> string \<Rightarrow> string \<Rightarrow> string \<Rightarrow> ('z, PreparedRepoPatch) io" where
  "prepare E W workspace_root repo_path target_file allowed_paths find_text replace_text workspace_id =
     io_bind (prepare_source W workspace_root repo_path) (\<lambda>source.
     let allowed = map path_str allowed_paths in
     io_bind (prepare_images W source target_file allowed find_text replace_text) (\<lambda>(original, updated).
     io_bind (run_git W source [''rev-parse'', ''HEAD'']) (\<lambda>base_commit.
     io_bind (run_git W source [''rev-parse'', ''HEAD^{tree}'']) (\<lambda>base_tree.
     let workspace = path_join workspace_root (workspace_id_for E workspace_id) in
     io_bind io_tick (\<lambda>t. io_bind io_fs (\<lambda>fs.
     io_bind (io_check (\<not> exists_path W t fs workspace \<and> \<not> fs_symlink fs workspace) ''repo patch workspace already exists'') (\<lambda>_.
     io_bind (os_call W id) (\<lambda>_.
     io_bind (worktree_add W source workspace base_commit) (\<lambda>_.
     io_bind (prepare_workspace E W source workspace target_file original updated) (\<lambda>_.
     io_return (prepared_init E source workspace target_file allowed base_commit base_tree
       (bytes_digest E original) original updated)))))))))))"

end
