(* ===== verification/Patch_Workspace_Props.thy ===== *)
theory Patch_Workspace_Props
  imports Patch_Workspace
begin

text \<open>
  The promotion of a prepared patch is atomic: at every crash point and whatever operation fails, the target holds its old
  bytes or the authorised ones and no other file but the staging file differs; and it happens only for a verified patch
  whose preimage is still in place.
\<close>

section \<open>Programs that touch few files\<close>

definition only_at :: "string set \<Rightarrow> 'z machine_scheme \<Rightarrow> 'z machine_scheme \<Rightarrow> bool" where
  "only_at A w w' \<longleftrightarrow> fs_resolve (m_fs w') = fs_resolve (m_fs w) \<and> fs_symlink (m_fs w') = fs_symlink (m_fs w)
     \<and> (\<forall>q. q \<notin> A \<longrightarrow> fs_file (m_fs w') q = fs_file (m_fs w) q)"

lemma only_at_refl [simp]: "reflp (only_at A)" "only_at A w w"
  by (auto simp: reflp_def only_at_def)

lemma only_at_trans [simp]: "transp (only_at A)"
  by (auto simp: transp_def only_at_def)

lemma only_at_mono: "only_at A w w' \<Longrightarrow> A \<subseteq> B \<Longrightarrow> only_at B w w'"
  by (auto simp: only_at_def)

lemma only_at_file: "only_at A w w' \<Longrightarrow> q \<notin> A \<Longrightarrow> fs_file (m_fs w') q = fs_file (m_fs w) q"
  by (simp add: only_at_def)

lemma keeps_only_tick [keeps]: "io_keeps (only_at A) io_tick"
  by (simp add: io_keeps_def only_at_def)

lemma keeps_only_effect:
  assumes "\<And>t fs. fs_resolve (snd (f t fs)) = fs_resolve fs \<and> fs_symlink (snd (f t fs)) = fs_symlink fs
    \<and> (\<forall>q. q \<notin> A \<longrightarrow> fs_file (snd (f t fs)) q = fs_file fs q)"
  shows "io_keeps (only_at A) (io_effect f)"
  unfolding io_keeps_def
proof
  fix w
  show "only_at A w (snd (io_effect f w))"
    using assms [of "m_tick w" "m_fs w"]
    by (cases "f (m_tick w) (m_fs w)"; cases "fst (f (m_tick w) (m_fs w))") (auto simp: io_effect_def only_at_def)
qed

lemma set_file_simps [simp]:
  "fs_resolve (set_file p c fs) = fs_resolve fs" "fs_symlink (set_file p c fs) = fs_symlink fs"
  "fs_file (set_file p c fs) q = (if q = p then c else fs_file fs q)"
  by (simp_all add: set_file_def)

lemma append_file_simps [simp]:
  "fs_resolve (append_file fs p b) = fs_resolve fs" "fs_symlink (append_file fs p b) = fs_symlink fs"
  "fs_file (append_file fs p b) q = (if q = p then Some ((case fs_file fs p of None \<Rightarrow> [] | Some c \<Rightarrow> c) @ b) else fs_file fs q)"
  by (simp_all add: append_file_def)

lemma keeps_os_call [keeps]: "(\<And>fs. fs_resolve (f fs) = fs_resolve fs \<and> fs_symlink (f fs) = fs_symlink fs
    \<and> (\<forall>q. q \<notin> A \<longrightarrow> fs_file (f fs) q = fs_file fs q)) \<Longrightarrow> io_keeps (only_at A) (os_call W f)"
  unfolding os_call_def by (rule keeps_only_effect) (simp split: option.split)

lemma keeps_os_write: "path \<in> A \<Longrightarrow> io_keeps (only_at A) (os_write W path view)"
  unfolding os_write_def by (rule keeps_only_effect) (auto simp: Let_def split: option.split)

lemma keeps_create_exclusive: "path \<in> A \<Longrightarrow> io_keeps (only_at A) (create_exclusive W path)"
  unfolding create_exclusive_def by (rule keeps_only_effect) (auto split: option.split)

lemma keeps_os_replace: "a \<in> A \<Longrightarrow> b \<in> A \<Longrightarrow> io_keeps (only_at A) (os_replace W a b)"
  unfolding os_replace_def by (rule keeps_only_effect) (auto split: option.split)

lemma os_write_Done:
  assumes "os_write W path view w = (Done n, w')"
  shows "n \<le> length view \<and> fs_file (m_fs w') path = Some ((case fs_file (m_fs w) path of None \<Rightarrow> [] | Some c \<Rightarrow> c) @ take n view)"
  using assms by (auto simp: os_write_def io_effect_def Let_def split: if_splits option.splits prod.splits)

lemma write_loop_spec:
  "path \<in> A \<Longrightarrow> write_loop W path view w = (r, w') \<Longrightarrow> only_at A w w'
    \<and> (\<forall>c. r = Done () \<longrightarrow> fs_file (m_fs w) path = Some c \<longrightarrow> fs_file (m_fs w') path = Some (c @ view))"
proof (induction W path view w arbitrary: r w' rule: write_loop.induct)
  case (1 W path view w)
  show ?case
  proof (cases "view = []")
    case True
    then show ?thesis using 1(3) by (simp add: write_loop.simps)
  next
    case False
    obtain r1 w1 where s: "os_write W path view w = (r1, w1)" by fastforce
    have k: "only_at A w w1" using io_keepsD [OF keeps_os_write [OF 1(2)] s] .
    show ?thesis
    proof (cases r1)
      case (Done n)
      then show ?thesis
      proof (cases "n = 0")
        case True
        then show ?thesis using 1(3) False s Done k by (auto simp: write_loop.simps [of W path view w])
      next
        case n: False
        have l: "write_loop W path (drop n view) w1 = (r, w')"
          using 1(3) False s Done n by (simp add: write_loop.simps [of W path view w])
        note ih = 1(1) [OF False s [symmetric] _ n 1(2) l]
        have "only_at A w1 w'" "\<forall>c. r = Done () \<longrightarrow> fs_file (m_fs w1) path = Some c \<longrightarrow> fs_file (m_fs w') path = Some (c @ drop n view)"
          using ih Done by auto
        then show ?thesis using os_write_Done [of W path view w n w1] s Done k transpD [OF only_at_trans]
          by (metis append.assoc append_take_drop_id option.simps(5))
      qed
    qed (use 1(3) False s k in \<open>auto simp: write_loop.simps [of W path view w]\<close>)
  qed
qed

lemma keeps_write_loop: "path \<in> A \<Longrightarrow> io_keeps (only_at A) (write_loop W path view)"
  unfolding io_keeps_def using write_loop_spec [of path A] by (metis prod.collapse)

lemma keeps_write_descriptor: "path \<in> A \<Longrightarrow> io_keeps (only_at A) (write_descriptor W path payload)"
  unfolding write_descriptor_def by (intro keeps keeps_write_loop) auto

lemma os_call_Done: "os_call W f w = (Done (), w') \<Longrightarrow> m_fs w' = f (m_fs w)"
  by (auto simp: os_call_def io_effect_def split: if_splits option.splits)

lemma write_descriptor_Done:
  assumes "write_descriptor W path payload w = (Done (), w')"
  shows "fs_file (m_fs w') path = Some payload"
proof -
  obtain w1 w2 where "os_call W (set_file path (Some [])) w = (Done (), w1)" "write_loop W path payload w1 = (Done (), w2)"
      "os_call W id w2 = (Done (), w')"
    using assms by (auto simp: write_descriptor_def io_bind_Done)
  then show ?thesis using write_loop_spec [of path "{path}" W payload w1 "Done ()" w2] by (auto dest!: os_call_Done)
qed

lemma reopened_digest_same: "reopened_digest E W parent filename label w = (r, w') \<Longrightarrow> m_fs w' = m_fs w"
  by (auto simp: reopened_digest_def io_bind_def io_lift_def split: sum.splits prod.splits outcome.splits)

lemma keeps_reopened [keeps]: "io_keeps (only_at A) (reopened_digest E W parent filename label)"
  unfolding reopened_digest_def by (intro keeps) (auto simp: keeps_return split: prod.split)

section \<open>Paths\<close>

lemma path_part:
  assumes "c \<in> set (path_parts s)"
  shows "path_parts c = [c]" "path_root c = []" "c \<noteq> []" "CHR ''/'' \<notin> set c"
proof -
  show c: "c \<noteq> []" "CHR ''/'' \<notin> set c" and "path_parts c = [c]"
    using assms split_on_no_sep [of c "CHR ''/''" s] by (auto simp: path_parts_def split_on_plain)
  then show "path_root c = []" by (cases c) (auto simp: path_root_def)
qed

lemma plain_part:
  assumes "c \<noteq> []" and "c \<noteq> ''.''" and "CHR ''/'' \<notin> set c"
  shows "path_parts c = [c]" "path_root c = []"
proof -
  show "path_parts c = [c]" using assms by (simp add: path_parts_def split_on_plain)
  show "path_root c = []" using assms by (cases c) (auto simp: path_root_def)
qed

definition plain_parts :: "string list \<Rightarrow> bool" where
  "plain_parts ps \<longleftrightarrow> (\<forall>p \<in> set ps. p \<noteq> [] \<and> p \<noteq> ''.'' \<and> CHR ''/'' \<notin> set p)"

lemma plain_parts_path [simp]: "plain_parts (path_parts s)"
  unfolding plain_parts_def
proof
  fix p assume "p \<in> set (path_parts s)"
  then show "p \<noteq> [] \<and> p \<noteq> ''.'' \<and> CHR ''/'' \<notin> set p"
    using path_part(3,4) [of p s] by (simp add: path_parts_def)
qed

lemma path_root_cases: "path_root s \<in> {[], ''/'', ''//''}"
  by (simp add: path_root_def)

lemma join_no_slash: "plain_parts ps \<Longrightarrow> \<exists>c s. join_str ''/'' ps = c # s \<and> c \<noteq> CHR ''/'' \<or> ps = []"
  by (cases ps rule: list.exhaust; cases "tl ps"; cases "hd ps") (auto simp: plain_parts_def)

lemma path_str_of_inverse:
  assumes "rt \<in> {[], ''/'', ''//''}" and "plain_parts ps"
  shows "path_root (path_str_of rt ps) = rt" "path_parts (path_str_of rt ps) = ps"
proof -
  let ?j = "join_str ''/'' ps"
  have j: "ps = [] \<or> (\<exists>c s. ?j = c # s \<and> c \<noteq> CHR ''/'')" using join_no_slash [OF assms(2)] by blast
  then show "path_root (path_str_of rt ps) = rt"
    using assms(1) by (cases "ps = []") (auto simp: path_str_of_def path_root_def)
  have split: "ps \<noteq> [] \<Longrightarrow> split_on (CHR ''/'') ?j = ps"
    using split_on_join [of ps "CHR ''/''"] assms(2) by (auto simp: plain_parts_def)
  have "filter (\<lambda>p. p \<noteq> [] \<and> p \<noteq> ''.'') ps = ps" using assms(2) by (simp add: plain_parts_def filter_id_conv)
  then show "path_parts (path_str_of rt ps) = ps"
    using assms(1) split by (cases "ps = []") (auto simp: path_str_of_def path_parts_def)
qed

lemma path_join_plain:
  assumes "plain_parts [c]"
  shows "path_join a c = path_str_of (path_root a) (path_parts a @ [c])"
  using assms plain_part [of c] by (simp add: path_join_def path_is_absolute_def plain_parts_def)

lemma path_join_parts:
  assumes "plain_parts [c]"
  shows "path_root (path_join a c) = path_root a" "path_parts (path_join a c) = path_parts a @ [c]"
proof -
  have "plain_parts (path_parts a @ [c])" using plain_parts_path [of a] assms by (simp add: plain_parts_def)
  from path_str_of_inverse [OF path_root_cases this]
  show "path_root (path_join a c) = path_root a" "path_parts (path_join a c) = path_parts a @ [c]"
    by (simp_all add: path_join_plain [OF assms])
qed

lemma open_parents_path:
  "open_parents W fs t label current cs = Inr parent \<Longrightarrow> plain_parts cs \<Longrightarrow>
    path_root parent = path_root current \<and> path_parts parent = path_parts current @ cs"
proof (induction W fs t label current cs rule: open_parents.induct)
  case (2 W fs t label current c cs)
  then have p: "plain_parts [c]" "plain_parts cs" by (simp_all add: plain_parts_def)
  from 2 p show ?case using path_join_parts [OF p(1), of current] by (auto simp: Let_def split: if_splits)
qed simp

text \<open>Opening a relative target under a repository reaches the joined path and no other; the way there has no link.\<close>

lemma open_contained_path:
  assumes "open_contained_parent W fs t repo rel label = Inr (parent, filename)" and "path_root rel = []"
  shows "path_join parent filename = path_join repo rel \<and> plain_parts [filename] \<and> filename = last (path_parts rel)
    \<and> parent = foldl path_join repo (butlast (path_parts rel))"
proof -
  have p: "path_parts rel \<noteq> []" "open_parents W fs t label repo (butlast (path_parts rel)) = Inr parent"
      "filename = last (path_parts rel)"
    using assms by (auto simp: open_contained_parent_def Let_def path_part filter_id_conv path_part(3) split: if_splits)
  have "set (butlast (path_parts rel)) \<subseteq> set (path_parts rel)" by (auto dest: in_set_butlastD)
  then have pl: "plain_parts [filename]" "plain_parts (butlast (path_parts rel))"
    using plain_parts_path [of rel] p(1,3) by (auto simp: plain_parts_def)
  have "open_parents W fs t label cur cs = Inr q \<Longrightarrow> q = foldl path_join cur cs" for cur cs q
    by (induction W fs t label cur cs rule: open_parents.induct) (auto simp: Let_def split: if_splits)
  moreover have "path_join parent filename = path_str_of (path_root repo) (path_parts repo @ path_parts rel)"
    using open_parents_path [OF p(2) pl(2)] p(1,3) path_join_plain [OF pl(1), of parent] by simp
  ultimately show ?thesis using p pl assms(2) by (simp add: path_join_def [of repo] path_is_absolute_def)
qed

section \<open>Promotion\<close>

lemma staging_differs:
  assumes "plain_parts [filename]"
  shows "staging_of W parent filename \<noteq> path_join parent filename"
proof -
  let ?n = "''.'' @ filename @ ''.mesh-promote-'' @ int_str (int (ws_pid W))"
  have "list_all is_digit (int_str (int (ws_pid W)))" using pos_str_digits [of "int (ws_pid W)"] by (simp add: int_str_def)
  moreover have "\<not> is_digit (CHR ''/'')" by code_simp
  ultimately have "CHR ''/'' \<notin> set (int_str (int (ws_pid W)))" by (auto simp: list_all_iff)
  with assms have "plain_parts [?n]" by (simp add: plain_parts_def)
  then have "path_parts (staging_of W parent filename) = path_parts parent @ [?n]"
    by (simp only: staging_of_def path_join_parts)
  moreover have "path_parts (path_join parent filename) = path_parts parent @ [filename]" using path_join_parts [OF assms] by simp
  moreover have "length ?n \<noteq> length filename" by simp
  ultimately show ?thesis by (metis last_snoc)
qed

lemma os_replace_spec:
  assumes "os_replace W a b w = (r, w')" and "fs_file (m_fs w) a = Some content" and "a \<noteq> b"
  shows "fs_file (m_fs w') b \<in> {fs_file (m_fs w) b, Some content} \<and> (r = Done () \<longrightarrow> fs_file (m_fs w') b = Some content)"
  using assms by (auto simp: os_replace_def io_effect_def split: if_splits option.splits)

text \<open>
  What a promotion may do to the files: \<open>tgt\<close> holds its old bytes or the new ones, and the new ones only if the old
  had the authorised digest.
\<close>

definition promoted_or_not :: "pyenv \<Rightarrow> string \<Rightarrow> string \<Rightarrow> string \<Rightarrow> string \<Rightarrow> 'z machine_scheme \<Rightarrow> 'z machine_scheme \<Rightarrow> bool" where
  "promoted_or_not E stg tgt pre updated w w' \<longleftrightarrow> only_at {stg, tgt} w w'
     \<and> (fs_file (m_fs w') tgt = fs_file (m_fs w) tgt \<or> fs_file (m_fs w') tgt = Some updated
          \<and> (\<exists>old. fs_file (m_fs w) tgt = Some old \<and> bytes_digest E old = pre))"

lemma untouched_target:
  "only_at {stg} w w' \<Longrightarrow> stg \<noteq> tgt \<Longrightarrow> promoted_or_not E stg tgt pre updated w w'"
  by (auto simp: promoted_or_not_def only_at_def)

lemma promoted_then_same:
  "promoted_or_not E stg tgt pre updated w w1 \<Longrightarrow> only_at {stg} w1 w2 \<Longrightarrow> stg \<noteq> tgt \<Longrightarrow>
    promoted_or_not E stg tgt pre updated w w2"
  by (auto simp: promoted_or_not_def only_at_def)

lemma same_then_promoted:
  "only_at {stg} w w1 \<Longrightarrow> promoted_or_not E stg tgt pre updated w1 w2 \<Longrightarrow> stg \<noteq> tgt \<Longrightarrow>
    promoted_or_not E stg tgt pre updated w w2"
  by (auto simp: promoted_or_not_def only_at_def)

text \<open>Up to the replacement only the staging file changes, and then it holds the new bytes.\<close>

definition staged_until :: "pyenv \<Rightarrow> ws_env \<Rightarrow> string \<Rightarrow> string \<Rightarrow> string \<Rightarrow> string \<Rightarrow> string \<Rightarrow> ('z, unit) io" where
  "staged_until E W parent filename pre updated post =
     (let staging_name = ''.'' @ filename @ ''.mesh-promote-'' @ int_str (int (ws_pid W)); staging = staging_of W parent filename in
      io_bind (create_exclusive W staging) (\<lambda>_.
      io_bind (write_descriptor W staging updated) (\<lambda>_.
      io_bind (reopened_digest E W parent staging_name ''repo patch promotion staging file'') (\<lambda>staging_digest.
      io_bind (io_check (staging_digest = post) ''repo patch promotion staging digest mismatch'') (\<lambda>_.
      io_bind (reopened_digest E W parent filename ''source target'') (\<lambda>current_digest.
      io_check (current_digest = pre) ''source target changed immediately before promotion''))))))"

lemma staged_promotion_alt:
  "staged_promotion E W parent filename pre updated post =
     io_bind (staged_until E W parent filename pre updated post) (\<lambda>_.
     io_bind (os_replace W (staging_of W parent filename) (path_join parent filename)) (\<lambda>_. os_call W id))"
  by (simp only: staged_promotion_def staged_until_def Let_def io_bind_assoc)

lemma keeps_staged_until: "io_keeps (only_at {staging_of W parent filename}) (staged_until E W parent filename pre updated post)"
  unfolding staged_until_def Let_def by (intro keeps keeps_create_exclusive keeps_write_descriptor) simp_all

lemma reopened_digest_Done:
  assumes "reopened_digest E W parent filename label w = (Done d, w')"
  shows "\<exists>content. fs_file (m_fs w) (path_join parent filename) = Some content \<and> d = bytes_digest E content"
  using assms by (auto simp: reopened_digest_def io_bind_Done io_lift_def open_contained_regular_file_def Let_def
    split: sum.splits if_splits option.splits)

lemma staged_until_Done:
  assumes "staged_until E W parent filename pre updated post w = (Done (), w')"
  shows "fs_file (m_fs w') (staging_of W parent filename) = Some updated \<and> bytes_digest E updated = post
    \<and> (\<exists>old. fs_file (m_fs w') (path_join parent filename) = Some old \<and> bytes_digest E old = pre)"
proof -
  let ?s = "staging_of W parent filename" and ?n = "''.'' @ filename @ ''.mesh-promote-'' @ int_str (int (ws_pid W))"
  obtain w1 w2 w3 w4 w5 where w: "write_descriptor W ?s updated w1 = (Done (), w2)"
      "reopened_digest E W parent ?n ''repo patch promotion staging file'' w2 = (Done post, w3)"
      "reopened_digest E W parent filename ''source target'' w3 = (Done pre, w')"
    using assms unfolding staged_until_def Let_def by (auto simp: io_bind_Done)
  have s: "fs_file (m_fs w2) ?s = Some updated" using write_descriptor_Done [OF w(1)] .
  have same: "m_fs w3 = m_fs w2" "m_fs w' = m_fs w3" using reopened_digest_same w(2,3) by blast+
  have "bytes_digest E updated = post" using reopened_digest_Done [OF w(2)] s by (auto simp: staging_of_def)
  then show ?thesis using reopened_digest_Done [OF w(3)] s same by auto
qed

lemma staged_promotion_spec:
  assumes "staged_promotion E W parent filename pre updated post w = (r, w')" and "plain_parts [filename]"
  shows "promoted_or_not E (staging_of W parent filename) (path_join parent filename) pre updated w w'
    \<and> (r = Done () \<longrightarrow> fs_file (m_fs w') (path_join parent filename) = Some updated)"
proof -
  let ?s = "staging_of W parent filename" and ?t = "path_join parent filename"
  note ne = staging_differs [OF assms(2), of W parent]
  from assms(1) show ?thesis unfolding staged_promotion_alt
  proof (cases rule: io_bind_cases)
    case (returned x w1)
    then have u: "fs_file (m_fs w1) ?s = Some updated" "\<exists>old. fs_file (m_fs w1) ?t = Some old \<and> bytes_digest E old = pre"
      and k: "only_at {?s} w w1" using staged_until_Done io_keepsD [OF keeps_staged_until] by (cases x, blast)+
    from returned(2) obtain r1 w2 where rep: "os_replace W ?s ?t w1 = (r1, w2)"
      and rest: "only_at {?s} w2 w'" "r = Done () \<longrightarrow> r1 = Done ()"
    proof (cases rule: io_bind_cases)
      case (returned y w2)
      have "io_keeps (only_at {?s}) (os_call W id)" by (intro keeps) simp
      then show thesis using returned that [of "Done y" w2] by (auto dest: io_keepsD)
    qed (use that in auto)
    have "only_at {?s, ?t} w1 w2" by (rule io_keepsD [OF keeps_os_replace rep]) auto
    moreover note os_replace_spec [OF rep u(1) ne]
    ultimately have "promoted_or_not E ?s ?t pre updated w1 w2" "r1 = Done () \<longrightarrow> fs_file (m_fs w2) ?t = Some updated"
      using u by (auto simp: promoted_or_not_def)
    then show ?thesis using same_then_promoted [OF k _ ne] promoted_then_same [OF _ rest(1) ne] rest only_at_file [OF rest(1)] ne
      by (metis insert_iff singletonD)
  qed (use ne in \<open>auto intro!: untouched_target dest!: io_keepsD [OF keeps_staged_until]\<close>)
qed

definition staging_path :: "ws_env \<Rightarrow> string \<Rightarrow> string \<Rightarrow> string" where
  "staging_path W repo rel = staging_of W (foldl path_join repo (butlast (path_parts rel))) (last (path_parts rel))"

definition relative_file :: "string \<Rightarrow> bool" where
  "relative_file rel \<longleftrightarrow> path_root rel = [] \<and> path_parts rel \<noteq> []"

lemma foldl_join_parts:
  "plain_parts cs \<Longrightarrow> path_root (foldl path_join a cs) = path_root a \<and> path_parts (foldl path_join a cs) = path_parts a @ cs"
proof (induction cs arbitrary: a)
  case (Cons c cs)
  then have "plain_parts [c]" "plain_parts cs" by (simp_all add: plain_parts_def)
  then show ?case using Cons.IH [of "path_join a c"] path_join_parts [of c a] by simp
qed simp

lemma staging_path_differs:
  assumes "relative_file rel"
  shows "staging_path W repo rel \<noteq> path_join repo rel"
proof -
  let ?d = "foldl path_join repo (butlast (path_parts rel))" and ?f = "last (path_parts rel)"
  have "plain_parts (path_parts rel)" by simp
  then have pl: "plain_parts [?f]" "plain_parts (butlast (path_parts rel))"
    using assms by (auto simp: plain_parts_def relative_file_def dest: in_set_butlastD)
  have "path_join ?d ?f = path_str_of (path_root repo) (path_parts repo @ path_parts rel)"
    using foldl_join_parts [OF pl(2), of repo] path_join_plain [OF pl(1), of ?d] assms by (simp add: relative_file_def)
  also have "\<dots> = path_join repo rel" using assms by (simp add: path_join_def path_is_absolute_def relative_file_def)
  finally show ?thesis using staging_differs [OF pl(1), of W ?d] by (simp add: staging_path_def)
qed

lemma io_finally_cases:
  assumes "io_finally m fin w = (r, w')"
  obtains r1 w1 where "m w = (r1, w1)" "r1 = Killed \<and> w' = w1 \<and> r = Killed \<or>
    (\<exists>r2. fin w1 = (r2, w') \<and> (r2 = Done () \<and> r = r1 \<or> (r2 = Killed \<and> r = Killed) \<or> (\<exists>e. r2 = Raised e \<and> r = Raised e)))"
  using assms
  by (cases "m w"; cases "fst (m w)") (auto simp: io_finally_def io_bind_def split: prod.splits outcome.splits)

lemma promote_file_spec:
  assumes "promote_contained_regular_file E W repo rel pre updated post w = (r, w')" and "relative_file rel"
  shows "promoted_or_not E (staging_path W repo rel) (path_join repo rel) pre updated w w'
    \<and> (r = Done () \<longrightarrow> fs_file (m_fs w') (path_join repo rel) = Some updated \<and> fs_file (m_fs w') (staging_path W repo rel) = None)"
proof -
  let ?s = "staging_path W repo rel" and ?t = "path_join repo rel"
  note ne = staging_path_differs [OF assms(2), of W repo]
  let ?w = "w\<lparr>m_tick := m_tick w + 1\<rparr>"
  show ?thesis
  proof (cases "r = Done () \<or> m_fs w' \<noteq> m_fs w")
    case False
    then show ?thesis by (simp add: promoted_or_not_def only_at_def)
  next
    case True
    with assms(1) obtain parent filename where
      o: "open_contained_parent W (m_fs w) (m_tick w) repo rel ''source target'' = Inr (parent, filename)"
      and m: "io_finally (io_catch is_os_error (staged_promotion E W parent filename pre updated post)
             (\<lambda>e. io_raise (ValueError (''repo patch atomic promotion failed: '' @ authority_text e))))
           (os_call W (set_file (staging_of W parent filename) None)) ?w = (r, w')"
      by (auto simp: promote_contained_regular_file_def io_bind_def io_lift_def io_check_def split: if_splits sum.splits)
    have pt: "path_join parent filename = ?t" "plain_parts [filename]" "staging_of W parent filename = ?s"
      using open_contained_path [OF o] assms(2) by (auto simp: relative_file_def staging_path_def)
    from m obtain r1 w1 where r1: "io_catch is_os_error (staged_promotion E W parent filename pre updated post)
             (\<lambda>e. io_raise (ValueError (''repo patch atomic promotion failed: '' @ authority_text e))) ?w = (r1, w1)"
      and fin: "r1 = Killed \<and> w' = w1 \<and> r = Killed \<or> (\<exists>r2. os_call W (set_file ?s None) w1 = (r2, w')
          \<and> (r2 = Done () \<and> r = r1 \<or> (r2 = Killed \<and> r = Killed) \<or> (\<exists>e. r2 = Raised e \<and> r = Raised e)))"
      unfolding pt(3) by (rule io_finally_cases)
    obtain r0 where "staged_promotion E W parent filename pre updated post ?w = (r0, w1)" "r1 = Done () \<longrightarrow> r0 = Done ()"
      using r1 by (auto simp: io_catch_def split: prod.splits outcome.splits if_splits)
    note sp = staged_promotion_spec [OF this(1) pt(2), unfolded pt] this(2)
    have w: "promoted_or_not E ?s ?t pre updated w w1" using sp by (simp add: promoted_or_not_def only_at_def)
    have k: "io_keeps (only_at {?s}) (os_call W (set_file ?s None))" by (intro keeps) simp
    from fin show ?thesis
    proof (elim disjE exE conjE)
      fix r2 assume f: "os_call W (set_file ?s None) w1 = (r2, w')" "r2 = Done ()" "r = r1"
      then have "m_fs w' = set_file ?s None (m_fs w1)" by (auto dest: os_call_Done)
      then show ?thesis using promoted_then_same [OF w io_keepsD [OF k f(1)] ne] sp f ne by simp
    qed (use w promoted_then_same [OF w io_keepsD [OF k] ne] in auto)
  qed
qed

lemma run_git_same: "run_git W repo args w = (r, w') \<Longrightarrow> m_fs w' = m_fs w"
  by (auto simp: run_git_def git_raw_def io_bind_def io_lift_def split: sum.splits prod.splits outcome.splits if_splits)

lemma read_contained_same: "read_contained_regular_file W repo rel label w = (r, w') \<Longrightarrow> m_fs w' = m_fs w"
  by (auto simp: read_contained_regular_file_def io_bind_def io_lift_def split: sum.splits)

lemma file_digest_same: "contained_file_digest E W repo rel label w = (r, w') \<Longrightarrow> m_fs w' = m_fs w"
  by (auto simp: contained_file_digest_def elim!: io_bind_cases dest: read_contained_same)

lemma io_check_same: "io_check b msg w = (r, w') \<Longrightarrow> m_fs w' = m_fs w"
  by (auto simp: io_check_def split: if_splits)

lemmas fs_same = run_git_same read_contained_same file_digest_same io_check_same

definition same_fs :: "'z machine_scheme \<Rightarrow> 'z machine_scheme \<Rightarrow> bool" where
  "same_fs w w' \<longleftrightarrow> m_fs w' = m_fs w"

lemma same_fs_rules [simp]: "reflp same_fs" "transp same_fs"
  by (auto simp: same_fs_def reflp_def transp_def)

lemma keeps_same_fs [keeps]:
  "io_keeps same_fs (run_git W repo args)" "io_keeps same_fs (contained_file_digest E W repo rel label)" "io_keeps same_fs io_tick"
  "io_keeps same_fs (git_raw W repo args)"
  by (auto simp: io_keeps_def same_fs_def git_raw_def io_bind_def io_lift_def split: sum.split)
    (metis fs_same prod.collapse)+

lemma promotion_checks_same: "promotion_checks E W p w = (r, w') \<Longrightarrow> m_fs w' = m_fs w"
proof -
  have "io_keeps same_fs (promotion_checks E W p :: ('a, unit) io)" unfolding promotion_checks_def by (intro keeps) simp_all
  then show "promotion_checks E W p w = (r, w') \<Longrightarrow> m_fs w' = m_fs w" for w :: "'a machine_scheme"
    by (auto dest: io_keepsD simp: same_fs_def)
qed

text \<open>C6: promotion is atomic and happens at most once. Whatever fails on the way and wherever the process dies, only the target
  and the staging file beside it can differ afterwards, and the target holds its bytes from before or the authorised bytes.
  It holds the authorised ones only if the patch was verified, open and not yet promoted and the bytes before had the authorised
  digest; if the promotion returns, the target holds them, the staging file is gone and the patch is marked as promoted.\<close>

theorem promote_atomic:
  assumes "promote E W p w = (r, w')" and "relative_file (pp_relative_target p)"
  defines "tgt \<equiv> path_join (pp_source_repo p) (pp_relative_target p)"
    and "stg \<equiv> staging_path W (pp_source_repo p) (pp_relative_target p)"
  shows "(\<forall>q. q \<noteq> tgt \<longrightarrow> q \<noteq> stg \<longrightarrow> fs_file (m_fs w') q = fs_file (m_fs w) q)
    \<and> (fs_file (m_fs w') tgt \<noteq> fs_file (m_fs w) tgt \<longrightarrow>
         fs_file (m_fs w') tgt = Some (pp_updated_bytes p) \<and> pp_verified p \<and> \<not> pp_promoted p \<and> \<not> pp_closed p
         \<and> (\<exists>old. fs_file (m_fs w) tgt = Some old \<and> bytes_digest E old = pp_target_preimage_digest p))
    \<and> (\<forall>receipt p'. r = Done (Inr receipt, p') \<longrightarrow>
         fs_file (m_fs w') tgt = Some (pp_updated_bytes p) \<and> fs_file (m_fs w') stg = None \<and> p' = p\<lparr>pp_promoted := True\<rparr>)"
proof -
  obtain r0 where m: "io_bind (promotion_checks E W p) (\<lambda>_.
        promote_contained_regular_file E W (pp_source_repo p) (pp_relative_target p) (pp_target_preimage_digest p)
          (pp_updated_bytes p) (pp_target_postimage_digest p)) w = (r0, w')"
    and r: "\<And>receipt p'. r = Done (Inr receipt, p') \<Longrightarrow> r0 = Done () \<and> p' = p\<lparr>pp_promoted := True\<rparr>"
    using assms(1) by (auto simp: promote_def io_bind_attempt Let_def split: prod.splits outcome.splits)
  from m show ?thesis
  proof (cases rule: io_bind_cases)
    case (returned x w1)
    have c: "m_fs w1 = m_fs w" using promotion_checks_same [OF returned(1)] .
    have flags: "pp_verified p" "\<not> pp_promoted p" "\<not> pp_closed p"
      using returned(1) by (auto simp: promotion_checks_def io_bind_Done)
    from promote_file_spec [OF returned(2) assms(2)] c flags r show ?thesis
      by (auto simp: promoted_or_not_def only_at_def tgt_def stg_def)
  qed (use r in \<open>auto dest!: promotion_checks_same\<close>)
qed

text \<open>A repository with one file; writes take three bytes at a time.\<close>

definition sample_ws_env :: ws_env where
  "sample_ws_env = \<lparr>ws_git = (\<lambda>t repo args. Inr (0, (if args = [''rev-parse'', ''HEAD''] then ''c'' else
        if args = [''rev-parse'', ''HEAD^{tree}''] then ''t'' else []), [])),
     ws_checkout = (\<lambda>t ws path. None), ws_dir = (\<lambda>t path. path \<in> {''/r'', ''/r/d''}), ws_nlink = (\<lambda>t path. 1),
     ws_written = (\<lambda>t. 3), ws_fault = (\<lambda>t. None), ws_pid = 7\<rparr>"

definition sample_machine :: machine where
  "sample_machine = \<lparr>m_fs = \<lparr>fs_resolve = (\<lambda>path. path), fs_symlink = (\<lambda>_. False), fs_file = [''/r/d/f'' \<mapsto> ''old'', ''/r/g'' \<mapsto> ''x'']\<rparr>,
     m_tick = 0, m_budget = 100\<rparr>"

definition returned_ok :: "(authority_exn + 'a) \<times> 'b \<Rightarrow> bool" where
  "returned_ok r = is_ok (fst r)"

definition sample_prepared :: PreparedRepoPatch where
  "sample_prepared = (prepared_init flat_env ''/r'' ''/w/x'' ''d/f'' [''d/f''] ''c'' ''t'' (bytes_digest flat_env ''old'') ''old'' ''new text'')
     \<lparr>pp_verified := True\<rparr>"

lemma sample_promoted:
  "(case fst (promote flat_env sample_ws_env sample_prepared sample_machine) of Done r \<Rightarrow> returned_ok r | _ \<Rightarrow> False)"
  by code_simp

theorem promote_atomic_witness:
  "\<exists>receipt p' w'. promote flat_env sample_ws_env sample_prepared sample_machine = (Done (Inr receipt, p'), w')
     \<and> fs_file (m_fs w') ''/r/d/f'' = Some ''new text'' \<and> pp_promoted p'"
proof -
  obtain receipt p' w' where r: "promote flat_env sample_ws_env sample_prepared sample_machine = (Done (Inr receipt, p'), w')"
    using sample_promoted
    by (cases "promote flat_env sample_ws_env sample_prepared sample_machine") (auto simp: returned_ok_def is_ok_iff split: outcome.splits)
  have "relative_file (pp_relative_target sample_prepared)"
    and "path_join (pp_source_repo sample_prepared) (pp_relative_target sample_prepared) = ''/r/d/f''"
    and "pp_updated_bytes sample_prepared = ''new text''" by code_simp+
  with promote_atomic [OF r] r show ?thesis by simp
qed

section \<open>Verification\<close>

lemma accept_loop_Inr:
  "accept_loop acc crs = (Inr (), acc') \<Longrightarrow>
    \<exists>rs. acc' = acc @ rs \<and> list_all2 (\<lambda>(command, result) r. accept_result command result = Inr r) crs rs"
proof (induction acc crs arbitrary: acc' rule: accept_loop.induct)
  case (2 acc command result rest)
  then obtain r where r: "accept_result command result = Inr r" "accept_loop (acc @ [r]) rest = (Inr (), acc')"
    by (auto split: sum.splits)
  from 2(1) [OF r] obtain rs where "acc' = (acc @ [r]) @ rs"
      "list_all2 (\<lambda>(command, result) r. accept_result command result = Inr r) rest rs" by blast
  with r show ?case by (intro exI [of _ "r # rs"]) simp
qed simp

text \<open>What an accepted result says of its command, and what is kept of it.\<close>

definition accepted_result :: "string list \<Rightarrow> jval \<Rightarrow> jobj \<Rightarrow> bool" where
  "accepted_result command result r \<longleftrightarrow> command \<noteq> [] \<and> [] \<notin> set command
     \<and> (\<exists>d. result = JObj d \<and> py_eq (pget d ''argv'') (JList (map JStr command)) \<and> py_eq (pget d ''returncode'') (JInt 0)
          \<and> text_matches sha256_text (pget d ''stdout_digest'') \<and> text_matches sha256_text (pget d ''stderr_digest'')
          \<and> r = [(''argv'', JList (map JStr command)), (''returncode'', pget d ''returncode''),
                 (''stdout_digest'', pget d ''stdout_digest''), (''stderr_digest'', pget d ''stderr_digest'')])"

lemma accept_result_Inr:
  assumes "accept_result command result = Inr r"
  shows "accepted_result command result r"
  using assms by (auto simp: accept_result_def accepted_result_def split: if_splits jval.splits)

lemma contained_digest_Done:
  assumes "contained_file_digest E W repo rel label w = (Done d, w')" and "relative_file rel"
  shows "\<exists>content. fs_file (m_fs w) (path_join repo rel) = Some content \<and> d = bytes_digest E content \<and> m_fs w' = m_fs w
    \<and> \<not> fs_symlink (m_fs w) (path_join repo rel) \<and> length content \<le> MAX_TARGET_FILE_BYTES"
proof -
  obtain parent filename path content where
    "open_contained_parent W (m_fs w) (m_tick w) repo rel label = Inr (parent, filename)"
    "open_contained_regular_file W (m_fs w) (m_tick w) parent filename label = Inr (path, content)" "d = bytes_digest E content"
    using assms(1) by (auto simp: contained_file_digest_def read_contained_regular_file_def io_bind_Done io_lift_def split: sum.splits)
  moreover from this(1) have "path_join parent filename = path_join repo rel"
    using open_contained_path assms(2) by (auto simp: relative_file_def)
  ultimately show ?thesis using file_digest_same [OF assms(1)]
    by (auto simp: open_contained_regular_file_def Let_def split: if_splits option.splits)
qed

lemma accept_results_Inr:
  assumes "accept_verifier_results E W commands results receipt p w = (Done (Inr rc, p'), w')"
  shows "\<exists>rs w1. \<not> pp_closed p \<and> \<not> pp_verified p \<and> length results = length commands
    \<and> (receipt = None \<or> (\<exists>vr. receipt = Some vr \<and> receipt_accepted vr))
    \<and> list_all2 (\<lambda>(command, result) r. accepted_result command result r) (zip commands results) rs
    \<and> changed_paths W (pp_workspace p) w = (Done [pp_relative_target p], w1)
    \<and> contained_file_digest E W (pp_workspace p) (pp_relative_target p) ''workspace target'' w1 = (Done (pp_target_postimage_digest p), w')
    \<and> sorted_set (filter (\<lambda>q. q \<notin> set (pp_allowed_paths p)) [pp_relative_target p]) = []
    \<and> p' = p\<lparr>pp_test_results := pp_test_results p @ rs, pp_changed_paths := [pp_relative_target p],
         pp_verifier_receipt := receipt, pp_verified := True\<rparr>
    \<and> rc = prepared_receipt p'"
proof -
  note unfolded = assms(1) [unfolded accept_verifier_results_def Let_def]
  obtain acc where flags: "\<not> pp_closed p" "\<not> pp_verified p" "length commands = length results"
        "\<not> (case receipt of None \<Rightarrow> False | Some r \<Rightarrow> \<not> receipt_accepted r)"
      and l: "accept_loop (pp_test_results p) (zip commands results) = (Inr (), acc)"
    using unfolded by (cases "accept_loop (pp_test_results p) (zip commands results)") (auto split: if_splits sum.splits)
  obtain w1 where rest: "changed_paths W (pp_workspace p) w = (Done [pp_relative_target p], w1)"
      "contained_file_digest E W (pp_workspace p) (pp_relative_target p) ''workspace target'' w1 = (Done (pp_target_postimage_digest p), w')"
      "sorted_set (filter (\<lambda>q. q \<notin> set (pp_allowed_paths p)) [pp_relative_target p]) = []"
      "p' = p\<lparr>pp_test_results := acc, pp_changed_paths := [pp_relative_target p], pp_verifier_receipt := receipt, pp_verified := True\<rparr>"
      "rc = prepared_receipt p'"
    using unfolded flags l by (auto simp: io_bind_attempt split: if_splits prod.splits outcome.splits)
  obtain rs where rs: "acc = pp_test_results p @ rs"
      "list_all2 (\<lambda>(command, result) r. accept_result command result = Inr r) (zip commands results) rs"
    using accept_loop_Inr [OF l] by blast
  have "list_all2 (\<lambda>(command, result) r. accepted_result command result r) (zip commands results) rs"
    using rs(2) by (rule list_all2_mono) (auto intro: accept_result_Inr)
  moreover have "receipt = None \<or> (\<exists>vr. receipt = Some vr \<and> receipt_accepted vr)"
    using flags(4) by (cases receipt) simp_all
  ultimately show ?thesis using flags rest rs(1) by (intro exI [of _ rs] exI [of _ w1]) simp
qed

text \<open>C25: a patch becomes verified only by a run that changed exactly its target. When the results of the verifier are accepted,
  the workspace was open and not yet verified; there is one result per command, in the order of the commands, and each result reports the
  argument vector of its own command, return code 0 and two SHA-256 output digests, which is what the receipt then lists; a verifier
  receipt, when there is one, reports success; Git reports the target as the only change; and the target in the workspace is a
  regular file whose bytes have the authorised digest.\<close>

theorem accept_verified_change:
  assumes "accept_verifier_results E W commands results receipt p w = (Done (Inr rc, p'), w')"
    and "relative_file (pp_relative_target p)"
  shows "\<not> pp_closed p \<and> \<not> pp_verified p \<and> pp_verified p' \<and> pp_promoted p' = pp_promoted p \<and> pp_closed p' = pp_closed p
    \<and> rc = prepared_receipt p' \<and> rc_changed_paths rc = [pp_relative_target p] \<and> pp_relative_target p \<in> set (pp_allowed_paths p)
    \<and> m_fs w' = m_fs w
    \<and> (\<exists>content. fs_file (m_fs w) (path_join (pp_workspace p) (pp_relative_target p)) = Some content
         \<and> bytes_digest E content = pp_target_postimage_digest p)
    \<and> pp_verifier_receipt p' = receipt \<and> (receipt = None \<or> (\<exists>vr. receipt = Some vr \<and> receipt_accepted vr))
    \<and> length results = length commands
    \<and> (\<exists>rs. rc_test_results rc = pp_test_results p @ rs
         \<and> list_all2 (\<lambda>(command, result) r. accepted_result command result r) (zip commands results) rs)"
proof -
  obtain rs w1 where r: "\<not> pp_closed p" "\<not> pp_verified p" "length results = length commands"
      "receipt = None \<or> (\<exists>vr. receipt = Some vr \<and> receipt_accepted vr)"
      "list_all2 (\<lambda>(command, result) r. accepted_result command result r) (zip commands results) rs"
      "sorted_set (filter (\<lambda>q. q \<notin> set (pp_allowed_paths p)) [pp_relative_target p]) = []"
    and c: "changed_paths W (pp_workspace p) w = (Done [pp_relative_target p], w1)"
    and d: "contained_file_digest E W (pp_workspace p) (pp_relative_target p) ''workspace target'' w1 = (Done (pp_target_postimage_digest p), w')"
    and p': "p' = p\<lparr>pp_test_results := pp_test_results p @ rs, pp_changed_paths := [pp_relative_target p],
        pp_verifier_receipt := receipt, pp_verified := True\<rparr>" "rc = prepared_receipt p'"
    using accept_results_Inr [OF assms(1)] by blast
  have "m_fs w1 = m_fs w"
    using c by (auto simp: changed_paths_def git_raw_def io_bind_Done io_lift_def split: sum.splits if_splits)
  then show ?thesis using contained_digest_Done [OF d assms(2)] r p'
    by (auto simp: prepared_receipt_def sorted_set_def split: if_splits)
qed

definition verifying_env :: ws_env where
  "verifying_env = sample_ws_env\<lparr>ws_git := (\<lambda>t repo args. Inr (0, '' M d/f'' @ [CHR 0x00], [])), ws_dir := (\<lambda>t path. path \<in> {''/w/x'', ''/w/x/d''})\<rparr>"

definition verifying_machine :: machine where
  "verifying_machine = sample_machine\<lparr>m_fs := (m_fs sample_machine)\<lparr>fs_file := [''/w/x/d/f'' \<mapsto> ''new text'']\<rparr>\<rparr>"

definition verifying_results :: "jval list" where
  "verifying_results = [JObj [(''argv'', JList [JStr ''/bin/true'']), (''returncode'', JInt 0),
     (''stdout_digest'', JStr flat_digest), (''stderr_digest'', JStr flat_digest)]]"

lemma sample_accepted_results:
  "(case fst (accept_verifier_results flat_env verifying_env [[''/bin/true'']] verifying_results None
      (sample_prepared\<lparr>pp_verified := False\<rparr>) verifying_machine) of Done r \<Rightarrow> returned_ok r | _ \<Rightarrow> False)"
  by code_simp

theorem accept_verified_change_witness:
  "\<exists>rc p' w'. accept_verifier_results flat_env verifying_env [[''/bin/true'']] verifying_results None
      (sample_prepared\<lparr>pp_verified := False\<rparr>) verifying_machine = (Done (Inr rc, p'), w')
     \<and> pp_verified p' \<and> rc_changed_paths rc = [''d/f'']"
proof -
  let ?p = "sample_prepared\<lparr>pp_verified := False\<rparr>"
  obtain rc p' w' where r: "accept_verifier_results flat_env verifying_env [[''/bin/true'']] verifying_results None ?p verifying_machine
      = (Done (Inr rc, p'), w')"
    using sample_accepted_results
    by (cases "accept_verifier_results flat_env verifying_env [[''/bin/true'']] verifying_results None ?p verifying_machine")
      (auto simp: returned_ok_def is_ok_iff split: outcome.splits)
  have "relative_file (pp_relative_target ?p)" "pp_relative_target ?p = ''d/f''" by code_simp+
  with accept_verified_change [OF r] r show ?thesis by auto
qed

end
