(* ===== verification/Py_Files.thy ===== *)
theory Py_Files
  imports Patch_Workspace_Props
begin

text \<open>
  Files written through Python's buffered handles: \<open>flush\<close> calls \<open>write\<close> until the buffer is empty, and each call takes
  at least one byte or fails, so that a crash leaves a prefix of the content. Shared by the backups of the permit store and the
  JSON state files.
\<close>

lemma io_lift_Done [simp]: "io_lift r w = (Done x, w') \<longleftrightarrow> r = Inr x \<and> w' = w"
  by (cases r) auto

lemma io_of_Done [simp]: "io_of r w = (Done x, w') \<longleftrightarrow> r = Inr x \<and> w' = w"
  by (cases r) (auto simp: io_of_def)

lemma io_bind_tick: "io_bind io_tick f w = f (m_tick w) (w\<lparr>m_tick := m_tick w + 1\<rparr>)"
  by (simp add: io_bind_def)

definition os_append :: "ws_env \<Rightarrow> string \<Rightarrow> string \<Rightarrow> ('z, nat) io" where
  "os_append W path view =
     io_effect (\<lambda>t fs. case ws_fault W t of
        Some m \<Rightarrow> (Inl (OSError m), fs)
      | None \<Rightarrow> (let n = min (max 1 (ws_written W t)) (length view) in (Inr n, append_file fs path (take n view))))"

lemma os_append_Done:
  assumes "os_append W path view w = (Done n, w')"
  shows "n = min (max 1 (ws_written W (m_tick w))) (length view)
    \<and> fs_file (m_fs w') path = Some ((case fs_file (m_fs w) path of None \<Rightarrow> [] | Some c \<Rightarrow> c) @ take n view)"
  using assms by (auto simp: os_append_def io_effect_def Let_def split: if_splits option.splits prod.splits)

function flush_loop :: "ws_env \<Rightarrow> string \<Rightarrow> string \<Rightarrow> ('z, unit) io" where
  "flush_loop W path view w =
     (if view = [] then (Done (), w)
      else case os_append W path view w of
        (Raised e, w') \<Rightarrow> (Raised e, w')
      | (Killed, w') \<Rightarrow> (Killed, w')
      | (Done written, w') \<Rightarrow> flush_loop W path (drop written view) w')"
  by pat_completeness auto
termination
proof (relation "measure (\<lambda>(_, _, view, _). length view)", goal_cases)
  case (2 W path view w x w' n)
  then have "n = min (max 1 (ws_written W (m_tick w))) (length view)" using os_append_Done [of W path view w n w'] by simp
  moreover have "0 < length view" using 2(1) by simp
  ultimately have "0 < n" by linarith
  then show ?case using \<open>0 < length view\<close> by simp
qed simp

declare flush_loop.simps [simp del]

text \<open>\<open>write\<close>, \<open>flush\<close> and \<open>os.fsync\<close>.\<close>

definition write_synced :: "ws_env \<Rightarrow> string \<Rightarrow> string \<Rightarrow> ('z, unit) io" where
  "write_synced W path content = io_bind (flush_loop W path content) (\<lambda>_. os_call W id)"

lemma keeps_os_append: "path \<in> A \<Longrightarrow> io_keeps (only_at A) (os_append W path view)"
  unfolding os_append_def by (rule keeps_only_effect) (auto simp: Let_def split: option.split)

lemma flush_loop_spec:
  "path \<in> A \<Longrightarrow> flush_loop W path view w = (r, w') \<Longrightarrow> only_at A w w'
    \<and> (\<forall>c. r = Done () \<longrightarrow> fs_file (m_fs w) path = Some c \<longrightarrow> fs_file (m_fs w') path = Some (c @ view))"
proof (induction W path view w arbitrary: r w' rule: flush_loop.induct)
  case (1 W path view w)
  show ?case
  proof (cases "view = []")
    case True
    then show ?thesis using 1(3) by (simp add: flush_loop.simps)
  next
    case False
    obtain r1 w1 where s: "os_append W path view w = (r1, w1)" by fastforce
    have k: "only_at A w w1" using io_keepsD [OF keeps_os_append [OF 1(2)] s] .
    show ?thesis
    proof (cases r1)
      case (Done n)
      then have l: "flush_loop W path (drop n view) w1 = (r, w')"
        using 1(3) False s by (simp add: flush_loop.simps [of W path view w])
      note ih = 1(1) [OF False s [symmetric] _ 1(2) l]
      have "only_at A w1 w'" "\<forall>c. r = Done () \<longrightarrow> fs_file (m_fs w1) path = Some c \<longrightarrow> fs_file (m_fs w') path = Some (c @ drop n view)"
        using ih Done by auto
      then show ?thesis using os_append_Done [of W path view w n w1] s Done k transpD [OF only_at_trans]
        by (metis append.assoc append_take_drop_id option.simps(5))
    qed (use 1(3) False s k in \<open>auto simp: flush_loop.simps [of W path view w]\<close>)
  qed
qed

lemma keeps_write_synced: "path \<in> A \<Longrightarrow> io_keeps (only_at A) (write_synced W path content)"
proof -
  assume "path \<in> A"
  then have "io_keeps (only_at A) (flush_loop W path content)"
    unfolding io_keeps_def using flush_loop_spec [of path A] by (metis prod.collapse)
  then show ?thesis unfolding write_synced_def by (intro keeps) auto
qed

lemma write_synced_Done:
  assumes "write_synced W path content w = (Done (), w')" and "fs_file (m_fs w) path = Some []"
  shows "fs_file (m_fs w') path = Some content"
proof -
  obtain w1 where "flush_loop W path content w = (Done (), w1)" "os_call W id w1 = (Done (), w')"
    using assms(1) by (auto simp: write_synced_def io_bind_Done)
  then show ?thesis using flush_loop_spec [of path "{path}" W content w "Done ()" w1] assms(2) by (auto dest!: os_call_Done)
qed

end
