(* ===== verification/Authority_Service.thy ===== *)
theory Authority_Service
  imports Py_Files Authority_File
begin

text \<open>
  \<open>services/actuators/repo_patch_authority_service.py\<close>: the service that alone attaches and consumes permits. A signed request
  takes its place in the authority store (issued, leased, dispatched, terminal), a preflight verifies the patch in a disposable
  workspace, and an execution asks the admission adapter again, prepares and verifies the patch again and promotes it.

  The program is an \<open>io\<close> over the authority store \<open>'s\<close> (the file-backed or the Postgres one), the permit ledger and the
  files. \<open>w_promotions\<close> has no counterpart in the code: it records the idempotency key of every call of \<open>prepared.promote\<close>.
  The clock, the random tokens, the admission adapter, the verifier's answers, Git and the operating system are the
  record \<open>svc_env\<close>, indexed by the counter of answers. A call that reads, changes and writes a locked JSON file is one effect.
\<close>

section \<open>State and surroundings\<close>

record 's service_world = machine +
  w_store :: 's
  w_ledger :: jobj
  w_promotions :: "string list"

type_synonym ('s, 'a) sio = "(('s, unit) service_world_ext, 'a) io"

record 's store_api =
  st_issue :: "int \<Rightarrow> string \<Rightarrow> string \<Rightarrow> string \<Rightarrow> jval \<Rightarrow> 's \<Rightarrow> authority_exn + (jobj \<times> 's)"
  st_run :: "int \<Rightarrow> string \<Rightarrow> store_op \<Rightarrow> 's \<Rightarrow> authority_exn + (jobj \<times> 's)"

record hsai_adapter =
  ad_identity :: string
  ad_eligible :: bool
  ad_admit :: "nat \<Rightarrow> jobj \<Rightarrow> string + jval"

record svc_env =
  sv_clock :: "nat \<Rightarrow> int"
  sv_token :: "nat \<Rightarrow> string"
  sv_exec :: "nat \<Rightarrow> exec_env"
  sv_net :: "nat \<Rightarrow> network"
  sv_peer :: "nat \<Rightarrow> py_exn + int"
  sv_tree :: "nat \<Rightarrow> string \<Rightarrow> bool \<times> (string \<times> tree_entry) list"
  sv_ws :: ws_env

record authority_service =
  as_private_key :: string
  as_key_id :: string
  as_client_keys :: "(string \<times> string) list"
  as_allowed_uids :: "int list"
  as_max_frame :: int
  as_ttl :: int
  as_permits :: permit_config
  as_policy :: test_policy
  as_adapter :: "hsai_adapter option"
  as_verifier :: "verifier_client option"
  as_workspace_root :: string

record 's service_ctx =
  cx_env :: pyenv
  cx_schemas :: schemas
  cx_ed :: ed25519
  cx_world :: svc_env
  cx_store :: "'s store_api"
  cx_service :: authority_service

definition AUTHORITY_STATE_SLICE :: string where
  "AUTHORITY_STATE_SLICE = ''mesh.repo_patch_authority_service.v1''"
definition PREFLIGHT_STATE_SLICE :: string where
  "PREFLIGHT_STATE_SLICE = ''mesh.repo_patch_disposable_worktree.v1''"
definition AUTHORITY_LIFECYCLE_STATE_SLICE :: string where
  "AUTHORITY_LIFECYCLE_STATE_SLICE = ''mesh.repo_patch_authority_store_lifecycle.v1''"

text \<open>The constructor. The admission adapter and the verifier client come ready made.\<close>

definition authority_service_init ::
  "pyenv \<Rightarrow> ed25519 \<Rightarrow> string \<Rightarrow> string \<Rightarrow> string \<Rightarrow> string \<Rightarrow> (string \<times> string) list \<Rightarrow> int list \<Rightarrow> string \<Rightarrow> string \<Rightarrow> string \<Rightarrow> string
    \<Rightarrow> jval list list \<Rightarrow> int option \<Rightarrow> int \<Rightarrow> rat \<Rightarrow> int \<Rightarrow> hsai_adapter option \<Rightarrow> verifier_client option \<Rightarrow> string option
    \<Rightarrow> (string \<Rightarrow> string) \<Rightarrow> py_exn + authority_service" where
  "authority_service_init E L socket_path state_directory private_key key_id client_keys uids permit_key permit_key_id permit_issuer
     audience commands socket_gid max_frame timeout ttl adapter vc input_root resolve =
     (let keys = pupdate [] (map (\<lambda>(k, v). (py_strip k, JStr (py_strip v))) client_keys);
          client_public_keys = map (\<lambda>(k, v). (k, py_str v)) keys in
      if \<not> path_is_absolute socket_path \<or> \<not> path_is_absolute state_directory
      then Inl (ValueError ''authority socket and state paths must be absolute'')
      else if py_strip private_key = [] \<or> py_strip key_id = []
      then Inl (ValueError ''authority service requires explicit Ed25519 authority key material'')
      else if client_public_keys = [] \<or> list_ex (\<lambda>(k, v). k = [] \<or> v = []) client_public_keys
      then Inl (ValueError ''authority service requires pinned client public keys'')
      else if uids = [] \<or> list_ex (\<lambda>u. u < 0) uids
      then Inl (ValueError ''authority service requires at least one allowed peer uid'')
      else if (case socket_gid of None \<Rightarrow> False | Some g \<Rightarrow> g < 0)
      then Inl (ValueError ''authority service socket gid must be non-negative'')
      else if py_strip permit_key = []
      then Inl (ValueError ''authority service requires explicit permit signing key material'')
      else if timeout \<le> 0 \<or> \<not> (1 \<le> ttl \<and> ttl \<le> 60)
      then Inl (ValueError ''authority service timing configuration is invalid'')
      else if \<not> (1024 \<le> max_frame \<and> max_frame \<le> 1048576)
      then Inl (ValueError ''authority service frame limit is invalid'')
      else ebind (build_ed25519_signature_proof E L [(''key_validation'', JStr AUTHORITY_STATE_SLICE)] (py_strip key_id)
                    (py_strip private_key) AUTHORITY_RESPONSE_SIGNING_PROFILE) (\<lambda>_.
      let workspace_root = (case input_root of Some r \<Rightarrow> r | None \<Rightarrow> path_join state_directory ''repo_patch_preflight_worktrees'') in
      if \<not> path_is_absolute workspace_root then Inl (ValueError ''repo patch verifier input root must be absolute'')
      else ebind (policy_init commands True) (\<lambda>policy.
      Inr \<lparr>as_private_key = py_strip private_key, as_key_id = py_strip key_id, as_client_keys = client_public_keys,
           as_allowed_uids = uids, as_max_frame = max_frame, as_ttl = ttl,
           as_permits = permit_store_init (Some (py_strip permit_key)) permit_key_id permit_issuer audience
             (path_join (resolve (path_str state_directory)) ''repo_patch_backups''),
           as_policy = policy, as_adapter = adapter, as_verifier = vc, as_workspace_root = resolve (path_str workspace_root)\<rparr>)))"

section \<open>Effects\<close>

definition clock_now :: "'s service_ctx \<Rightarrow> ('s, int) sio" where
  "clock_now C = io_bind io_tick (\<lambda>t. io_return (sv_clock (cx_world C) t))"

text \<open>A call of the authority store, with the store's clock.\<close>

definition store_call :: "'s service_ctx \<Rightarrow> (int \<Rightarrow> 's \<Rightarrow> authority_exn + (jobj \<times> 's)) \<Rightarrow> ('s, jobj) sio" where
  "store_call C f = (\<lambda>w. if m_budget w = 0 then (Killed, w)
     else let w1 = w\<lparr>m_tick := m_tick w + 1, m_budget := m_budget w - 1\<rparr> in
       case f (sv_clock (cx_world C) (m_tick w)) (w_store w) of
         Inl e \<Rightarrow> (Raised e, w1)
       | Inr (r, s) \<Rightarrow> (Done r, w1\<lparr>w_store := s\<rparr>))"

text \<open>A call of the permit store that changes the ledger, and \<open>abort_with_restoration\<close>, which writes the target first.\<close>

definition ledger_call :: "'s service_ctx \<Rightarrow> (nat \<Rightarrow> int \<Rightarrow> fsys \<Rightarrow> jobj \<Rightarrow> py_exn + ('a \<times> jobj)) \<Rightarrow> ('s, 'a) sio" where
  "ledger_call C f = (\<lambda>w. if m_budget w = 0 then (Killed, w)
     else let w1 = w\<lparr>m_tick := m_tick w + 1, m_budget := m_budget w - 1\<rparr> in
       case f (m_tick w) (sv_clock (cx_world C) (m_tick w)) (m_fs w) (w_ledger w) of
         Inl e \<Rightarrow> (Raised (PyExn e), w1)
       | Inr (r, ledger) \<Rightarrow> (Done r, w1\<lparr>w_ledger := ledger\<rparr>))"

definition abort_call :: "'s service_ctx \<Rightarrow> jobj \<Rightarrow> string \<Rightarrow> string \<Rightarrow> ('s, jobj) sio" where
  "abort_call C permit expected_state reason = (\<lambda>w. if m_budget w = 0 then (Killed, w)
     else case abort_with_restoration (cx_env C) (as_permits (cx_service C)) (sv_clock (cx_world C) (m_tick w)) permit expected_state
            reason [] (w_ledger w) (m_fs w) of
       (r, fs') \<Rightarrow>
         (let w1 = w\<lparr>m_fs := fs', m_tick := m_tick w + 1, m_budget := m_budget w - 1\<rparr> in
          if m_budget w1 = 0 then (Killed, w1)
          else case r of
            Inl e \<Rightarrow> (Raised (PyExn e), w1\<lparr>m_budget := m_budget w1 - 1\<rparr>)
          | Inr (result, ledger) \<Rightarrow> (Done result, w1\<lparr>m_budget := m_budget w1 - 1, w_ledger := ledger\<rparr>)))"

definition ledger_read :: "(jobj \<Rightarrow> py_exn + 'a) \<Rightarrow> ('s, 'a) sio" where
  "ledger_read f = (\<lambda>w. io_lift (f (w_ledger w)) w)"

definition note_promotion :: "string \<Rightarrow> ('s, unit) sio" where
  "note_promotion key = (\<lambda>w. (Done (), w\<lparr>w_promotions := w_promotions w @ [key]\<rparr>))"

definition transition_call :: "'s service_ctx \<Rightarrow> jval \<Rightarrow> string \<Rightarrow> string \<Rightarrow> jobj \<Rightarrow> jobj option \<Rightarrow> ('s, jobj) sio" where
  "transition_call C permit_id expected_state new_state details terminal =
     ledger_call C (\<lambda>t now fs ledger. record_transition (cx_env C) now (py_str permit_id) expected_state new_state details terminal ledger)"

text \<open>\<open>except (KeyError, OSError, TypeError, ValueError)\<close>; the errors of the authority store and of the schema validator
  are \<open>ValueError\<close>s.\<close>

fun policy_caught :: "authority_exn \<Rightarrow> bool" where
  "policy_caught (PyExn e) = recoverable e"
| "policy_caught _ = True"

text \<open>\<open>except (AuthorityConflictError, AuthorityStateError, AuthorityStoreError, KeyError, TypeError, ValueError)\<close>.\<close>

fun lifecycle_caught :: "authority_exn \<Rightarrow> bool" where
  "lifecycle_caught (PyExn (KeyError _)) = True"
| "lifecycle_caught (PyExn (TypeError _)) = True"
| "lifecycle_caught (PyExn (ValueError _)) = True"
| "lifecycle_caught (PyExn _) = False"
| "lifecycle_caught _ = True"

text \<open>\<open>except (OSError, TypeError, ValueError)\<close>.\<close>

fun promotion_caught :: "authority_exn \<Rightarrow> bool" where
  "promotion_caught (PyExn (OSError _)) = True"
| "promotion_caught (PyExn (TypeError _)) = True"
| "promotion_caught (PyExn (ValueError _)) = True"
| "promotion_caught (PyExn _) = False"
| "promotion_caught _ = True"

section \<open>Responses\<close>

definition rejected_result :: "string \<Rightarrow> jobj" where
  "rejected_result code = [(''status'', JStr ''failed''), (''external_refs'', JObj []), (''failure'', JObj [(''reason'', JStr code)]),
     (''retryable'', JBool False)]"

definition response_body ::
  "'s service_ctx \<Rightarrow> jobj \<Rightarrow> int \<Rightarrow> int \<Rightarrow> string \<Rightarrow> jobj \<Rightarrow> jval \<Rightarrow> jval \<Rightarrow> int \<Rightarrow> jobj" where
  "response_body C request peer_uid peer_gid status execution_result rejection client now =
     (let request_body = obj_or_empty (pget request ''body'');
          field = (\<lambda>k. JStr (str_or (pget request_body k) (JStr ''unavailable'')));
          receipt =
            [(''state_slice'', JStr AUTHORITY_STATE_SLICE), (''authority_key_id'', JStr (as_key_id (cx_service C))),
             (''declared_client_key_id'', field ''client_key_id''), (''authenticated_client_key_id'', client),
             (''peer_uid'', JInt peer_uid), (''peer_gid'', JInt peer_gid),
             (''request_digest'', JStr (cdigest (cx_env C) (JObj request_body))),
             (''execution_result_digest'', JStr (cdigest (cx_env C) (JObj execution_result))),
             (''completed_at'', JStr (format_time (cx_env C) now))] in
      [(''schema_version'', JStr AUTHORITY_RESPONSE_VERSION), (''request_id'', field ''request_id''),
       (''idempotency_key'', field ''idempotency_key''), (''status'', JStr status), (''execution_result'', JObj execution_result),
       (''receipt'', JObj receipt), (''rejection'', rejection), (''issued_at'', JStr (format_time (cx_env C) now)),
       (''expires_at'', JStr (format_time (cx_env C) (now + as_ttl (cx_service C) * 1000000)))])"

definition signed_response ::
  "'s service_ctx \<Rightarrow> jobj \<Rightarrow> int \<Rightarrow> int \<Rightarrow> string \<Rightarrow> jobj \<Rightarrow> jval \<Rightarrow> jval \<Rightarrow> ('s, jobj) sio" where
  "signed_response C request peer_uid peer_gid status execution_result rejection client =
     io_bind (clock_now C) (\<lambda>now.
     let body = response_body C request peer_uid peer_gid status execution_result rejection client now in
     io_bind (io_lift (build_ed25519_signature_proof (cx_env C) (cx_ed C) body (as_key_id (cx_service C))
                (as_private_key (cx_service C)) AUTHORITY_RESPONSE_SIGNING_PROFILE)) (\<lambda>pf.
     let response = [(''body'', JObj body), (''authorization_proof'', JObj pf)] in
     io_bind (io_lift (validate_payload (cx_schemas C ''repo-patch-authority-response.schema.json'') (JObj response))) (\<lambda>_.
     io_return response)))"

definition rejection_of :: "string \<Rightarrow> jval" where
  "rejection_of code = JObj [(''code'', JStr code), (''retryable'', JBool False)]"

definition signed_rejection :: "'s service_ctx \<Rightarrow> jobj \<Rightarrow> int \<Rightarrow> int \<Rightarrow> string \<Rightarrow> ('s, jobj) sio" where
  "signed_rejection C request peer_uid peer_gid code =
     signed_response C request peer_uid peer_gid ''rejected'' (rejected_result code) (rejection_of code) JNull"

definition request_time_is_valid :: "'s service_ctx \<Rightarrow> jobj \<Rightarrow> ('s, bool) sio" where
  "request_time_is_valid C body =
     (case ebind (pidx body ''issued_at'') (\<lambda>i. ebind (protocol_parse_time (cx_env C) (py_str i)) (\<lambda>issued.
           ebind (pidx body ''expires_at'') (\<lambda>x. ebind (protocol_parse_time (cx_env C) (py_str x)) (\<lambda>expiry.
           Inr (issued, expiry))))) of
        Inl _ \<Rightarrow> io_return False
      | Inr (issued, expiry) \<Rightarrow> io_bind (clock_now C) (\<lambda>now. io_return (time_window issued expiry now)))"

section \<open>The lifecycle in the authority store\<close>

definition adapter_identity :: "'s service_ctx \<Rightarrow> string" where
  "adapter_identity C = (case as_adapter (cx_service C) of None \<Rightarrow> [] | Some a \<Rightarrow> ad_identity a)"

definition lifecycle_identity :: "string \<Rightarrow> string \<Rightarrow> string \<Rightarrow> jobj" where
  "lifecycle_identity operation client_key_id idempotency_key =
     [(''state_slice'', JStr AUTHORITY_LIFECYCLE_STATE_SLICE), (''operation'', JStr operation),
      (''client_key_id'', JStr client_key_id), (''idempotency_key'', JStr idempotency_key)]"

definition authority_id_of :: "pyenv \<Rightarrow> string \<Rightarrow> string \<Rightarrow> string \<Rightarrow> string" where
  "authority_id_of E operation client_key_id idempotency_key =
     ''repo_patch_authority_'' @ removeprefix
       (canonical_authority_digest E (JObj (lifecycle_identity operation client_key_id idempotency_key))) ''sha256:''"

definition issue_authority_lifecycle :: "'s service_ctx \<Rightarrow> jobj \<Rightarrow> string \<Rightarrow> int \<Rightarrow> int \<Rightarrow> ('s, jobj) sio" where
  "issue_authority_lifecycle C body client_key_id peer_uid peer_gid =
     io_bind (io_lift (pidx body ''operation'')) (\<lambda>op.
     io_bind (io_lift (pidx body ''idempotency_key'')) (\<lambda>ik.
     let operation = py_str op; idempotency_key = py_str ik; E = cx_env C;
         identity = lifecycle_identity operation client_key_id idempotency_key in
     io_bind (io_lift (pidx body ''decision'')) (\<lambda>decision.
     io_bind (io_lift (pidx body ''evaluation'')) (\<lambda>evaluation.
     io_bind (io_lift (pidx body ''hsai_gate'')) (\<lambda>gate.
     io_bind (io_lift (pidx body ''preflight_receipt'')) (\<lambda>receipt.
     let action_binding = identity @
           [(''peer_uid'', JInt peer_uid), (''peer_gid'', JInt peer_gid),
            (''decision_digest'', JStr (canonical_authority_digest E decision)),
            (''evaluation_digest'', JStr (canonical_authority_digest E evaluation)),
            (''hsai_gate_digest'', JStr (canonical_authority_digest E gate)),
            (''preflight_receipt_digest'', JStr (canonical_authority_digest E receipt)),
            (''hsai_adapter_identity'', if operation = ''execute'' then JStr (adapter_identity C) else JNull)] in
     store_call C (\<lambda>now. st_issue (cx_store C) now (authority_id_of E operation client_key_id idempotency_key)
       (idempotency_key @ '':'' @ operation)
       (removeprefix (canonical_authority_digest E (JObj [(''authority_identity'', JObj identity)])) ''sha256:'')
       (JObj action_binding))))))))"

text \<open>\<open>str(record["authority_id"])\<close> and \<open>int(record["version"])\<close>, then a transition.\<close>

definition lifecycle_run :: "'s service_ctx \<Rightarrow> jobj \<Rightarrow> (jval \<Rightarrow> store_op) \<Rightarrow> ('s, jobj) sio" where
  "lifecycle_run C rec op =
     io_bind (io_lift (pidx rec ''authority_id'')) (\<lambda>aid.
     io_bind (io_lift (ebind (pidx rec ''version'') py_int)) (\<lambda>version.
     store_call C (\<lambda>now. st_run (cx_store C) now (py_str aid) (op (JInt version)))))"

definition mark_lifecycle_dispatched :: "'s service_ctx \<Rightarrow> jobj \<Rightarrow> string \<Rightarrow> ('s, jobj) sio" where
  "mark_lifecycle_dispatched C rec lease_id = lifecycle_run C rec (\<lambda>v. Dispatch v lease_id)"

definition terminal_payload :: "string \<Rightarrow> jobj \<Rightarrow> jval \<Rightarrow> string \<Rightarrow> jobj" where
  "terminal_payload status execution_result rejection client_key_id =
     [(''status'', JStr status), (''execution_result'', JObj execution_result), (''rejection'', rejection),
      (''authenticated_client_key_id'', JStr client_key_id)]"

definition terminalize_dispatched :: "'s service_ctx \<Rightarrow> jobj \<Rightarrow> string \<Rightarrow> jobj \<Rightarrow> string \<Rightarrow> ('s, jobj) sio" where
  "terminalize_dispatched C rec client_key_id execution_result outcome =
     (case pget rec ''lease_id'' of
        JStr (c # cs) \<Rightarrow>
          lifecycle_run C rec (\<lambda>v. Complete v (c # cs) outcome
            (JObj (terminal_payload ''completed'' execution_result JNull client_key_id)))
      | _ \<Rightarrow> (\<lambda>w. (Raised (AuthorityStateError ''dispatched authority lifecycle is missing its fencing lease''), w)))"

definition unknown_result :: jobj where
  "unknown_result =
     [(''status'', JStr ''failed''),
      (''external_refs'', JObj [(''authority_outcome'', JStr ''unknown_after_dispatch''), (''recovery_required'', JBool True)]),
      (''failure'', JObj [(''reason'', JStr ''authority_outcome_unknown_after_dispatch'')]), (''retryable'', JBool False)]"

definition terminalize_dispatched_unknown :: "'s service_ctx \<Rightarrow> jobj \<Rightarrow> string \<Rightarrow> ('s, jobj) sio" where
  "terminalize_dispatched_unknown C rec client_key_id = terminalize_dispatched C rec client_key_id unknown_result ''unknown''"

definition outcome_of :: "jobj \<Rightarrow> string" where
  "outcome_of result = (if py_eq (pget result ''status'') (JStr ''succeeded'') then ''succeeded'' else ''failed'')"

definition reconcile_dispatched_lifecycle ::
  "'s service_ctx \<Rightarrow> jobj \<Rightarrow> Decision \<Rightarrow> EvaluationResult \<Rightarrow> jobj \<Rightarrow> string \<Rightarrow> string \<Rightarrow> ('s, jobj) sio" where
  "reconcile_dispatched_lifecycle C rec d v gate idempotency_key client_key_id =
     io_bind (ledger_read (terminal_result_for_replay (cx_env C) d v gate idempotency_key)) (\<lambda>terminal.
     case terminal of
       None \<Rightarrow> terminalize_dispatched_unknown C rec client_key_id
     | Some result \<Rightarrow> terminalize_dispatched C rec client_key_id result (outcome_of result))"

definition signed_terminal_replay :: "'s service_ctx \<Rightarrow> jobj \<Rightarrow> jobj \<Rightarrow> int \<Rightarrow> int \<Rightarrow> ('s, jobj) sio" where
  "signed_terminal_replay C request rec peer_uid peer_gid =
     (case pget rec ''terminal_result'' of
        JObj terminal \<Rightarrow>
          (case (pget terminal ''status'', pget terminal ''execution_result'', pget terminal ''authenticated_client_key_id'') of
             (JStr status, JObj execution_result, JStr client_key_id) \<Rightarrow>
               if status \<in> {''completed'', ''rejected''} \<and> (pget terminal ''rejection'' = JNull \<or> is_obj (pget terminal ''rejection''))
               then signed_response C request peer_uid peer_gid status execution_result (pget terminal ''rejection'') (JStr client_key_id)
               else (\<lambda>w. (Raised (AuthorityStoreError ''terminal authority lifecycle result is malformed''), w))
           | _ \<Rightarrow> (\<lambda>w. (Raised (AuthorityStoreError ''terminal authority lifecycle result is malformed''), w)))
      | _ \<Rightarrow> (\<lambda>w. (Raised (AuthorityStoreError ''terminal authority lifecycle result is missing''), w)))"

definition complete_lifecycle_response ::
  "'s service_ctx \<Rightarrow> jobj \<Rightarrow> jobj \<Rightarrow> string \<Rightarrow> int \<Rightarrow> int \<Rightarrow> string \<Rightarrow> string \<Rightarrow> jobj \<Rightarrow> jval \<Rightarrow> string \<Rightarrow> ('s, jobj) sio" where
  "complete_lifecycle_response C request rec lease_id peer_uid peer_gid client_key_id status execution_result rejection outcome =
     io_bind (io_catch lifecycle_caught
       (io_bind (lifecycle_run C rec (\<lambda>v. Complete v lease_id outcome
            (JObj (terminal_payload status execution_result rejection client_key_id)))) (\<lambda>_. io_return None))
       (\<lambda>_. io_bind (signed_rejection C request peer_uid peer_gid ''authority_lifecycle_completion_failed'') (\<lambda>r. io_return (Some r))))
     (\<lambda>early. case early of
        Some response \<Rightarrow> io_return response
      | None \<Rightarrow> signed_response C request peer_uid peer_gid status execution_result rejection (JStr client_key_id))"

definition complete_lifecycle_rejection ::
  "'s service_ctx \<Rightarrow> jobj \<Rightarrow> jobj \<Rightarrow> string \<Rightarrow> int \<Rightarrow> int \<Rightarrow> string \<Rightarrow> string \<Rightarrow> string \<Rightarrow> ('s, jobj) sio" where
  "complete_lifecycle_rejection C request rec lease_id peer_uid peer_gid client_key_id code outcome =
     complete_lifecycle_response C request rec lease_id peer_uid peer_gid client_key_id ''rejected'' (rejected_result code)
       (rejection_of code) outcome"

section \<open>Preparation and verification\<close>

definition preflight_result :: "jobj \<Rightarrow> py_exn + jval" where
  "preflight_result result =
     (if (case pget result ''argv'' of JList as \<Rightarrow> list_all (text_matches (\<lambda>_. True)) as | _ \<Rightarrow> False)
        \<and> is_int (pget result ''returncode'') \<and> \<not> is_bool (pget result ''returncode'')
        \<and> text_matches sha256_text (pget result ''stdout_digest'') \<and> text_matches sha256_text (pget result ''stderr_digest'')
      then Inr (JObj (map (\<lambda>k. (k, pget result k)) [''argv'', ''returncode'', ''stdout_digest'', ''stderr_digest'']))
      else Inl (ValueError ''repo patch preflight result contract rejected''))"

fun preflight_results :: "jobj list \<Rightarrow> py_exn + jval list" where
  "preflight_results [] = Inr []"
| "preflight_results (r # rs) = ebind (preflight_result r) (\<lambda>x. ebind (preflight_results rs) (\<lambda>xs. Inr (x # xs)))"

definition preflight_receipt_payload :: "PreparedPatchReceipt \<Rightarrow> py_exn + jobj" where
  "preflight_receipt_payload r =
     ebind (preflight_results (rc_test_results r)) (\<lambda>test_results.
     Inr [(''state_slice'', JStr PREFLIGHT_STATE_SLICE), (''base_commit'', JStr (rc_base_commit r)), (''base_tree'', JStr (rc_base_tree r)),
          (''target_path'', JStr (rc_target_path r)), (''target_preimage_digest'', JStr (rc_target_preimage_digest r)),
          (''target_postimage_digest'', JStr (rc_target_postimage_digest r)),
          (''authorized_diff_digest'', JStr (rc_authorized_diff_digest r)), (''changed_paths'', jstrs (rc_changed_paths r)),
          (''test_results'', JList test_results)])"

text \<open>Only an object is a dictionary; \<open>Path\<close>, \<open>in\<close> and \<open>replace\<close> raise \<open>TypeError\<close> on what is no text.\<close>

fun as_text :: "jval \<Rightarrow> py_exn + string" where
  "as_text (JStr s) = Inr s"
| "as_text _ = Inl (TypeError ''expected str, bytes or os.PathLike object'')"

fun all_texts :: "jval list \<Rightarrow> string list option" where
  "all_texts [] = Some []"
| "all_texts (JStr s # xs) = map_option ((#) s) (all_texts xs)"
| "all_texts (x # xs) = None"

definition text_list :: "jval \<Rightarrow> string list option" where
  "text_list v = (case v of JList xs \<Rightarrow> all_texts xs | _ \<Rightarrow> None)"

text \<open>The checks on the decision before a workspace is made: the commands and the arguments of \<open>prepare\<close>.\<close>

record patch_arguments =
  pa_repo :: string
  pa_target :: string
  pa_allowed :: "string list"
  pa_find :: string
  pa_replace :: string

definition prepare_arguments ::
  "'s service_ctx \<Rightarrow> exec_env \<Rightarrow> Decision \<Rightarrow> EvaluationResult \<Rightarrow> string
    \<Rightarrow> py_exn + (AuthorizedTestCommand list \<times> verifier_client \<times> patch_arguments)" where
  "prepare_arguments C X d v idempotency_key =
     (let plan = execution_plan d; refuse = (\<lambda>msg. Inl (ValueError msg)) in
      if eval_decision_id v \<noteq> decision_id d \<or> \<not> passed v then refuse ''repo patch preflight evaluation rejected''
      else if final_recommendation v \<noteq> ''execute'' then refuse ''repo patch preflight requires an execute recommendation''
      else if \<not> py_eq (pget plan ''system'') (JStr ''repo_patch_service'') \<or> \<not> py_eq (pget plan ''action'') (JStr ''investigate_and_patch'')
      then refuse ''repo patch preflight action rejected''
      else ebind (pidx plan ''action'') (\<lambda>action.
      if idempotency_key \<noteq> decision_id d @ '':'' @ py_str action then refuse ''repo patch preflight idempotency binding rejected''
      else case pget plan ''parameters'' of
        JObj parameters \<Rightarrow>
          (case text_list (pget parameters ''test_commands'') of
             None \<Rightarrow> refuse ''repo patch preflight test commands rejected''
           | Some commands \<Rightarrow>
               ebind (authorize (cx_env C) X (as_policy (cx_service C)) commands) (\<lambda>authorized.
               case (pget parameters ''patch_template'', text_list (pget parameters ''allowed_paths'')) of
                 (JObj patch_template, Some allowed_paths) \<Rightarrow>
                   (case as_verifier (cx_service C) of
                      None \<Rightarrow> refuse ''repo patch authority requires the isolated verifier client''
                    | Some vc \<Rightarrow>
                        ebind (ebind (pidx parameters ''repo_path'') as_text) (\<lambda>repo.
                        ebind (ebind (pidx patch_template ''target_file'') as_text) (\<lambda>target.
                        ebind (ebind (pidx patch_template ''find'') as_text) (\<lambda>find.
                        ebind (ebind (pidx patch_template ''replace'') as_text) (\<lambda>replace.
                        Inr (authorized, vc, \<lparr>pa_repo = repo, pa_target = target, pa_allowed = allowed_paths,
                             pa_find = find, pa_replace = replace\<rparr>))))))
               | _ \<Rightarrow> refuse ''repo patch preflight patch scope rejected''))
      | _ \<Rightarrow> refuse ''repo patch preflight parameters rejected''))"

definition candidate_binding :: "PreparedRepoPatch \<Rightarrow> jobj" where
  "candidate_binding p =
     [(''base_commit'', JStr (pp_base_commit p)), (''base_tree'', JStr (pp_base_tree p)),
      (''target_path'', JStr (pp_relative_target p)), (''target_preimage_digest'', JStr (pp_target_preimage_digest p)),
      (''target_postimage_digest'', JStr (pp_target_postimage_digest p)),
      (''authorized_diff_digest'', JStr (pp_authorized_diff_digest p))]"

text \<open>The body of the \<open>try\<close>: the verifier's results for this workspace, then their acceptance.\<close>

definition accept_verified ::
  "'s service_ctx \<Rightarrow> AuthorizedTestCommand list \<Rightarrow> PreparedRepoPatch \<Rightarrow> (py_exn + jval list) \<times> jobj option \<Rightarrow> ('s, PreparedRepoPatch) sio" where
  "accept_verified C authorized p outcome =
     (case fst outcome of
        Inl e \<Rightarrow> io_raise e
      | Inr results \<Rightarrow>
          (case snd outcome of
             None \<Rightarrow> io_raise (ValueError ''repo patch verifier omitted its verified terminal receipt'')
           | Some receipt \<Rightarrow>
               io_bind (accept_verifier_results (cx_env C) (sv_ws (cx_world C)) (map (\<lambda>c. executable_path c # tl (cmd_argv c)) authorized)
                          results (Some receipt) p)
                 (\<lambda>(accepted, p'). case accepted of Inl e \<Rightarrow> (\<lambda>w. (Raised e, w)) | Inr _ \<Rightarrow> io_return p')))"

definition verify_prepared ::
  "'s service_ctx \<Rightarrow> verifier_client \<Rightarrow> AuthorizedTestCommand list \<Rightarrow> PreparedRepoPatch \<Rightarrow> ('s, PreparedRepoPatch) sio" where
  "verify_prepared C vc authorized p =
     (let E = cx_env C; N = cx_world C in
      io_bind io_tick (\<lambda>t.
      io_bind (io_lift (case sv_tree N t (pp_workspace p) of (usable, entries) \<Rightarrow> workspace_manifest_digest E usable entries)) (\<lambda>manifest.
      accept_verified C authorized p
        (verify E (cx_schemas C) (cx_ed C) (sv_net N t) (sv_peer N t) vc (last (path_parts (pp_workspace p))) manifest
           (candidate_binding p) authorized 30 65536))))"

definition prepare_verified_patch ::
  "'s service_ctx \<Rightarrow> Decision \<Rightarrow> EvaluationResult \<Rightarrow> string \<Rightarrow> string \<Rightarrow> ('s, PreparedRepoPatch) sio" where
  "prepare_verified_patch C d v idempotency_key request_id =
     io_bind io_tick (\<lambda>t.
     io_bind (io_lift (prepare_arguments C (sv_exec (cx_world C) t) d v idempotency_key)) (\<lambda>(authorized, vc, args).
     io_bind (prepare (cx_env C) (sv_ws (cx_world C)) (as_workspace_root (cx_service C)) (pa_repo args) (pa_target args)
                (pa_allowed args) (pa_find args) (pa_replace args) (idempotency_key @ '':'' @ request_id)) (\<lambda>prepared.
     io_catch (\<lambda>_. True) (verify_prepared C vc authorized prepared)
       (\<lambda>e. io_bind (close_prepared (sv_ws (cx_world C)) prepared) (\<lambda>_ w. (Raised e, w))))))"

definition closing :: "'s service_ctx \<Rightarrow> PreparedRepoPatch \<Rightarrow> ('s, unit) sio" where
  "closing C p = io_bind (close_prepared (sv_ws (cx_world C)) p) (\<lambda>_. io_return ())"

definition run_preflight :: "'s service_ctx \<Rightarrow> Decision \<Rightarrow> EvaluationResult \<Rightarrow> string \<Rightarrow> string \<Rightarrow> ('s, jobj) sio" where
  "run_preflight C d v idempotency_key request_id =
     io_bind (prepare_verified_patch C d v idempotency_key request_id) (\<lambda>prepared.
     io_finally (io_lift (preflight_receipt_payload (prepared_receipt prepared))) (closing C prepared))"

section \<open>Promotion\<close>

definition write_immutable_backup :: "ws_env \<Rightarrow> string \<Rightarrow> string \<Rightarrow> ('z, unit) io" where
  "write_immutable_backup W path content =
     io_bind (os_call W id) (\<lambda>_. io_bind io_tick (\<lambda>t. io_bind io_fs (\<lambda>fs.
     if fs_file fs path \<noteq> None \<or> ws_dir W t path
     then io_check (\<not> fs_symlink fs path \<and> fs_file fs path = Some content)
            ''authority backup path already exists with different content''
     else io_catch (\<lambda>_. True)
       (io_bind (create_exclusive W path) (\<lambda>_.
        io_bind (write_synced W path content) (\<lambda>_.
        io_bind (os_call W id) (\<lambda>_. os_call W id))))
       (\<lambda>e. io_bind io_fs (\<lambda>fs'.
          io_bind (if fs_file fs' path \<noteq> None \<and> fs_file fs' path \<noteq> Some content
                   then os_call W (set_file path None) else io_return ()) (\<lambda>_ w. (Raised e, w)))))))"

definition committed_result :: "pyenv \<Rightarrow> jobj \<Rightarrow> string \<Rightarrow> PreparedPatchReceipt \<Rightarrow> jobj \<Rightarrow> jval \<Rightarrow> jobj" where
  "committed_result E authority_receipt backup_path promoted preflight_receipt test_results =
     (let verifier_receipt = (case rc_verifier_receipt promoted of None \<Rightarrow> JNull | Some r \<Rightarrow> JObj r) in
      [(''status'', JStr ''succeeded''),
       (''external_refs'', JObj
         [(''authority_receipt'', JObj (pset authority_receipt ''target_postimage_digest'' (JStr (rc_target_postimage_digest promoted)))),
          (''backup_path'', JStr backup_path), (''patched_files'', jstrs [rc_target_path promoted]),
          (''preflight_receipt'', JObj preflight_receipt), (''test_results'', test_results),
          (''verifier_receipt'', verifier_receipt), (''verifier_receipt_digest'', JStr (cdigest E verifier_receipt))]),
       (''retryable'', JBool False)])"

text \<open>From the consumed permit to the committed patch.\<close>

definition promote_claimed ::
  "'s service_ctx \<Rightarrow> PreparedRepoPatch \<Rightarrow> jobj \<Rightarrow> string \<Rightarrow> jobj \<Rightarrow> string \<Rightarrow> string \<Rightarrow> jobj \<Rightarrow> ('s, jobj) sio" where
  "promote_claimed C p preflight_receipt idempotency_key permit target_path backup_path authority_receipt =
     io_bind (io_lift (pidx permit ''permit_id'')) (\<lambda>pid.
     io_bind (transition_call C pid ''claimed'' ''applying'' [] None) (\<lambda>_.
     io_bind (note_promotion idempotency_key) (\<lambda>_.
     io_bind (promote (cx_env C) (sv_ws (cx_world C)) p) (\<lambda>(result, _).
     case result of
       Inl e \<Rightarrow>
         if promotion_caught e
         then abort_call C permit ''applying'' (''verified worktree promotion rejected: '' @ authority_text e)
         else (\<lambda>w. (Raised e, w))
     | Inr promoted \<Rightarrow>
         io_bind (transition_call C pid ''applying'' ''applied'' [] None) (\<lambda>_.
         io_bind (io_lift (pidx preflight_receipt ''target_postimage_digest'')) (\<lambda>expected.
         io_bind io_fs (\<lambda>fs.
         io_bind (io_lift
           (if \<not> py_eq (JStr (rc_target_postimage_digest promoted)) expected then Inr False
            else ebind (file_digest (cx_env C) fs target_path) (\<lambda>current.
                 ebind (pidx permit ''target_postimage_digest'') (\<lambda>post. Inr (py_eq (JStr current) post))))) (\<lambda>matches.
         if \<not> matches then abort_call C permit ''applied'' ''verified worktree promotion postimage mismatch''
         else io_bind (transition_call C pid ''applied'' ''verifying'' [] None) (\<lambda>_.
              io_bind (io_lift (pidx preflight_receipt ''test_results'')) (\<lambda>test_results.
              let result = committed_result (cx_env C) authority_receipt backup_path promoted preflight_receipt test_results in
              io_bind (transition_call C pid ''verifying'' ''committed''
                [(''committed_postimage_digest'', JStr (rc_target_postimage_digest promoted))] (Some result)) (\<lambda>_.
              io_return result)))))))))))"

definition promote_verified_patch ::
  "'s service_ctx \<Rightarrow> PreparedRepoPatch \<Rightarrow> jobj \<Rightarrow> Decision \<Rightarrow> EvaluationResult \<Rightarrow> jobj \<Rightarrow> string \<Rightarrow> ('s, jobj) sio" where
  "promote_verified_patch C p preflight_receipt d v gate idempotency_key =
     (let E = cx_env C; S = cx_schemas C; cfg = as_permits (cx_service C); token = sv_token (cx_world C) in
      io_bind io_tick (\<lambda>t.
      io_bind (ledger_call C (\<lambda>t' now fs. issue E S cfg now fs (token t) (token t') d v gate idempotency_key 300 None None)) (\<lambda>permit.
      io_bind (io_lift (attach_hsai_execution_context E S d gate (Some permit))) (\<lambda>admitted_decision.
      io_bind (io_lift (ebind (pidx (execution_plan d) ''parameters'') as_obj)) (\<lambda>parameters.
      io_bind (io_lift (pidx permit ''target_path'')) (\<lambda>tp.
      let target_path = path_str (py_str tp) in
      io_bind io_fs (\<lambda>fs.
      io_bind (io_lift (ebind (file_digest E fs target_path) (\<lambda>dg. ebind (pidx permit ''target_preimage_digest'') (\<lambda>pre.
                 ck (py_eq (JStr dg) pre) ''repo patch source preimage changed before durable preparation'')))) (\<lambda>_.
      io_bind (io_lift (pidx permit ''permit_id'')) (\<lambda>pid.
      let backup_path = path_join (backup_directory cfg) (sha256_hex E (py_str pid) @ ''.bak'') in
      io_bind (write_immutable_backup (sv_ws (cx_world C)) backup_path (pp_original_bytes p)) (\<lambda>_.
      io_bind (transition_call C pid ''issued'' ''prepared''
        [(''backup_path'', JStr backup_path), (''repo_path'', JStr (pp_source_repo p)), (''target_path'', JStr target_path)] None) (\<lambda>_.
      io_bind (io_attempt (ledger_call C (\<lambda>t' now fs. consume E S cfg now fs permit admitted_decision idempotency_key parameters))) (\<lambda>consumed.
      case consumed of
        Inl e \<Rightarrow>
          if policy_caught e
          then abort_call C permit ''prepared'' (''repo patch permit consumption rejected: '' @ authority_text e)
          else (\<lambda>w. (Raised e, w))
      | Inr authority_receipt \<Rightarrow>
          promote_claimed C p preflight_receipt idempotency_key permit target_path backup_path authority_receipt))))))))))))"

section \<open>The handlers\<close>

text \<open>The four checks on the evaluation that the authority asked for again, in order: the code of the rejection, if any.\<close>

definition gate_fields :: "string list" where
  "gate_fields = [''allowed'', ''authority_eligible'', ''request'', ''request_digest'', ''candidate_digest'', ''reason_codes'']"

definition unavailable_reason :: "jval \<Rightarrow> bool" where
  "unavailable_reason v = (case v of JList rs \<Rightarrow> list_ex (text_matches (\<lambda>s. starts_with s ''hsai_unavailable:'')) rs | _ \<Rightarrow> False)"

definition admits :: "jobj \<Rightarrow> bool" where
  "admits gate \<longleftrightarrow> pget gate ''allowed'' = JBool True \<and> pget gate ''authority_eligible'' = JBool True"

definition stable_decision :: "jobj \<Rightarrow> py_exn + jobj" where
  "stable_decision gate = (case por (pget gate ''decision'') (JObj []) of
      JObj d \<Rightarrow> Inr (pwithout d [''created_at'', ''decision_digest''])
    | _ \<Rightarrow> Inl (TypeError ''dict''))"

definition gate_rejection :: "jobj \<Rightarrow> jobj \<Rightarrow> py_exn + string option" where
  "gate_rejection gate authority_gate =
     (if unavailable_reason (pget authority_gate ''reason_codes'') then Inr (Some ''hsai_authority_adapter_unavailable'')
      else if \<not> admits gate then Inr (Some ''admission_rejected'')
      else if \<not> list_all (\<lambda>k. py_eq (pget gate k) (pget authority_gate k)) gate_fields then Inr (Some ''hsai_authority_gate_mismatch'')
      else ebind (stable_decision gate) (\<lambda>submitted. ebind (stable_decision authority_gate) (\<lambda>current.
        if \<not> py_eq (JObj submitted) (JObj current) then Inr (Some ''hsai_authority_gate_mismatch'')
        else if \<not> admits authority_gate then Inr (Some ''admission_rejected'')
        else Inr None)))"

definition current_hsai_request :: "'s service_ctx \<Rightarrow> Decision \<Rightarrow> EvaluationResult \<Rightarrow> jobj \<Rightarrow> jobj \<Rightarrow> ('s, jobj) sio" where
  "current_hsai_request C d v gate receipt =
     (case pget gate ''request'' of
        JObj request \<Rightarrow>
          if \<not> py_eq (pget request ''schema_version'') (JStr ''mesh.hsai_admission_request.v2'')
          then io_raise (ValueError ''authority execute requires an HSAI v2 request bound to preflight evidence'')
          else io_bind (clock_now C) (\<lambda>now.
            io_lift (build_hsai_admission_request_v2 (cx_env C) (cx_schemas C) (format_time (cx_env C) now)
              (Some (str_or (pget request ''created_at'') (JStr []))) d v receipt))
      | _ \<Rightarrow> io_raise (ValueError ''authority HSAI gate request is missing''))"

text \<open>What the client sent, once authenticated and parsed.\<close>

record client_call =
  cc_request :: jobj
  cc_body :: jobj
  cc_decision :: Decision
  cc_evaluation :: EvaluationResult
  cc_operation :: string
  cc_key :: string
  cc_client :: string
  cc_uid :: int
  cc_gid :: int

definition reject_call :: "'s service_ctx \<Rightarrow> client_call \<Rightarrow> jobj \<Rightarrow> string \<Rightarrow> string \<Rightarrow> string \<Rightarrow> ('s, jobj) sio" where
  "reject_call C c rec lease_id code outcome =
     complete_lifecycle_rejection C (cc_request c) rec lease_id (cc_uid c) (cc_gid c) (cc_client c) code outcome"

definition complete_call :: "'s service_ctx \<Rightarrow> client_call \<Rightarrow> jobj \<Rightarrow> string \<Rightarrow> jobj \<Rightarrow> string \<Rightarrow> ('s, jobj) sio" where
  "complete_call C c rec lease_id execution_result outcome =
     complete_lifecycle_response C (cc_request c) rec lease_id (cc_uid c) (cc_gid c) (cc_client c) ''completed'' execution_result JNull outcome"

definition handle_leased_preflight :: "'s service_ctx \<Rightarrow> client_call \<Rightarrow> jobj \<Rightarrow> string \<Rightarrow> ('s, jobj) sio" where
  "handle_leased_preflight C c rec lease_id =
     io_bind (mark_lifecycle_dispatched C rec lease_id) (\<lambda>dispatched.
     io_bind (io_catch policy_caught
       (io_bind (io_lift (pidx (cc_body c) ''request_id'')) (\<lambda>rid.
        io_bind (run_preflight C (cc_decision c) (cc_evaluation c) (cc_key c) (py_str rid)) (\<lambda>receipt. io_return (Inr receipt))))
       (\<lambda>_. io_bind (reject_call C c dispatched lease_id ''preflight_rejected'' ''rejected'') (\<lambda>r. io_return (Inl r))))
     (\<lambda>current. case current of
        Inl response \<Rightarrow> io_return response
      | Inr receipt \<Rightarrow>
          complete_call C c dispatched lease_id
            [(''status'', JStr ''preflighted''), (''preflight_receipt'', JObj receipt), (''external_refs'', JObj []),
             (''retryable'', JBool False)] ''succeeded''))"

text \<open>The rest of \<open>_handle_leased_request\<close>, once the record is marked as dispatched.\<close>

definition execute_dispatched :: "'s service_ctx \<Rightarrow> client_call \<Rightarrow> jobj \<Rightarrow> string \<Rightarrow> jobj \<Rightarrow> ('s, jobj) sio" where
  "execute_dispatched C c dispatched lease_id authority_gate =
     io_bind (ledger_read (terminal_result_for_replay (cx_env C) (cc_decision c) (cc_evaluation c) authority_gate (cc_key c))) (\<lambda>terminal.
     case terminal of
       Some result \<Rightarrow> complete_call C c dispatched lease_id result (outcome_of result)
     | None \<Rightarrow>
         io_bind (io_catch policy_caught
           (io_bind (io_lift (pidx (cc_body c) ''request_id'')) (\<lambda>rid.
            io_bind (prepare_verified_patch C (cc_decision c) (cc_evaluation c) (cc_key c) (py_str rid)) (\<lambda>prepared. io_return (Inr prepared))))
           (\<lambda>_. io_bind (reject_call C c dispatched lease_id ''preflight_drift_rejected'' ''rejected'') (\<lambda>r. io_return (Inl r)))) (\<lambda>found.
         case found of
           Inl response \<Rightarrow> io_return response
         | Inr prepared \<Rightarrow>
             io_bind (io_finally
               (io_bind (io_lift (preflight_receipt_payload (prepared_receipt prepared))) (\<lambda>current.
                io_bind (io_lift (pidx (cc_body c) ''preflight_receipt'')) (\<lambda>receipt.
                if \<not> py_eq (JObj current) receipt
                then io_bind (reject_call C c dispatched lease_id ''preflight_drift_rejected'' ''rejected'') (\<lambda>r. io_return (Inl r))
                else io_bind (promote_verified_patch C prepared current (cc_decision c) (cc_evaluation c) authority_gate (cc_key c)) (\<lambda>result.
                     io_return (Inr result)))))
               (closing C prepared)) (\<lambda>r.
             case r of
               Inl response \<Rightarrow> io_return response
             | Inr result \<Rightarrow> complete_call C c dispatched lease_id result (outcome_of result))))"

definition handle_leased_request :: "'s service_ctx \<Rightarrow> client_call \<Rightarrow> jobj \<Rightarrow> string \<Rightarrow> ('s, jobj) sio" where
  "handle_leased_request C c rec lease_id =
     (if cc_operation c = ''preflight'' then handle_leased_preflight C c rec lease_id
      else io_bind (io_lift (ebind (pidx (cc_body c) ''hsai_gate'') as_obj)) (\<lambda>gate.
      io_bind (io_lift (ebind (pidx (cc_body c) ''preflight_receipt'') as_obj)) (\<lambda>receipt.
      io_bind (current_hsai_request C (cc_decision c) (cc_evaluation c) gate receipt) (\<lambda>current_request.
      case as_adapter (cx_service C) of
        None \<Rightarrow> reject_call C c rec lease_id ''hsai_authority_adapter_unavailable'' ''rejected''
      | Some adapter \<Rightarrow>
          if \<not> ad_eligible adapter \<or> ad_identity adapter = []
          then reject_call C c rec lease_id ''hsai_authority_adapter_unavailable'' ''rejected''
          else io_bind io_tick (\<lambda>t.
            io_bind (io_lift (evaluate_hsai_gate (cx_env C) (cx_schemas C) (format_time (cx_env C) (sv_clock (cx_world C) t))
                       (ad_admit adapter t) True current_request)) (\<lambda>authority_gate.
            io_bind (io_lift (validate_bridge_gate (cx_env C) (cx_schemas C) authority_gate (Some (cc_decision c)) (Some (cc_evaluation c))
                       (Some True))) (\<lambda>_.
            io_bind (io_lift (gate_rejection gate authority_gate)) (\<lambda>rejected.
            case rejected of
              Some code \<Rightarrow> reject_call C c rec lease_id code ''rejected''
            | None \<Rightarrow>
                io_bind (mark_lifecycle_dispatched C rec lease_id) (\<lambda>dispatched.
                execute_dispatched C c dispatched lease_id authority_gate)))))))))"

section \<open>A request\<close>

definition evaluation_required :: "string list" where
  "evaluation_required = [''evaluation_id'', ''decision_id'', ''passed'', ''final_recommendation'', ''stage_results'', ''blocking_reasons'']"

definition evaluation_from_payload :: "jval \<Rightarrow> py_exn + EvaluationResult" where
  "evaluation_from_payload payload =
     (case payload of
        JObj p \<Rightarrow>
          if \<not> set evaluation_required \<subseteq> set (map fst p) \<or> \<not> set (map fst p) \<subseteq> set (''review_route'' # evaluation_required)
          then Inl (ValueError ''authority evaluation payload fields rejected'')
          else (case (pget p ''evaluation_id'', pget p ''decision_id'') of
            (JStr eid, JStr did) \<Rightarrow>
              (case (pget p ''passed'', pget p ''final_recommendation'') of
                (JBool ok, JStr recommendation) \<Rightarrow>
                  (case pget p ''stage_results'' of
                     JObj stages \<Rightarrow>
                       (case text_list (pget p ''blocking_reasons'') of
                          Some reasons \<Rightarrow>
                            (case pget p ''review_route'' of
                               JNull \<Rightarrow> Inr \<lparr>evaluation_id = eid, eval_decision_id = did, passed = ok, final_recommendation = recommendation,
                                           stage_results = stages, blocking_reasons = reasons, review_route = None\<rparr>
                             | JStr route \<Rightarrow> Inr \<lparr>evaluation_id = eid, eval_decision_id = did, passed = ok, final_recommendation = recommendation,
                                           stage_results = stages, blocking_reasons = reasons, review_route = Some route\<rparr>
                             | _ \<Rightarrow> Inl (ValueError ''authority evaluation review route rejected''))
                        | None \<Rightarrow> Inl (ValueError ''authority evaluation blocking reasons rejected''))
                   | _ \<Rightarrow> Inl (ValueError ''authority evaluation stage results rejected''))
              | _ \<Rightarrow> Inl (ValueError ''authority evaluation verdict fields rejected''))
          | _ \<Rightarrow> Inl (ValueError ''authority evaluation identity fields rejected''))
      | _ \<Rightarrow> Inl (ValueError ''authority evaluation payload must be an object''))"

text \<open>The call, parsed, or the response that turns it away.\<close>

definition parse_call :: "'s service_ctx \<Rightarrow> jobj \<Rightarrow> jobj \<Rightarrow> string \<Rightarrow> int \<Rightarrow> int \<Rightarrow> ('s, jobj + client_call) sio" where
  "parse_call C request body client_key_id peer_uid peer_gid =
     io_bind (io_lift (validate_authority_request_operation body)) (\<lambda>_.
     io_bind (io_lift (ebind (ebind (pidx body ''decision'') as_obj) (decision_from_dict (cx_schemas C)))) (\<lambda>decision.
     io_bind (io_lift (ebind (pidx body ''evaluation'') evaluation_from_payload)) (\<lambda>evaluation.
     io_bind (io_lift (key_in CONTEXT_KEY (pget_or (execution_plan decision) ''parameters'' (JObj [])))) (\<lambda>attached.
     if attached
     then io_bind (signed_rejection C request peer_uid peer_gid ''pre_attached_permit_rejected'') (\<lambda>r. io_return (Inl r))
     else io_bind (io_lift (pidx body ''idempotency_key'')) (\<lambda>ik.
     io_bind (io_lift (pidx body ''operation'')) (\<lambda>op.
     io_return (Inr \<lparr>cc_request = request, cc_body = body, cc_decision = decision, cc_evaluation = evaluation,
       cc_operation = py_str op, cc_key = py_str ik, cc_client = client_key_id, cc_uid = peer_uid, cc_gid = peer_gid\<rparr>)))))))"

text \<open>Who sent the request and when.\<close>

definition pinned_key :: "'s service_ctx \<Rightarrow> string \<Rightarrow> string" where
  "pinned_key C client_key_id = (case map_of (as_client_keys (cx_service C)) client_key_id of None \<Rightarrow> [] | Some k \<Rightarrow> k)"

definition authenticate :: "'s service_ctx \<Rightarrow> jobj \<Rightarrow> int \<Rightarrow> int \<Rightarrow> ('s, jobj + client_call) sio" where
  "authenticate C request peer_uid peer_gid =
     (let away = (\<lambda>code. io_bind (signed_rejection C request peer_uid peer_gid code) (\<lambda>r. io_return (Inl r))) in
      io_bind (io_lift (validate_payload (cx_schemas C ''repo-patch-authority-request.schema.json'') (JObj request))) (\<lambda>_.
      io_bind (io_lift (ebind (pidx request ''body'') as_obj)) (\<lambda>body.
      io_bind (io_lift (ebind (pidx request ''authorization_proof'') as_obj)) (\<lambda>pf.
      io_bind (io_check (py_eq (pget body ''schema_version'') (JStr AUTHORITY_REQUEST_VERSION)) ''request version mismatch'') (\<lambda>_.
      let client_key_id = str_or (pget body ''client_key_id'') (JStr []) in
      if \<not> py_eq (pget pf ''key_id'') (JStr client_key_id) \<or> \<not> py_eq (pget pf ''signing_profile'') (JStr CLIENT_REQUEST_SIGNING_PROFILE)
      then away ''client_signature_rejected''
      else io_bind (io_lift (if pinned_key C client_key_id = [] then Inr False
                 else verify_ed25519_signature_proof (cx_env C) (cx_ed C) body pf (pinned_key C client_key_id))) (\<lambda>verified.
      if \<not> verified then away ''client_signature_rejected''
      else io_bind (request_time_is_valid C body) (\<lambda>fresh.
      if \<not> fresh then away ''request_time_rejected''
      else parse_call C request body client_key_id peer_uid peer_gid)))))))"

text \<open>The lease of a fresh call, or the answer to one that already ran or runs.\<close>

definition take_lease :: "'s service_ctx \<Rightarrow> client_call \<Rightarrow> ('s, jobj + (jobj \<times> string)) sio" where
  "take_lease C c =
     io_bind (issue_authority_lifecycle C (cc_body c) (cc_client c) (cc_uid c) (cc_gid c)) (\<lambda>rec.
     let replay = (\<lambda>r. io_bind (signed_terminal_replay C (cc_request c) r (cc_uid c) (cc_gid c)) (\<lambda>x. io_return (Inl x))) in
     if py_eq (pget rec ''state'') (JStr ''terminal'') then replay rec
     else if py_eq (pget rec ''state'') (JStr ''dispatched'')
     then io_bind (if cc_operation c = ''execute''
            then io_bind (io_lift (ebind (pidx (cc_body c) ''hsai_gate'') as_obj)) (\<lambda>gate.
                 reconcile_dispatched_lifecycle C rec (cc_decision c) (cc_evaluation c) gate (cc_key c) (cc_client c))
            else terminalize_dispatched_unknown C rec (cc_client c)) replay
     else if \<not> str_in (pget rec ''state'') [''issued'', ''leased'']
     then (\<lambda>w. (Raised (AuthorityStateError ''authority lifecycle state is not recoverable for dispatch''), w))
     else io_bind io_tick (\<lambda>t.
       let lease_id = ''authority_lease_'' @ sv_token (cx_world C) t in
       io_bind (lifecycle_run C rec (\<lambda>v. Lease v lease_id (JInt 30))) (\<lambda>leased. io_return (Inr (leased, lease_id)))))"

definition handle_authenticated :: "'s service_ctx \<Rightarrow> client_call \<Rightarrow> ('s, jobj) sio" where
  "handle_authenticated C c =
     io_bind (io_catch lifecycle_caught (take_lease C c)
       (\<lambda>_. io_bind (signed_rejection C (cc_request c) (cc_uid c) (cc_gid c) ''authority_lifecycle_conflict'') (\<lambda>r. io_return (Inl r)))) (\<lambda>leased.
     case leased of
       Inl response \<Rightarrow> io_return response
     | Inr (rec, lease_id) \<Rightarrow>
         io_catch (\<lambda>_. True) (handle_leased_request C c rec lease_id)
           (\<lambda>e. if policy_caught e then reject_call C c rec lease_id ''authority_policy_rejected'' ''rejected''
                else reject_call C c rec lease_id ''authority_internal_failure'' ''failed''))"

definition handle_request :: "'s service_ctx \<Rightarrow> jobj \<Rightarrow> int \<Rightarrow> int \<Rightarrow> ('s, jobj) sio" where
  "handle_request C request peer_uid peer_gid =
     (if peer_uid \<notin> set (as_allowed_uids (cx_service C))
      then signed_rejection C request peer_uid peer_gid ''peer_identity_rejected''
      else io_catch (\<lambda>_. True)
        (io_bind (authenticate C request peer_uid peer_gid) (\<lambda>r. case r of Inl response \<Rightarrow> io_return response | Inr c \<Rightarrow> handle_authenticated C c))
        (\<lambda>e. signed_rejection C request peer_uid peer_gid
               (if policy_caught e then ''authority_policy_rejected'' else ''authority_internal_failure'')))"

text \<open>\<open>handle_connection\<close>: what is left of the stream is not read; the bytes of the response go out, or nothing.\<close>

definition handle_connection :: "'s service_ctx \<Rightarrow> connection \<Rightarrow> int \<Rightarrow> int \<Rightarrow> ('s, connection) sio" where
  "handle_connection C conn peer_uid peer_gid =
     io_bind (io_catch (\<lambda>_. True)
       (io_bind (io_lift (receive_json_frame conn (as_max_frame (cx_service C)))) (\<lambda>(request, conn').
        io_bind (io_attempt (handle_request C request peer_uid peer_gid)) (\<lambda>r. io_return (request, r))))
       (\<lambda>e. io_return ([], Inl e))) (\<lambda>(request, r).
     io_bind (case r of Inr response \<Rightarrow> io_return response | Inl _ \<Rightarrow> signed_rejection C request peer_uid peer_gid ''invalid_request_frame'') (\<lambda>response.
     case send_json_frame conn response (as_max_frame (cx_service C)) of
       Inr conn' \<Rightarrow> io_return conn'
     | Inl e \<Rightarrow> (case e of OSError _ \<Rightarrow> io_return conn | RuntimeError _ \<Rightarrow> io_return conn | _ \<Rightarrow> io_raise e)))"

end
