(* ===== verification/Authority_Service_Props.thy ===== *)
theory Authority_Service_Props
  imports Authority_Service Authority_Postgres Patch_Workspace_Props
begin

text \<open>
  What the authority service guarantees over any sequence of requests, with a crash at any effect: the store moves only by its
  own transitions, a patch is promoted at most once for an idempotency key, and only for a request that was authorised.
\<close>

section \<open>Programs that promote at most once\<close>

text \<open>
  \<open>reaches\<close>: from the first state to the second the counter of outside answers did not go back and the store made steps.
  \<open>may_promote\<close>: besides, at most one promotion was noted: of \<open>key\<close>, and only when \<open>P\<close> holds of the stretch between the two states.
  What \<open>P\<close> says of a stretch it must say of every longer one.
\<close>

definition reaches :: "('s \<Rightarrow> 's \<Rightarrow> bool) \<Rightarrow> 's service_world \<Rightarrow> 's service_world \<Rightarrow> bool" where
  "reaches step w w' \<longleftrightarrow> m_tick w \<le> m_tick w' \<and> step\<^sup>*\<^sup>* (w_store w) (w_store w')"

definition may_promote ::
  "('s \<Rightarrow> 's \<Rightarrow> bool) \<Rightarrow> string \<Rightarrow> ('s service_world \<Rightarrow> 's service_world \<Rightarrow> bool) \<Rightarrow> 's service_world \<Rightarrow> 's service_world \<Rightarrow> bool" where
  "may_promote step key P w w' \<longleftrightarrow> reaches step w w'
     \<and> (w_promotions w' = w_promotions w \<or> P w w' \<and> w_promotions w' = w_promotions w @ [key])"

abbreviation quiet :: "('s \<Rightarrow> 's \<Rightarrow> bool) \<Rightarrow> 's service_world \<Rightarrow> 's service_world \<Rightarrow> bool" where
  "quiet step \<equiv> may_promote step [] (\<lambda>_ _. False)"

definition extends :: "('s \<Rightarrow> 's \<Rightarrow> bool) \<Rightarrow> ('s service_world \<Rightarrow> 's service_world \<Rightarrow> bool) \<Rightarrow> bool" where
  "extends step P \<longleftrightarrow> (\<forall>w w1 w2 w'. reaches step w w1 \<longrightarrow> P w1 w2 \<longrightarrow> reaches step w2 w' \<longrightarrow> P w w')"

lemma reaches_refl [simp]: "reaches step w w"
  by (simp add: reaches_def)

lemma reaches_trans [trans]: "reaches step w w1 \<Longrightarrow> reaches step w1 w2 \<Longrightarrow> reaches step w w2"
  by (auto simp: reaches_def)

lemma extends_simps [simp]: "extends step (\<lambda>_ _. Q)"
  by (simp add: extends_def)

lemma extends_conj [intro]: "extends step P \<Longrightarrow> extends step Q \<Longrightarrow> extends step (\<lambda>w w'. P w w' \<and> Q w w')"
  unfolding extends_def by blast

lemma extends_imp: "extends step P \<Longrightarrow> extends step (\<lambda>w w'. Q \<longrightarrow> P w w')"
  unfolding extends_def by blast

lemma extends_from: "extends step P \<Longrightarrow> extends step (\<lambda>a b. reaches step w1 a \<longrightarrow> P w b)"
  unfolding extends_def by (metis reaches_trans reaches_refl)

lemma quiet_rules [simp]: "reflp (quiet step)" "transp (quiet step)"
  by (auto simp: may_promote_def reflp_def transp_def intro: reaches_trans)

lemma may_promote_refl [simp]: "reflp (may_promote step k P)"
  by (auto simp: may_promote_def reflp_def)

lemma quiet_may: "quiet step w w' \<Longrightarrow> may_promote step k P w w'"
  by (auto simp: may_promote_def)

lemma quiet_then_may: "extends step P \<Longrightarrow> quiet step w w1 \<Longrightarrow> may_promote step k P w1 w2 \<Longrightarrow> may_promote step k P w w2"
  unfolding may_promote_def extends_def by (metis reaches_refl reaches_trans)

lemma may_then_quiet: "extends step P \<Longrightarrow> may_promote step k P w w1 \<Longrightarrow> quiet step w1 w2 \<Longrightarrow> may_promote step k P w w2"
  unfolding may_promote_def extends_def by (metis reaches_refl reaches_trans)

lemma keeps_quiet_may: "io_keeps (quiet step) m \<Longrightarrow> io_keeps (may_promote step k P) m"
  by (auto simp: io_keeps_def intro: quiet_may)

lemma keeps_raised [keeps]: "reflp R \<Longrightarrow> io_keeps R (\<lambda>w. (Raised e, w))"
  by (simp add: io_keeps_def reflp_def)

lemma keeps_control [keeps]:
  "io_keeps R m \<Longrightarrow> io_keeps R n \<Longrightarrow> io_keeps R (if b then m else n)"
  "(\<And>a b. io_keeps R (f a b)) \<Longrightarrow> io_keeps R (case_prod f p)"
  "io_keeps R m \<Longrightarrow> (\<And>x. io_keeps R (g x)) \<Longrightarrow> io_keeps R (case_option m g opt)"
  "(\<And>x. io_keeps R (g1 x)) \<Longrightarrow> (\<And>x. io_keeps R (g2 x)) \<Longrightarrow> io_keeps R (case_sum g1 g2 s)"
  "io_keeps R m \<Longrightarrow> (\<And>x xs. io_keeps R (h x xs)) \<Longrightarrow> io_keeps R (case_list m h l)"
  "(\<And>x. io_keeps R (c x)) \<Longrightarrow> io_keeps R (Let y c)"
  by (auto split: prod.split option.split sum.split list.split)

lemma keeps_case_jval [keeps]:
  "\<lbrakk>io_keeps R a; \<And>x. io_keeps R (b x); \<And>x. io_keeps R (c x); \<And>x. io_keeps R (d x); \<And>x. io_keeps R (e x); \<And>x. io_keeps R (f x);
    \<And>x. io_keeps R (g x)\<rbrakk> \<Longrightarrow> io_keeps R (case_jval a b c d e f g v)"
  by (cases v) auto

text \<open>Sequencing with one side quiet.\<close>

lemma keeps_bind_left:
  assumes "io_keeps Q m" and "\<And>x. io_keeps R (f x)" and "\<And>w w1 w2. Q w w1 \<Longrightarrow> R w1 w2 \<Longrightarrow> R w w2" and "\<And>w w1. Q w w1 \<Longrightarrow> R w w1"
  shows "io_keeps R (io_bind m f)"
  unfolding io_keeps_def
proof
  fix w
  obtain r w1 where w1: "m w = (r, w1)" by fastforce
  then have q: "Q w w1" using io_keepsD [OF assms(1)] by blast
  have "R w1 (snd (f x w1))" for x using assms(2) by (simp add: io_keeps_def)
  with q show "R w (snd (io_bind m f w))" using w1 assms(3,4) by (cases r) (auto simp: io_bind_def)
qed

lemma keeps_bind_may:
  "extends step P \<Longrightarrow> io_keeps (quiet step) m \<Longrightarrow> (\<And>x. io_keeps (may_promote step k P) (f x)) \<Longrightarrow> io_keeps (may_promote step k P) (io_bind m f)"
  by (rule keeps_bind_left [where Q = "quiet step"]) (auto intro: quiet_then_may quiet_may)

lemma keeps_may_bind:
  "extends step P \<Longrightarrow> io_keeps (may_promote step k P) m \<Longrightarrow> (\<And>x. io_keeps (quiet step) (f x)) \<Longrightarrow> io_keeps (may_promote step k P) (io_bind m f)"
  unfolding io_keeps_def
proof (intro allI)
  fix w assume P: "extends step P" and m: "\<forall>w. may_promote step k P w (snd (m w))" and f: "\<And>x. \<forall>w. quiet step w (snd (f x w))"
  obtain r w1 where w1: "m w = (r, w1)" by fastforce
  then have "may_promote step k P w w1" using m by (metis snd_conv)
  then show "may_promote step k P w (snd (io_bind m f w))"
    using w1 f by (cases r) (auto simp: io_bind_def intro: may_then_quiet [OF P])
qed

lemma keeps_may_catch:
  "extends step P \<Longrightarrow> io_keeps (may_promote step k P) m \<Longrightarrow> (\<And>e. io_keeps (quiet step) (h e)) \<Longrightarrow> io_keeps (may_promote step k P) (io_catch caught m h)"
  unfolding io_keeps_def
proof (intro allI)
  fix w assume P: "extends step P" and m: "\<forall>w. may_promote step k P w (snd (m w))" and h: "\<And>e. \<forall>w. quiet step w (snd (h e w))"
  obtain r w1 where w1: "m w = (r, w1)" by fastforce
  then have "may_promote step k P w w1" using m by (metis snd_conv)
  then show "may_promote step k P w (snd (io_catch caught m h w))"
    using w1 h by (cases r) (auto simp: io_catch_def intro: may_then_quiet [OF P])
qed

lemma keeps_may_finally:
  "extends step P \<Longrightarrow> io_keeps (may_promote step k P) m \<Longrightarrow> io_keeps (quiet step) fin \<Longrightarrow> io_keeps (may_promote step k P) (io_finally m fin)"
  unfolding io_keeps_def
proof (intro allI)
  fix w assume P: "extends step P" and m: "\<forall>w. may_promote step k P w (snd (m w))" and f: "\<forall>w. quiet step w (snd (fin w))"
  obtain r w1 where w1: "m w = (r, w1)" by fastforce
  obtain r2 w2 where w2: "fin w1 = (r2, w2)" by fastforce
  have "may_promote step k P w w1" "quiet step w1 w2" using m f w1 w2 by (metis snd_conv)+
  then show "may_promote step k P w (snd (io_finally m fin w))"
    using w1 w2 by (cases r; cases r2) (auto simp: io_finally_def io_bind_def intro: may_then_quiet [OF P])
qed

lemma keeps_lift_bind:
  "reflp R \<Longrightarrow> (\<And>x. r = Inr x \<Longrightarrow> io_keeps R (f x)) \<Longrightarrow> io_keeps R (io_bind (io_lift r) f)"
  by (cases r) (auto intro: keeps_raise)

text \<open>The value of a quiet part, with the states it was computed between.\<close>

lemma keeps_bind_value:
  assumes "io_keeps (quiet step) m"
    and "\<And>x w w1. m w = (Done x, w1) \<Longrightarrow> io_keeps (may_promote step k (\<lambda>a b. reaches step w1 a \<longrightarrow> P w b)) (f x)"
  shows "io_keeps (may_promote step k P) (io_bind m f)"
  unfolding io_keeps_def
proof
  fix w
  obtain r w1 where w1: "m w = (r, w1)" by fastforce
  have q: "quiet step w w1" using io_keepsD [OF assms(1) w1] .
  have "may_promote step k (\<lambda>a b. reaches step w1 a \<longrightarrow> P w b) w1 (snd (f x w1))" if "r = Done x" for x
    using assms(2) [of w x w1] w1 that by (simp add: io_keeps_def)
  then have "may_promote step k P w (snd (f x w1))" if "r = Done x" for x
    using that q unfolding may_promote_def by (metis reaches_refl reaches_trans)
  then show "may_promote step k P w (snd (io_bind m f w))"
    using w1 q by (cases r) (auto simp: io_bind_def intro: quiet_may)
qed

lemma keeps_may_weaken:
  "io_keeps (may_promote step k (\<lambda>_ _. True)) m \<Longrightarrow> (\<And>a b. reaches step a b \<Longrightarrow> P a b) \<Longrightarrow> io_keeps (may_promote step k P) m"
  by (auto simp: io_keeps_def may_promote_def)

section \<open>The quiet parts\<close>

lemma keeps_quiet_prim [keeps]:
  "io_keeps (quiet step) io_tick" "io_keeps (quiet step) (io_effect f)" "io_keeps (quiet step) (ledger_call C g)"
  "io_keeps (quiet step) (ledger_read h)" "io_keeps (quiet step) (abort_call C permit st reason)"
  by (auto simp: io_keeps_def may_promote_def reaches_def io_effect_def io_lift_def ledger_call_def ledger_read_def abort_call_def Let_def
      split: prod.split sum.split)

lemma keeps_quiet_write_loop [keeps]: "io_keeps (quiet step) (write_loop W path view)"
proof -
  have "quiet step w (snd (write_loop W path view w))" for w
  proof (induction W path view w rule: write_loop.induct)
    case (1 W path view w)
    obtain r w1 where s: "os_write W path view w = (r, w1)" by fastforce
    have q: "quiet step w w1" using s by (auto simp: os_write_def dest: io_keepsD [OF keeps_quiet_prim(2)])
    have "n \<noteq> 0 \<Longrightarrow> r = Done n \<Longrightarrow> view \<noteq> [] \<Longrightarrow> quiet step w1 (snd (write_loop W path (drop n view) w1))" for n
      using 1 s by auto
    then show ?case
      using s q by (cases r) (auto simp: write_loop.simps [of W path view w] intro: transpD [OF quiet_rules(2)] reaches_trans simp: may_promote_def)
  qed
  then show ?thesis by (simp add: io_keeps_def)
qed

lemmas effect_defs = os_call_def os_write_def create_exclusive_def os_replace_def worktree_remove_def worktree_add_def os_append_def transition_call_def

lemma keeps_quiet_files [keeps]:
  "io_keeps (quiet step) (os_call W f)" "io_keeps (quiet step) (create_exclusive W path)" "io_keeps (quiet step) (os_replace W a b)"
  "io_keeps (quiet step) (worktree_remove W a b)" "io_keeps (quiet step) (worktree_add W a b c)"
  "io_keeps (quiet step) (os_append W path view)" "io_keeps (quiet step) (transition_call C pid st st' details terminal)"
  unfolding effect_defs by (intro keeps)+

lemma keeps_quiet_flush [keeps]: "io_keeps (quiet step) (flush_loop W path view)"
proof -
  have "quiet step w (snd (flush_loop W path view w))" for w
  proof (induction W path view w rule: flush_loop.induct)
    case (1 W path view w)
    obtain r w1 where s: "os_append W path view w = (r, w1)" by fastforce
    have q: "quiet step w w1" using io_keepsD [OF keeps_quiet_files(6) s] .
    have "r = Done n \<Longrightarrow> view \<noteq> [] \<Longrightarrow> quiet step w1 (snd (flush_loop W path (drop n view) w1))" for n
      using 1 s by auto
    then show ?case
      using s q by (cases r) (auto simp: flush_loop.simps [of W path view w] intro: transpD [OF quiet_rules(2)] reaches_trans simp: may_promote_def)
  qed
  then show ?thesis by (simp add: io_keeps_def)
qed

lemma keeps_quiet_backup [keeps]:
  "io_keeps (quiet step) (write_synced W path content)" "io_keeps (quiet step) (write_immutable_backup W path content)"
  unfolding write_immutable_backup_def write_synced_def by (intro keeps; simp)+

lemma keeps_quiet_git [keeps]:
  "io_keeps (quiet step) (git_raw W repo args)" "io_keeps (quiet step) (run_git W repo args)"
  unfolding run_git_def git_raw_def by (intro keeps; simp)+

lemma keeps_quiet_contained [keeps]:
  "io_keeps (quiet step) (read_contained_regular_file W repo rel label)"
  "io_keeps (quiet step) (contained_file_digest E W repo rel label)"
  "io_keeps (quiet step) (reopened_digest E W repo rel label)"
  "io_keeps (quiet step) (write_descriptor W path payload)"
  "io_keeps (quiet step) (write_contained_regular_file W repo rel payload label)"
  unfolding contained_file_digest_def read_contained_regular_file_def reopened_digest_def write_contained_regular_file_def write_descriptor_def
  by (intro keeps; simp)+

lemma keeps_quiet_promotion [keeps]:
  "io_keeps (quiet step) (promote_contained_regular_file E W repo rel pre updated post)"
  "io_keeps (quiet step) (promotion_checks E W p)"
  unfolding promote_contained_regular_file_def staged_promotion_def promotion_checks_def by (intro keeps; simp)+

lemma keeps_quiet_promote [keeps]: "io_keeps (quiet step) (promote E W p)"
  unfolding promote_def by (intro keeps; simp)

lemma keeps_quiet_changed [keeps]: "io_keeps (quiet step) (changed_paths W ws)"
  "io_keeps (quiet step) (validate_git_index_regular_blob W repo rel label)" "io_keeps (quiet step) (rmtree_left W ws)"
  unfolding changed_paths_def validate_git_index_regular_blob_def rmtree_left_def by (intro keeps; simp)+

lemma keeps_quiet_prepared [keeps]:
  "io_keeps (quiet step) (accept_verifier_results E W commands results receipt p)"
  "io_keeps (quiet step) (close_prepared W p)"
  "io_keeps (quiet step) (prepare E W ws_root repo target allowed anchor repl wid)"
  unfolding Let_def accept_verifier_results_def close_prepared_def prepare_def prepare_source_def prepare_images_def prepare_workspace_def
  by (intro keeps; simp)+

lemma keeps_quiet_clock [keeps]: "io_keeps (quiet step) (clock_now C)"
  unfolding clock_now_def by (intro keeps; simp)

lemma keeps_quiet_signed [keeps]:
  "io_keeps (quiet step) (signed_response C request uid gid status result rejection client)"
  "io_keeps (quiet step) (signed_rejection C request uid gid code)"
  "io_keeps (quiet step) (signed_terminal_replay C request rec uid gid)"
  "io_keeps (quiet step) (request_time_is_valid C body)"
  unfolding signed_rejection_def signed_terminal_replay_def signed_response_def request_time_is_valid_def by (intro keeps; simp)+

lemma keeps_quiet_parse [keeps]: "io_keeps (quiet step) (parse_call C request body client uid gid)"
  unfolding parse_call_def by (intro keeps; simp)

lemma keeps_quiet_authenticate [keeps]: "io_keeps (quiet step) (authenticate C request uid gid)"
  unfolding authenticate_def Let_def by (intro keeps; simp)

lemma keeps_quiet_prepare [keeps]:
  "io_keeps (quiet step) (prepare_verified_patch C d v ik rid)" "io_keeps (quiet step) (closing C p)"
  "io_keeps (quiet step) (run_preflight C d v ik rid)" "io_keeps (quiet step) (current_hsai_request C d v gate receipt)"
  unfolding run_preflight_def closing_def prepare_verified_patch_def verify_prepared_def accept_verified_def current_hsai_request_def by (intro keeps; simp)+

section \<open>What a promotion rests on\<close>

text \<open>Every part keeps the counter of outside answers from going back.\<close>

lemma tick_mono:
  fixes m :: "('s, 'a) sio"
  shows "io_keeps (quiet (\<lambda>_ _. False)) m \<Longrightarrow> m w = (r, w1) \<Longrightarrow> m_tick w \<le> m_tick w1"
  using io_keepsD [of "quiet (\<lambda>_ _. False)" m w r w1] by (simp add: may_promote_def reaches_def)

text \<open>
  Between \<open>a\<close> and \<open>b\<close> the patch of the call was prepared and verified: the commands of its decision are authorised by the policy, the
  verifier, asked at answer \<open>t\<close> for these commands on the workspace as it is then, returns one accepted result for each command and
  a response that \<open>verify\<close> accepts (its signature, its binding to this job and to the workspace manifest), the prepared patch
  carries these results and this response, and its receipt is the one the client sent.
\<close>

definition reprepared :: "'s service_ctx \<Rightarrow> client_call \<Rightarrow> 's service_world \<Rightarrow> 's service_world \<Rightarrow> bool" where
  "reprepared C c a b \<longleftrightarrow> (\<exists>rid prepared authorized vc args t manifest results response receipt.
     pidx (cc_body c) ''request_id'' = Inr rid
   \<and> prepare_verified_patch C (cc_decision c) (cc_evaluation c) (cc_key c) (py_str rid) a = (Done prepared, b)
   \<and> prepare_arguments C (sv_exec (cx_world C) (m_tick a)) (cc_decision c) (cc_evaluation c) (cc_key c) = Inr (authorized, vc, args)
   \<and> m_tick a \<le> t \<and> t < m_tick b
   \<and> (case sv_tree (cx_world C) t (pp_workspace prepared) of (usable, entries) \<Rightarrow>
        workspace_manifest_digest (cx_env C) usable entries) = Inr manifest
   \<and> verify (cx_env C) (cx_schemas C) (cx_ed C) (sv_net (cx_world C) t) (sv_peer (cx_world C) t) vc
        (last (path_parts (pp_workspace prepared))) manifest (candidate_binding prepared) authorized 30 65536 = (Inr results, Some response)
   \<and> length results = length authorized
   \<and> list_all2 (\<lambda>(command, result) r. accepted_result command result r)
        (zip (map (\<lambda>x. executable_path x # tl (cmd_argv x)) authorized) results) (pp_test_results prepared)
   \<and> pp_verifier_receipt prepared = Some response
   \<and> preflight_receipt_payload (prepared_receipt prepared) = Inr receipt
   \<and> py_eq (JObj receipt) (pget (cc_body c) ''preflight_receipt''))"

definition receipt_agreed :: "'s service_ctx \<Rightarrow> client_call \<Rightarrow> 's service_world \<Rightarrow> 's service_world \<Rightarrow> bool" where
  "receipt_agreed C c w w' \<longleftrightarrow> (\<exists>a b. m_tick w \<le> m_tick a \<and> m_tick b \<le> m_tick w' \<and> reprepared C c a b)"

lemma extends_receipt [intro]: "extends step (receipt_agreed C c)"
  unfolding extends_def receipt_agreed_def reaches_def by (meson order_trans)

lemma prepare_Done:
  assumes "prepare E W base_dir repo target allowed find_text replace_text wid w = (Done p, w1)"
  shows "pp_test_results p = []"
proof -
  obtain source ws base tree pre original updated where
    "p = prepared_init E source ws target (map path_str allowed) base tree pre original updated"
    using assms unfolding prepare_def Let_def by (auto simp: io_bind_Done split: prod.splits)
  then show ?thesis by (simp add: prepared_init_def)
qed

lemma accept_verified_Done:
  assumes "accept_verified C authorized p outcome w = (Done prepared, w1)"
  shows "\<exists>results response rs. outcome = (Inr results, Some response) \<and> length results = length authorized
    \<and> list_all2 (\<lambda>(command, result) r. accepted_result command result r)
        (zip (map (\<lambda>x. executable_path x # tl (cmd_argv x)) authorized) results) rs
    \<and> prepared = p\<lparr>pp_test_results := pp_test_results p @ rs, pp_changed_paths := [pp_relative_target p],
         pp_verifier_receipt := Some response, pp_verified := True\<rparr>"
proof -
  let ?commands = "map (\<lambda>x. executable_path x # tl (cmd_argv x)) authorized"
  obtain results response rc where "outcome = (Inr results, Some response)"
      and a: "accept_verifier_results (cx_env C) (sv_ws (cx_world C)) ?commands results (Some response) p w = (Done (Inr rc, prepared), w1)"
    using assms by (cases outcome) (auto simp: accept_verified_def io_bind_Done split: sum.splits option.splits, (metis sum.exhaust)+)
  then show ?thesis using accept_results_Inr [OF a] by auto
qed

lemma prepare_verified_Done:
  assumes "prepare_verified_patch C d v ik rid w = (Done prepared, w1)"
  shows "\<exists>authorized vc args t manifest results response.
     prepare_arguments C (sv_exec (cx_world C) (m_tick w)) d v ik = Inr (authorized, vc, args)
   \<and> m_tick w \<le> t \<and> t < m_tick w1
   \<and> (case sv_tree (cx_world C) t (pp_workspace prepared) of (usable, entries) \<Rightarrow>
        workspace_manifest_digest (cx_env C) usable entries) = Inr manifest
   \<and> verify (cx_env C) (cx_schemas C) (cx_ed C) (sv_net (cx_world C) t) (sv_peer (cx_world C) t) vc
        (last (path_parts (pp_workspace prepared))) manifest (candidate_binding prepared) authorized 30 65536 = (Inr results, Some response)
   \<and> length results = length authorized
   \<and> list_all2 (\<lambda>(command, result) r. accepted_result command result r)
        (zip (map (\<lambda>x. executable_path x # tl (cmd_argv x)) authorized) results) (pp_test_results prepared)
   \<and> pp_verifier_receipt prepared = Some response"
proof -
  obtain authorized vc args p w2 where args: "prepare_arguments C (sv_exec (cx_world C) (m_tick w)) d v ik = Inr (authorized, vc, args)"
    and p: "prepare (cx_env C) (sv_ws (cx_world C)) (as_workspace_root (cx_service C)) (pa_repo args) (pa_target args)
                (pa_allowed args) (pa_find args) (pa_replace args) (ik @ '':'' @ rid) (w\<lparr>m_tick := m_tick w + 1\<rparr>) = (Done p, w2)"
    and x: "io_catch (\<lambda>_. True) (verify_prepared C vc authorized p)
       (\<lambda>e. io_bind (close_prepared (sv_ws (cx_world C)) p) (\<lambda>_ w. (Raised e, w))) w2 = (Done prepared, w1)"
    using assms by (auto simp: prepare_verified_patch_def io_bind_Done io_lift_def split: sum.splits)
  have "verify_prepared C vc authorized p w2 = (Done prepared, w1)"
    using x by (auto simp: io_catch_def io_bind_Done split: prod.splits outcome.splits)
  then obtain manifest where m: "(case sv_tree (cx_world C) (m_tick w2) (pp_workspace p) of (usable, entries) \<Rightarrow>
        workspace_manifest_digest (cx_env C) usable entries) = Inr manifest"
    and a: "accept_verified C authorized p
        (verify (cx_env C) (cx_schemas C) (cx_ed C) (sv_net (cx_world C) (m_tick w2)) (sv_peer (cx_world C) (m_tick w2)) vc
           (last (path_parts (pp_workspace p))) manifest (candidate_binding p) authorized 30 65536) (w2\<lparr>m_tick := m_tick w2 + 1\<rparr>)
        = (Done prepared, w1)"
    by (auto simp: verify_prepared_def Let_def io_bind_Done io_lift_def split: sum.splits prod.splits)
  have k: "io_keeps (quiet (\<lambda>_ _. False)) (accept_verified C authorized p outcome)" for outcome
    unfolding accept_verified_def by (intro keeps; simp)
  have "m_tick w2 < m_tick w1" using tick_mono [OF k a] by simp
  moreover have "m_tick w \<le> m_tick w2" using tick_mono [OF keeps_quiet_prepared(3) p] by simp
  moreover note accept_verified_Done [OF a] prepare_Done [OF p]
  ultimately show ?thesis using args m
    by (intro exI [of _ authorized] exI [of _ vc] exI [of _ args] exI [of _ "m_tick w2"] exI [of _ manifest])
      (auto simp: candidate_binding_def)
qed

text \<open>
  The adapter of the authority, asked again for the request rebuilt from the decision, the evaluation and the receipt,
  admits it, and what the client brought is the same gate. The clock and the adapter are read between the two states.
\<close>

definition gate_agreed :: "'s service_ctx \<Rightarrow> client_call \<Rightarrow> 's service_world \<Rightarrow> 's service_world \<Rightarrow> bool" where
  "gate_agreed C c w w' \<longleftrightarrow> (\<exists>adapter gate receipt u created t request authority_gate.
     as_adapter (cx_service C) = Some adapter \<and> ad_eligible adapter \<and> ad_identity adapter \<noteq> []
   \<and> pget (cc_body c) ''hsai_gate'' = JObj gate \<and> pget (cc_body c) ''preflight_receipt'' = JObj receipt
   \<and> m_tick w \<le> u \<and> u < t \<and> t < m_tick w'
   \<and> build_hsai_admission_request_v2 (cx_env C) (cx_schemas C) (format_time (cx_env C) (sv_clock (cx_world C) u)) (Some created)
        (cc_decision c) (cc_evaluation c) receipt = Inr request
   \<and> evaluate_hsai_gate (cx_env C) (cx_schemas C) (format_time (cx_env C) (sv_clock (cx_world C) t)) (ad_admit adapter t) True request
       = Inr authority_gate
   \<and> validate_bridge_gate (cx_env C) (cx_schemas C) authority_gate (Some (cc_decision c)) (Some (cc_evaluation c)) (Some True) = Inr ()
   \<and> gate_rejection gate authority_gate = Inr None)"

lemma extends_gate [intro]: "extends step (gate_agreed C c)"
  unfolding extends_def gate_agreed_def reaches_def by (meson order_trans less_le_trans)

lemma current_request_Done:
  assumes "current_hsai_request C d v gate receipt w = (Done x, w1)"
  shows "\<exists>created. build_hsai_admission_request_v2 (cx_env C) (cx_schemas C) (format_time (cx_env C) (sv_clock (cx_world C) (m_tick w)))
     (Some created) d v receipt = Inr x \<and> m_tick w1 = m_tick w + 1"
  using assms by (auto simp: current_hsai_request_def clock_now_def io_bind_Done io_lift_def split: jval.splits if_splits sum.splits)

text \<open>A call as \<open>authenticate\<close> builds it.\<close>

definition call_ok :: "client_call \<Rightarrow> bool" where
  "call_ok c \<longleftrightarrow> cc_operation c \<in> {''preflight'', ''execute''}
     \<and> (\<exists>op ik. pidx (cc_body c) ''operation'' = Inr op \<and> py_str op = cc_operation c
          \<and> pidx (cc_body c) ''idempotency_key'' = Inr ik \<and> py_str ik = cc_key c)"

text \<open>The body is signed with the pinned key of its client, is fresh by the clock read between the two states, and is what the call
  was parsed from.\<close>

definition authenticated :: "'s service_ctx \<Rightarrow> jobj \<Rightarrow> client_call \<Rightarrow> 's service_world \<Rightarrow> 's service_world \<Rightarrow> bool" where
  "authenticated C request c w w' \<longleftrightarrow> (\<exists>pf key issued expiry t d.
     pget request ''body'' = JObj (cc_body c) \<and> pget request ''authorization_proof'' = JObj pf
   \<and> pget pf ''key_id'' = JStr (cc_client c) \<and> map_of (as_client_keys (cx_service C)) (cc_client c) = Some key
   \<and> ed_verify (cx_ed C) key (py_str (por (pget pf ''signature'') (JStr []))) (signing_text (cc_body c)) = Inr True
   \<and> protocol_parse_time (cx_env C) (py_str (pget (cc_body c) ''issued_at'')) = Inr issued
   \<and> protocol_parse_time (cx_env C) (py_str (pget (cc_body c) ''expires_at'')) = Inr expiry
   \<and> m_tick w \<le> t \<and> t < m_tick w' \<and> time_window issued expiry (sv_clock (cx_world C) t)
   \<and> pget (cc_body c) ''decision'' = JObj d \<and> decision_from_dict (cx_schemas C) d = Inr (cc_decision c)
   \<and> evaluation_from_payload (pget (cc_body c) ''evaluation'') = Inr (cc_evaluation c)
   \<and> key_in CONTEXT_KEY (pget_or (execution_plan (cc_decision c)) ''parameters'' (JObj [])) = Inr False)"

lemma extends_authenticated [intro]: "extends step (authenticated C request c)"
  unfolding extends_def authenticated_def reaches_def by (meson order_trans less_le_trans)

lemma request_time_Done:
  assumes "request_time_is_valid C body w = (Done True, w1)"
  shows "\<exists>issued expiry. m_tick w1 = m_tick w + 1 \<and> protocol_parse_time (cx_env C) (py_str (pget body ''issued_at'')) = Inr issued
   \<and> protocol_parse_time (cx_env C) (py_str (pget body ''expires_at'')) = Inr expiry \<and> time_window issued expiry (sv_clock (cx_world C) (m_tick w))"
proof -
  let ?r = "ebind (pidx body ''issued_at'') (\<lambda>i. ebind (protocol_parse_time (cx_env C) (py_str i)) (\<lambda>issued.
           ebind (pidx body ''expires_at'') (\<lambda>x. ebind (protocol_parse_time (cx_env C) (py_str x)) (\<lambda>expiry.
           Inr (issued, expiry)))))"
  obtain issued expiry where "?r = Inr (issued, expiry)" and "time_window issued expiry (sv_clock (cx_world C) (m_tick w))"
      and "m_tick w1 = m_tick w + 1"
    using assms unfolding request_time_is_valid_def
    by (cases ?r) (auto simp: io_bind_Done clock_now_def)
  then show ?thesis by (auto simp: pget_def)
qed

lemma parse_call_Done:
  assumes "parse_call C request body client uid gid w = (Done (Inr c), w1)"
  shows "call_ok c \<and> cc_request c = request \<and> cc_body c = body \<and> cc_client c = client \<and> cc_uid c = uid \<and> cc_gid c = gid
   \<and> (\<exists>d. pget body ''decision'' = JObj d \<and> decision_from_dict (cx_schemas C) d = Inr (cc_decision c))
   \<and> evaluation_from_payload (pget body ''evaluation'') = Inr (cc_evaluation c)
   \<and> key_in CONTEXT_KEY (pget_or (execution_plan (cc_decision c)) ''parameters'' (JObj [])) = Inr False"
proof -
  obtain d e decision evaluation ik op where v: "validate_authority_request_operation body = Inr ()"
      "map_of body ''decision'' = Some (JObj d)" "decision_from_dict (cx_schemas C) d = Inr decision"
      "map_of body ''evaluation'' = Some e" "evaluation_from_payload e = Inr evaluation"
      "key_in CONTEXT_KEY (pget_or (execution_plan decision) ''parameters'' (JObj [])) = Inr False"
      "map_of body ''idempotency_key'' = Some ik" "map_of body ''operation'' = Some op"
      "c = \<lparr>cc_request = request, cc_body = body, cc_decision = decision, cc_evaluation = evaluation,
       cc_operation = py_str op, cc_key = py_str ik, cc_client = client, cc_uid = uid, cc_gid = gid\<rparr>"
    using assms unfolding parse_call_def by (auto simp: io_bind_Done split: if_splits)
  have "pget body ''operation'' = op" using pget_map_of [OF v(8)] .
  then have "op = JStr ''preflight'' \<or> op = JStr ''execute''"
    using v(1) unfolding validate_authority_request_operation_def Let_def by (metis Inl_Inr_False)
  then have "py_str op \<in> {''preflight'', ''execute''}" by auto
  with v pget_map_of [OF v(2)] pget_map_of [OF v(4)] show ?thesis by (simp add: call_ok_def)
qed

lemma authenticate_Done:
  assumes "authenticate C request uid gid w = (Done (Inr c), w1)"
  shows "call_ok c \<and> authenticated C request c w w1 \<and> cc_request c = request \<and> cc_uid c = uid \<and> cc_gid c = gid"
proof -
  obtain body pf w3 where b: "map_of request ''body'' = Some (JObj body)" "map_of request ''authorization_proof'' = Some (JObj pf)"
      "py_eq (pget pf ''key_id'') (JStr (str_or (pget body ''client_key_id'') (JStr [])))"
    and key: "(if pinned_key C (str_or (pget body ''client_key_id'') (JStr [])) = [] then Inr False
        else verify_ed25519_signature_proof (cx_env C) (cx_ed C) body pf (pinned_key C (str_or (pget body ''client_key_id'') (JStr [])))) = Inr True"
    and t: "request_time_is_valid C body w = (Done True, w3)"
    and rest: "parse_call C request body (str_or (pget body ''client_key_id'') (JStr [])) uid gid w3 = (Done (Inr c), w1)"
    using assms unfolding authenticate_def Let_def by (fastforce simp: io_bind_Done split: if_splits)
  note p = parse_call_Done [OF rest]
  have k: "pinned_key C (cc_client c) \<noteq> []" "verify_ed25519_signature_proof (cx_env C) (cx_ed C) (cc_body c) pf (pinned_key C (cc_client c)) = Inr True"
    using key p by (auto split: if_splits)
  have "map_of (as_client_keys (cx_service C)) (cc_client c) = Some (pinned_key C (cc_client c))"
    using k(1) by (auto simp: pinned_key_def split: option.splits)
  moreover have "m_tick w3 \<le> m_tick w1" using tick_mono [OF keeps_quiet_parse rest] .
  ultimately show ?thesis using verify_ed25519_True [OF k(2,1)] request_time_Done [OF t] p b
    unfolding authenticated_def by (auto simp: pget_map_of intro!: exI [of _ "m_tick w"])
qed

section \<open>The store moves by its own transitions\<close>

context authority_store begin

abbreviation steps_of :: "'s \<Rightarrow> 's \<Rightarrow> bool" where
  "steps_of \<equiv> store_step issue run"

abbreviation wired :: "'s service_ctx \<Rightarrow> bool" where
  "wired C \<equiv> cx_store C = \<lparr>st_issue = issue, st_run = run\<rparr> \<and> cx_env C = E"

lemma keeps_store_call:
  assumes "\<And>now s r t. f now s = Inr (r, t) \<Longrightarrow> steps_of s t"
  shows "io_keeps (quiet steps_of) (store_call C f)"
  using assms by (auto simp: io_keeps_def may_promote_def reaches_def store_call_def Let_def split: sum.split)

lemma keeps_lifecycle_run [keeps]:
  assumes "wired C"
  shows "io_keeps (quiet steps_of) (lifecycle_run C rec op)"
  unfolding lifecycle_run_def
  by (intro keeps keeps_store_call) (use assms in \<open>auto intro: step_run\<close>)

lemma keeps_issue_lifecycle [keeps]:
  assumes "wired C"
  shows "io_keeps (quiet steps_of) (issue_authority_lifecycle C body client uid gid)"
  unfolding issue_authority_lifecycle_def Let_def
  by (intro keeps keeps_store_call) (use assms in \<open>auto intro: step_issue\<close>)

lemma keeps_lifecycle_ends [keeps]:
  assumes "wired C"
  shows "io_keeps (quiet steps_of) (terminalize_dispatched C rec client result outcome)"
    "io_keeps (quiet steps_of) (terminalize_dispatched_unknown C rec client)"
    "io_keeps (quiet steps_of) (reconcile_dispatched_lifecycle C rec d v gate ik client)"
    "io_keeps (quiet steps_of) (complete_lifecycle_response C request rec lease uid gid client status result rejection outcome)"
    "io_keeps (quiet steps_of) (complete_lifecycle_rejection C request rec lease uid gid client code outcome)"
    "io_keeps (quiet steps_of) (mark_lifecycle_dispatched C rec lease)"
  unfolding reconcile_dispatched_lifecycle_def terminalize_dispatched_unknown_def terminalize_dispatched_def
    complete_lifecycle_rejection_def complete_lifecycle_response_def mark_lifecycle_dispatched_def
  by (intro keeps; simp add: assms)+

lemma keeps_calls [keeps]:
  assumes "wired C"
  shows "io_keeps (quiet steps_of) (reject_call C c rec lease code outcome)"
    "io_keeps (quiet steps_of) (complete_call C c rec lease result outcome)"
    "io_keeps (quiet steps_of) (take_lease C c)" "io_keeps (quiet steps_of) (handle_leased_preflight C c rec lease)"
  unfolding reject_call_def complete_call_def take_lease_def handle_leased_preflight_def Let_def
  by (intro keeps; simp add: assms)+

lemma keeps_promote_claimed:
  "io_keeps (may_promote steps_of ik (\<lambda>_ _. True)) (promote_claimed C p receipt ik permit target backup areceipt)"
proof -
  have n: "io_keeps (may_promote steps_of ik (\<lambda>_ _. True)) (note_promotion ik)"
    by (simp add: io_keeps_def note_promotion_def may_promote_def reaches_def)
  show ?thesis
    unfolding promote_claimed_def Let_def
    by (rule keeps_bind_may, simp, (intro keeps; simp), rule keeps_bind_may, simp, (intro keeps; simp),
      rule keeps_may_bind [OF _ n], simp, (intro keeps; simp))
qed

lemma keeps_promote_verified:
  "io_keeps (may_promote steps_of ik (\<lambda>_ _. True)) (promote_verified_patch C p receipt d v gate ik)"
  unfolding promote_verified_patch_def Let_def
  by (rule keeps_bind_may, simp, (intro keeps; simp))+
    (rule keeps_control, (rule keeps_quiet_may, intro keeps; simp), rule keeps_promote_claimed)

text \<open>The section of \<open>execute_dispatched\<close> that promotes, for a patch prepared between \<open>a\<close> and \<open>b\<close>, seen from \<open>a\<close>.\<close>

lemma keeps_promotion_section:
  assumes "wired C" and "pidx (cc_body c) ''request_id'' = Inr rid"
    and "prepare_verified_patch C (cc_decision c) (cc_evaluation c) (cc_key c) (py_str rid) a = (Done prepared, b)"
  shows "io_keeps (may_promote steps_of (cc_key c) (\<lambda>u v. reaches steps_of b u \<longrightarrow> receipt_agreed C c a v))
    (io_finally
       (io_bind (io_lift (preflight_receipt_payload (prepared_receipt prepared))) (\<lambda>current.
        io_bind (io_lift (pidx (cc_body c) ''preflight_receipt'')) (\<lambda>receipt.
        if \<not> py_eq (JObj current) receipt
        then io_bind (reject_call C c rec lease ''preflight_drift_rejected'' ''rejected'') (\<lambda>r. io_return (Inl r))
        else io_bind (promote_verified_patch C prepared current (cc_decision c) (cc_evaluation c) gate (cc_key c)) (\<lambda>result.
             io_return (Inr result)))))
       (closing C prepared))"
    (is "io_keeps (may_promote steps_of _ ?P) _")
proof -
  have P: "extends steps_of ?P" by (rule extends_from) (rule extends_receipt)
  show ?thesis
  proof (rule keeps_may_finally [OF P keeps_lift_bind [OF may_promote_refl keeps_lift_bind [OF may_promote_refl]]])
    fix current receipt
    assume r: "preflight_receipt_payload (prepared_receipt prepared) = Inr current" "pidx (cc_body c) ''preflight_receipt'' = Inr receipt"
    show "io_keeps (may_promote steps_of (cc_key c) ?P)
      (if \<not> py_eq (JObj current) receipt
       then io_bind (reject_call C c rec lease ''preflight_drift_rejected'' ''rejected'') (\<lambda>r. io_return (Inl r))
       else io_bind (promote_verified_patch C prepared current (cc_decision c) (cc_evaluation c) gate (cc_key c)) (\<lambda>result.
               io_return (Inr result)))"
    proof (cases "py_eq (JObj current) receipt")
      case True
      then have "py_eq (JObj current) (pget (cc_body c) ''preflight_receipt'')" using r(2) pidx_pget_eq by metis
      then have "reprepared C c a b"
        using prepare_verified_Done [OF assms(3)] assms(2,3) r(1) unfolding reprepared_def by blast
      then have "receipt_agreed C c a v" if "reaches steps_of b u" "reaches steps_of u v" for u v
        using that unfolding receipt_agreed_def reaches_def by (meson order_refl order_trans)
      then have k: "io_keeps (may_promote steps_of (cc_key c) ?P)
          (promote_verified_patch C prepared current (cc_decision c) (cc_evaluation c) gate (cc_key c))"
        by (intro keeps_may_weaken [OF keeps_promote_verified]) blast
      have "(\<not> py_eq (JObj current) receipt) = False" using True by blast
      then show ?thesis by (simp only: if_False) (rule keeps_may_bind [OF P k], intro keeps, simp)
    next
      case False
      then have "(\<not> py_eq (JObj current) receipt) = True" by blast
      then show ?thesis by (simp only: if_True) (rule keeps_quiet_may, intro keeps; simp add: assms)
    qed
  qed (intro keeps)
qed

lemma keeps_execute_dispatched:
  assumes "wired C"
  shows "io_keeps (may_promote steps_of (cc_key c) (receipt_agreed C c)) (execute_dispatched C c rec lease gate)"
proof -
  let ?find = "io_catch policy_caught
           (io_bind (io_lift (pidx (cc_body c) ''request_id'')) (\<lambda>rid.
            io_bind (prepare_verified_patch C (cc_decision c) (cc_evaluation c) (cc_key c) (py_str rid)) (\<lambda>prepared. io_return (Inr prepared))))
           (\<lambda>_. io_bind (reject_call C c rec lease ''preflight_drift_rejected'' ''rejected'') (\<lambda>r. io_return (Inl r)))"
  let ?section = "\<lambda>prepared. io_finally
               (io_bind (io_lift (preflight_receipt_payload (prepared_receipt prepared))) (\<lambda>current.
                io_bind (io_lift (pidx (cc_body c) ''preflight_receipt'')) (\<lambda>receipt.
                if \<not> py_eq (JObj current) receipt
                then io_bind (reject_call C c rec lease ''preflight_drift_rejected'' ''rejected'') (\<lambda>r. io_return (Inl r))
                else io_bind (promote_verified_patch C prepared current (cc_decision c) (cc_evaluation c) gate (cc_key c)) (\<lambda>result.
                     io_return (Inr result)))))
               (closing C prepared)"
  let ?rest = "\<lambda>found. case found of Inl response \<Rightarrow> io_return response
         | Inr prepared \<Rightarrow> io_bind (?section prepared) (\<lambda>r.
             case r of Inl response \<Rightarrow> io_return response
             | Inr result \<Rightarrow> complete_call C c rec lease result (outcome_of result))"
  have verified: "\<exists>rid. pidx (cc_body c) ''request_id'' = Inr rid
      \<and> prepare_verified_patch C (cc_decision c) (cc_evaluation c) (cc_key c) (py_str rid) w = (Done prepared, w1)"
    if "?find w = (Done (Inr prepared), w1)" for w w1 prepared
    using that by (auto simp: io_catch_def io_bind_Done io_lift_def split: prod.splits outcome.splits if_splits sum.splits)
  have rest: "io_keeps (may_promote steps_of (cc_key c) (\<lambda>u v. reaches steps_of w1 u \<longrightarrow> receipt_agreed C c w v)) (?rest found)"
    if f: "?find w = (Done found, w1)" for w found w1
  proof (cases found)
    case (Inr prepared)
    obtain rid where rid: "pidx (cc_body c) ''request_id'' = Inr rid"
        "prepare_verified_patch C (cc_decision c) (cc_evaluation c) (cc_key c) (py_str rid) w = (Done prepared, w1)"
      using verified f Inr by blast
    note k = keeps_promotion_section [OF assms rid]
    have P: "extends steps_of (\<lambda>u v. reaches steps_of w1 u \<longrightarrow> receipt_agreed C c w v)"
      by (rule extends_from) (rule extends_receipt)
    show ?thesis unfolding Inr sum.case by (rule keeps_may_bind [OF P k], intro keeps) (simp_all add: assms)
  qed (simp add: keeps_quiet_may keeps_return)
  show ?thesis
    unfolding execute_dispatched_def
  proof (rule keeps_bind_may)
    fix terminal
    show "io_keeps (may_promote steps_of (cc_key c) (receipt_agreed C c))
      (case terminal of Some result \<Rightarrow> complete_call C c rec lease result (outcome_of result)
       | None \<Rightarrow> io_bind ?find ?rest)"
    proof (cases terminal)
      case None
      show ?thesis unfolding None option.case
        by (rule keeps_bind_value [OF _ rest]) (intro keeps; simp add: assms)
    qed (simp add: keeps_quiet_may keeps_calls assms)
  qed (auto intro: keeps)
qed

text \<open>What the handling of a leased request may promote, seen from its beginning.\<close>

definition cleared :: "'s service_ctx \<Rightarrow> client_call \<Rightarrow> 's service_world \<Rightarrow> 's service_world \<Rightarrow> bool" where
  "cleared C c w w' \<longleftrightarrow> cc_operation c \<noteq> ''preflight'' \<and> gate_agreed C c w w' \<and> receipt_agreed C c w w'"

lemma extends_cleared [intro]: "extends step (cleared C c)"
  unfolding cleared_def by (intro extends_conj extends_gate extends_receipt extends_simps)

lemma keeps_handle_leased:
  assumes "wired C"
  shows "io_keeps (may_promote steps_of (cc_key c) (cleared C c)) (handle_leased_request C c rec lease)"
proof (cases "cc_operation c = ''preflight''")
  case True
  then show ?thesis by (simp add: handle_leased_request_def keeps_quiet_may keeps_calls assms)
next
  case False
  have q: "io_keeps (may_promote steps_of k P) (reject_call C c rec lease code outcome)" for k P code outcome
    by (rule keeps_quiet_may [OF keeps_calls(1) [OF assms]])
  let ?admitted = "\<lambda>adapter gate request. io_bind io_tick (\<lambda>t.
            io_bind (io_lift (evaluate_hsai_gate (cx_env C) (cx_schemas C) (format_time (cx_env C) (sv_clock (cx_world C) t))
                       (ad_admit adapter t) True request)) (\<lambda>authority_gate.
            io_bind (io_lift (validate_bridge_gate (cx_env C) (cx_schemas C) authority_gate (Some (cc_decision c)) (Some (cc_evaluation c))
                       (Some True))) (\<lambda>_.
            io_bind (io_lift (gate_rejection gate authority_gate)) (\<lambda>rejected.
            case rejected of
              Some code \<Rightarrow> reject_call C c rec lease code ''rejected''
            | None \<Rightarrow>
                io_bind (mark_lifecycle_dispatched C rec lease) (\<lambda>dispatched.
                execute_dispatched C c dispatched lease authority_gate)))))"
  show ?thesis
    unfolding handle_leased_request_def if_not_P [OF False]
  proof (intro keeps_lift_bind [OF may_promote_refl] keeps_bind_value [OF keeps_quiet_prepare(4)])
    fix gate receipt request w w1
    assume g: "ebind (pidx (cc_body c) ''hsai_gate'') as_obj = Inr gate" "ebind (pidx (cc_body c) ''preflight_receipt'') as_obj = Inr receipt"
      and r: "current_hsai_request C (cc_decision c) (cc_evaluation c) gate receipt w = (Done request, w1)"
    let ?P = "\<lambda>u v. reaches steps_of w1 u \<longrightarrow> cleared C c w v"
    have P: "extends steps_of ?P" by (rule extends_from) (rule extends_cleared)
    have bodies: "pget (cc_body c) ''hsai_gate'' = JObj gate" "pget (cc_body c) ''preflight_receipt'' = JObj receipt"
      using g by (auto simp: pget_def)
    obtain created where created: "build_hsai_admission_request_v2 (cx_env C) (cx_schemas C)
        (format_time (cx_env C) (sv_clock (cx_world C) (m_tick w))) (Some created) (cc_decision c) (cc_evaluation c) receipt = Inr request"
      and tick: "m_tick w1 = m_tick w + 1" using current_request_Done [OF r] by blast
    have admitted: "io_keeps (may_promote steps_of (cc_key c) ?P) (?admitted adapter gate request)"
      if a: "as_adapter (cx_service C) = Some adapter" "ad_eligible adapter" "ad_identity adapter \<noteq> []" for adapter
    proof (rule keeps_bind_value [OF keeps_quiet_prim(1)], intro keeps_lift_bind [OF may_promote_refl])
      fix t authority_gate rejected and u v :: "'s service_world" and valid :: unit
      assume t: "io_tick u = (Done t, v)"
        and e: "evaluate_hsai_gate (cx_env C) (cx_schemas C) (format_time (cx_env C) (sv_clock (cx_world C) t)) (ad_admit adapter t) True request
              = Inr authority_gate"
            "validate_bridge_gate (cx_env C) (cx_schemas C) authority_gate (Some (cc_decision c)) (Some (cc_evaluation c)) (Some True) = Inr valid"
            "gate_rejection gate authority_gate = Inr rejected"
      let ?Q = "\<lambda>a b. reaches steps_of v a \<longrightarrow> reaches steps_of w1 u \<longrightarrow> cleared C c w b"
      have Q: "extends steps_of ?Q"
        by (rule extends_from [OF extends_imp [OF extends_cleared]])
      show "io_keeps (may_promote steps_of (cc_key c) ?Q)
           (case rejected of
              Some code \<Rightarrow> reject_call C c rec lease code ''rejected''
            | None \<Rightarrow>
                io_bind (mark_lifecycle_dispatched C rec lease) (\<lambda>dispatched.
                execute_dispatched C c dispatched lease authority_gate))"
      proof (cases rejected)
        case None
        have agreed: "cleared C c w b" if "reaches steps_of v a" "reaches steps_of w1 u" "reaches steps_of a b" "receipt_agreed C c a b" for a b
        proof -
          have "gate_agreed C c w b" unfolding gate_agreed_def
            using created a e None bodies t tick that
            by (intro exI [of _ adapter] exI [of _ gate] exI [of _ receipt] exI [of _ "m_tick w"] exI [of _ created] exI [of _ t]
                exI [of _ request] exI [of _ authority_gate]) (auto simp: reaches_def)
          moreover have "m_tick w \<le> m_tick a" using that(1,2) t tick by (auto simp: reaches_def)
          then have "receipt_agreed C c w b" using that(4) unfolding receipt_agreed_def by (meson order_trans)
          ultimately show ?thesis using False by (simp add: cleared_def)
        qed
        have "io_keeps (may_promote steps_of (cc_key c) ?Q) (execute_dispatched C c dispatched lease authority_gate)" for dispatched
          using keeps_execute_dispatched [OF assms, of c dispatched lease authority_gate] agreed
          unfolding io_keeps_def may_promote_def by blast
        then show ?thesis unfolding None option.case
          by (intro keeps_bind_may [OF Q]) (intro keeps; simp add: assms)+
      qed (simp add: q)
    qed
    show "io_keeps (may_promote steps_of (cc_key c) ?P)
     (case as_adapter (cx_service C) of
        None \<Rightarrow> reject_call C c rec lease ''hsai_authority_adapter_unavailable'' ''rejected''
      | Some adapter \<Rightarrow>
          if \<not> ad_eligible adapter \<or> ad_identity adapter = []
          then reject_call C c rec lease ''hsai_authority_adapter_unavailable'' ''rejected''
          else ?admitted adapter gate request)"
    proof (cases "as_adapter (cx_service C)")
      case (Some adapter)
      show ?thesis
      proof (cases "\<not> ad_eligible adapter \<or> ad_identity adapter = []")
        case True
        show ?thesis unfolding Some option.case if_P [OF True] by (rule q)
      next
        case False
        show ?thesis unfolding Some option.case if_not_P [OF False] by (rule admitted [OF Some]) (use False in auto)
      qed
    qed (simp add: q)
  qed
qed

text \<open>The record of an execution under this key was dispatched; a record belongs to the execution under this key.\<close>

definition dispatched_key :: "'s \<Rightarrow> string \<Rightarrow> bool" where
  "dispatched_key s k \<longleftrightarrow> (\<exists>aid r evs. view s aid = Some (r, evs) \<and> pget r ''idempotency_key'' = JStr (k @ '':execute'')
     \<and> ''marked_dispatched'' \<in> set (map event_type_of evs))"

definition owns :: "'s \<Rightarrow> jobj \<Rightarrow> string \<Rightarrow> bool" where
  "owns s rec key \<longleftrightarrow> (\<exists>aid r evs. pget rec ''authority_id'' = JStr aid \<and> view s aid = Some (r, evs)
     \<and> pget r ''idempotency_key'' = JStr key)"

definition service_inv :: "'s service_world \<Rightarrow> bool" where
  "service_inv w \<longleftrightarrow> inv (w_store w) \<and> distinct (w_promotions w) \<and> (\<forall>k \<in> set (w_promotions w). dispatched_key (w_store w) k)"

lemma same_key: "same_identity r r' \<Longrightarrow> pget r' ''idempotency_key'' = pget r ''idempotency_key''"
  by (simp add: same_identity_def identity_fields_def)

lemma dispatched_key_mono: "steps_of\<^sup>*\<^sup>* s t \<Longrightarrow> inv s \<Longrightarrow> dispatched_key s k \<Longrightarrow> dispatched_key t k"
  unfolding dispatched_key_def using entry_run [of s t] same_key by (metis UnCI map_append set_append)

lemma owns_mono: "steps_of\<^sup>*\<^sup>* s t \<Longrightarrow> inv s \<Longrightarrow> owns s rec key \<Longrightarrow> owns t rec key"
  unfolding owns_def using entry_run [of s t] same_key by metis

lemma quiet_inv: "quiet steps_of w w' \<Longrightarrow> service_inv w \<Longrightarrow> service_inv w'"
  by (auto simp: service_inv_def may_promote_def reaches_def intro: steps.rtranclp_inv dispatched_key_mono)

lemma may_inv:
  "may_promote steps_of k P w w' \<Longrightarrow> service_inv w \<Longrightarrow> k \<notin> set (w_promotions w) \<and> dispatched_key (w_store w) k \<Longrightarrow> service_inv w'"
  using dispatched_key_mono steps.rtranclp_inv unfolding service_inv_def may_promote_def reaches_def
  by (elim conjE disjE) auto

lemma store_call_Done:
  assumes "store_call C f w = (Done r, w1)"
  shows "\<exists>now. f now (w_store w) = Inr (r, w_store w1) \<and> w_promotions w1 = w_promotions w \<and> m_tick w \<le> m_tick w1"
  using assms by (auto simp: store_call_def Let_def split: if_splits sum.splits)

lemma lifecycle_run_Done:
  assumes "wired C" and "lifecycle_run C rec op w = (Done r, w1)"
  shows "\<exists>now aid n. map_of rec ''authority_id'' = Some aid \<and> run now (py_str aid) (op (JInt n)) (w_store w) = Inr (r, w_store w1)
    \<and> w_promotions w1 = w_promotions w \<and> m_tick w \<le> m_tick w1 \<and> (\<forall>v. map_of rec ''version'' = Some (JInt v) \<longrightarrow> n = v)"
  using assms by (auto simp: lifecycle_run_def io_bind_Done dest!: store_call_Done) fastforce

lemma dispatch_fresh:
  assumes "wired C" and "mark_lifecycle_dispatched C rec lease w = (Done d, w1)" and "service_inv w"
    and "owns (w_store w) rec (k @ '':execute'')"
  shows "service_inv w1 \<and> k \<notin> set (w_promotions w1) \<and> dispatched_key (w_store w1) k"
proof -
  have i: "inv (w_store w)" using assms(3) by (simp add: service_inv_def)
  obtain aid r0 evs where o: "map_of rec ''authority_id'' = Some (JStr aid)" "view (w_store w) aid = Some (r0, evs)"
      "pget r0 ''idempotency_key'' = JStr (k @ '':execute'')"
    using assms(4) by (auto simp: owns_def dest: pget_neq_null)
  obtain now n where run: "run now aid (Dispatch (JInt n) lease) (w_store w) = Inr (d, w_store w1)" and p: "w_promotions w1 = w_promotions w" "m_tick w \<le> m_tick w1"
    using lifecycle_run_Done [OF assms(1)] assms(2) o(1) unfolding mark_lifecycle_dispatched_def by fastforce
  obtain ev where a: "apply_op E now (Dispatch (JInt n) lease) r0 = Inr (d, ev)"
      and v: "view (w_store w1) = (view (w_store w))(aid \<mapsto> (d, evs @ [JObj ev]))" using run_law [OF i run] o(2) by auto
  note g = entry_good [OF i o(2)]
  have "pget r0 ''version'' = JInt (int (length evs))" using g by (simp add: good_def)
  then have adv: "pget r0 ''state'' = JStr (phase_name Leased)" "advances E r0 ''marked_dispatched'' (phase_name Dispatched) d ev"
    using dispatch_advances [of E r0 "JInt n" lease now d ev] a by auto
  have good1: "good E aid d (evs @ [JObj ev])" and st: "event_type_of (JObj ev) = ''marked_dispatched''"
    using good_advance [OF g adv] by (auto simp: stamped_def)
  have same: "same_identity r0 d" using apply_op_good [OF g a] by (simp add: same_identity_def)
  obtain ph where "replay None (map event_type_of (evs @ [JObj ev])) = Some ph" using good1 unfolding good_def by blast
  from replay_dispatch_once [OF this] have old: "''marked_dispatched'' \<notin> set (map event_type_of evs)"
    using st by (simp add: count_list_0_iff)
  have "k \<notin> set (w_promotions w)"
  proof
    assume "k \<in> set (w_promotions w)"
    then obtain aid' r' evs' where "view (w_store w) aid' = Some (r', evs')" "pget r' ''idempotency_key'' = JStr (k @ '':execute'')"
        "''marked_dispatched'' \<in> set (map event_type_of evs')"
      using assms(3) by (auto simp: service_inv_def dispatched_key_def)
    moreover from this have "aid' = aid" using keys_unique [OF i, of aid' r' evs' aid r0 evs] o by simp
    ultimately show False using o(2) old by auto
  qed
  moreover have "dispatched_key (w_store w1) k" using v st same_key [OF same] o(3) by (auto simp: dispatched_key_def)
  moreover have "quiet steps_of w w1" using run p step_run [of run now aid _ "w_store w" d "w_store w1"] by (auto simp: may_promote_def reaches_def)
  ultimately show ?thesis using quiet_inv assms(3) p by auto
qed

lemma issue_lifecycle_owns:
  assumes "wired C" and "call_ok c" and "inv (w_store w)"
    and "issue_authority_lifecycle C (cc_body c) (cc_client c) uid gid w = (Done rec, w1)"
  shows "owns (w_store w1) rec (cc_key c @ '':'' @ cc_operation c) \<and> (\<exists>aid evs. pget rec ''authority_id'' = JStr aid
    \<and> view (w_store w1) aid = Some (rec, evs))"
proof -
  obtain now aid nc b where i: "issue now aid (cc_key c @ '':'' @ cc_operation c) nc b (w_store w) = Inr (rec, w_store w1)"
    using assms(1,2,4) unfolding issue_authority_lifecycle_def Let_def call_ok_def
    by (auto simp: io_bind_Done dest!: store_call_Done)
  obtain req where req: "validated_issue_request E aid (cc_key c @ '':'' @ cc_operation c) nc b = Inr req"
      and out: "issue_outcome E now aid req (view (w_store w)) rec (view (w_store w1))" using issue_law [OF assms(3) i] by blast
  have "\<exists>evs. view (w_store w1) aid = Some (rec, evs)" using out by (auto simp: issue_outcome_def)
  moreover have "pget rec ''authority_id'' = JStr aid \<and> pget rec ''idempotency_key'' = JStr (cc_key c @ '':'' @ cc_operation c)"
    using out new_issue_good [OF req] same_issue_Inr [OF req] by (auto simp: issue_outcome_def good_def)
  ultimately show ?thesis by (auto simp: owns_def)
qed

lemma lifecycle_run_owns:
  assumes "wired C" and "inv (w_store w)" and "lifecycle_run C rec op w = (Done r, w1)" and "owns (w_store w) rec key"
  shows "owns (w_store w1) r key"
proof -
  obtain aid r0 evs where o: "map_of rec ''authority_id'' = Some (JStr aid)" "view (w_store w) aid = Some (r0, evs)"
      "pget r0 ''idempotency_key'' = JStr key"
    using assms(4) by (auto simp: owns_def dest: pget_neq_null)
  obtain now n where run: "run now aid (op (JInt n)) (w_store w) = Inr (r, w_store w1)"
    using lifecycle_run_Done [OF assms(1,3)] o(1) by fastforce
  obtain ev where a: "apply_op E now (op (JInt n)) r0 = Inr (r, ev)"
      and v: "view (w_store w1) = (view (w_store w))(aid \<mapsto> (r, evs @ [JObj ev]))" using run_law [OF assms(2) run] o(2) by auto
  have "same_identity r0 r" "pget r ''authority_id'' = JStr aid"
    using apply_op_good [OF entry_good [OF assms(2) o(2)] a] by (auto simp: same_identity_def good_def)
  then show ?thesis using v same_key o(3) by (auto simp: owns_def)
qed

lemma take_lease_owns:
  assumes "wired C" and "call_ok c" and "inv (w_store w)" and "take_lease C c w = (Done (Inr (rec, lease)), w1)"
  shows "owns (w_store w1) rec (cc_key c @ '':'' @ cc_operation c)"
proof -
  obtain rec0 w2 where i: "issue_authority_lifecycle C (cc_body c) (cc_client c) (cc_uid c) (cc_gid c) w = (Done rec0, w2)"
      and l: "lifecycle_run C rec0 (\<lambda>n. Lease n lease (JInt 30)) (w2\<lparr>m_tick := m_tick w2 + 1\<rparr>) = (Done rec, w1)"
    using assms(4) unfolding take_lease_def Let_def by (auto simp: io_bind_Done split: if_splits)
  have "steps_of\<^sup>*\<^sup>* (w_store w) (w_store w2)"
    using io_keepsD [OF keeps_issue_lifecycle [OF assms(1)] i] by (simp add: may_promote_def reaches_def)
  then have "inv (w_store w2)" using steps.rtranclp_inv assms(3) by blast
  then show ?thesis using lifecycle_run_owns [OF assms(1) _ l] issue_lifecycle_owns [OF assms(1-3) i] by simp
qed

text \<open>A leased request either promotes nothing or dispatches its record and goes on from there.\<close>

definition dispatches :: "'s service_ctx \<Rightarrow> client_call \<Rightarrow> jobj \<Rightarrow> string \<Rightarrow> 's service_world \<Rightarrow> 's service_world \<Rightarrow> bool" where
  "dispatches C c rec lease w w' \<longleftrightarrow> quiet steps_of w w' \<or> (\<exists>w1 w2 d gate r. quiet steps_of w w1
     \<and> mark_lifecycle_dispatched C rec lease w1 = (Done d, w2) \<and> execute_dispatched C c d lease gate w2 = (r, w'))"

lemma dispatches_quiet: "quiet steps_of w w' \<Longrightarrow> dispatches C c rec lease w w'"
  by (simp add: dispatches_def)

lemma quiet_dispatches: "quiet steps_of w w1 \<Longrightarrow> dispatches C c rec lease w1 w2 \<Longrightarrow> dispatches C c rec lease w w2"
  using transpD [OF quiet_rules(2)] unfolding dispatches_def by metis

lemma keeps_dispatches_quiet: "io_keeps (quiet steps_of) m \<Longrightarrow> io_keeps (dispatches C c rec lease) m"
  by (simp add: io_keeps_def dispatches_quiet)

lemma keeps_bind_dispatches:
  "io_keeps (quiet steps_of) m \<Longrightarrow> (\<And>x. io_keeps (dispatches C c rec lease) (f x)) \<Longrightarrow> io_keeps (dispatches C c rec lease) (io_bind m f)"
  by (rule keeps_bind_left [where Q = "quiet steps_of"]) (auto intro: quiet_dispatches dispatches_quiet)

lemma keeps_dispatched:
  assumes "wired C"
  shows "io_keeps (dispatches C c rec lease)
    (io_bind (mark_lifecycle_dispatched C rec lease) (\<lambda>d. execute_dispatched C c d lease gate))"
  unfolding io_keeps_def
proof
  fix w
  obtain r w' where w': "io_bind (mark_lifecycle_dispatched C rec lease) (\<lambda>d. execute_dispatched C c d lease gate) w = (r, w')" by fastforce
  note k = io_keepsD [OF keeps_lifecycle_ends(6) [OF assms]]
  from w' have "dispatches C c rec lease w w'"
  proof (cases rule: io_bind_cases)
    case (returned d w1)
    have "quiet steps_of w w" by (simp add: may_promote_def)
    with returned show ?thesis unfolding dispatches_def by blast
  qed (auto dest: k intro: dispatches_quiet)
  then show "dispatches C c rec lease w (snd (io_bind (mark_lifecycle_dispatched C rec lease) (\<lambda>d. execute_dispatched C c d lease gate) w))"
    by (simp add: w')
qed

lemma keeps_handle_leased_dispatches:
  assumes "wired C" and "cc_operation c \<noteq> ''preflight''"
  shows "io_keeps (dispatches C c rec lease) (handle_leased_request C c rec lease)"
proof -
  have q: "io_keeps (dispatches C c rec lease) (reject_call C c rec lease code outcome)" for code outcome
    by (rule keeps_dispatches_quiet [OF keeps_calls(1) [OF assms(1)]])
  show ?thesis
    unfolding handle_leased_request_def if_not_P [OF assms(2)]
    by (rule q keeps_dispatched [OF assms(1)] keeps_bind_dispatches keeps_control | (intro keeps; simp))+
qed

lemma handle_leased_inv:
  assumes "wired C" and "call_ok c" and "service_inv w" and "owns (w_store w) rec (cc_key c @ '':'' @ cc_operation c)"
    and "handle_leased_request C c rec lease w = (r, w')"
  shows "service_inv w'"
proof (cases "cc_operation c = ''preflight''")
  case True
  then have "quiet steps_of w w'"
    using assms(5) io_keepsD [OF keeps_calls(4) [OF assms(1)]] by (simp add: handle_leased_request_def)
  then show ?thesis using quiet_inv assms(3) by blast
next
  case False
  then have op: "cc_operation c = ''execute''" using assms(2) by (auto simp: call_ok_def)
  from io_keepsD [OF keeps_handle_leased_dispatches [OF assms(1) False] assms(5)] show ?thesis
    unfolding dispatches_def
  proof (elim disjE exE conjE)
    fix w1 w2 d gate r
    assume w: "quiet steps_of w w1" "mark_lifecycle_dispatched C rec lease w1 = (Done d, w2)"
      and x: "execute_dispatched C c d lease gate w2 = (r, w')"
    have "owns (w_store w1) rec (cc_key c @ '':execute'')"
      using owns_mono [of "w_store w" "w_store w1"] w(1) assms(3,4) op by (simp add: may_promote_def reaches_def service_inv_def)
    from dispatch_fresh [OF assms(1) w(2) quiet_inv [OF w(1) assms(3)] this]
    show ?thesis using may_inv [OF io_keepsD [OF keeps_execute_dispatched [OF assms(1)] x]] by blast
  qed (use quiet_inv assms(3) in blast)
qed

lemma keeps_conflict_caught [keeps]:
  assumes "wired C"
  shows "io_keeps (quiet steps_of) (io_catch lifecycle_caught (take_lease C c)
       (\<lambda>_. io_bind (signed_rejection C (cc_request c) (cc_uid c) (cc_gid c) ''authority_lifecycle_conflict'') (\<lambda>r. io_return (Inl r))))"
  by (intro keeps; simp add: assms)

lemma keeps_handle_authenticated:
  assumes "wired C"
  shows "io_keeps (may_promote steps_of (cc_key c) (cleared C c)) (handle_authenticated C c)"
  unfolding handle_authenticated_def
  by (rule keeps_bind_may [OF extends_cleared keeps_conflict_caught [OF assms]], rule keeps_control, (rule keeps_quiet_may, intro keeps, simp),
    rule keeps_control, rule keeps_may_catch [OF extends_cleared keeps_handle_leased [OF assms]], intro keeps; simp add: assms)

lemma io_catch_cases:
  assumes "io_catch caught m h w = (r, w')"
  obtains (plain) "m w = (r, w')" | (handled) e w1 where "m w = (Raised e, w1)" "caught e" "h e w1 = (r, w')"
  using assms by (auto simp: io_catch_def split: prod.splits outcome.splits if_splits)

lemma handle_authenticated_inv:
  assumes "wired C" and "call_ok c" and "service_inv w" and "handle_authenticated C c w = (r, w')"
  shows "service_inv w'"
  using assms(4) unfolding handle_authenticated_def
proof (cases rule: io_bind_cases)
  case (returned leased w1)
  have i: "service_inv w1" using quiet_inv [OF io_keepsD [OF keeps_conflict_caught [OF assms(1)] returned(1)] assms(3)] .
  show ?thesis
  proof (cases leased)
    case (Inr p)
    obtain rec lease where p: "p = (rec, lease)" by fastforce
    from returned(1) have "take_lease C c w = (Done (Inr (rec, lease)), w1)"
      unfolding Inr p by (cases rule: io_catch_cases) (auto simp: io_bind_Done)
    then have o: "owns (w_store w1) rec (cc_key c @ '':'' @ cc_operation c)"
      using take_lease_owns [OF assms(1,2)] assms(3) by (auto simp: service_inv_def)
    from returned(2) show ?thesis unfolding Inr p sum.case prod.case
    proof (cases rule: io_catch_cases)
      case (handled e w2)
      have "service_inv w2" using handle_leased_inv [OF assms(1,2) i o handled(1)] .
      moreover have "quiet steps_of w2 w'"
        using handled(3) by (auto dest: io_keepsD [OF keeps_calls(1) [OF assms(1)]] split: if_splits)
      ultimately show ?thesis using quiet_inv by blast
    qed (use handle_leased_inv [OF assms(1,2) i o] in blast)
  qed (use returned i in simp)
qed (auto dest: io_keepsD [OF keeps_conflict_caught [OF assms(1)]] intro: quiet_inv [OF _ assms(3)])

lemma handle_request_inv:
  assumes "wired C" and "service_inv w" and "handle_request C request uid gid w = (r, w')"
  shows "service_inv w'"
proof (cases "uid \<in> set (as_allowed_uids (cx_service C))")
  case False
  then show ?thesis using assms(3) quiet_inv [OF io_keepsD [OF keeps_quiet_signed(2)] assms(2)] by (simp add: handle_request_def)
next
  case True
  have step: "service_inv w1" if m: "io_bind (authenticate C request uid gid) (\<lambda>r. case r of Inl response \<Rightarrow> io_return response
      | Inr c \<Rightarrow> handle_authenticated C c) w = (r1, w1)" for r1 w1
    using m
  proof (cases rule: io_bind_cases)
    case (returned x w2)
    have i: "service_inv w2" using quiet_inv [OF io_keepsD [OF keeps_quiet_authenticate returned(1)] assms(2)] .
    show ?thesis
    proof (cases x)
      case (Inr c)
      then have "call_ok c" using authenticate_Done returned(1) by blast
      then show ?thesis using handle_authenticated_inv [OF assms(1) _ i] returned(2) Inr by auto
    qed (use returned i in simp)
  qed (auto dest: io_keepsD [OF keeps_quiet_authenticate] intro: quiet_inv [OF _ assms(2)])
  have c: "io_catch (\<lambda>_. True) (io_bind (authenticate C request uid gid) (\<lambda>r. case r of Inl response \<Rightarrow> io_return response
      | Inr c \<Rightarrow> handle_authenticated C c)) (\<lambda>e. signed_rejection C request uid gid
         (if policy_caught e then ''authority_policy_rejected'' else ''authority_internal_failure'')) w = (r, w')"
    using assms(3) True by (simp add: handle_request_def)
  then show ?thesis
  proof (cases rule: io_catch_cases)
    case (handled e w1)
    then show ?thesis using step quiet_inv [OF io_keepsD [OF keeps_quiet_signed(2)]] by blast
  qed (use step in blast)
qed

text \<open>What one request can add to the promotions.\<close>

lemma handle_request_promotes:
  assumes "wired C" and "handle_request C request uid gid w = (r, w')" and "w_promotions w' \<noteq> w_promotions w"
  shows "uid \<in> set (as_allowed_uids (cx_service C)) \<and> (\<exists>c. authenticated C request c w w' \<and> cc_operation c = ''execute''
    \<and> gate_agreed C c w w' \<and> receipt_agreed C c w w' \<and> w_promotions w' = w_promotions w @ [cc_key c])"
proof -
  have same: "quiet steps_of a b \<Longrightarrow> w_promotions b = w_promotions a" for a b by (simp add: may_promote_def)
  have u: "uid \<in> set (as_allowed_uids (cx_service C))"
  proof (rule ccontr)
    assume "uid \<notin> set (as_allowed_uids (cx_service C))"
    then have "signed_rejection C request uid gid ''peer_identity_rejected'' w = (r, w')" using assms(2) by (simp add: handle_request_def)
    from same [OF io_keepsD [OF keeps_quiet_signed(2) this]] assms(3) show False by simp
  qed
  have c: "io_catch (\<lambda>_. True) (io_bind (authenticate C request uid gid) (\<lambda>r. case r of Inl response \<Rightarrow> io_return response
      | Inr c \<Rightarrow> handle_authenticated C c)) (\<lambda>e. signed_rejection C request uid gid
         (if policy_caught e then ''authority_policy_rejected'' else ''authority_internal_failure'')) w = (r, w')"
    using assms(2) u by (simp add: handle_request_def)
  then obtain r1 w1 where m: "io_bind (authenticate C request uid gid) (\<lambda>r. case r of Inl response \<Rightarrow> io_return response
      | Inr c \<Rightarrow> handle_authenticated C c) w = (r1, w1)" and w1: "quiet steps_of w1 w'"
  proof (cases rule: io_catch_cases)
    case (handled e w1)
    then show ?thesis using that io_keepsD [OF keeps_quiet_signed(2)] by blast
  qed (use that in \<open>simp add: may_promote_def\<close>)
  from m show ?thesis
  proof (cases rule: io_bind_cases)
    case (returned x w2)
    have s: "quiet steps_of w w2" using io_keepsD [OF keeps_quiet_authenticate returned(1)] .
    show ?thesis
    proof (cases x)
      case (Inr c)
      then have k: "call_ok c" "authenticated C request c w w2" using authenticate_Done returned(1) by blast+
      have m: "may_promote steps_of (cc_key c) (cleared C c) w2 w1"
        using io_keepsD [OF keeps_handle_authenticated [OF assms(1)]] returned(2) Inr by auto
      then have p: "w_promotions w1 = w_promotions w2 @ [cc_key c]" "cleared C c w2 w1"
        using same [OF s] same [OF w1] assms(3) by (auto simp: may_promote_def)
      have r: "reaches steps_of w w2" "reaches steps_of w2 w1" "reaches steps_of w1 w'"
        using s m w1 by (simp_all add: may_promote_def)
      have "cleared C c w w'" using extends_cleared [of steps_of C c] p(2) r unfolding extends_def by blast
      moreover have "authenticated C request c w w'"
        using extends_authenticated [of steps_of C request c] k(2) reaches_trans [OF r(2,3)] reaches_refl [of steps_of w]
        unfolding extends_def by blast
      ultimately show ?thesis using k(1) u p(1) same [OF s] same [OF w1] by (auto simp: cleared_def call_ok_def)
    qed (use returned same [OF s] same [OF w1] assms(3) in simp)
  qed (use same [OF io_keepsD [OF keeps_quiet_authenticate]] same [OF w1] assms(3) in metis)+
qed

end

section \<open>Any sequence of requests\<close>

text \<open>
  A request with everything the service does not control: its configuration and surroundings, the peer's credentials, the files and the
  ledger as they are when it comes (recovery after a restart and other programs change them), and the effect at which the
  process dies.
\<close>

record 's service_input =
  in_ctx :: "'s service_ctx"
  in_request :: jobj
  in_uid :: int
  in_gid :: int
  in_fs :: fsys
  in_ledger :: jobj
  in_budget :: nat

definition serve :: "pyenv \<Rightarrow> 's store_api \<Rightarrow> 's service_input \<Rightarrow> 's service_world \<Rightarrow> 's service_world" where
  "serve E A i w = snd (handle_request ((in_ctx i)\<lparr>cx_env := E, cx_store := A\<rparr>) (in_request i) (in_uid i) (in_gid i)
     (w\<lparr>m_fs := in_fs i, w_ledger := in_ledger i, m_budget := in_budget i\<rparr>))"

definition file_api :: "pyenv \<Rightarrow> jobj store_api" where
  "file_api E = \<lparr>st_issue = file_issue_or_get E, st_run = file_run E\<rparr>"

definition pg_api :: "pyenv \<Rightarrow> pg_db store_api" where
  "pg_api E = \<lparr>st_issue = pg_issue_or_get E, st_run = pg_run E\<rparr>"

context authority_store begin

lemma serve_inv:
  "service_inv w \<Longrightarrow> service_inv (serve E \<lparr>st_issue = issue, st_run = run\<rparr> i w)"
  unfolding serve_def
  by (rule handle_request_inv [OF _ _ prod.collapse [symmetric]]) (simp_all add: service_inv_def)

lemma serve_all_inv:
  "service_inv w \<Longrightarrow> service_inv (fold (serve E \<lparr>st_issue = issue, st_run = run\<rparr>) is w)"
  by (induction "is" arbitrary: w) (simp_all add: serve_inv)

lemma serve_all_once:
  "distinct (w_promotions (fold (serve E \<lparr>st_issue = issue, st_run = run\<rparr>) is (w\<lparr>w_store := init, w_promotions := []\<rparr>)))
   \<and> list_all (dispatched_key (w_store (fold (serve E \<lparr>st_issue = issue, st_run = run\<rparr>) is (w\<lparr>w_store := init, w_promotions := []\<rparr>))))
       (w_promotions (fold (serve E \<lparr>st_issue = issue, st_run = run\<rparr>) is (w\<lparr>w_store := init, w_promotions := []\<rparr>)))"
proof -
  have "service_inv (w\<lparr>w_store := init, w_promotions := []\<rparr>)" by (simp add: service_inv_def init_law)
  from serve_all_inv [OF this] show ?thesis by (simp add: service_inv_def list_all_iff)
qed

end

text \<open>C4: a patch is promoted at most once. Start from an empty authority store and serve any sequence of requests, each with any
  client, configuration, files, ledger and clock and each dying at any effect or at none: no idempotency key is promoted twice,
  and the store holds, for every key that was promoted, the record of its execution with the event that dispatched it.\<close>

theorem promoted_at_most_once:
  "let w = fold (serve E (file_api E)) inputs (start\<lparr>w_store := [], w_promotions := []\<rparr>) in
   distinct (w_promotions w)
   \<and> list_all (\<lambda>k. \<exists>aid r evs. file_view (w_store w) aid = Some (r, evs) \<and> pget r ''idempotency_key'' = JStr (k @ '':execute'')
        \<and> ''marked_dispatched'' \<in> set (map event_type_of evs)) (w_promotions w)"
  using file_store.serve_all_once [of E inputs start]
  unfolding Let_def file_api_def file_store.dispatched_key_def .

text \<open>The same over PostgreSQL.\<close>

lemma pg_promoted_at_most_once:
  "distinct (w_promotions (fold (serve E (pg_api E)) inputs (start\<lparr>w_store := \<lparr>pg_records = [], pg_events = []\<rparr>, w_promotions := []\<rparr>)))"
  using pg_store.serve_all_once [of E inputs start] unfolding pg_api_def by blast

text \<open>C5: a promotion is authorised. Whatever a request does and wherever the process dies, it leaves the promotions as they are,
  or it adds exactly one: then the peer's uid is allowed, the body is signed with the pinned key of its client and fresh by the clock read during
  this request, the operation is an execution, the authority's own adapter, asked during this request, admits the request rebuilt from the
  decision and the client's gate is that gate, and during this request the patch was prepared and verified again: the policy authorised the
  commands of the decision, the verifier, asked on the workspace as it was then, returned a response that \<open>verify\<close> accepts with
  one accepted result per command, and the receipt with these results and this response is the one the client sent.\<close>

theorem promotion_authorised:
  "let C = C0\<lparr>cx_env := E, cx_store := file_api E\<rparr>; w' = snd (handle_request C request uid gid w) in
    w_promotions w' = w_promotions w
    \<or> (uid \<in> set (as_allowed_uids (cx_service C)) \<and> (\<exists>c. authenticated C request c w w' \<and> cc_operation c = ''execute''
         \<and> gate_agreed C c w w' \<and> receipt_agreed C c w w' \<and> w_promotions w' = w_promotions w @ [cc_key c]))"
proof -
  let ?C = "C0\<lparr>cx_env := E, cx_store := file_api E\<rparr>"
  have "cx_store ?C = \<lparr>st_issue = file_issue_or_get E, st_run = file_run E\<rparr> \<and> cx_env ?C = E" by (simp add: file_api_def)
  from file_store.handle_request_promotes [OF this prod.collapse [symmetric]] show ?thesis unfolding Let_def by blast
qed

end
