(* ===== verification/Json_Store.thy ===== *)
theory Json_Store
  imports Py_Files
begin

text \<open>
  \<open>json_store.py\<close>: the locked JSON file under the stores. A \<open>with LockedJsonFile(path) as payload\<close> block reads the file,
  runs its body on the dictionary and, when the body does not raise, replaces the file by the indented text of the
  dictionary. The exclusive lock makes the blocks on one file run one after the other; the kernel drops the lock of a
  process that dies. A body is a function from the dictionary to an exception or a result and the changed dictionary, which
  is how the stores of this development are modelled: this theory shows what a block does to the file with every
  failure and crash point.
\<close>

section \<open>The indented text\<close>

text \<open>\<open>json.dumps(payload, indent=2, sort_keys=True)\<close> at a level of nesting.\<close>

definition new_line :: "nat \<Rightarrow> string" where
  "new_line n = CHR 0x0A # replicate (2 * n) (CHR '' '')"

fun json_pretty :: "nat \<Rightarrow> jval \<Rightarrow> string" where
  "json_pretty n JNull = ''null''"
| "json_pretty n (JBool b) = (if b then ''true'' else ''false'')"
| "json_pretty n (JInt i) = int_str i"
| "json_pretty n (JFloat r) = float_repr r"
| "json_pretty n (JStr s) = json_str True s"
| "json_pretty n (JList xs) =
     (if xs = [] then ''[]''
      else ''['' @ new_line (Suc n) @ join_str (CHR '','' # new_line (Suc n)) (map (json_pretty (Suc n)) xs) @ new_line n @ '']'')"
| "json_pretty n (JObj d) =
     (if d = [] then ''{}''
      else ''{'' @ new_line (Suc n)
        @ join_str (CHR '','' # new_line (Suc n))
            (map snd (sort_key fst (map (\<lambda>(k, v). (k, json_str True k @ '': '' @ json_pretty (Suc n) v)) d)))
        @ new_line n @ ''}'')"

definition serialize_payload :: "jobj \<Rightarrow> string" where
  "serialize_payload payload = json_pretty 0 (JObj payload) @ [CHR 0x0A]"

text \<open>Reading a text file translates every kind of line end.\<close>

fun newlines :: "string \<Rightarrow> string" where
  "newlines [] = []"
| "newlines (c # s) =
     (if c = CHR 0x0D then CHR 0x0A # newlines (if starts_with s [CHR 0x0A] then tl s else s) else c # newlines s)"

section \<open>Operations\<close>

text \<open>The system calls of \<open>ws_env\<close>, the name \<open>mkstemp\<close> settles on and the time stamp of a backup. A file is given
  by its directory and its name.\<close>

record store_env =
  js_ws :: ws_env
  js_token :: "nat \<Rightarrow> string"
  js_stamp :: "nat \<Rightarrow> string"

definition corrupt_of :: "store_env \<Rightarrow> string \<Rightarrow> string \<Rightarrow> nat \<Rightarrow> string" where
  "corrupt_of X dir name t = path_join dir (name @ ''.corrupt.'' @ js_stamp X t)"

definition temporary_of :: "store_env \<Rightarrow> string \<Rightarrow> string \<Rightarrow> nat \<Rightarrow> string" where
  "temporary_of X dir name t = path_join dir (''.'' @ name @ ''.'' @ js_token X t @ ''.tmp'')"

definition lock_of :: "string \<Rightarrow> string \<Rightarrow> string" where
  "lock_of dir name = path_join dir (''.'' @ name @ ''.lock'')"

definition backup_corrupt_json :: "store_env \<Rightarrow> string \<Rightarrow> string \<Rightarrow> string \<Rightarrow> ('z, unit) io" where
  "backup_corrupt_json X dir name raw =
     (let W = js_ws X in
      io_bind io_tick (\<lambda>t. let backup = corrupt_of X dir name t in
      io_bind (os_call W id) (\<lambda>_.
      io_bind (os_call W (set_file backup (Some []))) (\<lambda>_.
      flush_loop W backup (utf8_encode raw)))))"

definition load_payload :: "store_env \<Rightarrow> string \<Rightarrow> string \<Rightarrow> string \<Rightarrow> ('z, jobj \<times> bool) io" where
  "load_payload X dir name raw =
     (if py_strip raw = [] then io_return ([], False)
      else case json_loads last_wins raw of
        Inr (JObj d) \<Rightarrow> io_return (d, False)
      | _ \<Rightarrow> io_bind (backup_corrupt_json X dir name raw) (\<lambda>_. io_return ([], True)))"

definition parse_state_json_file :: "store_env \<Rightarrow> string \<Rightarrow> string \<Rightarrow> string \<Rightarrow> ('z, jobj) io" where
  "parse_state_json_file X dir name raw = io_bind (load_payload X dir name raw) (\<lambda>pr. io_return (fst pr))"

definition fsync_directory :: "ws_env \<Rightarrow> ('z, unit) io" where
  "fsync_directory W = io_bind io_tick (\<lambda>t. if ws_fault W t \<noteq> None then io_return () else os_call W id)"

definition atomic_write :: "store_env \<Rightarrow> string \<Rightarrow> string \<Rightarrow> string \<Rightarrow> ('z, unit) io" where
  "atomic_write X dir name serialized =
     (let W = js_ws X in
      io_bind (os_call W id) (\<lambda>_.
      io_bind io_tick (\<lambda>t. let temporary = temporary_of X dir name t in
      io_bind (create_exclusive W temporary) (\<lambda>_.
      io_finally
        (io_bind (write_synced W temporary (utf8_encode serialized)) (\<lambda>_.
         io_bind (os_replace W temporary (path_join dir name)) (\<lambda>_. fsync_directory W)))
        (io_bind io_fs (\<lambda>fs.
         if fs_file fs temporary \<noteq> None then os_call W (set_file temporary None) else io_return ()))))))"

record locked_file =
  lf_payload :: jobj
  lf_existed :: bool
  lf_recovered :: bool

definition read_raw :: "fsys \<Rightarrow> string \<Rightarrow> py_exn + string" where
  "read_raw fs path = (case fs_file fs path of
      None \<Rightarrow> Inr []
    | Some content \<Rightarrow> (case utf8_decode content of None \<Rightarrow> Inl (ValueError ''utf-8'') | Some s \<Rightarrow> Inr (newlines s)))"

definition locked_enter :: "store_env \<Rightarrow> string \<Rightarrow> string \<Rightarrow> bool \<Rightarrow> ('z, locked_file) io" where
  "locked_enter X dir name recover_corrupt_input =
     (let W = js_ws X; path = path_join dir name; lock_path = lock_of dir name in
      io_bind (os_call W id) (\<lambda>_.
      io_bind (os_call W (\<lambda>fs. if fs_file fs lock_path = None then set_file lock_path (Some []) fs else fs)) (\<lambda>_.
      io_bind (os_call W id) (\<lambda>_. io_bind io_fs (\<lambda>fs.
      io_bind (io_lift (read_raw fs path)) (\<lambda>raw.
      io_bind (load_payload X dir name raw) (\<lambda>(payload, recovered).
      if recovered \<and> \<not> recover_corrupt_input then io_raise (ValueError (''corrupt JSON state file: '' @ path))
      else io_return \<lparr>lf_payload = payload, lf_existed = (fs_file fs path \<noteq> None), lf_recovered = recovered\<rparr>)))))))"

definition locked_exit :: "store_env \<Rightarrow> string \<Rightarrow> string \<Rightarrow> locked_file \<Rightarrow> jobj \<Rightarrow> ('z, unit) io" where
  "locked_exit X dir name lf payload =
     (let changed = (\<not> py_eq (JObj payload) (JObj (lf_payload lf)));
          should_write = (if \<not> lf_existed lf \<and> payload = [] \<and> \<not> lf_recovered lf then False else lf_recovered lf \<or> changed) in
      if should_write then atomic_write X dir name (serialize_payload payload) else io_return ())"

text \<open>\<open>with LockedJsonFile(path) as payload: body\<close>.\<close>

definition locked_update ::
  "store_env \<Rightarrow> string \<Rightarrow> string \<Rightarrow> bool \<Rightarrow> (jobj \<Rightarrow> authority_exn + ('a \<times> jobj)) \<Rightarrow> ('z, 'a) io" where
  "locked_update X dir name recover_corrupt_input body =
     io_bind (locked_enter X dir name recover_corrupt_input) (\<lambda>lf.
     io_bind (io_of (body (lf_payload lf))) (\<lambda>(x, payload).
     io_bind (locked_exit X dir name lf payload) (\<lambda>_. io_return x)))"

section \<open>The text reads back\<close>

lemma blank_new_line [simp]: "blank (new_line n)"
  by (auto simp: new_line_def blank_def list_all_iff json_space_def)

lemma json_pretty_obj:
  "d \<noteq> [] \<Longrightarrow> json_pretty n (JObj d) = ''{'' @ new_line (Suc n) @ join_str (CHR '','' # new_line (Suc n))
     (map (\<lambda>kv. item_text True '' '' (fst kv, json_pretty (Suc n) (snd kv))) (sort_key fst d)) @ new_line n @ ''}''"
  by (simp add: sort_items) (simp add: case_prod_beta comp_def)

lemma solid_pretty: "json_exact v \<Longrightarrow> solid (json_pretty n v)"
proof (cases v)
  case (JInt i)
  then show ?thesis using json_number_start [OF json_number_int, of i] by (auto simp: solid_def)
next
  case (JFloat r)
  assume "json_exact v"
  with JFloat show ?thesis using json_number_start [of "float_repr r"] by (auto simp: solid_def)
qed (auto simp: solid_def json_space_def json_str_Cons)

lemma reads_pretty:
  assumes hook: "\<And>ps. distinct (map fst ps) \<Longrightarrow> h ps = Inr ps"
  shows "json_exact v \<Longrightarrow> reads h (json_pretty n v) (json_norm v)"
proof (induction v arbitrary: n)
  case (JList xs)
  then have "list_all2 (\<lambda>t v. solid t \<and> reads h t v) (map (json_pretty (Suc n)) xs) (map json_norm xs)"
    by (auto simp: list_all2_map1 list_all2_map2 list_all_iff solid_pretty intro!: list.rel_refl_strong)
  from reads_list [OF this, of "new_line (Suc n)" "new_line (Suc n)" "new_line n"] show ?case
    by (cases "xs = []") (simp_all add: reads_constants)
next
  case (JObj d)
  then have w: "solid (json_pretty (Suc n) (snd kv)) \<and> reads h (json_pretty (Suc n) (snd kv)) (json_norm (snd kv))"
    if "kv \<in> set d" for kv
    using that by (auto simp: list_all_iff snds.simps solid_pretty)
  have gap: "blank '' ''" by (simp add: blank_def json_space_def)
  show ?case
  proof (cases "d = []")
    case False
    from reads_members [OF JObj.prems hook False w blank_new_line blank_new_line blank_new_line gap]
    show ?thesis unfolding json_pretty_obj [OF False] by simp
  qed (use hook [of "[]"] in \<open>simp add: reads_empty\<close>)
qed (auto simp: reads_number json_number_int reads_str reads_constants)

lemma int_part_split: "int_part s @ drop (length (int_part s)) s = s"
proof -
  have "\<exists>r. s = int_part s @ r"
    by (cases s) (simp_all add: int_part_def, metis takeWhile_dropWhile_id)
  then show ?thesis by (metis append_eq_conv_conj)
qed

definition no_return :: "string \<Rightarrow> bool" where
  "no_return s \<longleftrightarrow> CHR 0x0D \<notin> set s"

lemma no_return_simps [simp]: "no_return []" "no_return (c # s) \<longleftrightarrow> c \<noteq> CHR 0x0D \<and> no_return s" "no_return (s @ t) \<longleftrightarrow> no_return s \<and> no_return t"
  by (auto simp: no_return_def)

lemma no_return_digits: "no_return (takeWhile is_digit s)"
  by (auto simp: no_return_def is_digit_def less_eq_char_def dest: set_takeWhileD)

lemma no_return_rest: "no_return (dropWhile is_digit s) \<Longrightarrow> no_return s"
  using no_return_digits [of s] by (metis no_return_simps(3) takeWhile_dropWhile_id)

lemma no_return_exp: "snd (exp_part s) = [] \<Longrightarrow> no_return s"
proof (cases s)
  case (Cons c t)
  assume e: "snd (exp_part s) = []"
  define u where "u = (if starts_with t ''-'' \<or> starts_with t ''+'' then tl t else t)"
  have "snd (exp_part s) = (if (c = CHR ''e'' \<or> c = CHR ''E'') \<and> takeWhile is_digit u \<noteq> [] then dropWhile is_digit u else s)"
    unfolding Cons exp_part_def Let_def list.case u_def [symmetric] if_distrib [of snd] snd_conv by simp
  then have "(c = CHR ''e'' \<or> c = CHR ''E'') \<and> dropWhile is_digit u = []"
    using e Cons by (simp split: if_splits)
  moreover from this have "no_return u" using no_return_rest [of u] by (metis no_return_simps(1))
  ultimately show ?thesis using Cons by (cases t) (auto simp: u_def split: if_splits)
qed simp

lemma no_return_frac: "no_return (snd (frac_part s)) \<Longrightarrow> no_return s"
  using no_return_rest [of "tl s"] by (cases s) (auto simp: frac_part_def split: if_splits)

lemma no_return_number:
  assumes "json_number t = Some (v, [])"
  shows "no_return t"
proof -
  define s1 where "s1 = (if starts_with t ''-'' then tl t else t)"
  have "snd (exp_part (snd (frac_part (drop (length (int_part s1)) s1)))) = []"
    using assms by (auto simp: json_number_def Let_def s1_def split: if_splits)
  then have "no_return (drop (length (int_part s1)) s1)" by (blast intro: no_return_exp no_return_frac)
  moreover have "no_return (int_part s1)" using no_return_digits [of s1] by (cases s1) (auto simp: int_part_def)
  ultimately have "no_return s1" using int_part_split [of s1] by (metis no_return_simps(3))
  then show ?thesis by (cases t) (auto simp: s1_def split: if_splits)
qed

lemma no_return_join: "no_return s \<Longrightarrow> list_all no_return ts \<Longrightarrow> no_return (join_str s ts)"
  by (induction s ts rule: join_str.induct) auto

lemma no_return_new_line [simp]: "no_return (new_line n)"
  by (auto simp: no_return_def new_line_def)

lemma no_return_char: "no_return (json_char ea c)"
proof -
  have "hex_digit n \<noteq> CHR 0x0D" if "n < 16" for n
  proof
    assume "hex_digit n = CHR 0x0D"
    moreover have "hex_val (CHR 0x0D) = None" by code_simp
    ultimately show False using hex_val_digit [OF that] by simp
  qed
  then have "hex_digit (of_char c div 16) \<noteq> CHR 0x0D" "hex_digit (of_char c mod 16) \<noteq> CHR 0x0D"
    using of_char_bound [of c] by (simp_all add: less_mult_imp_div_less)
  moreover have "char_of (92 :: nat) = CHR 0x5C" "json_control (CHR 0x0D)" by code_simp+
  ultimately show ?thesis by (auto simp: json_char_def json_esc_def)
qed

lemma no_return_str [simp]: "no_return (json_str ea s)"
  using no_return_char by (auto simp: json_str_Cons no_return_def)

lemma no_return_pretty: "json_exact v \<Longrightarrow> no_return (json_pretty n v)"
proof (induction v arbitrary: n)
  case (JList xs)
  then have "list_all no_return (map (json_pretty (Suc n)) xs)" by (auto simp: list_all_iff)
  then show ?case by (simp add: no_return_join)
next
  case (JObj d)
  then have "list_all no_return (map (\<lambda>kv. item_text True '' '' (fst kv, json_pretty (Suc n) (snd kv))) (sort_key fst d))"
    by (auto simp: list_all_iff snds.simps)
  then show ?case by (cases "d = []") (simp_all add: json_pretty_obj no_return_join del: json_pretty.simps(7), simp)
qed (auto simp: no_return_number no_return_number [OF json_number_int])

lemma newlines_id: "no_return s \<Longrightarrow> newlines s = s"
  by (induction s rule: newlines.induct) auto

lemma last_wins_distinct: "distinct (map fst ps) \<Longrightarrow> last_wins ps = Inr ps"
proof -
  have "distinct (map fst (d @ u)) \<Longrightarrow> pupdate d u = d @ u" for d u
    by (induction d u rule: pupdate.induct) (auto simp: pset_absent)
  from this [of "[]" ps] show "distinct (map fst ps) \<Longrightarrow> last_wins ps = Inr ps" by (simp add: last_wins_def)
qed

lemma serialized_raw:
  assumes "json_exact (JObj d)" and "fs_file fs path = Some (utf8_encode (serialize_payload d))"
  shows "read_raw fs path = Inr (serialize_payload d)"
  using no_return_pretty [OF assms(1)] assms(2) by (simp add: serialize_payload_def read_raw_def newlines_id)

lemma serialized_loads:
  assumes "json_exact (JObj d)"
  shows "json_loads last_wins (serialize_payload d) = Inr (json_norm (JObj d))" "py_strip (serialize_payload d) \<noteq> []"
proof -
  show "json_loads last_wins (serialize_payload d) = Inr (json_norm (JObj d))"
    unfolding serialize_payload_def
    by (rule reads_loads [OF reads_pretty [OF last_wins_distinct assms] solid_pretty [OF assms]]) (simp_all add: blank_def json_space_def)
  obtain u where "serialize_payload d = CHR ''{'' # u" by (cases d) (auto simp: serialize_payload_def)
  moreover have "\<not> py_isspace (CHR ''{'')" by code_simp
  ultimately show "py_strip (serialize_payload d) \<noteq> []"
    by (auto simp: py_strip_def py_lstrip_def dropWhile_eq_Nil_conv)
qed

section \<open>What a block does to the file\<close>

text \<open>\<open>settles p c\<close>: the file \<open>p\<close> is as before, or holds \<open>c\<close>.\<close>

definition settles :: "string \<Rightarrow> string \<Rightarrow> 'z machine_scheme \<Rightarrow> 'z machine_scheme \<Rightarrow> bool" where
  "settles p c w w' \<longleftrightarrow> fs_file (m_fs w') p = fs_file (m_fs w) p \<or> fs_file (m_fs w') p = Some c"

lemma settles_rules [simp]: "reflp (settles p c)" "transp (settles p c)"
  by (auto simp: reflp_def transp_def settles_def)

lemma only_settles: "only_at A w w' \<Longrightarrow> p \<notin> A \<Longrightarrow> settles p c w w'"
  by (simp add: settles_def only_at_def)

lemma keeps_settles: "io_keeps (only_at A) m \<Longrightarrow> p \<notin> A \<Longrightarrow> io_keeps (settles p c) m"
  by (auto simp: io_keeps_def intro: only_settles)

lemma longer_sibling:
  assumes "plain_parts [name]" and "CHR ''/'' \<notin> set c" and "length name < length c"
  shows "path_join dir c \<noteq> path_join dir name"
proof -
  have "0 < length name" using assms(1) by (simp add: plain_parts_def)
  then have "plain_parts [c]" using assms(2,3) by (auto simp: plain_parts_def)
  then show ?thesis
    using path_join_parts [OF assms(1), of dir] path_join_parts [of c dir] assms(3) by (metis last_snoc nat_neq_iff)
qed

text \<open>The names the store chooses are single path components.\<close>

definition plain_names :: "store_env \<Rightarrow> string \<Rightarrow> bool" where
  "plain_names X name \<longleftrightarrow> plain_parts [name] \<and> (\<forall>t. CHR ''/'' \<notin> set (js_token X t)) \<and> (\<forall>t. CHR ''/'' \<notin> set (js_stamp X t))"

lemma siblings:
  assumes "plain_names X name"
  shows "temporary_of X dir name t \<noteq> path_join dir name"
    "lock_of dir name \<noteq> path_join dir name"
    "corrupt_of X dir name t \<noteq> path_join dir name"
  using assms unfolding temporary_of_def lock_of_def corrupt_of_def by (intro longer_sibling; simp add: plain_names_def plain_parts_def)+

lemma keeps_fsync_directory [keeps]: "io_keeps (only_at A) (fsync_directory W)"
  unfolding fsync_directory_def by (intro keeps) (auto intro!: keeps simp: keeps_return)

lemma create_exclusive_Done: "create_exclusive W path w = (Done (), w') \<Longrightarrow> fs_file (m_fs w') path = Some []"
  by (auto simp: create_exclusive_def io_effect_def split: if_splits option.splits)

lemma os_replace_settles:
  assumes "os_replace W a b w = (r, w')" and "a \<noteq> b" and "fs_file (m_fs w) a = Some c"
  shows "settles b c w w' \<and> (r = Done () \<longrightarrow> fs_file (m_fs w') b = Some c)"
  using assms by (auto simp: os_replace_def io_effect_def settles_def split: if_splits option.splits)

lemma replace_spec:
  assumes "io_bind (write_synced W a c) (\<lambda>_. io_bind (os_replace W a b) (\<lambda>_. fsync_directory W)) w = (r, w')"
    and ab: "a \<noteq> b" and "fs_file (m_fs w) a = Some []"
  shows "settles b c w w' \<and> (r = Done () \<longrightarrow> fs_file (m_fs w') b = Some c)"
proof -
  have k1: "write_synced W a c w = (r1, w1) \<Longrightarrow> settles b c w w1" for r1 w1
    using io_keepsD [OF keeps_write_synced [of a "{a}"]] ab by (blast intro: only_settles)
  from assms(1) show ?thesis
  proof (cases rule: io_bind_cases)
    case (returned x w1)
    have s1: "settles b c w w1" and c1: "fs_file (m_fs w1) a = Some c"
      using k1 [OF returned(1)] write_synced_Done [OF _ assms(3)] returned(1) by simp_all
    from returned(2) show ?thesis
    proof (cases rule: io_bind_cases)
      case (returned y w2)
      have s2: "settles b c w1 w2" "fs_file (m_fs w2) b = Some c" using os_replace_settles [OF returned(1) ab c1] by simp_all
      have "fs_file (m_fs w') b = fs_file (m_fs w2) b"
        using only_at_file [OF io_keepsD [OF keeps_fsync_directory returned(2), of "{}"]] by simp
      then show ?thesis using s2 by (simp add: settles_def)
    next
      case (raised e)
      then show ?thesis using os_replace_settles [OF raised(1) ab c1] s1 transpD [OF settles_rules(2)] by blast
    next
      case killed
      then show ?thesis using os_replace_settles [OF killed(1) ab c1] s1 transpD [OF settles_rules(2)] by blast
    qed
  qed (use k1 in auto)
qed

lemma atomic_write_spec:
  assumes "atomic_write X dir name s w = (r, w')" and names: "plain_names X name"
  shows "settles (path_join dir name) (utf8_encode s) w w' \<and> (r = Done () \<longrightarrow> fs_file (m_fs w') (path_join dir name) = Some (utf8_encode s))"
proof -
  let ?W = "js_ws X" and ?p = "path_join dir name" and ?c = "utf8_encode s"
  let ?temp = "\<lambda>t. temporary_of X dir name t"
  let ?swap = "\<lambda>t. io_bind (write_synced ?W (?temp t) ?c) (\<lambda>_. io_bind (os_replace ?W (?temp t) ?p) (\<lambda>_. fsync_directory ?W))"
  let ?clean = "\<lambda>t. io_bind io_fs (\<lambda>fs. if fs_file fs (?temp t) \<noteq> None then os_call ?W (set_file (?temp t) None) else io_return ())"
  have ne: "?p \<noteq> ?temp t" for t using siblings(1) [OF names] by metis
  have clean: "io_keeps (only_at {?temp t}) (?clean t)" for t
    by (intro keeps) (auto intro!: keeps simp: keeps_return split: if_splits)
  have final: "settles ?p ?c w1 w2 \<and> (r2 = Done () \<longrightarrow> fs_file (m_fs w2) ?p = Some ?c)"
    if "io_finally (?swap t) (?clean t) w1 = (r2, w2)" "fs_file (m_fs w1) (?temp t) = Some []" for t w1 w2 r2
  proof -
    obtain r3 w3 where w3: "?swap t w1 = (r3, w3)" by fastforce
    obtain r4 w4 where w4: "?clean t w3 = (r4, w4)" by fastforce
    have s3: "settles ?p ?c w1 w3 \<and> (r3 = Done () \<longrightarrow> fs_file (m_fs w3) ?p = Some ?c)"
      using replace_spec [OF w3 _ that(2)] ne by metis
    have same: "fs_file (m_fs w4) ?p = fs_file (m_fs w3) ?p"
      using only_at_file [OF io_keepsD [OF clean w4]] ne by simp
    from that(1) w3 w4 s3 same show ?thesis
      by (cases r3; cases r4) (auto simp: io_finally_def io_bind_def settles_def)
  qed
  have pre1: "io_keeps (settles ?p ?c) (os_call ?W id)"
    by (rule keeps_settles [of "{}"]) (intro keeps, simp_all)
  have pre2: "io_keeps (settles ?p ?c) (create_exclusive ?W (?temp t))" for t
    by (rule keeps_settles [OF keeps_create_exclusive [of _ "{?temp t}"]]) (use ne [of t] in simp_all)
  from assms(1) [unfolded atomic_write_def Let_def] show ?thesis
  proof (cases rule: io_bind_cases)
    case (returned x w1)
    have s1: "settles ?p ?c w w1" by (rule io_keepsD [OF pre1 returned(1)])
    define t where "t = m_tick w1"
    define w2 where "w2 = w1\<lparr>m_tick := m_tick w1 + 1\<rparr>"
    have "io_bind (create_exclusive ?W (?temp t)) (\<lambda>_. io_finally (?swap t) (?clean t)) w2 = (r, w')"
      using returned(2) by (simp only: io_bind_tick t_def w2_def)
    then have "settles ?p ?c w2 w' \<and> (r = Done () \<longrightarrow> fs_file (m_fs w') ?p = Some ?c)"
    proof (cases rule: io_bind_cases)
      case (returned y w3)
      then have "settles ?p ?c w2 w3" "fs_file (m_fs w3) (?temp t) = Some []"
        using io_keepsD [OF pre2] create_exclusive_Done by auto
      with final [OF returned(2)] show ?thesis using transpD [OF settles_rules(2)] by blast
    qed (use io_keepsD [OF pre2] in blast)+
    moreover have "settles ?p ?c w w2" using s1 by (simp add: settles_def w2_def)
    ultimately show ?thesis using transpD [OF settles_rules(2)] by blast
  qed (use io_keepsD [OF pre1] in blast)+
qed

text \<open>The dictionary a block starts from.\<close>

definition payload_of :: "string \<Rightarrow> jobj" where
  "payload_of raw = (if py_strip raw = [] then [] else case json_loads last_wins raw of Inr (JObj d) \<Rightarrow> d | _ \<Rightarrow> [])"

definition stored :: "fsys \<Rightarrow> string \<Rightarrow> jobj" where
  "stored fs path = (case read_raw fs path of Inl _ \<Rightarrow> [] | Inr raw \<Rightarrow> payload_of raw)"

lemma keeps_backup:
  assumes "plain_names X name"
  shows "io_keeps (only_at (- {path_join dir name})) (backup_corrupt_json X dir name raw)"
proof -
  have f: "io_keeps (only_at (- {path_join dir name})) (flush_loop (js_ws X) (corrupt_of X dir name t) c)" for t c
    unfolding io_keeps_def using flush_loop_spec [of "corrupt_of X dir name t"] siblings(3) [OF assms]
    by (metis Compl_iff prod.collapse singletonD)
  have "path_join dir name \<noteq> corrupt_of X dir name t" for t using siblings(3) [OF assms] by metis
  then show ?thesis
    unfolding backup_corrupt_json_def Let_def by (intro keeps f) (simp_all del: append_Cons split: if_splits)
qed

lemma load_payload_spec:
  assumes "load_payload X dir name raw w = (r, w')" and "plain_names X name"
  shows "only_at (- {path_join dir name}) w w' \<and> (\<forall>d b. r = Done (d, b) \<longrightarrow> d = payload_of raw \<and> (b \<longrightarrow> d = []))"
  using assms(1) io_keepsD [OF keeps_backup [OF assms(2)]]
  by (auto simp: load_payload_def payload_of_def io_bind_def split: if_splits sum.splits jval.splits prod.splits outcome.splits)

lemma stored_cong: "fs_file fs p = fs_file fs' p \<Longrightarrow> stored fs p = stored fs' p"
  by (simp add: stored_def read_raw_def)

lemma locked_enter_keeps:
  assumes "plain_names X name"
  shows "io_keeps (only_at (- {path_join dir name})) (locked_enter X dir name recover)"
proof -
  have l: "io_keeps (only_at (- {path_join dir name})) (load_payload X dir name raw)" for raw
    unfolding io_keeps_def using load_payload_spec [OF _ assms, of dir raw] by (metis prod.collapse)
  have "lock_of dir name \<noteq> path_join dir name" by (rule siblings(2) [OF assms])
  then show ?thesis
    unfolding locked_enter_def Let_def
    by (intro keeps l) (auto intro!: keeps simp: keeps_return keeps_raise split: if_splits prod.split)
qed

lemma locked_enter_Done:
  assumes "locked_enter X dir name recover w = (Done lf, w')" and names: "plain_names X name"
  shows "lf_payload lf = stored (m_fs w) (path_join dir name) \<and> (lf_recovered lf \<longrightarrow> lf_payload lf = [])
    \<and> (lf_existed lf \<longleftrightarrow> fs_file (m_fs w) (path_join dir name) \<noteq> None)"
proof -
  let ?W = "js_ws X" and ?p = "path_join dir name" and ?lock = "lock_of dir name"
  obtain w1 w2 w3 raw d b where s: "os_call ?W id w = (Done (), w1)"
      "os_call ?W (\<lambda>fs. if fs_file fs ?lock = None then set_file ?lock (Some []) fs else fs) w1 = (Done (), w2)"
      "os_call ?W id w2 = (Done (), w3)" "read_raw (m_fs w3) ?p = Inr raw" "load_payload X dir name raw w3 = (Done (d, b), w')"
      "lf = \<lparr>lf_payload = d, lf_existed = (fs_file (m_fs w3) ?p \<noteq> None), lf_recovered = b\<rparr>"
    using assms(1) by (fastforce simp: locked_enter_def Let_def io_bind_Done simp del: not_None_eq split: if_splits)
  have "fs_file (m_fs w3) ?p = fs_file (m_fs w) ?p"
    using s(1-3) siblings(2) [OF names, of dir] by (auto dest!: os_call_Done)
  then show ?thesis
    using s(4,6) load_payload_spec [OF s(5) names] stored_cong [of "m_fs w3" ?p "m_fs w"] by (auto simp: stored_def)
qed

lemma locked_exit_spec:
  assumes "locked_exit X dir name lf d w = (r, w')" and "plain_names X name"
  shows "settles (path_join dir name) (utf8_encode (serialize_payload d)) w w'
    \<and> (r = Done () \<longrightarrow> fs_file (m_fs w') (path_join dir name) = Some (utf8_encode (serialize_payload d))
         \<or> w' = w \<and> \<not> lf_recovered lf \<and> (py_eq (JObj d) (JObj (lf_payload lf)) \<or> \<not> lf_existed lf \<and> d = []))"
  using assms(1) atomic_write_spec [OF _ assms(2), of dir "serialize_payload d"]
  by (auto simp: locked_exit_def Let_def settles_def split: if_splits)

lemma py_eq_json_norm_right: "json_exact v \<Longrightarrow> py_eq v (json_norm v)"
proof (induction v)
  case (JList xs)
  have "list_all json_exact ys \<Longrightarrow> (\<And>y. y \<in> set ys \<Longrightarrow> json_exact y \<Longrightarrow> py_eq y (json_norm y)) \<Longrightarrow>
      py_eq_list ys (map json_norm ys)" for ys
    by (induction ys) auto
  with JList show ?case by simp
next
  case (JObj d)
  let ?d' = "map (\<lambda>kv. (fst kv, json_norm (snd kv))) (sort_key fst d)"
  have "map_of ?d' k = Some (json_norm v) \<and> py_eq v (json_norm v)" if "(k, v) \<in> set d" for k v
    using JObj that map_of_json_norm [of d ?d' k]
    by (auto simp: list_all_iff snds.simps json_norm_obj simp del: json_norm.simps)
  then show ?case
    by (auto simp: json_norm_obj py_sub_iff simp del: json_norm.simps)
qed auto

text \<open>A file for the examples, and a body that counts its calls.\<close>

definition quiet_ws :: ws_env where
  "quiet_ws = \<lparr>ws_git = (\<lambda>_ _ _. Inl (OSError ''git'')), ws_checkout = (\<lambda>_ _ _. None), ws_dir = (\<lambda>_ _. False), ws_nlink = (\<lambda>_ _. 1),
     ws_written = (\<lambda>_. 16), ws_fault = (\<lambda>_. None), ws_pid = 7\<rparr>"

definition sample_store :: store_env where
  "sample_store = \<lparr>js_ws = quiet_ws, js_token = (\<lambda>_. ''abc''), js_stamp = (\<lambda>_. ''20260101'')\<rparr>"

definition count_up :: "jobj \<Rightarrow> authority_exn + (int \<times> jobj)" where
  "count_up d = (let n = (case pget d ''n'' of JInt i \<Rightarrow> i | _ \<Rightarrow> 0) in Inr (n, pset d ''n'' (JInt (n + 1))))"

definition empty_machine :: "nat \<Rightarrow> machine" where
  "empty_machine budget = \<lparr>m_fs = \<lparr>fs_resolve = id, fs_symlink = (\<lambda>_. False), fs_file = Map.empty\<rparr>, m_tick = 0, m_budget = budget\<rparr>"

lemma sample_names: "plain_names sample_store ''n.json''"
  by (simp add: plain_names_def plain_parts_def sample_store_def)

definition n_json :: string where
  "n_json = path_join ''/d'' ''n.json''"

lemma sample_block: "count_up (stored (m_fs (empty_machine b)) n_json) = Inr (0, [(''n'', JInt 1)])"
  by (simp add: stored_def read_raw_def empty_machine_def payload_of_def py_strip_def py_lstrip_def count_up_def)

text \<open>C20: a block is atomic. Whatever its body does, whatever system call fails and wherever the process dies, the
  file holds afterwards what it held before, or the text of the dictionary that the body made of the one the file
  held: never a part of a text, and nothing when the body raised.\<close>

theorem locked_update_atomic:
  assumes "plain_names X name" and "locked_update X dir name recover body w = (r, w')"
  shows "fs_file (m_fs w') (path_join dir name) = fs_file (m_fs w) (path_join dir name)
    \<or> (\<exists>x d. body (stored (m_fs w) (path_join dir name)) = Inr (x, d)
         \<and> fs_file (m_fs w') (path_join dir name) = Some (utf8_encode (serialize_payload d)))"
proof -
  let ?p = "path_join dir name"
  have same: "fs_file (m_fs w1) ?p = fs_file (m_fs w) ?p" if "locked_enter X dir name recover w = (r1, w1)" for r1 w1
    using only_at_file [OF io_keepsD [OF locked_enter_keeps [OF assms(1)] that]] by simp
  from assms(2) [unfolded locked_update_def] show ?thesis
  proof (cases rule: io_bind_cases)
    case (returned lf w1)
    have d: "lf_payload lf = stored (m_fs w) ?p" using locked_enter_Done [OF returned(1) assms(1)] by blast
    show ?thesis
    proof (cases "body (lf_payload lf)")
      case (Inl e)
      then show ?thesis using returned same by (simp add: io_bind_def io_of_def)
    next
      case (Inr y)
      obtain x d' where y: "y = (x, d')" by fastforce
      have "io_bind (locked_exit X dir name lf d') (\<lambda>_. io_return x) w1 = (r, w')"
        using returned(2) Inr y by (simp add: io_bind_def io_of_def)
      then have "settles ?p (utf8_encode (serialize_payload d')) w1 w'"
        by (cases rule: io_bind_cases) (auto dest!: locked_exit_spec [OF _ assms(1)])
      then show ?thesis using same [OF returned(1)] Inr y d unfolding settles_def by auto
    qed
  qed (use same in auto)
qed

theorem locked_update_atomic_witness:
  "\<forall>b. fs_file (m_fs (snd (locked_update sample_store ''/d'' ''n.json'' True count_up (empty_machine b)))) n_json
     \<in> {None, Some (utf8_encode (serialize_payload [(''n'', JInt 1)]))}"
proof
  fix b
  obtain r w' where "locked_update sample_store ''/d'' ''n.json'' True count_up (empty_machine b) = (r, w')" by fastforce
  then show "fs_file (m_fs (snd (locked_update sample_store ''/d'' ''n.json'' True count_up (empty_machine b)))) n_json
     \<in> {None, Some (utf8_encode (serialize_payload [(''n'', JInt 1)]))}"
    using locked_update_atomic [OF sample_names, of "''/d''" True count_up "empty_machine b"] sample_block [of b]
    by (auto simp: n_json_def empty_machine_def)
qed

text \<open>C21: a block that returns is durable. The result is the one its body computed from the dictionary of the file, and
  the next block on the file starts from a dictionary equal to the one the body left, provided it is one whose text determines it
  (each key once, doubles that print exactly).\<close>

theorem locked_update_refines:
  assumes "plain_names X name" and "locked_update X dir name recover body w = (Done x, w')"
  shows "\<exists>d. body (stored (m_fs w) (path_join dir name)) = Inr (x, d)
    \<and> (json_exact (JObj d) \<longrightarrow> py_eq (JObj d) (JObj (stored (m_fs w') (path_join dir name))))"
proof -
  let ?p = "path_join dir name"
  obtain lf w1 d where u: "locked_enter X dir name recover w = (Done lf, w1)" "body (lf_payload lf) = Inr (x, d)"
      "locked_exit X dir name lf d w1 = (Done (), w')"
    using assms(2) by (auto simp: locked_update_def io_bind_Done)
  note lf = locked_enter_Done [OF u(1) assms(1)]
  have old: "fs_file (m_fs w1) ?p = fs_file (m_fs w) ?p"
    using only_at_file [OF io_keepsD [OF locked_enter_keeps [OF assms(1)] u(1)]] by simp
  have "py_eq (JObj d) (JObj (stored (m_fs w') ?p))" if ex: "json_exact (JObj d)"
  proof -
    consider (written) "fs_file (m_fs w') ?p = Some (utf8_encode (serialize_payload d))"
      | (same) "w' = w1" "py_eq (JObj d) (JObj (lf_payload lf))" | (none) "w' = w1" "\<not> lf_existed lf" "d = []"
      using locked_exit_spec [OF u(3) assms(1)] by blast
    then show ?thesis
    proof cases
      case written
      then have "JObj (stored (m_fs w') ?p) = json_norm (JObj d)"
        using serialized_raw [OF ex] serialized_loads [OF ex] by (simp add: stored_def payload_of_def json_norm_obj del: json_norm.simps)
      then show ?thesis using py_eq_json_norm_right [OF ex] by simp
    next
      case same
      then show ?thesis using lf old stored_cong [of "m_fs w1" ?p "m_fs w"] by simp
    next
      case none
      then show ?thesis using lf old by (simp add: stored_def read_raw_def payload_of_def py_strip_def py_lstrip_def)
    qed
  qed
  then show ?thesis using u(2) lf by auto
qed

theorem locked_update_refines_witness:
  "\<exists>w'. locked_update sample_store ''/d'' ''n.json'' True count_up (empty_machine 40) = (Done 0, w')
     \<and> py_eq (JObj [(''n'', JInt 1)]) (JObj (stored (m_fs w') n_json))"
proof -
  have "fst (locked_update sample_store ''/d'' ''n.json'' True count_up (empty_machine 40)) = Done 0" by code_simp
  then obtain w' where w': "locked_update sample_store ''/d'' ''n.json'' True count_up (empty_machine 40) = (Done 0, w')"
    by (metis prod.collapse)
  from locked_update_refines [OF sample_names this] sample_block [of 40]
  have "py_eq (JObj [(''n'', JInt 1)]) (JObj (stored (m_fs w') n_json))" by (simp add: n_json_def)
  with w' show ?thesis by blast
qed

text \<open>A change to a value that Python holds equal is not written: the block returns, the file keeps the old value.\<close>

definition to_true :: "jobj \<Rightarrow> authority_exn + (unit \<times> jobj)" where
  "to_true d = Inr ((), pset d ''n'' (JBool True))"

lemma equal_change_lost:
  "(case locked_update sample_store ''/d'' ''n.json'' True count_up (empty_machine 40) of (_, w) \<Rightarrow>
     case locked_update sample_store ''/d'' ''n.json'' True to_true w of (r, w') \<Rightarrow>
       r = Done () \<and> stored (m_fs w') n_json = [(''n'', JInt 1)])"
  by code_simp

end
