(* ===== verification/Spec2Isabelle.thy ===== *)
theory Spec2Isabelle
  imports Merkle Authority_Refinement Permits_Witness Orchestrator_Witness
    Trust_Ladder Deferred_Runs Evaluation_Witness Authority_Service_Props
    Json_Store
begin

text \<open>
  A verification library for the authority core of the orbital-mesh runtime: the code that
  decides whether an action may be executed, executes it at most once, records that decision
  so that it cannot be used twice, and keeps evidence that can be checked afterwards. The
  sources are under \<open>src/shared/mesh_runtime/\<close> unless another directory is named.

  \<^bold>\<open>The program.\<close> A decision engine proposes a \<open>Decision\<close>; the autonomy policy, the evidence
  gate, the remediation safety case and the trust ladder say how much of it may happen without
  a human; the orchestrator asks the HSAI bridge for admission, dispatches the decision to an
  adapter or to the patch authority, and keeps a ledger of attempts so that a retry never
  repeats a side effect. The permit store issues a signed permit for an open gate and follows
  the transaction that uses it; the authority store keeps the same authority as versioned
  records with a chain of event receipts. The patch authority is a process of its own: a client sends
  it signed requests in length-prefixed JSON frames; it authenticates them, leases and dispatches the
  lifecycle record of the request, asks for admission again, prepares the patch in a disposable worktree,
  has a separate verifier run the test commands that a policy lists, and promotes the verified
  bytes into the repository under a permit. Deferred runs are queued and claimed; run events are
  committed to by a Merkle root. The evaluation service composes the gates into the result the
  orchestrator consults.

  \<^bold>\<open>The theories.\<close>
  \<^item> \<open>Prelude\<close>, \<open>Py_Float\<close>, \<open>Py_Value\<close>, \<open>Py_Json\<close>, \<open>Py_Shlex\<close>, \<open>Py_Env\<close>: what the code uses of
    Python. A result is \<open>error + 'a\<close> and an exception is \<open>Inl\<close>; JSON values are \<open>jval\<close>, dictionaries
    association lists in insertion order; \<open>json_dumps\<close>, \<open>str\<close>, \<open>repr\<close>, \<open>shlex.split\<close>, binary64
    rounding and pure paths are written out. SHA-256, HMAC, the ISO 8601 codec and the file
    system are arguments. \<open>Prelude\<close> also has the locale \<open>invariant_system\<close> that the step
    relations interpret.
  \<^item> \<open>Merkle\<close>: \<open>merkle.py\<close>.
  \<^item> \<open>Authority_Store\<close>: \<open>repo_patch_authority_store.py\<close>, both back ends; \<open>Authority_Store_Props\<close>:
    the locale \<open>authority_store\<close>, the contract a back end promises, with its client lemmas;
    \<open>Authority_File\<close> and \<open>Authority_Postgres\<close>: its two interpretations; \<open>Authority_Refinement\<close>:
    both refine one abstract store on maps, and so answer alike.
  \<^item> \<open>Schema_Validation\<close>, \<open>Contracts\<close>, \<open>Permit_Validation\<close>: \<open>schema_validation.py\<close>,
    \<open>contracts.py\<close>, \<open>repo_patch_permit_validation.py\<close> and the HMAC part of \<open>perennial/signing.py\<close>.
  \<^item> \<open>Hsai_Bridge\<close>: \<open>hsai_bridge.py\<close>; \<open>Hsai_Bridge_Props\<close> its correctness, \<open>Hsai_Bridge_Run\<close> a
    concrete run.
  \<^item> \<open>Permits\<close>: \<open>repo_patch_permits.py\<close>; \<open>Permits_Props\<close>, \<open>Permits_Life\<close>, \<open>Permits_Steps\<close>,
    \<open>Permits_Recovery\<close>, \<open>Permits_Wf\<close>: lemmas on its operations, on the ledger and on recovery;
    \<open>Permits_Correct\<close>: the store as a transition system, at-most-once consumption, final
    states, fences, restoration, termination of recovery; \<open>Permits_Binding\<close>: what a permit is bound
    to; \<open>Permits_Run\<close> and \<open>Permits_Witness\<close>: a concrete run.
  \<^item> \<open>Json_Text\<close>: UTF-8 and \<open>json.loads\<close>, with the round trip through \<open>json.dumps\<close>.
    \<open>Authority_Protocol\<close>: \<open>repo_patch_authority.py\<close> and the Ed25519 part of \<open>perennial/signing.py\<close>;
    \<open>Authority_Protocol_Props\<close>: a frame arrives as it was sent however the stream is cut, and
    an accepted response is authentic. \<open>Test_Policy\<close>: \<open>repo_patch_test_policy.py\<close>; only listed
    commands are authorized. \<open>Verifier_Client\<close>: \<open>repo_patch_verifier.py\<close>; accepted results are
    signed and bound to the request.
  \<^item> \<open>Py_IO\<close>: programs whose system calls are steps on a file system that may fail, and any of which
    may be the last before a crash. \<open>Patch_Workspace\<close>:
    \<open>src/services/actuators/repo_patch_workspace.py\<close> as such programs; \<open>Patch_Workspace_Props\<close>:
    promotion is atomic under crashes, and accepted results are those of the authorized change alone.
    \<open>Py_Files\<close>: files written through buffered handles. \<open>Json_Store\<close>: \<open>json_store.py\<close>, the
    locked JSON files under the stores, on the same machine; a block on such a file is atomic
    under failures and crashes, and one that returns does to the file what its body does to the dictionary.
  \<^item> \<open>Authority_Service\<close>: \<open>src/services/actuators/repo_patch_authority_service.py\<close>, which composes the
    authority store, the permit store, the bridge, the protocol, the verifier client and the workspace;
    \<open>Authority_Service_Props\<close>: over any sequence of requests, failures and crashes a lifecycle record
    is promoted at most once, proved in the locale \<open>authority_store\<close> for both back ends, and only for an
    authenticated request whose admission the authority confirmed.
  \<^item> \<open>Execution_Attempts\<close>: \<open>execution_attempts.py\<close>; \<open>Orchestrator\<close>:
    \<open>src/services/orchestrator/service.py\<close> as a state monad with exceptions over the attempt
    ledger and a log of what the service does to the world; \<open>Orchestrator_Monitor\<close>: the locale
    \<open>log_monitor\<close>, a logic for properties of that log; \<open>Orchestrator_Props\<close>: its
    interpretations (one dispatch per key over any number of executions and crashes, only
    authorized dispatches, bounded retries) and the replay of closed attempts;
    \<open>Orchestrator_Witness\<close>: a concrete run.
  \<^item> \<open>Autonomy_Policy\<close>: \<open>autonomy_policy.py\<close> and the loader of \<open>connector_certification.py\<close>, with the
    exact condition for live execution. \<open>Remediation_Safety\<close>: \<open>remediation_safety.py\<close>, with what
    a passed safety case guarantees. \<open>Evidence_Sufficiency\<close>: \<open>evidence_sufficiency.py\<close>, with
    the exact condition for passing.
  \<^item> \<open>Review_Blockers\<close>: \<open>review_blockers.py\<close>; every blocking reason is classified once.
    \<open>Trajectory\<close>: \<open>src/services/evaluation/mesh_evaluator.py\<close> and \<open>temperature_policy.py\<close>, the trace of a
    task and its scores. \<open>Evaluation\<close>: \<open>src/services/evaluation/service.py\<close>, the native judge of
    \<open>sre_judge.py\<close> and the register of evaluated triggers of \<open>state.py\<close>; \<open>Evaluation_Props\<close>: execution is
    recommended exactly when every gate is open, and once per trigger; \<open>Evaluation_Witness\<close>: a
    concrete evaluation. This theory composes evaluation and orchestrator: every dispatch is of a
    decision whose gates were open.
  \<^item> \<open>Trust_Ladder\<close>: \<open>trust_ladder.py\<close>; the ladder file stays well-typed under every
    operation, and the level after an outcome is the one the totals give.
  \<^item> \<open>Deferred_Runs\<close>: \<open>deferred_runs.py\<close>; a deferred run is claimed at most once.

  \<^bold>\<open>Bounds and fuel.\<close> The JSON parser alone runs on fuel: \<open>2 * length + 2\<close>, enough because every second call
  consumes a character, and \<open>json_loads_dumps\<close> shows that what \<open>json.dumps\<close> wrote is read back. The
  interpreter's limits on nesting and on the digits of an integer are not modelled; a
  character is one of the first 256 code points. The loops that read a frame and write a file
  terminate by the bytes left. A crash is a budget of system calls that runs out: a theorem for every
  budget is one for every crash point. Loops over lists are structural; the Merkle loops,
  the recovery loop and the retry loop have termination proofs, and the last two a
  property that says how far they go. Python integers are \<open>int\<close>; binary64 values are rationals
  rounded by \<open>fl\<close> after each operation. The stores on files written under an
  exclusive lock take the dictionary as their state, which an operation that raises leaves as it was:
  \<open>Json_Store\<close> proves that of the file; a database transaction is atomic.

  \<^bold>\<open>Not modelled.\<close> The control plane (HTTP and console surface), the decision, evidence,
  investigation, scenario and feedback services (rule tables and language-model adapters), the
  language-model judges, trace exporters and lane probes of the evaluation, the
  execution adapters and other transports (parameters of the models that call them), the verifier sidecar (container and process control), the
  listening loop, socket ownership and key files of the authority service, logging, the
  vendored agent framework, web front ends, scripts and reports.

  \<^bold>\<open>Plan.\<close> Next: the run and event stores of the control plane, run admission and the approval queue, the merging of several SRE judges, and the
  rule tables of the decision service.
\<close>

section \<open>From the evaluation to the dispatch\<close>

text \<open>C3: no side effect without a cleared evaluation. When the orchestrator executes a decision on the
  result its evaluation returned, every dispatch in its log, whatever the adapters, the authority,
  the clock and the ledger answer, is of a decision for which every gate was open when it was
  evaluated, and is itself authorized.\<close>

theorem dispatch_was_cleared:
  assumes "evaluate_decision sv cfg rq p = (Inr v, p')"
    and "orch_event.Dispatch key gate \<in> set (run_log osv ocfg (rq_decision rq) v client ledger)"
  shows "cleared sv cfg rq p \<and> authorized_dispatch osv (rq_decision rq) v gate \<and> eval_decision_id v = decision_id (rq_decision rq)"
proof -
  have a: "authorized_dispatch osv (rq_decision rq) v gate" by (rule run_authorized [OF assms(2)])
  then have "final_recommendation v = ''execute''" by (simp add: authorized_dispatch_def mesh_policy_allows_def)
  then show ?thesis using a evaluation_clears [OF assms(1)] by blast
qed

theorem dispatch_was_cleared_witness:
  "\<exists>v p'. host_run = (Inr v, p')
     \<and> orch_event.Dispatch ''d1:restart_systemd_service'' None
         \<in> set (run_log restart_services restart_config host_decision v False [])
     \<and> cleared host_services host_config host_request []"
proof -
  obtain v p' where v: "host_run = (Inr v, p')" "final_recommendation v = ''execute''" using host_evaluated by blast
  then have "passed v" using evaluation_clears [OF v(1) [unfolded host_run_def]] by blast
  then have d: "orch_event.Dispatch ''d1:restart_systemd_service'' None \<in> set (run_log restart_services restart_config host_decision v False [])"
    using host_dispatch [of "evaluation_id v" "eval_decision_id v" "stage_results v" "blocking_reasons v" "review_route v"] v(2)
    by (cases v) simp
  then show ?thesis
    using v(1) dispatch_was_cleared [OF v(1) [unfolded host_run_def]] by (metis host_selectors(1))
qed

end
